(* ===== verification/Go_Base.thy ===== *)
theory Go_Base
  imports Main "HOL-Library.Word" "HOL-Library.Multiset" "HOL-Library.Code_Target_Numeral"
begin

text \<open>
  Shared vocabulary of the HopStat development: the Go scalar types the source uses,
  error values with their wrap chain, time stamps and saturating durations, and the
  generic list and map lemmas the component theories rely on.
\<close>

section \<open>Scalar types\<close>

type_synonym u32 = "32 word"
type_synonym u64 = "64 word"
type_synonym go_time = int
type_synonym duration = int

text \<open>
  A \<open>time.Time\<close> is the number of nanoseconds since Go's zero time, so the zero value of
  the type (what \<open>IsZero\<close> tests) is 0. A \<open>time.Duration\<close> is an \<open>int64\<close> count of
  nanoseconds; \<open>Time.Sub\<close> and \<open>time.Since\<close> saturate at its bounds.
\<close>

definition max_duration :: duration where "max_duration = 2 ^ 63 - 1"
definition min_duration :: duration where "min_duration = - (2 ^ 63)"

definition time_sub :: "go_time \<Rightarrow> go_time \<Rightarrow> duration" where
  "time_sub t u = max min_duration (min max_duration (t - u))"

definition is_zero_time :: "go_time \<Rightarrow> bool" where
  "is_zero_time t \<longleftrightarrow> t = 0"

abbreviation second :: duration where "second \<equiv> 1000000000"
abbreviation minute :: duration where "minute \<equiv> 60 * second"
abbreviation hour :: duration where "hour \<equiv> 60 * minute"

named_theorems go_time_simps
named_theorems go_string_simps
named_theorems go_net_simps

lemmas duration_defs = max_duration_def min_duration_def time_sub_def
declare is_zero_time_def [go_time_simps]

lemma time_sub_less_iff [go_time_simps]:
  "\<lbrakk>min_duration < d; d \<le> max_duration\<rbrakk> \<Longrightarrow> time_sub t u < d \<longleftrightarrow> t - u < d"
  by (auto simp: time_sub_def)

lemma time_sub_ge_iff:
  "\<lbrakk>min_duration < d; d \<le> max_duration\<rbrakk> \<Longrightarrow> d \<le> time_sub t u \<longleftrightarrow> d \<le> t - u"
  by (auto simp: time_sub_def)

lemma time_sub_gt_iff:
  "\<lbrakk>min_duration \<le> d; d < max_duration\<rbrakk> \<Longrightarrow> d < time_sub t u \<longleftrightarrow> d < t - u"
  by (auto simp: time_sub_def)

section \<open>Errors\<close>

text \<open>
  The sentinel errors of \<open>internal/domain/errors.go\<close>, the context errors of the standard
  library, the circuit breaker's own sentinel, plain \<open>errors.New\<close>/\<open>fmt.Errorf\<close> values
  and values that wrap another error with \<open>%w\<close>. \<open>errors.Is\<close> walks the wrap chain.
\<close>

datatype go_error =
    ErrNodeNotFound | ErrCommandDisabled | ErrInvalidTarget | ErrDNSNotFound | ErrTimeout
  | ErrCircuitOpen | ErrQueryPoolFull | ErrRateLimited | ErrNodeUnavailable | ErrUnauthorized
  | ErrNoRouteFound | ErrParseFailure | ErrInvalidNodeConfig | ErrNotFound | ErrCannotDeleteSelf
  | ErrEarlyStop
  | BreakerErrCircuitOpen
  | CtxCanceled | CtxDeadlineExceeded
  | PlainError string
  | WrapError string go_error

fun errors_is :: "go_error \<Rightarrow> go_error \<Rightarrow> bool" where
  "errors_is (WrapError m e) tgt = (WrapError m e = tgt \<or> errors_is e tgt)"
| "errors_is e tgt = (e = tgt)"

lemma errors_is_refl [simp]: "errors_is e e"
  by (cases e) auto

fun root_cause :: "go_error \<Rightarrow> go_error" where
  "root_cause (WrapError _ e) = root_cause e"
| "root_cause e = e"

lemma errors_is_root:
  "(\<And>m e'. tgt \<noteq> WrapError m e') \<Longrightarrow> errors_is e tgt \<longleftrightarrow> root_cause e = tgt"
  by (induction e) auto

section \<open>Lists\<close>

fun update_nth :: "nat \<Rightarrow> ('a \<Rightarrow> 'a) \<Rightarrow> 'a list \<Rightarrow> 'a list" where
  "update_nth _ f [] = []"
| "update_nth 0 f (x # xs) = f x # xs"
| "update_nth (Suc i) f (x # xs) = x # update_nth i f xs"

lemma length_update_nth [simp]: "length (update_nth i f xs) = length xs"
  by (induction i f xs rule: update_nth.induct) auto

lemma nth_update_nth:
  "j < length xs \<Longrightarrow> update_nth i f xs ! j = (if i = j then f (xs ! j) else xs ! j)"
proof (induction i f xs arbitrary: j rule: update_nth.induct)
  case (3 i f x xs)
  then show ?case by (cases j) auto
qed (auto simp: nth_Cons split: nat.splits)

text \<open>The last \<open>n\<close> elements, the Go slice expression \<open>xs[len(xs)-n:]\<close>.\<close>

definition last_n :: "nat \<Rightarrow> 'a list \<Rightarrow> 'a list" where
  "last_n n xs = drop (length xs - n) xs"

lemma length_last_n [simp]: "length (last_n n xs) = min n (length xs)"
  by (simp add: last_n_def min_def)

lemma last_n_append_one:
  "n \<le> length xs \<Longrightarrow> last_n (Suc n) (xs @ [x]) = last_n n xs @ [x]"
  by (simp add: last_n_def)

lemma set_last_n: "set (last_n n xs) \<subseteq> set xs"
  by (auto simp: last_n_def dest: in_set_dropD)

lemma last_n_all [simp]: "length xs \<le> n \<Longrightarrow> last_n n xs = xs"
  by (simp add: last_n_def)

text \<open>Keeping the first occurrence of each element, as the source's \<open>seen\<close> loops do.\<close>

fun dedup_by :: "('a \<Rightarrow> 'b) \<Rightarrow> 'b list \<Rightarrow> 'a list \<Rightarrow> 'a list" where
  "dedup_by f seen [] = []"
| "dedup_by f seen (x # xs) =
     (if f x \<in> set seen then dedup_by f seen xs else x # dedup_by f (f x # seen) xs)"

lemma set_dedup_by_subset: "set (dedup_by f seen xs) \<subseteq> set xs"
  by (induction f seen xs rule: dedup_by.induct) auto

lemma dedup_by_image:
  "f ` set (dedup_by f seen xs) = f ` set xs - set seen"
  by (induction f seen xs rule: dedup_by.induct) auto

lemma distinct_dedup_by:
  "distinct (map f (dedup_by f seen xs)) \<and> set (map f (dedup_by f seen xs)) \<inter> set seen = {}"
  by (induction f seen xs rule: dedup_by.induct) auto

section \<open>Enumerations of a finite map\<close>

text \<open>
  Ranging over a Go map visits every key once in an unspecified order. The order is an
  argument of the definitions that range over a map: any list that enumerates the keys.
\<close>

definition enumerates :: "'k list \<Rightarrow> ('k \<rightharpoonup> 'v) \<Rightarrow> bool" where
  "enumerates ks m \<longleftrightarrow> distinct ks \<and> set ks = dom m"

lemma enumeratesD:
  assumes "enumerates ks m"
  shows "distinct ks" and "set ks = dom m"
  using assms by (auto simp: enumerates_def)

lemma enumerates_exists: "finite (dom m) \<Longrightarrow> \<exists>ks. enumerates ks m"
  by (metis enumerates_def finite_distinct_list)

end
