(* ===== verification/CircuitBreaker.thy ===== *)
theory CircuitBreaker
  imports Go_Base
begin

text \<open>
  \<open>internal/circuitbreaker\<close>: the breaker that guards each driver's connections.
  \<open>Call\<close> holds the mutex twice, around the decision to admit and around the update after
  \<open>fn\<close> returned, and nothing is held while \<open>fn\<close> runs. The two critical sections are the
  operations \<open>call_enter\<close> and \<open>call_exit\<close>; a step relation interleaves those of any
  number of concurrent calls.
\<close>

section \<open>The breaker and its two critical sections\<close>

datatype cbState = cbClosed | cbOpen | cbHalfOpen

record CircuitBreaker =
  cb_failures :: int
  cb_last_failure :: go_time
  cb_state :: cbState
  cb_threshold :: int
  cb_reset_timeout :: duration
  cb_half_open_seq :: u64
  cb_half_open_in_flight :: bool

definition New :: "int \<Rightarrow> duration \<Rightarrow> CircuitBreaker" where
  "New threshold resetTimeout =
     \<lparr>cb_failures = 0, cb_last_failure = 0, cb_state = cbClosed, cb_threshold = threshold,
      cb_reset_timeout = resetTimeout, cb_half_open_seq = 0, cb_half_open_in_flight = False\<rparr>"

text \<open>The first critical section: reject, or admit with the sequence number captured.\<close>

definition call_enter :: "go_time \<Rightarrow> CircuitBreaker \<Rightarrow> (go_error + u64) \<times> CircuitBreaker" where
  "call_enter now cb =
     (if cb_state cb = cbOpen \<and> time_sub now (cb_last_failure cb) < cb_reset_timeout cb
      then (Inl BreakerErrCircuitOpen, cb)
      else
        let cb1 = (if cb_state cb = cbOpen
                   then cb\<lparr>cb_state := cbHalfOpen, cb_half_open_seq := cb_half_open_seq cb + 1\<rparr>
                   else cb)
        in if cb_state cb1 = cbHalfOpen \<and> cb_half_open_in_flight cb1
           then (Inl BreakerErrCircuitOpen, cb1)
           else
             let cb2 = (if cb_state cb1 = cbHalfOpen
                        then cb1\<lparr>cb_half_open_in_flight := True\<rparr> else cb1)
             in (Inr (cb_half_open_seq cb2), cb2))"

text \<open>The second one: \<open>err\<close> is what \<open>fn\<close> returned, nil being None.\<close>

definition call_exit ::
  "go_time \<Rightarrow> u64 \<Rightarrow> go_error option \<Rightarrow> CircuitBreaker \<Rightarrow> CircuitBreaker" where
  "call_exit now seq err cb =
     (if cb_state cb = cbHalfOpen \<and> cb_half_open_seq cb \<noteq> seq then cb
      else if err \<noteq> None then
        let cb1 = cb\<lparr>cb_failures := cb_failures cb + 1, cb_last_failure := now\<rparr>;
            cb2 = (if cb_failures cb1 \<ge> cb_threshold cb1 then cb1\<lparr>cb_state := cbOpen\<rparr> else cb1)
        in cb2\<lparr>cb_half_open_in_flight := False\<rparr>
      else cb\<lparr>cb_failures := 0, cb_state := cbClosed, cb_half_open_in_flight := False\<rparr>)"

text \<open>\<open>Call\<close> with nothing in between: \<open>fn\<close> is run at \<open>t0\<close> and returns its error at
  \<open>t1\<close>.\<close>

definition Call ::
  "go_time \<Rightarrow> go_time \<Rightarrow> go_error option \<Rightarrow> CircuitBreaker \<Rightarrow> go_error option \<times> CircuitBreaker"
  where
  "Call t0 t1 fn_result cb =
     (case call_enter t0 cb of
        (Inl e, cb') \<Rightarrow> (Some e, cb')
      | (Inr seq, cb') \<Rightarrow> (fn_result, call_exit t1 seq fn_result cb'))"

fun State :: "cbState \<Rightarrow> string" where
  "State cbClosed = ''closed''"
| "State cbOpen = ''open''"
| "State cbHalfOpen = ''half-open''"

lemmas call_defs = call_enter_def call_exit_def Let_def

lemma call_enter_params [simp]:
  "cb_threshold (snd (call_enter now cb)) = cb_threshold cb"
  "cb_reset_timeout (snd (call_enter now cb)) = cb_reset_timeout cb"
  "cb_failures (snd (call_enter now cb)) = cb_failures cb"
  "cb_last_failure (snd (call_enter now cb)) = cb_last_failure cb"
  by (auto simp: call_enter_def Let_def)

lemma call_exit_params [simp]:
  "cb_threshold (call_exit now seq err cb) = cb_threshold cb"
  "cb_reset_timeout (call_exit now seq err cb) = cb_reset_timeout cb"
  "cb_half_open_seq (call_exit now seq err cb) = cb_half_open_seq cb"
  by (auto simp: call_exit_def Let_def)

section \<open>Concurrent calls\<close>

text \<open>
  A state of the system: the breaker, and the captured sequence numbers of the calls whose
  \<open>fn\<close> is running. The index of the relation counts the steps; the 64-bit sequence number
  cannot wrap before \<open>2 ^ 64\<close> of them.
\<close>

record cb_system =
  cs_breaker :: CircuitBreaker
  cs_running :: "u64 multiset"

inductive cb_step :: "cb_system \<Rightarrow> cb_system \<Rightarrow> bool" where
  enter_ok: "call_enter now (cs_breaker s) = (Inr seq, cb') \<Longrightarrow>
    cb_step s (s\<lparr>cs_breaker := cb', cs_running := add_mset seq (cs_running s)\<rparr>)"
| enter_reject: "call_enter now (cs_breaker s) = (Inl e, cb') \<Longrightarrow>
    cb_step s (s\<lparr>cs_breaker := cb'\<rparr>)"
| exit: "seq \<in># cs_running s \<Longrightarrow>
    cb_step s (s\<lparr>cs_breaker := call_exit now seq err (cs_breaker s),
                 cs_running := cs_running s - {#seq#}\<rparr>)"

inductive cb_reach :: "CircuitBreaker \<Rightarrow> nat \<Rightarrow> cb_system \<Rightarrow> bool" for cb0 where
  start: "cb_reach cb0 0 \<lparr>cs_breaker = cb0, cs_running = {#}\<rparr>"
| more: "cb_reach cb0 n s \<Longrightarrow> cb_step s s' \<Longrightarrow> cb_reach cb0 (Suc n) s'"

inductive_cases cb_stepE: "cb_step s s'"
inductive_simps cb_reach_0 [simp]: "cb_reach cb0 0 s"

text \<open>
  What holds between any two critical sections: no captured number is ahead of the breaker's,
  a probe is in flight exactly in the half-open state, it is then the one running call of the
  current number, and the failure count has reached the threshold exactly outside the closed
  state.
\<close>

definition cb_inv :: "nat \<Rightarrow> cb_system \<Rightarrow> bool" where
  "cb_inv n s \<longleftrightarrow>
     (let cb = cs_breaker s in
        0 < cb_threshold cb \<and>
        unat (cb_half_open_seq cb) \<le> n \<and>
        (\<forall>q \<in># cs_running s. unat q \<le> unat (cb_half_open_seq cb)) \<and>
        cb_half_open_in_flight cb = (cb_state cb = cbHalfOpen) \<and>
        (cb_state cb = cbHalfOpen \<longrightarrow> count (cs_running s) (cb_half_open_seq cb) = 1) \<and>
        (cb_state cb = cbClosed \<longleftrightarrow> cb_failures cb < cb_threshold cb))"

lemma cb_inv_New: "0 < k \<Longrightarrow> cb_inv 0 \<lparr>cs_breaker = New k t, cs_running = {#}\<rparr>"
  by (simp add: cb_inv_def New_def)

lemma unat_inc_no_wrap: "unat (w :: u64) \<le> n \<Longrightarrow> Suc n < 2 ^ 64 \<Longrightarrow> unat (w + 1) = Suc (unat w)"
  by (subst unat_add_lem[THEN iffD1]) auto

text \<open>A rejection never changes the breaker: the branch that would leave it half-open with a
  bumped number is not reachable.\<close>

lemma call_enter_reject:
  assumes "cb_inv n s" and "call_enter now (cs_breaker s) = (Inl e, cb')"
  shows "cb' = cs_breaker s"
  using assms by (auto simp: cb_inv_def call_enter_def Let_def split: if_splits)

lemma call_enter_admit:
  assumes "call_enter now cb = (Inr seq, cb')"
  shows "cb_state cb = cbClosed \<and> seq = cb_half_open_seq cb \<and> cb' = cb \<or>
         cb_state cb = cbHalfOpen \<and> \<not> cb_half_open_in_flight cb \<or>
         cb_state cb = cbOpen \<and> cb_reset_timeout cb \<le> time_sub now (cb_last_failure cb) \<and>
           seq = cb_half_open_seq cb + 1 \<and>
           cb' = cb\<lparr>cb_state := cbHalfOpen, cb_half_open_seq := seq, cb_half_open_in_flight := True\<rparr>"
  using assms by (cases "cb_state cb") (auto simp: call_enter_def Let_def split: if_splits)

lemma cb_inv_enter_ok:
  assumes inv: "cb_inv n s" and n: "Suc n < 2 ^ 64"
    and enter: "call_enter now (cs_breaker s) = (Inr seq, cb')"
  shows "cb_inv (Suc n) (s\<lparr>cs_breaker := cb', cs_running := add_mset seq (cs_running s)\<rparr>)"
  using call_enter_admit[OF enter]
proof (elim disjE conjE)
  assume "cb_state (cs_breaker s) = cbClosed" "seq = cb_half_open_seq (cs_breaker s)" "cb' = cs_breaker s"
  with inv show ?thesis by (auto simp: cb_inv_def Let_def)
next
  assume "cb_state (cs_breaker s) = cbHalfOpen" "\<not> cb_half_open_in_flight (cs_breaker s)"
  with inv show ?thesis by (simp add: cb_inv_def Let_def)
next
  assume st: "cb_state (cs_breaker s) = cbOpen" and seq: "seq = cb_half_open_seq (cs_breaker s) + 1"
    and cb': "cb' = (cs_breaker s)\<lparr>cb_state := cbHalfOpen, cb_half_open_seq := seq,
                                    cb_half_open_in_flight := True\<rparr>"
  have le: "unat (cb_half_open_seq (cs_breaker s)) \<le> n"
    and run: "\<forall>q \<in># cs_running s. unat q \<le> unat (cb_half_open_seq (cs_breaker s))"
    using inv by (auto simp: cb_inv_def Let_def)
  have inc: "unat seq = Suc (unat (cb_half_open_seq (cs_breaker s)))"
    using unat_inc_no_wrap[OF le n] seq by simp
  have "count (cs_running s) seq = 0"
    using run inc by (metis Suc_n_not_le_n count_inI)
  with inv st cb' inc le run show ?thesis
    by (auto simp: cb_inv_def Let_def le_Suc_eq)
qed

lemma cb_inv_exit:
  assumes inv: "cb_inv n s" and run: "seq \<in># cs_running s"
  shows "cb_inv (Suc n) (s\<lparr>cs_breaker := call_exit now seq err (cs_breaker s),
                            cs_running := cs_running s - {#seq#}\<rparr>)"
  using assms
  by (cases "cb_state (cs_breaker s)")
     (auto simp: cb_inv_def call_exit_def Let_def dest: in_diffD)

lemma cb_inv_step:
  assumes "cb_inv n s" and "Suc n < 2 ^ 64" and "cb_step s s'"
  shows "cb_inv (Suc n) s'"
  using assms(3)
proof (cases rule: cb_step.cases)
  case (enter_ok now seq cb')
  with cb_inv_enter_ok assms show ?thesis by blast
next
  case (enter_reject now e cb')
  with call_enter_reject assms(1) have "cb' = cs_breaker s" by blast
  with enter_reject(1) assms(1) show ?thesis by (auto simp: cb_inv_def Let_def)
next
  case (exit seq now err)
  with cb_inv_exit assms(1) show ?thesis by blast
qed

lemma cb_reach_inv: "cb_reach (New k t) n s \<Longrightarrow> 0 < k \<Longrightarrow> n < 2 ^ 64 \<Longrightarrow> cb_inv n s"
  by (induction rule: cb_reach.induct) (auto intro: cb_inv_New cb_inv_step)

section \<open>Sequential use\<close>

text \<open>Consecutive failing calls, each entered and left at the given times.\<close>

fun failing_calls :: "(go_time \<times> go_time) list \<Rightarrow> CircuitBreaker \<Rightarrow> CircuitBreaker" where
  "failing_calls [] cb = cb"
| "failing_calls ((t0, t1) # ts) cb = failing_calls ts (snd (Call t0 t1 (Some (PlainError [])) cb))"

lemma Call_closed_failure:
  "cb_state cb = cbClosed \<Longrightarrow>
   snd (Call t0 t1 (Some e) cb) =
     cb\<lparr>cb_failures := cb_failures cb + 1, cb_last_failure := t1,
        cb_state := (if cb_threshold cb \<le> cb_failures cb + 1 then cbOpen else cbClosed),
        cb_half_open_in_flight := False\<rparr>"
  by (simp add: Call_def call_enter_def call_exit_def Let_def)

lemma Call_open_rejects:
  "cb_state cb = cbOpen \<Longrightarrow> time_sub t0 (cb_last_failure cb) < cb_reset_timeout cb \<Longrightarrow>
   Call t0 t1 res cb = (Some BreakerErrCircuitOpen, cb)"
  by (simp add: Call_def call_enter_def)

lemma failing_calls_closed:
  assumes "cb_state cb = cbClosed" and "cb_failures cb + int (length ts) < cb_threshold cb"
  shows "cb_state (failing_calls ts cb) = cbClosed \<and>
         cb_failures (failing_calls ts cb) = cb_failures cb + int (length ts) \<and>
         cb_threshold (failing_calls ts cb) = cb_threshold cb \<and>
         cb_reset_timeout (failing_calls ts cb) = cb_reset_timeout cb"
  using assms
  by (induction ts cb rule: failing_calls.induct) (auto simp: Call_closed_failure)

lemma failing_calls_append:
  "failing_calls (ts @ us) cb = failing_calls us (failing_calls ts cb)"
  by (induction ts cb rule: failing_calls.induct) auto

section \<open>Properties\<close>

text \<open>C29: In every reachable half-open state exactly one probe of the current number is running,
  and any further call is rejected at whatever time it arrives, leaving the breaker as it is.\<close>

theorem half_open_single_probe:
  assumes "cb_reach (New k t) n s" and "0 < k" and "n < 2 ^ 64"
    and "cb_state (cs_breaker s) = cbHalfOpen"
  shows "count (cs_running s) (cb_half_open_seq (cs_breaker s)) = 1 \<and>
         call_enter now (cs_breaker s) = (Inl BreakerErrCircuitOpen, cs_breaker s)"
  using cb_reach_inv[OF assms(1-3)] assms(4)
  by (auto simp: cb_inv_def call_enter_def Let_def)

text \<open>In every reachable open state a call arriving before the reset timeout has run since the
  last failure is rejected and changes nothing; the first one arriving later is admitted as the
  probe of a fresh number.\<close>

theorem open_rejects_until_reset:
  assumes "cb_reach (New k t) n s" and "0 < k" and "n < 2 ^ 64"
    and "cb_state (cs_breaker s) = cbOpen"
  shows "call_enter now (cs_breaker s) =
     (if time_sub now (cb_last_failure (cs_breaker s)) < cb_reset_timeout (cs_breaker s)
      then (Inl BreakerErrCircuitOpen, cs_breaker s)
      else (Inr (cb_half_open_seq (cs_breaker s) + 1),
            (cs_breaker s)\<lparr>cb_state := cbHalfOpen,
                           cb_half_open_seq := cb_half_open_seq (cs_breaker s) + 1,
                           cb_half_open_in_flight := True\<rparr>))"
  using cb_reach_inv[OF assms(1-3)] assms(4)
  by (auto simp: cb_inv_def call_enter_def Let_def)

text \<open>The probe alone decides a half-open breaker: when it fails the circuit opens again from
  the time of the failure, when it succeeds the circuit closes with a clean count, and the
  result of any other running call is ignored.\<close>

theorem half_open_verdict:
  assumes "cb_reach (New k t) n s" and "0 < k" and "n < 2 ^ 64"
    and "cb_state (cs_breaker s) = cbHalfOpen"
  shows "call_exit now seq err (cs_breaker s) =
     (if seq \<noteq> cb_half_open_seq (cs_breaker s) then cs_breaker s
      else if err = None
      then (cs_breaker s)\<lparr>cb_failures := 0, cb_state := cbClosed, cb_half_open_in_flight := False\<rparr>
      else (cs_breaker s)\<lparr>cb_failures := cb_failures (cs_breaker s) + 1, cb_last_failure := now,
                           cb_state := cbOpen, cb_half_open_in_flight := False\<rparr>)"
  using cb_reach_inv[OF assms(1-3)] assms(4)
  by (auto simp: cb_inv_def call_exit_def Let_def)

text \<open>A fresh breaker stays closed through fewer than \<open>k\<close> consecutive failures and opens with
  the \<open>k\<close>-th; a call within the reset timeout of that failure is then refused without running.\<close>

theorem breaker_trips_at_threshold:
  assumes "length ts < k"
  shows "cb_state (failing_calls ts (New (int k) t)) = cbClosed \<and>
    (length ts + 1 = k \<longrightarrow>
      (let cb = failing_calls (ts @ [(t0, t1)]) (New (int k) t) in
         cb_state cb = cbOpen \<and>
         (time_sub u0 t1 < t \<longrightarrow> Call u0 u1 res cb = (Some BreakerErrCircuitOpen, cb))))"
proof -
  have "cb_state (failing_calls ts (New (int k) t)) = cbClosed"
    and "cb_failures (failing_calls ts (New (int k) t)) = int (length ts)"
    and "cb_threshold (failing_calls ts (New (int k) t)) = int k"
    and "cb_reset_timeout (failing_calls ts (New (int k) t)) = t"
    using failing_calls_closed[of "New (int k) t" ts] assms by (auto simp: New_def)
  then show ?thesis
    by (auto simp: failing_calls_append Call_closed_failure Let_def intro!: Call_open_rejects)
qed

text \<open>The sequence guard covers the half-open state only: a call that was admitted before the
  circuit opened and now succeeds closes the open circuit at once, whatever is left of the reset
  timeout, and the next call is admitted.\<close>

theorem stale_success_closes_open:
  assumes "cb_state (cs_breaker s) = cbOpen" and "seq \<in># cs_running s"
  shows "cb_step s (s\<lparr>cs_breaker := call_exit now seq None (cs_breaker s),
                      cs_running := cs_running s - {#seq#}\<rparr>) \<and>
         cb_state (call_exit now seq None (cs_breaker s)) = cbClosed \<and>
         call_enter later (call_exit now seq None (cs_breaker s)) =
           (Inr (cb_half_open_seq (cs_breaker s)), call_exit now seq None (cs_breaker s))"
  using cb_step.exit[OF assms(2), of now None] assms(1)
  by (simp add: call_enter_def call_exit_def)

section \<open>A run with two concurrent calls\<close>

text \<open>Two calls are admitted by a breaker of threshold 1, the first fails at time 10; a third,
  after the timeout, becomes the probe.\<close>

definition run_cb :: CircuitBreaker where "run_cb = New 1 5"

definition run_open :: cb_system where
  "run_open = \<lparr>cs_breaker = run_cb\<lparr>cb_failures := 1, cb_last_failure := 10, cb_state := cbOpen\<rparr>,
               cs_running = {#0#}\<rparr>"

definition run_half_open :: cb_system where
  "run_half_open =
     \<lparr>cs_breaker = (cs_breaker run_open)\<lparr>cb_state := cbHalfOpen, cb_half_open_seq := 1,
                                          cb_half_open_in_flight := True\<rparr>,
      cs_running = {#1, 0#}\<rparr>"

lemma run_open_reach: "cb_reach (New 1 5) 3 run_open"
proof -
  have e: "cb_step \<lparr>cs_breaker = run_cb, cs_running = m\<rparr>
                   \<lparr>cs_breaker = run_cb, cs_running = add_mset 0 m\<rparr>" for m
    using enter_ok[of 1 "\<lparr>cs_breaker = run_cb, cs_running = m\<rparr>" 0 run_cb]
    by (simp add: run_cb_def New_def call_enter_def)
  have x: "cb_step \<lparr>cs_breaker = run_cb, cs_running = {#0, 0#}\<rparr> run_open"
    using exit[of 0 "\<lparr>cs_breaker = run_cb, cs_running = {#0, 0#}\<rparr>" 10 "Some (PlainError [])"]
    by (simp add: run_open_def run_cb_def New_def call_exit_def)
  have "cb_reach run_cb (Suc (Suc (Suc 0))) run_open"
    by (rule more[OF more[OF more[OF start e] e] x])
  then show ?thesis by (simp add: run_cb_def numeral_3_eq_3)
qed

lemma run_half_open_reach: "cb_reach (New 1 5) 4 run_half_open"
proof -
  have "cb_step run_open run_half_open"
    using enter_ok[of 20 run_open 1 "cs_breaker run_half_open"]
    by (simp add: run_open_def run_half_open_def run_cb_def New_def call_enter_def duration_defs)
  from more[OF run_open_reach this] show ?thesis by simp
qed

lemma half_open_single_probe_witness:
  "call_enter 21 (cs_breaker run_half_open) = (Inl BreakerErrCircuitOpen, cs_breaker run_half_open)"
  using half_open_single_probe[OF run_half_open_reach, of 21] by (simp add: run_half_open_def)

lemma open_rejects_until_reset_witness:
  "call_enter 12 (cs_breaker run_open) = (Inl BreakerErrCircuitOpen, cs_breaker run_open)"
  using open_rejects_until_reset[OF run_open_reach, of 12]
  by (simp add: run_open_def run_cb_def New_def duration_defs)

lemma half_open_verdict_witness:
  "cb_state (call_exit 30 1 (Some ErrTimeout) (cs_breaker run_half_open)) = cbOpen"
  using half_open_verdict[OF run_half_open_reach, of 30 1 "Some ErrTimeout"]
  by (simp add: run_half_open_def)

lemma breaker_trips_at_threshold_witness:
  "cb_state (failing_calls [(1, 2), (3, 4)] (New 2 10)) = cbOpen"
  using breaker_trips_at_threshold[of "[(1, 2)]" 2 10 3 4 5 6 None] by (simp add: Let_def)

lemma stale_success_closes_open_witness:
  "cb_reach (New 1 5) 3 run_open \<and> cb_state (cs_breaker run_open) = cbOpen \<and>
   cb_state (call_exit 11 0 None (cs_breaker run_open)) = cbClosed"
  using run_open_reach stale_success_closes_open[of run_open 0 11 12]
  by (simp add: run_open_def)

end
