(* ===== verification/Go_Strings.thy ===== *)
theory Go_Strings
  imports Go_Base
begin

text \<open>
  The part of Go's \<open>strings\<close>, \<open>strconv\<close> and \<open>fmt\<close> packages the source uses, over byte
  strings: a Go string is a sequence of bytes, an Isabelle \<open>string\<close> a list of 8-bit
  \<open>char\<close>s. \<open>TrimSpace\<close> strips the UTF-8 encodings of all Unicode white space. Case
  mapping is modelled on ASCII letters only: bytes from 128 up are left unchanged, which is
  what the source's inputs (addresses, communities, origin codes) contain.
\<close>

section \<open>Bytes\<close>

definition code :: "char \<Rightarrow> nat" where
  "code c = of_char c"

lemma code_inj [simp]: "code c = code d \<longleftrightarrow> c = d"
  by (simp add: code_def of_char_eq_iff)

lemma code_char_of [simp]: "n < 256 \<Longrightarrow> code (char_of n) = n"
  by (simp add: code_def)

definition is_digit :: "char \<Rightarrow> bool" where
  "is_digit c \<longleftrightarrow> 48 \<le> code c \<and> code c \<le> 57"

definition digit_val :: "char \<Rightarrow> nat" where
  "digit_val c = code c - 48"

definition digit_char :: "nat \<Rightarrow> char" where
  "digit_char n = char_of (48 + n)"

lemma is_digit_digit_char [simp]: "n < 10 \<Longrightarrow> is_digit (digit_char n)"
  by (simp add: is_digit_def digit_char_def)

lemma digit_val_digit_char [simp]: "n < 10 \<Longrightarrow> digit_val (digit_char n) = n"
  by (simp add: digit_val_def digit_char_def)

definition to_lower_char :: "char \<Rightarrow> char" where
  "to_lower_char c = (if 65 \<le> code c \<and> code c \<le> 90 then char_of (code c + 32) else c)"

definition to_upper_char :: "char \<Rightarrow> char" where
  "to_upper_char c = (if 97 \<le> code c \<and> code c \<le> 122 then char_of (code c - 32) else c)"

definition to_lower :: "string \<Rightarrow> string" where
  "to_lower s = map to_lower_char s"

definition to_upper :: "string \<Rightarrow> string" where
  "to_upper s = map to_upper_char s"

lemma to_lower_char_idem [simp]: "to_lower_char (to_lower_char c) = to_lower_char c"
  by (auto simp: to_lower_char_def)

lemma to_lower_idem [simp]: "to_lower (to_lower s) = to_lower s"
  by (simp add: to_lower_def)

lemma length_to_lower [simp]: "length (to_lower s) = length s"
  by (simp add: to_lower_def)

section \<open>Prefixes, suffixes, substrings\<close>

definition has_prefix :: "string \<Rightarrow> string \<Rightarrow> bool" where
  "has_prefix s p \<longleftrightarrow> take (length p) s = p"

definition has_suffix :: "string \<Rightarrow> string \<Rightarrow> bool" where
  "has_suffix s p \<longleftrightarrow> has_prefix (rev s) (rev p)"

fun contains_str :: "string \<Rightarrow> string \<Rightarrow> bool" where
  "contains_str [] p = (p = [])"
| "contains_str (c # s) p = (has_prefix (c # s) p \<or> contains_str s p)"

definition contains_char :: "string \<Rightarrow> char \<Rightarrow> bool" where
  "contains_char s c \<longleftrightarrow> c \<in> set s"

definition trim_prefix :: "string \<Rightarrow> string \<Rightarrow> string" where
  "trim_prefix s p = (if has_prefix s p then drop (length p) s else s)"

definition trim_suffix :: "string \<Rightarrow> string \<Rightarrow> string" where
  "trim_suffix s p = (if has_suffix s p then take (length s - length p) s else s)"

lemma has_prefix_append [simp]: "has_prefix (p @ s) p"
  by (simp add: has_prefix_def)

lemma has_prefix_iff: "has_prefix s p \<longleftrightarrow> (\<exists>t. s = p @ t)"
  by (metis append_eq_conv_conj append_take_drop_id has_prefix_def)

lemma has_prefix_Nil [simp]: "has_prefix s []"
  by (simp add: has_prefix_def)

lemma has_prefix_length: "has_prefix s p \<Longrightarrow> length p \<le> length s"
  by (auto simp: has_prefix_iff)

section \<open>TrimSpace\<close>

text \<open>The UTF-8 encodings of the code points \<open>unicode.IsSpace\<close> accepts.\<close>

definition space_seqs :: "string list" where
  "space_seqs =
     [[CHR 0x09], [CHR 0x0A], [CHR 0x0B], [CHR 0x0C], [CHR 0x0D], [CHR 0x20],
      [CHR 0xC2, CHR 0x85], [CHR 0xC2, CHR 0xA0],
      [CHR 0xE1, CHR 0x9A, CHR 0x80],
      [CHR 0xE2, CHR 0x80, CHR 0x80], [CHR 0xE2, CHR 0x80, CHR 0x81],
      [CHR 0xE2, CHR 0x80, CHR 0x82], [CHR 0xE2, CHR 0x80, CHR 0x83],
      [CHR 0xE2, CHR 0x80, CHR 0x84], [CHR 0xE2, CHR 0x80, CHR 0x85],
      [CHR 0xE2, CHR 0x80, CHR 0x86], [CHR 0xE2, CHR 0x80, CHR 0x87],
      [CHR 0xE2, CHR 0x80, CHR 0x88], [CHR 0xE2, CHR 0x80, CHR 0x89],
      [CHR 0xE2, CHR 0x80, CHR 0x8A], [CHR 0xE2, CHR 0x80, CHR 0xA8],
      [CHR 0xE2, CHR 0x80, CHR 0xA9], [CHR 0xE2, CHR 0x80, CHR 0xAF],
      [CHR 0xE2, CHR 0x81, CHR 0x9F], [CHR 0xE3, CHR 0x80, CHR 0x80]]"

lemma space_seqs_nonempty: "p \<in> set space_seqs \<Longrightarrow> p \<noteq> []"
  by (auto simp: space_seqs_def)

function trim_seqs :: "string list \<Rightarrow> string \<Rightarrow> string" where
  "trim_seqs ps s =
     (case find (\<lambda>p. p \<noteq> [] \<and> has_prefix s p) ps of
        None \<Rightarrow> s
      | Some p \<Rightarrow> trim_seqs ps (drop (length p) s))"
  by pat_completeness auto
termination
proof (relation "measure (\<lambda>(ps, s). length s)", goal_cases)
  case (2 ps s p)
  then have "p \<noteq> []" and "has_prefix s p"
    by (auto simp: find_Some_iff)
  then show ?case by (cases s) (auto simp: has_prefix_def)
qed simp

declare trim_seqs.simps [simp del]

definition trim_space_left :: "string \<Rightarrow> string" where
  "trim_space_left s = trim_seqs space_seqs s"

definition trim_space_right :: "string \<Rightarrow> string" where
  "trim_space_right s = rev (trim_seqs (map rev space_seqs) (rev s))"

definition trim_space :: "string \<Rightarrow> string" where
  "trim_space s = trim_space_right (trim_space_left s)"

definition no_prefix :: "string list \<Rightarrow> string \<Rightarrow> bool" where
  "no_prefix ps s \<longleftrightarrow> (\<forall>p \<in> set ps. p \<noteq> [] \<longrightarrow> \<not> has_prefix s p)"

lemma trim_seqs_fix: "no_prefix ps s \<Longrightarrow> trim_seqs ps s = s"
  by (subst trim_seqs.simps) (auto simp: no_prefix_def find_Some_iff split: option.splits)

lemma trim_seqs_no_prefix: "no_prefix ps (trim_seqs ps s)"
proof (induction ps s rule: trim_seqs.induct)
  case (1 ps s)
  show ?case
  proof (cases "find (\<lambda>p. p \<noteq> [] \<and> has_prefix s p) ps")
    case None
    then have "trim_seqs ps s = s" by (simp add: trim_seqs.simps[of ps s])
    with None show ?thesis by (auto simp: no_prefix_def find_None_iff)
  next
    case (Some p)
    with "1.IH"[OF Some] show ?thesis by (simp add: trim_seqs.simps[of ps s])
  qed
qed

lemma trim_seqs_suffix: "\<exists>t. s = t @ trim_seqs ps s"
proof (induction ps s rule: trim_seqs.induct)
  case (1 ps s)
  show ?case
  proof (cases "find (\<lambda>p. p \<noteq> [] \<and> has_prefix s p) ps")
    case None
    then show ?thesis by (simp add: trim_seqs.simps[of ps s])
  next
    case (Some p)
    from "1.IH"[OF Some] obtain t where "drop (length p) s = t @ trim_seqs ps (drop (length p) s)"
      by blast
    then have "s = (take (length p) s @ t) @ trim_seqs ps (drop (length p) s)"
      by (metis append_assoc append_take_drop_id)
    moreover have "trim_seqs ps s = trim_seqs ps (drop (length p) s)"
      using Some by (simp add: trim_seqs.simps[of ps s])
    ultimately show ?thesis by metis
  qed
qed

lemma no_prefix_initial: "no_prefix ps (s @ t) \<Longrightarrow> no_prefix ps s"
  by (auto simp: no_prefix_def has_prefix_iff)

lemma trim_space_right_prefix: "\<exists>t. s = trim_space_right s @ t"
proof -
  obtain t where "rev s = t @ trim_seqs (map rev space_seqs) (rev s)"
    using trim_seqs_suffix by blast
  then have "s = trim_space_right s @ rev t"
    by (metis rev_append rev_rev_ident trim_space_right_def)
  then show ?thesis by blast
qed

lemma trim_space_no_prefix: "no_prefix space_seqs (trim_space s)"
proof -
  have "no_prefix space_seqs (trim_space_left s)"
    by (simp add: trim_space_left_def trim_seqs_no_prefix)
  then show ?thesis
    unfolding trim_space_def by (metis no_prefix_initial trim_space_right_prefix)
qed

text \<open>Trimming twice is trimming once; the source relies on it when it re-trims inputs.\<close>

lemma trim_space_idem [simp]: "trim_space (trim_space s) = trim_space s"
proof -
  have left: "trim_space_left (trim_space s) = trim_space s"
    by (simp add: trim_space_left_def trim_seqs_fix trim_space_no_prefix)
  have "no_prefix (map rev space_seqs) (rev (trim_space s))"
    by (simp add: trim_space_def trim_space_right_def trim_seqs_no_prefix)
  then have "trim_space_right (trim_space s) = trim_space s"
    by (simp add: trim_space_right_def trim_seqs_fix)
  with left show ?thesis by (simp add: trim_space_def[of "trim_space s"])
qed

text \<open>A string whose first and last bytes start no white space is its own trim.\<close>

definition space_start :: "char \<Rightarrow> bool" where
  "space_start c \<longleftrightarrow> c \<in> set (map hd space_seqs) \<union> set (map last space_seqs)"

lemma trim_space_fix:
  assumes "\<And>c. c \<in> set s \<Longrightarrow> \<not> space_start c"
  shows "trim_space s = s"
proof -
  have "no_prefix space_seqs s"
    unfolding no_prefix_def
  proof (intro ballI impI notI)
    fix p assume p: "p \<in> set space_seqs" "p \<noteq> []" "has_prefix s p"
    then have "hd p \<in> set s" by (auto simp: has_prefix_iff neq_Nil_conv)
    with assms p(1) show False by (auto simp: space_start_def)
  qed
  moreover have "no_prefix (map rev space_seqs) (rev s)"
    unfolding no_prefix_def
  proof (intro ballI impI notI)
    fix q assume q: "q \<in> set (map rev space_seqs)" "q \<noteq> []" "has_prefix (rev s) q"
    then obtain p where p: "p \<in> set space_seqs" "q = rev p" by auto
    from q p obtain t where "rev s = rev p @ t" by (auto simp: has_prefix_iff)
    then have "s = rev t @ p" by (metis rev_append rev_rev_ident)
    moreover have "p \<noteq> []" using q p by simp
    ultimately have "last p \<in> set s" by simp
    with assms p(1) show False by (auto simp: space_start_def)
  qed
  ultimately show ?thesis
    by (simp add: trim_space_def trim_space_left_def trim_space_right_def trim_seqs_fix)
qed

end
