(* ===== verification/Go_Text.thy ===== *)
theory Go_Text
  imports Go_Strings
begin

text \<open>
  Decimal numbers (\<open>strconv.ParseUint\<close>, \<open>Atoi\<close>, \<open>FormatUint\<close>), splitting and joining, and
  Go's byte-wise string order, with the round trips the components rely on.
\<close>

section \<open>Decimal numbers\<close>

fun dec_string :: "nat \<Rightarrow> string" where
  "dec_string n =
     (if n < 10 then [digit_char n] else dec_string (n div 10) @ [digit_char (n mod 10)])"

declare dec_string.simps [simp del]

definition format_uint :: "u32 \<Rightarrow> string" where
  "format_uint w = dec_string (unat w)"

definition format_int :: "int \<Rightarrow> string" where
  "format_int i = (if i < 0 then CHR ''-'' # dec_string (nat (- i)) else dec_string (nat i))"

text \<open>
  \<open>ParseUint(s, 10, bits)\<close>. The loop reports a range error as soon as the value exceeds the
  maximum, before it looks at later bytes; the value returned with a range error is the
  maximum, and 0 with a syntax error.
\<close>

datatype num_result = NumOk nat | NumSyntax | NumRange

fun parse_uint_loop :: "nat \<Rightarrow> nat \<Rightarrow> string \<Rightarrow> num_result" where
  "parse_uint_loop mx n [] = NumOk n"
| "parse_uint_loop mx n (c # cs) =
     (if \<not> is_digit c then NumSyntax
      else if mx < n * 10 + digit_val c then NumRange
      else parse_uint_loop mx (n * 10 + digit_val c) cs)"

definition parse_uint :: "nat \<Rightarrow> string \<Rightarrow> num_result" where
  "parse_uint bits s = (if s = [] then NumSyntax else parse_uint_loop (2 ^ bits - 1) 0 s)"

definition go_atoi :: "string \<Rightarrow> int option" where
  "go_atoi s =
     (case s of
        [] \<Rightarrow> None
      | c # cs \<Rightarrow>
          (let neg = (c = CHR ''-'');
               ds = (if c = CHR ''-'' \<or> c = CHR ''+'' then cs else s)
           in case parse_uint 64 ds of
                NumOk n \<Rightarrow>
                  (if \<not> neg \<and> 2 ^ 63 \<le> n then None
                   else if neg \<and> 2 ^ 63 < n then None
                   else Some (if neg then - int n else int n))
              | NumSyntax \<Rightarrow> None
              | NumRange \<Rightarrow> None))"

lemma dec_string_nonempty [simp]: "dec_string n \<noteq> []"
  by (subst dec_string.simps) simp

lemma dec_string_digits: "c \<in> set (dec_string n) \<Longrightarrow> is_digit c"
proof (induction n rule: dec_string.induct)
  case (1 n)
  then show ?case
    by (cases "n < 10") (auto simp: dec_string.simps[of n])
qed

lemma parse_uint_loop_append:
  "parse_uint_loop mx n (xs @ ys) =
     (case parse_uint_loop mx n xs of NumOk k \<Rightarrow> parse_uint_loop mx k ys | r \<Rightarrow> r)"
  by (induction mx n xs rule: parse_uint_loop.induct) auto

lemma parse_uint_loop_dec_string: "n \<le> mx \<Longrightarrow> parse_uint_loop mx 0 (dec_string n) = NumOk n"
proof (induction n rule: dec_string.induct)
  case (1 n)
  show ?case
  proof (cases "n < 10")
    case True
    with "1.prems" show ?thesis by (simp add: dec_string.simps[of n])
  next
    case False
    have "n div 10 \<le> mx" using "1.prems" by (meson div_le_dividend le_trans)
    with False "1.IH" have "parse_uint_loop mx 0 (dec_string (n div 10)) = NumOk (n div 10)"
      by simp
    with False "1.prems" show ?thesis
      by (simp add: dec_string.simps[of n] parse_uint_loop_append)
  qed
qed

lemma parse_uint_dec_string: "n < 2 ^ bits \<Longrightarrow> parse_uint bits (dec_string n) = NumOk n"
  by (simp add: parse_uint_def parse_uint_loop_dec_string)

lemma parse_uint_format_uint [simp]: "parse_uint 32 (format_uint w) = NumOk (unat w)"
  unfolding format_uint_def
  by (rule parse_uint_dec_string) (use unsigned_less[of w] in simp)

lemma dec_string_inject: "dec_string m = dec_string n \<longleftrightarrow> m = n"
proof
  assume eq: "dec_string m = dec_string n"
  have "parse_uint_loop (max m n) 0 (dec_string m) = NumOk m"
    and "parse_uint_loop (max m n) 0 (dec_string n) = NumOk n"
    by (simp_all add: parse_uint_loop_dec_string)
  then show "m = n" by (metis eq num_result.inject)
qed simp

lemma format_uint_inject [simp]: "format_uint v = format_uint w \<longleftrightarrow> v = w"
  by (simp add: format_uint_def dec_string_inject word_unat_eq_iff)

lemma parse_uint_loop_bound: "parse_uint_loop mx n s = NumOk k \<Longrightarrow> n \<le> mx \<Longrightarrow> k \<le> mx"
  by (induction mx n s rule: parse_uint_loop.induct) (auto split: if_splits)

lemma parse_uint_bound:
  assumes "parse_uint bits s = NumOk k"
  shows "k < 2 ^ bits"
proof -
  have "k \<le> 2 ^ bits - 1"
    using assms parse_uint_loop_bound[of "2 ^ bits - 1" 0 s k]
    by (simp add: parse_uint_def split: if_splits)
  moreover have "(0::nat) < 2 ^ bits" by simp
  ultimately show ?thesis by linarith
qed

lemma go_atoi_dec_string: "n < 2 ^ 63 \<Longrightarrow> go_atoi (dec_string n) = Some (int n)"
proof -
  assume n: "n < 2 ^ 63"
  obtain c cs where s: "dec_string n = c # cs" by (cases "dec_string n") auto
  then have "is_digit c" using dec_string_digits[of c n] by simp
  then have sign: "c \<noteq> CHR ''-''" "c \<noteq> CHR ''+''" by (auto simp: is_digit_def code_def)
  have "parse_uint 64 (dec_string n) = NumOk n"
    using n by (intro parse_uint_dec_string) simp
  with n s sign show ?thesis by (simp add: go_atoi_def)
qed

section \<open>Splitting and joining\<close>

fun split_char :: "char \<Rightarrow> string \<Rightarrow> string list" where
  "split_char d [] = [[]]"
| "split_char d (c # s) =
     (if c = d then [] # split_char d s
      else (case split_char d s of [] \<Rightarrow> [[c]] | w # ws \<Rightarrow> (c # w) # ws))"

fun join_str :: "string \<Rightarrow> string list \<Rightarrow> string" where
  "join_str sep [] = []"
| "join_str sep [w] = w"
| "join_str sep (w # ws) = w @ sep @ join_str sep ws"

text \<open>\<open>strings.FieldsFunc\<close>: the maximal runs of bytes that do not satisfy the predicate.\<close>

fun fields_func :: "(char \<Rightarrow> bool) \<Rightarrow> string \<Rightarrow> string \<Rightarrow> string list" where
  "fields_func p cur [] = (if cur = [] then [] else [cur])"
| "fields_func p cur (c # s) =
     (if p c then (if cur = [] then fields_func p [] s else cur # fields_func p [] s)
      else fields_func p (cur @ [c]) s)"

lemma split_char_nonempty [simp]: "split_char d s \<noteq> []"
  by (induction d s rule: split_char.induct) (auto split: list.splits)

lemma join_split_char: "join_str [d] (split_char d s) = s"
proof (induction d s rule: split_char.induct)
  case (2 d c s)
  obtain w ws where eq: "split_char d s = w # ws"
    using split_char_nonempty by (meson neq_Nil_conv)
  with 2 show ?case by (cases ws) auto
qed simp

lemma split_char_no_sep: "w \<in> set (split_char d s) \<Longrightarrow> d \<notin> set w"
  by (induction d s arbitrary: w rule: split_char.induct) (auto split: list.splits if_splits)

lemma split_char_append_sep:
  "d \<notin> set w \<Longrightarrow> split_char d (w @ d # s) = w # split_char d s"
  by (induction w) (auto split: list.splits)

lemma split_char_id: "d \<notin> set w \<Longrightarrow> split_char d w = [w]"
  by (induction w) (auto split: list.splits)

lemma split_join_char:
  "\<lbrakk>ws \<noteq> []; \<And>w. w \<in> set ws \<Longrightarrow> d \<notin> set w\<rbrakk> \<Longrightarrow> split_char d (join_str [d] ws) = ws"
  by (induction "[d]" ws rule: join_str.induct) (auto simp: split_char_id split_char_append_sep)

lemma join_str_eq_Nil: "join_str [d] ws = [] \<longleftrightarrow> ws = [] \<or> ws = [[]]"
  by (cases ws; cases "tl ws") auto

lemma join_char_inject:
  assumes "\<And>w. w \<in> set us \<union> set vs \<Longrightarrow> d \<notin> set w \<and> w \<noteq> []"
    and eq: "join_str [d] us = join_str [d] vs"
  shows "us = vs"
proof -
  have ok: "\<And>w. w \<in> set us \<Longrightarrow> d \<notin> set w" "\<And>w. w \<in> set vs \<Longrightarrow> d \<notin> set w"
    "[] \<notin> set us" "[] \<notin> set vs"
    using assms(1) by auto
  show ?thesis
  proof (cases "us = [] \<or> vs = []")
    case True
    then have "join_str [d] us = [] \<or> join_str [d] vs = []" by auto
    then have "join_str [d] us = []" "join_str [d] vs = []" using eq by auto
    with ok(3,4) show ?thesis by (simp add: join_str_eq_Nil) force
  next
    case False
    then have "split_char d (join_str [d] us) = us" "split_char d (join_str [d] vs) = vs"
      using ok(1,2) by (auto intro!: split_join_char)
    then show ?thesis by (metis eq)
  qed
qed

lemma fields_func_run:
  "(\<And>c. c \<in> set w \<Longrightarrow> \<not> p c) \<Longrightarrow> fields_func p cur (w @ s) = fields_func p (cur @ w) s"
  by (induction w arbitrary: cur) auto

lemma fields_func_skip: "p c \<Longrightarrow> fields_func p [] (c # s) = fields_func p [] s"
  by simp

lemma fields_func_word:
  "\<lbrakk>w \<noteq> []; \<And>c. c \<in> set w \<Longrightarrow> \<not> p c; p d\<rbrakk> \<Longrightarrow>
     fields_func p [] (w @ d # s) = w # fields_func p [] s"
  using fields_func_run[of w p "[]" "d # s"] by simp

lemma fields_func_parts:
  "w \<in> set (fields_func p cur s) \<Longrightarrow> (\<And>c. c \<in> set cur \<Longrightarrow> \<not> p c) \<Longrightarrow>
     w \<noteq> [] \<and> (\<forall>c \<in> set w. \<not> p c)"
proof (induction p cur s arbitrary: w rule: fields_func.induct)
  case (1 p cur)
  then show ?case by (auto split: if_splits)
next
  case (2 p cur c s)
  show ?case
  proof (cases "p c")
    case True
    show ?thesis
    proof (cases "w \<in> set (fields_func p [] s)")
      case rec: True
      show ?thesis
      proof (cases "cur = []")
        case nil: True
        show ?thesis by (rule "2.IH"(1)[OF True nil rec]) simp
      next
        case False
        show ?thesis by (rule "2.IH"(2)[OF True False rec]) simp
      qed
    next
      case False
      with True "2.prems" have "cur \<noteq> []" "w = cur" by (auto split: if_splits)
      with "2.prems"(2) show ?thesis by blast
    qed
  next
    case False
    then have mem: "w \<in> set (fields_func p (cur @ [c]) s)" using "2.prems"(1) by simp
    show ?thesis by (rule "2.IH"(3)[OF False mem]) (use False "2.prems"(2) in auto)
  qed
qed

section \<open>The byte-wise order of Go strings\<close>

fun str_less :: "string \<Rightarrow> string \<Rightarrow> bool" where
  "str_less s [] = False"
| "str_less [] (d # t) = True"
| "str_less (c # s) (d # t) = (code c < code d \<or> (c = d \<and> str_less s t))"

lemma str_less_irrefl [simp]: "\<not> str_less s s"
  by (induction s) auto

lemma str_less_trans: "str_less s t \<Longrightarrow> str_less t u \<Longrightarrow> str_less s u"
proof (induction s t arbitrary: u rule: str_less.induct)
  case (3 c s d t)
  then show ?case by (cases u) auto
next
  case (2 d t)
  then show ?case by (cases u) auto
qed simp

lemma str_less_total: "s \<noteq> t \<Longrightarrow> str_less s t \<or> str_less t s"
proof (induction s t rule: str_less.induct)
  case (1 s)
  then show ?case by (cases s) auto
next
  case (3 c s d t)
  then show ?case
    by (metis code_inj linorder_neqE_nat str_less.simps(3))
qed simp

lemma str_less_asym: "str_less s t \<Longrightarrow> \<not> str_less t s"
  using str_less_irrefl str_less_trans by blast

section \<open>Padding\<close>

text \<open>\<open>%-20s\<close>: left-justified in a field of at least \<open>n\<close> bytes.\<close>

definition pad_right :: "nat \<Rightarrow> string \<Rightarrow> string" where
  "pad_right n s = s @ replicate (n - length s) (CHR '' '')"

end
