(* ===== verification/Go_Net.thy ===== *)
theory Go_Net
  imports Go_Text
begin

unbundle bit_operations_syntax

text \<open>
  The part of Go's \<open>net\<close> package the source uses: \<open>ParseIP\<close>, \<open>IP.String\<close>, \<open>ParseCIDR\<close>,
  \<open>IPNet.Contains\<close> and the address classes. A \<open>net.IP\<close> is its byte slice: 16 bytes as
  \<open>ParseIP\<close> returns it (an IPv4 address in its IPv6-mapped form), 4 bytes after \<open>To4\<close>.
\<close>

section \<open>Addresses\<close>

type_synonym byte = "8 word"
type_synonym net_ip = "byte list"

definition v4_in_v6_prefix :: "byte list" where
  "v4_in_v6_prefix = [0, 0, 0, 0, 0, 0, 0, 0, 0, 0, 0xFF, 0xFF]"

definition to4 :: "net_ip \<Rightarrow> net_ip option" where
  "to4 ip =
     (if length ip = 4 then Some ip
      else if length ip = 16 \<and> take 12 ip = v4_in_v6_prefix then Some (drop 12 ip)
      else None)"

definition ip_equal :: "net_ip \<Rightarrow> net_ip \<Rightarrow> bool" where
  "ip_equal a b =
     (if length a = length b then a = b
      else if length a = 4 \<and> length b = 16 then take 12 b = v4_in_v6_prefix \<and> a = drop 12 b
      else if length a = 16 \<and> length b = 4 then take 12 a = v4_in_v6_prefix \<and> drop 12 a = b
      else False)"

definition ipv4_mapped :: "byte \<Rightarrow> byte \<Rightarrow> byte \<Rightarrow> byte \<Rightarrow> net_ip" where
  "ipv4_mapped a b c d = v4_in_v6_prefix @ [a, b, c, d]"

definition ipv6_zero :: net_ip where
  "ipv6_zero = replicate 16 0"

definition ipv6_loopback :: net_ip where
  "ipv6_loopback = replicate 15 0 @ [1]"

definition is_loopback :: "net_ip \<Rightarrow> bool" where
  "is_loopback ip =
     (case to4 ip of Some q \<Rightarrow> q ! 0 = 127 | None \<Rightarrow> ip_equal ip ipv6_loopback)"

definition is_unspecified :: "net_ip \<Rightarrow> bool" where
  "is_unspecified ip \<longleftrightarrow> ip_equal ip (ipv4_mapped 0 0 0 0) \<or> ip_equal ip ipv6_zero"

definition is_private :: "net_ip \<Rightarrow> bool" where
  "is_private ip =
     (case to4 ip of
        Some q \<Rightarrow> q ! 0 = 10 \<or> (q ! 0 = 172 \<and> q ! 1 AND 0xF0 = 16) \<or> (q ! 0 = 192 \<and> q ! 1 = 168)
      | None \<Rightarrow> length ip = 16 \<and> ip ! 0 AND 0xFE = 0xFC)"

definition is_link_local_unicast :: "net_ip \<Rightarrow> bool" where
  "is_link_local_unicast ip =
     (case to4 ip of
        Some q \<Rightarrow> q ! 0 = 169 \<and> q ! 1 = 254
      | None \<Rightarrow> length ip = 16 \<and> ip ! 0 = 0xFE \<and> ip ! 1 AND 0xC0 = 0x80)"

definition is_multicast :: "net_ip \<Rightarrow> bool" where
  "is_multicast ip =
     (case to4 ip of
        Some q \<Rightarrow> q ! 0 AND 0xF0 = 0xE0
      | None \<Rightarrow> length ip = 16 \<and> ip ! 0 = 0xFF)"

lemmas ip_class_defs =
  is_loopback_def is_unspecified_def is_private_def is_link_local_unicast_def is_multicast_def

lemma to4_mapped [simp]: "to4 (ipv4_mapped a b c d) = Some [a, b, c, d]"
  by (simp add: to4_def ipv4_mapped_def v4_in_v6_prefix_def)

lemma to4_Some_length: "to4 ip = Some q \<Longrightarrow> length q = 4"
  by (auto simp: to4_def split: if_splits)

lemma to4_16_mapped:
  assumes "to4 ip = Some q" "length ip = 16"
  shows "ip = v4_in_v6_prefix @ q"
proof -
  from assms have "take 12 ip = v4_in_v6_prefix" "drop 12 ip = q"
    by (auto simp: to4_def split: if_splits)
  then show ?thesis by (metis append_take_drop_id)
qed

section \<open>Printing\<close>

definition hex_digit :: "nat \<Rightarrow> char" where
  "hex_digit n = (if n < 10 then char_of (48 + n) else char_of (87 + n))"

fun hex_string :: "nat \<Rightarrow> string" where
  "hex_string n =
     (if n < 16 then [hex_digit n] else hex_string (n div 16) @ [hex_digit (n mod 16)])"

declare hex_string.simps [simp del]

definition dotted :: "byte list \<Rightarrow> string" where
  "dotted q = join_str ''.'' (map (\<lambda>b. dec_string (unat b)) q)"

fun groups16 :: "byte list \<Rightarrow> nat list" where
  "groups16 (a # b # bs) = (unat a * 256 + unat b) # groups16 bs"
| "groups16 _ = []"

text \<open>
  The longest run of at least two zero groups, the first one where several are longest
  (RFC 5952), as start index and length.
\<close>

definition zero_run :: "nat list \<Rightarrow> nat \<Rightarrow> nat" where
  "zero_run gs i = length (takeWhile (\<lambda>g. g = 0) (drop i gs))"

definition longest_zero_run :: "nat list \<Rightarrow> nat \<times> nat" where
  "longest_zero_run gs =
     foldl (\<lambda>(s, l) i. if 2 \<le> zero_run gs i \<and> l < zero_run gs i then (i, zero_run gs i) else (s, l))
       (0, 0) [0..<length gs]"

definition ipv6_string :: "nat list \<Rightarrow> string" where
  "ipv6_string gs =
     (let (s, l) = longest_zero_run gs
      in if l = 0 then join_str '':'' (map hex_string gs)
         else join_str '':'' (map hex_string (take s gs)) @ ''::'' @
              join_str '':'' (map hex_string (drop (s + l) gs)))"

definition ip_string :: "net_ip \<Rightarrow> string" where
  "ip_string ip =
     (if ip = [] then ''<nil>''
      else case to4 ip of
        Some q \<Rightarrow> dotted q
      | None \<Rightarrow>
          if length ip = 16 then ipv6_string (groups16 ip)
          else ''?'' @ concat (map (\<lambda>b. [hex_digit (unat b div 16), hex_digit (unat b mod 16)]) ip))"

section \<open>Parsing\<close>

text \<open>
  \<open>netip.parseIPv4Fields\<close>: the flag says that the scan is at the start of a field, then come
  the value and the digit count of the current field and the finished fields.
\<close>

fun ipv4_fields :: "bool \<Rightarrow> nat \<Rightarrow> nat \<Rightarrow> byte list \<Rightarrow> string \<Rightarrow> byte list option" where
  "ipv4_fields st val dl fs [] = (if length fs < 3 then None else Some (fs @ [of_nat val]))"
| "ipv4_fields st val dl fs (c # s) =
     (if is_digit c then
        (if dl = 1 \<and> val = 0 then None
         else if 255 < val * 10 + digit_val c then None
         else ipv4_fields False (val * 10 + digit_val c) (Suc dl) fs s)
      else if c = CHR ''.'' then
        (if st \<or> s = [] then None
         else if length fs = 3 then None
         else ipv4_fields True 0 0 (fs @ [of_nat val]) s)
      else None)"

definition hex_val :: "char \<Rightarrow> nat option" where
  "hex_val c =
     (if is_digit c then Some (code c - 48)
      else if 97 \<le> code c \<and> code c \<le> 102 then Some (code c - 87)
      else if 65 \<le> code c \<and> code c \<le> 70 then Some (code c - 55)
      else None)"

fun hex_group :: "nat \<Rightarrow> nat \<Rightarrow> string \<Rightarrow> (nat \<times> nat \<times> string) option" where
  "hex_group off acc [] = Some (off, acc, [])"
| "hex_group off acc (c # s) =
     (case hex_val c of
        None \<Rightarrow> Some (off, acc, c # s)
      | Some d \<Rightarrow>
          if 3 < off \<or> 65535 < acc * 16 + d then None
          else hex_group (Suc off) (acc * 16 + d) s)"

function ipv6_loop ::
  "byte list \<Rightarrow> nat option \<Rightarrow> string \<Rightarrow> (byte list \<times> nat option \<times> string) option" where
  "ipv6_loop bs ell s =
     (if 16 \<le> length bs then Some (bs, ell, s)
      else case hex_group 0 0 s of
        None \<Rightarrow> None
      | Some (off, acc, r) \<Rightarrow>
          if off = 0 then None
          else if has_prefix r ''.'' then
            (if ell = None \<and> length bs \<noteq> 12 then None
             else if 16 < length bs + 4 then None
             else map_option (\<lambda>q. (bs @ q, ell, [])) (ipv4_fields True 0 0 [] s))
          else
            (let bs' = bs @ [of_nat (acc div 256), of_nat (acc mod 256)]
             in case r of
                  [] \<Rightarrow> Some (bs', ell, [])
                | c # t \<Rightarrow>
                    if c \<noteq> CHR '':'' \<or> t = [] then None
                    else if has_prefix t '':'' then
                      (if ell \<noteq> None then None
                       else if tl t = [] then Some (bs', Some (length bs'), [])
                       else ipv6_loop bs' (Some (length bs')) (tl t))
                    else ipv6_loop bs' ell t))"
  by pat_completeness auto
termination
  by (relation "measure (\<lambda>(bs, ell, s). 16 - length bs)") auto

declare ipv6_loop.simps [simp del]

datatype parsed_addr = Addr4 "byte list" | Addr6 "byte list" string

definition ipv6_finish :: "(byte list \<times> nat option \<times> string) option \<Rightarrow> byte list option" where
  "ipv6_finish r =
     (case r of
        None \<Rightarrow> None
      | Some (bs, ell, s) \<Rightarrow>
          if s \<noteq> [] then None
          else if length bs < 16 then
            (case ell of
               None \<Rightarrow> None
             | Some e \<Rightarrow> Some (take e bs @ replicate (16 - length bs) 0 @ drop e bs))
          else if ell \<noteq> None then None
          else Some bs)"

definition parse_ipv6 :: "string \<Rightarrow> parsed_addr option" where
  "parse_ipv6 inp =
     (let s = takeWhile (\<lambda>c. c \<noteq> CHR ''%'') inp;
          z = dropWhile (\<lambda>c. c \<noteq> CHR ''%'') inp;
          zone = tl z
      in if z \<noteq> [] \<and> zone = [] then None
         else if has_prefix s ''::'' then
           (if drop 2 s = [] then Some (Addr6 ipv6_zero zone)
            else map_option (\<lambda>bs. Addr6 bs zone) (ipv6_finish (ipv6_loop [] (Some 0) (drop 2 s))))
         else map_option (\<lambda>bs. Addr6 bs zone) (ipv6_finish (ipv6_loop [] None s)))"

definition parse_addr :: "string \<Rightarrow> parsed_addr option" where
  "parse_addr s =
     (case find (\<lambda>c. c \<in> {CHR ''.'', CHR '':'', CHR ''%''}) s of
        None \<Rightarrow> None
      | Some c \<Rightarrow>
          if c = CHR ''.'' then map_option Addr4 (ipv4_fields True 0 0 [] s)
          else if c = CHR '':'' then parse_ipv6 s
          else None)"

definition parse_ip :: "string \<Rightarrow> net_ip option" where
  "parse_ip s =
     (case parse_addr s of
        None \<Rightarrow> None
      | Some (Addr4 q) \<Rightarrow> Some (v4_in_v6_prefix @ q)
      | Some (Addr6 bs zone) \<Rightarrow> if zone = [] then Some bs else None)"

section \<open>CIDR prefixes\<close>

record ip_net =
  net_addr :: net_ip
  net_ones :: nat
  net_bits :: nat

definition mask_byte :: "nat \<Rightarrow> byte" where
  "mask_byte k = push_bit (8 - k) (mask k)"

definition cidr_mask :: "nat \<Rightarrow> nat \<Rightarrow> byte list" where
  "cidr_mask ones bits = map (\<lambda>i. mask_byte (min 8 (ones - 8 * i))) [0..<bits div 8]"

definition apply_mask :: "byte list \<Rightarrow> byte list \<Rightarrow> byte list" where
  "apply_mask m bs = map2 (\<lambda>a b. a AND b) m bs"

fun dec_val :: "nat \<Rightarrow> string \<Rightarrow> nat" where
  "dec_val n [] = n"
| "dec_val n (c # s) = dec_val (n * 10 + digit_val c) s"

definition parse_cidr :: "string \<Rightarrow> (net_ip \<times> ip_net) option" where
  "parse_cidr s =
     (let a = takeWhile (\<lambda>c. c \<noteq> CHR ''/'') s;
          m = tl (dropWhile (\<lambda>c. c \<noteq> CHR ''/'') s)
      in if CHR ''/'' \<notin> set s then None
         else case parse_addr a of
           None \<Rightarrow> None
         | Some ad \<Rightarrow>
             (let bits = (case ad of Addr4 _ \<Rightarrow> 32 | Addr6 _ _ \<Rightarrow> 128);
                  bs = (case ad of Addr4 q \<Rightarrow> q | Addr6 b _ \<Rightarrow> b);
                  ip16 = (case ad of Addr4 q \<Rightarrow> v4_in_v6_prefix @ q | Addr6 b _ \<Rightarrow> b);
                  zone = (case ad of Addr4 _ \<Rightarrow> [] | Addr6 _ z \<Rightarrow> z);
                  n = dec_val 0 m
              in if zone \<noteq> [] \<or> m = [] \<or> \<not> list_all is_digit m \<or> bits < n then None
                 else Some (ip16, \<lparr>net_addr = apply_mask (cidr_mask n bits) bs,
                                   net_ones = n, net_bits = bits\<rparr>)))"

text \<open>\<open>networkNumberAndMask\<close>: an IPv4-mapped network is compared on its last four bytes.\<close>

definition network_number_and_mask :: "ip_net \<Rightarrow> net_ip \<times> byte list" where
  "network_number_and_mask n =
     (let m = cidr_mask (net_ones n) (net_bits n)
      in case to4 (net_addr n) of
           Some q \<Rightarrow> (q, if length m = 16 then drop 12 m else m)
         | None \<Rightarrow> (net_addr n, m))"

definition net_contains :: "ip_net \<Rightarrow> net_ip \<Rightarrow> bool" where
  "net_contains n ip =
     (let (nn, m) = network_number_and_mask n;
          x = (case to4 ip of Some q \<Rightarrow> q | None \<Rightarrow> ip)
      in length x = length nn \<and> apply_mask m x = apply_mask m nn)"

definition net_string :: "ip_net \<Rightarrow> string" where
  "net_string n =
     (let (nn, m) = network_number_and_mask n
      in ip_string nn @ ''/'' @ dec_string (net_ones n - (net_bits n - 8 * length m)))"

section \<open>The IPv4 round trip\<close>

lemma ipv4_fields_dec_string:
  "n \<le> 255 \<Longrightarrow>
   ipv4_fields st 0 0 fs (dec_string n @ s) = ipv4_fields False n (length (dec_string n)) fs s"
proof (induction n arbitrary: s rule: dec_string.induct)
  case (1 n)
  show ?case
  proof (cases "n < 10")
    case True
    then show ?thesis using "1.prems" by (simp add: dec_string.simps[of n])
  next
    case False
    then have le: "n div 10 \<le> 255" and pos: "0 < n div 10"
      using "1.prems" by auto
    have "ipv4_fields st 0 0 fs (dec_string (n div 10) @ digit_char (n mod 10) # s) =
        ipv4_fields False (n div 10) (length (dec_string (n div 10))) fs (digit_char (n mod 10) # s)"
      using "1.IH"[OF False le] .
    with False pos "1.prems" show ?thesis by (simp add: dec_string.simps[of n])
  qed
qed

lemma not_digit_dot [simp]: "\<not> is_digit (CHR ''.'')"
  by (simp add: is_digit_def code_def)

lemma parse_addr_dotted: "parse_addr (dotted [a, b, c, d]) = Some (Addr4 [a, b, c, d])"
proof -
  have u: "unat x \<le> 255" for x :: byte
  proof -
    have "unat x < 2 ^ LENGTH(8)" by (rule unsigned_less)
    then show ?thesis by simp
  qed
  have fields: "ipv4_fields True 0 0 [] (dotted [a, b, c, d]) = Some [a, b, c, d]"
    using ipv4_fields_dec_string[OF u, of True "[a, b, c]" d "[]"]
    by (simp add: dotted_def ipv4_fields_dec_string u)
  obtain x xs where hd: "dec_string (unat a) = x # xs" by (cases "dec_string (unat a)") auto
  have dig: "y \<notin> {CHR ''.'', CHR '':'', CHR ''%''}" if "y \<in> set (dec_string n)" for y n
    using dec_string_digits[OF that] by (auto simp: is_digit_def code_def)
  have "find (\<lambda>c. c \<in> {CHR ''.'', CHR '':'', CHR ''%''}) (w @ CHR ''.'' # r) = Some (CHR ''.'')"
    if "\<And>y. y \<in> set w \<Longrightarrow> y \<notin> {CHR ''.'', CHR '':'', CHR ''%''}" for w r
    using that by (induction w) auto
  from this[of "dec_string (unat a)", OF dig] fields show ?thesis
    by (simp add: parse_addr_def dotted_def)
qed

text \<open>Parsing the printed form of an IPv4 address gives the address back.\<close>

lemma parse_ip_dotted: "parse_ip (dotted [a, b, c, d]) = Some (ipv4_mapped a b c d)"
  by (simp add: parse_ip_def parse_addr_dotted ipv4_mapped_def)

lemma length4_cases:
  assumes "length q = 4"
  obtains a b c d where "q = [a, b, c, d]"
proof -
  from assms obtain a b c d where "q = [a, b, c, d]"
    by (auto simp: numeral_eq_Suc length_Suc_conv)
  then show ?thesis by (rule that)
qed

lemma parse_ip_ip_string_v4:
  assumes "to4 ip = Some q"
  shows "parse_ip (ip_string ip) = Some (v4_in_v6_prefix @ q)"
proof -
  have "length q = 4" using assms by (rule to4_Some_length)
  then obtain a b c d where q: "q = [a, b, c, d]" by (rule length4_cases)
  have "ip \<noteq> []" using assms by (auto simp: to4_def split: if_splits)
  with assms q show ?thesis by (simp add: ip_string_def parse_ip_dotted ipv4_mapped_def)
qed

lemma ipv4_fields_length: "ipv4_fields st val dl fs s = Some q \<Longrightarrow> length fs \<le> 3 \<Longrightarrow> length q = 4"
  by (induction st val dl fs s arbitrary: q rule: ipv4_fields.induct) (auto split: if_splits)

section \<open>Lengths\<close>

definition ipv6_state_ok :: "byte list \<times> nat option \<times> string \<Rightarrow> bool" where
  "ipv6_state_ok r = (case r of (bs, ell, s) \<Rightarrow>
     length bs \<le> 16 \<and> (case ell of None \<Rightarrow> True | Some e \<Rightarrow> e \<le> length bs))"

lemma ipv6_loop_ok:
  "ipv6_loop bs ell s = Some r \<Longrightarrow> even (length bs) \<Longrightarrow> ipv6_state_ok (bs, ell, s) \<Longrightarrow> ipv6_state_ok r"
proof (induction bs ell s arbitrary: r rule: ipv6_loop.induct)
  case (1 bs ell s)
  show ?case
  proof (cases "16 \<le> length bs")
    case True
    with "1.prems" show ?thesis by (simp add: ipv6_loop.simps[of bs])
  next
    case False
    with \<open>even (length bs)\<close> have len: "length bs \<le> 14" by (auto elim!: evenE)
    from "1.prems"(1) False obtain off acc t where grp: "hex_group 0 0 s = Some (off, acc, t)"
      by (auto simp: ipv6_loop.simps[of bs] split: option.splits)
    note IH = "1.IH"[OF False grp refl refl]
    show ?thesis
      using "1.prems" False len grp IH ipv4_fields_length[of True 0 0 "[]" s]
      by (auto simp: ipv6_loop.simps[of bs] ipv6_state_ok_def Let_def
          split: if_splits option.splits list.splits)
  qed
qed

lemma ipv6_finish_length:
  "ipv6_finish r = Some bs \<Longrightarrow> (\<And>x. r = Some x \<Longrightarrow> ipv6_state_ok x) \<Longrightarrow> length bs = 16"
  by (auto simp: ipv6_finish_def ipv6_state_ok_def split: option.splits if_splits)

lemma parse_addr_length:
  "parse_addr s = Some (Addr4 q) \<Longrightarrow> length q = 4"
  "parse_addr s = Some (Addr6 bs z) \<Longrightarrow> length bs = 16"
  by (auto simp: parse_addr_def parse_ipv6_def ipv6_zero_def Let_def ipv6_state_ok_def
      split: option.splits if_splits dest!: ipv4_fields_length ipv6_finish_length
      dest: ipv6_loop_ok)

lemma parse_ip_length: "parse_ip s = Some ip \<Longrightarrow> length ip = 16"
  by (auto simp: parse_ip_def v4_in_v6_prefix_def split: option.splits parsed_addr.splits if_splits
      dest: parse_addr_length)

end
