(* ===== verification/Domain.thy ===== *)
theory Domain
  imports Go_Net "HOL-Library.Sublist"
begin

text \<open>
  \<open>internal/domain\<close>: the data every other component passes around, and its pure helpers:
  which commands a node may run, which community rules a route matches, peer types, and the
  audit line of a query. Pointers that the code tests against \<open>nil\<close> are options. A
  \<open>float64\<close> is its IEEE bit pattern and is never computed with here.
\<close>

type_synonym float64 = "64 word"

section \<open>Nodes and commands\<close>

type_synonym node_type = string
type_synonym command_type = string

definition NodeTypeStandalone :: node_type where "NodeTypeStandalone = ''standalone''"
definition NodeTypeLGNode :: node_type where "NodeTypeLGNode = ''lg_node''"

definition CmdPing :: command_type where "CmdPing = ''ping''"
definition CmdTraceroute :: command_type where "CmdTraceroute = ''traceroute''"
definition CmdBGPRoute :: command_type where "CmdBGPRoute = ''bgp_route''"

lemmas cmd_defs = CmdPing_def CmdTraceroute_def CmdBGPRoute_def
lemmas node_type_defs = NodeTypeStandalone_def NodeTypeLGNode_def

definition ValidNodeCommands :: "command_type list" where
  "ValidNodeCommands = [CmdPing, CmdTraceroute, CmdBGPRoute]"

definition IsSupportedNodeCommand :: "string \<Rightarrow> bool" where
  "IsSupportedNodeCommand cmd \<longleftrightarrow> cmd = CmdPing \<or> cmd = CmdTraceroute \<or> cmd = CmdBGPRoute"

text \<open>The loop of \<open>NormalizeEnabledCmds\<close>: the set of commands already kept is an argument.\<close>

fun normalize_cmds_loop :: "command_type list \<Rightarrow> command_type list \<Rightarrow> command_type list" where
  "normalize_cmds_loop seen [] = []"
| "normalize_cmds_loop seen (c # cs) =
     (if c \<notin> set [CmdPing, CmdTraceroute, CmdBGPRoute] \<or> c \<in> set seen
      then normalize_cmds_loop seen cs
      else c # normalize_cmds_loop (c # seen) cs)"

definition NormalizeEnabledCmds :: "command_type list \<Rightarrow> command_type list" where
  "NormalizeEnabledCmds cmds = normalize_cmds_loop [] cmds"

definition NormalizeEnabledCmdStrings :: "string list \<Rightarrow> command_type list" where
  "NormalizeEnabledCmdStrings cmds = NormalizeEnabledCmds (filter IsSupportedNodeCommand cmds)"

definition DefaultEnabledCmds :: "command_type list" where
  "DefaultEnabledCmds = ValidNodeCommands"

record standalone_bgp_config =
  sb_router_id :: string
  sb_local_as :: u32
  sb_peer_as :: u32
  sb_peer_addr :: string
  sb_peer_port :: "16 word"
  sb_auth_pwd :: string
  sb_passive_mode :: bool
  sb_tools_source_ip :: string

record node =
  n_id :: int
  n_name :: string
  n_description :: string
  n_type :: node_type
  n_city :: string
  n_country :: string
  n_lat :: "float64 option"
  n_lon :: "float64 option"
  n_credential_id :: "int option"
  n_active :: bool
  n_is_default :: bool
  n_enabled_cmds :: "command_type list"
  n_bgp_config :: "standalone_bgp_config option"
  n_agent_url :: string
  n_agent_token :: string
  n_created_at :: go_time
  n_updated_at :: go_time

fun can_execute_loop :: "command_type list \<Rightarrow> command_type \<Rightarrow> bool" where
  "can_execute_loop [] cmd = False"
| "can_execute_loop (c # cs) cmd = (if c = cmd then True else can_execute_loop cs cmd)"

definition CanExecute :: "node \<Rightarrow> command_type \<Rightarrow> bool" where
  "CanExecute n cmd = can_execute_loop (n_enabled_cmds n) cmd"

section \<open>Community rules\<close>

type_synonym severity = string

definition SeverityAlert :: severity where "SeverityAlert = ''alert''"
definition SeverityWarning :: severity where "SeverityWarning = ''warning''"
definition SeverityInfo :: severity where "SeverityInfo = ''info''"
definition SeveritySuccess :: severity where "SeveritySuccess = ''success''"

lemmas severity_defs = SeverityAlert_def SeverityWarning_def SeverityInfo_def SeveritySuccess_def

definition NormalizeSeverity :: "severity \<Rightarrow> severity" where
  "NormalizeSeverity s = (if s = ''reject'' then SeverityAlert else s)"

record community_rule =
  cr_id :: int
  cr_community :: string
  cr_severity :: severity
  cr_message_i18n :: string
  cr_scope :: string
  cr_node_id :: "int option"
  cr_active :: bool
  cr_created_at :: go_time
  cr_updated_at :: go_time

definition normalizeCommunity :: "string \<Rightarrow> string" where
  "normalizeCommunity c = trim_space (to_lower c)"

text \<open>A rule list holds pointers, any of which may be nil. The map built from the route's
  communities is a set.\<close>

definition community_set :: "string list \<Rightarrow> string set" where
  "community_set communities =
     foldl (\<lambda>acc c. if normalizeCommunity c \<noteq> [] then insert (normalizeCommunity c) acc else acc)
       {} communities"

fun match_rules_loop ::
  "string set \<Rightarrow> community_rule option list \<Rightarrow> community_rule option list" where
  "match_rules_loop cset [] = []"
| "match_rules_loop cset (None # rules) = match_rules_loop cset rules"
| "match_rules_loop cset (Some rule # rules) =
     (if \<not> cr_active rule then match_rules_loop cset rules
      else if normalizeCommunity (cr_community rule) \<in> cset
      then Some rule # match_rules_loop cset rules
      else match_rules_loop cset rules)"

definition MatchCommunityRules ::
  "community_rule option list \<Rightarrow> string list \<Rightarrow> community_rule option list" where
  "MatchCommunityRules rules communities =
     (if rules = [] \<or> communities = [] then []
      else match_rules_loop (community_set communities) rules)"

section \<open>Routes and results\<close>

record aggregate_info =
  agg_asn :: u32
  agg_address :: string

record bgp_route =
  r_prefix :: string
  r_next_hop :: string
  r_as_path :: "u32 list"
  r_local_pref :: u32
  r_med :: u32
  r_origin :: string
  r_communities :: "string list"
  r_matched_rules :: "community_rule option list"
  r_status :: string
  r_protocol :: string
  r_age :: string
  r_via_default_route :: bool
  r_best :: bool
  r_node_name :: string
  r_aggregate :: "aggregate_info option"
  r_rejected :: bool

definition empty_route :: bgp_route where
  "empty_route =
     \<lparr>r_prefix = [], r_next_hop = [], r_as_path = [], r_local_pref = 0, r_med = 0, r_origin = [],
      r_communities = [], r_matched_rules = [], r_status = [], r_protocol = [], r_age = [],
      r_via_default_route = False, r_best = False, r_node_name = [], r_aggregate = None,
      r_rejected = False\<rparr>"

record node_as_path =
  np_node_id :: int
  np_node_name :: string
  np_prefix :: string
  np_as_path :: "u32 list"
  np_best :: bool
  np_via_default_route :: bool
  np_no_route :: bool

record as_info =
  as_asn :: u32
  as_org_name :: string
  as_short_name :: string
  as_country_code :: string
  as_flag_emoji :: string

definition empty_as_info :: as_info where
  "empty_as_info =
     \<lparr>as_asn = 0, as_org_name = [], as_short_name = [], as_country_code = [], as_flag_emoji = []\<rparr>"

record bgp_result =
  br_routes :: "bgp_route list"
  br_raw :: string
  br_target_as :: "as_info option"

record hop =
  hop_number :: int
  hop_ip :: string
  hop_host :: string
  hop_rtt :: "float64 list"
  hop_as_info :: "as_info option"

record ping_result =
  pg_packets_sent :: int
  pg_packets_recv :: int
  pg_packet_loss :: float64
  pg_min_rtt :: float64
  pg_avg_rtt :: float64
  pg_max_rtt :: float64
  pg_raw :: string

record traceroute_result =
  tr_hops :: "hop list"
  tr_raw :: string

section \<open>BGP neighbours\<close>

type_synonym bgp_peer_type = string

definition BGPPeerInternal :: bgp_peer_type where "BGPPeerInternal = ''internal''"
definition BGPPeerExternal :: bgp_peer_type where "BGPPeerExternal = ''external''"

definition PeerTypeFor :: "u32 \<Rightarrow> u32 \<Rightarrow> bgp_peer_type" where
  "PeerTypeFor localAS remoteAS =
     (if localAS > 0 \<and> remoteAS = localAS then BGPPeerInternal else BGPPeerExternal)"

definition IsInternal :: "bgp_peer_type \<Rightarrow> bool" where
  "IsInternal p \<longleftrightarrow> p = BGPPeerInternal"

definition DefaultPassiveMode :: "u32 \<Rightarrow> u32 \<Rightarrow> bool" where
  "DefaultPassiveMode localAS remoteAS = IsInternal (PeerTypeFor localAS remoteAS)"

record bgp_neighbor =
  bn_id :: int
  bn_node_id :: int
  bn_local_as :: u32
  bn_remote_as :: u32
  bn_peering_ip :: string
  bn_neighbor_ip :: string
  bn_ipv6_peering_ip :: string
  bn_ipv6_neighbor_ip :: string
  bn_multihop :: bool
  bn_passive_mode :: bool
  bn_peer_type :: bgp_peer_type
  bn_default_route_as :: u32
  bn_created_at :: go_time
  bn_updated_at :: go_time

text \<open>
  \<open>BGPSessionState\<close> is a string type; the zero value \<open>""\<close> is what a map lookup of an
  unknown neighbour returns.
\<close>

datatype session_state =
  SessNone | SessIdle | SessConnect | SessActive | SessOpenSent | SessOpenConfirm | SessEstablished

fun session_state_string :: "session_state \<Rightarrow> string" where
  "session_state_string SessNone = []"
| "session_state_string SessIdle = ''idle''"
| "session_state_string SessConnect = ''connect''"
| "session_state_string SessActive = ''active''"
| "session_state_string SessOpenSent = ''open_sent''"
| "session_state_string SessOpenConfirm = ''open_confirm''"
| "session_state_string SessEstablished = ''established''"

record bgp_session_status =
  st_neighbor_id :: int
  st_node_id :: int
  st_state :: session_state
  st_remote_as :: u32
  st_neighbor_ip :: string
  st_prefixes_received :: int
  st_uptime :: string

record bgp_path_detail =
  pd_prefix :: string
  pd_neighbor_ip :: string
  pd_node_name :: string
  pd_identifier :: u32
  pd_source_asn :: u32
  pd_best :: bool
  pd_age :: string
  pd_next_hop :: string
  pd_as_path :: string
  pd_origin :: string
  pd_local_pref :: string
  pd_med :: string
  pd_communities :: "string list"
  pd_attributes :: "string list"

record bgp_route_entry =
  e_prefix :: string
  e_next_hop :: string
  e_as_path :: string
  e_origin :: string
  e_local_pref :: string
  e_med :: string
  e_neighbor_ip :: string
  e_source_asn :: u32
  e_best :: bool
  e_age :: string
  e_age_seconds :: int
  e_originator_id :: string
  e_cluster_list :: "string list"
  e_communities :: "string list"

section \<open>Queries\<close>

text \<open>\<open>QueryStatus\<close> is a string type as well: \<open>StatusNone\<close> is the zero value \<open>""\<close> of
  a result nobody has filled in.\<close>

datatype query_status = StatusNone | StatusPending | StatusRunning | StatusDone | StatusError

record query_options =
  qo_ping_count :: int
  qo_max_hops :: int
  qo_protocol :: string

record query =
  q_id :: string
  q_node_id :: int
  q_command :: command_type
  q_target :: string
  q_options :: query_options
  q_source_ip :: string
  q_user_id :: "int option"
  q_created_at :: go_time

text \<open>\<open>Parsed\<close> is an interface value: nil, or one of three pointer types, itself possibly nil.\<close>

datatype parsed =
    ParsedPing "ping_result option"
  | ParsedTraceroute "traceroute_result option"
  | ParsedBGP "bgp_result option"

record query_result =
  qr_id :: string
  qr_status :: query_status
  qr_raw :: string
  qr_parsed :: "parsed option"
  qr_duration_ms :: int
  qr_last_progress :: "parsed option"
  qr_error_msg :: string
  qr_error_code :: string
  qr_matched_rules :: "community_rule option list"
  qr_as_path :: "u32 list"
  qr_as_path_prefix :: string
  qr_as_path_enriched :: "as_info list"
  qr_as_path_nodes :: "node_as_path list"

definition empty_query_result :: query_result where
  "empty_query_result =
     \<lparr>qr_id = [], qr_status = StatusNone, qr_raw = [], qr_parsed = None, qr_duration_ms = 0,
      qr_last_progress = None, qr_error_msg = [], qr_error_code = [], qr_matched_rules = [],
      qr_as_path = [], qr_as_path_prefix = [], qr_as_path_enriched = [], qr_as_path_nodes = []\<rparr>"

record quick_query =
  qq_id :: int
  qq_command :: string
  qq_name :: string
  qq_target :: string
  qq_node_id :: "int option"
  qq_sort_order :: int
  qq_active :: bool

section \<open>The audit line of a query\<close>

definition em_dash :: string where "em_dash = [CHR 0xE2, CHR 0x80, CHR 0x94]"
definition mid_dot :: string where "mid_dot = [CHR '' '', CHR 0xC2, CHR 0xB7, CHR '' '']"

definition FormatQueryAuditParams :: "string \<Rightarrow> string \<Rightarrow> string \<Rightarrow> int \<Rightarrow> int \<Rightarrow> string" where
  "FormatQueryAuditParams command tgt protocol pingCount maxHops =
     (let s = trim_space tgt;
          extras =
            (if command = ''ping'' then
               (if pingCount > 0 \<and> pingCount \<noteq> 5 then [''count '' @ format_int pingCount] else [])
             else if command = ''traceroute'' then
               (if maxHops > 0 \<and> maxHops \<noteq> 30 then [''max hops '' @ format_int maxHops] else [])
             else []) @
            (if trim_space protocol \<noteq> [] then [trim_space protocol] else [])
      in if s = [] then em_dash
         else if extras \<noteq> [] then s @ mid_dot @ join_str mid_dot extras
         else s)"

section \<open>Properties\<close>

lemma normalize_cmds_loop_dedup:
  "normalize_cmds_loop seen cmds =
     dedup_by (\<lambda>c. c) seen (filter (\<lambda>c. c \<in> set ValidNodeCommands) cmds)"
  by (induction seen cmds rule: normalize_cmds_loop.induct) (auto simp: ValidNodeCommands_def)

lemma NormalizeEnabledCmds_dedup:
  "NormalizeEnabledCmds cmds =
     dedup_by (\<lambda>c. c) [] (filter (\<lambda>c. c \<in> set ValidNodeCommands) cmds)"
  by (simp add: NormalizeEnabledCmds_def normalize_cmds_loop_dedup)

lemma set_NormalizeEnabledCmds [simp]:
  "set (NormalizeEnabledCmds cmds) = set cmds \<inter> set ValidNodeCommands"
  using dedup_by_image[of "\<lambda>c. c" "[]" "filter (\<lambda>c. c \<in> set ValidNodeCommands) cmds"]
  by (auto simp: NormalizeEnabledCmds_dedup)

lemma distinct_NormalizeEnabledCmds [simp]: "distinct (NormalizeEnabledCmds cmds)"
  using distinct_dedup_by[of "\<lambda>c. c" "[]"] by (simp add: NormalizeEnabledCmds_dedup)

lemma dedup_by_distinct_id:
  "distinct xs \<Longrightarrow> set xs \<inter> set seen = {} \<Longrightarrow> dedup_by (\<lambda>c. c) seen xs = xs"
  by (induction xs arbitrary: seen) auto

lemma subseq_dedup_by: "subseq (dedup_by f seen xs) xs"
  by (induction f seen xs rule: dedup_by.induct) auto

lemma NormalizeEnabledCmds_fix:
  "distinct cmds \<Longrightarrow> set cmds \<subseteq> set ValidNodeCommands \<Longrightarrow> NormalizeEnabledCmds cmds = cmds"
  by (simp add: NormalizeEnabledCmds_dedup dedup_by_distinct_id subset_iff filter_True)

lemma community_set_loop:
  "foldl (\<lambda>acc c. if normalizeCommunity c \<noteq> [] then insert (normalizeCommunity c) acc else acc) A cs
     = A \<union> (normalizeCommunity ` set cs - {[]})"
  by (induction cs arbitrary: A) auto

lemma community_set_eq: "community_set cs = normalizeCommunity ` set cs - {[]}"
  by (simp add: community_set_def community_set_loop)

lemma match_rules_loop_filter:
  "match_rules_loop cset rules =
     filter (\<lambda>r. case r of None \<Rightarrow> False
                | Some rule \<Rightarrow> cr_active rule \<and> normalizeCommunity (cr_community rule) \<in> cset) rules"
  by (induction cset rules rule: match_rules_loop.induct) auto

lemma can_execute_loop_iff [simp]: "can_execute_loop cs c \<longleftrightarrow> c \<in> set cs"
  by (induction cs c rule: can_execute_loop.induct) auto

text \<open>Normalising a node's command list keeps exactly the supported commands of the input,
  each once and in the order of its first occurrence; normalising again changes nothing.\<close>

theorem NormalizeEnabledCmds_correct:
  "distinct (NormalizeEnabledCmds cmds) \<and>
   set (NormalizeEnabledCmds cmds) = set cmds \<inter> {c. IsSupportedNodeCommand c} \<and>
   subseq (NormalizeEnabledCmds cmds) cmds \<and>
   NormalizeEnabledCmds (NormalizeEnabledCmds cmds) = NormalizeEnabledCmds cmds \<and>
   NormalizeEnabledCmdStrings cmds = NormalizeEnabledCmds cmds"
proof -
  have valid: "set ValidNodeCommands = {c. IsSupportedNodeCommand c}"
    by (auto simp: ValidNodeCommands_def IsSupportedNodeCommand_def)
  have "subseq (NormalizeEnabledCmds cmds) cmds"
    unfolding NormalizeEnabledCmds_dedup
    by (rule subseq_order.trans[OF subseq_dedup_by subseq_filter_left])
  moreover have "NormalizeEnabledCmdStrings cmds = NormalizeEnabledCmds cmds"
    using valid by (auto simp: NormalizeEnabledCmdStrings_def NormalizeEnabledCmds_dedup
        intro!: arg_cong[where f = "dedup_by (\<lambda>c. c) []"] filter_cong)
  ultimately show ?thesis
    using valid by (auto intro: NormalizeEnabledCmds_fix)
qed

text \<open>\<open>MatchCommunityRules\<close> returns, in rule order, exactly the active rules whose
  community, trimmed and lower-cased, is one of the route's communities so normalised, blank
  communities aside.\<close>

theorem MatchCommunityRules_exact:
  "MatchCommunityRules rules communities =
     map Some (filter (\<lambda>rule. cr_active rule \<and> normalizeCommunity (cr_community rule) \<noteq> [] \<and>
         normalizeCommunity (cr_community rule) \<in> normalizeCommunity ` set communities)
       (List.map_filter (\<lambda>r. r) rules))"
proof -
  have "match_rules_loop (community_set communities) rules =
      map Some (filter (\<lambda>rule. cr_active rule \<and> normalizeCommunity (cr_community rule) \<noteq> [] \<and>
         normalizeCommunity (cr_community rule) \<in> normalizeCommunity ` set communities)
       (List.map_filter (\<lambda>r. r) rules))"
  proof (induction rules)
    case (Cons r rules)
    then show ?case by (cases r) (auto simp: map_filter_simps community_set_eq)
  qed (simp add: map_filter_simps)
  then show ?thesis
    by (auto simp: MatchCommunityRules_def map_filter_simps)
qed

end
