(* ===== verification/Target.thy ===== *)
theory Target
  imports Domain
begin

text \<open>
  \<open>internal/target\<close>: which addresses a query, an agent connection or a redirect may reach.
  The DNS resolver (\<open>lookup\<close>), the list of this host's interface addresses
  (\<open>ifaces\<close>) and \<open>url.Parse\<close> are arguments. An \<open>error\<close> of the resolver is an \<open>Inl\<close>.
\<close>

type_synonym dns_lookup = "string \<Rightarrow> go_error + net_ip list"
type_synonym iface_list = "net_ip option list option"

section \<open>Blocked addresses\<close>

definition IPv4bcast :: net_ip where "IPv4bcast = ipv4_mapped 255 255 255 255"

definition IsBlockedIP :: "net_ip \<Rightarrow> bool" where
  "IsBlockedIP ip =
     (if is_loopback ip \<or> is_unspecified ip \<or> is_private ip then True
      else if is_link_local_unicast ip \<or> is_multicast ip then True
      else case to4 ip of
        Some ip4 \<Rightarrow>
          if ip4 ! 0 = 169 \<and> ip4 ! 1 = 254 then True
          else if ip4 ! 0 = 0 then True
          else if ip4 ! 0 = 100 \<and> ip4 ! 1 \<ge> 64 \<and> ip4 ! 1 \<le> 127 then True
          else if ip_equal ip4 IPv4bcast then True
          else False
      | None \<Rightarrow> False)"

section \<open>Query targets\<close>

definition not_allowed :: "string \<Rightarrow> go_error" where
  "not_allowed s = PlainError (''target '' @ s @ '' is not allowed'')"

definition ResolveHost :: "dns_lookup \<Rightarrow> string \<Rightarrow> go_error + string" where
  "ResolveHost lookup raw =
     (let tgt = trim_space raw in
      if tgt = [] then Inl (PlainError ''empty target'')
      else case parse_ip tgt of
        Some ip \<Rightarrow> if IsBlockedIP ip then Inl (not_allowed tgt) else Inr (ip_string ip)
      | None \<Rightarrow>
         (case lookup tgt of
            Inl _ \<Rightarrow> Inl (WrapError ('': '' @ tgt) ErrDNSNotFound)
          | Inr [] \<Rightarrow> Inl (WrapError ('': '' @ tgt) ErrDNSNotFound)
          | Inr (ip # ips) \<Rightarrow>
             (case find IsBlockedIP (ip # ips) of
                Some bad \<Rightarrow>
                  Inl (PlainError (''resolved target contains blocked address '' @ ip_string bad))
              | None \<Rightarrow> Inr (ip_string ip))))"

definition unsafe_chars :: string where
  "unsafe_chars = '';|&`$(){}[]!><'' @ [CHR 0x0A, CHR 0x0D]"

definition isUnsafeTarget :: "string \<Rightarrow> bool" where
  "isUnsafeTarget tgt \<longleftrightarrow> list_ex (\<lambda>c. c \<in> set unsafe_chars) tgt \<or> length tgt > 253"

definition normalizeBGPLookupTarget :: "string \<Rightarrow> go_error + string" where
  "normalizeBGPLookupTarget tgt =
     (case parse_cidr tgt of
        None \<Rightarrow> Inl (PlainError (''invalid prefix: '' @ tgt))
      | Some (ip, ipNet) \<Rightarrow>
          if net_ones ipNet = net_bits ipNet then
            (if IsBlockedIP ip then Inl (not_allowed (ip_string ip)) else Inr (ip_string ip))
          else Inr tgt)"

definition NormalizeBGPLookup :: "dns_lookup \<Rightarrow> string \<Rightarrow> go_error + string" where
  "NormalizeBGPLookup lookup raw =
     (let tgt = trim_space raw in
      if tgt = [] then Inl (PlainError ''empty target'')
      else if contains_str tgt ''/'' then normalizeBGPLookupTarget tgt
      else case parse_ip tgt of
        Some ip \<Rightarrow> if IsBlockedIP ip then Inl (not_allowed tgt) else Inr (ip_string ip)
      | None \<Rightarrow> ResolveHost lookup tgt)"

definition ValidateQueryTarget :: "dns_lookup \<Rightarrow> string \<Rightarrow> string \<Rightarrow> go_error + string" where
  "ValidateQueryTarget lookup command raw =
     (let tgt = trim_space raw in
      if tgt = [] \<or> isUnsafeTarget tgt then Inl ErrInvalidTarget
      else if command = CmdBGPRoute then
        (case NormalizeBGPLookup lookup tgt of
           Inl err \<Rightarrow> if errors_is err ErrDNSNotFound then Inl ErrDNSNotFound else Inl ErrInvalidTarget
         | Inr normalized \<Rightarrow> Inr normalized)
      else case parse_ip tgt of
        Some ip \<Rightarrow> if IsBlockedIP ip then Inl ErrInvalidTarget else Inr (ip_string ip)
      | None \<Rightarrow>
         (case ResolveHost lookup tgt of
            Inl err \<Rightarrow> if errors_is err ErrDNSNotFound then Inl ErrDNSNotFound else Inl ErrInvalidTarget
          | Inr resolved \<Rightarrow> Inr resolved))"

section \<open>Agent addresses\<close>

text \<open>\<open>interfaceAddrs\<close> fails (None), or lists addresses of which only the \<open>*net.IPNet\<close>
  ones (Some) are looked at.\<close>

definition isLocalInterfaceIP :: "iface_list \<Rightarrow> net_ip \<Rightarrow> bool" where
  "isLocalInterfaceIP ifaces ip =
     (case ifaces of
        None \<Rightarrow> False
      | Some as \<Rightarrow> list_ex (\<lambda>a. case a of None \<Rightarrow> False | Some n \<Rightarrow> ip_equal n ip) as)"

definition AllowedAgentIP :: "iface_list \<Rightarrow> net_ip \<Rightarrow> bool" where
  "AllowedAgentIP ifaces ip =
     (if is_loopback ip then True
      else if isLocalInterfaceIP ifaces ip then True
      else if IsBlockedIP ip then False
      else True)"

text \<open>\<open>strings.Trim(s, "[]")\<close>.\<close>

definition trim_brackets :: "string \<Rightarrow> string" where
  "trim_brackets s =
     rev (dropWhile (\<lambda>c. c \<in> {CHR ''['', CHR '']''})
       (rev (dropWhile (\<lambda>c. c \<in> {CHR ''['', CHR '']''}) s)))"

definition AllowedAgentHost :: "dns_lookup \<Rightarrow> iface_list \<Rightarrow> string \<Rightarrow> bool" where
  "AllowedAgentHost lookup ifaces raw =
     (let host = trim_brackets (to_lower (trim_space raw)) in
      if host = [] then False
      else if host = ''localhost'' then True
      else case parse_ip host of
        Some ip \<Rightarrow> AllowedAgentIP ifaces ip
      | None \<Rightarrow>
         (case lookup host of
            Inl _ \<Rightarrow> False
          | Inr addrs \<Rightarrow> addrs \<noteq> [] \<and> list_all (AllowedAgentIP ifaces) addrs))"

text \<open>A parsed URL: its scheme and its \<open>host[:port]\<close>.\<close>

record url =
  u_scheme :: string
  u_host :: string

definition last_colon :: "string \<Rightarrow> nat option" where
  "last_colon s =
     (if CHR '':'' \<in> set s
      then Some (length s - Suc (length (takeWhile (\<lambda>c. c \<noteq> CHR '':'') (rev s))))
      else None)"

definition validOptionalPort :: "string \<Rightarrow> bool" where
  "validOptionalPort p = (case p of [] \<Rightarrow> True | c # r \<Rightarrow> c = CHR '':'' \<and> list_all is_digit r)"

definition splitHostPort :: "string \<Rightarrow> string \<times> string" where
  "splitHostPort hp =
     (let (host, port) =
        (case last_colon hp of
           Some i \<Rightarrow> if validOptionalPort (drop i hp) then (take i hp, drop (Suc i) hp) else (hp, [])
         | None \<Rightarrow> (hp, []))
      in (if has_prefix host ''['' \<and> has_suffix host '']'' then butlast (tl host) else host, port))"

definition Hostname :: "url \<Rightarrow> string" where "Hostname u = fst (splitHostPort (u_host u))"
definition Port :: "url \<Rightarrow> string" where "Port u = snd (splitHostPort (u_host u))"

definition ValidAgentURL ::
  "(string \<Rightarrow> url option) \<Rightarrow> dns_lookup \<Rightarrow> iface_list \<Rightarrow> string \<Rightarrow> bool" where
  "ValidAgentURL url_parse lookup ifaces raw =
     (if raw = [] then True
      else case url_parse raw of
        None \<Rightarrow> False
      | Some u \<Rightarrow>
          if (u_scheme u \<noteq> ''http'' \<and> u_scheme u \<noteq> ''https'') \<or> u_host u = [] then False
          else AllowedAgentHost lookup ifaces (Hostname u))"

section \<open>Redirects\<close>

text \<open>A redirect policy sees the URL of the next request and those already made, oldest first.\<close>

type_synonym redirect_policy = "url \<Rightarrow> url list \<Rightarrow> go_error option"

definition maxRedirects :: nat where "maxRedirects = 3"

definition CheckSameHostRedirect :: redirect_policy where
  "CheckSameHostRedirect req via =
     (if via = [] then None
      else if length via > maxRedirects
      then Some (PlainError (''stopped after '' @ dec_string (length via) @ '' redirects''))
      else if u_host req = u_host (hd via) then None
      else Some (PlainError (''refusing cross-host redirect from '' @ u_host (hd via) @ '' to '' @ u_host req)))"

definition GitHubReleaseAssetHosts :: "string list" where
  "GitHubReleaseAssetHosts =
     [''release-assets.githubusercontent.com'', ''objects.githubusercontent.com'']"

definition MaxMindDownloadHosts :: "string list" where
  "MaxMindDownloadHosts =
     [''mm-prod-geoip-databases.a2649acb697e2c09b632799562c076f2.r2.cloudflarestorage.com'']"

definition CheckRedirectToHosts :: "string list \<Rightarrow> redirect_policy" where
  "CheckRedirectToHosts hosts req via =
     (let err = CheckSameHostRedirect req via in
      if err = None \<or> length via > maxRedirects then err
      else if Hostname req \<in> set hosts \<and> u_scheme req = ''https'' \<and> Port req = [] then None
      else err)"

text \<open>The requests an HTTP client makes under a policy: it follows a redirect only when the
  policy, shown the requests made so far, returns nil.\<close>

inductive redirect_chain :: "redirect_policy \<Rightarrow> url list \<Rightarrow> bool" for policy where
  first: "redirect_chain policy [req]"
| follow: "redirect_chain policy via \<Longrightarrow> policy req via = None \<Longrightarrow> redirect_chain policy (via @ [req])"

inductive_cases redirect_chainE: "redirect_chain policy reqs"

section \<open>The blocked ranges as prefixes\<close>

text \<open>0.0.0.0/8, 10/8, 100.64/10, 127/8, 169.254/16, 172.16/12, 192.168/16, 224/4,
  255.255.255.255/32, ::/128, ::1/128, fc00::/7, fe80::/10 and ff00::/8.\<close>

definition blocked_v4 :: "ip_net list" where
  "blocked_v4 =
     [\<lparr>net_addr = [0, 0, 0, 0], net_ones = 8, net_bits = 32\<rparr>,
      \<lparr>net_addr = [10, 0, 0, 0], net_ones = 8, net_bits = 32\<rparr>,
      \<lparr>net_addr = [100, 64, 0, 0], net_ones = 10, net_bits = 32\<rparr>,
      \<lparr>net_addr = [127, 0, 0, 0], net_ones = 8, net_bits = 32\<rparr>,
      \<lparr>net_addr = [169, 254, 0, 0], net_ones = 16, net_bits = 32\<rparr>,
      \<lparr>net_addr = [172, 16, 0, 0], net_ones = 12, net_bits = 32\<rparr>,
      \<lparr>net_addr = [192, 168, 0, 0], net_ones = 16, net_bits = 32\<rparr>,
      \<lparr>net_addr = [224, 0, 0, 0], net_ones = 4, net_bits = 32\<rparr>,
      \<lparr>net_addr = [255, 255, 255, 255], net_ones = 32, net_bits = 32\<rparr>]"

definition blocked_v6 :: "ip_net list" where
  "blocked_v6 =
     [\<lparr>net_addr = replicate 16 0, net_ones = 128, net_bits = 128\<rparr>,
      \<lparr>net_addr = replicate 15 0 @ [1], net_ones = 128, net_bits = 128\<rparr>,
      \<lparr>net_addr = 252 # replicate 15 0, net_ones = 7, net_bits = 128\<rparr>,
      \<lparr>net_addr = 254 # 128 # replicate 14 0, net_ones = 10, net_bits = 128\<rparr>,
      \<lparr>net_addr = 255 # replicate 15 0, net_ones = 8, net_bits = 128\<rparr>]"

lemma cidr_masks:
  "cidr_mask 8 32 = [255, 0, 0, 0]" "cidr_mask 10 32 = [255, 192, 0, 0]"
  "cidr_mask 16 32 = [255, 255, 0, 0]" "cidr_mask 12 32 = [255, 240, 0, 0]"
  "cidr_mask 4 32 = [240, 0, 0, 0]" "cidr_mask 32 32 = [255, 255, 255, 255]"
  "cidr_mask 128 128 = replicate 16 255" "cidr_mask 7 128 = 254 # replicate 15 0"
  "cidr_mask 10 128 = 255 # 192 # replicate 14 0" "cidr_mask 8 128 = 255 # replicate 15 0"
  by code_simp+

lemma byte_255_and [simp]: "(255 :: byte) AND b = b"
proof -
  have "(255 :: byte) = - 1" by simp
  then show ?thesis by (metis and.left_neutral)
qed

lemma map2_and_zero: "length r = n \<Longrightarrow> map2 (\<lambda>a b. a AND b) (replicate n (0 :: byte)) r = replicate n 0"
  by (induction n arbitrary: r) (auto simp: length_Suc_conv)

lemma map2_and_ones: "length r = n \<Longrightarrow> map2 (\<lambda>a b. a AND b) (replicate n (255 :: byte)) r = r"
  by (induction n arbitrary: r) (auto simp: length_Suc_conv)

lemma unat_byte_less: "unat (b :: byte) < 256"
  using unsigned_less[of b] by simp

lemma and_shifted_mask: "push_bit n (mask m) AND (w :: 'a::len word) = push_bit n (take_bit m (drop_bit n w))"
  by (rule bit_word_eqI) (auto simp: bit_simps)

lemma byte_high_bits: "unat ((192 :: byte) AND b) = 64 * (unat b div 64)"
proof -
  have d: "unat (drop_bit 6 b) = unat b div 64"
    by (rule trans[OF unat_drop_bit_eq]) (simp add: drop_bit_eq_div)
  have t: "unat (take_bit 2 (drop_bit 6 b)) = unat b div 64"
    by (rule trans[OF unsigned_take_bit_eq]) (use d unat_byte_less[of b] in \<open>simp add: take_bit_eq_mod\<close>)
  have "unat (push_bit 6 (take_bit 2 (drop_bit 6 b))) = 64 * (unat b div 64)"
    by (rule trans[OF unsigned_push_bit_eq])
       (use t unat_byte_less[of b] in \<open>simp add: take_bit_eq_mod push_bit_eq_mult\<close>)
  moreover have "(192 :: byte) = push_bit 6 (mask 2)" by (simp add: mask_eq_exp_minus_1)
  ultimately show ?thesis using and_shifted_mask[of 6 2 b] by simp
qed

lemma byte_cgn: "(192 :: byte) AND b = 64 \<longleftrightarrow> 64 \<le> b \<and> b \<le> 127"
proof -
  have "192 AND b = 64 \<longleftrightarrow> unat (192 AND b) = 64"
    using word_unat_eq_iff[of "192 AND b" 64] by simp
  then show ?thesis
    unfolding byte_high_bits word_le_nat_alt by auto
qed

lemma prefix_not_zero: "v4_in_v6_prefix \<noteq> replicate 12 0"
proof
  assume "v4_in_v6_prefix = replicate 12 0"
  then have "v4_in_v6_prefix ! 10 = replicate 12 0 ! 10" by simp
  then show False by (simp add: v4_in_v6_prefix_def)
qed

lemma prefix_Cons: "x # r = v4_in_v6_prefix \<longleftrightarrow> x = 0 \<and> r = tl v4_in_v6_prefix"
  by (auto simp: v4_in_v6_prefix_def)

lemma take_zero_loopback: "take 12 ipv6_zero = replicate 12 0" "take 12 ipv6_loopback = replicate 12 0"
  "length ipv6_zero = 16" "length ipv6_loopback = 16"
  by (simp_all add: ipv6_zero_def ipv6_loopback_def)

lemma ip_equal_to4:
  assumes "to4 ip = Some q"
  shows "ip_equal ip (ipv4_mapped a b c d) \<longleftrightarrow> q = [a, b, c, d]"
    and "\<not> ip_equal ip ipv6_zero" and "\<not> ip_equal ip ipv6_loopback"
proof -
  have len: "length v4_in_v6_prefix = 12" by (simp add: v4_in_v6_prefix_def)
  show "ip_equal ip (ipv4_mapped a b c d) \<longleftrightarrow> q = [a, b, c, d]"
    using assms to4_16_mapped[OF assms]
    by (auto simp: to4_def ip_equal_def ipv4_mapped_def len split: if_splits)
  show "\<not> ip_equal ip ipv6_zero" and "\<not> ip_equal ip ipv6_loopback"
    using assms take_zero_loopback prefix_not_zero
    by (auto simp: to4_def ip_equal_def split: if_splits)
qed

lemma ip_equal_v6:
  assumes "to4 ip = None" "length ip = 16"
  shows "\<not> ip_equal ip (ipv4_mapped a b c d)"
    and "ip_equal ip ipv6_zero \<longleftrightarrow> ip = ipv6_zero" and "ip_equal ip ipv6_loopback \<longleftrightarrow> ip = ipv6_loopback"
  using assms 
  by (auto simp: to4_def ip_equal_def ipv4_mapped_def v4_in_v6_prefix_def ipv6_zero_def ipv6_loopback_def)

lemma bcast: "ip_equal [a, b, c, d] IPv4bcast \<longleftrightarrow> a = 255 \<and> b = 255 \<and> c = 255 \<and> d = 255"
   by (simp add: IPv4bcast_def ip_equal_def ipv4_mapped_def v4_in_v6_prefix_def)

lemma blocked_v4_iff:
  assumes "to4 ip = Some [a, b, c, d]"
  shows "IsBlockedIP ip \<longleftrightarrow> list_ex (\<lambda>n. net_contains n ip) blocked_v4"
proof -
  have "list_ex (\<lambda>n. net_contains n ip) blocked_v4 \<longleftrightarrow> 
     a = 0 \<or> a = 10 \<or> a = 100 \<and> 192 AND b = 64 \<or> a = 127 \<or> a = 169 \<and> b = 254 \<or>
     a = 172 \<and> 240 AND b = 16 \<or> a = 192 \<and> b = 168 \<or> 240 AND a = 224 \<or>
     a = 255 \<and> b = 255 \<and> c = 255 \<and> d = 255"
  using assms  by (simp add: blocked_v4_def net_contains_def network_number_and_mask_def cidr_masks to4_def[of "[_,_,_,_]"] apply_mask_def Let_def)
  moreover have "IsBlockedIP ip \<longleftrightarrow> 
     a = 0 \<or> a = 10 \<or> a = 100 \<and> 64 \<le> b \<and> b \<le> 127 \<or> a = 127 \<or> a = 169 \<and> b = 254 \<or>
     a = 172 \<and> b AND 240 = 16 \<or> a = 192 \<and> b = 168 \<or> a AND 240 = 224 \<or>
     a = 255 \<and> b = 255 \<and> c = 255 \<and> d = 255"
    using assms by (simp add: IsBlockedIP_def is_loopback_def is_private_def is_link_local_unicast_def is_multicast_def bcast)
       (auto simp: is_unspecified_def ip_equal_to4[OF assms])
  ultimately show ?thesis using byte_cgn[of b] by (simp add: and.commute)
qed

lemma blocked_v6_iff: 
  assumes "to4 (a # b # r) = None" "length r = 14"
  shows "IsBlockedIP (a # b # r) \<longleftrightarrow> list_ex (\<lambda>n. net_contains n (a # b # r)) blocked_v6"
proof -
  have "list_ex (\<lambda>n. net_contains n (a # b # r)) blocked_v6 \<longleftrightarrow> 
     a # b # r = ipv6_zero \<or> a # b # r = ipv6_loopback \<or>
       254 AND a = 252 \<or> a = 254 \<and> 192 AND b = 128 \<or> a = 255"
    using assms(2) unfolding ipv6_zero_def ipv6_loopback_def
  by (simp add: assms(1) blocked_v6_def net_contains_def network_number_and_mask_def cidr_masks to4_def[of "replicate _ _"] to4_def[of "_ # replicate _ _"] to4_def[of "_ # _ # replicate _ _"] to4_def[of "_ @ _"] prefix_Cons prefix_not_zero[symmetric] Let_def apply_mask_def map2_and_zero map2_and_ones)
  moreover have "IsBlockedIP (a # b # r) \<longleftrightarrow> 
     a # b # r = ipv6_zero \<or> a # b # r = ipv6_loopback \<or>
       a AND 254 = 252 \<or> a = 254 \<and> b AND 192 = 128 \<or> a = 255"
    using assms by (simp add: IsBlockedIP_def ip_class_defs ip_equal_v6)
  ultimately show ?thesis by (simp add: and.commute)
qed

lemma blocked_v4_v6:
  "to4 ip = None \<Longrightarrow> length ip = 16 \<Longrightarrow> \<not> list_ex (\<lambda>n. net_contains n ip) blocked_v4"
  by (simp add: blocked_v4_def net_contains_def network_number_and_mask_def cidr_masks
      to4_def[of "[_,_,_,_]"] Let_def)

lemma blocked_v6_v4:
  "to4 ip = Some [a, b, c, d] \<Longrightarrow> \<not> list_ex (\<lambda>n. net_contains n ip) blocked_v6"
  by (simp add: blocked_v6_def net_contains_def network_number_and_mask_def to4_def[of "replicate _ _"]
      to4_def[of "_ # _"] to4_def[of "_ @ _"] prefix_Cons prefix_not_zero[symmetric] Let_def)

section \<open>The printed form of an address\<close>

definition addr_char :: "char \<Rightarrow> bool" where
  "addr_char c \<longleftrightarrow> is_digit c \<or> c \<in> set ''abcdef.:''"

lemma addr_char_digit [simp]: "is_digit c \<Longrightarrow> addr_char c"
  by (simp add: addr_char_def)

lemma code_eq_char_of: "code c = n \<longleftrightarrow> n < 256 \<and> c = char_of n"
  by (auto simp: code_def)

lemma addr_char_hex_digit [simp]: "n < 16 \<Longrightarrow> addr_char (hex_digit n)"
proof -
  assume n: "n < 16"
  show ?thesis
  proof (cases "n < 10")
    case True
    then have "hex_digit n = digit_char n" by (simp add: hex_digit_def digit_char_def)
    with True show ?thesis by simp
  next
    case False
    with n have "n = 10 \<or> n = 11 \<or> n = 12 \<or> n = 13 \<or> n = 14 \<or> n = 15" by arith
    then show ?thesis
      by (elim disjE) (simp_all add: addr_char_def hex_digit_def char_of_def bit_simps)
  qed
qed

lemma addr_char_hex_string: "c \<in> set (hex_string n) \<Longrightarrow> addr_char c"
proof (induction n rule: hex_string.induct)
  case (1 n)
  then show ?case by (subst (asm) hex_string.simps) (auto split: if_splits)
qed

lemma set_join_str: "c \<in> set (join_str sep ws) \<Longrightarrow> c \<in> set sep \<or> (\<exists>w \<in> set ws. c \<in> set w)"
  by (induction sep ws rule: join_str.induct) auto

lemma addr_char_ipv6_string: "c \<in> set (ipv6_string gs) \<Longrightarrow> addr_char c"
  by (auto simp: ipv6_string_def addr_char_def[of "CHR '':''"] Let_def split: prod.splits if_splits
      dest!: set_join_str intro: addr_char_hex_string)

lemma addr_char_dotted: "c \<in> set (dotted q) \<Longrightarrow> addr_char c"
  by (auto simp: dotted_def addr_char_def[of "CHR ''.''"] dest!: set_join_str dec_string_digits)

lemma to4_len4: "length ip = 4 \<Longrightarrow> to4 ip = Some ip"
  by (simp add: to4_def)

lemma addr_char_ip_string:
  assumes "c \<in> set (ip_string ip)" and "length ip = 4 \<or> length ip = 16"
  shows "addr_char c"
  using assms addr_char_dotted addr_char_ipv6_string to4_len4[of ip]
  by (auto simp: ip_string_def split: option.splits if_splits)

lemma addr_char_plain: "addr_char c \<Longrightarrow> c \<notin> set unsafe_chars \<and> c \<noteq> CHR ''/'' \<and> \<not> space_start c"
  by (auto simp: addr_char_def unsafe_chars_def space_start_def space_seqs_def is_digit_def code_def)

section \<open>Properties\<close>

text \<open>C2: An IPv4 or IPv6 address is blocked exactly when it lies in one of the fourteen special
  prefixes; an IPv4 address in its IPv6-mapped form is judged as the IPv4 address.\<close>

theorem IsBlockedIP_prefixes:
  assumes "length ip = 4 \<or> length ip = 16"
  shows "IsBlockedIP ip \<longleftrightarrow> list_ex (\<lambda>n. net_contains n ip) (blocked_v4 @ blocked_v6)"
proof (cases "to4 ip")
  case (Some q)
  then obtain a b c d where "q = [a, b, c, d]"
    using to4_Some_length length4_cases by blast
  with Some show ?thesis by (simp add: blocked_v4_iff blocked_v6_v4)
next
  case None
  with assms have len: "length ip = 16" by (auto simp: to4_def)
  then obtain a b r where "ip = a # b # r" "length r = 14"
    by (cases ip; cases "tl ip") auto
  with None len show ?thesis using blocked_v6_iff[of a b r] blocked_v4_v6[of ip] by simp
qed

lemma IsBlockedIP_prefixes_witness: "IsBlockedIP (ipv4_mapped 100 64 0 1)"
  using IsBlockedIP_prefixes[of "ipv4_mapped 100 64 0 1"]
  by (simp add: blocked_v4_def net_contains_def network_number_and_mask_def cidr_masks
      to4_def[of "[_,_,_,_]"] apply_mask_def ipv4_mapped_def v4_in_v6_prefix_def
      to4_mapped[unfolded ipv4_mapped_def v4_in_v6_prefix_def, simplified])

lemma ResolveHost_InrE:
  assumes "ResolveHost lookup raw = Inr s"
  obtains ip where "s = ip_string ip" and "\<not> IsBlockedIP ip"
    and "parse_ip (trim_space raw) = Some ip \<or>
         (\<exists>ips. lookup (trim_space raw) = Inr (ip # ips) \<and>
                list_all (\<lambda>a. \<not> IsBlockedIP a) (ip # ips))"
  using assms
  by (auto simp: ResolveHost_def Let_def find_None_iff list_all_iff
      split: if_splits option.splits sum.splits list.splits)

lemma ResolveHost_Inl:
  "ResolveHost lookup raw = Inl e \<Longrightarrow> errors_is e ErrDNSNotFound \<Longrightarrow>
   parse_ip (trim_space raw) = None \<and> (\<forall>ips. lookup (trim_space raw) = Inr ips \<longrightarrow> ips = [])"
  by (auto simp: ResolveHost_def Let_def not_allowed_def
      split: if_splits option.splits sum.splits list.splits)

text \<open>C4: A ping or traceroute target is accepted only as the printed form of an address that is
  not blocked: the address the target itself spells, or the first of the addresses its name
  resolves to, none of which is blocked.\<close>

theorem ValidateQueryTarget_address:
  assumes "ValidateQueryTarget lookup command raw = Inr s" and "command \<noteq> CmdBGPRoute"
  shows "\<exists>ip. s = ip_string ip \<and> \<not> IsBlockedIP ip \<and>
    (parse_ip (trim_space raw) = Some ip \<or>
     (\<exists>ips. lookup (trim_space raw) = Inr (ip # ips) \<and>
            list_all (\<lambda>a. \<not> IsBlockedIP a) (ip # ips)))"
  using assms
  by (auto simp: ValidateQueryTarget_def Let_def split: if_splits option.splits sum.splits
      elim!: ResolveHost_InrE)

text \<open>A BGP lookup target is accepted as the printed form of an unblocked address, or
  unchanged as a prefix shorter than a host route.\<close>

theorem ValidateQueryTarget_bgp:
  assumes "ValidateQueryTarget lookup CmdBGPRoute raw = Inr s"
  shows "(\<exists>ip. s = ip_string ip \<and> \<not> IsBlockedIP ip) \<or>
    (s = trim_space raw \<and> \<not> isUnsafeTarget s \<and>
     (\<exists>ip n. parse_cidr s = Some (ip, n) \<and> net_ones n < net_bits n))"
proof -
  have le: "parse_cidr t = Some (ip, n) \<Longrightarrow> net_ones n \<le> net_bits n" for t ip n
    by (auto simp: parse_cidr_def Let_def split: if_splits option.splits)
  from assms show ?thesis
    by (auto simp: ValidateQueryTarget_def NormalizeBGPLookup_def normalizeBGPLookupTarget_def Let_def
        less_le split: if_splits option.splits sum.splits elim!: ResolveHost_InrE dest: le)
qed

text \<open>Validation fails with one of two errors only, and reports that a name was not found
  only for a target that is no address and for which the resolver failed or found nothing.\<close>

theorem ValidateQueryTarget_errors:
  assumes "ValidateQueryTarget lookup command raw = Inl e"
  shows "e = ErrInvalidTarget \<or>
    (e = ErrDNSNotFound \<and> parse_ip (trim_space raw) = None \<and>
     (\<forall>ips. lookup (trim_space raw) = Inr ips \<longrightarrow> ips = []))"
  using assms
  by (auto simp: ValidateQueryTarget_def NormalizeBGPLookup_def normalizeBGPLookupTarget_def
      not_allowed_def Let_def split: if_splits option.splits sum.splits dest: ResolveHost_Inl)

text \<open>The resolver returns IPv4 and IPv6 addresses only.\<close>

definition lookup_ok :: "dns_lookup \<Rightarrow> bool" where
  "lookup_ok lookup \<longleftrightarrow>
     (\<forall>h ips. lookup h = Inr ips \<longrightarrow> list_all (\<lambda>ip. length ip = 4 \<or> length ip = 16) ips)"

lemma accepted_address_length:
  assumes "lookup_ok lookup"
    and "parse_ip t = Some ip \<or> (\<exists>ips. lookup t = Inr (ip # ips) \<and> Q ips)"
  shows "length ip = 4 \<or> length ip = 16"
  using assms by (fastforce simp: lookup_ok_def dest: parse_ip_length)

lemma length_dec_string: "n < 256 \<Longrightarrow> length (dec_string n) \<le> 3"
  by (subst dec_string.simps, subst dec_string.simps, subst dec_string.simps) (auto split: if_splits)

lemma dotted_plain:
  "\<not> isUnsafeTarget (dotted [a, b, c, d])" "trim_space (dotted [a, b, c, d]) = dotted [a, b, c, d]"
  "dotted [a, b, c, d] \<noteq> []" "CHR ''/'' \<notin> set (dotted [a, b, c, d])"
proof -
  have "length (dotted [a, b, c, d]) \<le> 15"
    using length_dec_string[OF unat_byte_less, of a] length_dec_string[OF unat_byte_less, of b]
      length_dec_string[OF unat_byte_less, of c] length_dec_string[OF unat_byte_less, of d]
    by (simp add: dotted_def)
  then show "\<not> isUnsafeTarget (dotted [a, b, c, d])"
    using addr_char_dotted addr_char_plain by (auto simp: isUnsafeTarget_def list_ex_iff)
  show "trim_space (dotted [a, b, c, d]) = dotted [a, b, c, d]"
    using addr_char_dotted addr_char_plain by (blast intro: trim_space_fix)
  show "dotted [a, b, c, d] \<noteq> []" by (simp add: dotted_def)
  show "CHR ''/'' \<notin> set (dotted [a, b, c, d])"
    using addr_char_dotted addr_char_plain by blast
qed

lemma contains_str_single: "contains_str s [c] \<longleftrightarrow> c \<in> set s"
  by (induction s) (auto simp: has_prefix_def)

lemma IsBlockedIP_to4:
  assumes "to4 ip = Some q" and "to4 ip' = Some q"
  shows "IsBlockedIP ip = IsBlockedIP ip'"
proof -
  obtain a b c d where "q = [a, b, c, d]" using assms(1) to4_Some_length length4_cases by blast
  with assms show ?thesis by (simp add: blocked_v4_iff net_contains_def)
qed

lemma ip_string_v4:
  assumes "to4 ip = Some [a, b, c, d]"
  shows "ip_string ip = dotted [a, b, c, d]" "ip_string (ipv4_mapped a b c d) = dotted [a, b, c, d]"
proof -
  have "ip \<noteq> []" using assms by (auto simp: to4_def)
  with assms show "ip_string ip = dotted [a, b, c, d]" by (simp add: ip_string_def)
  show "ip_string (ipv4_mapped a b c d) = dotted [a, b, c, d]"
    using to4_mapped[of a b c d] by (simp add: ip_string_def ipv4_mapped_def v4_in_v6_prefix_def)
qed

section \<open>Agent hosts and redirects\<close>

text \<open>An agent URL is accepted only when its host is localhost, or every address it stands for
  (the literal, or all the resolver returns, at least one) is loopback, one of this host's own, or
  not blocked.\<close>

theorem AllowedAgentHost_sound:
  "AllowedAgentHost lookup ifaces raw \<longleftrightarrow>
    (let host = trim_brackets (to_lower (trim_space raw));
         ok = (\<lambda>ip. is_loopback ip \<or> isLocalInterfaceIP ifaces ip \<or> \<not> IsBlockedIP ip)
     in host = ''localhost'' \<or>
        (host \<noteq> [] \<and> (\<exists>ip. parse_ip host = Some ip \<and> ok ip)) \<or>
        (host \<noteq> [] \<and> parse_ip host = None \<and>
           (\<exists>ip ips. lookup host = Inr (ip # ips) \<and> list_all ok (ip # ips))))"
proof -
  have ok: "AllowedAgentIP ifaces =
      (\<lambda>ip. is_loopback ip \<or> isLocalInterfaceIP ifaces ip \<or> \<not> IsBlockedIP ip)"
    by (auto simp: AllowedAgentIP_def)
  have "parse_ip ''localhost'' = None" by code_simp
  then show ?thesis
    by (auto simp: AllowedAgentHost_def ok Let_def neq_Nil_conv split: option.splits sum.splits)
qed

lemma redirect_chain_nonempty: "redirect_chain policy reqs \<Longrightarrow> reqs \<noteq> []"
  by (auto elim: redirect_chainE)

text \<open>A client under \<open>CheckRedirectToHosts\<close> makes at most four requests, and each one goes
  to the host of the first or, over HTTPS and on the default port, to a listed host.\<close>

theorem redirect_chain_bounded:
  assumes "redirect_chain (CheckRedirectToHosts hosts) reqs"
  shows "length reqs \<le> 4 \<and>
    list_all (\<lambda>req. u_host req = u_host (hd reqs) \<or>
      (Hostname req \<in> set hosts \<and> u_scheme req = ''https'' \<and> Port req = [])) reqs"
  using assms
proof (induction rule: redirect_chain.induct)
  case (follow via req)
  have "via \<noteq> []" using follow.hyps(1) by (rule redirect_chain_nonempty)
  with follow show ?case
    by (auto simp: CheckRedirectToHosts_def CheckSameHostRedirect_def maxRedirects_def Let_def
        hd_append split: if_splits)
qed simp

section \<open>Witnesses\<close>

definition example_lookup :: dns_lookup where
  "example_lookup h =
     (if h = ''example.org'' then Inr [ipv4_mapped 93 184 216 34]
      else if h = ''inside.test'' then Inr [ipv4_mapped 93 184 216 34, ipv4_mapped 10 0 0 1]
      else Inl (PlainError ''no such host''))"

lemma example_lookup_ok: "lookup_ok example_lookup"
  by (auto simp: lookup_ok_def example_lookup_def ipv4_mapped_def v4_in_v6_prefix_def split: if_splits)

lemma example_ping: "ValidateQueryTarget example_lookup CmdPing '' example.org'' = Inr ''93.184.216.34''"
  by code_simp

lemma ValidateQueryTarget_address_witness:
  "\<exists>ip. ''93.184.216.34'' = ip_string ip \<and> \<not> IsBlockedIP ip"
  using ValidateQueryTarget_address[OF example_ping] by (auto simp: cmd_defs)

lemma ValidateQueryTarget_bgp_witness:
  "ValidateQueryTarget example_lookup CmdBGPRoute ''8.8.0.0/16'' = Inr ''8.8.0.0/16'' \<and>
   \<not> isUnsafeTarget ''8.8.0.0/16''"
proof -
  have r: "ValidateQueryTarget example_lookup CmdBGPRoute ''8.8.0.0/16'' = Inr ''8.8.0.0/16''"
    by code_simp
  have "\<not> isUnsafeTarget ''8.8.0.0/16''" by code_simp
  with r ValidateQueryTarget_bgp[OF r] show ?thesis by blast
qed

lemma ValidateQueryTarget_errors_witness:
  "ValidateQueryTarget example_lookup CmdTraceroute ''inside.test'' = Inl ErrInvalidTarget"
proof -
  have r: "ValidateQueryTarget example_lookup CmdTraceroute ''inside.test'' = Inl ErrInvalidTarget"
    by code_simp
  with ValidateQueryTarget_errors[OF r] show ?thesis by blast
qed

lemma redirect_chain_bounded_witness:
  "length [\<lparr>u_scheme = ''https'', u_host = ''github.com''\<rparr>,
           \<lparr>u_scheme = ''https'', u_host = ''objects.githubusercontent.com''\<rparr>] \<le> 4"
proof -
  let ?u = "\<lparr>u_scheme = ''https'', u_host = ''github.com''\<rparr>"
  let ?v = "\<lparr>u_scheme = ''https'', u_host = ''objects.githubusercontent.com''\<rparr>"
  have "CheckRedirectToHosts GitHubReleaseAssetHosts ?v [?u] = None"
    by code_simp
  then have "redirect_chain (CheckRedirectToHosts GitHubReleaseAssetHosts) ([?u] @ [?v])"
    by (intro redirect_chain.intros)
  from redirect_chain_bounded[OF this] show ?thesis by simp
qed

end
