(* ===== verification/RateLimiter.thy ===== *)
theory RateLimiter
  imports Go_Base
begin

text \<open>
  \<open>internal/server/middleware/ratelimit.go\<close>: the sliding-window limiter behind the HTTP
  middleware, the query engine (\<open>internal/engine/ratelimit.go\<close> is an alias of it) and the
  login route. What its clients rely on is the locale \<open>sliding_limiter\<close>; the code's limiter
  is its interpretation.
\<close>

section \<open>What a client of a limiter relies on\<close>

text \<open>
  A run of a limiter: calls of \<open>Allow\<close> and ticks of the cleanup goroutine in the order the
  mutex puts them, at times that never decrease. The log holds the accepted calls.
\<close>

inductive limiter_run ::
  "(go_time \<Rightarrow> 'k \<Rightarrow> 's \<Rightarrow> bool \<times> 's) \<Rightarrow> (go_time \<Rightarrow> 's \<Rightarrow> 's) \<Rightarrow> 's \<Rightarrow>
   go_time \<Rightarrow> 's \<Rightarrow> ('k \<times> go_time) list \<Rightarrow> bool" for allow tick s0 where
  begin_run: "limiter_run allow tick s0 t s0 []"
| call: "limiter_run allow tick s0 t s log \<Longrightarrow> t \<le> now \<Longrightarrow> allow now k s = (ok, s') \<Longrightarrow>
    limiter_run allow tick s0 now s' (if ok then log @ [(k, now)] else log)"
| clean: "limiter_run allow tick s0 t s log \<Longrightarrow> t \<le> now \<Longrightarrow>
    limiter_run allow tick s0 now (tick now s) log"

definition accepted :: "('k \<times> go_time) list \<Rightarrow> 'k \<Rightarrow> go_time list" where
  "accepted log k = map snd (filter (\<lambda>e. fst e = k) log)"

definition in_window :: "go_time \<Rightarrow> duration \<Rightarrow> go_time list \<Rightarrow> go_time list" where
  "in_window a w ts = filter (\<lambda>t. a < t \<and> t \<le> a + w) ts"

lemma accepted_append [simp]:
  "accepted (log @ [(k, t)]) k' = accepted log k' @ (if k = k' then [t] else [])"
  by (simp add: accepted_def)

lemma filter_later: "a \<le> b \<Longrightarrow> filter (\<lambda>t. a < t) xs = filter (\<lambda>t. a < t) ys \<Longrightarrow>
    filter (\<lambda>t. b < t) xs = filter (\<lambda>t. b < (t :: int)) ys"
proof -
  assume le: "a \<le> b" and eq: "filter (\<lambda>t. a < t) xs = filter (\<lambda>t. a < t) ys"
  have sub: "filter (\<lambda>t. b < t) zs = filter (\<lambda>t. b < t) (filter (\<lambda>t. a < t) zs)" for zs
    using le by (auto simp: filter_filter intro: filter_cong)
  show ?thesis by (metis sub eq)
qed

locale sliding_limiter =
  fixes allow :: "go_time \<Rightarrow> 'k \<Rightarrow> 's \<Rightarrow> bool \<times> 's"
    and tick :: "go_time \<Rightarrow> 's \<Rightarrow> 's"
    and entries :: "'s \<Rightarrow> 'k \<Rightarrow> go_time list"
    and window :: "'s \<Rightarrow> duration"
    and limit :: "'s \<Rightarrow> int"
  assumes params: "window (snd (allow now k s)) = window s" "limit (snd (allow now k s)) = limit s"
      "window (tick now s) = window s" "limit (tick now s) = limit s"
    and accept: "allow now k s = (True, s') \<Longrightarrow>
      int (length (filter (\<lambda>t. now - window s < t) (entries s k))) < limit s \<and>
      filter (\<lambda>t. now - window s < t) (entries s' k) =
        filter (\<lambda>t. now - window s < t) (entries s k) @ filter (\<lambda>t. now - window s < t) [now]"
    and keep: "allow now k s = (ok, s') \<Longrightarrow> k' \<noteq> k \<or> \<not> ok \<Longrightarrow>
      filter (\<lambda>t. now - window s < t) (entries s' k') = filter (\<lambda>t. now - window s < t) (entries s k')"
    and tick_keeps: "filter (\<lambda>t. now - window s < t) (entries (tick now s) k) =
      filter (\<lambda>t. now - window s < t) (entries s k)"
begin

abbreviation recent :: "go_time \<Rightarrow> 's \<Rightarrow> 'k \<Rightarrow> go_time list" where
  "recent now s k \<equiv> filter (\<lambda>t. now - window s < t) (entries s k)"

lemma allow_params: "allow now k s = (ok, s') \<Longrightarrow> window s' = window s \<and> limit s' = limit s"
  by (metis params(1,2) snd_conv)

lemma run_params:
  "limiter_run allow tick s0 t s log \<Longrightarrow> window s = window s0 \<and> limit s = limit s0"
  by (induction rule: limiter_run.induct) (auto simp: params dest: allow_params)

lemma run_recent:
  assumes "limiter_run allow tick s0 t s log" and "\<And>k. entries s0 k = []"
  shows "recent t s k = filter (\<lambda>x. t - window s < x) (accepted log k)"
  using assms(1)
proof (induction arbitrary: k rule: limiter_run.induct)
  case (begin_run t)
  then show ?case by (simp add: assms(2) accepted_def)
next
  case (call t s log now k' ok s')
  have w: "window s' = window s" using params(1)[of now k' s] call.hyps(3) by simp
  have IH: "recent now s j = filter (\<lambda>x. now - window s < x) (accepted log j)" for j
    using filter_later[OF _ call.IH[of j], of "now - window s"] call.hyps(2) by simp
  show ?case
  proof (cases "ok \<and> k' = k")
    case True
    with call.hyps(3) have "allow now k s = (True, s')" by simp
    from accept[OF this] IH[of k] True w show ?thesis by simp
  next
    case False
    then have "k \<noteq> k' \<or> \<not> ok" by blast
    from keep[OF call.hyps(3) this] IH[of k] False w show ?thesis by auto
  qed
next
  case (clean t s log now)
  have "recent now s k = filter (\<lambda>x. now - window s < x) (accepted log k)"
    using filter_later[OF _ clean.IH[of k], of "now - window s"] clean.hyps(2) by simp
  then show ?case by (simp add: tick_keeps params)
qed

lemma run_times: "limiter_run allow tick s0 t s log \<Longrightarrow> e \<in> set log \<Longrightarrow> snd e \<le> t"
  by (induction arbitrary: e rule: limiter_run.induct) (fastforce split: if_splits)+

text \<open>No window of the limiter's length holds more accepted calls of a key than the limit.\<close>

lemma window_bound:
  assumes "limiter_run allow tick s0 t s log" and "\<And>k. entries s0 k = []" and "0 \<le> limit s0"
  shows "int (length (in_window a (window s0) (accepted log k))) \<le> limit s0"
  using assms(1)
proof (induction arbitrary: k rule: limiter_run.induct)
  case (begin_run t)
  then show ?case using assms(3) by (simp add: accepted_def in_window_def)
next
  case (call t s log now k' ok s')
  show ?case
  proof (cases "ok \<and> k' = k \<and> a < now \<and> now \<le> a + window s0")
    case False
    then show ?thesis using call.IH[of k] by (auto simp: in_window_def)
  next
    case True
    have w: "window s = window s0" and l: "limit s = limit s0"
      using run_params[OF call.hyps(1)] by auto
    have "recent now s k = filter (\<lambda>x. now - window s < x) (accepted log k)"
      using filter_later[OF _ run_recent[OF call.hyps(1) assms(2), of k], of "now - window s"]
        call.hyps(2) by simp
    moreover have "int (length (recent now s k)) < limit s"
      using accept[of now k s s'] call.hyps(3) True by simp
    moreover have "length (in_window a (window s0) (accepted log k))
        \<le> length (filter (\<lambda>x. now - window s < x) (accepted log k))"
    proof -
      have "in_window a (window s0) (accepted log k) =
          filter (\<lambda>x. a < x \<and> x \<le> a + window s0) (filter (\<lambda>x. now - window s < x) (accepted log k))"
        using True w by (auto simp: in_window_def filter_filter intro!: filter_cong)
      then show ?thesis by (simp only: length_filter_le)
    qed
    ultimately show ?thesis using True l by (simp add: in_window_def)
  qed
next
  case (clean t s log now)
  then show ?case by simp
qed

end

section \<open>The limiter\<close>

record RateLimiter =
  rl_requests :: "string \<rightharpoonup> go_time list"
  rl_limit :: int
  rl_window :: duration

definition NewRateLimiter :: "int \<Rightarrow> duration \<Rightarrow> RateLimiter" where
  "NewRateLimiter lim win = \<lparr>rl_requests = Map.empty, rl_limit = lim, rl_window = win\<rparr>"

definition defaultMaxTrackedIPs :: nat where "defaultMaxTrackedIPs = 100000"
definition rateLimitMaxTrackedIPs :: nat where "rateLimitMaxTrackedIPs = defaultMaxTrackedIPs"

text \<open>The loop over the recorded times; a lookup of an unseen address gives the nil slice.\<close>

fun valid_times :: "go_time \<Rightarrow> go_time list \<Rightarrow> go_time list" where
  "valid_times windowStart [] = []"
| "valid_times windowStart (t # ts) =
     (if t > windowStart then t # valid_times windowStart ts else valid_times windowStart ts)"

definition request_times :: "RateLimiter \<Rightarrow> string \<Rightarrow> go_time list" where
  "request_times rl ip = (case rl_requests rl ip of None \<Rightarrow> [] | Some ts \<Rightarrow> ts)"

definition Allow :: "go_time \<Rightarrow> string \<Rightarrow> RateLimiter \<Rightarrow> bool \<times> RateLimiter" where
  "Allow now ip rl =
     (let valid = valid_times (now - rl_window rl) (request_times rl ip) in
      if int (length valid) \<ge> rl_limit rl
      then (False, rl\<lparr>rl_requests := (rl_requests rl)(ip \<mapsto> valid)\<rparr>)
      else if rl_requests rl ip = None \<and> card (dom (rl_requests rl)) \<ge> rateLimitMaxTrackedIPs
      then (False, rl)
      else (True, rl\<lparr>rl_requests := (rl_requests rl)(ip \<mapsto> valid @ [now])\<rparr>))"

text \<open>One tick of \<open>cleanup\<close>: each entry is trimmed, or deleted when nothing is left. The entries
  are independent, so the order of the map's iteration does not matter.\<close>

definition cleanup_requests :: "go_time \<Rightarrow> RateLimiter \<Rightarrow> RateLimiter" where
  "cleanup_requests now rl =
     rl\<lparr>rl_requests := (\<lambda>ip.
       case rl_requests rl ip of
         None \<Rightarrow> None
       | Some ts \<Rightarrow>
           (let valid = valid_times (now - rl_window rl) ts
            in if valid = [] then None else Some valid))\<rparr>"

text \<open>The middleware: the answer a request gets, None when it goes on to the handler.\<close>

definition RateLimit :: "go_time \<Rightarrow> string \<Rightarrow> RateLimiter \<Rightarrow> nat option \<times> RateLimiter" where
  "RateLimit now clientIP rl =
     (case Allow now clientIP rl of (ok, rl') \<Rightarrow> (if \<not> ok then Some 429 else None, rl'))"

definition OptionalRateLimit ::
  "bool \<Rightarrow> int \<Rightarrow> go_time \<Rightarrow> string \<Rightarrow> RateLimiter \<Rightarrow> nat option \<times> RateLimiter" where
  "OptionalRateLimit enabled lim now clientIP rl =
     (if \<not> enabled \<or> lim \<le> 0 then (None, rl) else RateLimit now clientIP rl)"

section \<open>The limiter keeps the contract\<close>

lemma valid_times_filter [simp]: "valid_times w ts = filter (\<lambda>t. w < t) ts"
  by (induction ts) auto

lemma request_times_cleanup:
  "request_times (cleanup_requests now rl) ip = filter (\<lambda>t. now - rl_window rl < t) (request_times rl ip)"
  by (auto simp: request_times_def cleanup_requests_def Let_def split: option.splits)

lemma Allow_params [simp]:
  "rl_window (snd (Allow now ip rl)) = rl_window rl" "rl_limit (snd (Allow now ip rl)) = rl_limit rl"
  by (auto simp: Allow_def Let_def)

interpretation rl: sliding_limiter Allow cleanup_requests request_times rl_window rl_limit
proof
  show "rl_window (cleanup_requests now s) = rl_window s" for now s
    by (simp add: cleanup_requests_def)
  show "rl_limit (cleanup_requests now s) = rl_limit s" for now s
    by (simp add: cleanup_requests_def)
  show "filter (\<lambda>t. now - rl_window s < t) (request_times (cleanup_requests now s) k) =
        filter (\<lambda>t. now - rl_window s < t) (request_times s k)" for now s k
    by (simp add: request_times_cleanup)
qed (auto simp: Allow_def request_times_def Let_def split: if_splits option.splits)

definition tracked :: "RateLimiter \<Rightarrow> nat" where
  "tracked rl = card (dom (rl_requests rl))"

lemma dom_cleanup: "dom (rl_requests (cleanup_requests now rl)) \<subseteq> dom (rl_requests rl)"
  by (auto simp: cleanup_requests_def split: option.splits)

lemma Allow_requests:
  assumes "0 < rl_limit rl"
  shows "rl_requests (snd (Allow now ip rl)) = rl_requests rl \<or>
    (\<exists>ts. rl_requests (snd (Allow now ip rl)) = (rl_requests rl)(ip \<mapsto> ts)) \<and>
    (ip \<in> dom (rl_requests rl) \<or> tracked rl < rateLimitMaxTrackedIPs)"
  using assms by (auto simp: Allow_def request_times_def tracked_def Let_def split: option.splits)

lemma Allow_tracked:
  assumes "0 < rl_limit rl" and "finite (dom (rl_requests rl))" and "tracked rl \<le> rateLimitMaxTrackedIPs"
  shows "finite (dom (rl_requests (snd (Allow now ip rl)))) \<and>
    tracked (snd (Allow now ip rl)) \<le> rateLimitMaxTrackedIPs"
  using Allow_requests[OF assms(1), of now ip] assms(2,3)
  by (elim disjE conjE exE) (simp_all add: tracked_def insert_absorb card_insert_if)

lemma run_tracked:
  assumes "limiter_run Allow cleanup_requests (NewRateLimiter lim win) t rl log" and "0 < lim"
  shows "finite (dom (rl_requests rl)) \<and> tracked rl \<le> rateLimitMaxTrackedIPs"
  using assms(1)
proof (induction rule: limiter_run.induct)
  case (begin_run t)
  then show ?case by (simp add: NewRateLimiter_def tracked_def)
next
  case (call t s log now k ok s')
  have "0 < rl_limit s"
    using rl.run_params[OF call.hyps(1)] assms(2) by (simp add: NewRateLimiter_def)
  from Allow_tracked[OF this, of now k] call show ?case by simp
next
  case (clean t s log now)
  then show ?case
    using card_mono[OF _ dom_cleanup, of s now] finite_subset[OF dom_cleanup, of s now]
    by (simp add: tracked_def)
qed

section \<open>Properties\<close>

text \<open>C10: However the calls for all addresses and the cleanup ticks interleave, no time window of
  the limiter's length contains more than \<open>limit\<close> accepted calls of one address.\<close>

theorem rate_limit_window:
  assumes "limiter_run Allow cleanup_requests (NewRateLimiter lim win) t rl log" and "0 \<le> lim"
  shows "int (length (in_window a win (accepted log ip))) \<le> lim"
  using rl.window_bound[OF assms(1), of a ip] assms(2)
  by (simp add: NewRateLimiter_def request_times_def)

text \<open>With a positive limit the limiter never tracks more than
  \<open>rateLimitMaxTrackedIPs\<close> addresses, and while fewer are tracked any address that has fewer than
  \<open>limit\<close> accepted calls in the window just past is let in.\<close>

theorem rate_limit_capacity:
  assumes "limiter_run Allow cleanup_requests (NewRateLimiter lim win) t rl log" and "0 < lim"
    and "t \<le> now"
  shows "tracked rl \<le> rateLimitMaxTrackedIPs \<and>
    (tracked rl < rateLimitMaxTrackedIPs \<longrightarrow>
      (fst (Allow now ip rl) \<longleftrightarrow>
        int (length (filter (\<lambda>x. now - win < x) (accepted log ip))) < lim))"
proof -
  have par: "rl_window rl = win" "rl_limit rl = lim"
    using rl.run_params[OF assms(1)] by (simp_all add: NewRateLimiter_def)
  have "filter (\<lambda>x. t - win < x) (request_times rl ip) = filter (\<lambda>x. t - win < x) (accepted log ip)"
    using rl.run_recent[OF assms(1), of ip] par by (simp add: NewRateLimiter_def request_times_def)
  from filter_later[OF _ this, of "now - win"] assms(3)
  have rec: "filter (\<lambda>x. now - win < x) (request_times rl ip) = filter (\<lambda>x. now - win < x) (accepted log ip)"
    by simp
  show ?thesis
    using run_tracked[OF assms(1,2)] rec par by (auto simp: Allow_def tracked_def Let_def)
qed

text \<open>A cleanup tick never turns a later call away that would have been let in, and lets in
  one that would have been turned away only when that call was refused for lack of room.\<close>

theorem cleanup_preserves_decisions:
  assumes "finite (dom (rl_requests rl))" and "tracked rl \<le> rateLimitMaxTrackedIPs"
    and "now \<le> later" and "fst (Allow later ip rl) \<noteq> fst (Allow later ip (cleanup_requests now rl))"
  shows "fst (Allow later ip (cleanup_requests now rl)) \<and> rl_requests rl ip = None \<and>
    tracked rl = rateLimitMaxTrackedIPs"
proof -
  let ?rl = "cleanup_requests now rl"
  have same: "filter (\<lambda>x. later - rl_window rl < x) (request_times ?rl ip) =
      filter (\<lambda>x. later - rl_window rl < x) (request_times rl ip)"
    using filter_later[OF _ rl.tick_keeps[of now rl ip], of "later - rl_window rl"] assms(3) by simp
  have par: "rl_window ?rl = rl_window rl" "rl_limit ?rl = rl_limit rl"
    by (simp_all add: cleanup_requests_def)
  have less: "tracked ?rl < tracked rl" if "rl_requests rl ip \<noteq> None" "rl_requests ?rl ip = None"
    unfolding tracked_def using that dom_cleanup[of now rl]
    by (intro psubset_card_mono[OF assms(1)]) auto
  have le: "tracked ?rl \<le> tracked rl"
    unfolding tracked_def by (rule card_mono[OF assms(1) dom_cleanup])
  have none: "rl_requests ?rl ip = None" if "rl_requests rl ip = None"
    using that by (simp add: cleanup_requests_def)
  show ?thesis
    using assms(2,4) same par less le none
    by (auto simp: Allow_def tracked_def[symmetric] Let_def split: if_splits)
qed

section \<open>Witnesses\<close>

text \<open>A limiter of one call per ten nanoseconds: the second call of an address is refused.\<close>

lemma limiter_example_run:
  "limiter_run Allow cleanup_requests (NewRateLimiter 1 10) 5
     (snd (Allow 5 ''a'' (NewRateLimiter 1 10))) [(''a'', 5)]"
proof -
  have "fst (Allow 5 ''a'' (NewRateLimiter 1 10))"
    by (simp add: Allow_def NewRateLimiter_def request_times_def rateLimitMaxTrackedIPs_def
        defaultMaxTrackedIPs_def Let_def)
  then have "Allow 5 ''a'' (NewRateLimiter 1 10) = (True, snd (Allow 5 ''a'' (NewRateLimiter 1 10)))"
    by (metis prod.collapse)
  from call[OF begin_run[of Allow cleanup_requests "NewRateLimiter 1 10" 0] _ this] show ?thesis
    by simp
qed

lemma rate_limit_window_witness: "length (in_window 0 10 (accepted [(''a'', 5)] ''a'')) \<le> 1"
  using rate_limit_window[OF limiter_example_run, of 0 "''a''"] by simp

lemma rate_limit_capacity_witness:
  "tracked (snd (Allow 5 ''a'' (NewRateLimiter 1 10))) \<le> rateLimitMaxTrackedIPs"
  using rate_limit_capacity[OF limiter_example_run, of 7 "''a''"] by simp

text \<open>A full limiter none of whose addresses called lately.\<close>

definition full_limiter :: RateLimiter where
  "full_limiter =
     \<lparr>rl_requests = (\<lambda>ip. if ip \<in> set (map (\<lambda>n. replicate n CHR ''x'') [0..<100000]) then Some [1] else None),
      rl_limit = 1, rl_window = 10\<rparr>"

lemma full_limiter_dom: "dom (rl_requests full_limiter) = (\<lambda>n. replicate n CHR ''x'') ` {0..<100000}"
  by (auto simp: full_limiter_def split: if_splits)

lemma full_limiter_tracked: "tracked full_limiter = rateLimitMaxTrackedIPs"
proof -
  have "inj_on (\<lambda>n. replicate n CHR ''x'') {0..<100000}"
    by (auto simp: inj_on_def)
  then show ?thesis
    by (simp add: tracked_def full_limiter_dom card_image rateLimitMaxTrackedIPs_def
        defaultMaxTrackedIPs_def)
qed

lemma cleanup_preserves_decisions_witness:
  "tracked full_limiter = rateLimitMaxTrackedIPs \<and> rl_requests full_limiter ''a'' = None"
proof -
  have "''a'' \<noteq> replicate n CHR ''x''" for n by (cases n) auto
  then have none: "rl_requests full_limiter ''a'' = None"
    by (auto simp: full_limiter_def)
  have empty: "rl_requests (cleanup_requests 30 full_limiter) = Map.empty"
    by (auto simp: cleanup_requests_def full_limiter_def)
  have "fst (Allow 31 ''a'' (cleanup_requests 30 full_limiter)) \<noteq> fst (Allow 31 ''a'' full_limiter)"
    using none full_limiter_tracked empty
    by (simp add: Allow_def request_times_def tracked_def Let_def)
       (simp add: cleanup_requests_def full_limiter_def rateLimitMaxTrackedIPs_def defaultMaxTrackedIPs_def)
  then show ?thesis
    using cleanup_preserves_decisions[of full_limiter 30 31 "''a''"] full_limiter_tracked
    by (simp add: full_limiter_dom)
qed

end
