(* ===== verification/AuthGuards.thy ===== *)
theory AuthGuards
  imports Domain
begin

text \<open>
  \<open>internal/server/middleware\<close>: the brute-force guard of the login route, the deny list of
  revoked session tokens, and the middlewares that authenticate admin and agent requests. A
  middleware is split where it calls \<open>c.Next()\<close>; a request that is answered without
  reaching the handler is an \<open>Inl\<close>. JWT verification (\<open>golang-jwt\<close>) is an argument.
\<close>

section \<open>Brute-force guard\<close>

record attemptInfo =
  at_count :: int
  at_banned_at :: go_time
  at_last_try :: go_time

record BruteForceGuard =
  bf_attempts :: "string \<rightharpoonup> attemptInfo"
  bf_max :: int
  bf_ban_dur :: duration

definition NewBruteForceGuard :: "int \<Rightarrow> int \<Rightarrow> BruteForceGuard" where
  "NewBruteForceGuard mx banMinutes =
     \<lparr>bf_attempts = Map.empty, bf_max = mx, bf_ban_dur = banMinutes * minute\<rparr>"

text \<open>The part of the middleware before \<open>c.Next()\<close>: True when the request is turned away. The
  second test of the code is the negation of the first on a clock that only moves on, so one
  reading of the clock stands for both.\<close>

definition guard_enter :: "go_time \<Rightarrow> string \<Rightarrow> BruteForceGuard \<Rightarrow> bool \<times> BruteForceGuard" where
  "guard_enter now ip g =
     (case bf_attempts g ip of
        None \<Rightarrow> (False, g)
      | Some info \<Rightarrow>
          if \<not> is_zero_time (at_banned_at info) \<and> time_sub now (at_banned_at info) < bf_ban_dur g
          then (True, g)
          else if \<not> is_zero_time (at_banned_at info) \<and>
                  time_sub now (at_banned_at info) \<ge> bf_ban_dur g
          then (False, g\<lparr>bf_attempts := (bf_attempts g)(ip := None)\<rparr>)
          else (False, g))"

text \<open>The part after it, on the status the handler wrote.\<close>

definition guard_leave :: "go_time \<Rightarrow> string \<Rightarrow> nat \<Rightarrow> BruteForceGuard \<Rightarrow> BruteForceGuard" where
  "guard_leave now ip status g =
     (if status = 401 then
        let info0 = (case bf_attempts g ip of
                       None \<Rightarrow> \<lparr>at_count = 0, at_banned_at = 0, at_last_try = 0\<rparr>
                     | Some i \<Rightarrow> i);
            info1 = info0\<lparr>at_count := at_count info0 + 1, at_last_try := now\<rparr>;
            info2 = (if at_count info1 \<ge> bf_max g then info1\<lparr>at_banned_at := now\<rparr> else info1)
        in g\<lparr>bf_attempts := (bf_attempts g)(ip \<mapsto> info2)\<rparr>
      else if status = 200 then g\<lparr>bf_attempts := (bf_attempts g)(ip := None)\<rparr>
      else g)"

text \<open>One tick of the cleanup goroutine.\<close>

definition guard_cleanup :: "go_time \<Rightarrow> BruteForceGuard \<Rightarrow> BruteForceGuard" where
  "guard_cleanup now g =
     g\<lparr>bf_attempts := (\<lambda>ip.
       case bf_attempts g ip of
         None \<Rightarrow> None
       | Some info \<Rightarrow>
           if \<not> is_zero_time (at_banned_at info) \<and> time_sub now (at_banned_at info) \<ge> bf_ban_dur g
           then None
           else if is_zero_time (at_banned_at info) \<and> time_sub now (at_last_try info) > 30 * minute
           then None
           else Some info)\<rparr>"

text \<open>The critical sections of any number of concurrent requests, and the ticks, as a trace.\<close>

datatype guard_event = GuardEnter string | GuardLeave string nat | GuardTick

fun guard_step :: "go_time \<times> guard_event \<Rightarrow> BruteForceGuard \<Rightarrow> BruteForceGuard" where
  "guard_step (now, GuardEnter ip) g = snd (guard_enter now ip g)"
| "guard_step (now, GuardLeave ip status) g = guard_leave now ip status g"
| "guard_step (now, GuardTick) g = guard_cleanup now g"

definition guard_run :: "(go_time \<times> guard_event) list \<Rightarrow> BruteForceGuard \<Rightarrow> BruteForceGuard" where
  "guard_run evs g = foldl (\<lambda>g e. guard_step e g) g evs"

definition banned_until :: "BruteForceGuard \<Rightarrow> string \<Rightarrow> go_time \<Rightarrow> bool" where
  "banned_until g ip b \<longleftrightarrow> (\<exists>info. bf_attempts g ip = Some info \<and> at_banned_at info \<noteq> 0 \<and>
     b \<le> at_banned_at info \<and> bf_max g \<le> at_count info)"

lemma guard_step_params [simp]:
  "bf_ban_dur (guard_step e g) = bf_ban_dur g" "bf_max (guard_step e g) = bf_max g"
  by (cases "(e, g)" rule: guard_step.cases;
      simp add: guard_enter_def guard_leave_def guard_cleanup_def Let_def split: option.splits)+

lemma guard_run_params [simp]:
  "bf_ban_dur (guard_run evs g) = bf_ban_dur g" "bf_max (guard_run evs g) = bf_max g"
  unfolding guard_run_def by (induction evs arbitrary: g) simp_all

lemma guard_run_simps [simp]:
  "guard_run [] g = g" "guard_run (e # evs) g = guard_run evs (guard_step e g)"
  by (simp_all add: guard_run_def)

definition within_ban :: "duration \<Rightarrow> go_time \<Rightarrow> go_time \<Rightarrow> bool" where
  "within_ban d b t \<longleftrightarrow> b \<le> t \<and> t - b < d"

lemma banned_step:
  assumes "banned_until g ip b" and "0 < b" and "within_ban (bf_ban_dur g) b now"
    and "ev \<noteq> GuardLeave ip 200" and d: "bf_ban_dur g \<le> max_duration"
  shows "banned_until (guard_step (now, ev) g) ip b"
proof -
  obtain info where info: "bf_attempts g ip = Some info" "at_banned_at info \<noteq> 0"
    "b \<le> at_banned_at info" "bf_max g \<le> at_count info"
    using assms(1) by (auto simp: banned_until_def)
  have "min_duration < bf_ban_dur g"
    using assms(3) by (auto simp: within_ban_def min_duration_def)
  then have sub: "time_sub now (at_banned_at info) < bf_ban_dur g"
    using assms(3) info(3) d by (simp add: time_sub_less_iff within_ban_def)
  show ?thesis
  proof (cases ev)
    case (GuardEnter x)
    then show ?thesis
      using info sub by (auto simp: banned_until_def guard_enter_def split: option.splits)
  next
    case (GuardLeave x st)
    then show ?thesis
      using info assms(2-4)
      by (auto simp: banned_until_def guard_leave_def within_ban_def Let_def split: option.splits)
  next
    case GuardTick
    then show ?thesis
      using info sub by (auto simp: banned_until_def guard_cleanup_def is_zero_time_def)
  qed
qed

lemma banned_run:
  assumes "banned_until g ip b" and "0 < b" and "bf_ban_dur g \<le> max_duration"
    and "list_all (\<lambda>(t, ev). within_ban (bf_ban_dur g) b t \<and> ev \<noteq> GuardLeave ip 200) evs"
  shows "banned_until (guard_run evs g) ip b"
  using assms
proof (induction evs arbitrary: g)
  case (Cons e evs)
  obtain t ev where e: "e = (t, ev)" by (cases e)
  from Cons.prems e have "banned_until (guard_step e g) ip b" by (simp add: banned_step)
  from Cons.IH[OF this] Cons.prems e show ?case by simp
qed simp

section \<open>Deny list of revoked sessions\<close>

type_synonym JTIDenyList = "string \<rightharpoonup> go_time"

definition NewJTIDenyList :: JTIDenyList where "NewJTIDenyList = Map.empty"

definition maxDenyListEntries :: nat where "maxDenyListEntries = 10000"

text \<open>\<open>order\<close> is the order in which the eviction loop meets the entries.\<close>

definition Revoke :: "string list \<Rightarrow> go_time \<Rightarrow> string \<Rightarrow> go_time \<Rightarrow> JTIDenyList \<Rightarrow> JTIDenyList" where
  "Revoke order now jti exp d =
     (if card (dom d) \<ge> maxDenyListEntries then
        let d1 = (case find (\<lambda>k. case d k of None \<Rightarrow> False | Some v \<Rightarrow> now > v) order of
                    None \<Rightarrow> d
                  | Some k \<Rightarrow> d(k := None))
        in if card (dom d1) \<ge> maxDenyListEntries then d1 else d1(jti \<mapsto> exp)
      else d(jti \<mapsto> exp))"

definition IsRevoked :: "go_time \<Rightarrow> string \<Rightarrow> JTIDenyList \<Rightarrow> bool \<times> JTIDenyList" where
  "IsRevoked now jti d =
     (case d jti of
        None \<Rightarrow> (False, d)
      | Some exp \<Rightarrow> if now > exp then (False, d(jti := None)) else (True, d))"

definition purge :: "go_time \<Rightarrow> JTIDenyList \<Rightarrow> JTIDenyList" where
  "purge now d = (\<lambda>jti. case d jti of None \<Rightarrow> None | Some exp \<Rightarrow> if now > exp then None else Some exp)"

datatype deny_event = DenyRevoke "string list" string go_time | DenyQuery string | DenyPurge

fun deny_step :: "go_time \<times> deny_event \<Rightarrow> JTIDenyList \<Rightarrow> JTIDenyList" where
  "deny_step (now, DenyRevoke order jti exp) d = Revoke order now jti exp d"
| "deny_step (now, DenyQuery jti) d = snd (IsRevoked now jti d)"
| "deny_step (now, DenyPurge) d = purge now d"

definition deny_run :: "(go_time \<times> deny_event) list \<Rightarrow> JTIDenyList \<Rightarrow> JTIDenyList" where
  "deny_run evs d = foldl (\<lambda>d e. deny_step e d) d evs"

lemma deny_run_simps [simp]:
  "deny_run [] d = d" "deny_run (e # evs) d = deny_run evs (deny_step e d)"
  by (simp_all add: deny_run_def)

text \<open>A revocation of the same token with another expiry is the one event that may shorten it; a
  token has one expiry, so the source never issues it.\<close>

fun revokes_other_expiry :: "string \<Rightarrow> go_time \<Rightarrow> deny_event \<Rightarrow> bool" where
  "revokes_other_expiry jti exp (DenyRevoke order j e) = (j = jti \<and> e \<noteq> exp)"
| "revokes_other_expiry jti exp _ = False"

lemma deny_step_keeps:
  assumes "d jti = Some exp" and "t \<le> exp" and "\<not> revokes_other_expiry jti exp ev"
  shows "deny_step (t, ev) d jti = Some exp"
proof (cases ev)
  case (DenyRevoke order j e)
  let ?d1 = "case find (\<lambda>k. case d k of None \<Rightarrow> False | Some v \<Rightarrow> t > v) order of
       None \<Rightarrow> d | Some k \<Rightarrow> d(k := None)"
  have "?d1 jti = Some exp"
    using assms(1,2) by (auto simp: find_Some_iff split: option.splits)
  with DenyRevoke assms(1,3) show ?thesis by (auto simp: Revoke_def Let_def)
next
  case (DenyQuery j)
  with assms show ?thesis by (auto simp: IsRevoked_def split: option.splits)
next
  case DenyPurge
  with assms show ?thesis by (simp add: purge_def)
qed

lemma deny_run_keeps:
  assumes "d jti = Some exp"
    and "list_all (\<lambda>(t, ev). t \<le> exp \<and> \<not> revokes_other_expiry jti exp ev) evs"
  shows "deny_run evs d jti = Some exp"
  using assms
proof (induction evs arbitrary: d)
  case (Cons e evs)
  then show ?case using deny_step_keeps[of d jti exp "fst e" "snd e"] by (cases e) simp
qed simp

section \<open>Authentication\<close>

record request_creds =
  rc_cookie :: "string option"
  rc_auth :: string

definition splitBearer :: "string \<Rightarrow> string" where
  "splitBearer auth =
     (if length auth > 7 \<and> take 7 auth = ''Bearer '' then drop 7 auth else [])"

definition ExtractBearerToken :: "request_creds \<Rightarrow> string" where
  "ExtractBearerToken c =
     (case rc_cookie c of
        Some (ch # rest) \<Rightarrow> ch # rest
      | _ \<Rightarrow> if splitBearer (rc_auth c) \<noteq> [] then splitBearer (rc_auth c) else [])"

record Claims =
  cl_user_id :: int
  cl_role :: string
  cl_id :: string
  cl_expires_at :: "go_time option"

text \<open>\<open>verify now token\<close> is \<open>jwt.ParseWithClaims\<close> with the HMAC check of the key function: the
  claims of a valid, unexpired token.\<close>

type_synonym jwt_verify = "go_time \<Rightarrow> string \<Rightarrow> Claims option"

definition Auth ::
  "jwt_verify \<Rightarrow> go_time \<Rightarrow> request_creds \<Rightarrow> JTIDenyList \<Rightarrow> (nat \<times> string + Claims) \<times> JTIDenyList"
  where
  "Auth verify now c d =
     (let tokenString = ExtractBearerToken c in
      if tokenString = [] then (Inl (401, ''missing authorization''), d)
      else case verify now tokenString of
        None \<Rightarrow> (Inl (401, ''invalid token''), d)
      | Some claims \<Rightarrow>
          (let (revoked, d') = (if cl_id claims \<noteq> [] then IsRevoked now (cl_id claims) d else (False, d))
           in if revoked then (Inl (401, ''token has been revoked''), d') else (Inr claims, d')))"

text \<open>\<open>UISessionAuth\<close> is the same decision with a redirect to the login page.\<close>

definition UISessionAuth ::
  "jwt_verify \<Rightarrow> go_time \<Rightarrow> request_creds \<Rightarrow> JTIDenyList \<Rightarrow> (nat \<times> string + Claims) \<times> JTIDenyList"
  where
  "UISessionAuth verify now c d =
     (let tokenStr = ExtractBearerToken c in
      if tokenStr = [] then (Inl (302, ''/admin/login''), d)
      else case verify now tokenStr of
        None \<Rightarrow> (Inl (302, ''/admin/login''), d)
      | Some claims \<Rightarrow>
          (let (revoked, d') = (if cl_id claims \<noteq> [] then IsRevoked now (cl_id claims) d else (False, d))
           in if revoked then (Inl (302, ''/admin/login''), d') else (Inr claims, d')))"

definition RequireAdmin :: "string option \<Rightarrow> (nat \<times> string) option" where
  "RequireAdmin role = (if role \<noteq> Some ''admin'' then Some (403, ''admin access required'') else None)"

text \<open>\<open>NodeAgentAuth\<close> on the active nodes the repository returns, or its failure.\<close>

fun find_agent_node :: "string \<Rightarrow> node list \<Rightarrow> node option" where
  "find_agent_node token [] = None"
| "find_agent_node token (n # ns) =
     (if n_type n \<noteq> NodeTypeStandalone then find_agent_node token ns
      else if n_agent_token n = [] then find_agent_node token ns
      else if token = n_agent_token n then Some n
      else find_agent_node token ns)"

definition NodeAgentAuth :: "(go_error + node list) \<Rightarrow> string \<Rightarrow> nat \<times> string + node" where
  "NodeAgentAuth active auth =
     (if auth = [] then Inl (401, ''missing authorization header'')
      else if \<not> has_prefix auth ''Bearer '' then Inl (401, ''invalid authorization format'')
      else let token = trim_prefix auth ''Bearer '' in
        case active of
          Inl err \<Rightarrow> Inl (500, ''internal error'')
        | Inr nodes \<Rightarrow>
            (case find_agent_node token nodes of
               Some n \<Rightarrow> Inr n
             | None \<Rightarrow> Inl (401, ''invalid token'')))"

section \<open>Cross-origin requests\<close>

text \<open>The headers \<open>CORS\<close> sets and whether it answers the request itself.\<close>

definition CORS :: "string list \<Rightarrow> string \<Rightarrow> string \<Rightarrow> (string \<times> string) list \<times> nat option" where
  "CORS allowedOrigins httpMethod origin =
     (let originSet = set (map (\<lambda>o'. to_lower (trim_space o')) allowedOrigins);
          sameOrigin = (allowedOrigins = [])
      in ((if sameOrigin then []
           else if origin \<noteq> [] \<and> to_lower origin \<in> originSet
           then [(''Access-Control-Allow-Origin'', origin), (''Vary'', ''Origin''),
                 (''Access-Control-Allow-Credentials'', ''true'')]
           else []) @
          [(''Access-Control-Allow-Methods'', ''GET, POST, PUT, PATCH, DELETE, OPTIONS''),
           (''Access-Control-Allow-Headers'', ''Origin, Content-Type, Accept, Authorization''),
           (''Access-Control-Max-Age'', ''86400'')],
          if httpMethod = ''OPTIONS'' then Some 204 else None))"

section \<open>Counting failures\<close>

definition failures :: "BruteForceGuard \<Rightarrow> string \<Rightarrow> int" where
  "failures g ip = (case bf_attempts g ip of None \<Rightarrow> 0 | Some info \<Rightarrow> at_count info)"

definition failed_logins :: "string \<Rightarrow> (go_time \<times> guard_event) list \<Rightarrow> nat" where
  "failed_logins ip evs = length (filter (\<lambda>e. snd e = GuardLeave ip 401) evs)"

text \<open>An address's count never exceeds its failures, and only \<open>max\<close> of them set a ban.\<close>

definition guard_inv :: "string \<Rightarrow> nat \<Rightarrow> BruteForceGuard \<Rightarrow> bool" where
  "guard_inv ip n g \<longleftrightarrow>
     (case bf_attempts g ip of
        None \<Rightarrow> True
      | Some info \<Rightarrow> at_count info \<le> int n \<and> (at_banned_at info \<noteq> 0 \<longrightarrow> bf_max g \<le> at_count info))"

lemma guard_inv_step:
  assumes "guard_inv ip n g" and "bf_max g \<ge> 1"
  shows "guard_inv ip (if ev = GuardLeave ip 401 then Suc n else n) (guard_step (t, ev) g)"
proof (cases ev)
  case (GuardEnter x)
  with assms show ?thesis
    by (auto simp: guard_inv_def guard_enter_def split: option.splits)
next
  case (GuardLeave x st)
  with assms show ?thesis
    by (auto simp: guard_inv_def guard_leave_def Let_def split: option.splits)
next
  case GuardTick
  with assms show ?thesis
    by (auto simp: guard_inv_def guard_cleanup_def split: option.splits)
qed

lemma guard_inv_run:
  assumes "guard_inv ip n g" and "bf_max g \<ge> 1"
  shows "guard_inv ip (n + failed_logins ip evs) (guard_run evs g)"
  using assms
proof (induction evs arbitrary: n g)
  case (Cons e evs)
  from guard_inv_step[OF Cons.prems, of "snd e" "fst e"] Cons.prems(2)
  have "guard_inv ip ((if snd e = GuardLeave ip 401 then Suc n else n) + failed_logins ip evs)
      (guard_run evs (guard_step e g))"
    by (intro Cons.IH) simp_all
  then show ?case by (auto simp: failed_logins_def split: if_splits)
qed (simp add: failed_logins_def)

section \<open>Properties\<close>


text \<open>An address with fewer failed logins than the limit is never turned away, whatever the
  order of its and other addresses' requests and of the cleanup ticks.\<close>

theorem no_false_ban:
  assumes "int (failed_logins ip evs) < mx"
  shows "\<not> fst (guard_enter now ip (guard_run evs (NewBruteForceGuard mx banMinutes)))"
proof -
  have "guard_inv ip (0 + failed_logins ip evs) (guard_run evs (NewBruteForceGuard mx banMinutes))"
    using assms by (intro guard_inv_run) (simp_all add: guard_inv_def NewBruteForceGuard_def)
  with assms show ?thesis
    by (auto simp: guard_inv_def guard_enter_def is_zero_time_def NewBruteForceGuard_def split: option.splits)
qed

text \<open>A session token revoked while the list has room is refused by the authentication
  middleware at any time up to its expiry, whatever is revoked, checked or purged in between.\<close>

theorem revoked_token_rejected:
  assumes "card (dom d) < maxDenyListEntries"
    and "list_all (\<lambda>(t, ev). t \<le> exp \<and> \<not> revokes_other_expiry jti exp ev) evs" and "now \<le> exp"
    and "verify now (ExtractBearerToken c) = Some claims" and "cl_id claims = jti" and "jti \<noteq> []"
    and "ExtractBearerToken c \<noteq> []"
  shows "fst (Auth verify now c (deny_run evs (Revoke order t0 jti exp d))) =
         Inl (401, ''token has been revoked'')"
proof -
  have "deny_run evs (Revoke order t0 jti exp d) jti = Some exp"
    using assms(1) by (intro deny_run_keeps[OF _ assms(2)]) (simp add: Revoke_def)
  then show ?thesis
    using assms(3-7) by (simp add: Auth_def IsRevoked_def)
qed

text \<open>The deny list never outgrows its bound, and a revocation is lost only when the list is
  full of unexpired entries.\<close>

theorem deny_list_bounded:
  assumes "finite (dom d)" and "card (dom d) \<le> maxDenyListEntries" and "enumerates order d"
  shows "card (dom (Revoke order now jti exp d)) \<le> maxDenyListEntries \<and>
    (Revoke order now jti exp d jti = Some exp \<or>
     (card (dom d) = maxDenyListEntries \<and> Revoke order now jti exp d = d \<and>
      (\<forall>e \<in> ran d. now \<le> e)))"
proof (cases "card (dom d) < maxDenyListEntries")
  case True
  then show ?thesis using assms(1) by (simp add: Revoke_def card_insert_if)
next
  case False
  with assms(2) have full: "card (dom d) = maxDenyListEntries" by simp
  show ?thesis
  proof (cases "find (\<lambda>k. case d k of None \<Rightarrow> False | Some v \<Rightarrow> now > v) order")
    case None
    then have "\<forall>e \<in> ran d. now \<le> e"
      using enumeratesD(2)[OF assms(3)] by (fastforce simp: find_None_iff ran_def)
    with None full show ?thesis by (simp add: Revoke_def)
  next
    case (Some k)
    then have "k \<in> dom d" by (auto simp: find_Some_iff split: option.splits)
    then have "card (dom (d(k := None))) < maxDenyListEntries"
      using assms(1) full by (simp add: card_Diff_singleton maxDenyListEntries_def)
    with Some full assms(1) show ?thesis
      by (simp add: Revoke_def Let_def card_insert_if)
  qed
qed

lemma find_agent_node_Some:
  "find_agent_node token ns = Some n \<Longrightarrow>
     n \<in> set ns \<and> n_type n = NodeTypeStandalone \<and> n_agent_token n = token \<and> token \<noteq> []"
  by (induction ns) (auto split: if_splits)

lemma find_agent_node_None:
  "find_agent_node token ns = None \<longleftrightarrow>
     list_all (\<lambda>n. n_type n = NodeTypeStandalone \<longrightarrow> n_agent_token n = token \<longrightarrow> token = []) ns"
  by (induction ns) auto

text \<open>An agent request is accepted exactly when its bearer token is the non-empty token of an
  active standalone node; the empty token and the tokens of other nodes open nothing.\<close>

theorem NodeAgentAuth_exact:
  "(\<exists>n. NodeAgentAuth active auth = Inr n) \<longleftrightarrow>
   (\<exists>nodes n. active = Inr nodes \<and> n \<in> set nodes \<and> n_type n = NodeTypeStandalone \<and>
      n_agent_token n \<noteq> [] \<and> auth = ''Bearer '' @ n_agent_token n)"
  by (auto simp: NodeAgentAuth_def trim_prefix_def has_prefix_iff find_agent_node_None list_all_iff
      Let_def split: sum.splits option.splits dest!: find_agent_node_Some)

section \<open>Witnesses\<close>


lemma no_false_ban_witness:
  "\<not> fst (guard_enter 9 ''x'' (guard_run [(5, GuardLeave ''x'' 401)] (NewBruteForceGuard 2 15)))"
  using no_false_ban[of "''x''" "[(5, GuardLeave ''x'' 401)]" 2 9 15] by (simp add: failed_logins_def)

definition example_claims :: Claims where
  "example_claims =
     \<lparr>cl_user_id = 1, cl_role = ''admin'', cl_id = ''j1'', cl_expires_at = Some 100\<rparr>"

definition example_verify :: jwt_verify where
  "example_verify now token = (if token = ''tok'' \<and> now \<le> 100 then Some example_claims else None)"

definition example_creds :: request_creds where
  "example_creds = \<lparr>rc_cookie = Some ''tok'', rc_auth = []\<rparr>"

lemma revoked_token_rejected_witness:
  "fst (Auth example_verify 60 example_creds
     (deny_run [(50, DenyPurge)] (Revoke [] 40 ''j1'' 100 NewJTIDenyList))) =
   Inl (401, ''token has been revoked'')"
  using revoked_token_rejected[of NewJTIDenyList 100 "''j1''" "[(50, DenyPurge)]" 60 example_verify
      example_creds example_claims "[]" 40]
  by (simp add: NewJTIDenyList_def maxDenyListEntries_def example_verify_def example_creds_def
      ExtractBearerToken_def example_claims_def)

lemma deny_list_bounded_witness:
  "card (dom (Revoke [] 40 ''j1'' 100 NewJTIDenyList)) \<le> maxDenyListEntries"
  using deny_list_bounded[of NewJTIDenyList "[]" 40 "''j1''" 100]
  by (simp add: NewJTIDenyList_def maxDenyListEntries_def enumerates_def)

end
