(* ===== verification/QueryStore.thy ===== *)
theory QueryStore
  imports Domain
begin

text \<open>
  \<open>internal/store/querystore\<close>: the in-memory table that carries a running query's output
  lines and partial results from the query goroutine to the readers of its stream, and its
  final result afterwards. Every operation runs under the store's locks and is one step here.
  The capacity-1 channel \<open>notify\<close> is the flag that a token is pending. Values are immutable
  here, so the copies the code makes (\<open>cloneSlice\<close>, \<open>cloneParsed\<close>, the struct copies of
  \<open>Get\<close> and \<open>Set\<close>) are the identity on contents.
\<close>

section \<open>The store\<close>

record entry =
  en_result :: "query_result option"
  en_lines :: "string list"
  en_output_complete :: bool
  en_notify :: bool
  en_created_at :: go_time

record query_store =
  qs_results :: "string \<rightharpoonup> entry"
  qs_expiry :: duration

definition NewStore :: query_store where
  "NewStore = \<lparr>qs_results = Map.empty, qs_expiry = 5 * minute\<rparr>"

definition SetRunning :: "go_time \<Rightarrow> string \<Rightarrow> query_store \<Rightarrow> query_store" where
  "SetRunning now qid s =
     s\<lparr>qs_results := (qs_results s)(qid \<mapsto>
       \<lparr>en_result = Some (empty_query_result\<lparr>qr_id := qid, qr_status := StatusRunning\<rparr>),
        en_lines = [], en_output_complete = False, en_notify = False, en_created_at = now\<rparr>)\<rparr>"

text \<open>What a reader that waits on \<open>NotifyCh\<close> meets: the closed channel of an unknown query is
  always ready, otherwise a pending token is.\<close>

definition NotifyReady :: "string \<Rightarrow> query_store \<Rightarrow> bool" where
  "NotifyReady qid s = (case qs_results s qid of None \<Rightarrow> True | Some e \<Rightarrow> en_notify e)"

definition NotifyReceive :: "string \<Rightarrow> query_store \<Rightarrow> query_store" where
  "NotifyReceive qid s =
     (case qs_results s qid of
        None \<Rightarrow> s
      | Some e \<Rightarrow> s\<lparr>qs_results := (qs_results s)(qid \<mapsto> e\<lparr>en_notify := False\<rparr>)\<rparr>)"

definition signal :: "string \<Rightarrow> query_store \<Rightarrow> query_store" where
  "signal qid s =
     (case qs_results s qid of
        None \<Rightarrow> s
      | Some e \<Rightarrow> s\<lparr>qs_results := (qs_results s)(qid \<mapsto> e\<lparr>en_notify := True\<rparr>)\<rparr>)"

definition AppendLine :: "string \<Rightarrow> string \<Rightarrow> query_store \<Rightarrow> query_store" where
  "AppendLine qid line s =
     (case qs_results s qid of
        None \<Rightarrow> s
      | Some e \<Rightarrow>
          signal qid (s\<lparr>qs_results := (qs_results s)(qid \<mapsto> e\<lparr>en_lines := en_lines e @ [line]\<rparr>)\<rparr>))"

definition GetLines :: "string \<Rightarrow> query_store \<Rightarrow> string list option" where
  "GetLines qid s = map_option en_lines (qs_results s qid)"

definition mergeASPathPartialFields :: "query_result \<Rightarrow> query_result \<Rightarrow> query_result" where
  "mergeASPathPartialFields dest partial =
     (let d1 = (if qr_as_path partial \<noteq> [] then dest\<lparr>qr_as_path := qr_as_path partial\<rparr> else dest);
          d2 = (if qr_as_path_prefix partial \<noteq> []
                then d1\<lparr>qr_as_path_prefix := qr_as_path_prefix partial\<rparr> else d1);
          d3 = (if qr_as_path_enriched partial \<noteq> []
                then d2\<lparr>qr_as_path_enriched := qr_as_path_enriched partial\<rparr> else d2)
      in if qr_as_path_nodes partial \<noteq> []
         then d3\<lparr>qr_as_path_nodes := qr_as_path_nodes partial\<rparr> else d3)"

definition cloneParsed :: "parsed \<Rightarrow> parsed" where
  "cloneParsed v =
     (case v of
        ParsedPing None \<Rightarrow> v
      | ParsedPing (Some p) \<Rightarrow> ParsedPing (Some p)
      | ParsedTraceroute None \<Rightarrow> v
      | ParsedTraceroute (Some p) \<Rightarrow> ParsedTraceroute (Some (p\<lparr>tr_hops := tr_hops p\<rparr>))
      | ParsedBGP None \<Rightarrow> v
      | ParsedBGP (Some p) \<Rightarrow> ParsedBGP (Some (p\<lparr>br_routes := br_routes p\<rparr>)))"

definition merge_running :: "query_result \<Rightarrow> query_result \<Rightarrow> query_result" where
  "merge_running r partial =
     (let r1 = (case qr_parsed partial of None \<Rightarrow> r | Some v \<Rightarrow> r\<lparr>qr_parsed := Some (cloneParsed v)\<rparr>);
          r2 = (if qr_raw partial \<noteq> [] then r1\<lparr>qr_raw := qr_raw partial\<rparr> else r1)
      in if qr_matched_rules partial \<noteq> [] then r2\<lparr>qr_matched_rules := qr_matched_rules partial\<rparr> else r2)"

definition MergePartial :: "string \<Rightarrow> query_result option \<Rightarrow> query_store \<Rightarrow> query_store" where
  "MergePartial qid part s =
     (case part of
        None \<Rightarrow> s
      | Some partial \<Rightarrow>
         (case qs_results s qid of
            None \<Rightarrow> s
          | Some e \<Rightarrow>
             (case en_result e of
                None \<Rightarrow> s
              | Some r \<Rightarrow>
                  (let r1 = mergeASPathPartialFields r partial;
                       s1 = s\<lparr>qs_results := (qs_results s)(qid \<mapsto> e\<lparr>en_result := Some r1\<rparr>)\<rparr>
                   in if qr_status r1 \<noteq> StatusRunning then s1
                      else signal qid (s\<lparr>qs_results := (qs_results s)(qid \<mapsto>
                             e\<lparr>en_result := Some (merge_running r1 partial)\<rparr>)\<rparr>)))))"

definition MarkOutputComplete :: "string \<Rightarrow> query_store \<Rightarrow> query_store" where
  "MarkOutputComplete qid s =
     signal qid (case qs_results s qid of
       None \<Rightarrow> s
     | Some e \<Rightarrow> s\<lparr>qs_results := (qs_results s)(qid \<mapsto> e\<lparr>en_output_complete := True\<rparr>)\<rparr>)"

definition IsOutputComplete :: "string \<Rightarrow> query_store \<Rightarrow> bool" where
  "IsOutputComplete qid s = (case qs_results s qid of None \<Rightarrow> False | Some e \<Rightarrow> en_output_complete e)"

definition SetResult :: "go_time \<Rightarrow> string \<Rightarrow> query_result option \<Rightarrow> query_store \<Rightarrow> query_store" where
  "SetResult now qid result s =
     signal qid (s\<lparr>qs_results := (qs_results s)(qid \<mapsto>
       (case qs_results s qid of
          Some e \<Rightarrow> e\<lparr>en_result := result\<rparr>
        | None \<Rightarrow> \<lparr>en_result = result, en_lines = [], en_output_complete = False, en_notify = False,
                   en_created_at = now\<rparr>))\<rparr>)"

text \<open>\<open>Get\<close>: None when the query is unknown, otherwise the result pointer, which may be nil.\<close>

definition Get :: "string \<Rightarrow> query_store \<Rightarrow> query_result option option" where
  "Get qid s = map_option en_result (qs_results s qid)"

definition Delete :: "string \<Rightarrow> query_store \<Rightarrow> query_store" where
  "Delete qid s = s\<lparr>qs_results := (qs_results s)(qid := None)\<rparr>"

definition store_cleanup :: "go_time \<Rightarrow> query_store \<Rightarrow> query_store" where
  "store_cleanup now s =
     s\<lparr>qs_results := (\<lambda>qid.
       case qs_results s qid of
         None \<Rightarrow> None
       | Some e \<Rightarrow> if time_sub now (en_created_at e) > qs_expiry s then None else Some e)\<rparr>"

section \<open>Interleavings\<close>

datatype store_event =
    EvSetRunning go_time string
  | EvAppend string string
  | EvMerge string "query_result option"
  | EvComplete string
  | EvSet go_time string "query_result option"
  | EvReceive string
  | EvDelete string
  | EvCleanup go_time

fun store_step :: "store_event \<Rightarrow> query_store \<Rightarrow> query_store" where
  "store_step (EvSetRunning t qid) s = SetRunning t qid s"
| "store_step (EvAppend qid l) s = AppendLine qid l s"
| "store_step (EvMerge qid p) s = MergePartial qid p s"
| "store_step (EvComplete qid) s = MarkOutputComplete qid s"
| "store_step (EvSet t qid r) s = SetResult t qid r s"
| "store_step (EvReceive qid) s = NotifyReceive qid s"
| "store_step (EvDelete qid) s = Delete qid s"
| "store_step (EvCleanup t) s = store_cleanup t s"

definition store_run :: "store_event list \<Rightarrow> query_store \<Rightarrow> query_store" where
  "store_run evs s = foldl (\<lambda>s e. store_step e s) s evs"

lemma store_run_simps [simp]:
  "store_run [] s = s" "store_run (e # evs) s = store_run evs (store_step e s)"
  by (simp_all add: store_run_def)

named_theorems store_ops
lemmas [store_ops] =
  SetRunning_def NotifyReceive_def signal_def AppendLine_def MergePartial_def MarkOutputComplete_def
  SetResult_def Delete_def store_cleanup_def Let_def

lemma cloneParsed_id [simp]: "cloneParsed v = v"
  by (auto simp: cloneParsed_def split: parsed.splits option.splits)

lemma merge_status [simp]:
  "qr_status (mergeASPathPartialFields r p) = qr_status r" "qr_status (merge_running r p) = qr_status r"
  by (auto simp: mergeASPathPartialFields_def merge_running_def Let_def split: option.splits)

lemma qs_expiry_step [simp]: "qs_expiry (store_step e s) = qs_expiry s"
  by (cases e) (auto simp: store_ops split: option.splits)

text \<open>A result without its AS-path fields.\<close>

definition core :: "query_result \<Rightarrow> query_result" where
  "core r = r\<lparr>qr_as_path := [], qr_as_path_prefix := [], qr_as_path_enriched := [], qr_as_path_nodes := []\<rparr>"

lemma core_merge [simp]: "core (mergeASPathPartialFields r p) = core r"
  by (simp add: core_def mergeASPathPartialFields_def Let_def)

section \<open>Final results\<close>

text \<open>The events that touch a query's result on purpose.\<close>

fun replaces :: "string \<Rightarrow> store_event \<Rightarrow> bool" where
  "replaces qid (EvSetRunning t i) = (i = qid)"
| "replaces qid (EvSet t i r) = (i = qid)"
| "replaces qid (EvDelete i) = (i = qid)"
| "replaces qid _ = False"

definition is_final :: "query_result \<Rightarrow> bool" where
  "is_final r \<longleftrightarrow> qr_status r = StatusDone \<or> qr_status r = StatusError"

definition holds_final :: "string \<Rightarrow> query_result \<Rightarrow> go_time \<Rightarrow> query_store \<Rightarrow> bool" where
  "holds_final qid c t s \<longleftrightarrow>
     (\<exists>e r. qs_results s qid = Some e \<and> en_created_at e = t \<and> en_result e = Some r \<and>
            is_final r \<and> core r = c)"

lemma core_status: "core r = core r' \<Longrightarrow> qr_status r = qr_status r'"
  by (drule arg_cong[where f = qr_status]) (simp add: core_def)

lemma holds_final_step:
  assumes "holds_final qid c t s" and "\<not> replaces qid ev"
    and "\<And>u. ev = EvCleanup u \<Longrightarrow> time_sub u t \<le> qs_expiry s"
  shows "holds_final qid c t (store_step ev s)"
proof -
  obtain e r where er: "qs_results s qid = Some e" "en_created_at e = t" "en_result e = Some r"
    "is_final r" "core r = c"
    using assms(1) by (auto simp: holds_final_def)
  then have "qr_status r \<noteq> StatusRunning" by (auto simp: is_final_def)
  moreover have "is_final (mergeASPathPartialFields r p)" for p
    using er(4) by (simp add: is_final_def)
  ultimately show ?thesis
    using er assms(2,3)
    by (cases ev) (force simp: store_ops holds_final_def split: option.splits)+
qed

section \<open>Wake-ups\<close>

text \<open>What a waiting reader would act on: the lines, the end-of-output flag and the result, the
  AS-path fields of a final result aside.\<close>

definition reader_view :: "string \<Rightarrow> query_store \<Rightarrow> (query_result option \<times> string list \<times> bool) option" where
  "reader_view qid s =
     map_option (\<lambda>e. (map_option (\<lambda>r. if qr_status r = StatusRunning then r else core r) (en_result e),
                      en_lines e, en_output_complete e)) (qs_results s qid)"

fun resets_channel :: "string \<Rightarrow> store_event \<Rightarrow> bool" where
  "resets_channel qid (EvSetRunning t i) = (i = qid)"
| "resets_channel qid (EvReceive i) = (i = qid)"
| "resets_channel qid _ = False"

lemma step_view_or_ready:
  assumes "\<not> resets_channel qid ev"
  shows "reader_view qid (store_step ev s) = reader_view qid s \<and>
           (NotifyReady qid s \<longrightarrow> NotifyReady qid (store_step ev s)) \<or>
         NotifyReady qid (store_step ev s)"
  using assms
  by (cases ev) (auto simp: store_ops reader_view_def NotifyReady_def split: option.splits)

lemma run_view_or_ready:
  assumes "list_all (\<lambda>ev. \<not> resets_channel qid ev) evs"
  shows "reader_view qid (store_run evs s) = reader_view qid s \<and>
           (NotifyReady qid s \<longrightarrow> NotifyReady qid (store_run evs s)) \<or>
         NotifyReady qid (store_run evs s)"
  using assms
proof (induction evs arbitrary: s)
  case (Cons ev evs)
  then have ev: "\<not> resets_channel qid ev" and evs: "list_all (\<lambda>ev. \<not> resets_channel qid ev) evs"
    by simp_all
  show ?case
    unfolding store_run_simps using step_view_or_ready[OF ev, of s] Cons.IH[OF evs, of "store_step ev s"]
    by metis
qed simp

lemma holds_final_run:
  assumes "holds_final qid c t s" and "list_all (\<lambda>ev. \<not> replaces qid ev) evs"
    and "list_all (\<lambda>ev. case ev of EvCleanup u \<Rightarrow> time_sub u t \<le> qs_expiry s | _ \<Rightarrow> True) evs"
  shows "holds_final qid c t (store_run evs s)"
  using assms
proof (induction evs arbitrary: s)
  case (Cons ev evs)
  have "holds_final qid c t (store_step ev s)"
    using Cons.prems by (intro holds_final_step) auto
  from Cons.IH[OF this] Cons.prems show ?case by simp
qed simp

section \<open>Properties\<close>

text \<open>C14: Once a query has its final result, late partial results, lines, signals, other queries
  and cleanup ticks within the entry's life change nothing of it but its AS-path fields: a reader
  still gets a final result with the same status, output, matched rules and error.\<close>

theorem final_result_stable:
  assumes "Get qid s = Some (Some r)" and "is_final r"
    and "qs_results s qid = Some e" and "list_all (\<lambda>ev. \<not> replaces qid ev) evs"
    and "list_all (\<lambda>ev. case ev of EvCleanup u \<Rightarrow> time_sub u (en_created_at e) \<le> qs_expiry s
                          | _ \<Rightarrow> True) evs"
  shows "\<exists>r'. Get qid (store_run evs s) = Some (Some r') \<and> is_final r' \<and> core r' = core r"
proof -
  have "holds_final qid (core r) (en_created_at e) s"
    using assms(1,2,3) by (auto simp: holds_final_def Get_def)
  from holds_final_run[OF this assms(4,5)] show ?thesis
    by (auto simp: holds_final_def Get_def)
qed


section \<open>Witnesses\<close>

definition done_result :: query_result where
  "done_result = empty_query_result\<lparr>qr_id := ''q'', qr_status := StatusDone, qr_raw := ''ok''\<rparr>"

definition late_partial :: query_result where
  "late_partial = empty_query_result\<lparr>qr_raw := ''late'', qr_as_path := [64500]\<rparr>"

definition done_store :: query_store where
  "done_store = store_run [EvSetRunning 10 ''q'', EvAppend ''q'' ''l'', EvSet 20 ''q'' (Some done_result)] NewStore"

lemma final_result_stable_witness:
  "\<exists>r'. Get ''q'' (store_run [EvMerge ''q'' (Some late_partial), EvCleanup 30] done_store) = Some (Some r') \<and>
     is_final r' \<and> core r' = core done_result"
  by (rule final_result_stable[where e = "\<lparr>en_result = Some done_result,
        en_lines = [''l''], en_output_complete = False, en_notify = True, en_created_at = 10\<rparr>"])
     (simp_all add: done_store_def NewStore_def Get_def GetLines_def store_ops done_result_def
        is_final_def duration_defs)


end
