(* ===== verification/QueryStream.thy ===== *)
theory QueryStream
  imports QueryStore
begin

text \<open>
  \<open>internal/server/handler/public.go\<close>, the two ends of a running query: the end of the query
  goroutine of \<open>SubmitQuery\<close>, which publishes the final result, and the loop of
  \<open>StreamResult\<close>, which follows the store and writes server-sent events. The loop reads the
  store three times per turn with nothing held in between, so it is modelled as three atomic
  steps that interleave with the writers' steps. \<open>marshal\<close> is the JSON encoder.
\<close>

section \<open>Following an append-only list\<close>

text \<open>A client that repeatedly copies what is new of a list others append to.\<close>

locale append_only =
  fixes step :: "'e \<Rightarrow> 's \<Rightarrow> 's"
    and contents :: "'s \<Rightarrow> 'a list"
    and keeps :: "'e \<Rightarrow> 's \<Rightarrow> bool"
  assumes grows: "keeps e s \<Longrightarrow> \<exists>xs. contents (step e s) = contents s @ xs"
begin

definition copied :: "nat \<Rightarrow> 'a list \<Rightarrow> 's \<Rightarrow> bool" where
  "copied n out s \<longleftrightarrow> n \<le> length (contents s) \<and> out = take n (contents s)"

lemma copied_step: "copied n out s \<Longrightarrow> keeps e s \<Longrightarrow> copied n out (step e s)"
  using grows[of e s] by (auto simp: copied_def)

lemma copied_read: "copied n out s \<Longrightarrow>
    copied (max n (length (contents s))) (out @ drop n (contents s)) s"
  by (auto simp: copied_def max_def)

end

section \<open>The stream loop\<close>

datatype stream_msg =
    MsgOutput string | MsgOutputDone | MsgPartial string | MsgResult query_result

datatype stream_phase = PhLines | PhDone | PhResult | PhEnded | PhPanicked

record stream =
  sm_last_line_idx :: nat
  sm_last_partial_sig :: string
  sm_output_done_sent :: bool
  sm_out :: "stream_msg list"
  sm_phase :: stream_phase

definition StartStream :: stream where
  "StartStream =
     \<lparr>sm_last_line_idx = 0, sm_last_partial_sig = [], sm_output_done_sent = False, sm_out = [],
      sm_phase = PhLines\<rparr>"

text \<open>Lines 400-411: the new output lines.\<close>

definition stream_lines :: "string \<Rightarrow> query_store \<Rightarrow> stream \<Rightarrow> stream" where
  "stream_lines qid s st =
     (let lines = (case GetLines qid s of None \<Rightarrow> [] | Some ls \<Rightarrow> ls);
          st1 = st\<lparr>sm_out := sm_out st @ map MsgOutput (drop (sm_last_line_idx st) lines)\<rparr>
      in (if length lines > sm_last_line_idx st
          then st1\<lparr>sm_last_line_idx := length lines\<rparr> else st1)\<lparr>sm_phase := PhDone\<rparr>)"

text \<open>Lines 413-419: the end-of-output event, once.\<close>

definition stream_done :: "string \<Rightarrow> query_store \<Rightarrow> stream \<Rightarrow> stream" where
  "stream_done qid s st =
     (if \<not> sm_output_done_sent st \<and> IsOutputComplete qid s
      then st\<lparr>sm_out := sm_out st @ [MsgOutputDone], sm_output_done_sent := True\<rparr>
      else st)\<lparr>sm_phase := PhResult\<rparr>"

text \<open>Lines 422-451: partial data while the query runs, the final result, or the next turn. A nil
  result of a known query is dereferenced.\<close>

definition stream_result :: "(query_result \<Rightarrow> string) \<Rightarrow> string \<Rightarrow> query_store \<Rightarrow> stream \<Rightarrow> stream" where
  "stream_result marshal qid s st =
     (case Get qid s of
        None \<Rightarrow> st\<lparr>sm_phase := PhLines\<rparr>
      | Some None \<Rightarrow> st\<lparr>sm_phase := PhPanicked\<rparr>
      | Some (Some result) \<Rightarrow>
          (let st1 =
             (if qr_status result = StatusRunning \<and> marshal result \<noteq> sm_last_partial_sig st
              then st\<lparr>sm_last_partial_sig := marshal result,
                      sm_out := sm_out st @ [MsgPartial (marshal result)]\<rparr>
              else st)
           in if qr_status result = StatusDone \<or> qr_status result = StatusError
              then st1\<lparr>sm_out := sm_out st1 @ [MsgResult result], sm_phase := PhEnded\<rparr>
              else st1\<lparr>sm_phase := PhLines\<rparr>))"

definition stream_step :: "(query_result \<Rightarrow> string) \<Rightarrow> string \<Rightarrow> query_store \<Rightarrow> stream \<Rightarrow> stream" where
  "stream_step marshal qid s st =
     (case sm_phase st of
        PhLines \<Rightarrow> stream_lines qid s st
      | PhDone \<Rightarrow> stream_done qid s st
      | PhResult \<Rightarrow> stream_result marshal qid s st
      | PhEnded \<Rightarrow> st
      | PhPanicked \<Rightarrow> st)"

text \<open>Interleavings of the writers with one reader.\<close>

datatype move = Writer store_event | Reader

fun run_moves ::
  "(query_result \<Rightarrow> string) \<Rightarrow> string \<Rightarrow> move list \<Rightarrow> query_store \<times> stream \<Rightarrow> query_store \<times> stream" where
  "run_moves marshal qid [] sst = sst"
| "run_moves marshal qid (Writer ev # ms) (s, st) = run_moves marshal qid ms (store_step ev s, st)"
| "run_moves marshal qid (Reader # ms) (s, st) = run_moves marshal qid ms (s, stream_step marshal qid s st)"

definition streamed_lines :: "stream \<Rightarrow> string list" where
  "streamed_lines st = concat (map (\<lambda>m. case m of MsgOutput l \<Rightarrow> [l] | _ \<Rightarrow> []) (sm_out st))"

definition stored_lines :: "string \<Rightarrow> query_store \<Rightarrow> string list" where
  "stored_lines qid s = (case GetLines qid s of None \<Rightarrow> [] | Some ls \<Rightarrow> ls)"

fun keeps_lines :: "string \<Rightarrow> store_event \<Rightarrow> query_store \<Rightarrow> bool" where
  "keeps_lines qid (EvSetRunning t i) s = (i \<noteq> qid)"
| "keeps_lines qid (EvDelete i) s = (i \<noteq> qid)"
| "keeps_lines qid (EvCleanup t) s =
     (case qs_results s qid of None \<Rightarrow> True | Some e \<Rightarrow> time_sub t (en_created_at e) \<le> qs_expiry s)"
| "keeps_lines qid _ s = True"

interpretation ql: append_only store_step "stored_lines qid" "keeps_lines qid" for qid
proof
  fix e s
  assume "keeps_lines qid e s"
  then show "\<exists>xs. stored_lines qid (store_step e s) = stored_lines qid s @ xs"
    by (cases e) (force simp: store_ops stored_lines_def GetLines_def split: option.splits)+
qed

lemma streamed_lines_append [simp]:
  "streamed_lines (st\<lparr>sm_out := sm_out st @ ms\<rparr>) =
     streamed_lines st @ concat (map (\<lambda>m. case m of MsgOutput l \<Rightarrow> [l] | _ \<Rightarrow> []) ms)"
  by (simp add: streamed_lines_def)

lemma stream_step_copied:
  assumes "ql.copied qid (sm_last_line_idx st) (streamed_lines st) s"
  shows "ql.copied qid (sm_last_line_idx (stream_step marshal qid s st))
           (streamed_lines (stream_step marshal qid s st)) s"
proof (cases "sm_phase st")
  case PhLines
  then show ?thesis
    using ql.copied_read[OF assms] assms
    by (auto simp: stream_step_def stream_lines_def streamed_lines_def stored_lines_def comp_def max_def
        Let_def ql.copied_def split: if_splits)
qed (use assms in \<open>auto simp: stream_step_def stream_done_def stream_result_def streamed_lines_def Let_def
       split: option.splits\<close>)

section \<open>Publishing the final result\<close>

definition asPathEnrichedHasLabels :: "as_info list \<Rightarrow> bool" where
  "asPathEnrichedHasLabels entries =
     list_ex (\<lambda>e. trim_space (as_org_name e) \<noteq> [] \<or> trim_space (as_short_name e) \<noteq> []) entries"

definition mergeASPathFields :: "query_result \<Rightarrow> query_result \<Rightarrow> query_result" where
  "mergeASPathFields dest stored =
     (let d1 = (if qr_as_path dest = [] \<and> qr_as_path stored \<noteq> []
                then dest\<lparr>qr_as_path := qr_as_path stored\<rparr> else dest);
          d2 = (if qr_as_path_prefix d1 = [] \<and> qr_as_path_prefix stored \<noteq> []
                then d1\<lparr>qr_as_path_prefix := qr_as_path_prefix stored\<rparr> else d1);
          d3 = (if qr_as_path_nodes d2 = [] \<and> qr_as_path_nodes stored \<noteq> []
                then d2\<lparr>qr_as_path_nodes := qr_as_path_nodes stored\<rparr> else d2)
      in if qr_as_path_enriched stored = [] then d3
         else if length (qr_as_path_enriched stored) > length (qr_as_path_enriched d3) \<or>
                 \<not> asPathEnrichedHasLabels (qr_as_path_enriched d3)
         then d3\<lparr>qr_as_path_enriched := qr_as_path_enriched stored\<rparr>
         else d3)"

definition skipASPathWaitForBGP :: "string \<Rightarrow> query_result option \<Rightarrow> bool" where
  "skipASPathWaitForBGP command result =
     (case result of
        None \<Rightarrow> False
      | Some r \<Rightarrow>
          if command \<noteq> CmdBGPRoute then False
          else (case qr_parsed r of
                  Some (ParsedBGP (Some br)) \<Rightarrow> br_routes br = []
                | _ \<Rightarrow> False))"

fun unique_asns_loop :: "u32 list \<Rightarrow> u32 list \<Rightarrow> u32 list" where
  "unique_asns_loop seen [] = seen"
| "unique_asns_loop seen (asn # path) =
     (if asn = 0 then unique_asns_loop seen path
      else if asn \<in> set seen then unique_asns_loop seen path
      else unique_asns_loop (asn # seen) path)"

definition uniqueASNsInPath :: "u32 list \<Rightarrow> nat" where
  "uniqueASNsInPath path = length (unique_asns_loop [] path)"

definition asPathEnrichmentReady :: "query_result option \<Rightarrow> bool" where
  "asPathEnrichmentReady r =
     (case r of
        None \<Rightarrow> True
      | Some q \<Rightarrow>
          if qr_as_path q = [] then True
          else if uniqueASNsInPath (qr_as_path q) = 0 then True
          else length (qr_as_path_enriched q) \<ge> uniqueASNsInPath (qr_as_path q))"

text \<open>Lines 317-324: the output is complete, the AS-path fields the prefetch left in the store are
  merged into the engine's result, the result is stored. The read and the write are two steps.\<close>

definition finish_read :: "string \<Rightarrow> query_result option \<Rightarrow> query_store \<Rightarrow> query_result option" where
  "finish_read qid result s =
     (case Get qid s of
        Some (Some stored) \<Rightarrow>
          (case result of Some r \<Rightarrow> Some (mergeASPathFields r stored) | None \<Rightarrow> None)
      | _ \<Rightarrow> result)"

definition finish_query :: "go_time \<Rightarrow> string \<Rightarrow> query_result option \<Rightarrow> query_store \<Rightarrow> query_store" where
  "finish_query now qid result s =
     (let s1 = MarkOutputComplete qid s
      in SetResult now qid (finish_read qid result s1) s1)"

lemma set_unique_asns_loop: "set (unique_asns_loop seen path) = set seen \<union> (set path - {0})"
  by (induction seen path rule: unique_asns_loop.induct) auto

lemma distinct_unique_asns_loop: "distinct seen \<Longrightarrow> distinct (unique_asns_loop seen path)"
  by (induction seen path rule: unique_asns_loop.induct) auto

lemma uniqueASNsInPath_card: "uniqueASNsInPath path = card (set path - {0})"
  using distinct_card[OF distinct_unique_asns_loop[of "[]" path]]
  by (simp add: uniqueASNsInPath_def set_unique_asns_loop)

lemma core_updates:
  "core (r\<lparr>qr_as_path := u\<rparr>) = core r" "core (r\<lparr>qr_as_path_prefix := v\<rparr>) = core r"
  "core (r\<lparr>qr_as_path_nodes := w\<rparr>) = core r" "core (r\<lparr>qr_as_path_enriched := x\<rparr>) = core r"
  by (simp_all add: core_def)

lemma core_mergeASPathFields [simp]: "core (mergeASPathFields d s) = core d"
  by (simp add: mergeASPathFields_def core_updates Let_def if_distrib[of core] split del: if_split cong del: if_weak_cong)

lemma path_mergeASPathFields:
  "qr_as_path (mergeASPathFields d s) = (if qr_as_path d = [] then qr_as_path s else qr_as_path d)"
  "qr_as_path_prefix (mergeASPathFields d s) =
     (if qr_as_path_prefix d = [] then qr_as_path_prefix s else qr_as_path_prefix d)"
  "qr_as_path_nodes (mergeASPathFields d s) =
     (if qr_as_path_nodes d = [] then qr_as_path_nodes s else qr_as_path_nodes d)"
  by (simp_all add: mergeASPathFields_def Let_def if_distrib[of qr_as_path] if_distrib[of qr_as_path_prefix]
        if_distrib[of qr_as_path_nodes] split del: if_split cong del: if_weak_cong)
     simp_all

lemma Get_MarkOutputComplete [simp]: "Get q (MarkOutputComplete qid s) = Get q s"
  by (auto simp: Get_def store_ops split: option.splits)

lemma Get_SetResult [simp]: "Get qid (SetResult now qid r s) = Some r"
  by (auto simp: Get_def store_ops split: option.splits)

section \<open>Properties\<close>

fun writers_keep :: "string \<Rightarrow> move list \<Rightarrow> query_store \<Rightarrow> bool" where
  "writers_keep qid [] s = True"
| "writers_keep qid (Writer ev # ms) s = (keeps_lines qid ev s \<and> writers_keep qid ms (store_step ev s))"
| "writers_keep qid (Reader # ms) s = writers_keep qid ms s"

definition is_result_msg :: "stream_msg \<Rightarrow> bool" where
  "is_result_msg m = (case m of MsgResult _ \<Rightarrow> True | _ \<Rightarrow> False)"

text \<open>No result event before the stream has ended; then exactly one, the last, a final result.\<close>

definition stream_ok :: "stream \<Rightarrow> bool" where
  "stream_ok st \<longleftrightarrow>
     (if sm_phase st = PhEnded
      then \<exists>ms r. sm_out st = ms @ [MsgResult r] \<and> is_final r \<and> list_all (\<lambda>m. \<not> is_result_msg m) ms
      else list_all (\<lambda>m. \<not> is_result_msg m) (sm_out st))"

lemma stream_ok_step: "stream_ok st \<Longrightarrow> stream_ok (stream_step marshal qid s st)"
  by (cases "sm_phase st")
     (auto simp: stream_ok_def stream_step_def stream_lines_def stream_done_def stream_result_def
        is_result_msg_def is_final_def list_all_iff Let_def split: option.splits)

lemma run_moves_ok:
  assumes "stream_ok st" and "ql.copied qid (sm_last_line_idx st) (streamed_lines st) s"
    and "writers_keep qid ms s" and "run_moves marshal qid ms (s, st) = (s', st')"
  shows "stream_ok st' \<and> ql.copied qid (sm_last_line_idx st') (streamed_lines st') s'"
  using assms
proof (induction ms arbitrary: s st)
  case (Cons m ms)
  show ?case
  proof (cases m)
    case (Writer ev)
    then have "ql.copied qid (sm_last_line_idx st) (streamed_lines st) (store_step ev s)"
      using Cons.prems(2,3) by (intro ql.copied_step) simp_all
    then show ?thesis
      using Cons.prems Writer by (intro Cons.IH[of st "store_step ev s"]) simp_all
  next
    case Reader
    have "stream_ok (stream_step marshal qid s st)" by (rule stream_ok_step[OF Cons.prems(1)])
    moreover have "ql.copied qid (sm_last_line_idx (stream_step marshal qid s st))
        (streamed_lines (stream_step marshal qid s st)) s"
      by (rule stream_step_copied[OF Cons.prems(2)])
    ultimately show ?thesis
      using Cons.prems(3,4) Reader by (intro Cons.IH) simp_all
  qed
qed simp

text \<open>C18: Whatever the interleaving of the query's writers with a reader's turns, the reader has
  been sent a prefix of the query's output lines, each once and in order, no result event before
  the end, and at the end exactly one, the last event, with a final status.\<close>

theorem stream_protocol:
  assumes "writers_keep qid ms s" and "run_moves marshal qid ms (s, StartStream) = (s', st')"
  shows "streamed_lines st' = take (sm_last_line_idx st') (stored_lines qid s') \<and> stream_ok st'"
proof -
  have "ql.copied qid (sm_last_line_idx StartStream) (streamed_lines StartStream) s"
    by (simp add: ql.copied_def StartStream_def streamed_lines_def)
  moreover have "stream_ok StartStream"
    by (simp add: stream_ok_def StartStream_def)
  ultimately have "stream_ok st' \<and> ql.copied qid (sm_last_line_idx st') (streamed_lines st') s'"
    using assms by (intro run_moves_ok)
  then show ?thesis by (simp add: ql.copied_def)
qed

text \<open>When the engine's result is published, readers find exactly that result, completed with
  the AS path, prefix and per-node paths the prefetch had merged into the store wherever the engine
  left them empty.\<close>

theorem finish_query_keeps_prefetch:
  assumes "Get qid s = Some (Some stored)"
  shows "\<exists>r'. Get qid (finish_query now qid (Some r) s) = Some (Some r') \<and> core r' = core r \<and>
    qr_as_path r' = (if qr_as_path r = [] then qr_as_path stored else qr_as_path r) \<and>
    qr_as_path_prefix r' = (if qr_as_path_prefix r = [] then qr_as_path_prefix stored else qr_as_path_prefix r) \<and>
    qr_as_path_nodes r' = (if qr_as_path_nodes r = [] then qr_as_path_nodes stored else qr_as_path_nodes r)"
  using assms by (simp add: finish_query_def finish_read_def Let_def path_mergeASPathFields)

definition racing_moves :: "move list" where
  "racing_moves =
     [Writer (EvSetRunning 10 ''q''), Reader, Writer (EvAppend ''q'' ''l''), Writer (EvComplete ''q''),
      Writer (EvSet 20 ''q'' (Some done_result)), Reader, Reader]"

text \<open>The reader looks at the lines before it looks at the result: when the last line, the end
  of the output and the final result all arrive between the two, the stream sends the end-of-output
  event and the result and ends, and that line is never sent.\<close>

theorem stream_can_miss_last_line:
  "case run_moves marshal ''q'' racing_moves (NewStore, StartStream) of
     (s, st) \<Rightarrow> sm_phase st = PhEnded \<and> stored_lines ''q'' s = [''l''] \<and> streamed_lines st = [] \<and>
       sm_out st = [MsgOutputDone, MsgResult done_result]"
  by (simp add: racing_moves_def NewStore_def StartStream_def stream_step_def stream_lines_def
      stream_done_def stream_result_def GetLines_def Get_def IsOutputComplete_def stored_lines_def
      streamed_lines_def done_result_def store_ops)

section \<open>Witnesses\<close>

lemma stream_protocol_witness:
  "\<exists>s st. run_moves (\<lambda>_. ''p'') ''q'' (tl racing_moves) (SetRunning 10 ''q'' NewStore, StartStream) = (s, st) \<and>
     stream_ok st"
proof -
  obtain s st where run:
    "run_moves (\<lambda>_. ''p'') ''q'' (tl racing_moves) (SetRunning 10 ''q'' NewStore, StartStream) = (s, st)"
    by (rule prod.exhaust)
  have "writers_keep ''q'' (tl racing_moves) (SetRunning 10 ''q'' NewStore)"
    by (simp add: racing_moves_def)
  from stream_protocol[OF this run] run show ?thesis by blast
qed

lemma finish_query_keeps_prefetch_witness:
  "\<exists>r'. Get ''q'' (finish_query 30 ''q'' (Some done_result)
       (store_run [EvSetRunning 10 ''q'', EvMerge ''q'' (Some late_partial)] NewStore)) = Some (Some r') \<and>
     qr_as_path r' = [64500]"
proof -
  let ?s = "store_run [EvSetRunning 10 ''q'', EvMerge ''q'' (Some late_partial)] NewStore"
  obtain stored where st: "Get ''q'' ?s = Some (Some stored)" "qr_as_path stored = [64500]"
    by (simp add: Get_def store_ops NewStore_def merge_running_def mergeASPathPartialFields_def
        late_partial_def empty_query_result_def)
  from finish_query_keeps_prefetch[OF st(1), of 30 done_result] st(2)
  show ?thesis by (auto simp: done_result_def empty_query_result_def)
qed

end
