(* ===== verification/BestPath.thy ===== *)
theory BestPath
  imports Target
begin

text \<open>
  \<open>internal/bgp/bestpath.go\<close> and the selection functions of \<open>internal/bgp/query.go\<close>: the BGP
  decision process over the paths of a node, and the marking of the selected path per prefix.
  The order in which a Go map of groups is visited is an argument (a list of the prefixes).
\<close>

section \<open>Preferences\<close>

record pathPreference =
  pp_local_pref :: u32
  pp_as_path_len :: nat
  pp_origin :: nat
  pp_med :: u32
  pp_reflected :: bool
  pp_cluster_len :: nat
  pp_age_sec :: int
  pp_next_hop :: string
  pp_neighbor :: string

definition defaultLocalPref :: u32 where "defaultLocalPref = 100"

definition morePreferred :: "pathPreference \<Rightarrow> pathPreference \<Rightarrow> bool" where
  "morePreferred a b =
     (if pp_local_pref a \<noteq> pp_local_pref b then pp_local_pref a > pp_local_pref b
      else if pp_as_path_len a \<noteq> pp_as_path_len b then pp_as_path_len a < pp_as_path_len b
      else if pp_origin a \<noteq> pp_origin b then pp_origin a < pp_origin b
      else if pp_med a \<noteq> pp_med b then pp_med a < pp_med b
      else if pp_reflected a \<noteq> pp_reflected b then \<not> pp_reflected a
      else if pp_cluster_len a \<noteq> pp_cluster_len b then pp_cluster_len a < pp_cluster_len b
      else if pp_age_sec a \<noteq> pp_age_sec b then pp_age_sec a > pp_age_sec b
      else if pp_next_hop a \<noteq> pp_next_hop b then str_less (pp_next_hop a) (pp_next_hop b)
      else str_less (pp_neighbor a) (pp_neighbor b))"

text \<open>\<open>%03d\<close> of a byte.\<close>

definition pad3 :: "nat \<Rightarrow> string" where
  "pad3 n = replicate (3 - length (dec_string n)) CHR ''0'' @ dec_string n"

definition addressKey :: "string \<Rightarrow> string" where
  "addressKey addr =
     (case parse_ip (trim_space addr) of
        None \<Rightarrow> to_lower (trim_space addr)
      | Some ip \<Rightarrow>
         (case to4 ip of
            Some v4 \<Rightarrow> ''4:'' @ join_str ''.'' (map (\<lambda>b. pad3 (unat b)) v4)
          | None \<Rightarrow> ''6:'' @ ip_string ip))"

definition originRank :: "string \<Rightarrow> nat" where
  "originRank origin =
     (let s = to_upper (trim_space origin) in
      if s = ''IGP'' \<or> s = ''I'' then 0
      else if s = ''EGP'' \<or> s = ''E'' then 1
      else if s = ''INCOMPLETE'' \<or> s = ''?'' then 2
      else 3)"

definition parseUintOr :: "string \<Rightarrow> u32 \<Rightarrow> u32" where
  "parseUintOr raw fallback =
     (case parse_uint 32 (trim_space raw) of NumOk v \<Rightarrow> of_nat v | _ \<Rightarrow> fallback)"

definition parseUint :: "string \<Rightarrow> u32" where
  "parseUint s = (case parse_uint 32 s of NumOk v \<Rightarrow> of_nat v | NumSyntax \<Rightarrow> 0 | NumRange \<Rightarrow> - 1)"

definition as_path_sep :: "char \<Rightarrow> bool" where
  "as_path_sep c \<longleftrightarrow> c \<in> {CHR '' '', CHR ''['', CHR '']'', CHR '',''}"

definition parseASPath :: "string \<Rightarrow> u32 list" where
  "parseASPath raw =
     (if raw = [] then []
      else List.map_filter
        (\<lambda>part. case parse_uint 32 part of NumOk v \<Rightarrow> Some (of_nat v) | _ \<Rightarrow> None)
        (fields_func as_path_sep [] raw))"

definition entryPreference :: "bgp_route_entry \<Rightarrow> pathPreference" where
  "entryPreference e =
     \<lparr>pp_local_pref = parseUintOr (e_local_pref e) defaultLocalPref,
      pp_as_path_len = length (parseASPath (e_as_path e)),
      pp_origin = originRank (e_origin e),
      pp_med = parseUintOr (e_med e) 0,
      pp_reflected = (e_originator_id e \<noteq> [] \<or> length (e_cluster_list e) > 0),
      pp_cluster_len = length (e_cluster_list e),
      pp_age_sec = e_age_seconds e,
      pp_next_hop = addressKey (e_next_hop e),
      pp_neighbor = addressKey (e_neighbor_ip e)\<rparr>"

definition routePreference :: "bgp_route \<Rightarrow> pathPreference" where
  "routePreference r =
     \<lparr>pp_local_pref = (if r_local_pref r = 0 then defaultLocalPref else r_local_pref r),
      pp_as_path_len = length (r_as_path r),
      pp_origin = originRank (r_origin r),
      pp_med = r_med r,
      pp_reflected = False, pp_cluster_len = 0, pp_age_sec = 0,
      pp_next_hop = addressKey (r_next_hop r),
      pp_neighbor = []\<rparr>"

section \<open>Marking the selected path\<close>

definition group_idxs :: "('a \<Rightarrow> string) \<Rightarrow> 'a list \<Rightarrow> string \<Rightarrow> nat list" where
  "group_idxs pref xs p = filter (\<lambda>i. pref (xs ! i) = p) [0..<length xs]"

fun best_loop :: "('a \<Rightarrow> 'a \<Rightarrow> bool) \<Rightarrow> 'a list \<Rightarrow> nat \<Rightarrow> nat list \<Rightarrow> nat" where
  "best_loop better xs best [] = best"
| "best_loop better xs best (i # is) =
     best_loop better xs (if better (xs ! i) (xs ! best) then i else best) is"

definition entry_better :: "bgp_route_entry \<Rightarrow> bgp_route_entry \<Rightarrow> bool" where
  "entry_better a b = morePreferred (entryPreference a) (entryPreference b)"

definition route_better :: "bgp_route \<Rightarrow> bgp_route \<Rightarrow> bool" where
  "route_better a b = morePreferred (routePreference a) (routePreference b)"

definition mark_entry_group :: "bgp_route_entry list \<Rightarrow> string \<Rightarrow> bgp_route_entry list" where
  "mark_entry_group es p =
     (case group_idxs e_prefix es p of
        [] \<Rightarrow> es
      | [i] \<Rightarrow> es[i := (es ! i)\<lparr>e_best := True\<rparr>]
      | i # is \<Rightarrow>
          (let best = best_loop entry_better es i is
           in foldl (\<lambda>es j. es[j := (es ! j)\<lparr>e_best := (j = best)\<rparr>]) es (i # is)))"

definition ensureBestAmongEntries :: "string list \<Rightarrow> bgp_route_entry list \<Rightarrow> bgp_route_entry list" where
  "ensureBestAmongEntries order es = (if es = [] then es else foldl mark_entry_group es order)"

text \<open>The vendor's own marker counts when it names exactly one route of the group.\<close>

fun marked_loop :: "bgp_route list \<Rightarrow> nat option \<Rightarrow> nat list \<Rightarrow> nat option" where
  "marked_loop rs marked [] = marked"
| "marked_loop rs marked (i # is) =
     (if r_best (rs ! i)
      then (if marked \<noteq> None then None else marked_loop rs (Some i) is)
      else marked_loop rs marked is)"

definition mark_route_group :: "bgp_route list \<Rightarrow> string \<Rightarrow> bgp_route list" where
  "mark_route_group rs p =
     (case group_idxs r_prefix rs p of
        [] \<Rightarrow> rs
      | [i] \<Rightarrow> rs[i := (rs ! i)\<lparr>r_best := True\<rparr>]
      | i # is \<Rightarrow>
          (let marked = marked_loop rs None (i # is);
               rs1 = foldl (\<lambda>rs j. rs[j := (rs ! j)\<lparr>r_best := False\<rparr>]) rs (i # is)
           in case marked of
                Some m \<Rightarrow> rs1[m := (rs1 ! m)\<lparr>r_best := True\<rparr>]
              | None \<Rightarrow>
                  (let best = best_loop route_better rs1 i is
                   in rs1[best := (rs1 ! best)\<lparr>r_best := True\<rparr>])))"

definition EnsureBestAmongRoutes :: "string list \<Rightarrow> bgp_route list \<Rightarrow> bgp_route list" where
  "EnsureBestAmongRoutes order rs = (if rs = [] then rs else foldl mark_route_group rs order)"

text \<open>\<open>BestRoute\<close> returns a pointer into the slice: the index, None for an empty slice.\<close>

fun best_flag_loop :: "nat \<Rightarrow> bgp_route list \<Rightarrow> nat option" where
  "best_flag_loop i [] = None"
| "best_flag_loop i (r # rs) = (if r_best r then Some i else best_flag_loop (Suc i) rs)"

definition BestRoute :: "bgp_route list \<Rightarrow> nat option" where
  "BestRoute rs =
     (if rs = [] then None
      else case best_flag_loop 0 rs of Some i \<Rightarrow> Some i | None \<Rightarrow> Some 0)"

definition HasRouteASPath :: "bgp_result option \<Rightarrow> bool" where
  "HasRouteASPath br =
     (case br of
        None \<Rightarrow> False
      | Some b \<Rightarrow> (case BestRoute (br_routes b) of
                    None \<Rightarrow> False
                  | Some i \<Rightarrow> length (r_as_path (br_routes b ! i)) > 0))"

definition hasBestRoute :: "bgp_route list \<Rightarrow> bool" where
  "hasBestRoute routes = list_ex r_best routes"

section \<open>The decision process is a strict total order\<close>

definition strict_linear :: "('a \<Rightarrow> 'a \<Rightarrow> bool) \<Rightarrow> bool" where
  "strict_linear lt \<longleftrightarrow>
     (\<forall>x. \<not> lt x x) \<and> (\<forall>x y z. lt x y \<longrightarrow> lt y z \<longrightarrow> lt x z) \<and> (\<forall>x y. x \<noteq> y \<longrightarrow> lt x y \<or> lt y x)"

text \<open>One step of the comparison: decide on a field, or leave it to the rest.\<close>

definition lex_step :: "('a \<Rightarrow> 'b) \<Rightarrow> ('b \<Rightarrow> 'b \<Rightarrow> bool) \<Rightarrow> ('a \<Rightarrow> 'a \<Rightarrow> bool) \<Rightarrow> 'a \<Rightarrow> 'a \<Rightarrow> bool" where
  "lex_step f lt rest a b = (if f a \<noteq> f b then lt (f a) (f b) else rest a b)"

definition strict_order :: "('a \<Rightarrow> 'a \<Rightarrow> bool) \<Rightarrow> bool" where
  "strict_order r \<longleftrightarrow> (\<forall>x. \<not> r x x) \<and> (\<forall>x y z. r x y \<longrightarrow> r y z \<longrightarrow> r x z)"

lemma strict_order_lex_step:
  "strict_linear lt \<Longrightarrow> strict_order rest \<Longrightarrow> strict_order (lex_step f lt rest)"
  unfolding strict_linear_def strict_order_def lex_step_def by metis

definition tied :: "('a \<Rightarrow> 'a \<Rightarrow> bool) \<Rightarrow> 'a \<Rightarrow> 'a \<Rightarrow> bool" where
  "tied r a b \<longleftrightarrow> \<not> r a b \<and> \<not> r b a"

lemma tied_lex_step:
  "strict_linear lt \<Longrightarrow> tied (lex_step f lt rest) a b \<longleftrightarrow> f a = f b \<and> tied rest a b"
  unfolding strict_linear_def lex_step_def tied_def by metis

lemma strict_linear_less: "strict_linear ((<) :: 'a::linorder \<Rightarrow> 'a \<Rightarrow> bool)"
  "strict_linear ((>) :: 'a::linorder \<Rightarrow> 'a \<Rightarrow> bool)"
  by (auto simp: strict_linear_def)

lemma strict_linear_str_less: "strict_linear str_less"
  by (auto simp: strict_linear_def intro: str_less_trans dest: str_less_total)

lemma strict_linear_reflected: "strict_linear (\<lambda>x y. \<not> x \<and> (y :: bool))"
  by (auto simp: strict_linear_def)

lemmas strict_linears = strict_linear_less strict_linear_str_less strict_linear_reflected

lemma morePreferred_lex:
  "morePreferred =
     lex_step pp_local_pref (>) (lex_step pp_as_path_len (<) (lex_step pp_origin (<)
       (lex_step pp_med (<) (lex_step pp_reflected (\<lambda>x y. \<not> x \<and> y) (lex_step pp_cluster_len (<)
         (lex_step pp_age_sec (>) (lex_step pp_next_hop str_less
           (lex_step pp_neighbor str_less (\<lambda>_ _. False)))))))))"
  by (intro ext) (auto simp: morePreferred_def lex_step_def)

lemma morePreferred_strict_order: "strict_order morePreferred"
  unfolding morePreferred_lex
  by (intro strict_order_lex_step strict_linears) (simp add: strict_order_def)

lemmas tied_steps =
  tied_lex_step[OF strict_linear_less(1)] tied_lex_step[OF strict_linear_less(2)]
  tied_lex_step[OF strict_linear_str_less] tied_lex_step[OF strict_linear_reflected]

lemma morePreferred_tied: "tied morePreferred a b \<longleftrightarrow> a = b"
  unfolding morePreferred_lex tied_steps by (auto simp: tied_def)

section \<open>Choosing the best of a group\<close>

text \<open>What the selection loop needs of its comparison, whatever it compares.\<close>

locale preference =
  fixes better :: "'a \<Rightarrow> 'a \<Rightarrow> bool"
  assumes irrefl: "\<not> better x x"
    and trans: "better x y \<Longrightarrow> better y z \<Longrightarrow> better x z"
    and ties: "\<not> better x y \<Longrightarrow> \<not> better y z \<Longrightarrow> \<not> better x z"
begin

lemma best_loop_in: "best_loop better xs b is \<in> insert b (set is)"
  by (induction better xs b "is" rule: best_loop.induct) auto

lemma best_loop_max: "j \<in> insert b (set is) \<Longrightarrow> \<not> better (xs ! j) (xs ! best_loop better xs b is)"
proof (induction "is" arbitrary: b j)
  case Nil
  then show ?case by (simp add: irrefl)
next
  case (Cons i "is")
  let ?b = "if better (xs ! i) (xs ! b) then i else b"
  have step: "\<not> better (xs ! k) (xs ! ?b)" if "k = b \<or> k = i" for k
    using that irrefl trans by auto
  have new: "\<not> better (xs ! ?b) (xs ! best_loop better xs ?b is)"
    using Cons.IH[of ?b ?b] by simp
  show ?case
  proof (cases "j \<in> set is")
    case True
    then show ?thesis using Cons.IH[of j ?b] by simp
  next
    case False
    then have "j = b \<or> j = i" using Cons.prems by simp
    then show ?thesis using ties[OF step new] by simp
  qed
qed

lemma best_loop_cong:
  assumes "\<And>i j. i \<in> insert b (set is) \<Longrightarrow> j \<in> insert b (set is) \<Longrightarrow>
      better (ys ! i) (ys ! j) = better (xs ! i) (xs ! j)"
  shows "best_loop better ys b is = best_loop better xs b is"
  using assms
proof (induction "is" arbitrary: b)
  case (Cons i "is")
  have "better (ys ! i) (ys ! b) = better (xs ! i) (xs ! b)"
    using Cons.prems by simp
  moreover have "best_loop better ys c is = best_loop better xs c is" if "c = i \<or> c = b" for c
    using that Cons.prems by (intro Cons.IH) auto
  ultimately show ?case by simp
qed simp

end

lemma preference_of_key: "preference (\<lambda>a b. morePreferred (f a) (f b))"
proof
  fix x y z
  note ord = morePreferred_strict_order[unfolded strict_order_def]
  show "\<not> morePreferred (f x) (f x)" using ord by blast
  show "morePreferred (f x) (f y) \<Longrightarrow> morePreferred (f y) (f z) \<Longrightarrow> morePreferred (f x) (f z)"
    using ord by blast
  show "\<not> morePreferred (f x) (f y) \<Longrightarrow> \<not> morePreferred (f y) (f z) \<Longrightarrow> \<not> morePreferred (f x) (f z)"
    using ord morePreferred_tied[unfolded tied_def] by metis
qed

interpretation ep: preference entry_better
  unfolding entry_better_def by (rule preference_of_key)

interpretation rp: preference route_better
  unfolding route_better_def by (rule preference_of_key)

section \<open>What marking a group does\<close>

lemma set_group_idxs: "set (group_idxs pref xs p) = {i. i < length xs \<and> pref (xs ! i) = p}"
  by (auto simp: group_idxs_def)

lemma distinct_group_idxs: "distinct (group_idxs pref xs p)"
  by (simp add: group_idxs_def)

text \<open>The index of the selected entry of a prefix.\<close>

definition selected_entry :: "bgp_route_entry list \<Rightarrow> string \<Rightarrow> nat" where
  "selected_entry es p =
     (case group_idxs e_prefix es p of [] \<Rightarrow> 0 | i # is \<Rightarrow> best_loop entry_better es i is)"

lemma foldl_update_nth:
  assumes "distinct is" and "set is \<subseteq> {..<length xs}"
  shows "length (foldl (\<lambda>xs j. xs[j := f j (xs ! j)]) xs is) = length xs \<and>
    (\<forall>k < length xs. foldl (\<lambda>xs j. xs[j := f j (xs ! j)]) xs is ! k =
       (if k \<in> set is then f k (xs ! k) else xs ! k))"
  using assms
proof (induction "is" arbitrary: xs)
  case (Cons i "is")
  then have "length (foldl (\<lambda>xs j. xs[j := f j (xs ! j)]) (xs[i := f i (xs ! i)]) is) = length (xs[i := f i (xs ! i)]) \<and>
    (\<forall>k < length (xs[i := f i (xs ! i)]). foldl (\<lambda>xs j. xs[j := f j (xs ! j)]) (xs[i := f i (xs ! i)]) is ! k =
       (if k \<in> set is then f k (xs[i := f i (xs ! i)] ! k) else xs[i := f i (xs ! i)] ! k))"
    by (intro Cons.IH) auto
  with Cons.prems show ?case by (auto simp: nth_list_update)
qed simp

lemma mark_entry_group_nth:
  "length (mark_entry_group es p) = length es \<and>
   (\<forall>k < length es. mark_entry_group es p ! k =
      (if e_prefix (es ! k) = p then (es ! k)\<lparr>e_best := (k = selected_entry es p)\<rparr> else es ! k))"
proof (cases "group_idxs e_prefix es p")
  case Nil
  then have "{i. i < length es \<and> e_prefix (es ! i) = p} = {}"
    using set_group_idxs[of e_prefix es p] by simp
  with Nil show ?thesis by (auto simp: mark_entry_group_def)
next
  case (Cons i "is")
  have mem: "k \<in> set (i # is) \<longleftrightarrow> k < length es \<and> e_prefix (es ! k) = p" for k
    using set_group_idxs[of e_prefix es p] Cons by auto
  have sel: "selected_entry es p = best_loop entry_better es i is"
    using Cons by (simp add: selected_entry_def)
  have eq: "mark_entry_group es p =
      foldl (\<lambda>es j. es[j := (es ! j)\<lparr>e_best := (j = selected_entry es' p)\<rparr>]) es (i # is)"
    if "es' = es" for es'
    using Cons sel that by (cases "is") (simp_all add: mark_entry_group_def Let_def)
  have "distinct (i # is)" "set (i # is) \<subseteq> {..<length es}"
    using distinct_group_idxs[of e_prefix es p] Cons mem by auto
  from foldl_update_nth[OF this, of "\<lambda>j e. e\<lparr>e_best := (j = selected_entry es p)\<rparr>"]
  show ?thesis using eq[OF refl] mem by auto
qed

text \<open>Marking group after group, in any order.\<close>

locale group_marking =
  fixes mk :: "'a list \<Rightarrow> string \<Rightarrow> 'a list"
    and pref :: "'a \<Rightarrow> string"
    and upd :: "bool \<Rightarrow> 'a \<Rightarrow> 'a"
    and sel :: "'a list \<Rightarrow> string \<Rightarrow> nat"
  assumes mk_length: "length (mk xs p) = length xs"
    and mk_nth: "k < length xs \<Longrightarrow>
      mk xs p ! k = (if pref (xs ! k) = p then upd (k = sel xs p) (xs ! k) else xs ! k)"
    and pref_upd: "pref (upd b x) = pref x"
    and sel_other: "q \<noteq> p \<Longrightarrow> sel (mk xs p) q = sel xs q"
begin

lemma fold_mark:
  assumes "distinct order"
  shows "length (foldl mk xs order) = length xs \<and>
    (\<forall>k < length xs. foldl mk xs order ! k =
       (if pref (xs ! k) \<in> set order then upd (k = sel xs (pref (xs ! k))) (xs ! k) else xs ! k))"
  using assms
proof (induction order arbitrary: xs)
  case (Cons p order)
  have "length (foldl mk (mk xs p) order) = length (mk xs p) \<and>
    (\<forall>k < length (mk xs p). foldl mk (mk xs p) order ! k =
       (if pref (mk xs p ! k) \<in> set order
        then upd (k = sel (mk xs p) (pref (mk xs p ! k))) (mk xs p ! k) else mk xs p ! k))"
    using Cons.prems by (intro Cons.IH) simp
  with Cons.prems show ?case
    by (auto simp: mk_length mk_nth pref_upd sel_other)
qed simp

lemma fold_mark_all:
  assumes "distinct order" and "set order = pref ` set xs"
  shows "foldl mk xs order = map (\<lambda>k. upd (k = sel xs (pref (xs ! k))) (xs ! k)) [0..<length xs]"
  using fold_mark[OF assms(1), of xs] assms(2) by (intro nth_equalityI) auto

end

lemma group_idxs_cong:
  assumes "length ys = length xs" and "\<And>k. k < length xs \<Longrightarrow> (pref (ys ! k) = q) = (pref (xs ! k) = q)"
  shows "group_idxs pref ys q = group_idxs pref xs q"
  unfolding group_idxs_def assms(1) by (rule filter_cong) (auto simp: assms(2))

lemma entryPreference_best [simp]: "entryPreference (e\<lparr>e_best := b\<rparr>) = entryPreference e"
  by (simp add: entryPreference_def)

lemma routePreference_best [simp]: "routePreference (r\<lparr>r_best := b\<rparr>) = routePreference r"
  by (simp add: routePreference_def)

lemma selected_entry_mark: "selected_entry (mark_entry_group es p) q = selected_entry es q"
proof -
  note nth = mark_entry_group_nth[of es p]
  have idxs: "group_idxs e_prefix (mark_entry_group es p) q = group_idxs e_prefix es q"
    using nth by (intro group_idxs_cong) auto
  have "best_loop entry_better (mark_entry_group es p) i is = best_loop entry_better es i is"
    if "group_idxs e_prefix es q = i # is" for i "is"
  proof (rule ep.best_loop_cong)
    fix k l assume "k \<in> insert i (set is)" "l \<in> insert i (set is)"
    then have "k < length es" "l < length es"
      using set_group_idxs[of e_prefix es q] that by auto
    then show "entry_better (mark_entry_group es p ! k) (mark_entry_group es p ! l) =
        entry_better (es ! k) (es ! l)"
      using nth by (simp add: entry_better_def)
  qed
  then show ?thesis by (auto simp: selected_entry_def idxs split: list.splits)
qed

interpretation em: group_marking mark_entry_group e_prefix "\<lambda>b e. e\<lparr>e_best := b\<rparr>" selected_entry
  using mark_entry_group_nth by unfold_locales (auto simp: selected_entry_mark)

section \<open>The same for parsed routes\<close>

definition selected_route :: "bgp_route list \<Rightarrow> string \<Rightarrow> nat" where
  "selected_route rs p =
     (case group_idxs r_prefix rs p of
        [] \<Rightarrow> 0
      | [i] \<Rightarrow> i
      | i # is \<Rightarrow>
          (case marked_loop rs None (i # is) of Some m \<Rightarrow> m | None \<Rightarrow> best_loop route_better rs i is))"

lemma marked_loop_Some:
  "marked_loop rs m is = Some k \<Longrightarrow> m = Some k \<or> k \<in> set is \<and> r_best (rs ! k)"
  by (induction rs m "is" rule: marked_loop.induct) (auto split: if_splits)

lemma marked_loop_started:
  "marked_loop rs (Some m) is = (if list_ex (\<lambda>i. r_best (rs ! i)) is then None else Some m)"
  by (induction "is") auto

lemma marked_loop_unique:
  "m \<in> set is \<Longrightarrow> distinct is \<Longrightarrow> (\<And>i. i \<in> set is \<Longrightarrow> r_best (rs ! i) = (i = m)) \<Longrightarrow>
   marked_loop rs None is = Some m"
  by (induction "is") (auto simp: marked_loop_started list_ex_iff)

lemma marked_loop_only:
  "marked_loop rs None is = Some m \<Longrightarrow> distinct is \<Longrightarrow> i \<in> set is \<Longrightarrow> r_best (rs ! i) = (i = m)"
proof (induction "is")
  case (Cons j "is")
  show ?case
  proof (cases "r_best (rs ! j)")
    case True
    with Cons.prems show ?thesis by (auto simp: marked_loop_started list_ex_iff split: if_splits)
  next
    case False
    with Cons.prems have "marked_loop rs None is = Some m" by simp
    moreover from this have "m \<in> set is" using marked_loop_Some by fastforce
    ultimately show ?thesis using Cons False by auto
  qed
qed simp

lemma marked_loop_cong:
  "(\<And>i. i \<in> set is \<Longrightarrow> r_best (ys ! i) = r_best (xs ! i)) \<Longrightarrow> marked_loop ys m is = marked_loop xs m is"
  by (induction xs m "is" rule: marked_loop.induct) auto

lemma selected_route_in:
  assumes "p \<in> r_prefix ` set rs"
  shows "selected_route rs p < length rs \<and> r_prefix (rs ! selected_route rs p) = p"
proof -
  obtain k where "k < length rs" "r_prefix (rs ! k) = p"
    using assms by (auto simp: in_set_conv_nth)
  then have "k \<in> set (group_idxs r_prefix rs p)" by (simp add: set_group_idxs)
  then obtain i "is" where g: "group_idxs r_prefix rs p = i # is"
    by (cases "group_idxs r_prefix rs p") simp_all
  have "selected_route rs p \<in> set (i # is)"
  proof (cases "is")
    case Nil
    with g show ?thesis by (simp add: selected_route_def)
  next
    case (Cons j js)
    then have eq: "selected_route rs p =
        (case marked_loop rs None (i # is) of Some m \<Rightarrow> m | None \<Rightarrow> best_loop route_better rs i is)"
      using g by (simp add: selected_route_def del: marked_loop.simps best_loop.simps split: option.split)
    show ?thesis
    proof (cases "marked_loop rs None (i # is)")
      case None
      with eq rp.best_loop_in[of rs i "is"] show ?thesis by simp
    next
      case (Some m)
      with eq marked_loop_Some[OF Some] show ?thesis by simp
    qed
  qed
  with g have "selected_route rs p \<in> set (group_idxs r_prefix rs p)" by simp
  then show ?thesis by (simp add: set_group_idxs)
qed

lemma mark_route_group_nth:
  "length (mark_route_group rs p) = length rs \<and>
   (\<forall>k < length rs. mark_route_group rs p ! k =
      (if r_prefix (rs ! k) = p then (rs ! k)\<lparr>r_best := (k = selected_route rs p)\<rparr> else rs ! k))"
proof (cases "group_idxs r_prefix rs p")
  case Nil
  have "r_prefix (rs ! k) \<noteq> p" if "k < length rs" for k
    using Nil that set_group_idxs[of r_prefix rs p] by auto
  with Nil show ?thesis by (simp add: mark_route_group_def)
next
  case (Cons i "is")
  have mem: "k \<in> set (i # is) \<longleftrightarrow> k < length rs \<and> r_prefix (rs ! k) = p" for k
    using set_group_idxs[of r_prefix rs p] Cons by auto
  define rs1 where "rs1 = foldl (\<lambda>rs j. rs[j := (rs ! j)\<lparr>r_best := False\<rparr>]) rs (i # is)"
  have "distinct (i # is)" "set (i # is) \<subseteq> {..<length rs}"
    using distinct_group_idxs[of r_prefix rs p] Cons mem by auto
  from foldl_update_nth[OF this, of "\<lambda>j r. r\<lparr>r_best := False\<rparr>"]
  have rs1: "length rs1 = length rs"
    "k < length rs \<Longrightarrow> rs1 ! k = (if k \<in> set (i # is) then (rs ! k)\<lparr>r_best := False\<rparr> else rs ! k)" for k
    unfolding rs1_def by blast+
  have best: "best_loop route_better rs1 i is = best_loop route_better rs i is"
  proof (rule rp.best_loop_cong)
    fix k l assume "k \<in> insert i (set is)" "l \<in> insert i (set is)"
    then show "route_better (rs1 ! k) (rs1 ! l) = route_better (rs ! k) (rs ! l)"
      using rs1(2) mem by (simp add: route_better_def)
  qed
  have "i < length rs" "r_prefix (rs ! i) = p" using mem[of i] by simp_all
  then have "p \<in> r_prefix ` set rs" using nth_mem by blast
  from selected_route_in[OF this]
  have sel: "selected_route rs p < length rs" "r_prefix (rs ! selected_route rs p) = p" by auto
  have "is = [] \<Longrightarrow> mark_route_group rs p = rs[selected_route rs p := (rs ! selected_route rs p)\<lparr>r_best := True\<rparr>]"
    using Cons by (simp add: mark_route_group_def selected_route_def)
  moreover have "is \<noteq> [] \<Longrightarrow>
      mark_route_group rs p = rs1[selected_route rs p := (rs1 ! selected_route rs p)\<lparr>r_best := True\<rparr>]"
    using Cons best unfolding rs1_def
    by (cases "is") (auto simp: mark_route_group_def selected_route_def Let_def
        simp del: marked_loop.simps best_loop.simps foldl_Cons split: option.splits)
  moreover have "k = selected_route rs p" if "is = []" "k < length rs" "r_prefix (rs ! k) = p" for k
    using that mem[of k] mem[of "selected_route rs p"] sel by simp
  ultimately consider
      (one) "mark_route_group rs p = rs[selected_route rs p := (rs ! selected_route rs p)\<lparr>r_best := True\<rparr>]"
        "\<And>k. k < length rs \<Longrightarrow> r_prefix (rs ! k) = p \<Longrightarrow> k = selected_route rs p"
    | (more) "mark_route_group rs p = rs1[selected_route rs p := (rs1 ! selected_route rs p)\<lparr>r_best := True\<rparr>]"
    by blast
  then show ?thesis
  proof cases
    case one
    have "mark_route_group rs p ! k =
        (if r_prefix (rs ! k) = p then (rs ! k)\<lparr>r_best := (k = selected_route rs p)\<rparr> else rs ! k)"
      if "k < length rs" for k
      using one(2)[OF that] that sel by (cases "k = selected_route rs p") (auto simp: one(1))
    then show ?thesis by (simp add: one(1))
  next
    case more
    have "mark_route_group rs p ! k =
        (if r_prefix (rs ! k) = p then (rs ! k)\<lparr>r_best := (k = selected_route rs p)\<rparr> else rs ! k)"
      if "k < length rs" for k
      using rs1(1) rs1(2)[OF that] mem[of k] that sel
      by (cases "k = selected_route rs p") (simp_all add: more)
    then show ?thesis using rs1(1) by (simp add: more)
  qed
qed

lemma selected_route_mark:
  assumes "q \<noteq> p"
  shows "selected_route (mark_route_group rs p) q = selected_route rs q"
proof -
  note nth = mark_route_group_nth[of rs p]
  have idxs: "group_idxs r_prefix (mark_route_group rs p) q = group_idxs r_prefix rs q"
    using nth by (intro group_idxs_cong) auto
  have same: "mark_route_group rs p ! k = rs ! k" if "k \<in> set (group_idxs r_prefix rs q)" for k
    using that nth assms by (auto simp: set_group_idxs)
  have "best_loop route_better (mark_route_group rs p) i is = best_loop route_better rs i is"
    if "group_idxs r_prefix rs q = i # is" for i "is"
    using same that by (intro rp.best_loop_cong) simp
  moreover have "marked_loop (mark_route_group rs p) None (i # is) = marked_loop rs None (i # is)"
    if "group_idxs r_prefix rs q = i # is" for i "is"
    using same that by (intro marked_loop_cong) simp
  ultimately show ?thesis
    by (auto simp: selected_route_def idxs simp del: marked_loop.simps best_loop.simps
        split: list.splits option.split)
qed

interpretation rm: group_marking mark_route_group r_prefix "\<lambda>b r. r\<lparr>r_best := b\<rparr>" selected_route
  using mark_route_group_nth by unfold_locales (auto simp: selected_route_mark)

lemma ensureBestAmongEntries_map:
  assumes "distinct order" and "set order = e_prefix ` set es"
  shows "ensureBestAmongEntries order es =
    map (\<lambda>k. (es ! k)\<lparr>e_best := (k = selected_entry es (e_prefix (es ! k)))\<rparr>) [0..<length es]"
  using em.fold_mark_all[OF assms] by (simp add: ensureBestAmongEntries_def)

lemma EnsureBestAmongRoutes_map:
  assumes "distinct order" and "set order = r_prefix ` set rs"
  shows "EnsureBestAmongRoutes order rs =
    map (\<lambda>k. (rs ! k)\<lparr>r_best := (k = selected_route rs (r_prefix (rs ! k)))\<rparr>) [0..<length rs]"
  using rm.fold_mark_all[OF assms] by (simp add: EnsureBestAmongRoutes_def)

lemma selected_entry_best:
  assumes "p \<in> e_prefix ` set es"
  shows "selected_entry es p < length es \<and> e_prefix (es ! selected_entry es p) = p \<and>
    (\<forall>j < length es. e_prefix (es ! j) = p \<longrightarrow> \<not> entry_better (es ! j) (es ! selected_entry es p))"
proof -
  obtain k where "k < length es" "e_prefix (es ! k) = p"
    using assms by (auto simp: in_set_conv_nth)
  then have "k \<in> set (group_idxs e_prefix es p)" by (simp add: set_group_idxs)
  then obtain i "is" where g: "group_idxs e_prefix es p = i # is"
    by (cases "group_idxs e_prefix es p") simp_all
  then have sel: "selected_entry es p = best_loop entry_better es i is"
    by (simp add: selected_entry_def)
  have mem: "j \<in> insert i (set is) \<longleftrightarrow> j < length es \<and> e_prefix (es ! j) = p" for j
    using set_group_idxs[of e_prefix es p] g by auto
  show ?thesis
    using ep.best_loop_in[of es i "is"] ep.best_loop_max[of _ i "is" es] mem by (simp add: sel)
qed

section \<open>Properties\<close>

text \<open>C22: The decision process is a strict total order on what it compares: no path beats itself,
  the relation is transitive, and two paths neither of which wins are equal in every compared
  field, so the outcome never depends on the order in which paths are met.\<close>

theorem morePreferred_total_order:
  assumes "morePreferred a b" and "morePreferred b c"
  shows "morePreferred a c \<and> \<not> morePreferred d d \<and>
    (\<not> morePreferred d e \<and> \<not> morePreferred e d \<longleftrightarrow> d = e)"
  using assms morePreferred_strict_order morePreferred_tied[of d e]
  unfolding strict_order_def tied_def by blast

text \<open>C24: Filtering a node's paths leaves, for every prefix among them, exactly one marked as best,
  and no other path of that prefix is preferred to it; nothing but the marks changes, and the
  result does not depend on the order in which the groups are visited.\<close>

theorem ensureBestAmongEntries_correct:
  assumes "distinct order" and "set order = e_prefix ` set es"
    and "distinct order'" and "set order' = e_prefix ` set es" and "p \<in> e_prefix ` set es"
  shows "ensureBestAmongEntries order' es = ensureBestAmongEntries order es \<and>
    map (\<lambda>e. e\<lparr>e_best := False\<rparr>) (ensureBestAmongEntries order es) = map (\<lambda>e. e\<lparr>e_best := False\<rparr>) es \<and>
    (\<exists>k < length es. e_prefix (es ! k) = p \<and>
      (\<forall>j < length es. e_prefix (es ! j) = p \<longrightarrow>
         e_best (ensureBestAmongEntries order es ! j) = (j = k) \<and> \<not> entry_better (es ! j) (es ! k)))"
proof -
  note eq = ensureBestAmongEntries_map[OF assms(1,2)]
  have nth: "k < length es \<Longrightarrow> e_prefix (es ! k) = p \<Longrightarrow>
      e_best (ensureBestAmongEntries order es ! k) = (k = selected_entry es p)" for k
    by (simp add: eq)
  have "map (\<lambda>e. e\<lparr>e_best := False\<rparr>) (ensureBestAmongEntries order es) = map (\<lambda>e. e\<lparr>e_best := False\<rparr>) es"
    by (rule nth_equalityI) (simp_all add: eq)
  moreover have "ensureBestAmongEntries order' es = ensureBestAmongEntries order es"
    using ensureBestAmongEntries_map[OF assms(3,4)] eq by simp
  ultimately show ?thesis
    using selected_entry_best[OF assms(5)] nth by metis
qed

lemma selected_route_best:
  assumes "p \<in> r_prefix ` set rs"
  shows "(\<forall>k < length rs. r_prefix (rs ! k) = p \<longrightarrow> r_best (rs ! k) = (k = selected_route rs p)) \<or>
    (\<forall>j < length rs. r_prefix (rs ! j) = p \<longrightarrow> \<not> route_better (rs ! j) (rs ! selected_route rs p))"
proof -
  obtain k where "k < length rs" "r_prefix (rs ! k) = p"
    using assms by (auto simp: in_set_conv_nth)
  then have "k \<in> set (group_idxs r_prefix rs p)" by (simp add: set_group_idxs)
  then obtain i "is" where g: "group_idxs r_prefix rs p = i # is"
    by (cases "group_idxs r_prefix rs p") simp_all
  have mem: "j \<in> set (i # is) \<longleftrightarrow> j < length rs \<and> r_prefix (rs ! j) = p" for j
    using set_group_idxs[of r_prefix rs p] g by auto
  show ?thesis
  proof (cases "is")
    case Nil
    then have sel: "selected_route rs p = i" using g by (simp add: selected_route_def)
    have "\<not> route_better (rs ! j) (rs ! selected_route rs p)" if "j < length rs" "r_prefix (rs ! j) = p" for j
    proof -
      have "j = i" using mem[of j] that Nil by simp
      then show ?thesis using rp.irrefl[of "rs ! i"] by (simp add: sel)
    qed
    then show ?thesis by simp
  next
    case (Cons j js)
    then have eq: "selected_route rs p =
        (case marked_loop rs None (i # is) of Some m \<Rightarrow> m | None \<Rightarrow> best_loop route_better rs i is)"
      using g by (simp add: selected_route_def del: marked_loop.simps best_loop.simps split: option.split)
    show ?thesis
    proof (cases "marked_loop rs None (i # is)")
      case None
      then show ?thesis using eq rp.best_loop_max[of _ i "is" rs] mem by simp
    next
      case (Some m)
      then show ?thesis
        using eq marked_loop_only[OF Some] distinct_group_idxs[of r_prefix rs p] g mem by auto
    qed
  qed
qed

text \<open>For routes parsed from a router's output, exactly one per prefix ends up marked: the
  router's own active path when it marked exactly one, otherwise one no other route of the prefix
  is preferred to; nothing but the marks changes.\<close>

theorem EnsureBestAmongRoutes_correct:
  assumes "distinct order" and "set order = r_prefix ` set rs" and "p \<in> r_prefix ` set rs"
  shows "(\<exists>k < length rs. r_prefix (rs ! k) = p \<and>
      (\<forall>j < length rs. r_prefix (rs ! j) = p \<longrightarrow>
         r_best (EnsureBestAmongRoutes order rs ! j) = (j = k)) \<and>
      ((\<forall>j < length rs. r_prefix (rs ! j) = p \<longrightarrow> r_best (rs ! j) = (j = k)) \<or>
       (\<forall>j < length rs. r_prefix (rs ! j) = p \<longrightarrow> \<not> route_better (rs ! j) (rs ! k)))) \<and>
    map (\<lambda>r. r\<lparr>r_best := False\<rparr>) (EnsureBestAmongRoutes order rs) = map (\<lambda>r. r\<lparr>r_best := False\<rparr>) rs"
proof -
  note eq = EnsureBestAmongRoutes_map[OF assms(1,2)]
  have nth: "k < length rs \<Longrightarrow> r_prefix (rs ! k) = p \<Longrightarrow>
      r_best (EnsureBestAmongRoutes order rs ! k) = (k = selected_route rs p)" for k
    by (simp add: eq)
  have "map (\<lambda>r. r\<lparr>r_best := False\<rparr>) (EnsureBestAmongRoutes order rs) = map (\<lambda>r. r\<lparr>r_best := False\<rparr>) rs"
    by (rule nth_equalityI) (simp_all add: eq)
  then show ?thesis
    using selected_route_in[OF assms(3)] selected_route_best[OF assms(3)] nth
    by (intro conjI exI[of _ "selected_route rs p"]) (assumption | blast)+
qed

section \<open>AS paths as text\<close>

text \<open>\<open>asPathToString\<close> (\<open>internal/bgp/manager.go\<close>) on the AS numbers of each segment: \<open>%v\<close> of a
  string slice prints its elements between brackets, separated by blanks.\<close>

definition bracketed :: "string list \<Rightarrow> string" where
  "bracketed ws = ''['' @ join_str '' '' ws @ '']''"

definition asPathToString :: "u32 list list \<Rightarrow> string" where
  "asPathToString segs = bracketed (map (\<lambda>seg. bracketed (map format_uint seg)) segs)"

lemma as_path_sep_digit: "c \<in> set (format_uint w) \<Longrightarrow> \<not> as_path_sep c"
  using dec_string_digits[of c "unat w"]
  by (auto simp: format_uint_def as_path_sep_def is_digit_def code_def)

lemma as_path_seps [simp]: "as_path_sep CHR '' ''" "as_path_sep CHR ''[''" "as_path_sep CHR '']''"
  by (simp_all add: as_path_sep_def)

lemma format_uint_nonempty [simp]: "format_uint w \<noteq> []"
  by (simp add: format_uint_def)

lemma fields_segment:
  "fields_func as_path_sep [] (join_str '' '' (map format_uint seg) @ CHR '']'' # s) =
     map format_uint seg @ fields_func as_path_sep [] s"
proof (induction seg)
  case (Cons w seg)
  then show ?case
    by (cases seg) (simp_all add: fields_func_word as_path_sep_digit)
qed simp

lemma fields_segments:
  "fields_func as_path_sep [] (join_str '' '' (map (\<lambda>seg. bracketed (map format_uint seg)) segs) @ CHR '']'' # s) =
     map format_uint (concat segs) @ fields_func as_path_sep [] s"
proof (induction segs)
  case (Cons seg segs)
  then show ?case
    by (cases segs) (simp_all add: bracketed_def fields_segment)
qed simp

lemma parse_formatted_path:
  "List.map_filter (\<lambda>part. case parse_uint 32 part of NumOk v \<Rightarrow> Some (of_nat v) | _ \<Rightarrow> None)
     (map format_uint path) = (path :: u32 list)"
  by (induction path) (simp_all add: map_filter_simps)

section \<open>The order of printed addresses\<close>

definition quad_val :: "byte list \<Rightarrow> nat" where
  "quad_val q = foldl (\<lambda>n b. n * 256 + unat b) 0 q"

lemma pad3_digits:
  assumes "n < 1000"
  shows "pad3 n = [digit_char (n div 100), digit_char (n div 10 mod 10), digit_char (n mod 10)]"
proof -
  have z: "digit_char 0 = CHR ''0''" by (simp add: digit_char_def char_of_def bit_simps)
  consider "n < 10" | "10 \<le> n" "n < 100" | "100 \<le> n" by linarith
  then show ?thesis
  proof cases
    case 1
    then show ?thesis by (simp add: pad3_def dec_string.simps[of n] z numeral_2_eq_2)
  next
    case 2
    then have "n div 10 < 10" by auto
    with 2 show ?thesis
      by (simp add: pad3_def dec_string.simps[of n] dec_string.simps[of "n div 10"] z)
  next
    case 3
    with assms have "\<not> n div 10 < 10" "n div 10 div 10 < 10" by auto
    with 3 show ?thesis
      by (simp add: pad3_def dec_string.simps[of n] dec_string.simps[of "n div 10"]
          dec_string.simps[of "n div 100"] div_mult2_eq[symmetric])
  qed
qed

lemma code_digit_char: "d < 10 \<Longrightarrow> code (digit_char d) = 48 + d"
  by (simp add: digit_char_def)

lemma digit_char_eq: "c < 10 \<Longrightarrow> d < 10 \<Longrightarrow> digit_char c = digit_char d \<longleftrightarrow> c = d"
  using code_digit_char[of c] code_digit_char[of d] by (metis add_left_cancel code_inj)

lemma div_mod_less:
  "0 < (k :: nat) \<Longrightarrow> m < n \<longleftrightarrow> m div k < n div k \<or> m div k = n div k \<and> m mod k < n mod k"
  by (metis div_le_mono div_mult_mod_eq leD le_neq_implies_less less_imp_le_nat linorder_not_le
      nat_add_left_cancel_less)

lemma div_mod_eq: "0 < (k :: nat) \<Longrightarrow> m = n \<longleftrightarrow> m div k = n div k \<and> m mod k = n mod k"
  by (metis div_mult_mod_eq)

lemma digits_less:
  fixes m n :: nat
  shows "m < n \<longleftrightarrow> m div 100 < n div 100 \<or> m div 100 = n div 100 \<and>
    (m div 10 mod 10 < n div 10 mod 10 \<or> m div 10 mod 10 = n div 10 mod 10 \<and> m mod 10 < n mod 10)"
  using div_mod_less[of 10 m n] div_mod_less[of 10 "m div 10" "n div 10"]
    div_mod_eq[of 10 "m div 10" "n div 10"] by (auto simp: div_mult2_eq[symmetric])

lemma digits_eq:
  fixes m n :: nat
  shows "m = n \<longleftrightarrow> m div 100 = n div 100 \<and> m div 10 mod 10 = n div 10 mod 10 \<and> m mod 10 = n mod 10"
  using div_mod_eq[of 10 m n] div_mod_eq[of 10 "m div 10" "n div 10"]
  by (auto simp: div_mult2_eq[symmetric])

lemma str_less_pad3:
  assumes "m < 1000" and "n < 1000"
  shows "str_less (pad3 m @ s) (pad3 n @ t) \<longleftrightarrow> m < n \<or> m = n \<and> str_less s t"
proof -
  have d: "m div 100 < 10" "n div 100 < 10" using assms by auto
  show ?thesis
    unfolding digits_less[of m n] digits_eq[of m n]
    using d by (auto simp: pad3_digits[OF assms(1)] pad3_digits[OF assms(2)] code_digit_char digit_char_eq)
qed

lemma addressKey_dotted:
  "addressKey (dotted [a, b, c, d]) =
     ''4:'' @ pad3 (unat a) @ ''.'' @ pad3 (unat b) @ ''.'' @ pad3 (unat c) @ ''.'' @ pad3 (unat d)"
  by (simp add: addressKey_def dotted_plain parse_ip_dotted)

text \<open>C0: The printed keys of IPv4 addresses order as the addresses do numerically.\<close>

theorem addressKey_v4_numeric:
  "str_less (addressKey (dotted [a, b, c, d])) (addressKey (dotted [a', b', c', d'])) \<longleftrightarrow>
     quad_val [a, b, c, d] < quad_val [a', b', c', d']"
proof -
  have lt: "unat (x :: byte) < 1000" for x using unat_byte_less[of x] by simp
  have p: "str_less (pad3 (unat x) @ s) (pad3 (unat y) @ t) \<longleftrightarrow>
      unat x < unat y \<or> unat x = unat y \<and> str_less s t" for x y :: byte and s t
    by (rule str_less_pad3[OF lt lt])
  have last: "str_less (pad3 (unat x)) (pad3 (unat y)) \<longleftrightarrow> unat x < unat y" for x y :: byte
    using p[of x "[]" y "[]"] by simp
  have b: "unat a < 256" "unat b < 256" "unat c < 256" "unat d < 256"
    "unat a' < 256" "unat b' < 256" "unat c' < 256" "unat d' < 256"
    by (rule unat_byte_less)+
  have "str_less (addressKey (dotted [a, b, c, d])) (addressKey (dotted [a', b', c', d'])) \<longleftrightarrow>
      unat a < unat a' \<or> unat a = unat a' \<and> (unat b < unat b' \<or> unat b = unat b' \<and>
        (unat c < unat c' \<or> unat c = unat c' \<and> unat d < unat d'))"
    by (simp add: addressKey_dotted p last)
  also have "\<dots> \<longleftrightarrow> quad_val [a, b, c, d] < quad_val [a', b', c', d']"
    using b by (simp add: quad_val_def) linarith
  finally show ?thesis .
qed

text \<open>The keys of IPv6 addresses are their printed form, which does not order numerically:
  2001:db8::10 sorts below 2001:db8::9.\<close>

theorem addressKey_v6_not_numeric:
  "\<exists>x y. parse_ip ''2001:db8::10'' = Some x \<and> parse_ip ''2001:db8::9'' = Some y \<and>
     quad_val y < quad_val x \<and> str_less (addressKey ''2001:db8::10'') (addressKey ''2001:db8::9'')"
proof -
  let ?x = "[32, 1, 13, 184, 0, 0, 0, 0, 0, 0, 0, 0, 0, 0, 0, 16] :: net_ip"
  let ?y = "[32, 1, 13, 184, 0, 0, 0, 0, 0, 0, 0, 0, 0, 0, 0, 9] :: net_ip"
  have "parse_ip ''2001:db8::10'' = Some ?x" by code_simp
  moreover have "parse_ip ''2001:db8::9'' = Some ?y" by code_simp
  moreover have "quad_val ?y < quad_val ?x" by (simp add: quad_val_def)
  moreover have "str_less (addressKey ''2001:db8::10'') (addressKey ''2001:db8::9'')" by code_simp
  ultimately show ?thesis by blast
qed

text \<open>C34: Reading back the text of an AS path gives the AS numbers of all its segments in order.\<close>

theorem parseASPath_asPathToString: "parseASPath (asPathToString segs) = concat segs"
proof -
  have "fields_func as_path_sep [] (asPathToString segs) = map format_uint (concat segs)"
    using fields_segments[of segs "[]"] by (simp add: asPathToString_def bracketed_def[of "map _ _"])
  moreover have "asPathToString segs \<noteq> []" by (simp add: asPathToString_def bracketed_def)
  ultimately show ?thesis by (simp add: parseASPath_def parse_formatted_path)
qed

section \<open>Witnesses\<close>

definition sample_entry :: bgp_route_entry where
  "sample_entry =
     \<lparr>e_prefix = ''10.0.0.0/8'', e_next_hop = ''192.0.2.1'', e_as_path = ''[[64500]]'', e_origin = ''IGP'',
      e_local_pref = ''100'', e_med = ''0'', e_neighbor_ip = ''192.0.2.1'', e_source_asn = 64500,
      e_best = False, e_age = [], e_age_seconds = 0, e_originator_id = [], e_cluster_list = [],
      e_communities = []\<rparr>"

definition sample_pref :: "u32 \<Rightarrow> u32 \<Rightarrow> pathPreference" where
  "sample_pref lp med = entryPreference
     (sample_entry\<lparr>e_local_pref := format_uint lp, e_med := format_uint med\<rparr>)"

lemma morePreferred_total_order_witness:
  "morePreferred (sample_pref 200 0) (sample_pref 100 50)"
proof -
  have "morePreferred (sample_pref 200 0) (sample_pref 100 0)"
    and "morePreferred (sample_pref 100 0) (sample_pref 100 50)"
    by code_simp+
  then show ?thesis
    using morePreferred_total_order[of "sample_pref 200 0" "sample_pref 100 0" "sample_pref 100 50"]
    by blast
qed

definition sample_entries :: "bgp_route_entry list" where
  "sample_entries = [sample_entry, sample_entry\<lparr>e_local_pref := ''200''\<rparr>]"

lemma ensureBestAmongEntries_correct_witness:
  "\<exists>k < 2. \<forall>j < 2. e_best (ensureBestAmongEntries [''10.0.0.0/8''] sample_entries ! j) = (j = k)"
  using ensureBestAmongEntries_correct[of "[''10.0.0.0/8'']" sample_entries "[''10.0.0.0/8'']" "''10.0.0.0/8''"]
  by (auto simp: sample_entries_def sample_entry_def nth_Cons less_Suc_eq numeral_2_eq_2)

definition sample_routes :: "bgp_route list" where
  "sample_routes =
     [empty_route\<lparr>r_prefix := ''10.0.0.0/8'', r_best := True\<rparr>,
      empty_route\<lparr>r_prefix := ''10.0.0.0/8'', r_local_pref := 200\<rparr>]"

lemma EnsureBestAmongRoutes_correct_witness:
  "\<exists>k < 2. \<forall>j < 2. r_best (EnsureBestAmongRoutes [''10.0.0.0/8''] sample_routes ! j) = (j = k)"
  using EnsureBestAmongRoutes_correct[of "[''10.0.0.0/8'']" sample_routes "''10.0.0.0/8''"]
  by (auto simp: sample_routes_def empty_route_def nth_Cons less_Suc_eq numeral_2_eq_2)

end
