(* ===== verification/Go_Sort.thy ===== *)
theory Go_Sort
  imports Go_Base
begin

text \<open>
  \<open>sort.Slice\<close>, which is not stable, as a contract: the locale states what every instance promises,
  and the insertion sort the library runs on short slices satisfies it.
\<close>

section \<open>Sorting a slice\<close>

definition strict_weak :: "('a \<Rightarrow> 'a \<Rightarrow> bool) \<Rightarrow> bool" where
  "strict_weak lt \<longleftrightarrow> (\<forall>x. \<not> lt x x) \<and> (\<forall>x y z. lt x y \<longrightarrow> lt y z \<longrightarrow> lt x z) \<and>
     (\<forall>x y z. \<not> lt x y \<longrightarrow> \<not> lt y z \<longrightarrow> \<not> lt x z)"

text \<open>What \<open>sort.Slice\<close> promises for a comparison that is a strict weak order: a permutation in
  which nothing precedes something smaller. Equal elements may come in any order.\<close>

locale slice_sorter =
  fixes srt :: "('a \<Rightarrow> 'a \<Rightarrow> bool) \<Rightarrow> 'a list \<Rightarrow> 'a list"
  assumes perm: "mset (srt lt xs) = mset xs"
    and ordered: "strict_weak lt \<Longrightarrow> sorted_wrt (\<lambda>x y. \<not> lt y x) (srt lt xs)"
begin

lemma srt_length [simp]: "length (srt lt xs) = length xs"
  by (metis perm size_mset)

lemma srt_set [simp]: "set (srt lt xs) = set xs"
  by (metis perm set_mset_mset)

lemma srt_Nil [simp]: "srt lt xs = [] \<longleftrightarrow> xs = []"
  by (metis srt_length length_0_conv)

text \<open>Sorting on a flag puts an element with the flag first when there is one.\<close>

lemma flag_first:
  assumes "xs \<noteq> []"
  shows "f (hd (srt (\<lambda>a b. if f a \<noteq> f b then f a else False) xs)) \<longleftrightarrow> list_ex f xs"
proof -
  define lt where "lt = (\<lambda>a b. if f a \<noteq> f b then f a else False)"
  have lt: "lt a b \<longleftrightarrow> f a \<and> \<not> f b" for a b by (auto simp: lt_def)
  have "strict_weak lt" unfolding strict_weak_def lt by blast
  then have sorted: "sorted_wrt (\<lambda>x y. \<not> lt y x) (srt lt xs)" by (rule ordered)
  obtain y ys where eq: "srt lt xs = y # ys" using assms by (cases "srt lt xs") auto
  have set: "set xs = insert y (set ys)" by (metis eq srt_set list.simps(15))
  have "\<forall>z \<in> set ys. f z \<longrightarrow> f y" using sorted eq lt by auto
  then show ?thesis using eq set unfolding lt_def[symmetric] list_ex_iff by auto
qed

end

text \<open>The insertion sort the library runs on short slices.\<close>

fun insert_back :: "('a \<Rightarrow> 'a \<Rightarrow> bool) \<Rightarrow> 'a \<Rightarrow> 'a list \<Rightarrow> 'a list" where
  "insert_back lt x [] = [x]"
| "insert_back lt x (y # ys) = (if lt x y then y # insert_back lt x ys else x # y # ys)"

definition slice_insertion_sort :: "('a \<Rightarrow> 'a \<Rightarrow> bool) \<Rightarrow> 'a list \<Rightarrow> 'a list" where
  "slice_insertion_sort lt xs = rev (foldl (\<lambda>acc x. insert_back lt x acc) [] xs)"

lemma mset_insert_back [simp]: "mset (insert_back lt x ys) = add_mset x (mset ys)"
  by (induction ys) auto

lemma set_insert_back [simp]: "set (insert_back lt x ys) = insert x (set ys)"
  by (induction ys) auto

lemma sorted_insert_back:
  assumes "strict_weak lt" and "sorted_wrt (\<lambda>x y. \<not> lt x y) ys"
  shows "sorted_wrt (\<lambda>x y. \<not> lt x y) (insert_back lt x ys)"
  using assms(2)
proof (induction ys)
  case (Cons y ys)
  have asym: "lt a b \<Longrightarrow> \<not> lt b a" for a b using assms(1) unfolding strict_weak_def by blast
  have weak: "\<not> lt a b \<Longrightarrow> \<not> lt b c \<Longrightarrow> \<not> lt a c" for a b c
    using assms(1) unfolding strict_weak_def by blast
  have ys: "\<forall>z \<in> set ys. \<not> lt y z" "sorted_wrt (\<lambda>x y. \<not> lt x y) ys" using Cons.prems by auto
  show ?case
  proof (cases "lt x y")
    case True
    then show ?thesis using ys asym[OF True] Cons.IH[OF ys(2)] by simp
  next
    case False
    then have "\<forall>z \<in> set ys. \<not> lt x z" using weak ys(1) by blast
    then show ?thesis using False ys by simp
  qed
qed simp

interpretation gs: slice_sorter slice_insertion_sort
proof
  fix lt :: "'a \<Rightarrow> 'a \<Rightarrow> bool" and xs
  have "mset (foldl (\<lambda>acc x. insert_back lt x acc) acc xs) = mset acc + mset xs" for acc
    by (induction xs arbitrary: acc) auto
  then show "mset (slice_insertion_sort lt xs) = mset xs"
    by (simp add: slice_insertion_sort_def)
  assume weak: "strict_weak lt"
  have "sorted_wrt (\<lambda>x y. \<not> lt x y) acc \<Longrightarrow>
      sorted_wrt (\<lambda>x y. \<not> lt x y) (foldl (\<lambda>acc x. insert_back lt x acc) acc xs)" for acc
    by (induction xs arbitrary: acc) (auto simp: sorted_insert_back[OF weak])
  then show "sorted_wrt (\<lambda>x y. \<not> lt y x) (slice_insertion_sort lt xs)"
    by (simp add: slice_insertion_sort_def sorted_wrt_rev)
qed

end
