(* ===== verification/RouteQuery.thy ===== *)
theory RouteQuery
  imports BestPath Go_Sort
begin

text \<open>
  \<open>internal/bgp/query.go\<close>, \<open>fallback.go\<close>, \<open>nodemap.go\<close> and \<open>target_as.go\<close>: from the paths the
  RIB holds for a target to the routes shown for a node, with synthesised default routes where
  nothing matches, and to the AS paths of the network map. The RIB lookup, the DNS resolver and
  \<open>sort.Slice\<close>, which is not stable, are arguments.
\<close>

section \<open>Prefixes\<close>

definition targetIP :: "string \<Rightarrow> net_ip option" where
  "targetIP normalized =
     (if contains_str normalized ''/'' then
        (case parse_cidr normalized of
           Some (ip, _) \<Rightarrow> Some ip
         | None \<Rightarrow> parse_ip normalized)
      else parse_ip normalized)"

definition DefaultRoutePrefix :: "string \<Rightarrow> string" where
  "DefaultRoutePrefix normalized =
     (case targetIP normalized of
        Some ip \<Rightarrow> if to4 ip = None then ''::/0'' else ''0.0.0.0/0''
      | None \<Rightarrow> ''0.0.0.0/0'')"

definition isDefaultRoutePrefix :: "string \<Rightarrow> bool" where
  "isDefaultRoutePrefix pfx \<longleftrightarrow> trim_space pfx = ''0.0.0.0/0'' \<or> trim_space pfx = ''::/0''"

definition isBareIPQuery :: "string \<Rightarrow> bool" where
  "isBareIPQuery normalized \<longleftrightarrow> \<not> contains_str normalized ''/'' \<and> parse_ip normalized \<noteq> None"

definition displayPrefix :: "string \<Rightarrow> string" where
  "displayPrefix raw =
     (let normalized = trim_space raw in
      if normalized = [] then normalized
      else if contains_str normalized ''/'' then
        (if parse_cidr normalized \<noteq> None then normalized
         else case parse_ip (trim_suffix normalized ''/'') of
                Some ip \<Rightarrow> if to4 ip = None then ip_string ip @ ''/128'' else ip_string ip @ ''/32''
              | None \<Rightarrow> normalized)
      else case parse_ip normalized of
             None \<Rightarrow> normalized
           | Some ip \<Rightarrow> if to4 ip = None then normalized @ ''/128'' else normalized @ ''/32'')"

definition normalizeRoutePrefix :: "string \<Rightarrow> string" where
  "normalizeRoutePrefix pfx = displayPrefix (trim_space pfx)"

section \<open>Origin AS\<close>

record RouteFallback =
  fb_local_as :: u32
  fb_default_route_as :: u32

definition NewRouteFallback :: "u32 \<Rightarrow> u32 \<Rightarrow> RouteFallback option" where
  "NewRouteFallback localAS defaultRouteAS =
     (if localAS = 0 \<or> defaultRouteAS = 0 then None
      else Some \<lparr>fb_local_as = localAS, fb_default_route_as = defaultRouteAS\<rparr>)"

definition ASPath :: "RouteFallback \<Rightarrow> u32 list" where
  "ASPath fb = [fb_local_as fb, fb_default_route_as fb]"

definition originPrefix :: "RouteFallback \<Rightarrow> bool \<Rightarrow> u32 list" where
  "originPrefix fb viaDefaultRoute =
     (if fb_local_as fb = 0 then [] else if viaDefaultRoute then ASPath fb else [fb_local_as fb])"

text \<open>The loop that drops the common start of prefix and path: what is left of the path.\<close>

fun drop_common :: "u32 list \<Rightarrow> u32 list \<Rightarrow> u32 list" where
  "drop_common (p # pfx) (a # path) = (if p = a then drop_common pfx path else a # path)"
| "drop_common _ path = path"

definition PrependOriginASPath :: "u32 list \<Rightarrow> RouteFallback option \<Rightarrow> bool \<Rightarrow> u32 list" where
  "PrependOriginASPath path fb viaDefaultRoute =
     (case fb of
        None \<Rightarrow> path
      | Some f \<Rightarrow>
          (let pfx = originPrefix f viaDefaultRoute in
           if pfx = [] then path
           else if path = [] then pfx
           else pfx @ drop_common pfx path))"

definition ApplyOriginASPathToRoutes :: "u32 \<Rightarrow> bgp_route list \<Rightarrow> bgp_route list" where
  "ApplyOriginASPathToRoutes localAS routes =
     (if localAS = 0 \<or> routes = [] then routes
      else map (\<lambda>r. if length (r_as_path r) > 0 \<and> r_as_path r ! 0 = localAS then r
                    else r\<lparr>r_as_path := PrependOriginASPath (r_as_path r)
                             (Some \<lparr>fb_local_as = localAS, fb_default_route_as = 0\<rparr>) False\<rparr>) routes)"

section \<open>Routes of a node\<close>

text \<open>\<open>%-20s via %s  AS_PATH: %s  Origin: %s\<close>.\<close>

definition route_line :: "string \<Rightarrow> string \<Rightarrow> string \<Rightarrow> string \<Rightarrow> string" where
  "route_line pfx nextHop path origin =
     pad_right 20 pfx @ '' via '' @ nextHop @ ''  AS_PATH: '' @ path @ ''  Origin: '' @ origin"

definition format_entry :: "bgp_route_entry \<Rightarrow> string" where
  "format_entry e =
     route_line (e_prefix e) (e_next_hop e) (e_as_path e) (e_origin e) @
     (if e_communities e \<noteq> [] then ''  Communities: '' @ join_str '' '' (e_communities e) else []) @
     (if e_age e \<noteq> [] then ''  Age: '' @ e_age e else []) @
     (if e_best e then ''  [best]'' else []) @ [CHR 0x0A]"

definition formatRouteEntries :: "bgp_route_entry list \<Rightarrow> string" where
  "formatRouteEntries entries = concat (map format_entry entries)"

definition SynthesizeDefaultRouteResult ::
  "string \<Rightarrow> bgp_route_entry list \<Rightarrow> RouteFallback \<Rightarrow> bgp_result" where
  "SynthesizeDefaultRouteResult queriedPrefix defaults fb =
     (let route = empty_route\<lparr>r_prefix := displayPrefix queriedPrefix, r_as_path := ASPath fb,
                              r_via_default_route := True, r_best := False\<rparr>;
          defaultLabel = DefaultRoutePrefix queriedPrefix;
          entry = (case find e_best defaults of
                     Some e \<Rightarrow> Some e
                   | None \<Rightarrow> (case defaults of [] \<Rightarrow> None | e # _ \<Rightarrow> Some e));
          label = (case entry of
                     Some e \<Rightarrow> if e_prefix e \<noteq> [] then e_prefix e else defaultLabel
                   | None \<Rightarrow> defaultLabel);
          route' = (case entry of
                      None \<Rightarrow> route
                    | Some e \<Rightarrow> route\<lparr>r_next_hop := e_next_hop e, r_origin := e_origin e,
                                      r_local_pref := parseUint (e_local_pref e), r_med := parseUint (e_med e),
                                      r_age := e_age e, r_best := e_best e,
                                      r_communities := e_communities e\<rparr>);
          asPathStr = format_uint (fb_local_as fb) @ '' '' @ format_uint (fb_default_route_as fb)
      in \<lparr>br_routes = [route'],
          br_raw = route_line (r_prefix route') (r_next_hop route') asPathStr (r_origin route') @
                   ''  [default route '' @ label @ '']'',
          br_target_as = None\<rparr>)"

record neighborDefaultConfig =
  nd_neighbor_ip :: string
  nd_ipv6_neighbor_ip :: string
  nd_default_route_as :: u32

fun default_entry_loop ::
  "string \<Rightarrow> string \<Rightarrow> bgp_route_entry option \<Rightarrow> bgp_route_entry list \<Rightarrow> bgp_route_entry option" where
  "default_entry_loop ip ip6 best [] = best"
| "default_entry_loop ip ip6 best (d # ds) =
     (if e_neighbor_ip d \<noteq> ip \<and> e_neighbor_ip d \<noteq> ip6 then default_entry_loop ip ip6 best ds
      else if best = None \<or> e_best d then default_entry_loop ip ip6 (Some d) ds
      else default_entry_loop ip ip6 best ds)"

definition defaultEntryForNeighbor ::
  "bgp_route_entry list \<Rightarrow> string \<Rightarrow> string \<Rightarrow> bgp_route_entry option" where
  "defaultEntryForNeighbor defaults neighborIP ipv6NeighborIP =
     default_entry_loop neighborIP ipv6NeighborIP None defaults"

type_synonym route_sort = "(bgp_route \<Rightarrow> bgp_route \<Rightarrow> bool) \<Rightarrow> bgp_route list \<Rightarrow> bgp_route list"
type_synonym entry_sort =
  "(bgp_route_entry \<Rightarrow> bgp_route_entry \<Rightarrow> bool) \<Rightarrow> bgp_route_entry list \<Rightarrow> bgp_route_entry list"

definition SortRoutesBestFirst :: "route_sort \<Rightarrow> bgp_route list \<Rightarrow> bgp_route list" where
  "SortRoutesBestFirst srt routes =
     srt (\<lambda>a b. if r_best a \<noteq> r_best b then r_best a else False) routes"

text \<open>What the session manager's lookups depend on: its global AS, the RIB lookup of a node
  (\<open>LookupRoute\<close>), the node's neighbours with a default-route AS in the order its map yields them,
  the resolver and the two instances of \<open>sort.Slice\<close>.\<close>

record route_env =
  re_global_as :: u32
  re_lookup :: "int \<Rightarrow> string \<Rightarrow> go_error + bgp_route_entry list"
  re_defaults :: "int \<Rightarrow> neighborDefaultConfig list"
  re_dns :: dns_lookup
  re_sort_routes :: route_sort
  re_sort_entries :: entry_sort

text \<open>One candidate neighbour: its synthesised routes and its raw line.\<close>

definition candidate_result ::
  "route_env \<Rightarrow> string \<Rightarrow> (string \<Rightarrow> string) option \<Rightarrow> bgp_route_entry list \<Rightarrow>
   neighborDefaultConfig \<Rightarrow> bgp_result" where
  "candidate_result env normalized nodeName defaults nb =
     (let fb = \<lparr>fb_local_as = re_global_as env, fb_default_route_as = nd_default_route_as nb\<rparr>;
          entry = defaultEntryForNeighbor defaults (nd_neighbor_ip nb) (nd_ipv6_neighbor_ip nb);
          partial = SynthesizeDefaultRouteResult normalized
                      (case entry of None \<Rightarrow> [] | Some e \<Rightarrow> [e]) fb
      in partial\<lparr>br_routes := map (\<lambda>route.
           (case nodeName of
              None \<Rightarrow> route
            | Some nm \<Rightarrow>
                (case entry of
                   Some e \<Rightarrow>
                     if e_neighbor_ip e \<noteq> [] then route\<lparr>r_node_name := nm (e_neighbor_ip e)\<rparr>
                     else if nd_neighbor_ip nb \<noteq> [] then route\<lparr>r_node_name := nm (nd_neighbor_ip nb)\<rparr>
                     else route
                 | None \<Rightarrow>
                     if nd_neighbor_ip nb \<noteq> [] then route\<lparr>r_node_name := nm (nd_neighbor_ip nb)\<rparr>
                     else route))) (br_routes partial)\<rparr>)"

definition synthesizeDefaultRoutesForNode ::
  "route_env \<Rightarrow> int \<Rightarrow> string \<Rightarrow> (string \<Rightarrow> string) option \<Rightarrow> go_error + bgp_result" where
  "synthesizeDefaultRoutesForNode env nodeID normalized nodeName =
     (let candidates = re_defaults env nodeID in
      if candidates = [] then
        Inr \<lparr>br_routes = [], br_raw = ''no matching BGP routes for '' @ normalized, br_target_as = None\<rparr>
      else case re_lookup env nodeID (DefaultRoutePrefix normalized) of
        Inl err \<Rightarrow> Inl err
      | Inr defaults \<Rightarrow>
          (let partials = map (candidate_result env normalized nodeName defaults) candidates;
               rawLines = map (\<lambda>p. trim_space (br_raw p)) (filter (\<lambda>p. br_raw p \<noteq> []) partials);
               routes = SortRoutesBestFirst (re_sort_routes env) (concat (map br_routes partials));
               routes' = (if routes \<noteq> [] \<and> \<not> hasBestRoute routes
                          then routes[0 := (routes ! 0)\<lparr>r_best := True\<rparr>] else routes)
           in Inr \<lparr>br_routes = routes', br_raw = join_str [CHR 0x0A] rawLines, br_target_as = None\<rparr>))"

definition entry_route :: "string \<Rightarrow> (string \<Rightarrow> string) option \<Rightarrow> bgp_route_entry \<Rightarrow> bgp_route" where
  "entry_route normalized nodeName entry =
     (let viaDefault = (isBareIPQuery normalized \<and> isDefaultRoutePrefix (e_prefix entry));
          pfx = (if viaDefault then displayPrefix normalized else normalizeRoutePrefix (e_prefix entry));
          route = empty_route\<lparr>r_prefix := pfx, r_next_hop := e_next_hop entry,
                              r_as_path := parseASPath (e_as_path entry), r_origin := e_origin entry,
                              r_local_pref := parseUint (e_local_pref entry), r_med := parseUint (e_med entry),
                              r_age := e_age entry, r_best := e_best entry,
                              r_communities := e_communities entry, r_via_default_route := viaDefault\<rparr>
      in case nodeName of
           None \<Rightarrow> route
         | Some nm \<Rightarrow> route\<lparr>r_node_name := nm (e_neighbor_ip entry)\<rparr>)"

definition BuildRouteResult ::
  "route_env \<Rightarrow> int \<Rightarrow> string \<Rightarrow> (string \<Rightarrow> string) option \<Rightarrow> go_error + bgp_result" where
  "BuildRouteResult env nodeID pfx nodeName =
     (case NormalizeBGPLookup (re_dns env) pfx of
        Inl err \<Rightarrow> if errors_is err ErrDNSNotFound then Inl ErrDNSNotFound else Inl ErrInvalidTarget
      | Inr normalized \<Rightarrow>
         (case re_lookup env nodeID normalized of
            Inl err \<Rightarrow> Inl err
          | Inr entries \<Rightarrow>
              if length entries = 0 then synthesizeDefaultRoutesForNode env nodeID normalized nodeName
              else (let sorted = re_sort_entries env
                          (\<lambda>a b. if e_best a \<noteq> e_best b then e_best a else False) entries
                    in Inr \<lparr>br_routes = map (entry_route normalized nodeName) sorted,
                            br_raw = formatRouteEntries sorted, br_target_as = None\<rparr>)))"

section \<open>The network map\<close>

record MapNode =
  mn_id :: int
  mn_name :: string
  mn_type :: node_type

definition maxNodeMapPaths :: nat where "maxNodeMapPaths = 4"

definition NoRouteNodeASPaths :: "int \<Rightarrow> string \<Rightarrow> node_as_path list" where
  "NoRouteNodeASPaths nodeID nodeName =
     [\<lparr>np_node_id = nodeID, np_node_name = nodeName, np_prefix = [], np_as_path = [], np_best = False,
       np_via_default_route = False, np_no_route = True\<rparr>]"

definition hasBestPath :: "node_as_path list \<Rightarrow> bool" where
  "hasBestPath paths = list_ex np_best paths"

definition asPathKey :: "u32 list \<Rightarrow> string" where
  "asPathKey path = join_str '' '' (map format_uint path)"

text \<open>The loop over the sorted routes: \<open>i\<close> is the index of the next one, \<open>selected\<close> that of the
  selected route, \<open>paths\<close> what has been collected.\<close>

fun node_paths_loop ::
  "int \<Rightarrow> string \<Rightarrow> nat option \<Rightarrow> nat \<Rightarrow> string list \<Rightarrow> node_as_path list \<Rightarrow> bgp_route list \<Rightarrow>
   node_as_path list" where
  "node_paths_loop nodeID nodeName selected i seen paths [] = paths"
| "node_paths_loop nodeID nodeName selected i seen paths (route # routes) =
     (if r_as_path route = [] \<or> asPathKey (r_as_path route) \<in> set seen
      then node_paths_loop nodeID nodeName selected (Suc i) seen paths routes
      else
        (let paths' = paths @
               [\<lparr>np_node_id = nodeID, np_node_name = nodeName, np_prefix = r_prefix route,
                 np_as_path = r_as_path route, np_best = (Some i = selected),
                 np_via_default_route = r_via_default_route route, np_no_route = False\<rparr>]
         in if length paths' = maxNodeMapPaths then paths'
            else node_paths_loop nodeID nodeName selected (Suc i)
                   (asPathKey (r_as_path route) # seen) paths' routes))"

definition RoutesToNodeASPaths ::
  "route_sort \<Rightarrow> int \<Rightarrow> string \<Rightarrow> bgp_route list \<Rightarrow> node_as_path list" where
  "RoutesToNodeASPaths srt nodeID nodeName routes =
     (let sorted = SortRoutesBestFirst srt routes;
          paths = node_paths_loop nodeID nodeName (BestRoute sorted) 0 [] [] sorted
      in if paths = [] then NoRouteNodeASPaths nodeID nodeName
         else if \<not> hasBestPath paths then paths[0 := (paths ! 0)\<lparr>np_best := True\<rparr>]
         else paths)"

definition nodeASPaths ::
  "route_env \<Rightarrow> MapNode \<Rightarrow> string \<Rightarrow> u32 \<Rightarrow> (string \<Rightarrow> string) option \<Rightarrow> node_as_path list" where
  "nodeASPaths env node normalized localAS nodeName =
     (case BuildRouteResult env (mn_id node) normalized nodeName of
        Inl err \<Rightarrow> NoRouteNodeASPaths (mn_id node) (mn_name node)
      | Inr br \<Rightarrow>
          (let routes = (if mn_type node \<noteq> NodeTypeLGNode
                         then ApplyOriginASPathToRoutes localAS (br_routes br) else br_routes br)
           in RoutesToNodeASPaths (re_sort_routes env) (mn_id node) (mn_name node) routes))"

text \<open>Every node's goroutine fills its own slot and the slots are joined in node order.\<close>

definition BuildNodeASPaths ::
  "route_env \<Rightarrow> MapNode list \<Rightarrow> string \<Rightarrow> u32 \<Rightarrow> (string \<Rightarrow> string) option \<Rightarrow> node_as_path list" where
  "BuildNodeASPaths env nodes pfx localAS nodeName =
     (if nodes = [] then []
      else case NormalizeBGPLookup (re_dns env) pfx of
        Inl err \<Rightarrow> []
      | Inr normalized \<Rightarrow>
          concat (map (\<lambda>n. nodeASPaths env n normalized localAS nodeName) nodes))"

section \<open>The AS of the target\<close>

text \<open>\<open>resolve\<close> is the resolver of the GeoIP database, \<open>flag\<close> is \<open>geo.CountryToFlag\<close>.\<close>

definition queryTargetIP :: "string \<Rightarrow> string" where
  "queryTargetIP normalized =
     (case (if contains_str normalized ''/'' then map_option fst (parse_cidr normalized) else None) of
        Some ip \<Rightarrow> ip_string ip
      | None \<Rightarrow> (case parse_ip normalized of Some ip \<Rightarrow> ip_string ip | None \<Rightarrow> []))"

definition enrichResultTargetAS ::
  "dns_lookup \<Rightarrow> (string \<Rightarrow> go_error + as_info option) option \<Rightarrow> (string \<Rightarrow> string) \<Rightarrow> string \<Rightarrow>
   bgp_result option \<Rightarrow> bgp_result option" where
  "enrichResultTargetAS dns resolver flag pfx br =
     (case (br, resolver) of
        (Some b, Some resolve) \<Rightarrow>
          if br_target_as b \<noteq> None then br
          else (case NormalizeBGPLookup dns pfx of
             Inl err \<Rightarrow> br
           | Inr normalized \<Rightarrow>
               (let ip = queryTargetIP normalized in
                if ip = [] then br
                else case resolve ip of
                  Inr (Some info) \<Rightarrow>
                    if as_asn info = 0 then br
                    else Some (b\<lparr>br_target_as := Some
                           (if as_country_code info \<noteq> [] \<and> as_flag_emoji info = []
                            then info\<lparr>as_flag_emoji := flag (as_country_code info)\<rparr> else info)\<rparr>)
                | _ \<Rightarrow> br))
      | _ \<Rightarrow> br)"

section \<open>Lemmas on AS paths and prefixes\<close>

lemma asPathKey_inject [simp]: "asPathKey p = asPathKey q \<longleftrightarrow> p = q"
proof
  assume eq: "asPathKey p = asPathKey q"
  have blank: "CHR '' '' \<notin> set (format_uint w) \<and> format_uint w \<noteq> []" for w :: u32
    using as_path_sep_digit[of "CHR '' ''" w] as_path_seps(1) by auto
  have "map format_uint p = map format_uint q"
  proof (rule join_char_inject)
    show "join_str '' '' (map format_uint p) = join_str '' '' (map format_uint q)"
      using eq by (simp add: asPathKey_def)
  next
    fix w assume "w \<in> set (map format_uint p) \<union> set (map format_uint q)"
    then show "CHR '' '' \<notin> set w \<and> w \<noteq> []" using blank by auto
  qed
  moreover have "inj (format_uint :: u32 \<Rightarrow> string)" by (rule injI) simp
  ultimately show "p = q" by (simp add: inj_map_eq_map)
qed simp

lemma PrependOrigin_single:
  "localAS \<noteq> 0 \<Longrightarrow>
   PrependOriginASPath path (Some \<lparr>fb_local_as = localAS, fb_default_route_as = d\<rparr>) False =
     (if path \<noteq> [] \<and> hd path = localAS then path else localAS # path)"
  by (cases path) (auto simp: PrependOriginASPath_def originPrefix_def)

lemma ApplyOrigin_paths:
  "localAS \<noteq> 0 \<Longrightarrow> ApplyOriginASPathToRoutes localAS routes =
     map (\<lambda>r. r\<lparr>r_as_path := (if r_as_path r \<noteq> [] \<and> hd (r_as_path r) = localAS then r_as_path r
                              else localAS # r_as_path r)\<rparr>) routes"
  by (auto simp: ApplyOriginASPathToRoutes_def PrependOrigin_single hd_conv_nth)

section \<open>What the map loop collects\<close>

definition node_path_of :: "int \<Rightarrow> string \<Rightarrow> nat option \<Rightarrow> nat \<times> bgp_route \<Rightarrow> node_as_path" where
  "node_path_of nodeID nodeName selected = (\<lambda>(i, route).
     \<lparr>np_node_id = nodeID, np_node_name = nodeName, np_prefix = r_prefix route,
      np_as_path = r_as_path route, np_best = (Some i = selected),
      np_via_default_route = r_via_default_route route, np_no_route = False\<rparr>)"

definition distinct_paths :: "nat \<Rightarrow> string list \<Rightarrow> bgp_route list \<Rightarrow> (nat \<times> bgp_route) list" where
  "distinct_paths i seen routes =
     dedup_by (\<lambda>x. asPathKey (r_as_path (snd x))) seen
       (filter (\<lambda>x. r_as_path (snd x) \<noteq> []) (enumerate i routes))"

lemma node_paths_loop_eq:
  "length paths < maxNodeMapPaths \<Longrightarrow>
   node_paths_loop nodeID nodeName selected i seen paths routes =
     paths @ map (node_path_of nodeID nodeName selected)
       (take (maxNodeMapPaths - length paths) (distinct_paths i seen routes))"
proof (induction nodeID nodeName selected i seen paths routes rule: node_paths_loop.induct)
  case (1 nodeID nodeName selected i seen paths)
  then show ?case by (simp add: distinct_paths_def)
next
  case (2 nodeID nodeName selected i seen paths route routes)
  show ?case
  proof (cases "r_as_path route = [] \<or> asPathKey (r_as_path route) \<in> set seen")
    case True
    then show ?thesis using "2.IH"(1)[OF True "2.prems"] by (auto simp: distinct_paths_def)
  next
    case False
    let ?p = "node_path_of nodeID nodeName selected (i, route)"
    have d: "distinct_paths i seen (route # routes) =
        (i, route) # distinct_paths (Suc i) (asPathKey (r_as_path route) # seen) routes"
      using False by (simp add: distinct_paths_def)
    show ?thesis
    proof (cases "length (paths @ [?p]) = maxNodeMapPaths")
      case full: True
      then have "maxNodeMapPaths - length paths = Suc 0" by simp
      with False full d show ?thesis by (simp add: node_path_of_def Let_def)
    next
      case more: False
      then have "length (paths @ [?p]) < maxNodeMapPaths" using "2.prems" by simp
      with "2.IH"(2)[OF False refl] more
      have "node_paths_loop nodeID nodeName selected (Suc i) (asPathKey (r_as_path route) # seen) (paths @ [?p]) routes =
        (paths @ [?p]) @ map (node_path_of nodeID nodeName selected)
          (take (maxNodeMapPaths - length (paths @ [?p]))
            (distinct_paths (Suc i) (asPathKey (r_as_path route) # seen) routes))"
        by (simp add: node_path_of_def)
      moreover have "maxNodeMapPaths - length paths = Suc (maxNodeMapPaths - length (paths @ [?p]))"
        using more "2.prems" by simp
      ultimately show ?thesis
        using False more d by (simp add: node_path_of_def Let_def)
    qed
  qed
qed

lemma sorted_wrt_dedup_by: "sorted_wrt P xs \<Longrightarrow> sorted_wrt P (dedup_by f seen xs)"
proof (induction f seen xs rule: dedup_by.induct)
  case (2 f seen x xs)
  then show ?case using set_dedup_by_subset[of f "f x # seen" xs] by auto
qed simp

lemma distinct_paths_indices: "sorted_wrt (\<lambda>x y. fst x < fst y) (distinct_paths i seen routes)"
proof -
  have "sorted_wrt (\<lambda>x y. fst x < fst y) (enumerate i routes)"
    by (simp add: sorted_wrt_iff_nth_less nth_enumerate_eq)
  then show ?thesis
    unfolding distinct_paths_def by (intro sorted_wrt_dedup_by sorted_wrt_filter)
qed

lemma distinct_paths_paths:
  "(\<lambda>x. r_as_path (snd x)) ` set (distinct_paths i [] routes) = r_as_path ` set routes - {[]}"
proof -
  have "(\<lambda>x. asPathKey (r_as_path (snd x))) ` set (distinct_paths i [] routes) =
      (\<lambda>x. asPathKey (r_as_path (snd x))) ` set (filter (\<lambda>x. r_as_path (snd x) \<noteq> []) (enumerate i routes))"
    unfolding distinct_paths_def by (simp add: dedup_by_image)
  then have "asPathKey ` ((\<lambda>x. r_as_path (snd x)) ` set (distinct_paths i [] routes)) =
      asPathKey ` ((\<lambda>x. r_as_path (snd x)) ` set (filter (\<lambda>x. r_as_path (snd x) \<noteq> []) (enumerate i routes)))"
    by (simp only: image_image)
  then have "(\<lambda>x. r_as_path (snd x)) ` set (distinct_paths i [] routes) =
      (\<lambda>x. r_as_path (snd x)) ` set (filter (\<lambda>x. r_as_path (snd x) \<noteq> []) (enumerate i routes))"
    by (subst (asm) inj_image_eq_iff) (auto simp: inj_def)
  also have "\<dots> = r_as_path ` set routes - {[]}"
  proof -
    have "set routes = snd ` set (enumerate i routes)" by (metis enumerate_eq_zip list.set_map map_snd_enumerate)
    then show ?thesis by auto
  qed
  finally show ?thesis .
qed

lemma distinct_paths_distinct: "distinct (map (\<lambda>x. r_as_path (snd x)) (distinct_paths i [] routes))"
proof -
  have "distinct (map (\<lambda>x. asPathKey (r_as_path (snd x))) (distinct_paths i [] routes))"
    unfolding distinct_paths_def using distinct_dedup_by by blast
  then have "distinct (map asPathKey (map (\<lambda>x. r_as_path (snd x)) (distinct_paths i [] routes)))"
    by (simp add: comp_def)
  then show ?thesis by (simp only: distinct_map)
qed

lemma best_flag_loop_None: "best_flag_loop i rs = None \<longleftrightarrow> \<not> list_ex r_best rs"
  by (induction i rs rule: best_flag_loop.induct) auto

lemma length_distinct_paths:
  "length (distinct_paths i [] routes) = card (r_as_path ` set routes - {[]})"
proof -
  have "card (set (map (\<lambda>x. r_as_path (snd x)) (distinct_paths i [] routes))) =
      length (distinct_paths i [] routes)"
    using distinct_card[OF distinct_paths_distinct] by simp
  then show ?thesis by (simp add: distinct_paths_paths)
qed

text \<open>In routes sorted by the flag the selected route is the first one.\<close>

lemma SortRoutesBestFirst_facts:
  assumes "slice_sorter srt"
  shows "mset (SortRoutesBestFirst srt routes) = mset routes"
    and "set (SortRoutesBestFirst srt routes) = set routes"
    and "length (SortRoutesBestFirst srt routes) = length routes"
    and "SortRoutesBestFirst srt routes = [] \<longleftrightarrow> routes = []"
    and "routes \<noteq> [] \<Longrightarrow> r_best (hd (SortRoutesBestFirst srt routes)) \<longleftrightarrow> list_ex r_best routes"
  unfolding SortRoutesBestFirst_def
  using slice_sorter.perm[OF assms] slice_sorter.srt_set[OF assms] slice_sorter.srt_length[OF assms]
    slice_sorter.srt_Nil[OF assms] slice_sorter.flag_first[OF assms, of routes r_best]
  by blast+

lemma list_ex_set: "set xs = set ys \<Longrightarrow> list_ex P xs \<longleftrightarrow> list_ex P ys"
  by (simp add: list_ex_iff)

lemma BestRoute_sorted:
  assumes "slice_sorter srt" and "routes \<noteq> []"
  shows "BestRoute (SortRoutesBestFirst srt routes) = Some 0"
proof -
  let ?s = "SortRoutesBestFirst srt routes"
  note facts = SortRoutesBestFirst_facts[OF assms(1)]
  obtain r rs where s: "?s = r # rs" using facts(4)[of routes] assms(2) by (cases ?s) auto
  show ?thesis
  proof (cases "r_best r")
    case True
    then show ?thesis by (simp add: BestRoute_def s)
  next
    case False
    then have "\<not> list_ex r_best routes" using facts(5)[OF assms(2)] s by simp
    then have "\<not> list_ex r_best ?s" using list_ex_set[OF facts(2)[of routes]] by blast
    then have "best_flag_loop 0 ?s = None" by (simp only: best_flag_loop_None not_False_eq_True)
    then show ?thesis by (simp add: BestRoute_def s)
  qed
qed

text \<open>Only the first of the collected paths is marked best, whether by its index or afterwards.\<close>

definition only_first_best :: "node_as_path list \<Rightarrow> bool" where
  "only_first_best ps \<longleftrightarrow> map np_best ps = True # replicate (length ps - 1) False"

lemma only_first_best_collected:
  fixes nid :: int and nm :: string
  assumes ind: "sorted_wrt (\<lambda>x y. fst x < fst y) xs" and ne: "xs \<noteq> []"
  defines "ps \<equiv> map (node_path_of nid nm (Some 0)) xs"
  shows "only_first_best (if \<not> hasBestPath ps then ps[0 := (ps ! 0)\<lparr>np_best := True\<rparr>] else ps)"
proof -
  obtain x ys where xs: "xs = x # ys" using ne by (cases xs) auto
  have later: "\<forall>y \<in> set ys. fst y \<noteq> 0" using ind xs by auto
  have np: "np_best (node_path_of nid nm (Some 0) y) \<longleftrightarrow> fst y = 0" for y
    by (cases y) (auto simp: node_path_of_def)
  have "map np_best (map (node_path_of nid nm (Some 0)) ys) = map (\<lambda>_. False) ys"
    using later by (simp add: np comp_def)
  then have rest: "map np_best (map (node_path_of nid nm (Some 0)) ys) = replicate (length ys) False"
    by (simp add: map_replicate_const)
  have "\<not> list_ex np_best (map (node_path_of nid nm (Some 0)) ys)"
    using later by (auto simp: np list_ex_iff)
  with rest show ?thesis
    unfolding only_first_best_def ps_def by (simp add: xs hasBestPath_def np comp_def)
qed

lemma collected_fields:
  assumes "p \<in> set (if b then ps[0 := (ps ! 0)\<lparr>np_best := True\<rparr>] else ps)"
    and "ps = map (node_path_of nid nm sel) xs" and "xs \<noteq> []"
  shows "np_node_id p = nid \<and> np_node_name p = nm \<and> \<not> np_no_route p"
  using assms by (cases xs) (auto simp: node_path_of_def split: if_splits)

lemma collected_paths:
  assumes "ps = map (node_path_of nid nm sel) xs" and "xs \<noteq> []"
  shows "map np_as_path (if b then ps[0 := (ps ! 0)\<lparr>np_best := True\<rparr>] else ps) =
    map (\<lambda>x. r_as_path (snd x)) xs"
  using assms by (cases xs) (auto simp: node_path_of_def comp_def split_beta)

lemma RoutesToNodeASPaths_eq:
  assumes srt: "slice_sorter srt"
  defines "D \<equiv> \<lambda>rs. take maxNodeMapPaths (distinct_paths 0 [] (SortRoutesBestFirst srt rs))"
  shows "RoutesToNodeASPaths srt nid nm routes =
    (if D routes = [] then NoRouteNodeASPaths nid nm
     else let ps = map (node_path_of nid nm (Some 0)) (D routes)
          in if \<not> hasBestPath ps then ps[0 := (ps ! 0)\<lparr>np_best := True\<rparr>] else ps)"
proof (cases "routes = []")
  case True
  then show ?thesis
    using SortRoutesBestFirst_facts(4)[OF srt, of routes]
    by (simp add: RoutesToNodeASPaths_def D_def distinct_paths_def)
next
  case False
  have "node_paths_loop nid nm (Some 0) 0 [] [] (SortRoutesBestFirst srt routes) =
      map (node_path_of nid nm (Some 0)) (D routes)"
    by (subst node_paths_loop_eq) (simp_all add: D_def maxNodeMapPaths_def)
  then show ?thesis
    by (simp add: RoutesToNodeASPaths_def BestRoute_sorted[OF srt False] Let_def)
qed

text \<open>C30: the map entry of a node. When none of its routes has an AS path the node gets the single
  no-route entry. Otherwise it gets the distinct AS paths of its routes, as many as there are but at
  most four, each once, exactly the first of them marked best; and when every best route has a path,
  the first entry shows the path of a best route.\<close>

theorem RoutesToNodeASPaths_correct:
  assumes "slice_sorter srt"
  shows "let ps = RoutesToNodeASPaths srt nid nm routes; avail = r_as_path ` set routes - {[]} in
     (if avail = {} then ps = NoRouteNodeASPaths nid nm
      else distinct (map np_as_path ps) \<and> np_as_path ` set ps \<subseteq> avail \<and>
           length ps = min maxNodeMapPaths (card avail) \<and>
           map np_best ps = True # replicate (length ps - 1) False \<and>
           list_all (\<lambda>p. np_node_id p = nid \<and> np_node_name p = nm \<and> \<not> np_no_route p) ps \<and>
           (list_ex r_best routes \<and> list_all (\<lambda>r. r_best r \<longrightarrow> r_as_path r \<noteq> []) routes \<longrightarrow>
              np_as_path (hd ps) \<in> r_as_path ` {r \<in> set routes. r_best r}))"
proof -
  let ?s = "SortRoutesBestFirst srt routes"
  let ?xs = "take maxNodeMapPaths (distinct_paths 0 [] ?s)"
  let ?avail = "r_as_path ` set routes - {[]}"
  let ?ps = "RoutesToNodeASPaths srt nid nm routes"
  let ?f = "\<lambda>x::nat \<times> bgp_route. r_as_path (snd x)"
  note facts = SortRoutesBestFirst_facts[OF assms, of routes]
  have img: "?f ` set (distinct_paths 0 [] ?s) = ?avail" by (simp only: distinct_paths_paths facts(2))
  have len: "length ?xs = min maxNodeMapPaths (card ?avail)"
    by (simp add: length_distinct_paths facts(2))
  show ?thesis
  proof (cases "?avail = {}")
    case True
    then have "distinct_paths 0 [] ?s = []" using img by (metis image_is_empty set_empty)
    then show ?thesis using True by (simp add: RoutesToNodeASPaths_eq[OF assms])
  next
    case False
    then have "distinct_paths 0 [] ?s \<noteq> []" using img by auto
    then have ne: "?xs \<noteq> []" by (simp add: maxNodeMapPaths_def)
    obtain b where b: "?ps = (let ps = map (node_path_of nid nm (Some 0)) ?xs
        in if b then ps[0 := (ps ! 0)\<lparr>np_best := True\<rparr>] else ps)"
        "b \<longleftrightarrow> \<not> hasBestPath (map (node_path_of nid nm (Some 0)) ?xs)"
      using ne by (simp add: RoutesToNodeASPaths_eq[OF assms] Let_def)
    have paths: "map np_as_path ?ps = map ?f ?xs"
      unfolding b(1) Let_def by (rule collected_paths[OF refl ne])
    have "distinct (map ?f ?xs)"
      using distinct_paths_distinct[of 0 ?s] by (simp add: take_map[symmetric] distinct_take del: distinct_map)
    then have "distinct (map np_as_path ?ps)" by (simp only: paths)
    moreover have "np_as_path ` set ?ps \<subseteq> ?avail"
    proof -
      have "np_as_path ` set ?ps = ?f ` set ?xs" using arg_cong[OF paths, of set] by simp
      also have "\<dots> \<subseteq> ?f ` set (distinct_paths 0 [] ?s)" by (intro image_mono set_take_subset)
      finally show ?thesis by (simp only: img)
    qed
    moreover have lps: "length ?ps = min maxNodeMapPaths (card ?avail)"
      using arg_cong[OF paths, of length] len by simp
    moreover have "only_first_best ?ps"
      using only_first_best_collected[OF _ ne, of nid nm] distinct_paths_indices[of 0 "[]" ?s]
      unfolding b Let_def by (simp add: sorted_wrt_take)
    moreover have "list_all (\<lambda>p. np_node_id p = nid \<and> np_node_name p = nm \<and> \<not> np_no_route p) ?ps"
      using collected_fields[OF _ refl ne] unfolding b(1) Let_def list_all_iff by blast
    moreover have "np_as_path (hd ?ps) \<in> r_as_path ` {r \<in> set routes. r_best r}"
      if best: "list_ex r_best routes" "list_all (\<lambda>r. r_best r \<longrightarrow> r_as_path r \<noteq> []) routes"
    proof -
      have rne: "routes \<noteq> []" using best(1) by auto
      obtain r rs where s: "?s = r # rs" using facts(4) rne by (cases ?s) auto
      have r: "r_best r" "r \<in> set routes" using facts(5)[OF rne] best(1) s facts(2) by auto
      have "r_as_path r \<noteq> []" using best(2) r by (auto simp: list_all_iff)
      then have "hd ?xs = (0, r)" by (simp add: s distinct_paths_def maxNodeMapPaths_def)
      then have "hd (map ?f ?xs) = r_as_path r" using ne by (simp add: hd_map)
      then have "hd (map np_as_path ?ps) = r_as_path r" by (simp only: paths)
      moreover have "?ps \<noteq> []" using paths ne by (metis Nil_is_map_conv)
      ultimately show ?thesis using r by (auto simp: hd_map)
    qed
    ultimately show ?thesis using False by (simp add: only_first_best_def Let_def)
  qed
qed

definition map_route :: "u32 list \<Rightarrow> bool \<Rightarrow> bgp_route" where
  "map_route path best = empty_route\<lparr>r_prefix := ''10.0.0.0/8'', r_as_path := path, r_best := best\<rparr>"

lemma RoutesToNodeASPaths_witness:
  "np_as_path (hd (RoutesToNodeASPaths slice_insertion_sort 1 ''fra''
     [map_route [64500, 2] False, map_route [64500, 3] True, map_route [] False])) = [64500, 3]"
proof -
  let ?rs = "[map_route [64500, 2] False, map_route [64500, 3] True, map_route [] False]"
  have "r_as_path ` set ?rs - {[]} \<noteq> {}" by (auto simp: map_route_def)
  then have "np_as_path (hd (RoutesToNodeASPaths slice_insertion_sort 1 ''fra'' ?rs)) \<in>
      r_as_path ` {r \<in> set ?rs. r_best r}"
    using RoutesToNodeASPaths_correct[OF gs.slice_sorter_axioms, of 1 "''fra''" ?rs]
    unfolding Let_def by (simp only: if_False) (simp add: map_route_def)
  then show ?thesis by (auto simp: map_route_def)
qed

section \<open>Properties\<close>

text \<open>every route shown for a node other than the looking glass's own starts with the local AS,
  which is put in front exactly where it is missing; nothing else of a route changes, and applying
  the step twice is applying it once.\<close>

theorem ApplyOriginASPathToRoutes_correct:
  assumes "localAS \<noteq> 0"
  shows "let rs = ApplyOriginASPathToRoutes localAS routes in
     list_all2 (\<lambda>r r'. r' = r\<lparr>r_as_path := (if take 1 (r_as_path r) = [localAS] then r_as_path r
                                        else localAS # r_as_path r)\<rparr>) routes rs \<and>
     list_all (\<lambda>r. take 1 (r_as_path r) = [localAS]) rs \<and>
     ApplyOriginASPathToRoutes localAS rs = rs"
proof -
  have head: "path \<noteq> [] \<and> hd path = localAS \<longleftrightarrow> take 1 path = [localAS]" for path
    by (cases path) auto
  show ?thesis
    unfolding Let_def ApplyOrigin_paths[OF assms] head
    by (simp add: list_all2_conv_all_nth list_all_iff comp_def)
qed

lemma ApplyOriginASPathToRoutes_witness:
  "list_all (\<lambda>r. take 1 (r_as_path r) = [64500]) (ApplyOriginASPathToRoutes 64500 [map_route [2] True])"
  using ApplyOriginASPathToRoutes_correct[of 64500 "[map_route [2] True]"]
  unfolding Let_def by simp

text \<open>The neighbour's default route: the last one flagged best, else the first.\<close>

lemma default_entry_loop_filter:
  "default_entry_loop ip ip6 best ds =
     default_entry_loop ip ip6 best (filter (\<lambda>d. e_neighbor_ip d = ip \<or> e_neighbor_ip d = ip6) ds)"
  by (induction ip ip6 best ds rule: default_entry_loop.induct) auto

lemma default_entry_loop_best:
  "\<forall>d \<in> set ms. e_neighbor_ip d = ip \<or> e_neighbor_ip d = ip6 \<Longrightarrow>
   default_entry_loop ip ip6 (Some b) ms = Some (last (b # filter e_best ms))"
  by (induction ms arbitrary: b) auto

lemma defaultEntryForNeighbor_eq:
  "defaultEntryForNeighbor ds ip ip6 =
    (case filter (\<lambda>d. e_neighbor_ip d = ip \<or> e_neighbor_ip d = ip6) ds of
       [] \<Rightarrow> None
     | m # ms \<Rightarrow> Some (last (m # filter e_best ms)))"
  unfolding defaultEntryForNeighbor_def
proof (subst default_entry_loop_filter, cases "filter (\<lambda>d. e_neighbor_ip d = ip \<or> e_neighbor_ip d = ip6) ds")
  case (Cons m ms)
  then have "set (m # ms) \<subseteq> {d. e_neighbor_ip d = ip \<or> e_neighbor_ip d = ip6}"
    by (simp only: Cons[symmetric] set_filter) blast
  then have mm: "e_neighbor_ip m = ip \<or> e_neighbor_ip m = ip6"
    and ms: "\<forall>d \<in> set ms. e_neighbor_ip d = ip \<or> e_neighbor_ip d = ip6" by auto
  show "default_entry_loop ip ip6 None (filter (\<lambda>d. e_neighbor_ip d = ip \<or> e_neighbor_ip d = ip6) ds) =
      (case filter (\<lambda>d. e_neighbor_ip d = ip \<or> e_neighbor_ip d = ip6) ds of
         [] \<Rightarrow> None | m # ms \<Rightarrow> Some (last (m # filter e_best ms)))"
    unfolding Cons list.case default_entry_loop_best[OF ms, of m, symmetric] using mm by (elim disjE) simp_all
qed simp

text \<open>what a lookup that finds paths returns: one route per path, in an order that puts a best
  path first when there is one, and a route through the default route, marked as such, is shown
  under the address that was asked for.\<close>

theorem BuildRouteResult_paths:
  assumes "slice_sorter (re_sort_entries env)"
    and "NormalizeBGPLookup (re_dns env) pfx = Inr normalized"
    and "re_lookup env nodeID normalized = Inr entries" and "entries \<noteq> []"
  shows "\<exists>br. BuildRouteResult env nodeID pfx nodeName = Inr br \<and>
     mset (br_routes br) = image_mset (entry_route normalized nodeName) (mset entries) \<and>
     (r_best (hd (br_routes br)) \<longleftrightarrow> list_ex e_best entries) \<and>
     list_all (\<lambda>r. \<not> r_via_default_route r \<or> isBareIPQuery normalized \<and> r_prefix r = displayPrefix normalized)
       (br_routes br)"
proof -
  let ?s = "re_sort_entries env (\<lambda>a b. if e_best a \<noteq> e_best b then e_best a else False) entries"
  have ms: "mset ?s = mset entries" by (rule slice_sorter.perm[OF assms(1)])
  have ne: "?s \<noteq> []" using assms(4) slice_sorter.srt_Nil[OF assms(1)] by blast
  have hd: "e_best (hd ?s) \<longleftrightarrow> list_ex e_best entries"
    by (rule slice_sorter.flag_first[OF assms(1,4)])
  have best: "r_best (entry_route normalized nodeName e) = e_best e" for e
    by (simp add: entry_route_def empty_route_def Let_def split: option.split)
  have via: "\<not> r_via_default_route (entry_route normalized nodeName e) \<or>
      isBareIPQuery normalized \<and> r_prefix (entry_route normalized nodeName e) = displayPrefix normalized" for e
    by (auto simp: entry_route_def empty_route_def Let_def split: option.split)
  have eq: "BuildRouteResult env nodeID pfx nodeName =
      Inr \<lparr>br_routes = map (entry_route normalized nodeName) ?s, br_raw = formatRouteEntries ?s,
           br_target_as = None\<rparr>"
    using assms(2,3,4) by (simp add: BuildRouteResult_def Let_def)
  have "mset (map (entry_route normalized nodeName) ?s) =
      image_mset (entry_route normalized nodeName) (mset entries)"
    using ms by simp
  moreover have "r_best (hd (map (entry_route normalized nodeName) ?s)) \<longleftrightarrow> list_ex e_best entries"
    using hd by (simp only: hd_map[OF ne] best)
  moreover have "list_all (\<lambda>r. \<not> r_via_default_route r \<or>
      isBareIPQuery normalized \<and> r_prefix r = displayPrefix normalized)
      (map (entry_route normalized nodeName) ?s)"
    using via by (auto simp: list_all_iff)
  ultimately show ?thesis unfolding eq by simp
qed

definition example_env :: "bgp_route_entry list \<Rightarrow> route_env" where
  "example_env entries =
     \<lparr>re_global_as = 64500, re_lookup = (\<lambda>_ pfx. if pfx = ''8.8.0.0/16'' then Inr entries else Inr []),
      re_defaults = (\<lambda>_. [\<lparr>nd_neighbor_ip = ''192.0.2.1'', nd_ipv6_neighbor_ip = [], nd_default_route_as = 3356\<rparr>]),
      re_dns = example_lookup, re_sort_routes = slice_insertion_sort,
      re_sort_entries = slice_insertion_sort\<rparr>"

lemma example_normalized: "NormalizeBGPLookup example_lookup ''8.8.0.0/16'' = Inr ''8.8.0.0/16''"
  by code_simp

lemma BuildRouteResult_paths_witness:
  "\<exists>br. BuildRouteResult (example_env [sample_entry\<lparr>e_best := True\<rparr>]) 1 ''8.8.0.0/16'' None = Inr br \<and>
     r_best (hd (br_routes br))"
  using BuildRouteResult_paths[of "example_env [sample_entry\<lparr>e_best := True\<rparr>]" "''8.8.0.0/16''" "''8.8.0.0/16''" 1
      "[sample_entry\<lparr>e_best := True\<rparr>]" None] gs.slice_sorter_axioms example_normalized
  by (auto simp: example_env_def)

lemma candidate_route:
  "\<exists>r. br_routes (candidate_result env normalized nn defaults nb) = [r] \<and>
     r_prefix r = displayPrefix normalized \<and> r_via_default_route r \<and>
     r_as_path r = [re_global_as env, nd_default_route_as nb]"
  by (auto simp: candidate_result_def SynthesizeDefaultRouteResult_def empty_route_def ASPath_def Let_def
      split: option.split)

text \<open>a lookup that finds no path is answered from the neighbours that have a default-route AS:
  one route per neighbour, through the local AS and that AS, marked as going through the default
  route and shown under the address that was asked for; the first one is always marked best, even
  when the RIB confirms no default route. Without such a neighbour the answer has no routes.\<close>

theorem BuildRouteResult_default:
  assumes "slice_sorter (re_sort_routes env)"
    and "NormalizeBGPLookup (re_dns env) pfx = Inr normalized"
    and "re_lookup env nodeID normalized = Inr []"
    and "re_lookup env nodeID (DefaultRoutePrefix normalized) = Inr defaults"
  shows "\<exists>br. BuildRouteResult env nodeID pfx nodeName = Inr br \<and>
     mset (map r_as_path (br_routes br)) =
       mset (map (\<lambda>nb. [re_global_as env, nd_default_route_as nb]) (re_defaults env nodeID)) \<and>
     list_all (\<lambda>r. r_via_default_route r \<and> r_prefix r = displayPrefix normalized) (br_routes br) \<and>
     (br_routes br = [] \<or> r_best (hd (br_routes br)))"
proof (cases "re_defaults env nodeID = []")
  case True
  then show ?thesis
    using assms(2,3) by (simp add: BuildRouteResult_def synthesizeDefaultRoutesForNode_def)
next
  case False
  let ?c = "candidate_result env normalized nodeName defaults"
  let ?all = "concat (map (\<lambda>nb. br_routes (?c nb)) (re_defaults env nodeID))"
  let ?s = "SortRoutesBestFirst (re_sort_routes env) ?all"
  let ?r = "if ?s \<noteq> [] \<and> \<not> hasBestRoute ?s then ?s[0 := (?s ! 0)\<lparr>r_best := True\<rparr>] else ?s"
  note facts = SortRoutesBestFirst_facts[OF assms(1), of ?all]
  have paths: "map r_as_path (concat (map (\<lambda>nb. br_routes (?c nb)) nbs)) =
      map (\<lambda>nb. [re_global_as env, nd_default_route_as nb]) nbs" for nbs
  proof (induction nbs)
    case (Cons nb nbs)
    then show ?case using candidate_route[of env normalized nodeName defaults nb] by auto
  qed simp
  have all: "list_all (\<lambda>r. r_via_default_route r \<and> r_prefix r = displayPrefix normalized)
      (concat (map (\<lambda>nb. br_routes (?c nb)) nbs))" for nbs
  proof (induction nbs)
    case (Cons nb nbs)
    then show ?case using candidate_route[of env normalized nodeName defaults nb] by auto
  qed simp
  have marked: "map r_as_path ?r = map r_as_path ?s"
    "list_all (\<lambda>r. r_via_default_route r \<and> r_prefix r = displayPrefix normalized) ?r \<longleftrightarrow>
     list_all (\<lambda>r. r_via_default_route r \<and> r_prefix r = displayPrefix normalized) ?s"
    by (cases ?s; simp)+
  have "mset (map r_as_path ?r) = mset (map r_as_path ?all)"
    unfolding marked(1) using facts(1) by (metis mset_map)
  moreover have "list_all (\<lambda>r. r_via_default_route r \<and> r_prefix r = displayPrefix normalized) ?r"
    unfolding marked(2) using all facts(2) by (simp add: list_all_iff)
  moreover have "?r = [] \<or> r_best (hd ?r)"
  proof (cases "?all = []")
    case False
    then obtain y ys where s: "?s = y # ys" using facts(4) by (cases ?s) auto
    have "r_best y \<longleftrightarrow> list_ex r_best (y # ys)"
      using facts(5)[OF False] list_ex_set[OF facts(2), of r_best] unfolding s by simp
    then show ?thesis unfolding s hasBestRoute_def by auto
  qed (use facts(4) in simp)
  moreover have "\<exists>raw. BuildRouteResult env nodeID pfx nodeName =
      Inr \<lparr>br_routes = ?r, br_raw = raw, br_target_as = None\<rparr>"
    using assms(2-4) False
    by (simp add: BuildRouteResult_def synthesizeDefaultRoutesForNode_def Let_def comp_def)
  ultimately show ?thesis unfolding paths by auto
qed

lemma BuildRouteResult_default_witness:
  "\<exists>br. BuildRouteResult (example_env []) 1 ''8.8.0.0/16'' None = Inr br \<and>
     map r_as_path (br_routes br) = [[64500, 3356]]"
proof -
  have srt: "slice_sorter (re_sort_routes (example_env []))"
    unfolding example_env_def route_env.simps by (rule gs.slice_sorter_axioms)
  have "\<exists>br. BuildRouteResult (example_env []) 1 ''8.8.0.0/16'' None = Inr br \<and>
      mset (map r_as_path (br_routes br)) = {#[64500, 3356]#}"
    using BuildRouteResult_default[OF srt, of "''8.8.0.0/16''" "''8.8.0.0/16''" 1 "[]" None]
      example_normalized
    by (auto simp: example_env_def)
  then show ?thesis by (auto simp: mset_single_iff simp del: mset_map)
qed

end
