(* ===== verification/Go_Fields.thy ===== *)
theory Go_Fields
  imports Go_Text
begin

text \<open>
  More of Go's \<open>strings\<close> package: \<open>Index\<close>, \<open>LastIndex\<close>, \<open>Split\<close>, \<open>SplitN\<close>, \<open>Fields\<close>, \<open>ReplaceAll\<close> of
  one byte and \<open>Trim\<close>, and the lines \<open>bufio.Scanner\<close> yields.
\<close>

section \<open>Searching and splitting\<close>

fun index_str :: "string \<Rightarrow> string \<Rightarrow> nat option" where
  "index_str [] p = (if p = [] then Some 0 else None)"
| "index_str (c # s) p = (if has_prefix (c # s) p then Some 0 else map_option Suc (index_str s p))"

fun last_index_str :: "string \<Rightarrow> string \<Rightarrow> nat option" where
  "last_index_str [] p = (if p = [] then Some 0 else None)"
| "last_index_str (c # s) p =
     (case last_index_str s p of
        Some i \<Rightarrow> Some (Suc i)
      | None \<Rightarrow> if has_prefix (c # s) p then Some 0 else None)"

lemma index_str_SomeD: "index_str s p = Some i \<Longrightarrow> s = take i s @ p @ drop (i + length p) s"
proof (induction s p arbitrary: i rule: index_str.induct)
  case (2 c s p)
  show ?case
  proof (cases "has_prefix (c # s) p")
    case True
    then have "take (length p) (c # s) = p" by (simp add: has_prefix_def)
    then have "c # s = p @ drop (length p) (c # s)" by (metis append_take_drop_id)
    then show ?thesis using True "2.prems" by auto
  next
    case False
    then obtain j where "index_str s p = Some j" "i = Suc j" using "2.prems" by auto
    with "2.IH"[OF False] show ?thesis by simp
  qed
qed (auto split: if_splits)

function split_str :: "string \<Rightarrow> string \<Rightarrow> string list" where
  "split_str sep s =
     (if sep = [] then [s]
      else case index_str s sep of
        None \<Rightarrow> [s]
      | Some i \<Rightarrow> take i s # split_str sep (drop (i + length sep) s))"
  by pat_completeness auto
termination
proof (relation "measure (\<lambda>(sep, s). length s)", goal_cases)
  case (2 sep s i)
  then have "length s = length (take i s @ sep @ drop (i + length sep) s)"
    using index_str_SomeD by metis
  then show ?case using 2 by (cases sep) auto
qed simp

declare split_str.simps [simp del]

text \<open>\<open>strings.Fields\<close>: the maximal runs without white space.\<close>

definition at_space :: "string \<Rightarrow> bool" where
  "at_space s \<longleftrightarrow> list_ex (\<lambda>p. has_prefix s p) space_seqs"

fun take_word :: "string \<Rightarrow> string" where
  "take_word [] = []"
| "take_word (c # s) = (if at_space (c # s) then [] else c # take_word s)"

lemma trim_seqs_length: "length (trim_seqs ps s) \<le> length s"
  using trim_seqs_suffix[of s ps] by (metis length_append le_add2)

lemma trim_space_left_start: "\<not> at_space (trim_space_left s)"
  using trim_seqs_no_prefix[of space_seqs s] space_seqs_nonempty
  by (auto simp: at_space_def trim_space_left_def no_prefix_def list_ex_iff)

function str_fields :: "string \<Rightarrow> string list" where
  "str_fields s =
     (let t = trim_space_left s in
      if t = [] then [] else take_word t # str_fields (drop (length (take_word t)) t))"
  by pat_completeness auto
termination
proof (relation "measure length", goal_cases)
  case (2 s t)
  then obtain c u where t: "trim_space_left s = c # u" by (cases "trim_space_left s") auto
  then have "take_word (trim_space_left s) \<noteq> []"
    using trim_space_left_start[of s] by simp
  moreover have "length (trim_space_left s) \<le> length s"
    by (simp add: trim_space_left_def trim_seqs_length)
  ultimately show ?case using 2 t by (cases "take_word (c # u)") auto
qed simp

declare str_fields.simps [simp del]

text \<open>\<open>strings.Trim\<close> for a cutset of one byte.\<close>

definition trim_char :: "char \<Rightarrow> string \<Rightarrow> string" where
  "trim_char q s = rev (dropWhile (\<lambda>c. c = q) (rev (dropWhile (\<lambda>c. c = q) s)))"

text \<open>\<open>strings.Trim\<close>, \<open>TrimLeft\<close> for a set of ASCII bytes.\<close>

definition trim_left_set :: "char list \<Rightarrow> string \<Rightarrow> string" where
  "trim_left_set cs s = dropWhile (\<lambda>c. c \<in> set cs) s"

definition trim_set :: "char list \<Rightarrow> string \<Rightarrow> string" where
  "trim_set cs s = rev (dropWhile (\<lambda>c. c \<in> set cs) (rev (trim_left_set cs s)))"

text \<open>\<open>strings.SplitN\<close> at one byte.\<close>

fun split_n :: "nat \<Rightarrow> char \<Rightarrow> string \<Rightarrow> string list" where
  "split_n 0 d s = []"
| "split_n (Suc 0) d s = [s]"
| "split_n (Suc (Suc k)) d s =
     (case dropWhile (\<lambda>c. c \<noteq> d) s of
        [] \<Rightarrow> [s]
      | _ # rest \<Rightarrow> takeWhile (\<lambda>c. c \<noteq> d) s # split_n (Suc k) d rest)"

lemma split_n_bound: "length (split_n k d s) \<le> k"
  by (induction k d s rule: split_n.induct) (auto split: list.splits)

lemma split_n_no_sep: "d \<notin> set s \<Longrightarrow> 0 < k \<Longrightarrow> split_n k d s = [s]"
proof (induction k d s rule: split_n.induct)
  case (3 k d s)
  then have "dropWhile (\<lambda>c. c \<noteq> d) s = []" by (auto simp: dropWhile_eq_Nil_conv)
  then show ?case by (simp only: split_n.simps list.case)
qed simp_all

lemma split_n_sep:
  assumes "d \<notin> set s"
  shows "split_n (Suc (Suc k)) d (s @ d # t) = s # split_n (Suc k) d t"
proof -
  have "dropWhile (\<lambda>c. c \<noteq> d) (s @ d # t) = d # t" "takeWhile (\<lambda>c. c \<noteq> d) (s @ d # t) = s"
    using assms by (induction s) auto
  then show ?thesis by simp
qed

text \<open>\<open>bufio.Scanner\<close> with its default buffer: the lines without their line ends, and whether the
  scan ended in an error because a line does not fit into 64 KiB together with its newline.\<close>

definition drop_cr :: "string \<Rightarrow> string" where
  "drop_cr l = (if l \<noteq> [] \<and> last l = CHR 0x0D then butlast l else l)"

definition max_scan_token :: nat where "max_scan_token = 65536"

fun scan_lines :: "string list \<Rightarrow> string list \<times> bool" where
  "scan_lines [] = ([], False)"
| "scan_lines (l # ls) =
     (if max_scan_token \<le> length l then ([], True)
      else (case scan_lines ls of (ws, err) \<Rightarrow> (drop_cr l # ws, err)))"

definition scanner_lines :: "string \<Rightarrow> string list \<times> bool" where
  "scanner_lines s =
     (let ls = split_char (CHR 0x0A) s in scan_lines (if last ls = [] then butlast ls else ls))"

end
