(* ===== verification/Geo_Names.thy ===== *)
theory Geo_Names
  imports Domain Go_Fields
begin

text \<open>
  The text handling of \<open>internal/geo/geoip.go\<close>: country flags, Team Cymru's TXT records, the
  short forms of AS organisation names and the labels of traceroute hops.
\<close>

section \<open>Flags\<close>

text \<open>The runes of a string of at most two bytes: ASCII, a two-byte sequence, or invalid bytes,
  each of which reads as \<open>RuneError\<close>.\<close>

fun short_runes :: "string \<Rightarrow> nat list" where
  "short_runes [] = []"
| "short_runes [a] = [if code a < 0x80 then code a else 0xFFFD]"
| "short_runes (a # b # s) =
     (if 0xC2 \<le> code a \<and> code a \<le> 0xDF \<and> 0x80 \<le> code b \<and> code b \<le> 0xBF
      then ((code a - 0xC0) * 64 + (code b - 0x80)) # short_runes s
      else (if code a < 0x80 then code a else 0xFFFD) # short_runes (b # s))"

definition utf8_4 :: "nat \<Rightarrow> string" where
  "utf8_4 r = [char_of (0xF0 + r div 0x40000), char_of (0x80 + r div 0x1000 mod 64),
               char_of (0x80 + r div 64 mod 64), char_of (0x80 + r mod 64)]"

definition CountryToFlag :: "string \<Rightarrow> string" where
  "CountryToFlag cc =
     (if length cc \<noteq> 2 then []
      else concat (map (\<lambda>c. utf8_4 (nat (0x1F1E6 + (int c - 65)))) (short_runes (to_upper cc))))"

section \<open>Organisation names\<close>

definition baseOrgLabel :: "string \<Rightarrow> string" where
  "baseOrgLabel raw =
     (let org = trim_space raw in
      if org = [] then org
      else
        (let org1 = (case index_str org '' - '' of
                Some idx \<Rightarrow>
                  if idx > 0 then
                    (let before = trim_space (take idx org); after = trim_space (drop (idx + 3) org)
                     in if has_prefix (to_upper before) ''AS'' \<and> after \<noteq> [] then after else before)
                  else org
              | None \<Rightarrow> org)
         in case index_str org1 '', '' of
              Some idx \<Rightarrow> if idx > 0 then trim_space (take idx org1) else org1
            | None \<Rightarrow> org1))"

definition shortenOrgName :: "string \<Rightarrow> string" where
  "shortenOrgName raw =
     (let org = baseOrgLabel raw in
      if org = [] then org
      else if length (str_fields org) > 1 then str_fields org ! 0
      else org)"

definition tracerouteOrgMaxLen :: nat where "tracerouteOrgMaxLen = 20"

definition legalOrgSuffixes :: "string list" where
  "legalOrgSuffixes =
     [''inc'', ''llc'', ''ltd'', ''corp'', ''corporation'', ''co'', ''as'', ''sa'', ''gmbh'', ''ag'',
      ''plc'', ''limited'', ''bv'', ''nv'', ''spa'', ''pty'']"

definition legal_word :: "string \<Rightarrow> bool" where
  "legal_word w \<longleftrightarrow> filter (\<lambda>c. c \<noteq> CHR ''.'') (to_lower w) \<in> set legalOrgSuffixes"

function trimLegalSuffixWords :: "string list \<Rightarrow> string list" where
  "trimLegalSuffixWords words =
     (if words \<noteq> [] \<and> legal_word (last words) then trimLegalSuffixWords (butlast words) else words)"
  by pat_completeness auto
termination by (relation "measure length") auto

declare trimLegalSuffixWords.simps [simp del]

definition trimToLen :: "string \<Rightarrow> int \<Rightarrow> string" where
  "trimToLen s maxLen =
     (if int (length s) \<le> maxLen then s
      else if maxLen \<le> 0 then []
      else take (nat maxLen) s)"

definition abbreviateTracerouteName :: "string \<Rightarrow> int \<Rightarrow> string" where
  "abbreviateTracerouteName name maxLen =
     (if int (length name) \<le> maxLen then name
      else case str_fields name of
        w1 # w2 # _ \<Rightarrow>
          if int (length w1) + 1 + 4 \<le> maxLen
          then w1 @ '' '' @ take (nat (min (maxLen - int (length w1) - 1) (int (length w2)))) w2
          else
            (let secondMax = maxLen - maxLen div 2 - 1;
                 firstMax' = (if secondMax < 3 then maxLen - 4 else maxLen div 2);
                 secondMax' = (if secondMax < 3 then 3 else secondMax)
             in trimToLen w1 firstMax' @ '' '' @ trimToLen w2 secondMax')
      | _ \<Rightarrow> trimToLen name maxLen)"

definition FormatTracerouteOrgName :: "string \<Rightarrow> string" where
  "FormatTracerouteOrgName raw =
     (let org = baseOrgLabel raw in
      if org = [] then org
      else case trimLegalSuffixWords (str_fields org) of
             [] \<Rightarrow> []
           | [w] \<Rightarrow> abbreviateTracerouteName w (int tracerouteOrgMaxLen)
           | w # v # _ \<Rightarrow> abbreviateTracerouteName (w @ '' '' @ v) (int tracerouteOrgMaxLen))"

section \<open>Team Cymru's records\<close>

text \<open>Country and organisation of an ASN record; the two record formats differ by a prefix field.\<close>

definition parseCymruASNRecord :: "string \<Rightarrow> string \<times> string" where
  "parseCymruASNRecord raw =
     (let record' = trim_char (CHR 0x22) (trim_space raw);
          fields = split_str '' | '' record'
      in if length fields < 2 then ([], [])
         else if length fields \<ge> 6 \<and> contains_str (fields ! 1) ''/''
         then (trim_space (fields ! 2), trim_space (fields ! 5))
         else if length fields \<ge> 5 then (trim_space (fields ! 1), trim_space (fields ! 4))
         else (trim_space (fields ! 1), []))"

definition upper_letter :: "char \<Rightarrow> bool" where
  "upper_letter c \<longleftrightarrow> 65 \<le> code c \<and> code c \<le> 90"

definition countryFromOrgSuffix :: "string \<Rightarrow> string" where
  "countryFromOrgSuffix org =
     (case last_index_str org '', '' of
        Some idx \<Rightarrow>
          (let cc = to_upper (trim_space (drop (idx + 2) org))
           in if length cc = 2 \<and> upper_letter (cc ! 0) \<and> upper_letter (cc ! 1) then cc else [])
      | None \<Rightarrow> [])"

section \<open>Lemmas\<close>

lemma length_trimToLen: "0 \<le> n \<Longrightarrow> int (length (trimToLen s n)) \<le> n"
  by (auto simp: trimToLen_def)

lemma length_abbreviate:
  assumes "4 \<le> n"
  shows "int (length (abbreviateTracerouteName name n)) \<le> n"
proof (cases "int (length name) \<le> n")
  case True
  then show ?thesis by (simp add: abbreviateTracerouteName_def)
next
  case False
  show ?thesis
  proof (cases "str_fields name")
    case Nil
    then show ?thesis using False assms by (simp add: abbreviateTracerouteName_def length_trimToLen)
  next
    case (Cons w1 rest)
    show ?thesis
    proof (cases rest)
      case Nil
      then show ?thesis using False Cons assms by (simp add: abbreviateTracerouteName_def length_trimToLen)
    next
      case (Cons w2 more)
      let ?s = "n - n div 2 - 1"
      have "int (length (trimToLen w1 (if ?s < 3 then n - 4 else n div 2)))
            \<le> (if ?s < 3 then n - 4 else n div 2)"
        using assms by (intro length_trimToLen) auto
      moreover have "int (length (trimToLen w2 (if ?s < 3 then 3 else ?s))) \<le> (if ?s < 3 then 3 else ?s)"
        by (intro length_trimToLen) auto
      ultimately show ?thesis
        using False \<open>str_fields name = w1 # rest\<close> Cons
        by (auto simp: abbreviateTracerouteName_def Let_def split: if_splits)
    qed
  qed
qed

text \<open>the label of a traceroute hop is at most 20 bytes long.\<close>

theorem FormatTracerouteOrgName_bound: "length (FormatTracerouteOrgName org) \<le> 20"
proof -
  have "length (abbreviateTracerouteName w 20) \<le> 20" for w
    using length_abbreviate[of 20 w] by linarith
  then show ?thesis
    by (auto simp: FormatTracerouteOrgName_def tracerouteOrgMaxLen_def Let_def baseOrgLabel_def
        split: list.split)
qed

text \<open>The cut is at a byte, which may lie inside a UTF-8 sequence.\<close>

lemma FormatTracerouteOrgName_cuts_runes:
  "FormatTracerouteOrgName (replicate 19 (CHR ''a'') @ [CHR 0xC3, CHR 0xA9]) =
     replicate 19 (CHR ''a'') @ [CHR 0xC3]"
  by code_simp

lemma length_CountryToFlag_ascii:
  "list_all (\<lambda>c. code c < 0x80) cc \<Longrightarrow> CountryToFlag cc = [] \<or> length (CountryToFlag cc) = 8"
proof (cases "length cc = 2")
  case True
  assume ascii: "list_all (\<lambda>c. code c < 0x80) cc"
  obtain a b where cc: "cc = [a, b]" using True by (auto simp: numeral_2_eq_2 length_Suc_conv)
  have "code (to_upper_char a) < 0xC2" using ascii cc by (auto simp: to_upper_char_def)
  then show ?thesis by (simp add: cc CountryToFlag_def to_upper_def utf8_4_def)
qed (simp add: CountryToFlag_def)

end
