(* ===== verification/GeoIP.thy ===== *)
theory GeoIP
  imports Geo_Names RouteQuery
begin

text \<open>
  \<open>internal/geo\<close>: the AS databases and the lookup pipeline: CSV blocks with longest-prefix match,
  the MaxMind readers, Team Cymru's DNS zone, the per-address cache and the index by AS number.
  Files, MaxMind readers and the TXT resolver are arguments; a CSV file is what its reader yields,
  the header and then one result per row up to the end of the file. One lookup is one atomic
  transition of the database: concurrent lookups only race on the caches.
\<close>

section \<open>CSV files\<close>

record csv_file =
  csv_header :: "go_error + string list"
  csv_rows :: "(go_error + string list) list"

text \<open>The file system: opening a CSV file and Go's \<open>filepath.Join\<close> and \<open>filepath.Dir\<close>.\<close>

record file_system =
  fs_open :: "string \<Rightarrow> go_error + csv_file"
  fs_join :: "string \<Rightarrow> string \<Rightarrow> string"
  fs_dir :: "string \<Rightarrow> string"

definition asnBlocksIPv4Name :: string where "asnBlocksIPv4Name = ''GeoLite2-ASN-Blocks-IPv4.csv''"
definition asnBlocksIPv6Name :: string where "asnBlocksIPv6Name = ''GeoLite2-ASN-Blocks-IPv6.csv''"
definition cityLocationsName :: string where "cityLocationsName = ''GeoLite2-City-Locations-en.csv''"

text \<open>The header loop: the last column of a name wins.\<close>

fun column_loop :: "nat \<Rightarrow> nat option \<Rightarrow> string \<Rightarrow> string list \<Rightarrow> nat option" where
  "column_loop i found name [] = found"
| "column_loop i found name (col # cols) =
     column_loop (Suc i) (if trim_space col = name then Some i else found) name cols"

definition column :: "string list \<Rightarrow> string \<Rightarrow> nat option" where
  "column header name = column_loop 0 None name header"

text \<open>\<open>strconv.ParseInt\<close> for 64 bits accepts exactly what \<open>Atoi\<close> does.\<close>

type_synonym country_map = "int \<rightharpoonup> string"

fun country_rows_loop ::
  "nat \<Rightarrow> nat \<Rightarrow> country_map \<Rightarrow> (go_error + string list) list \<Rightarrow> country_map" where
  "country_rows_loop g c out [] = out"
| "country_rows_loop g c out (r # rows) =
     (case r of
        Inl e \<Rightarrow> country_rows_loop g c out rows
      | Inr row \<Rightarrow>
          if length row \<le> g \<or> length row \<le> c then country_rows_loop g c out rows
          else case go_atoi (trim_space (row ! g)) of
            None \<Rightarrow> country_rows_loop g c out rows
          | Some geoname \<Rightarrow>
              if geoname = 0 then country_rows_loop g c out rows
              else (let cc = to_upper (trim_space (row ! c))
                    in country_rows_loop g c (if length cc = 2 then out(geoname \<mapsto> cc) else out) rows))"

definition loadCountryByGeoname :: "(go_error + csv_file) \<Rightarrow> go_error + country_map" where
  "loadCountryByGeoname f =
     (case f of
        Inl err \<Rightarrow> Inl err
      | Inr csv \<Rightarrow>
         (case csv_header csv of
            Inl err \<Rightarrow> Inl (WrapError ''read locations header: '' err)
          | Inr header \<Rightarrow>
             (case (column header ''geoname_id'', column header ''country_iso_code'') of
                (Some g, Some c) \<Rightarrow> Inr (country_rows_loop g c Map.empty (csv_rows csv))
              | _ \<Rightarrow> Inl (PlainError ''locations csv missing required columns''))))"

text \<open>A nil country map is None.\<close>

definition country_of_column :: "country_map \<Rightarrow> string list \<Rightarrow> nat option \<Rightarrow> string" where
  "country_of_column m row idx =
     (case idx of
        None \<Rightarrow> []
      | Some i \<Rightarrow>
          if length row \<le> i then []
          else case go_atoi (trim_space (row ! i)) of
            None \<Rightarrow> []
          | Some geoname \<Rightarrow> if geoname > 0 then (case m geoname of Some cc \<Rightarrow> cc | None \<Rightarrow> []) else [])"

definition countryFromGeonameRow ::
  "string list \<Rightarrow> nat option \<Rightarrow> nat option \<Rightarrow> country_map option \<Rightarrow> string" where
  "countryFromGeonameRow row geonameIdx regCountryIdx countries =
     (case countries of
        None \<Rightarrow> []
      | Some m \<Rightarrow>
          (let cc = country_of_column m row geonameIdx
           in if cc \<noteq> [] then cc else country_of_column m row regCountryIdx))"

definition parse_asn :: "string \<Rightarrow> u32 option" where
  "parse_asn s =
     (if s = [] then None
      else case parse_uint 32 s of
        NumOk n \<Rightarrow> if n = 0 then None else Some (of_nat n)
      | _ \<Rightarrow> None)"

definition with_country :: "string \<Rightarrow> as_info \<Rightarrow> as_info" where
  "with_country cc info =
     (if cc \<noteq> [] then info\<lparr>as_country_code := cc, as_flag_emoji := CountryToFlag cc\<rparr> else info)"

definition org_info :: "u32 \<Rightarrow> string \<Rightarrow> as_info" where
  "org_info asn org = empty_as_info\<lparr>as_asn := asn, as_org_name := org, as_short_name := shortenOrgName org\<rparr>"

type_synonym asn_index = "u32 \<rightharpoonup> as_info"

fun index_rows_loop ::
  "nat \<Rightarrow> nat \<Rightarrow> nat option \<Rightarrow> country_map option \<Rightarrow> asn_index \<Rightarrow> (go_error + string list) list \<Rightarrow>
   asn_index" where
  "index_rows_loop a o' rc countries out [] = out"
| "index_rows_loop a o' rc countries out (r # rows) =
     (case r of
        Inl e \<Rightarrow> index_rows_loop a o' rc countries out rows
      | Inr row \<Rightarrow>
          if length row \<le> a \<or> length row \<le> o' then index_rows_loop a o' rc countries out rows
          else case parse_asn (trim_space (row ! a)) of
            None \<Rightarrow> index_rows_loop a o' rc countries out rows
          | Some asn \<Rightarrow>
              if out asn \<noteq> None then index_rows_loop a o' rc countries out rows
              else index_rows_loop a o' rc countries
                (out(asn \<mapsto> with_country (case countries of None \<Rightarrow> [] | Some m \<Rightarrow> country_of_column m row rc)
                              (org_info asn (trim_space (row ! o'))))) rows)"

definition loadASNIndexFromBlocks ::
  "(go_error + csv_file) \<Rightarrow> country_map option \<Rightarrow> go_error + asn_index" where
  "loadASNIndexFromBlocks f countries =
     (case f of
        Inl err \<Rightarrow> Inl err
      | Inr csv \<Rightarrow>
         (case csv_header csv of
            Inl err \<Rightarrow> Inl (WrapError ''read blocks header: '' err)
          | Inr header \<Rightarrow>
             (case (column header ''autonomous_system_number'', column header ''autonomous_system_organization'') of
                (Some a, Some o') \<Rightarrow>
                  Inr (index_rows_loop a o' (column header ''registered_country_geoname_id'') countries
                         Map.empty (csv_rows csv))
              | _ \<Rightarrow> Inl (PlainError ''blocks csv missing required columns''))))"

definition load_countries :: "file_system \<Rightarrow> string \<Rightarrow> country_map option" where
  "load_countries fs dbDir =
     (case loadCountryByGeoname (fs_open fs (fs_join fs dbDir cityLocationsName)) of
        Inr m \<Rightarrow> Some m | Inl _ \<Rightarrow> None)"

text \<open>A nil index is the empty map: no caller tells them apart.\<close>

definition buildASNIndex :: "file_system \<Rightarrow> string \<Rightarrow> asn_index" where
  "buildASNIndex fs dbDir =
     (if dbDir = [] then Map.empty
      else foldl (\<lambda>merged name.
             (case loadASNIndexFromBlocks (fs_open fs (fs_join fs dbDir name)) (load_countries fs dbDir) of
                Inl err \<Rightarrow> merged
              | Inr part \<Rightarrow> part ++ merged))
           Map.empty [asnBlocksIPv4Name, asnBlocksIPv6Name])"

section \<open>Network blocks\<close>

record asn_network_block =
  nb_network :: ip_net
  nb_mask_ones :: nat
  nb_info :: as_info

type_synonym block_sort =
  "(asn_network_block \<Rightarrow> asn_network_block \<Rightarrow> bool) \<Rightarrow> asn_network_block list \<Rightarrow> asn_network_block list"

definition block_of_row ::
  "nat \<Rightarrow> nat \<Rightarrow> nat option \<Rightarrow> nat option \<Rightarrow> nat option \<Rightarrow> country_map option \<Rightarrow>
   go_error + string list \<Rightarrow> asn_network_block option" where
  "block_of_row n a o' g rc countries r =
     (case r of
        Inl e \<Rightarrow> None
      | Inr row \<Rightarrow>
          if length row \<le> n \<or> length row \<le> a then None
          else if trim_space (row ! n) = [] then None
          else case parse_cidr (trim_space (row ! n)) of
            None \<Rightarrow> None
          | Some (ip, ipNet) \<Rightarrow>
             (case parse_asn (trim_space (row ! a)) of
                None \<Rightarrow> None
              | Some asn \<Rightarrow>
                 (let org = (case o' of
                        Some i \<Rightarrow> if length row > i then trim_space (row ! i) else []
                      | None \<Rightarrow> [])
                  in Some \<lparr>nb_network = ipNet, nb_mask_ones = net_ones ipNet,
                           nb_info = with_country (countryFromGeonameRow row g rc countries) (org_info asn org)\<rparr>)))"

definition longer_mask :: "asn_network_block \<Rightarrow> asn_network_block \<Rightarrow> bool" where
  "longer_mask a b \<longleftrightarrow> nb_mask_ones a > nb_mask_ones b"

definition loadASNNetworkBlocks ::
  "block_sort \<Rightarrow> (go_error + csv_file) \<Rightarrow> country_map option \<Rightarrow> go_error + asn_network_block list" where
  "loadASNNetworkBlocks srt f countries =
     (case f of
        Inl err \<Rightarrow> Inl err
      | Inr csv \<Rightarrow>
         (case csv_header csv of
            Inl err \<Rightarrow> Inl (WrapError ''read blocks header: '' err)
          | Inr header \<Rightarrow>
             (case (column header ''network'', column header ''autonomous_system_number'') of
                (Some n, Some a) \<Rightarrow>
                  Inr (srt longer_mask (List.map_filter
                    (block_of_row n a (column header ''autonomous_system_organization'')
                       (column header ''geoname_id'') (column header ''registered_country_geoname_id'') countries)
                    (csv_rows csv)))
              | _ \<Rightarrow> Inl (PlainError ''blocks csv missing required columns''))))"

definition lookupLongestASNBlockNetwork ::
  "asn_network_block list \<Rightarrow> net_ip \<Rightarrow> (as_info \<times> string) option" where
  "lookupLongestASNBlockNetwork blocks ip =
     map_option (\<lambda>b. (nb_info b, net_string (nb_network b)))
       (find (\<lambda>b. net_contains (nb_network b) ip) blocks)"

definition lookupLongestASNBlock :: "asn_network_block list \<Rightarrow> net_ip \<Rightarrow> as_info option" where
  "lookupLongestASNBlock blocks ip = map_option fst (lookupLongestASNBlockNetwork blocks ip)"

definition buildASNNetworkBlocks :: "block_sort \<Rightarrow> file_system \<Rightarrow> string \<Rightarrow> asn_network_block list" where
  "buildASNNetworkBlocks srt fs dbDir =
     (if dbDir = [] then []
      else (let merged = foldl (\<lambda>merged name.
                  (case loadASNNetworkBlocks srt (fs_open fs (fs_join fs dbDir name)) (load_countries fs dbDir) of
                     Inl err \<Rightarrow> merged
                   | Inr part \<Rightarrow> merged @ part))
                [] [asnBlocksIPv4Name, asnBlocksIPv6Name]
            in if merged = [] then [] else srt longer_mask merged))"

definition pickASNInfo :: "as_info option \<Rightarrow> as_info option \<Rightarrow> as_info option" where
  "pickASNInfo mm block =
     (case block of
        Some b \<Rightarrow> if as_asn b > 0 then Some b
                  else (case mm of Some m \<Rightarrow> if as_asn m > 0 then Some m else None | None \<Rightarrow> None)
      | None \<Rightarrow> (case mm of Some m \<Rightarrow> if as_asn m > 0 then Some m else None | None \<Rightarrow> None))"

definition mergeASInfoPreferExisting :: "as_info option \<Rightarrow> as_info option \<Rightarrow> as_info option" where
  "mergeASInfoPreferExisting base fallback =
     (case (base, fallback) of
        (None, _) \<Rightarrow> fallback
      | (_, None) \<Rightarrow> base
      | (Some b, Some f) \<Rightarrow> Some
          \<lparr>as_asn = (if as_asn b = 0 then as_asn f else as_asn b),
           as_org_name = (if trim_space (as_org_name b) = [] then as_org_name f else as_org_name b),
           as_short_name = (if trim_space (as_short_name b) = [] then as_short_name f else as_short_name b),
           as_country_code = (if trim_space (as_country_code b) = [] then as_country_code f else as_country_code b),
           as_flag_emoji = (if as_flag_emoji b = [] then as_flag_emoji f else as_flag_emoji b)\<rparr>)"

section \<open>The database\<close>

text \<open>MaxMind's readers: the ASN record is a number and an organisation, the city record is what
  the source reads of it.\<close>

record city_record =
  ct_iso :: string
  ct_country :: string
  ct_city :: string
  ct_latitude :: float64
  ct_longitude :: float64
  ct_time_zone :: string

type_synonym asn_reader = "net_ip \<Rightarrow> go_error + (u64 \<times> string) option"
type_synonym city_reader = "net_ip \<Rightarrow> go_error + city_record"
type_synonym txt_lookup = "string \<Rightarrow> go_error + string list"

record GeoIPDB =
  g_asn_db :: "asn_reader option"
  g_city_db :: "city_reader option"
  g_asn_index :: asn_index
  g_blocks :: "asn_network_block list"
  g_asn_path :: string
  g_city_path :: string
  g_enabled :: bool
  g_resolve_cache :: "string \<rightharpoonup> as_info"

definition maxResolveCacheEntries :: nat where "maxResolveCacheEntries = 4096"

definition asnIndexDir :: "file_system \<Rightarrow> string \<Rightarrow> string \<Rightarrow> string" where
  "asnIndexDir fs asnPath cityPath =
     (let dbDir = fs_dir fs asnPath in
      if dbDir = [] \<or> dbDir = ''.'' then fs_dir fs cityPath else dbDir)"

definition reloadASNAssetsLocked :: "block_sort \<Rightarrow> file_system \<Rightarrow> GeoIPDB \<Rightarrow> GeoIPDB" where
  "reloadASNAssetsLocked srt fs g =
     (let dir = asnIndexDir fs (g_asn_path g) (g_city_path g)
      in g\<lparr>g_asn_index := buildASNIndex fs dir, g_blocks := buildASNNetworkBlocks srt fs dir\<rparr>)"

text \<open>Opening the MaxMind files: \<open>open_asn\<close> and \<open>open_city\<close> are \<open>geoip2.Open\<close>.\<close>

definition New_geo ::
  "block_sort \<Rightarrow> file_system \<Rightarrow> (string \<Rightarrow> go_error + asn_reader) \<Rightarrow> (string \<Rightarrow> go_error + city_reader) \<Rightarrow>
   string \<Rightarrow> string \<Rightarrow> GeoIPDB" where
  "New_geo srt fs open_asn open_city asnPath cityPath =
     (let asn = (if asnPath \<noteq> [] then (case open_asn asnPath of Inr d \<Rightarrow> Some d | Inl _ \<Rightarrow> None) else None);
          city = (if cityPath \<noteq> [] then (case open_city cityPath of Inr d \<Rightarrow> Some d | Inl _ \<Rightarrow> None) else None)
      in reloadASNAssetsLocked srt fs
           \<lparr>g_asn_db = asn, g_city_db = city, g_asn_index = Map.empty, g_blocks = [], g_asn_path = asnPath,
            g_city_path = cityPath, g_enabled = (asn \<noteq> None \<or> city \<noteq> None), g_resolve_cache = Map.empty\<rparr>)"

text \<open>\<open>Reload\<close> reports both errors when both files fail to open, the city error wrapped; the text
  of the first is given by \<open>msg\<close>. The resolve cache is kept.\<close>

definition Reload ::
  "block_sort \<Rightarrow> file_system \<Rightarrow> (go_error \<Rightarrow> string) \<Rightarrow> (string \<Rightarrow> go_error + asn_reader) \<Rightarrow>
   (string \<Rightarrow> go_error + city_reader) \<Rightarrow> GeoIPDB \<Rightarrow> GeoIPDB \<times> go_error option" where
  "Reload srt fs msg open_asn open_city g =
     (let g0 = g\<lparr>g_asn_db := None, g_city_db := None, g_enabled := False\<rparr>;
          (g1, err1) = (if g_asn_path g0 = [] then (g0, None)
            else case open_asn (g_asn_path g0) of
                Inl err \<Rightarrow> (g0, Some (WrapError ''open ASN db: '' err))
              | Inr db \<Rightarrow> (g0\<lparr>g_asn_db := Some db, g_enabled := True\<rparr>, None));
          (g2, err2) = (if g_city_path g1 = [] then (g1, err1)
            else case open_city (g_city_path g1) of
                Inl err \<Rightarrow>
                  (let cityErr = WrapError ''open city db: '' err
                   in (g1, Some (case err1 of
                             Some e \<Rightarrow> WrapError (msg e @ ''; '') cityErr
                           | None \<Rightarrow> cityErr)))
              | Inr db \<Rightarrow> (g1\<lparr>g_city_db := Some db, g_enabled := True\<rparr>, err1))
      in (reloadASNAssetsLocked srt fs g2, err2))"

definition SetPaths :: "string \<Rightarrow> string \<Rightarrow> GeoIPDB \<Rightarrow> GeoIPDB" where
  "SetPaths asnPath cityPath g = g\<lparr>g_asn_path := asnPath, g_city_path := cityPath\<rparr>"

text \<open>The cache is emptied, not trimmed, when it is full; an unknown address is stored as the
  zero record.\<close>

definition storeResolve :: "string \<Rightarrow> as_info option \<Rightarrow> GeoIPDB \<Rightarrow> GeoIPDB" where
  "storeResolve ip info g =
     (let cache = (if card (dom (g_resolve_cache g)) \<ge> maxResolveCacheEntries then Map.empty
                   else g_resolve_cache g);
          entry = (case info of None \<Rightarrow> empty_as_info | Some i \<Rightarrow> if as_asn i = 0 then empty_as_info else i)
      in g\<lparr>g_resolve_cache := cache(ip \<mapsto> entry)\<rparr>)"

definition rememberASN :: "as_info option \<Rightarrow> GeoIPDB \<Rightarrow> GeoIPDB" where
  "rememberASN info g =
     (case info of
        None \<Rightarrow> g
      | Some i \<Rightarrow>
          if as_asn i = 0 then g
          else if g_asn_index g (as_asn i) \<noteq> None then g
          else g\<lparr>g_asn_index := (g_asn_index g)(as_asn i \<mapsto> i)\<rparr>)"

definition lookupASNFromIndex :: "GeoIPDB \<Rightarrow> u32 \<Rightarrow> as_info option" where
  "lookupASNFromIndex g asn =
     (case g_asn_index g asn of
        None \<Rightarrow> None
      | Some info \<Rightarrow>
          if as_org_name info = [] \<and> as_short_name info = [] \<and> as_country_code info = [] then None
          else Some (info\<lparr>as_asn := asn\<rparr>))"

definition applyCityRecord :: "city_reader option \<Rightarrow> net_ip \<Rightarrow> as_info \<Rightarrow> as_info \<times> bool" where
  "applyCityRecord cityDB ip info =
     (case cityDB of
        None \<Rightarrow> (info, False)
      | Some db \<Rightarrow>
         (case db ip of
            Inl err \<Rightarrow> (info, False)
          | Inr city \<Rightarrow>
              (let cc = trim_space (ct_iso city) in
               if cc = [] then (info, False)
               else (info\<lparr>as_country_code := cc, as_flag_emoji := CountryToFlag cc\<rparr>, True))))"

definition lookupMMDBFromRecord ::
  "(u64 \<times> string) option \<Rightarrow> city_reader option \<Rightarrow> net_ip \<Rightarrow> as_info option" where
  "lookupMMDBFromRecord record' cityDB ip =
     (case record' of
        None \<Rightarrow> None
      | Some (number, org) \<Rightarrow>
          if number = 0 then None
          else Some (fst (applyCityRecord cityDB ip (org_info (ucast number) org))))"

definition lookupMMDB :: "asn_reader \<Rightarrow> city_reader option \<Rightarrow> net_ip \<Rightarrow> as_info option" where
  "lookupMMDB asnDB cityDB ip =
     (case asnDB ip of
        Inl err \<Rightarrow> None
      | Inr record' \<Rightarrow> lookupMMDBFromRecord record' cityDB ip)"

definition enrichASInfo :: "GeoIPDB \<Rightarrow> net_ip \<Rightarrow> as_info option \<Rightarrow> as_info option \<times> bool" where
  "enrichASInfo g parsed info =
     (case info of
        None \<Rightarrow> (None, False)
      | Some i \<Rightarrow>
          if as_asn i = 0 then (info, False)
          else (let out = fst (applyCityRecord (g_city_db g) parsed i) in
                if trim_space (as_org_name out) = [] \<and> trim_space (as_short_name out) = [] then
                  (case lookupASNFromIndex g (as_asn out) of
                     Some idx \<Rightarrow> (mergeASInfoPreferExisting (Some out) (Some idx), True)
                   | None \<Rightarrow> (Some out, False))
                else (Some out, False)))"

section \<open>The DNS zone\<close>

text \<open>\<open>fmt.Sscanf(s, "%d", &asn)\<close> into a \<open>uint32\<close>: the leading digits, 0 when there are none or the
  number does not fit.\<close>

definition scan_u32 :: "string \<Rightarrow> u32" where
  "scan_u32 s = (case parse_uint 32 (takeWhile is_digit s) of NumOk n \<Rightarrow> of_nat n | _ \<Rightarrow> 0)"

definition asn_query :: "u32 \<Rightarrow> string" where
  "asn_query asn = ''AS'' @ format_uint asn @ ''.asn.cymru.com''"

definition with_flag :: "string \<Rightarrow> as_info \<Rightarrow> as_info" where
  "with_flag country info = info\<lparr>as_country_code := country, as_flag_emoji := CountryToFlag country\<rparr>"

definition with_org :: "string \<Rightarrow> as_info \<Rightarrow> as_info" where
  "with_org org info =
     (if org \<noteq> [] then info\<lparr>as_org_name := org, as_short_name := shortenOrgName org\<rparr> else info)"

definition resolveDNS :: "txt_lookup \<Rightarrow> net_ip \<Rightarrow> string \<Rightarrow> go_error + as_info" where
  "resolveDNS txt parsed ip =
     (if to4 parsed = None then Inr empty_as_info
      else (let parts = split_char (CHR ''.'') ip in
        if length parts \<noteq> 4 then Inr empty_as_info
        else case txt (parts ! 3 @ ''.'' @ parts ! 2 @ ''.'' @ parts ! 1 @ ''.'' @ parts ! 0 @
                       ''.origin.asn.cymru.com'') of
            Inl err \<Rightarrow> Inl err
          | Inr [] \<Rightarrow> Inr empty_as_info
          | Inr (r # _) \<Rightarrow>
              (let fields = split_str '' | '' r;
                   info1 = empty_as_info\<lparr>as_asn := scan_u32 (trim_space (fields ! 0))\<rparr>;
                   info2 = (if length fields \<ge> 3 then with_flag (trim_space (fields ! 2)) info1 else info1);
                   info3 = (if as_asn info2 > 0
                            then (case txt (asn_query (as_asn info2)) of
                                Inr (rec' # _) \<Rightarrow>
                                  (let (country, org) = parseCymruASNRecord rec'
                                   in with_org org (if country \<noteq> [] then with_flag country info2 else info2))
                              | _ \<Rightarrow> info2)
                            else info2)
               in if as_asn info3 = 0 then Inr empty_as_info else Inr info3)))"

text \<open>The record comes back with an error too; callers use it.\<close>

definition lookupASByNumberDNS :: "txt_lookup \<Rightarrow> u32 \<Rightarrow> as_info \<times> go_error option" where
  "lookupASByNumberDNS txt asn =
     (let info = empty_as_info\<lparr>as_asn := asn\<rparr> in
      case txt (asn_query asn) of
        Inl err \<Rightarrow> (info, Some err)
      | Inr [] \<Rightarrow> (info, None)
      | Inr (r # _) \<Rightarrow>
          (let (country0, org) = parseCymruASNRecord r;
               country = (if country0 = [] then countryFromOrgSuffix org else country0)
           in (with_org org (if country \<noteq> [] then with_flag country info else info), None)))"

definition mergeASByNumberDNS :: "txt_lookup \<Rightarrow> as_info \<Rightarrow> as_info" where
  "mergeASByNumberDNS txt info =
     (if as_asn info = 0 then info
      else case lookupASByNumberDNS txt (as_asn info) of
        (_, Some err) \<Rightarrow> info
      | (dnsInfo, None) \<Rightarrow>
          (let info1 = (if as_country_code dnsInfo \<noteq> []
                        then info\<lparr>as_country_code := as_country_code dnsInfo,
                                  as_flag_emoji := as_flag_emoji dnsInfo\<rparr> else info)
           in if as_org_name info1 = [] \<and> as_org_name dnsInfo \<noteq> []
              then info1\<lparr>as_org_name := as_org_name dnsInfo, as_short_name := as_short_name dnsInfo\<rparr>
              else info1))"

definition LookupASByNumber :: "txt_lookup \<Rightarrow> GeoIPDB \<Rightarrow> u32 \<Rightarrow> as_info \<times> go_error option" where
  "LookupASByNumber txt g asn =
     (if asn = 0 then (empty_as_info, None)
      else case lookupASNFromIndex g asn of
        Some info \<Rightarrow>
          if as_org_name info \<noteq> [] \<and> as_country_code info \<noteq> [] then (info, None)
          else (mergeASByNumberDNS txt info, None)
      | None \<Rightarrow> lookupASByNumberDNS txt asn)"

section \<open>Resolving an address\<close>

definition ResolveASN ::
  "txt_lookup \<Rightarrow> GeoIPDB \<Rightarrow> string \<Rightarrow> (go_error + as_info option) \<times> GeoIPDB" where
  "ResolveASN txt g ip =
     (case parse_ip ip of
        None \<Rightarrow> (Inl (PlainError (''invalid IP: '' @ ip)), g)
      | Some parsed \<Rightarrow>
         (case g_resolve_cache g ip of
            Some cached \<Rightarrow> (Inr (if as_asn cached = 0 then None else Some cached), g)
          | None \<Rightarrow>
             (let mm = (case g_asn_db g of Some db \<Rightarrow> lookupMMDB db (g_city_db g) parsed | None \<Rightarrow> None)
              in case pickASNInfo mm (lookupLongestASNBlock (g_blocks g) parsed) of
                Some info \<Rightarrow>
                  (let enriched = fst (enrichASInfo g parsed (Some info))
                   in (Inr enriched, storeResolve ip enriched (rememberASN enriched g)))
              | None \<Rightarrow>
                  (case resolveDNS txt parsed ip of
                     Inl err \<Rightarrow> (Inl err, storeResolve ip None g)
                   | Inr dnsInfo \<Rightarrow>
                       if as_asn dnsInfo = 0 then (Inr (Some dnsInfo), storeResolve ip None g)
                       else (let i = fst (applyCityRecord (g_city_db g) parsed dnsInfo)
                             in (Inr (Some i), storeResolve ip (Some i) (rememberASN (Some i) g)))))))"

definition LookupCity :: "GeoIPDB \<Rightarrow> string \<Rightarrow> go_error + (city_record \<times> string)" where
  "LookupCity g ip =
     (case parse_ip ip of
        None \<Rightarrow> Inl (PlainError (''invalid IP: '' @ ip))
      | Some parsed \<Rightarrow>
         (case g_city_db g of
            None \<Rightarrow> Inl (PlainError ''city database not loaded'')
          | Some db \<Rightarrow>
             (case db parsed of
                Inl err \<Rightarrow> Inl err
              | Inr r \<Rightarrow> Inr (r, CountryToFlag (ct_iso r)))))"

section \<open>The report of the admin panel\<close>

datatype resolve_source = SourceNone | SourceBlocks | SourceMMDB | SourceDNS

record source_candidate =
  sc_available :: bool
  sc_matched :: bool
  sc_network :: string
  sc_info :: "as_info option"
  sc_error :: "go_error option"

record ip_lookup_report =
  lr_ip :: string
  lr_chosen_source :: resolve_source
  lr_result :: "as_info option"
  lr_blocks :: source_candidate
  lr_mmdb :: source_candidate
  lr_dns :: source_candidate
  lr_city :: "(city_record \<times> string) option"
  lr_index_enriched :: bool
  lr_blocks_csv_count :: nat
  lr_asn_db_path :: string
  lr_city_db_path :: string

definition inferChosenSource :: "bool \<Rightarrow> bool \<Rightarrow> bool \<Rightarrow> resolve_source" where
  "inferChosenSource blockOk mmOk dnsMatched =
     (if blockOk then SourceBlocks else if mmOk then SourceMMDB
      else if dnsMatched then SourceDNS else SourceNone)"

definition chosenSource ::
  "bool \<Rightarrow> bool \<Rightarrow> as_info option \<Rightarrow> as_info option \<Rightarrow> as_info option \<Rightarrow> resolve_source" where
  "chosenSource blockOk mmOk picked block mm =
     (case picked of
        None \<Rightarrow> SourceNone
      | Some p \<Rightarrow>
          if as_asn p = 0 then SourceNone
          else if blockOk \<and> (case block of Some b \<Rightarrow> as_asn p = as_asn b | None \<Rightarrow> False) then SourceBlocks
          else if mmOk \<and> (case mm of Some m \<Rightarrow> as_asn p = as_asn m | None \<Rightarrow> False) then SourceMMDB
          else inferChosenSource blockOk mmOk False)"

definition blocks_candidate :: "GeoIPDB \<Rightarrow> net_ip \<Rightarrow> source_candidate" where
  "blocks_candidate g parsed =
     (let found = lookupLongestASNBlockNetwork (g_blocks g) parsed
      in \<lparr>sc_available = (g_blocks g \<noteq> []), sc_matched = (found \<noteq> None),
          sc_network = (case found of Some (_, n) \<Rightarrow> n | None \<Rightarrow> []),
          sc_info = map_option fst found, sc_error = None\<rparr>)"

definition mmdb_candidate :: "GeoIPDB \<Rightarrow> net_ip \<Rightarrow> source_candidate" where
  "mmdb_candidate g parsed =
     (let none = \<lparr>sc_available = (g_asn_db g \<noteq> None), sc_matched = False, sc_network = [],
                  sc_info = None, sc_error = None\<rparr>
      in case g_asn_db g of
           None \<Rightarrow> none
         | Some db \<Rightarrow>
            (case db parsed of
               Inl err \<Rightarrow> none\<lparr>sc_error := Some err\<rparr>
             | Inr record' \<Rightarrow>
                (case lookupMMDBFromRecord record' (g_city_db g) parsed of
                   Some mm \<Rightarrow> if as_asn mm > 0 then none\<lparr>sc_matched := True, sc_info := Some mm\<rparr> else none
                 | None \<Rightarrow> none)))"

definition dns_candidate :: "txt_lookup \<Rightarrow> net_ip \<Rightarrow> source_candidate" where
  "dns_candidate txt parsed =
     (let none = \<lparr>sc_available = (to4 parsed \<noteq> None), sc_matched = False, sc_network = [],
                  sc_info = None, sc_error = None\<rparr>
      in case resolveDNS txt parsed (ip_string parsed) of
           Inl err \<Rightarrow> none\<lparr>sc_error := Some err\<rparr>
         | Inr info \<Rightarrow> if as_asn info > 0 then none\<lparr>sc_matched := True, sc_info := Some info\<rparr> else none)"

definition candidate_ok :: "source_candidate \<Rightarrow> bool" where
  "candidate_ok c \<longleftrightarrow> sc_matched c \<and> (case sc_info c of Some i \<Rightarrow> as_asn i > 0 | None \<Rightarrow> False)"

definition LookupIP :: "txt_lookup \<Rightarrow> GeoIPDB \<Rightarrow> string \<Rightarrow> go_error + ip_lookup_report" where
  "LookupIP txt g ip =
     (case parse_ip (trim_space ip) of
        None \<Rightarrow> Inl (PlainError (''invalid IP: '' @ ip))
      | Some parsed \<Rightarrow>
          (let blocks = blocks_candidate g parsed;
               mmdb = mmdb_candidate g parsed;
               dns = dns_candidate txt parsed;
               blockOk = candidate_ok blocks;
               mmOk = candidate_ok mmdb;
               picked0 = pickASNInfo (if mmOk then sc_info mmdb else None)
                                     (if blockOk then sc_info blocks else None);
               (picked, source) =
                 (if picked0 = None \<and> sc_matched dns \<and> sc_info dns \<noteq> None
                  then (map_option (\<lambda>i. fst (applyCityRecord (g_city_db g) parsed i)) (sc_info dns), SourceDNS)
                  else case picked0 of
                    Some p \<Rightarrow>
                      if as_asn p > 0 then
                        (let cs = chosenSource blockOk mmOk picked0 (sc_info blocks) (sc_info mmdb)
                         in (picked0, if cs = SourceNone then inferChosenSource blockOk mmOk False else cs))
                      else (picked0, SourceNone)
                  | None \<Rightarrow> (picked0, SourceNone));
               (result, enriched) =
                 (case picked of
                    Some p \<Rightarrow> if as_asn p > 0 then enrichASInfo g parsed picked else (None, False)
                  | None \<Rightarrow> (None, False))
           in Inr \<lparr>lr_ip = ip_string parsed, lr_chosen_source = source, lr_result = result,
                   lr_blocks = blocks, lr_mmdb = mmdb, lr_dns = dns,
                   lr_city = (if g_city_db g = None then None
                              else case LookupCity g (ip_string parsed) of
                                Inr c \<Rightarrow> Some c | Inl _ \<Rightarrow> None),
                   lr_index_enriched = enriched, lr_blocks_csv_count = length (g_blocks g),
                   lr_asn_db_path = g_asn_path g, lr_city_db_path = g_city_path g\<rparr>))"

section \<open>Longest-prefix match\<close>

lemma strict_weak_longer_mask: "strict_weak longer_mask"
  by (auto simp: strict_weak_def longer_mask_def)

lemma find_sorted_max:
  assumes "sorted_wrt (\<lambda>x y. \<not> longer_mask y x) blocks" and "find P blocks = Some b"
  shows "b \<in> set blocks \<and> P b \<and> (\<forall>c \<in> set blocks. P c \<longrightarrow> nb_mask_ones c \<le> nb_mask_ones b)"
  using assms
  by (induction blocks) (auto simp: longer_mask_def split: if_splits)

lemma find_longest:
  assumes "slice_sorter srt"
  shows "case find P (srt longer_mask xs) of
      None \<Rightarrow> \<forall>c \<in> set xs. \<not> P c
    | Some b \<Rightarrow> b \<in> set xs \<and> P b \<and> (\<forall>c \<in> set xs. P c \<longrightarrow> nb_mask_ones c \<le> nb_mask_ones b)"
proof (cases "find P (srt longer_mask xs)")
  case None
  show ?thesis
    unfolding None option.case
    using None[unfolded find_None_iff] slice_sorter.srt_set[OF assms, of longer_mask xs] by auto
next
  case (Some b)
  then show ?thesis
    using find_sorted_max[OF slice_sorter.ordered[OF assms strict_weak_longer_mask] Some]
      slice_sorter.srt_set[OF assms, of longer_mask xs] by simp
qed

lemma buildASNNetworkBlocks_sorted:
  "\<exists>xs. buildASNNetworkBlocks srt fs dbDir = [] \<or> buildASNNetworkBlocks srt fs dbDir = srt longer_mask xs"
  by (simp add: buildASNNetworkBlocks_def Let_def) blast

text \<open>C36: with the blocks the loader builds from the two CSV files, an address resolves to the block
  with the longest mask among all loaded blocks that contain it, and to nothing only when no block
  contains it.\<close>

theorem lookupLongestASNBlock_longest:
  assumes "slice_sorter srt"
  shows "let blocks = buildASNNetworkBlocks srt fs dbDir in case lookupLongestASNBlock blocks ip of
      None \<Rightarrow> \<forall>c \<in> set blocks. \<not> net_contains (nb_network c) ip
    | Some info \<Rightarrow> \<exists>b \<in> set blocks. nb_info b = info \<and> net_contains (nb_network b) ip \<and>
        (\<forall>c \<in> set blocks. net_contains (nb_network c) ip \<longrightarrow> nb_mask_ones c \<le> nb_mask_ones b)"
proof -
  define blocks where "blocks = buildASNNetworkBlocks srt fs dbDir"
  obtain xs where xs: "blocks = [] \<or> blocks = srt longer_mask xs"
    using buildASNNetworkBlocks_sorted unfolding blocks_def by blast
  have "case lookupLongestASNBlock blocks ip of
      None \<Rightarrow> \<forall>c \<in> set blocks. \<not> net_contains (nb_network c) ip
    | Some info \<Rightarrow> \<exists>b \<in> set blocks. nb_info b = info \<and> net_contains (nb_network b) ip \<and>
        (\<forall>c \<in> set blocks. net_contains (nb_network c) ip \<longrightarrow> nb_mask_ones c \<le> nb_mask_ones b)"
    using xs
  proof
    assume eq: "blocks = srt longer_mask xs"
    have "set blocks = set xs" by (simp add: eq slice_sorter.srt_set[OF assms(1)])
    then show ?thesis
      using find_longest[OF assms(1), where P = "\<lambda>b. net_contains (nb_network b) ip" and xs = xs]
      unfolding lookupLongestASNBlock_def lookupLongestASNBlockNetwork_def eq
      by (auto split: option.splits)
  qed (simp add: lookupLongestASNBlock_def lookupLongestASNBlockNetwork_def)
  then show ?thesis by (simp only: Let_def blocks_def)
qed

definition example_fs :: file_system where
  "example_fs =
     \<lparr>fs_open = (\<lambda>name. if name = ''d/GeoLite2-ASN-Blocks-IPv4.csv''
        then Inr \<lparr>csv_header = Inr [''network'', ''autonomous_system_number''],
                  csv_rows = [Inr [''8.0.0.0/8'', ''3356''], Inr [''8.8.8.0/24'', ''15169'']]\<rparr>
        else Inl (PlainError ''no such file'')),
      fs_join = (\<lambda>d n. d @ ''/'' @ n), fs_dir = (\<lambda>_. ''d'')\<rparr>"

lemma example_blocks:
  "map (\<lambda>b. (nb_mask_ones b, as_asn (nb_info b))) (buildASNNetworkBlocks slice_insertion_sort example_fs ''d'')
   = [(24, 15169), (8, 3356)]"
  by code_simp

lemma lookupLongestASNBlock_longest_witness:
  "case lookupLongestASNBlock (buildASNNetworkBlocks slice_insertion_sort example_fs ''d'') (ipv4_mapped 8 8 8 8) of
     None \<Rightarrow> False | Some info \<Rightarrow> as_asn info = 15169"
proof -
  let ?b = "buildASNNetworkBlocks slice_insertion_sort example_fs ''d''"
  obtain b c where bc: "?b = [b, c]" "nb_mask_ones b = 24" "as_asn (nb_info b) = 15169" "nb_mask_ones c = 8"
    using example_blocks by (auto simp: map_eq_Cons_conv)
  have "list_ex (\<lambda>b. net_contains (nb_network b) (ipv4_mapped 8 8 8 8) \<and> nb_mask_ones b = 24) ?b" by code_simp
  then have "net_contains (nb_network b) (ipv4_mapped 8 8 8 8)" using bc by auto
  then show ?thesis
    using lookupLongestASNBlock_longest[OF gs.slice_sorter_axioms, of example_fs "''d''" "ipv4_mapped 8 8 8 8"] bc
    by (auto simp: Let_def split: option.splits)
qed

section \<open>The caches\<close>

definition geo_inv :: "GeoIPDB \<Rightarrow> bool" where
  "geo_inv g \<longleftrightarrow>
     finite (dom (g_resolve_cache g)) \<and> card (dom (g_resolve_cache g)) \<le> maxResolveCacheEntries \<and>
     (\<forall>ip \<in> dom (g_resolve_cache g). parse_ip ip \<noteq> None) \<and>
     (\<forall>asn i. g_asn_index g asn = Some i \<longrightarrow> as_asn i = asn)"

lemma geo_inv_storeResolve:
  assumes "geo_inv g" and "parse_ip ip \<noteq> None"
  shows "geo_inv (storeResolve ip info g)"
proof -
  let ?c = "if card (dom (g_resolve_cache g)) \<ge> maxResolveCacheEntries then Map.empty else g_resolve_cache g"
  have fin: "finite (dom ?c)" and room: "card (dom ?c) < maxResolveCacheEntries"
    and ips: "\<forall>a \<in> dom ?c. parse_ip a \<noteq> None"
    using assms(1) by (auto simp: geo_inv_def maxResolveCacheEntries_def)
  have "card (dom (?c(ip \<mapsto> e))) \<le> maxResolveCacheEntries" for e
    using room card_insert_le_m1[of maxResolveCacheEntries "dom ?c" ip]
    by (simp add: maxResolveCacheEntries_def)
  with fin ips assms show ?thesis
    by (auto simp: geo_inv_def storeResolve_def Let_def)
qed

lemma geo_inv_rememberASN: "geo_inv g \<Longrightarrow> geo_inv (rememberASN info g)"
  by (auto simp: geo_inv_def rememberASN_def split: option.split)

lemma resolve_cache_rememberASN [simp]: "g_resolve_cache (rememberASN info g) = g_resolve_cache g"
  by (simp add: rememberASN_def split: option.split)

lemma storeResolve_lookup:
  "g_resolve_cache (storeResolve ip info g) ip =
     Some (case info of None \<Rightarrow> empty_as_info | Some i \<Rightarrow> if as_asn i = 0 then empty_as_info else i)"
  by (simp add: storeResolve_def Let_def)

text \<open>the cache of resolved addresses never holds more than 4096 entries and only addresses, and
  the index by AS number stays keyed by the AS numbers of its records. Once an address has been
  looked up, asking again gives the same AS without touching the databases or DNS, whatever these
  have become, and leaves the database as it is.\<close>

theorem ResolveASN_cached:
  assumes "geo_inv g" and "ResolveASN txt g ip = (res, g')"
  shows "geo_inv g' \<and>
    (\<forall>info. res = Inr (Some info) \<and> as_asn info \<noteq> 0 \<longrightarrow>
       ResolveASN txt' (g'\<lparr>g_asn_db := asn_db, g_city_db := city_db, g_blocks := blocks\<rparr>) ip =
         (Inr (Some info), g'\<lparr>g_asn_db := asn_db, g_city_db := city_db, g_blocks := blocks\<rparr>))"
proof (cases "parse_ip ip")
  case None
  then show ?thesis using assms by (auto simp: ResolveASN_def)
next
  case (Some parsed)
  have inv: "geo_inv g'"
    using assms Some
    by (auto simp: ResolveASN_def Let_def split: option.splits sum.splits if_splits
        intro!: geo_inv_storeResolve geo_inv_rememberASN)
  have "g_resolve_cache g' ip = Some info" if "res = Inr (Some info)" "as_asn info \<noteq> 0" for info
    using assms(2) that Some
    by (auto simp: ResolveASN_def Let_def storeResolve_lookup split: option.splits sum.splits if_splits)
  then show ?thesis using inv Some by (auto simp: ResolveASN_def)
qed

definition empty_geo :: GeoIPDB where
  "empty_geo =
     \<lparr>g_asn_db = None, g_city_db = None, g_asn_index = Map.empty, g_blocks = [], g_asn_path = [],
      g_city_path = [], g_enabled = False, g_resolve_cache = Map.empty\<rparr>"

definition example_block :: asn_network_block where
  "example_block =
     \<lparr>nb_network = \<lparr>net_addr = [8, 0, 0, 0], net_ones = 8, net_bits = 32\<rparr>, nb_mask_ones = 8,
      nb_info = org_info 3356 ''LEVEL3''\<rparr>"

lemma example_resolve:
  "map_sum id (map_option as_asn) (fst (ResolveASN txt (empty_geo\<lparr>g_blocks := [example_block]\<rparr>) ''8.8.8.8''))
   = Inr (Some 3356)"
proof -
  have "parse_ip ''8.8.8.8'' = Some (ipv4_mapped 8 8 8 8)" by code_simp
  moreover have "lookupLongestASNBlock [example_block] (ipv4_mapped 8 8 8 8) = Some (org_info 3356 ''LEVEL3'')"
    by code_simp
  moreover have "trim_space (as_org_name (org_info 3356 ''LEVEL3'')) \<noteq> []" by code_simp
  ultimately show ?thesis
    by (simp add: ResolveASN_def empty_geo_def pickASNInfo_def enrichASInfo_def applyCityRecord_def
        Let_def org_info_def empty_as_info_def)
qed

lemma ResolveASN_cached_witness:
  "fst (ResolveASN (\<lambda>_. Inl CtxCanceled)
     ((snd (ResolveASN (\<lambda>_. Inr []) (empty_geo\<lparr>g_blocks := [example_block]\<rparr>) ''8.8.8.8''))
        \<lparr>g_asn_db := None, g_city_db := None, g_blocks := []\<rparr>)
     ''8.8.8.8'') = fst (ResolveASN (\<lambda>_. Inr []) (empty_geo\<lparr>g_blocks := [example_block]\<rparr>) ''8.8.8.8'')"
proof -
  let ?g = "empty_geo\<lparr>g_blocks := [example_block]\<rparr>"
  have inv: "geo_inv ?g" by (simp add: geo_inv_def empty_geo_def)
  obtain i where i: "fst (ResolveASN (\<lambda>_. Inr []) ?g ''8.8.8.8'') = Inr (Some i)" "as_asn i = 3356"
    using example_resolve[of "\<lambda>_. Inr []"]
    by (cases "fst (ResolveASN (\<lambda>_. Inr []) ?g ''8.8.8.8'')") auto
  have "ResolveASN (\<lambda>_. Inr []) ?g ''8.8.8.8'' =
      (Inr (Some i), snd (ResolveASN (\<lambda>_. Inr []) ?g ''8.8.8.8''))"
    using i(1) by (metis prod.collapse)
  from ResolveASN_cached[OF inv this, where txt' = "\<lambda>_. Inl CtxCanceled" and asn_db = None and city_db = None and blocks = "[]"] i
  show ?thesis by simp
qed

section \<open>The report and the lookup\<close>

lemma pick_candidates:
  "pickASNInfo (if candidate_ok (mmdb_candidate g parsed) then sc_info (mmdb_candidate g parsed) else None)
     (if candidate_ok (blocks_candidate g parsed) then sc_info (blocks_candidate g parsed) else None) =
   pickASNInfo (case g_asn_db g of Some db \<Rightarrow> lookupMMDB db (g_city_db g) parsed | None \<Rightarrow> None)
     (lookupLongestASNBlock (g_blocks g) parsed)"
  by (auto simp: pickASNInfo_def candidate_ok_def mmdb_candidate_def blocks_candidate_def
      lookupMMDB_def lookupLongestASNBlock_def Let_def split: option.splits sum.splits)

lemma pickASNInfo_pos: "pickASNInfo mm block = Some p \<Longrightarrow> as_asn p > 0"
  by (auto simp: pickASNInfo_def split: option.splits if_splits)

text \<open>for an address the blocks or the MaxMind database know, the report of the admin panel
  shows the AS that an uncached lookup of the engine returns, and names the blocks as its source
  whenever a block matched.\<close>

theorem LookupIP_agrees:
  assumes "parse_ip ip = Some parsed" and "trim_space ip = ip" and "g_resolve_cache g ip = None"
    and "pickASNInfo (case g_asn_db g of Some db \<Rightarrow> lookupMMDB db (g_city_db g) parsed | None \<Rightarrow> None)
      (lookupLongestASNBlock (g_blocks g) parsed) = Some p"
  shows "\<exists>report. LookupIP txt g ip = Inr report \<and>
    fst (ResolveASN txt g ip) = Inr (lr_result report) \<and>
    lr_chosen_source report \<noteq> SourceNone \<and>
    (candidate_ok (blocks_candidate g parsed) \<longrightarrow> lr_chosen_source report = SourceBlocks)"
proof -
  let ?b = "blocks_candidate g parsed" and ?m = "mmdb_candidate g parsed"
  have pick: "pickASNInfo (if candidate_ok ?m then sc_info ?m else None)
      (if candidate_ok ?b then sc_info ?b else None) = Some p"
    using assms(4) by (simp only: pick_candidates)
  have pos: "as_asn p > 0" by (rule pickASNInfo_pos[OF assms(4)])
  have src: "candidate_ok ?b \<or> candidate_ok ?m"
    "candidate_ok ?b \<Longrightarrow> sc_info ?b = Some p"
    "\<not> candidate_ok ?b \<Longrightarrow> sc_info ?m = Some p"
    using pick by (auto simp: pickASNInfo_def candidate_ok_def split: option.splits if_splits)
  have cs: "chosenSource (candidate_ok ?b) (candidate_ok ?m) (Some p) (sc_info ?b) (sc_info ?m) =
      (if candidate_ok ?b then SourceBlocks else SourceMMDB)"
    using src pos by (auto simp: chosenSource_def)
  have "fst (ResolveASN txt g ip) = Inr (fst (enrichASInfo g parsed (Some p)))"
    using assms by (simp add: ResolveASN_def Let_def)
  then show ?thesis
    using assms(1,2) pick cs pos
    by (simp add: LookupIP_def Let_def split_beta)
qed

text \<open>When only DNS knows the address the report is enriched from the index by AS number and the
  lookup is not.\<close>

definition dns_only :: txt_lookup where
  "dns_only name =
     (if name = ''2.0.0.192.origin.asn.cymru.com'' then Inr [''64500 | 192.0.0.0/24''] else Inr [])"

lemma LookupIP_differs_on_DNS:
  "\<exists>report info. LookupIP dns_only
       (empty_geo\<lparr>g_asn_index := [64500 \<mapsto> org_info 64500 ''Example'']\<rparr>) ''192.0.0.2'' = Inr report \<and>
     fst (ResolveASN dns_only
       (empty_geo\<lparr>g_asn_index := [64500 \<mapsto> org_info 64500 ''Example'']\<rparr>) ''192.0.0.2'') = Inr (Some info) \<and>
     lr_result report = Some (info\<lparr>as_org_name := ''Example'', as_short_name := ''Example''\<rparr>) \<and>
     as_org_name info = []"
proof -
  let ?g = "empty_geo\<lparr>g_asn_index := [64500 \<mapsto> org_info 64500 ''Example'']\<rparr>"
  let ?info = "empty_as_info\<lparr>as_asn := 64500\<rparr>"
  have p: "parse_ip ''192.0.0.2'' = Some (ipv4_mapped 192 0 0 2)" by code_simp
  have t: "trim_space ''192.0.0.2'' = ''192.0.0.2''" by code_simp
  have s: "ip_string (ipv4_mapped 192 0 0 2) = ''192.0.0.2''" by code_simp
  have d: "resolveDNS dns_only (ipv4_mapped 192 0 0 2) ''192.0.0.2'' = Inr ?info" by code_simp
  have o: "org_info 64500 ''Example'' =
      empty_as_info\<lparr>as_asn := 64500, as_org_name := ''Example'', as_short_name := ''Example''\<rparr>" by code_simp
  have b: "trim_space [] = []" by code_simp
  have "fst (ResolveASN dns_only ?g ''192.0.0.2'') = Inr (Some ?info)"
    by (simp add: ResolveASN_def p d empty_geo_def pickASNInfo_def lookupLongestASNBlock_def
        lookupLongestASNBlockNetwork_def applyCityRecord_def Let_def)
  moreover have "\<exists>r. LookupIP dns_only ?g ''192.0.0.2'' = Inr r \<and>
      lr_result r = Some (?info\<lparr>as_org_name := ''Example'', as_short_name := ''Example''\<rparr>)"
    by (simp add: LookupIP_def p t s d o b empty_geo_def blocks_candidate_def mmdb_candidate_def dns_candidate_def
        candidate_ok_def pickASNInfo_def lookupLongestASNBlockNetwork_def applyCityRecord_def enrichASInfo_def
        lookupASNFromIndex_def mergeASInfoPreferExisting_def empty_as_info_def Let_def)
  ultimately show ?thesis by (auto simp: empty_as_info_def)
qed

lemma LookupIP_agrees_witness:
  "\<exists>report. LookupIP (\<lambda>_. Inr []) (empty_geo\<lparr>g_blocks := [example_block]\<rparr>) ''8.8.8.8'' = Inr report \<and>
     lr_chosen_source report \<noteq> SourceNone"
proof -
  have p: "parse_ip ''8.8.8.8'' = Some (ipv4_mapped 8 8 8 8)" by code_simp
  have t: "trim_space ''8.8.8.8'' = ''8.8.8.8''" by code_simp
  have l: "lookupLongestASNBlock [example_block] (ipv4_mapped 8 8 8 8) = Some (org_info 3356 ''LEVEL3'')"
    by code_simp
  show ?thesis
    using LookupIP_agrees[OF p t, of "empty_geo\<lparr>g_blocks := [example_block]\<rparr>" "org_info 3356 ''LEVEL3''"
        "\<lambda>_. Inr []"] l
    by (auto simp: empty_geo_def pickASNInfo_def org_info_def empty_as_info_def)
qed

end
