(* ===== verification/Go_Duration.thy ===== *)
theory Go_Duration
  imports Go_Text
begin

text \<open>
  \<open>time.ParseDuration\<close>. The value of a fraction such as \<open>.5h\<close> is computed in floating point
  by the library; that computation is the argument \<open>ff\<close> (digits, unit, number of digits). The
  error values leave out the quoted input that the library appends to its messages.
\<close>

fun leading_int :: "nat \<Rightarrow> string \<Rightarrow> (nat \<times> string) option" where
  "leading_int x [] = Some (x, [])"
| "leading_int x (c # s) =
     (if \<not> is_digit c then Some (x, c # s)
      else if x > 2 ^ 63 div 10 then None
      else if x * 10 + digit_val c > 2 ^ 63 then None
      else leading_int (x * 10 + digit_val c) s)"

fun leading_fraction :: "nat \<Rightarrow> nat \<Rightarrow> bool \<Rightarrow> string \<Rightarrow> nat \<times> nat \<times> string" where
  "leading_fraction x k overflow [] = (x, k, [])"
| "leading_fraction x k overflow (c # s) =
     (if \<not> is_digit c then (x, k, c # s)
      else if overflow \<or> x > (2 ^ 63 - 1) div 10 \<or> x * 10 + digit_val c > 2 ^ 63
      then leading_fraction x k True s
      else leading_fraction (x * 10 + digit_val c) (Suc k) False s)"

lemma leading_int_length: "leading_int x s = Some (v, t) \<Longrightarrow> length t \<le> length s"
  by (induction x s rule: leading_int.induct) (auto split: if_splits)

lemma leading_fraction_length: "leading_fraction x k ov s = (f, k', t) \<Longrightarrow> length t \<le> length s"
  by (induction x k ov s rule: leading_fraction.induct) (auto split: if_splits)

definition duration_units :: "(string \<times> nat) list" where
  "duration_units =
     [(''ns'', 1), (''us'', 10 ^ 3), ([CHR 0xC2, CHR 0xB5, CHR ''s''], 10 ^ 3),
      ([CHR 0xCE, CHR 0xBC, CHR ''s''], 10 ^ 3), (''ms'', 10 ^ 6), (''s'', 10 ^ 9),
      (''m'', 60 * 10 ^ 9), (''h'', 3600 * 10 ^ 9)]"

definition number_start :: "char \<Rightarrow> bool" where
  "number_start c \<longleftrightarrow> c = CHR ''.'' \<or> is_digit c"

text \<open>The fraction after the integer part: its digits, their number, the rest, and whether there
  was a digit at all.\<close>

definition fraction_part :: "string \<Rightarrow> nat \<times> nat \<times> string \<times> bool" where
  "fraction_part s =
     (if s \<noteq> [] \<and> hd s = CHR ''.''
      then (case leading_fraction 0 0 False (tl s) of
              (f, k, t) \<Rightarrow> (f, k, t, length (tl s) \<noteq> length t))
      else (0, 0, s, False))"

definition duration_term ::
  "(nat \<Rightarrow> nat \<Rightarrow> nat \<Rightarrow> nat) \<Rightarrow> string \<Rightarrow> (nat \<times> string) option" where
  "duration_term ff s =
     (if \<not> number_start (hd s) then None
      else case leading_int 0 s of
        None \<Rightarrow> None
      | Some (v, s1) \<Rightarrow>
         (case fraction_part s1 of
            (f, k, s2, post) \<Rightarrow>
              if length s = length s1 \<and> \<not> post then None
              else (let u = takeWhile (\<lambda>c. \<not> number_start c) s2 in
                if u = [] then None
                else case map_of duration_units u of
                  None \<Rightarrow> None
                | Some unit \<Rightarrow>
                    if v > 2 ^ 63 div unit then None
                    else if f > 0 \<and> (v * unit + ff f unit k) mod 2 ^ 64 > 2 ^ 63 then None
                    else Some (if f > 0 then (v * unit + ff f unit k) mod 2 ^ 64 else v * unit,
                               drop (length u) s2))))"

lemma duration_term_length: "s \<noteq> [] \<Longrightarrow> duration_term ff s = Some (v, t) \<Longrightarrow> length t < length s"
proof -
  assume r: "duration_term ff s = Some (v, t)"
  obtain w s1 where i: "leading_int 0 s = Some (w, s1)"
    using r by (auto simp: duration_term_def split: if_splits option.splits)
  obtain f k s2 post where fr: "fraction_part s1 = (f, k, s2, post)" by (cases "fraction_part s1") auto
  have "length s2 \<le> length s1"
    using fr leading_fraction_length[of 0 0 False "tl s1"]
    by (auto simp: fraction_part_def split: if_splits prod.splits)
  moreover have "t = drop (length (takeWhile (\<lambda>c. \<not> number_start c) s2)) s2 \<and>
      takeWhile (\<lambda>c. \<not> number_start c) s2 \<noteq> []"
    using r i fr by (auto simp: duration_term_def Let_def split: if_splits option.splits)
  ultimately show ?thesis
    using leading_int_length[OF i] by (cases s2) auto
qed

function duration_loop :: "(nat \<Rightarrow> nat \<Rightarrow> nat \<Rightarrow> nat) \<Rightarrow> nat \<Rightarrow> string \<Rightarrow> nat option" where
  "duration_loop ff d s =
     (if s = [] then Some d
      else case duration_term ff s of
        None \<Rightarrow> None
      | Some (v, t) \<Rightarrow>
          if (d + v) mod 2 ^ 64 > 2 ^ 63 then None else duration_loop ff ((d + v) mod 2 ^ 64) t)"
  by pat_completeness auto
termination
  by (relation "measure (\<lambda>(ff, d, s). length s)") (auto dest: duration_term_length)

declare duration_loop.simps [simp del]

definition parse_duration :: "(nat \<Rightarrow> nat \<Rightarrow> nat \<Rightarrow> nat) \<Rightarrow> string \<Rightarrow> duration option" where
  "parse_duration ff s =
     (let signed = (s \<noteq> [] \<and> (hd s = CHR ''-'' \<or> hd s = CHR ''+''));
          neg = (s \<noteq> [] \<and> hd s = CHR ''-'');
          t = (if signed then tl s else s)
      in if t = ''0'' then Some 0
         else if t = [] then None
         else case duration_loop ff 0 t of
           None \<Rightarrow> None
         | Some d \<Rightarrow>
             if neg then Some (- int d)
             else if d > 2 ^ 63 - 1 then None else Some (int d))"

lemma duration_loop_bound: "duration_loop ff d s = Some e \<Longrightarrow> d \<le> 2 ^ 63 \<Longrightarrow> e \<le> 2 ^ 63"
proof (induction ff d s rule: duration_loop.induct)
  case (1 ff d s)
  show ?case
  proof (cases "s = []")
    case True
    then show ?thesis using "1.prems" by (simp add: duration_loop.simps[of ff d])
  next
    case False
    then obtain v t where t: "duration_term ff s = Some (v, t)"
      using "1.prems" by (auto simp: duration_loop.simps[of ff d] split: option.splits)
    then have small: "\<not> (d + v) mod 2 ^ 64 > 2 ^ 63"
      and rest: "duration_loop ff ((d + v) mod 2 ^ 64) t = Some e"
      using "1.prems" False by (auto simp: duration_loop.simps[of ff d s] split: if_splits)
    show ?thesis using "1.IH"[OF False t refl small rest] small by linarith
  qed
qed

text \<open>A parsed duration fits its 64 bits.\<close>

lemma parse_duration_bounds:
  assumes "parse_duration ff s = Some d"
  shows "min_duration \<le> d \<and> d \<le> max_duration"
proof -
  have "int e \<le> 2 ^ 63" if "duration_loop ff 0 t = Some e" for t e
    using duration_loop_bound[OF that] by simp
  then show ?thesis
    using assms
    by (auto simp: parse_duration_def Let_def min_duration_def max_duration_def
        split: if_splits option.splits)
qed

lemma parse_duration_examples:
  "parse_duration ff ''72h'' = Some (72 * hour)"
  "parse_duration ff ''1h30m'' = Some (90 * minute)"
  "parse_duration ff ''-5s'' = Some (- 5 * second)"
  "parse_duration ff ''5'' = None"
  by code_simp+

end
