(* ===== verification/Geo_Settings.thy ===== *)
theory Geo_Settings
  imports GeoIP Go_Duration
begin

text \<open>
  \<open>internal/geo/settings_update.go\<close>, \<open>schedule.go\<close> and \<open>status.go\<close>: the stored MaxMind settings,
  how a change to them is checked, how often the databases are fetched and what the admin panel is
  told. Settings are a map of strings; reading a missing key gives the empty string.
\<close>

type_synonym settings = "string \<rightharpoonup> string"

definition setting :: "settings \<Rightarrow> string \<Rightarrow> string" where
  "setting m key = (case m key of Some v \<Rightarrow> v | None \<Rightarrow> [])"

definition SettingLicenseKey :: string where "SettingLicenseKey = ''geoip_license_key''"
definition SettingAccountID :: string where "SettingAccountID = ''geoip_account_id''"
definition SettingUpdateInterval :: string where "SettingUpdateInterval = ''geoip_update_interval''"
definition SettingASNLastDownload :: string where "SettingASNLastDownload = ''geoip_asn_last_download''"
definition SettingCityLastDownload :: string where "SettingCityLastDownload = ''geoip_city_last_download''"
definition SettingCredentialsCleared :: string where "SettingCredentialsCleared = ''geoip_credentials_cleared''"

lemmas geo_setting_defs = SettingLicenseKey_def SettingAccountID_def SettingUpdateInterval_def
  SettingASNLastDownload_def SettingCityLastDownload_def SettingCredentialsCleared_def

section \<open>The update interval\<close>

definition ParseUpdateInterval :: "(nat \<Rightarrow> nat \<Rightarrow> nat \<Rightarrow> nat) \<Rightarrow> string \<Rightarrow> duration \<Rightarrow> duration" where
  "ParseUpdateInterval ff raw fallback =
     (if raw = [] then fallback
      else case parse_duration ff raw of
        None \<Rightarrow> fallback
      | Some d \<Rightarrow> if d \<le> 0 then fallback else d)"

definition ResolveUpdateInterval :: "(nat \<Rightarrow> nat \<Rightarrow> nat \<Rightarrow> nat) \<Rightarrow> settings \<Rightarrow> duration" where
  "ResolveUpdateInterval ff st = ParseUpdateInterval ff (setting st SettingUpdateInterval) (72 * hour)"

text \<open>\<open>rfc3339\<close> is \<open>time.Parse(time.RFC3339, _)\<close>; the zero time is 0.\<close>

definition LastDownloadFromSettings :: "(string \<Rightarrow> go_time option) \<Rightarrow> settings \<Rightarrow> string \<Rightarrow> go_time" where
  "LastDownloadFromSettings rfc3339 st edition =
     (let key = (if edition = ''GeoLite2-City'' then SettingCityLastDownload else SettingASNLastDownload);
          raw = setting st key
      in if raw = [] then 0 else (case rfc3339 raw of Some t \<Rightarrow> t | None \<Rightarrow> 0))"

section \<open>Changing the credentials\<close>

definition MinUpdateInterval :: duration where "MinUpdateInterval = hour"

record CredentialUpdate =
  cu_account_id :: string
  cu_license_key :: string
  cu_update_interval :: string
  cu_clear_credentials :: bool

definition errAccountIDNumeric :: go_error where
  "errAccountIDNumeric = PlainError ''account_id must be digits only''"

definition valueAfter :: "settings \<Rightarrow> settings \<Rightarrow> string \<Rightarrow> string" where
  "valueAfter pending current key = (case pending key of Some v \<Rightarrow> v | None \<Rightarrow> setting current key)"

text \<open>The interval check: the settings to store, or why not.\<close>

definition add_interval ::
  "(nat \<Rightarrow> nat \<Rightarrow> nat \<Rightarrow> nat) \<Rightarrow> string \<Rightarrow> settings \<Rightarrow> go_error + settings" where
  "add_interval ff interval out =
     (if interval = [] then Inr out
      else case parse_duration ff interval of
        None \<Rightarrow> Inl (WrapError ''update_interval is not a duration (try 72h): ''
                       (PlainError ''time: invalid duration''))
      | Some d \<Rightarrow>
          if d < MinUpdateInterval then Inl (PlainError ''update_interval must be at least 1h0m0s'')
          else Inr (out(SettingUpdateInterval \<mapsto> interval)))"

definition check_credentials :: "settings \<Rightarrow> settings \<Rightarrow> go_error + settings option" where
  "check_credentials current out =
     (if out = Map.empty then Inr None
      else (let out' = (if setting out SettingLicenseKey \<noteq> [] \<or> setting out SettingAccountID \<noteq> []
                        then out(SettingCredentialsCleared \<mapsto> []) else out)
            in if (valueAfter out' current SettingAccountID = []) \<noteq> (valueAfter out' current SettingLicenseKey = [])
               then Inl (PlainError ''account_id and license_key must be set together'')
               else Inr (Some out')))"

definition SettingsFromUpdate ::
  "(nat \<Rightarrow> nat \<Rightarrow> nat \<Rightarrow> nat) \<Rightarrow> CredentialUpdate \<Rightarrow> settings \<Rightarrow> go_error + settings option" where
  "SettingsFromUpdate ff req current =
     (if cu_clear_credentials req then
        Inr (Some [SettingLicenseKey \<mapsto> [], SettingAccountID \<mapsto> [], SettingCredentialsCleared \<mapsto> ''1''])
      else
        (let account = trim_space (cu_account_id req) in
         if account \<noteq> [] \<and> list_ex (\<lambda>c. \<not> is_digit c) account then Inl errAccountIDNumeric
         else
           (let out1 = (if account \<noteq> [] then [SettingAccountID \<mapsto> account] else Map.empty);
                key = trim_space (cu_license_key req);
                out2 = (if key \<noteq> [] then out1(SettingLicenseKey \<mapsto> key) else out1)
            in case add_interval ff (trim_space (cu_update_interval req)) out2 of
                 Inl err \<Rightarrow> Inl err
               | Inr out3 \<Rightarrow> check_credentials current out3)))"

section \<open>The status shown in the panel\<close>

record geo_status =
  gs_configured :: bool
  gs_enabled :: bool
  gs_account_id :: string
  gs_license_key_set :: bool
  gs_update_interval :: string
  gs_asn_last_download :: string
  gs_city_last_download :: string
  gs_last_download :: string
  gs_asn_build_date :: string
  gs_city_build_date :: string
  gs_asn_loaded :: bool
  gs_city_loaded :: bool

text \<open>What the status reads besides the settings: the time stamp of a file (empty when it does not
  exist), the printing and parsing of RFC 3339 times and the build epochs of the loaded files.\<close>

record status_env =
  se_mod_time :: "string \<Rightarrow> string"
  se_format :: "int \<Rightarrow> string"
  se_parse :: "string \<Rightarrow> go_time option"
  se_join :: "string \<Rightarrow> string \<Rightarrow> string"
  se_asn_epoch :: int
  se_city_epoch :: int

definition ResolvePaths :: "(string \<Rightarrow> string \<Rightarrow> string) \<Rightarrow> string \<Rightarrow> string \<times> string" where
  "ResolvePaths join dbDir =
     (let d = (if dbDir = [] then ''/var/lib/hopstat/geoip'' else dbDir)
      in (join d ''GeoLite2-ASN.mmdb'', join d ''GeoLite2-City.mmdb''))"

definition epochToRFC3339 :: "(int \<Rightarrow> string) \<Rightarrow> int \<Rightarrow> string" where
  "epochToRFC3339 fmt epoch = (if epoch \<le> 0 then [] else fmt epoch)"

definition latestRFC3339 :: "(string \<Rightarrow> go_time option) \<Rightarrow> string \<Rightarrow> string \<Rightarrow> string" where
  "latestRFC3339 rfc3339 a b =
     (case (rfc3339 a, rfc3339 b) of
        (None, None) \<Rightarrow> []
      | (None, Some _) \<Rightarrow> b
      | (Some _, None) \<Rightarrow> a
      | (Some tA, Some tB) \<Rightarrow> if tA > tB then a else b)"

record db_build_info =
  bi_asn_loaded :: bool
  bi_city_loaded :: bool
  bi_asn_build :: int
  bi_city_build :: int

definition BuildInfo :: "int \<Rightarrow> int \<Rightarrow> GeoIPDB \<Rightarrow> db_build_info" where
  "BuildInfo asn_epoch city_epoch g =
     \<lparr>bi_asn_loaded = (g_asn_db g \<noteq> None), bi_city_loaded = (g_city_db g \<noteq> None),
      bi_asn_build = (if g_asn_db g \<noteq> None then asn_epoch else 0),
      bi_city_build = (if g_city_db g \<noteq> None then city_epoch else 0)\<rparr>"

definition CollectStatus :: "status_env \<Rightarrow> settings \<Rightarrow> string \<Rightarrow> GeoIPDB option \<Rightarrow> geo_status" where
  "CollectStatus env st dbDir geoDB =
     (let license = setting st SettingLicenseKey;
          account = setting st SettingAccountID;
          interval = (if setting st SettingUpdateInterval = [] then ''72h'' else setting st SettingUpdateInterval);
          st0 = \<lparr>gs_configured = (license \<noteq> [] \<and> account \<noteq> []),
                 gs_enabled = (case geoDB of None \<Rightarrow> False | Some g \<Rightarrow> g_enabled g),
                 gs_account_id = account, gs_license_key_set = (license \<noteq> []),
                 gs_update_interval = interval, gs_asn_last_download = [], gs_city_last_download = [],
                 gs_last_download = [], gs_asn_build_date = [], gs_city_build_date = [],
                 gs_asn_loaded = False, gs_city_loaded = False\<rparr>
      in if \<not> gs_configured st0 then st0
         else
           (let (asnPath, cityPath) = ResolvePaths (se_join env) dbDir;
                asn0 = setting st SettingASNLastDownload;
                city0 = setting st SettingCityLastDownload;
                asn = (if asn0 = [] then se_mod_time env asnPath else asn0);
                city = (if city0 = [] then se_mod_time env cityPath else city0);
                st1 = st0\<lparr>gs_asn_last_download := asn, gs_city_last_download := city,
                          gs_last_download := latestRFC3339 (se_parse env) asn city\<rparr>
            in case geoDB of
                 None \<Rightarrow> st1
               | Some g \<Rightarrow>
                   (let info = BuildInfo (se_asn_epoch env) (se_city_epoch env) g
                    in st1\<lparr>gs_asn_loaded := bi_asn_loaded info, gs_city_loaded := bi_city_loaded info,
                           gs_asn_build_date := epochToRFC3339 (se_format env) (bi_asn_build info),
                           gs_city_build_date := epochToRFC3339 (se_format env) (bi_city_build info)\<rparr>)))"

section \<open>Properties\<close>

lemma setting_add: "setting (cur ++ out) key = valueAfter out cur key"
  by (simp add: setting_def valueAfter_def map_add_def split: option.split)

lemma ParseUpdateInterval_stored:
  "parse_duration ff raw = Some d \<Longrightarrow> MinUpdateInterval \<le> d \<Longrightarrow> raw \<noteq> [] \<Longrightarrow>
   ParseUpdateInterval ff raw fb = d"
  by (simp add: ParseUpdateInterval_def MinUpdateInterval_def)

lemma add_intervalD:
  assumes "add_interval ff interval out = Inr out'"
  shows "out' = out \<and> interval = [] \<or>
    (\<exists>d. out' = out(SettingUpdateInterval \<mapsto> interval) \<and> interval \<noteq> [] \<and>
      parse_duration ff interval = Some d \<and> MinUpdateInterval \<le> d)"
  using assms by (auto simp: add_interval_def split: if_splits option.splits)

lemma check_credentialsD:
  assumes "check_credentials current out = Inr (Some out')"
  shows "out' = out \<or> out' = out(SettingCredentialsCleared \<mapsto> [])"
    and "valueAfter out' current SettingAccountID = [] \<longleftrightarrow> valueAfter out' current SettingLicenseKey = []"
  using assms by (auto simp: check_credentials_def Let_def split: if_splits)

text \<open>an accepted change to the MaxMind settings never leaves an account without a key or a key
  without an account, stores an account of digits only, and stores an interval only if the scheduler
  will then wait at least an hour between downloads.\<close>

theorem SettingsFromUpdate_sound:
  assumes "SettingsFromUpdate ff req current = Inr (Some out)"
  shows "(setting (current ++ out) SettingAccountID = [] \<longleftrightarrow> setting (current ++ out) SettingLicenseKey = []) \<and>
    (\<forall>account. out SettingAccountID = Some account \<longrightarrow> list_all is_digit account) \<and>
    (out SettingUpdateInterval \<noteq> None \<longrightarrow> hour \<le> ResolveUpdateInterval ff (current ++ out))"
proof (cases "cu_clear_credentials req")
  case True
  then show ?thesis
    using assms by (auto simp: SettingsFromUpdate_def setting_add valueAfter_def geo_setting_defs)
next
  case False
  let ?account = "trim_space (cu_account_id req)" and ?key = "trim_space (cu_license_key req)"
  let ?out1 = "if ?account \<noteq> [] then [SettingAccountID \<mapsto> ?account] else Map.empty"
  let ?out2 = "if ?key \<noteq> [] then ?out1(SettingLicenseKey \<mapsto> ?key) else ?out1"
  have digits: "\<not> (?account \<noteq> [] \<and> list_ex (\<lambda>c. \<not> is_digit c) ?account)"
    using assms False by (auto simp: SettingsFromUpdate_def Let_def)
  have "SettingsFromUpdate ff req current =
      (case add_interval ff (trim_space (cu_update_interval req)) ?out2 of
         Inl err \<Rightarrow> Inl err | Inr out3 \<Rightarrow> check_credentials current out3)"
    using False digits unfolding SettingsFromUpdate_def Let_def by (simp only: if_False)
  then obtain out3 where i: "add_interval ff (trim_space (cu_update_interval req)) ?out2 = Inr out3"
    and c: "check_credentials current out3 = Inr (Some out)"
    using assms by (cases "add_interval ff (trim_space (cu_update_interval req)) ?out2") auto
  note out = check_credentialsD(1)[OF c]
  have keys: "out SettingAccountID = ?out1 SettingAccountID"
    using out add_intervalD[OF i] by (auto simp: geo_setting_defs)
  have acc: "list_all is_digit account" if "out SettingAccountID = Some account" for account
    using that digits unfolding keys by (auto simp: list_all_iff list_ex_iff split: if_splits)
  have int: "hour \<le> ResolveUpdateInterval ff (current ++ out)" if stored: "out SettingUpdateInterval \<noteq> None"
  proof -
    have "?out2 SettingUpdateInterval = None" by (simp add: geo_setting_defs)
    then obtain d where d: "out SettingUpdateInterval = Some (trim_space (cu_update_interval req))"
      "trim_space (cu_update_interval req) \<noteq> []"
      "parse_duration ff (trim_space (cu_update_interval req)) = Some d" "MinUpdateInterval \<le> d"
      using stored out add_intervalD[OF i] by (auto simp: geo_setting_defs)
    have "setting (current ++ out) SettingUpdateInterval = trim_space (cu_update_interval req)"
      by (simp add: setting_add valueAfter_def d(1))
    then show ?thesis
      using ParseUpdateInterval_stored[OF d(3,4,2)] d(4)
      by (simp add: ResolveUpdateInterval_def MinUpdateInterval_def)
  qed
  show ?thesis using check_credentialsD(2)[OF c] acc int by (simp add: setting_add)
qed

lemma SettingsFromUpdate_sound_witness:
  "\<exists>out. SettingsFromUpdate (\<lambda>_ _ _. 0) \<lparr>cu_account_id = ''12'', cu_license_key = ''k'',
       cu_update_interval = ''2h'', cu_clear_credentials = False\<rparr> Map.empty = Inr (Some out) \<and>
     hour \<le> ResolveUpdateInterval (\<lambda>_ _ _. 0) (Map.empty ++ out)"
proof -
  let ?req = "\<lparr>cu_account_id = ''12'', cu_license_key = ''k'', cu_update_interval = ''2h'',
    cu_clear_credentials = False\<rparr>"
  have t: "trim_space ''12'' = ''12''" "trim_space ''k'' = ''k''" "trim_space ''2h'' = ''2h''"
    "parse_duration (\<lambda>_ _ _. 0) ''2h'' = Some (2 * hour)" "list_all is_digit ''12''"
    by code_simp+
  let ?out = "[SettingAccountID \<mapsto> ''12'', SettingLicenseKey \<mapsto> ''k'', SettingUpdateInterval \<mapsto> ''2h'',
    SettingCredentialsCleared \<mapsto> []]"
  have r: "SettingsFromUpdate (\<lambda>_ _ _. 0) ?req Map.empty = Inr (Some ?out)"
    using t by (simp add: SettingsFromUpdate_def add_interval_def check_credentials_def MinUpdateInterval_def
        valueAfter_def setting_def geo_setting_defs Let_def)
  then show ?thesis using SettingsFromUpdate_sound[OF r] by auto
qed

text \<open>the status told to the admin panel depends on the licence key only through whether one is
  stored: replacing a stored key by any other changes nothing in it.\<close>

theorem CollectStatus_hides_license:
  assumes "setting st SettingLicenseKey \<noteq> []" and "key \<noteq> []"
  shows "CollectStatus env (st(SettingLicenseKey \<mapsto> key)) dbDir geoDB = CollectStatus env st dbDir geoDB"
proof -
  let ?st = "st(SettingLicenseKey \<mapsto> key)"
  have "setting ?st SettingAccountID = setting st SettingAccountID"
    "setting ?st SettingUpdateInterval = setting st SettingUpdateInterval"
    "setting ?st SettingASNLastDownload = setting st SettingASNLastDownload"
    "setting ?st SettingCityLastDownload = setting st SettingCityLastDownload"
    "setting ?st SettingLicenseKey = key"
    by (simp_all add: setting_def geo_setting_defs)
  then show ?thesis using assms by (simp only: CollectStatus_def Let_def not_False_eq_True simp_thms)
qed

definition example_status_env :: status_env where
  "example_status_env = \<lparr>se_mod_time = (\<lambda>_. []), se_format = format_int, se_parse = (\<lambda>_. None),
     se_join = (\<lambda>a b. a @ ''/'' @ b), se_asn_epoch = 0, se_city_epoch = 0\<rparr>"

lemma CollectStatus_hides_license_witness:
  "CollectStatus example_status_env [SettingLicenseKey \<mapsto> ''other''] [] None =
   CollectStatus example_status_env [SettingLicenseKey \<mapsto> ''secret''] [] None"
  using CollectStatus_hides_license[of "[SettingLicenseKey \<mapsto> ''secret'']" "''other''" example_status_env "[]" None]
  by (simp add: setting_def)

end
