(* ===== verification/Engine_Base.thy ===== *)
theory Engine_Base
  imports Domain
begin

text \<open>
  The parts of \<open>internal/engine\<close> that stand alone: the pool that bounds concurrent queries
  (\<open>pool.go\<close>), the timeouts (\<open>timeouts.go\<close>) and the mapping of errors to the codes and messages a
  client sees (\<open>engine.go\<close>).
\<close>

section \<open>The query pool\<close>

text \<open>
  \<open>sem\<close> is a channel of capacity \<open>maxConcurrent\<close>: a send takes a slot, the deferred receive gives it
  back, also when the query fails. A query waits until a slot is free or its context ends; when both
  hold, \<open>select\<close> picks either. Queries are told apart by their number.
\<close>

record QueryPool =
  qp_capacity :: nat
  qp_running :: "nat list"
  qp_waiting :: "nat list"

definition NewQueryPool :: "nat \<Rightarrow> QueryPool" where
  "NewQueryPool maxConcurrent = \<lparr>qp_capacity = maxConcurrent, qp_running = [], qp_waiting = []\<rparr>"

definition pool_acquire :: "nat \<Rightarrow> QueryPool \<Rightarrow> QueryPool" where
  "pool_acquire q p = p\<lparr>qp_running := q # qp_running p, qp_waiting := removeAll q (qp_waiting p)\<rparr>"

definition pool_release :: "nat \<Rightarrow> QueryPool \<Rightarrow> QueryPool" where
  "pool_release q p = p\<lparr>qp_running := removeAll q (qp_running p)\<rparr>"

definition pool_give_up :: "nat \<Rightarrow> QueryPool \<Rightarrow> QueryPool" where
  "pool_give_up q p = p\<lparr>qp_waiting := removeAll q (qp_waiting p)\<rparr>"

inductive pool_step :: "QueryPool \<Rightarrow> QueryPool \<Rightarrow> bool" where
  pool_enter: "q \<notin> set (qp_running p) \<Longrightarrow> q \<notin> set (qp_waiting p) \<Longrightarrow>
    pool_step p (p\<lparr>qp_waiting := qp_waiting p @ [q]\<rparr>)"
| pool_start: "q \<in> set (qp_waiting p) \<Longrightarrow> length (qp_running p) < qp_capacity p \<Longrightarrow>
    pool_step p (pool_acquire q p)"
| pool_timeout: "q \<in> set (qp_waiting p) \<Longrightarrow> pool_step p (pool_give_up q p)"
| pool_finish: "q \<in> set (qp_running p) \<Longrightarrow> pool_step p (pool_release q p)"

inductive pool_reachable :: "nat \<Rightarrow> QueryPool \<Rightarrow> bool" for cap where
  pool_init: "pool_reachable cap (NewQueryPool cap)"
| pool_next: "pool_reachable cap p \<Longrightarrow> pool_step p p' \<Longrightarrow> pool_reachable cap p'"

definition pool_inv :: "nat \<Rightarrow> QueryPool \<Rightarrow> bool" where
  "pool_inv cap p \<longleftrightarrow> qp_capacity p = cap \<and> length (qp_running p) \<le> cap \<and>
     distinct (qp_running p @ qp_waiting p)"

lemma pool_step_inv:
  assumes "pool_step p p'" and "pool_inv cap p"
  shows "pool_inv cap p'"
  using assms(1)
proof (cases rule: pool_step.cases)
  case (pool_start q)
  then show ?thesis
    using assms(2) by (auto simp: pool_inv_def pool_acquire_def distinct_removeAll)
next
  case (pool_finish q)
  have "length (removeAll q (qp_running p)) \<le> cap"
    using length_removeAll_less_eq[of q "qp_running p"] assms(2) unfolding pool_inv_def by linarith
  then show ?thesis
    using assms(2) pool_finish
    by (auto simp: pool_inv_def pool_release_def distinct_removeAll)
qed (use assms(2) in \<open>auto simp: pool_inv_def pool_give_up_def distinct_removeAll\<close>)

lemma pool_reachable_inv: "pool_reachable cap p \<Longrightarrow> pool_inv cap p"
proof (induction rule: pool_reachable.induct)
  case pool_init
  then show ?case by (simp add: pool_inv_def NewQueryPool_def)
next
  case (pool_next p p')
  then show ?case by (blast intro: pool_step_inv)
qed

text \<open>in every interleaving of queries at most \<open>maxConcurrent\<close> of them run at once, no query
  holds two slots, and a query that waits can always start once another one finishes.\<close>

theorem pool_bound:
  assumes "pool_reachable cap p"
  shows "length (qp_running p) \<le> cap \<and> distinct (qp_running p) \<and>
    (\<forall>q \<in> set (qp_waiting p). \<forall>r \<in> set (qp_running p).
       pool_step (pool_release r p) (pool_acquire q (pool_release r p)))"
proof -
  have inv: "pool_inv cap p" by (rule pool_reachable_inv[OF assms])
  have "pool_step (pool_release r p) (pool_acquire q (pool_release r p))"
    if "q \<in> set (qp_waiting p)" "r \<in> set (qp_running p)" for q r
  proof (rule pool_start)
    show "q \<in> set (qp_waiting (pool_release r p))" using that by (simp add: pool_release_def)
    have "length (removeAll r (qp_running p)) < length (qp_running p)"
      using that(2) by (rule length_removeAll_less)
    then show "length (qp_running (pool_release r p)) < qp_capacity (pool_release r p)"
      using inv by (auto simp: pool_release_def pool_inv_def)
  qed
  then show ?thesis using inv by (auto simp: pool_inv_def)
qed

lemma pool_bound_witness:
  "length (qp_running (pool_acquire 7 ((NewQueryPool 1)\<lparr>qp_waiting := [7]\<rparr>))) \<le> 1"
proof -
  have "pool_reachable 1 ((NewQueryPool 1)\<lparr>qp_waiting := [7]\<rparr>)"
    using pool_next[OF pool_init pool_enter, of 7 1] by (simp add: NewQueryPool_def)
  then have "pool_reachable 1 (pool_acquire 7 ((NewQueryPool 1)\<lparr>qp_waiting := [7]\<rparr>))"
    by (rule pool_next) (rule pool_start, simp_all add: NewQueryPool_def)
  from pool_bound[OF this] show ?thesis by blast
qed

section \<open>Timeouts\<close>

type_synonym string_settings = "string \<rightharpoonup> string"

definition SettingQueryTimeoutSec :: string where "SettingQueryTimeoutSec = ''query_timeout_sec''"
definition SettingTracerouteTimeoutSec :: string where
  "SettingTracerouteTimeoutSec = ''traceroute_timeout_sec''"

definition MinTimeoutSec :: int where "MinTimeoutSec = 1"
definition MaxTimeoutSec :: int where "MaxTimeoutSec = 600"

definition settingSeconds :: "string_settings \<Rightarrow> string \<Rightarrow> int \<Rightarrow> int" where
  "settingSeconds settings key fallback =
     (case settings key of
        None \<Rightarrow> fallback
      | Some raw \<Rightarrow>
         (case go_atoi raw of
            None \<Rightarrow> fallback
          | Some n \<Rightarrow> if n < MinTimeoutSec \<or> n > MaxTimeoutSec then fallback else n))"

text \<open>\<open>time.Duration(n) * time.Second\<close> wraps at 64 bits.\<close>

definition seconds_duration :: "int \<Rightarrow> duration" where
  "seconds_duration n = sint (word_of_int (n * second) :: u64)"

text \<open>The timeouts of the configuration, and the settings provider: nil, or what reading the stored
  settings yields.\<close>

definition timeoutFor ::
  "int \<Rightarrow> int \<Rightarrow> (go_error + string_settings) option \<Rightarrow> command_type \<Rightarrow> duration" where
  "timeoutFor defaultTimeoutSec tracerouteTimeoutSec provider command =
     (let (defaultSec, tracerouteSec) =
            (case provider of
               Some (Inr stored) \<Rightarrow>
                 (settingSeconds stored SettingQueryTimeoutSec defaultTimeoutSec,
                  settingSeconds stored SettingTracerouteTimeoutSec tracerouteTimeoutSec)
             | _ \<Rightarrow> (defaultTimeoutSec, tracerouteTimeoutSec))
      in if command = CmdTraceroute then seconds_duration tracerouteSec else seconds_duration defaultSec)"

lemma settingSeconds_bounds:
  "MinTimeoutSec \<le> fb \<Longrightarrow> fb \<le> MaxTimeoutSec \<Longrightarrow>
   MinTimeoutSec \<le> settingSeconds st k fb \<and> settingSeconds st k fb \<le> MaxTimeoutSec"
  by (auto simp: settingSeconds_def split: option.split)

lemma seconds_duration_small: "0 \<le> n \<Longrightarrow> n \<le> 600 \<Longrightarrow> seconds_duration n = n * second"
  unfolding seconds_duration_def sint_sbintrunc'
  by (rule signed_take_bit_int_eq_self) simp_all

text \<open>with configured timeouts between one second and ten minutes, no stored setting, whatever
  it holds, makes a query run shorter than a second or longer than ten minutes.\<close>

theorem timeoutFor_bounds:
  assumes "MinTimeoutSec \<le> d" "d \<le> MaxTimeoutSec" "MinTimeoutSec \<le> t" "t \<le> MaxTimeoutSec"
  shows "second \<le> timeoutFor d t provider command \<and> timeoutFor d t provider command \<le> 600 * second"
proof -
  have "second \<le> seconds_duration n \<and> seconds_duration n \<le> 600 * second"
    if "MinTimeoutSec \<le> n" "n \<le> MaxTimeoutSec" for n
    using that by (simp add: seconds_duration_small MinTimeoutSec_def MaxTimeoutSec_def)
  then show ?thesis
    using assms settingSeconds_bounds[OF assms(1,2)] settingSeconds_bounds[OF assms(3,4)]
    by (auto simp: timeoutFor_def Let_def split: option.split sum.split)
qed

lemma timeoutFor_bounds_witness:
  "second \<le> timeoutFor 15 60 (Some (Inr [SettingQueryTimeoutSec \<mapsto> ''999999''])) CmdPing"
  using timeoutFor_bounds[of 15 60 "Some (Inr [SettingQueryTimeoutSec \<mapsto> ''999999''])" CmdPing]
  by (simp add: MinTimeoutSec_def MaxTimeoutSec_def)

section \<open>Errors as the client sees them\<close>

definition SanitizeErrorMsg :: "go_error \<Rightarrow> string" where
  "SanitizeErrorMsg err =
     (if errors_is err ErrNodeNotFound then ''node not found''
      else if errors_is err ErrCommandDisabled then ''command not enabled for this node''
      else if errors_is err ErrDNSNotFound then ''dns resolution failed''
      else if errors_is err ErrInvalidTarget then ''invalid target''
      else if errors_is err ErrTimeout then ''command timed out''
      else if errors_is err ErrRateLimited then ''rate limit exceeded''
      else if errors_is err ErrQueryPoolFull then ''server is busy, try again later''
      else if err = CtxCanceled \<or> err = CtxDeadlineExceeded then ''command timed out''
      else ''command execution failed'')"

definition ClassifyError :: "go_error \<Rightarrow> string" where
  "ClassifyError err =
     (if errors_is err ErrNodeNotFound then ''NODE_NOT_FOUND''
      else if errors_is err ErrCommandDisabled then ''COMMAND_DISABLED''
      else if errors_is err ErrDNSNotFound then ''DNS_NOT_FOUND''
      else if errors_is err ErrInvalidTarget then ''INVALID_TARGET''
      else if errors_is err ErrTimeout then ''COMMAND_TIMEOUT''
      else if errors_is err BreakerErrCircuitOpen then ''NODE_UNAVAILABLE''
      else if errors_is err ErrQueryPoolFull then ''POOL_FULL''
      else if errors_is err ErrRateLimited then ''RATE_LIMITED''
      else if errors_is err CtxCanceled \<or> errors_is err CtxDeadlineExceeded then ''COMMAND_TIMEOUT''
      else ''INTERNAL_ERROR'')"

definition message_of_code :: "string \<Rightarrow> string" where
  "message_of_code c =
     (if c = ''NODE_NOT_FOUND'' then ''node not found''
      else if c = ''COMMAND_DISABLED'' then ''command not enabled for this node''
      else if c = ''DNS_NOT_FOUND'' then ''dns resolution failed''
      else if c = ''INVALID_TARGET'' then ''invalid target''
      else if c = ''COMMAND_TIMEOUT'' then ''command timed out''
      else if c = ''RATE_LIMITED'' then ''rate limit exceeded''
      else if c = ''POOL_FULL'' then ''server is busy, try again later''
      else ''command execution failed'')"

lemma errors_is_sentinel:
  "errors_is e ErrNodeNotFound \<longleftrightarrow> root_cause e = ErrNodeNotFound"
  "errors_is e ErrCommandDisabled \<longleftrightarrow> root_cause e = ErrCommandDisabled"
  "errors_is e ErrDNSNotFound \<longleftrightarrow> root_cause e = ErrDNSNotFound"
  "errors_is e ErrInvalidTarget \<longleftrightarrow> root_cause e = ErrInvalidTarget"
  "errors_is e ErrTimeout \<longleftrightarrow> root_cause e = ErrTimeout"
  "errors_is e ErrRateLimited \<longleftrightarrow> root_cause e = ErrRateLimited"
  "errors_is e ErrQueryPoolFull \<longleftrightarrow> root_cause e = ErrQueryPoolFull"
  "errors_is e BreakerErrCircuitOpen \<longleftrightarrow> root_cause e = BreakerErrCircuitOpen"
  "errors_is e CtxCanceled \<longleftrightarrow> root_cause e = CtxCanceled"
  "errors_is e CtxDeadlineExceeded \<longleftrightarrow> root_cause e = CtxDeadlineExceeded"
  by (simp_all add: errors_is_root)

lemma root_cause_unwrapped: "(\<And>m e'. e \<noteq> WrapError m e') \<Longrightarrow> root_cause e = e"
  by (cases e) auto

lemma wrapped_cases: "(\<exists>m e'. e = WrapError m e') \<or> root_cause e = e"
  by (cases e) auto

text \<open>code and message of an error agree: the message is the one that belongs to the code, except
  for a wrapped context error, whose code says timeout while its message says that the command
  failed.\<close>

theorem error_code_message:
  "SanitizeErrorMsg err =
     (if (root_cause err = CtxCanceled \<or> root_cause err = CtxDeadlineExceeded) \<and> err \<noteq> root_cause err
      then ''command execution failed''
      else message_of_code (ClassifyError err)) \<and>
   ((root_cause err = CtxCanceled \<or> root_cause err = CtxDeadlineExceeded) \<longrightarrow>
      ClassifyError err = ''COMMAND_TIMEOUT'')"
proof -
  have ctx: "err = CtxCanceled \<longleftrightarrow> root_cause err = CtxCanceled \<and> err = root_cause err"
    "err = CtxDeadlineExceeded \<longleftrightarrow> root_cause err = CtxDeadlineExceeded \<and> err = root_cause err"
    by auto
  show ?thesis
    unfolding SanitizeErrorMsg_def ClassifyError_def errors_is_sentinel
    unfolding ctx
    by (cases "root_cause err") (auto simp: message_of_code_def)
qed

text \<open>A deadline that reached the engine wrapped by an HTTP client.\<close>

lemma wrapped_timeout_message:
  "ClassifyError (WrapError ''Post: '' CtxDeadlineExceeded) = ''COMMAND_TIMEOUT'' \<and>
   SanitizeErrorMsg (WrapError ''Post: '' CtxDeadlineExceeded) = ''command execution failed''"
  by code_simp

end
