(* ===== verification/Engine.thy ===== *)
theory Engine
  imports Engine_Base RouteQuery Geo_Names RateLimiter
begin

text \<open>
  \<open>internal/engine/engine.go\<close>: how a query is executed. The engine's collaborators are the fields of
  a record: the node and community repositories, the drivers a node's type selects, the GeoIP
  lookups, the session manager of the embedded BGP speaker. The repository and the nodes it returns
  without an error are not nil. The callbacks are a log of the lines and partial results handed to
  them; a query returns its log with its result. What the scheduler, the clock and the watcher of
  \<open>ShouldStop\<close> decide in a run is in \<open>exec_run\<close>.
\<close>

section \<open>Collaborators\<close>

record node_repo =
  nr_get :: "int \<Rightarrow> go_error + node"
  nr_active :: "go_error + node option list"

text \<open>A driver's ping and traceroute hand lines to the line callback while they run.\<close>

record node_driver =
  dr_ping :: "string \<Rightarrow> int \<Rightarrow> string list \<times> (go_error + ping_result)"
  dr_traceroute :: "string \<Rightarrow> int \<Rightarrow> string list \<times> (go_error + traceroute_result)"
  dr_bgp_route :: "string \<Rightarrow> go_error + bgp_result"

record geo_lookups =
  gl_resolve :: "string \<Rightarrow> go_error + as_info option"
  gl_by_number :: "u32 \<Rightarrow> as_info option \<times> go_error option"

record bgp_mgr =
  bm_ready :: bool
  bm_has_neighbors :: "int \<Rightarrow> bool"
  bm_active_session :: "int \<Rightarrow> bool"
  bm_node_for_ip :: "string \<Rightarrow> int option"
  bm_env :: route_env

record engine =
  en_repo :: node_repo
  en_communities :: "(int \<Rightarrow> go_error + community_rule option list) option"
  en_standalone :: "node \<Rightarrow> go_error + node_driver"
  en_lgnode :: "node \<Rightarrow> go_error + node_driver"
  en_geo :: "geo_lookups option"
  en_bgp :: "bgp_mgr option"
  en_local_as :: u32
  en_dns :: dns_lookup
  en_sort_routes :: route_sort
  en_group_order :: "bgp_route list \<Rightarrow> string list"
  en_error_text :: "go_error \<Rightarrow> string"

datatype engine_event = EvLine string | EvPartial query_result

record execute_option =
  eo_on_line :: bool
  eo_on_partial :: bool
  eo_should_stop :: bool

text \<open>The limiter of \<open>New\<close>.\<close>

definition engine_rate_limit :: "bool \<Rightarrow> int \<Rightarrow> RateLimiter option" where
  "engine_rate_limit floodControlEnabled perMin =
     (if floodControlEnabled \<and> perMin > 0 then Some (NewRateLimiter perMin minute) else None)"

definition NewDriver :: "engine \<Rightarrow> node \<Rightarrow> go_error + node_driver" where
  "NewDriver e n =
     (if n_type n = NodeTypeStandalone then en_standalone e n
      else if n_type n = NodeTypeLGNode then en_lgnode e n
      else Inl (PlainError (''unknown node type: '' @ n_type n)))"

section \<open>Small steps of a query\<close>

definition emitRawLines :: "string \<Rightarrow> engine_event list" where
  "emitRawLines raw =
     map EvLine (filter (\<lambda>line. line \<noteq> [])
       (map (\<lambda>line. rev (dropWhile (\<lambda>c. c = CHR 0x0D) (rev line))) (split_char (CHR 0x0A) raw)))"

definition emit_lines :: "execute_option \<Rightarrow> string list \<Rightarrow> engine_event list" where
  "emit_lines opt ls = (if eo_on_line opt then map EvLine ls else [])"

definition enrich_hop :: "geo_lookups \<Rightarrow> hop \<Rightarrow> hop" where
  "enrich_hop g h =
     (if parse_ip (hop_ip h) = None then h
      else case gl_resolve g (hop_ip h) of
        Inr (Some info) \<Rightarrow> if as_asn info > 0 then h\<lparr>hop_as_info := Some info\<rparr> else h
      | _ \<Rightarrow> h)"

text \<open>Every worker writes its own hop only, so the result does not depend on their order.\<close>

definition enrichHops :: "engine \<Rightarrow> hop list \<Rightarrow> hop list" where
  "enrichHops e hops =
     (case en_geo e of None \<Rightarrow> hops | Some g \<Rightarrow> map (enrich_hop g) hops)"

text \<open>The matched rules of one route, without those already seen.\<close>

fun collect_rules ::
  "int list \<Rightarrow> community_rule option list \<Rightarrow> community_rule option list \<Rightarrow>
   int list \<times> community_rule option list" where
  "collect_rules seen acc [] = (seen, acc)"
| "collect_rules seen acc (None # rules) = collect_rules seen acc rules"
| "collect_rules seen acc (Some rule # rules) =
     (if cr_id rule \<in> set seen then collect_rules seen acc rules
      else collect_rules (cr_id rule # seen) (acc @ [Some rule]) rules)"

fun match_routes_loop ::
  "community_rule option list \<Rightarrow> int list \<Rightarrow> community_rule option list \<Rightarrow> bgp_route list \<Rightarrow>
   bgp_route list \<times> community_rule option list" where
  "match_routes_loop rules seen acc [] = ([], acc)"
| "match_routes_loop rules seen acc (r # rs) =
     (let matched = MatchCommunityRules rules (r_communities r);
          (seen', acc') = collect_rules seen acc matched;
          (rs', all) = match_routes_loop rules seen' acc' rs
      in (r\<lparr>r_matched_rules := matched\<rparr> # rs', all))"

definition matchCommunities ::
  "engine \<Rightarrow> int \<Rightarrow> bgp_result \<Rightarrow> query_result \<Rightarrow> bgp_result \<times> query_result" where
  "matchCommunities e nodeID br result =
     (case en_communities e of
        None \<Rightarrow> (br, result)
      | Some repo \<Rightarrow>
         (case repo nodeID of
            Inl err \<Rightarrow> (br, result)
          | Inr rules \<Rightarrow>
              if length rules = 0 then (br, result)
              else (let (rs, all) = match_routes_loop rules [] [] (br_routes br)
                    in (br\<lparr>br_routes := rs\<rparr>, result\<lparr>qr_matched_rules := all\<rparr>))))"

definition nodeName :: "engine \<Rightarrow> int \<Rightarrow> string" where
  "nodeName e nodeID =
     (if nodeID = 0 then []
      else case nr_get (en_repo e) nodeID of Inl err \<Rightarrow> [] | Inr n \<Rightarrow> n_name n)"

text \<open>The resolver memoizes; with a repository that answers the same during a query this is the
  function itself.\<close>

definition nodeNameForNeighborIP :: "engine \<Rightarrow> string \<Rightarrow> string" where
  "nodeNameForNeighborIP e neighborIP =
     (case en_bgp e of
        None \<Rightarrow> []
      | Some m \<Rightarrow>
         (case bm_node_for_ip m neighborIP of None \<Rightarrow> [] | Some nodeID \<Rightarrow> nodeName e nodeID))"

definition localAS :: "engine \<Rightarrow> u32" where
  "localAS e =
     (case en_bgp e of
        Some m \<Rightarrow> if re_global_as (bm_env m) > 0 then re_global_as (bm_env m) else en_local_as e
      | None \<Rightarrow> en_local_as e)"

definition attachRouteNodeNames :: "engine \<Rightarrow> bgp_result \<Rightarrow> int \<Rightarrow> bgp_result" where
  "attachRouteNodeNames e br queryNodeID =
     br\<lparr>br_routes := map (\<lambda>r. if r_node_name r = [] then r\<lparr>r_node_name := nodeName e queryNodeID\<rparr> else r)
                       (br_routes br)\<rparr>"

definition lookupBGPRoutes ::
  "engine \<Rightarrow> node_driver \<Rightarrow> string \<Rightarrow> int \<Rightarrow> node_type \<Rightarrow> go_error + bgp_result" where
  "lookupBGPRoutes e drv tgt queryNodeID nodeType =
     (let found =
        (case en_bgp e of
           Some m \<Rightarrow>
             if bm_ready m \<and> queryNodeID > 0 \<and> bm_has_neighbors m queryNodeID
             then BuildRouteResult (bm_env m) queryNodeID tgt (Some (nodeNameForNeighborIP e))
             else map_sum id (\<lambda>br. br\<lparr>br_routes := SortRoutesBestFirst (en_sort_routes e)
                    (EnsureBestAmongRoutes (en_group_order e (br_routes br)) (br_routes br))\<rparr>) (dr_bgp_route drv tgt)
         | None \<Rightarrow> map_sum id (\<lambda>br. br\<lparr>br_routes := SortRoutesBestFirst (en_sort_routes e)
                    (EnsureBestAmongRoutes (en_group_order e (br_routes br)) (br_routes br))\<rparr>) (dr_bgp_route drv tgt))
      in case found of
           Inl err \<Rightarrow> Inl err
         | Inr br \<Rightarrow>
             Inr (if nodeType \<noteq> NodeTypeLGNode
                  then br\<lparr>br_routes := ApplyOriginASPathToRoutes (localAS e) (br_routes br)\<rparr> else br))"

section \<open>The network map\<close>

fun split_map_nodes ::
  "engine \<Rightarrow> bool \<Rightarrow> node option list \<Rightarrow> MapNode list \<times> node list" where
  "split_map_nodes e ribReady [] = ([], [])"
| "split_map_nodes e ribReady (None # ns) = split_map_nodes e ribReady ns"
| "split_map_nodes e ribReady (Some n # ns) =
     (let (rib, agents) = split_map_nodes e ribReady ns in
      if ribReady \<and> (case en_bgp e of Some m \<Rightarrow> bm_active_session m (n_id n) | None \<Rightarrow> False)
      then (\<lparr>mn_id = n_id n, mn_name = n_name n, mn_type = n_type n\<rparr> # rib, agents)
      else if n_type n = NodeTypeLGNode \<and> CanExecute n CmdBGPRoute then (rib, n # agents)
      else (rib, agents))"

definition splitMapNodes :: "engine \<Rightarrow> node option list \<Rightarrow> MapNode list \<times> node list" where
  "splitMapNodes e ns =
     split_map_nodes e (case en_bgp e of Some m \<Rightarrow> bm_ready m | None \<Rightarrow> False) ns"

definition agentNodeASPath :: "engine \<Rightarrow> node \<Rightarrow> string \<Rightarrow> node_as_path list" where
  "agentNodeASPath e n pfx =
     (case NewDriver e n of
        Inl err \<Rightarrow> NoRouteNodeASPaths (n_id n) (n_name n)
      | Inr drv \<Rightarrow>
         (case dr_bgp_route drv pfx of
            Inl err \<Rightarrow> NoRouteNodeASPaths (n_id n) (n_name n)
          | Inr br \<Rightarrow> RoutesToNodeASPaths (en_sort_routes e) (n_id n) (n_name n)
                        (EnsureBestAmongRoutes (en_group_order e (br_routes br)) (br_routes br))))"

definition agentNodeASPaths :: "engine \<Rightarrow> node list \<Rightarrow> string \<Rightarrow> node_as_path list" where
  "agentNodeASPaths e ns pfx = concat (map (\<lambda>n. agentNodeASPath e n pfx) ns)"

definition buildNodeASPathMap :: "engine \<Rightarrow> string \<Rightarrow> node_as_path list" where
  "buildNodeASPathMap e pfx =
     (case nr_active (en_repo e) of
        Inl err \<Rightarrow> []
      | Inr ns \<Rightarrow>
          (let (ribNodes, agentNodes) = splitMapNodes e ns in
           if length ribNodes + length agentNodes < 2 then []
           else (if length ribNodes > 0
                 then (case en_bgp e of
                         Some m \<Rightarrow> BuildNodeASPaths (bm_env m) ribNodes pfx (localAS e)
                                     (Some (nodeNameForNeighborIP e))
                       | None \<Rightarrow> [])
                 else []) @ agentNodeASPaths e agentNodes pfx))"

section \<open>AS paths\<close>

definition emitASPathPartial :: "query_result \<Rightarrow> execute_option \<Rightarrow> engine_event list" where
  "emitASPathPartial result opt =
     (if \<not> eo_on_partial opt \<or> (length (qr_as_path result) = 0 \<and> length (qr_as_path_nodes result) = 0)
      then []
      else [EvPartial (empty_query_result\<lparr>qr_as_path := qr_as_path result,
              qr_as_path_prefix := qr_as_path_prefix result,
              qr_as_path_enriched := qr_as_path_enriched result,
              qr_as_path_nodes := qr_as_path_nodes result\<rparr>)])"

text \<open>\<open>add\<close> of \<open>collectBGPASPathASNs\<close>, over the set seen so far and the list built so far.\<close>

fun add_asns :: "u32 list \<times> u32 list \<Rightarrow> u32 list \<Rightarrow> u32 list \<times> u32 list" where
  "add_asns (seen, asns) [] = (seen, asns)"
| "add_asns (seen, asns) (asn # path) =
     (if asn = 0 \<or> asn \<in> set seen then add_asns (seen, asns) path
      else add_asns (asn # seen, asns @ [asn]) path)"

definition collectBGPASPathASNs :: "query_result \<Rightarrow> bgp_result \<Rightarrow> u32 list" where
  "collectBGPASPathASNs result br =
     (let s1 = add_asns ([], []) (qr_as_path result);
          s2 = foldl (\<lambda>s r. add_asns s (r_as_path r)) s1 (br_routes br);
          s3 = foldl (\<lambda>s p. add_asns s (np_as_path p)) s2 (qr_as_path_nodes result)
      in snd s3)"

definition enrich_asn :: "geo_lookups \<Rightarrow> u32 \<Rightarrow> as_info" where
  "enrich_asn g asn =
     (case gl_by_number g asn of
        (Some info, None) \<Rightarrow>
          if as_org_name info \<noteq> [] \<or> as_short_name info \<noteq> [] \<or> as_country_code info \<noteq> []
          then (let i = info\<lparr>as_asn := asn\<rparr>
                in if as_country_code i \<noteq> [] \<and> as_flag_emoji i = []
                   then i\<lparr>as_flag_emoji := CountryToFlag (as_country_code i)\<rparr> else i)
          else empty_as_info\<lparr>as_asn := asn\<rparr>
      | _ \<Rightarrow> empty_as_info\<lparr>as_asn := asn\<rparr>)"

definition enrichASPath ::
  "engine \<Rightarrow> bgp_result \<Rightarrow> query_result \<Rightarrow> execute_option \<Rightarrow> query_result \<times> engine_event list" where
  "enrichASPath e br result opt =
     (if length (br_routes br) = 0 then
        (result, if length (qr_as_path_nodes result) > 0 then emitASPathPartial result opt else [])
      else
        (let best = BestRoute (br_routes br);
             r1 = (if length (qr_as_path result) = 0
                   then (case best of Some i \<Rightarrow> result\<lparr>qr_as_path := r_as_path (br_routes br ! i)\<rparr>
                                    | None \<Rightarrow> result) else result);
             r2 = (if qr_as_path_prefix r1 = []
                   then (case best of Some i \<Rightarrow> r1\<lparr>qr_as_path_prefix := r_prefix (br_routes br ! i)\<rparr>
                                    | None \<Rightarrow> r1) else r1)
         in case en_geo e of
              None \<Rightarrow> (r2, emitASPathPartial r2 opt)
            | Some g \<Rightarrow>
                (let r3 = r2\<lparr>qr_as_path_enriched := map (enrich_asn g) (collectBGPASPathASNs r2 br)\<rparr>
                 in (r3, emitASPathPartial r3 opt))))"

definition ensureTargetASInResult ::
  "bgp_result \<Rightarrow> query_result \<Rightarrow> execute_option \<Rightarrow> query_result \<times> engine_event list" where
  "ensureTargetASInResult br result opt =
     (case br_target_as br of
        None \<Rightarrow> (result, [])
      | Some targetAS \<Rightarrow>
          if as_asn targetAS = 0 then (result, [])
          else if list_ex (\<lambda>entry. as_asn entry = as_asn targetAS) (qr_as_path_enriched result) then (result, [])
          else (let r = result\<lparr>qr_as_path_enriched := qr_as_path_enriched result @ [targetAS]\<rparr>
                in (r, emitASPathPartial r opt)))"

definition EnrichResultTargetAS :: "engine \<Rightarrow> bgp_result \<Rightarrow> string \<Rightarrow> bgp_result" where
  "EnrichResultTargetAS e br tgt =
     (case en_geo e of
        None \<Rightarrow> br
      | Some g \<Rightarrow> the (enrichResultTargetAS (en_dns e) (Some (gl_resolve g)) CountryToFlag tgt (Some br)))"

definition applyBGPASPath ::
  "engine \<Rightarrow> bgp_result \<Rightarrow> string \<Rightarrow> query_result \<Rightarrow> execute_option \<Rightarrow>
   bgp_result \<times> query_result \<times> engine_event list" where
  "applyBGPASPath e br tgt result opt =
     (if HasRouteASPath (Some br) then
        (case BestRoute (br_routes br) of
           None \<Rightarrow> (br, result, [])
         | Some i \<Rightarrow>
             (let r1 = result\<lparr>qr_as_path_prefix := r_prefix (br_routes br ! i),
                              qr_as_path := r_as_path (br_routes br ! i)\<rparr>;
                  (r2, evs) = enrichASPath e br r1 opt
              in (br, r2, emitASPathPartial r1 opt @ evs)))
      else
        (let br' = (if br_target_as br = None then EnrichResultTargetAS e br tgt else br) in
         case br_target_as br' of
           None \<Rightarrow> (br', result, [])
         | Some t \<Rightarrow>
             if as_asn t = 0 then (br', result, [])
             else (let r1 = result\<lparr>qr_as_path := [as_asn t], qr_as_path_prefix := trim_space tgt\<rparr>;
                       (r2, evs) = ensureTargetASInResult br' r1 opt
                   in (br', r2, emitASPathPartial r1 opt @ evs))))"

definition prefetchBGPASPath ::
  "engine \<Rightarrow> node_driver \<Rightarrow> string \<Rightarrow> int \<Rightarrow> node_type \<Rightarrow> execute_option \<Rightarrow> engine_event list" where
  "prefetchBGPASPath e drv tgt queryNodeID nodeType opt =
     (case lookupBGPRoutes e drv tgt queryNodeID nodeType of
        Inl err \<Rightarrow> []
      | Inr br \<Rightarrow> snd (snd (applyBGPASPath e br tgt empty_query_result opt)))"

section \<open>Executing a query\<close>

text \<open>What a run depends on besides the collaborators: the time of the rate-limit check, the error of
  the context if it ends before the pool has a slot, whether the watcher saw \<open>ShouldStop\<close>, and
  the measured duration.\<close>

record exec_run =
  xr_now :: go_time
  xr_pool :: "go_error option"
  xr_stopped :: bool
  xr_elapsed_ms :: int

record exec_outcome =
  ex_result :: query_result
  ex_error :: "go_error option"
  ex_events :: "engine_event list"
  ex_prefetch :: "engine_event list"
  ex_limiter :: "RateLimiter option"

definition error_result :: "query \<Rightarrow> string \<Rightarrow> string \<Rightarrow> query_result" where
  "error_result q errorCode msg =
     empty_query_result\<lparr>qr_id := q_id q, qr_status := StatusError, qr_error_code := errorCode,
                        qr_error_msg := msg\<rparr>"

definition early_exit ::
  "query \<Rightarrow> string \<Rightarrow> string \<Rightarrow> go_error \<Rightarrow> RateLimiter option \<Rightarrow> exec_outcome" where
  "early_exit q errorCode msg err rl =
     \<lparr>ex_result = error_result q errorCode msg, ex_error = Some err, ex_events = [], ex_prefetch = [],
      ex_limiter = rl\<rparr>"

text \<open>The function the pool runs: the error, the result as it stands, and the log.\<close>

definition run_ping ::
  "node_driver \<Rightarrow> query \<Rightarrow> execute_option \<Rightarrow> query_result \<Rightarrow> go_error option \<times> query_result \<times> engine_event list" where
  "run_ping drv q opt result =
     (case dr_ping drv (q_target q) (qo_ping_count (q_options q)) of
        (ls, Inl err) \<Rightarrow> (Some err, result, emit_lines opt ls)
      | (ls, Inr pr) \<Rightarrow>
          (None, result\<lparr>qr_parsed := Some (ParsedPing (Some pr)), qr_raw := pg_raw pr\<rparr>, emit_lines opt ls))"

definition run_traceroute ::
  "engine \<Rightarrow> node_driver \<Rightarrow> query \<Rightarrow> execute_option \<Rightarrow> query_result \<Rightarrow>
   go_error option \<times> query_result \<times> engine_event list" where
  "run_traceroute e drv q opt result =
     (case dr_traceroute drv (q_target q) (qo_max_hops (q_options q)) of
        (ls, Inl err) \<Rightarrow> (Some err, result, emit_lines opt ls)
      | (ls, Inr tr) \<Rightarrow>
          (None, result\<lparr>qr_parsed := Some (ParsedTraceroute (Some (tr\<lparr>tr_hops := enrichHops e (tr_hops tr)\<rparr>))),
                        qr_raw := tr_raw tr\<rparr>, emit_lines opt ls))"

text \<open>\<open>result.Parsed\<close> points to the BGP result, so later changes to the latter show in it.\<close>

definition run_bgp_route ::
  "engine \<Rightarrow> node_driver \<Rightarrow> node \<Rightarrow> query \<Rightarrow> execute_option \<Rightarrow> query_result \<Rightarrow>
   go_error option \<times> query_result \<times> engine_event list" where
  "run_bgp_route e drv n q opt result =
     (case lookupBGPRoutes e drv (q_target q) (q_node_id q) (n_type n) of
        Inl err \<Rightarrow> (Some err, result, [])
      | Inr br0 \<Rightarrow>
          (let br1 = attachRouteNodeNames e br0 (q_node_id q);
               br2 = (if \<not> HasRouteASPath (Some br1) then EnrichResultTargetAS e br1 (q_target q) else br1);
               r1 = result\<lparr>qr_parsed := Some (ParsedBGP (Some br2)), qr_raw := br_raw br2\<rparr>;
               (br3, r2) = matchCommunities e (q_node_id q) br2 r1;
               r3 = r2\<lparr>qr_parsed := Some (ParsedBGP (Some br3))\<rparr>;
               evs1 = (if eo_on_partial opt then [EvPartial r3] else []);
               evs2 = (if eo_on_line opt \<and> qr_raw r3 \<noteq> [] then emitRawLines (qr_raw r3) else []);
               r4 = r3\<lparr>qr_as_path_nodes := buildNodeASPathMap e (q_target q)\<rparr>;
               (br4, r5, evs3) = applyBGPASPath e br3 (q_target q) r4 opt
           in (None, r5\<lparr>qr_parsed := Some (ParsedBGP (Some br4))\<rparr>, evs1 @ evs2 @ evs3)))"

definition run_command ::
  "engine \<Rightarrow> node_driver \<Rightarrow> node \<Rightarrow> query \<Rightarrow> execute_option \<Rightarrow> query_result \<Rightarrow>
   go_error option \<times> query_result \<times> engine_event list" where
  "run_command e drv n q opt result =
     (if q_command q = CmdPing then run_ping drv q opt result
      else if q_command q = CmdTraceroute then run_traceroute e drv q opt result
      else if q_command q = CmdBGPRoute then run_bgp_route e drv n q opt result
      else (None, result, []))"

text \<open>The end of \<open>Execute\<close>: raw output of a command that streamed nothing, the duration, and the
  final status; an error after an early stop is none.\<close>

definition has_line :: "engine_event list \<Rightarrow> bool" where
  "has_line evs \<longleftrightarrow> list_ex (\<lambda>ev. case ev of EvLine _ \<Rightarrow> True | EvPartial _ \<Rightarrow> False) evs"

definition finish ::
  "query \<Rightarrow> execute_option \<Rightarrow> exec_run \<Rightarrow> go_error option \<times> query_result \<times> engine_event list \<Rightarrow>
   query_result \<times> engine_event list" where
  "finish q opt run out =
     (case out of
        (err, result, evs) \<Rightarrow>
          (let evs' = (if err = None \<and> eo_on_line opt \<and> qr_raw result \<noteq> [] \<and> \<not> has_line evs \<and>
                          q_command q \<noteq> CmdBGPRoute
                       then evs @ emitRawLines (qr_raw result) else evs);
               r = result\<lparr>qr_duration_ms := xr_elapsed_ms run\<rparr>;
               err' = (if eo_should_stop opt \<and> xr_stopped run then None else err)
           in (case err' of
                 Some x \<Rightarrow> r\<lparr>qr_status := StatusError, qr_error_code := ClassifyError x,
                             qr_error_msg := SanitizeErrorMsg x\<rparr>
               | None \<Rightarrow> r\<lparr>qr_status := StatusDone, qr_error_code := [], qr_error_msg := []\<rparr>, evs')))"

definition Execute ::
  "engine \<Rightarrow> RateLimiter option \<Rightarrow> exec_run \<Rightarrow> execute_option \<Rightarrow> query \<Rightarrow> exec_outcome" where
  "Execute e limiter run opt q =
     (let (allowed, rl) = (case limiter of
              None \<Rightarrow> (True, None)
            | Some l \<Rightarrow> map_prod id Some (Allow (xr_now run) (q_source_ip q) l))
      in if \<not> allowed then early_exit q ''RATE_LIMITED'' ''rate limit exceeded'' ErrRateLimited rl
         else case nr_get (en_repo e) (q_node_id q) of
           Inl err \<Rightarrow> early_exit q ''NODE_NOT_FOUND'' (en_error_text e err) err rl
         | Inr n \<Rightarrow>
             if \<not> CanExecute n (q_command q)
             then early_exit q ''COMMAND_DISABLED'' ''command not enabled for this node'' ErrCommandDisabled rl
             else case NewDriver e n of
               Inl err \<Rightarrow> early_exit q ''DRIVER_ERROR'' (en_error_text e err) err rl
             | Inr drv \<Rightarrow>
                 (let result = empty_query_result\<lparr>qr_id := q_id q, qr_status := StatusRunning\<rparr>;
                      out = (case xr_pool run of
                               Some err \<Rightarrow> (Some err, result, [])
                             | None \<Rightarrow> run_command e drv n q opt result);
                      (res, evs) = finish q opt run out
                  in \<lparr>ex_result = res, ex_error = None, ex_events = evs,
                      ex_prefetch = (if q_command q = CmdPing \<or> q_command q = CmdTraceroute
                                     then prefetchBGPASPath e drv (q_target q) (q_node_id q) (n_type n) opt
                                     else []),
                      ex_limiter = rl\<rparr>))"

section \<open>Lemmas\<close>

lemma add_asns_append: "add_asns s (xs @ ys) = add_asns (add_asns s xs) ys"
  by (induction s xs rule: add_asns.induct) auto

lemma add_asns_foldl: "foldl (\<lambda>s x. add_asns s (f x)) s xs = add_asns s (concat (map f xs))"
  by (induction xs arbitrary: s) (auto simp: add_asns_append)

lemma add_asns_dedup:
  "snd (add_asns (seen, asns) path) = asns @ dedup_by (\<lambda>a. a) seen (filter (\<lambda>a. a \<noteq> 0) path)"
  by (induction "(seen, asns)" path arbitrary: seen asns rule: add_asns.induct) auto

text \<open>The ASNs whose names are looked up: every non-zero ASN of the shown path, of the routes and of
  the map, once each and in order of first appearance.\<close>

lemma collectBGPASPathASNs_eq:
  "collectBGPASPathASNs result br =
     dedup_by (\<lambda>a. a) [] (filter (\<lambda>a. a \<noteq> 0)
       (qr_as_path result @ concat (map r_as_path (br_routes br)) @
        concat (map np_as_path (qr_as_path_nodes result))))"
  unfolding collectBGPASPathASNs_def Let_def add_asns_foldl add_asns_append[symmetric] add_asns_dedup
  by simp

lemma collectBGPASPathASNs_facts:
  "distinct (collectBGPASPathASNs result br)"
  "set (collectBGPASPathASNs result br) =
     (set (qr_as_path result) \<union> (\<Union>r \<in> set (br_routes br). set (r_as_path r)) \<union>
      (\<Union>p \<in> set (qr_as_path_nodes result). set (np_as_path p))) - {0}"
proof -
  let ?xs = "filter (\<lambda>a. a \<noteq> 0) (qr_as_path result @ concat (map r_as_path (br_routes br)) @
        concat (map np_as_path (qr_as_path_nodes result)))"
  show "distinct (collectBGPASPathASNs result br)"
    unfolding collectBGPASPathASNs_eq using distinct_dedup_by[of "\<lambda>a. a" "[]" ?xs] by simp
  show "set (collectBGPASPathASNs result br) =
     (set (qr_as_path result) \<union> (\<Union>r \<in> set (br_routes br). set (r_as_path r)) \<union>
      (\<Union>p \<in> set (qr_as_path_nodes result). set (np_as_path p))) - {0}"
    unfolding collectBGPASPathASNs_eq using dedup_by_image[of "\<lambda>a. a" "[]" ?xs] by auto
qed

lemma as_asn_enrich_asn [simp]: "as_asn (enrich_asn g asn) = asn"
  by (auto simp: enrich_asn_def empty_as_info_def Let_def split: prod.splits option.splits)

lemma collect_rules_dedup:
  "snd (collect_rules seen acc rules) = acc @ map Some (dedup_by cr_id seen (List.map_filter (\<lambda>r. r) rules))"
  by (induction seen acc rules rule: collect_rules.induct) (auto simp: map_filter_simps)

lemma collect_rules_append:
  "collect_rules seen acc (xs @ ys) =
     (case collect_rules seen acc xs of (seen', acc') \<Rightarrow> collect_rules seen' acc' ys)"
  by (induction seen acc xs rule: collect_rules.induct) auto

lemma match_routes_loop_eq:
  "match_routes_loop rules seen acc rs =
     (map (\<lambda>r. r\<lparr>r_matched_rules := MatchCommunityRules rules (r_communities r)\<rparr>) rs,
      snd (collect_rules seen acc (concat (map (\<lambda>r. MatchCommunityRules rules (r_communities r)) rs))))"
  by (induction rules seen acc rs rule: match_routes_loop.induct)
     (auto simp: Let_def collect_rules_append split: prod.splits)

lemma map_filter_id: "List.map_filter (\<lambda>r. r) (concat xss) = concat (map (List.map_filter (\<lambda>r. r)) xss)"
  by (induction xss) (simp_all add: map_filter_simps List.map_filter_def)

lemma set_map_filter_id: "set (List.map_filter (\<lambda>r. r) xs) = {x. Some x \<in> set xs}"
  by (force simp: List.map_filter_def image_iff)

text \<open>the rules shown for a result are those matched by its routes, one per rule id, and every
  route carries exactly the active rules whose community it has; nothing else of the routes and of
  the result changes.\<close>

theorem matchCommunities_correct:
  assumes "en_communities e = Some repo" and "repo nodeID = Inr rules" and "rules \<noteq> []"
    and "matchCommunities e nodeID br result = (br', result')"
  shows "br_routes br' = map (\<lambda>r. r\<lparr>r_matched_rules := MatchCommunityRules rules (r_communities r)\<rparr>) (br_routes br) \<and>
    (\<exists>ms. qr_matched_rules result' = map Some ms \<and> distinct (map cr_id ms) \<and>
       cr_id ` set ms = cr_id ` {m. \<exists>r \<in> set (br_routes br'). Some m \<in> set (r_matched_rules r)}) \<and>
    result' = result\<lparr>qr_matched_rules := qr_matched_rules result'\<rparr> \<and> br' = br\<lparr>br_routes := br_routes br'\<rparr>"
proof -
  let ?match = "\<lambda>r. MatchCommunityRules rules (r_communities r)"
  let ?found = "List.map_filter (\<lambda>r. r) (concat (map ?match (br_routes br)))"
  have all: "set ?found = {m. \<exists>r \<in> set (br_routes br). Some m \<in> set (?match r)}"
    by (auto simp: set_map_filter_id)
  have "br' = br\<lparr>br_routes := map (\<lambda>r. r\<lparr>r_matched_rules := ?match r\<rparr>) (br_routes br)\<rparr>"
    "result' = result\<lparr>qr_matched_rules := map Some (dedup_by cr_id [] ?found)\<rparr>"
    using assms by (auto simp: matchCommunities_def match_routes_loop_eq collect_rules_dedup)
  moreover have "distinct (map cr_id (dedup_by cr_id [] ?found))"
    using distinct_dedup_by by blast
  moreover have "cr_id ` set (dedup_by cr_id [] ?found) = cr_id ` set ?found"
    by (simp add: dedup_by_image)
  ultimately show ?thesis by (auto simp: all)
qed

section \<open>An example engine\<close>

definition example_rule :: community_rule where
  "example_rule =
     \<lparr>cr_id = 7, cr_community = ''65000:1'', cr_severity = SeverityInfo, cr_message_i18n = [],
      cr_scope = [], cr_node_id = None, cr_active = True, cr_created_at = 0, cr_updated_at = 0\<rparr>"

definition example_node :: "node_type \<Rightarrow> command_type list \<Rightarrow> node" where
  "example_node ty cmds =
     \<lparr>n_id = 1, n_name = ''fra1'', n_description = [], n_type = ty, n_city = [], n_country = [],
      n_lat = None, n_lon = None, n_credential_id = None, n_active = True, n_is_default = False,
      n_enabled_cmds = cmds, n_bgp_config = None, n_agent_url = [], n_agent_token = [],
      n_created_at = 0, n_updated_at = 0\<rparr>"

definition example_driver :: "bgp_route list \<Rightarrow> node_driver" where
  "example_driver routes =
     \<lparr>dr_ping = (\<lambda>_ _. ([''line''], Inl (WrapError ''ping: '' CtxDeadlineExceeded))),
      dr_traceroute = (\<lambda>_ _. ([], Inr \<lparr>tr_hops = [], tr_raw = ''raw''\<rparr>)),
      dr_bgp_route = (\<lambda>_. Inr \<lparr>br_routes = routes, br_raw = ''raw'', br_target_as = None\<rparr>)\<rparr>"

definition example_engine :: "node \<Rightarrow> bgp_route list \<Rightarrow> engine" where
  "example_engine n routes =
     \<lparr>en_repo = \<lparr>nr_get = (\<lambda>i. if i = n_id n then Inr n else Inl ErrNodeNotFound), nr_active = Inr [Some n]\<rparr>,
      en_communities = Some (\<lambda>_. Inr [Some example_rule]),
      en_standalone = (\<lambda>_. Inr (example_driver routes)), en_lgnode = (\<lambda>_. Inr (example_driver routes)),
      en_geo = None, en_bgp = None, en_local_as = 64500, en_dns = example_lookup,
      en_sort_routes = slice_insertion_sort, en_group_order = (\<lambda>rs. remdups (map r_prefix rs)),
      en_error_text = (\<lambda>_. ''error'')\<rparr>"

definition example_query :: "command_type \<Rightarrow> query" where
  "example_query cmd =
     \<lparr>q_id = ''q1'', q_node_id = 1, q_command = cmd, q_target = ''8.8.8.8'',
      q_options = \<lparr>qo_ping_count = 5, qo_max_hops = 30, qo_protocol = []\<rparr>,
      q_source_ip = ''192.0.2.9'', q_user_id = None, q_created_at = 0\<rparr>"

definition plain_run :: exec_run where
  "plain_run = \<lparr>xr_now = 0, xr_pool = None, xr_stopped = False, xr_elapsed_ms = 12\<rparr>"

definition all_callbacks :: execute_option where
  "all_callbacks = \<lparr>eo_on_line = True, eo_on_partial = True, eo_should_stop = True\<rparr>"

lemmas example_defs = example_rule_def example_node_def example_driver_def example_engine_def
  example_query_def plain_run_def all_callbacks_def

lemma matchCommunities_correct_witness:
  "map cr_id (map the (qr_matched_rules (snd (matchCommunities
      (example_engine (example_node NodeTypeStandalone []) []) 1
      \<lparr>br_routes = [empty_route\<lparr>r_communities := [''65000:1'']\<rparr>, empty_route\<lparr>r_communities := [''65000:1'']\<rparr>],
       br_raw = [], br_target_as = None\<rparr> empty_query_result)))) = [7]"
proof -
  let ?e = "example_engine (example_node NodeTypeStandalone []) []"
  let ?br = "\<lparr>br_routes = [empty_route\<lparr>r_communities := [''65000:1'']\<rparr>, empty_route\<lparr>r_communities := [''65000:1'']\<rparr>],
       br_raw = [], br_target_as = None\<rparr>"
  let ?out = "matchCommunities ?e 1 ?br empty_query_result"
  have m: "MatchCommunityRules [Some example_rule] [''65000:1''] = [Some example_rule]" by code_simp
  have "?out = (fst ?out, snd ?out)" by simp
  from matchCommunities_correct[OF _ _ _ this, of "\<lambda>_. Inr [Some example_rule]" "[Some example_rule]"]
  obtain ms where r: "br_routes (fst ?out) = map (\<lambda>r. r\<lparr>r_matched_rules := [Some example_rule]\<rparr>) (br_routes ?br)"
    and ms: "qr_matched_rules (snd ?out) = map Some ms" "distinct (map cr_id ms)"
      "cr_id ` set ms = cr_id ` {m. \<exists>r \<in> set (br_routes (fst ?out)). Some m \<in> set (r_matched_rules r)}"
    using m by (auto simp: example_engine_def)
  have "cr_id ` set ms = {7}" unfolding ms(3) r by (auto simp: example_rule_def)
  moreover have "length (map cr_id ms) = card (cr_id ` set ms)"
    using distinct_card[OF ms(2)] by simp
  ultimately have "map cr_id ms = [7]" by (auto simp: length_Suc_conv)
  then show ?thesis using ms(1) by (simp add: comp_def)
qed

section \<open>The outcome of a query\<close>

lemma finish_facts:
  assumes "finish q opt run (err, result, evs) = (res, evs')"
  shows "qr_id res = qr_id result" "qr_parsed res = qr_parsed result" "qr_raw res = qr_raw result"
    "qr_as_path res = qr_as_path result" "qr_as_path_enriched res = qr_as_path_enriched result"
    "qr_as_path_prefix res = qr_as_path_prefix result"
    "qr_as_path_nodes res = qr_as_path_nodes result"
    "qr_matched_rules res = qr_matched_rules result" "qr_duration_ms res = xr_elapsed_ms run"
    "(case (if eo_should_stop opt \<and> xr_stopped run then None else err) of
        None \<Rightarrow> qr_status res = StatusDone \<and> qr_error_code res = [] \<and> qr_error_msg res = []
      | Some x \<Rightarrow> qr_status res = StatusError \<and> qr_error_code res = ClassifyError x \<and>
          qr_error_msg res = SanitizeErrorMsg x)"
  using assms by (auto simp: finish_def Let_def split: option.splits)

lemma error_result_fields [simp]:
  "qr_id (error_result q c m) = q_id q" "qr_status (error_result q c m) = StatusError"
  "qr_error_code (error_result q c m) = c" "qr_error_msg (error_result q c m) = m"
  "qr_parsed (error_result q c m) = None" "qr_raw (error_result q c m) = []"
  "qr_as_path (error_result q c m) = []"
  by (simp_all add: error_result_def empty_query_result_def)

lemma enrichASPath_fields:
  assumes "enrichASPath e br result opt = (r, evs)"
  shows "qr_id r = qr_id result \<and> qr_raw r = qr_raw result \<and> qr_parsed r = qr_parsed result \<and>
    qr_as_path_nodes r = qr_as_path_nodes result"
  using assms
  by (auto simp: enrichASPath_def Let_def split: option.splits if_splits)

lemma ensureTargetAS_fields:
  assumes "ensureTargetASInResult br result opt = (r, evs)"
  shows "qr_id r = qr_id result \<and> qr_raw r = qr_raw result \<and> qr_parsed r = qr_parsed result \<and>
    qr_as_path_nodes r = qr_as_path_nodes result \<and> qr_as_path r = qr_as_path result"
  using assms by (auto simp: ensureTargetASInResult_def Let_def split: option.splits if_splits)

lemma applyBGPASPath_fields:
  assumes "applyBGPASPath e br tgt result opt = (br', r, evs)"
  shows "qr_id r = qr_id result \<and> qr_raw r = qr_raw result \<and> qr_parsed r = qr_parsed result \<and>
    qr_as_path_nodes r = qr_as_path_nodes result"
  using assms
  by (auto simp: applyBGPASPath_def Let_def split: option.splits if_splits prod.splits
      dest!: enrichASPath_fields ensureTargetAS_fields)

lemma matchCommunities_fields:
  assumes "matchCommunities e nodeID br result = (br', r)"
  shows "qr_id r = qr_id result \<and> qr_raw r = qr_raw result \<and> qr_parsed r = qr_parsed result"
  using assms
  by (auto simp: matchCommunities_def Let_def split: option.splits sum.splits if_splits prod.splits)

lemma run_command_fields:
  assumes "run_command e drv n q opt result = (err, r, evs)"
  shows "qr_id r = qr_id result" and "err \<noteq> None \<Longrightarrow> r = result"
proof -
  show "err \<noteq> None \<Longrightarrow> r = result"
    using assms
    by (auto simp: run_command_def run_ping_def run_traceroute_def run_bgp_route_def Let_def
        split: if_splits sum.splits prod.splits)
  show "qr_id r = qr_id result"
    using assms
    by (auto simp: run_command_def run_ping_def run_traceroute_def run_bgp_route_def Let_def
        split: if_splits sum.splits prod.splits dest!: applyBGPASPath_fields matchCommunities_fields)
qed

lemma ClassifyError_nonempty: "ClassifyError err \<noteq> []"
  by (simp add: ClassifyError_def)

text \<open>The checks that come before a driver runs, in the order of the code.\<close>

definition denied :: "RateLimiter option \<Rightarrow> exec_run \<Rightarrow> query \<Rightarrow> bool" where
  "denied limiter run q \<longleftrightarrow>
     (case limiter of None \<Rightarrow> False | Some l \<Rightarrow> \<not> fst (Allow (xr_now run) (q_source_ip q) l))"

lemma Execute_cases:
  obtains (denied) "denied limiter run q"
      and "\<exists>rl. Execute e limiter run opt q = early_exit q ''RATE_LIMITED'' ''rate limit exceeded'' ErrRateLimited rl"
  | (no_node) err where "\<not> denied limiter run q" and "nr_get (en_repo e) (q_node_id q) = Inl err"
      and "\<exists>rl. Execute e limiter run opt q = early_exit q ''NODE_NOT_FOUND'' (en_error_text e err) err rl"
  | (disabled) n where "\<not> denied limiter run q" and "nr_get (en_repo e) (q_node_id q) = Inr n"
      and "\<not> CanExecute n (q_command q)"
      and "\<exists>rl. Execute e limiter run opt q =
        early_exit q ''COMMAND_DISABLED'' ''command not enabled for this node'' ErrCommandDisabled rl"
  | (no_driver) n err where "\<not> denied limiter run q" and "nr_get (en_repo e) (q_node_id q) = Inr n"
      and "CanExecute n (q_command q)" and "NewDriver e n = Inl err"
      and "\<exists>rl. Execute e limiter run opt q = early_exit q ''DRIVER_ERROR'' (en_error_text e err) err rl"
  | (runs) n drv err r0 evs0 res evs pre rl where "\<not> denied limiter run q"
      and "nr_get (en_repo e) (q_node_id q) = Inr n"
      and "CanExecute n (q_command q)" and "NewDriver e n = Inr drv"
      and "(case xr_pool run of
              Some x \<Rightarrow> (Some x, empty_query_result\<lparr>qr_id := q_id q, qr_status := StatusRunning\<rparr>, [])
            | None \<Rightarrow> run_command e drv n q opt (empty_query_result\<lparr>qr_id := q_id q, qr_status := StatusRunning\<rparr>))
           = (err, r0, evs0)"
      and "finish q opt run (err, r0, evs0) = (res, evs)"
      and "Execute e limiter run opt q =
        \<lparr>ex_result = res, ex_error = None, ex_events = evs, ex_prefetch = pre, ex_limiter = rl\<rparr>"
proof -
  obtain allowed rl where a: "(case limiter of
      None \<Rightarrow> (True, None)
    | Some l \<Rightarrow> map_prod id Some (Allow (xr_now run) (q_source_ip q) l)) = (allowed, rl)"
    by (cases "case limiter of None \<Rightarrow> (True, None)
      | Some l \<Rightarrow> map_prod id Some (Allow (xr_now run) (q_source_ip q) l)") auto
  have d: "denied limiter run q \<longleftrightarrow> \<not> allowed"
    using a by (auto simp: denied_def map_prod_def split: option.splits prod.splits)
  note unfold = Execute_def a Let_def prod.case
  show thesis
  proof (cases "allowed")
    case False
    then show thesis using denied d by (simp add: unfold) blast
  next
    case allowed: True
    show thesis
    proof (cases "nr_get (en_repo e) (q_node_id q)")
      case (Inl err)
      then show thesis using no_node[OF _ Inl] d allowed by (simp add: unfold) blast
    next
      case (Inr n)
      show thesis
      proof (cases "CanExecute n (q_command q)")
        case False
        then show thesis using disabled[OF _ Inr False] d allowed Inr False by (simp add: unfold) blast
      next
        case can: True
        show thesis
        proof (cases "NewDriver e n")
          case (Inl err)
          then show thesis using no_driver[OF _ Inr can Inl] d allowed Inr can Inl by (simp add: unfold) blast
        next
          case drv: (Inr drv)
          obtain err r0 evs0 where out: "(case xr_pool run of
              Some x \<Rightarrow> (Some x, empty_query_result\<lparr>qr_id := q_id q, qr_status := StatusRunning\<rparr>, [])
            | None \<Rightarrow> run_command e drv n q opt (empty_query_result\<lparr>qr_id := q_id q, qr_status := StatusRunning\<rparr>))
            = (err, r0, evs0)" by (rule prod_cases3)
          obtain res evs where fin: "finish q opt run (err, r0, evs0) = (res, evs)" by (rule prod.exhaust)
          show thesis
            using runs[OF _ Inr can drv out fin] d allowed Inr can drv out fin by (simp add: unfold)
        qed
      qed
    qed
  qed
qed

text \<open>C5: whatever happens, a query ends with a final result under its own id: done without an error
  code, or an error with a code and without output. An error is returned beside the result exactly
  for the checks before the driver runs, with the code of the first check that fails; then nothing
  was streamed, prefetched or run.\<close>

theorem Execute_outcome:
  "let out = Execute e limiter run opt q; res = ex_result out in
     qr_id res = q_id q \<and>
     (qr_status res = StatusDone \<and> qr_error_code res = [] \<and> qr_error_msg res = [] \<or>
      qr_status res = StatusError \<and> qr_error_code res \<noteq> [] \<and> qr_parsed res = None \<and> qr_raw res = [] \<and>
      qr_as_path res = []) \<and>
     (case ex_error out of
        None \<Rightarrow> \<not> denied limiter run q \<and> (\<exists>n drv. nr_get (en_repo e) (q_node_id q) = Inr n \<and>
          CanExecute n (q_command q) \<and> NewDriver e n = Inr drv)
      | Some err \<Rightarrow> ex_events out = [] \<and> ex_prefetch out = [] \<and> qr_status res = StatusError \<and>
          qr_error_code res =
            (if denied limiter run q then ''RATE_LIMITED''
             else case nr_get (en_repo e) (q_node_id q) of
               Inl x \<Rightarrow> ''NODE_NOT_FOUND''
             | Inr n \<Rightarrow> if CanExecute n (q_command q) then ''DRIVER_ERROR'' else ''COMMAND_DISABLED''))"
proof (cases rule: Execute_cases[of limiter run q e opt])
  case (runs n drv err r0 evs0 res evs pre rl)
  let ?init = "empty_query_result\<lparr>qr_id := q_id q, qr_status := StatusRunning\<rparr>"
  have r0: "qr_id r0 = q_id q" "err \<noteq> None \<Longrightarrow> r0 = ?init"
    using runs(5) run_command_fields[of e drv n q opt ?init err r0 evs0]
    by (auto split: option.splits)
  note fin = finish_facts[OF runs(6)]
  show ?thesis
  proof (cases "if eo_should_stop opt \<and> xr_stopped run then None else err")
    case None
    then show ?thesis
      using runs(1-4) fin r0(1) by (auto simp: runs(7) Let_def)
  next
    case (Some x)
    then have "err \<noteq> None" by (auto split: if_splits)
    then have "r0 = ?init" by (rule r0(2))
    then show ?thesis
      using Some runs(1-4) fin by (auto simp: runs(7) Let_def empty_query_result_def ClassifyError_nonempty)
  qed
qed (auto simp: Let_def early_exit_def)

section \<open>BGP queries\<close>

lemma EnrichResultTargetAS_routes [simp]: "br_routes (EnrichResultTargetAS e br tgt) = br_routes br"
  by (auto simp: EnrichResultTargetAS_def enrichResultTargetAS_def Let_def
      split: option.splits sum.splits if_splits)

lemma EnrichResultTargetAS_raw [simp]: "br_raw (EnrichResultTargetAS e br tgt) = br_raw br"
  by (auto simp: EnrichResultTargetAS_def enrichResultTargetAS_def Let_def
      split: option.splits sum.splits if_splits)

lemma matchCommunities_paths:
  "matchCommunities e nodeID br result = (br', r) \<Longrightarrow> map r_as_path (br_routes br') = map r_as_path (br_routes br)"
  by (auto simp: matchCommunities_def match_routes_loop_eq Let_def split: option.splits sum.splits if_splits)

lemma attachRouteNodeNames_paths:
  "map r_as_path (br_routes (attachRouteNodeNames e br nodeID)) = map r_as_path (br_routes br)"
  by (simp add: attachRouteNodeNames_def)

lemma ApplyOrigin_starts:
  "localAS' \<noteq> 0 \<Longrightarrow> p \<in> set (map r_as_path (ApplyOriginASPathToRoutes localAS' rs)) \<Longrightarrow> take 1 p = [localAS']"
  unfolding ApplyOrigin_paths by (auto simp: neq_Nil_conv)

lemma lookupBGPRoutes_paths:
  assumes "lookupBGPRoutes e drv tgt nodeID ty = Inr br" and "ty \<noteq> NodeTypeLGNode" and "localAS e \<noteq> 0"
    and "p \<in> set (map r_as_path (br_routes br))"
  shows "take 1 p = [localAS e]"
proof -
  obtain br0 where "br = br0\<lparr>br_routes := ApplyOriginASPathToRoutes (localAS e) (br_routes br0)\<rparr>"
    using assms(1,2) by (auto simp: lookupBGPRoutes_def Let_def split: sum.splits)
  then show ?thesis using ApplyOrigin_starts[OF assms(3)] assms(4) by simp
qed

lemma HasRouteASPath_best:
  assumes "HasRouteASPath (Some br)"
  obtains i where "BestRoute (br_routes br) = Some i" and "i < length (br_routes br)"
    and "r_as_path (br_routes br ! i) \<noteq> []"
proof -
  obtain i where i: "BestRoute (br_routes br) = Some i" "r_as_path (br_routes br ! i) \<noteq> []"
    using assms by (auto simp: HasRouteASPath_def split: option.splits)
  have "best_flag_loop k rs = Some j \<Longrightarrow> k \<le> j \<and> j < k + length rs" for k j rs
    by (induction k rs rule: best_flag_loop.induct) (fastforce split: if_splits)+
  then have "i < length (br_routes br)"
    using i(1) by (fastforce simp: BestRoute_def split: if_splits option.splits)
  with i that show thesis by blast
qed

lemma applyBGPASPath_best:
  assumes "applyBGPASPath e br tgt result opt = (br', r, evs)" and "HasRouteASPath (Some br)"
  shows "br' = br \<and> (\<exists>route \<in> set (br_routes br). qr_as_path r = r_as_path route) \<and>
    (\<forall>g. en_geo e = Some g \<longrightarrow> qr_as_path_enriched r = map (enrich_asn g) (collectBGPASPathASNs r br))"
proof -
  obtain i where i: "BestRoute (br_routes br) = Some i" "i < length (br_routes br)"
      "r_as_path (br_routes br ! i) \<noteq> []"
    by (rule HasRouteASPath_best[OF assms(2)])
  let ?r1 = "result\<lparr>qr_as_path_prefix := r_prefix (br_routes br ! i), qr_as_path := r_as_path (br_routes br ! i)\<rparr>"
  obtain evs2 where en: "enrichASPath e br ?r1 opt = (r, evs2)" and br: "br' = br"
    using assms i(1) by (auto simp: applyBGPASPath_def Let_def split: prod.splits)
  have ne: "br_routes br \<noteq> []" using i(2) by auto
  have path: "qr_as_path r = r_as_path (br_routes br ! i)"
    using en ne i(3) by (auto simp: enrichASPath_def Let_def split: option.splits if_splits)
  have "qr_as_path_enriched r = map (enrich_asn g) (collectBGPASPathASNs r br)" if "en_geo e = Some g" for g
    using en ne i(1,3) that
    by (auto simp: enrichASPath_def Let_def collectBGPASPathASNs_eq split: if_splits)
  then show ?thesis using br path i(2) by auto
qed


lemma run_bgp_route_Inr:
  assumes "lookupBGPRoutes e drv (q_target q) (q_node_id q) (n_type n) = Inr br0"
  shows "\<exists>r evs br. run_bgp_route e drv n q opt result = (None, r, evs) \<and> qr_parsed r = Some (ParsedBGP (Some br))"
  using assms by (auto simp: run_bgp_route_def Let_def split: prod.split)

lemma cmd_distinct: "CmdBGPRoute \<noteq> CmdPing" "CmdBGPRoute \<noteq> CmdTraceroute" "CmdTraceroute \<noteq> CmdPing"
  by (simp_all add: cmd_defs)


section \<open>Streaming\<close>

lemma split_char_no_lf: "l \<in> set (split_char (CHR 0x0A) s) \<Longrightarrow> CHR 0x0A \<notin> set l"
  by (rule split_char_no_sep)

lemma emitRawLines_lines:
  assumes "EvLine l \<in> set (emitRawLines raw)"
  shows "l \<noteq> [] \<and> CHR 0x0A \<notin> set l \<and> last l \<noteq> CHR 0x0D"
proof -
  define cr where "cr = (\<lambda>c. c = CHR 0x0D)"
  obtain w where w: "w \<in> set (split_char (CHR 0x0A) raw)" "l = rev (dropWhile cr (rev w))" "l \<noteq> []"
  proof -
    have "EvLine l \<in> EvLine ` set (filter (\<lambda>line. line \<noteq> [])
        (map (\<lambda>line. rev (dropWhile cr (rev line))) (split_char (CHR 0x0A) raw)))"
      using assms unfolding emitRawLines_def cr_def set_map .
    then have "l \<in> set (filter (\<lambda>line. line \<noteq> [])
        (map (\<lambda>line. rev (dropWhile cr (rev line))) (split_char (CHR 0x0A) raw)))" by blast
    then show thesis using that by (simp only: set_filter set_map mem_Collect_eq image_iff) blast
  qed
  define v where "v = dropWhile cr (rev w)"
  have l: "l = rev v" and v: "v \<noteq> []" using w by (simp_all add: v_def)
  have "\<not> cr (hd v)" using v unfolding v_def by (rule hd_dropWhile)
  then have "last l \<noteq> CHR 0x0D" using v by (simp add: l last_rev cr_def)
  moreover have "set l \<subseteq> set w" unfolding l v_def using set_dropWhileD by fastforce
  ultimately show ?thesis using split_char_no_lf[OF w(1)] w(3) by blast
qed



end
