(* ===== verification/SessionLog.thy ===== *)
theory SessionLog
  imports Domain
begin

text \<open>
  \<open>internal/bgp/events.go\<close>, the pure parts of \<open>internal/bgp/diagnostics.go\<close> and the hints of
  \<open>internal/bgp/gobgp_logger.go\<close>: the bounded event log of every BGP neighbour and the texts that
  explain a change of session state. The log refines an unbounded history: it always holds the
  newest 400 entries recorded since the neighbour was last removed.
\<close>

section \<open>The event log\<close>

definition maxLogEntriesPerNeighbor :: nat where "maxLogEntriesPerNeighbor = 400"

record LogEntry =
  le_timestamp :: go_time
  le_level :: string
  le_message :: string
  le_address :: string

type_synonym eventLog = "int \<rightharpoonup> LogEntry list"

text \<open>A lookup of an absent key yields the nil slice.\<close>

definition log_of :: "eventLog \<Rightarrow> int \<Rightarrow> LogEntry list" where
  "log_of l i = (case l i of None \<Rightarrow> [] | Some es \<Rightarrow> es)"

definition newEventLog :: eventLog where "newEventLog = Map.empty"

definition log_add :: "go_time \<Rightarrow> int \<Rightarrow> string \<Rightarrow> string \<Rightarrow> string \<Rightarrow> eventLog \<Rightarrow> eventLog" where
  "log_add now i level message address l =
     (let es = log_of l i @ [\<lparr>le_timestamp = now, le_level = level, le_message = message, le_address = address\<rparr>]
      in l(i \<mapsto> (if length es > maxLogEntriesPerNeighbor
                  then drop (length es - maxLogEntriesPerNeighbor) es else es)))"

definition log_list :: "eventLog \<Rightarrow> int \<Rightarrow> int \<Rightarrow> LogEntry list" where
  "log_list l i limit =
     (let es = log_of l i in
      if length es = 0 then []
      else (let n = (if limit \<le> 0 \<or> limit > int (length es) then length es else nat limit)
            in drop (length es - n) es))"

definition log_remove :: "int \<Rightarrow> eventLog \<Rightarrow> eventLog" where
  "log_remove i l = l(i := None)"

subsection \<open>The abstract history\<close>

text \<open>What a caller may rely on: a complete history per neighbour, cleared by a removal.\<close>

datatype log_op = LogAdd int LogEntry | LogRemove int

fun log_apply :: "log_op \<Rightarrow> eventLog \<Rightarrow> eventLog" where
  "log_apply (LogAdd i e) l = log_add (le_timestamp e) i (le_level e) (le_message e) (le_address e) l"
| "log_apply (LogRemove i) l = log_remove i l"

fun history_apply :: "log_op \<Rightarrow> (int \<Rightarrow> LogEntry list) \<Rightarrow> int \<Rightarrow> LogEntry list" where
  "history_apply (LogAdd i e) h = h(i := h i @ [e])"
| "history_apply (LogRemove i) h = h(i := [])"

definition log_refines :: "eventLog \<Rightarrow> (int \<Rightarrow> LogEntry list) \<Rightarrow> bool" where
  "log_refines l h \<longleftrightarrow> (\<forall>i. log_of l i = last_n maxLogEntriesPerNeighbor (h i))"

lemma log_of_add:
  "log_of (log_add now i level message address l) j =
     (if j = i then last_n maxLogEntriesPerNeighbor
        (log_of l i @ [\<lparr>le_timestamp = now, le_level = level, le_message = message, le_address = address\<rparr>])
      else log_of l j)"
  by (simp add: log_add_def log_of_def Let_def last_n_def)

lemma log_of_remove [simp]: "log_of (log_remove i l) j = (if j = i then [] else log_of l j)"
  by (simp add: log_remove_def log_of_def)

lemma log_of_new [simp]: "log_of newEventLog i = []"
  by (simp add: newEventLog_def log_of_def)

lemma last_n_last_n_append: "last_n n (last_n n xs @ ys) = last_n n (xs @ ys)"
  by (cases "length xs \<le> n") (auto simp: last_n_def add.commute)

lemma last_n_last_n: "last_n a (last_n b xs) = last_n (min a b) xs"
proof -
  have "length xs - b + (length (drop (length xs - b) xs) - a) = length xs - min a b"
    by (auto simp: min_def)
  then show ?thesis by (simp add: last_n_def add.commute)
qed

lemma LogEntry_eta [simp]:
  "\<lparr>le_timestamp = le_timestamp e, le_level = le_level e, le_message = le_message e,
    le_address = le_address e\<rparr> = e"
  by (cases e) simp

lemma log_refines_step:
  "log_refines l h \<Longrightarrow> log_refines (log_apply ev l) (history_apply ev h)"
  by (cases ev) (auto simp: log_refines_def log_of_add last_n_last_n_append)

lemma log_refines_run:
  "log_refines l h \<Longrightarrow> log_refines (fold log_apply evs l) (fold history_apply evs h)"
  by (induction evs arbitrary: l h) (auto simp: log_refines_step)

lemma log_refines_new: "log_refines newEventLog (\<lambda>i. [])"
  by (simp add: log_refines_def last_n_def)

lemma log_list_last_n:
  "log_list l i limit =
     (if limit \<le> 0 then log_of l i else last_n (nat limit) (log_of l i))"
  by (auto simp: log_list_def last_n_def Let_def)

section \<open>What a change of state means\<close>

text \<open>Sessions only ever carry \<open>apiStateToDomain\<close> values or the zero value.\<close>

definition hint_established :: string where "hint_established = ''session established''"
definition hint_open_confirm_lost :: string where
  "hint_open_confirm_lost = ''session failed after OPEN exchange '' @ em_dash @
     '' peer may have sent NOTIFICATION (check notification count), hold timer expired, or capabilities mismatch''"
definition hint_open_failed :: string where
  "hint_open_failed = ''OPEN negotiation failed '' @ em_dash @
     '' verify remote AS, MD5 password, TTL/multihop, and that the peer accepts our OPEN''"
definition hint_connect_failed :: string where
  "hint_connect_failed = ''outbound TCP connect failed '' @ em_dash @
     '' GoBGP will retry on alternate source address or port''"
definition hint_attempts_exhausted :: string where
  "hint_attempts_exhausted = ''TCP connection attempts exhausted '' @ em_dash @
     '' check reachability to peer, firewall (TCP/179), correct local bind address, and eBGP multihop if not directly connected''"
definition hint_lost :: string where
  "hint_lost = ''established session lost '' @ em_dash @ '' check peer logs and link stability''"
definition hint_back_to_idle :: string where
  "hint_back_to_idle = ''returned to idle '' @ em_dash @ '' session reset or connect retry timer expired''"

definition sessionTransitionHint :: "session_state \<Rightarrow> session_state \<Rightarrow> string" where
  "sessionTransitionHint prev nxt =
     (if nxt = SessEstablished then hint_established
      else if prev = SessOpenConfirm \<and> nxt = SessIdle then hint_open_confirm_lost
      else if prev = SessOpenSent \<and> (nxt = SessIdle \<or> nxt = SessActive) then hint_open_failed
      else if prev = SessConnect \<and> nxt = SessActive then hint_connect_failed
      else if prev = SessActive \<and> nxt = SessIdle then hint_attempts_exhausted
      else if nxt = SessActive then ''attempting outbound TCP connection to peer BGP port (179)''
      else if nxt = SessConnect then ''initiating TCP connection to peer''
      else if nxt = SessOpenSent then ''TCP connected, sending BGP OPEN''
      else if nxt = SessOpenConfirm then ''received peer OPEN, waiting for KEEPALIVE''
      else if prev = SessEstablished \<and> nxt \<noteq> SessEstablished then hint_lost
      else if nxt = SessIdle \<and> prev \<noteq> SessIdle then hint_back_to_idle
      else [])"

definition passiveTransitionHint :: "session_state \<Rightarrow> session_state \<Rightarrow> string" where
  "passiveTransitionHint prev nxt =
     (if prev = SessActive \<and> nxt = SessIdle then
        ''no inbound connection from the peer '' @ em_dash @
        '' check that the peer targets our bind address and that TCP/179 is allowed towards us''
      else if nxt = SessActive then
        ''passive mode '' @ em_dash @ '' waiting for the peer to open a TCP connection to our port 179''
      else sessionTransitionHint prev nxt)"

definition transitionHint :: "session_state \<Rightarrow> session_state \<Rightarrow> bool \<Rightarrow> string" where
  "transitionHint prev nxt passive =
     (if passive then passiveTransitionHint prev nxt else sessionTransitionHint prev nxt)"

definition logLevelForStateChange :: "session_state \<Rightarrow> session_state \<Rightarrow> string" where
  "logLevelForStateChange prev nxt =
     (if nxt = SessEstablished then ''info''
      else if prev = SessOpenConfirm \<and> nxt = SessIdle then ''error''
      else if prev = SessOpenSent \<and> (nxt = SessIdle \<or> nxt = SessActive) then ''warn''
      else if prev = SessEstablished then ''warn''
      else if prev = SessActive \<and> nxt = SessIdle then ''warn''
      else if nxt = SessActive \<or> nxt = SessConnect then ''info''
      else ''info'')"

definition regressions :: "session_state \<rightharpoonup> session_state list" where
  "regressions = [SessOpenConfirm \<mapsto> [SessIdle, SessActive],
     SessOpenSent \<mapsto> [SessIdle, SessActive, SessConnect],
     SessConnect \<mapsto> [SessIdle, SessActive], SessActive \<mapsto> [SessIdle]]"

definition isSessionFailureTransition :: "session_state \<Rightarrow> session_state \<Rightarrow> bool" where
  "isSessionFailureTransition prev nxt =
     (if nxt = SessEstablished then False
      else if prev = SessEstablished then True
      else case regressions prev of Some targets \<Rightarrow> nxt \<in> set targets | None \<Rightarrow> False)"

definition stuckStateHint :: "session_state \<Rightarrow> string" where
  "stuckStateHint state =
     (if state = SessIdle then
        ''waiting before next connect attempt '' @ em_dash @ '' verify peer is configured and admin-up''
      else if state = SessConnect \<or> state = SessActive then
        ''still trying TCP/179 '' @ em_dash @ '' verify routing, ACLs, and local bind address''
      else if state = SessOpenSent \<or> state = SessOpenConfirm then
        ''BGP negotiation in progress or failing '' @ em_dash @
        '' verify AS numbers, auth, and capabilities''
      else [])"

text \<open>The reasons GoBGP gives for a session that went down.\<close>

definition peerDownHint :: "string \<Rightarrow> string" where
  "peerDownHint reason =
     (if reason = ''hold-timer-expired'' then
        ''nothing received from the peer within the negotiated hold time '' @ em_dash @
        '' keepalives are lost on the path (link loss, firewall/conntrack, MTU) or the peer stopped sending''
      else if has_prefix reason ''notification-received'' then
        ''the peer closed the session '' @ em_dash @
        '' its NOTIFICATION code above says why; check the router log''
      else if has_prefix reason ''notification-sent'' then
        ''HopStat closed the session '' @ em_dash @ '' the NOTIFICATION code above says why''
      else if reason = ''hard-reset'' then ''the peer sent a hard reset NOTIFICATION''
      else if reason = ''read-failed'' then
        ''the TCP connection was closed or reset by the peer or the network''
      else if reason = ''write-failed'' then
        ''the TCP socket could not be written '' @ em_dash @ '' the connection was already broken''
      else [])"

text \<open>A passive neighbour's hint never claims an outbound attempt: the two texts that do are not
  among its hints.\<close>

lemma passive_hint_not_outbound:
  "transitionHint prev SessActive True \<noteq> ''attempting outbound TCP connection to peer BGP port (179)'' \<and>
   transitionHint prev SessActive True \<noteq> hint_connect_failed"
  by (simp add: transitionHint_def passiveTransitionHint_def hint_connect_failed_def)

text \<open>A session that was lost or fell back is logged at a level above \<open>info\<close>, except for the
  retries of the connect phase.\<close>

lemma failure_level:
  "isSessionFailureTransition prev nxt \<Longrightarrow> logLevelForStateChange prev nxt = ''info'' \<Longrightarrow>
   (prev, nxt) \<in> {(SessConnect, SessIdle), (SessConnect, SessActive),
                  (SessOpenConfirm, SessActive), (SessOpenSent, SessConnect)}"
  by (cases prev; cases nxt)
     (auto simp: isSessionFailureTransition_def logLevelForStateChange_def regressions_def)

section \<open>Texts\<close>

definition arrow :: string where "arrow = [CHR '' '', CHR 0xE2, CHR 0x86, CHR 0x92, CHR '' '']"

text \<open>\<open>Duration.String\<close> of a duration that \<open>Truncate(time.Second)\<close> has cut to whole seconds:
  division towards zero, leading units left out, and a sign in front.\<close>

definition truncate_second :: "duration \<Rightarrow> duration" where
  "truncate_second d = (if d < 0 then - ((- d) div second * second) else d div second * second)"

definition whole_seconds_string :: "nat \<Rightarrow> string" where
  "whole_seconds_string s =
     (if s = 0 then ''0s''
      else if s < 60 then dec_string s @ ''s''
      else if s < 3600 then dec_string (s div 60) @ ''m'' @ dec_string (s mod 60) @ ''s''
      else dec_string (s div 3600) @ ''h'' @ dec_string (s div 60 mod 60) @ ''m'' @ dec_string (s mod 60) @ ''s'')"

definition duration_seconds_string :: "duration \<Rightarrow> string" where
  "duration_seconds_string d =
     (let t = truncate_second d
      in (if t < 0 then ''-'' else []) @ whole_seconds_string (nat (abs t div second)))"

definition formatNeighborConfig :: "bgp_neighbor \<Rightarrow> u32 \<Rightarrow> string \<Rightarrow> string \<Rightarrow> string" where
  "formatNeighborConfig n localAS localAddr neighborAddr =
     (let peerType = PeerTypeFor localAS (bn_remote_as n);
          typeLabel = (if IsInternal peerType then ''iBGP'' else ''eBGP'')
      in join_str '' ''
         ([''type='' @ typeLabel, ''local_as='' @ format_uint localAS,
           ''remote_as='' @ format_uint (bn_remote_as n), ''bind='' @ localAddr, ''peer='' @ neighborAddr] @
          (if peerType = BGPPeerExternal
           then [if bn_multihop n then ''multihop=on ttl=5'' else ''multihop=off''] else []) @
          [if bn_passive_mode n then ''mode=passive'' else ''mode=outbound'', ''timers=10/90/30'']))"

subsection \<open>A peer as GoBGP reports it\<close>

text \<open>The fields of GoBGP's \<open>api.Peer\<close> the source reads; its nested messages may be nil.\<close>

record api_message =
  am_open :: nat
  am_keepalive :: nat
  am_update :: nat
  am_notification :: nat
  am_discarded :: nat

record api_messages =
  ms_received :: "api_message option"
  ms_sent :: "api_message option"

record api_transport =
  at_local_address :: string
  at_local_port :: nat
  at_remote_port :: nat
  at_passive_mode :: bool

datatype api_session_state =
  ApiUnknown | ApiIdle | ApiConnect | ApiActive | ApiOpenSent | ApiOpenConfirm | ApiEstablished

datatype api_admin_state = AdminUp | AdminDown | AdminPfxCt | AdminOther

record api_peer_state =
  ps_admin_state :: api_admin_state
  ps_router_id :: string
  ps_flops :: nat
  ps_messages :: "api_messages option"
  ps_neighbor_address :: string
  ps_session_state :: api_session_state

text \<open>\<open>ap_conf\<close>: whether the configured type is internal; \<open>ap_multihop\<close>: enabled and TTL.\<close>

record api_peer =
  ap_conf :: "bool option"
  ap_state :: "api_peer_state option"
  ap_transport :: "api_transport option"
  ap_multihop :: "(bool \<times> nat) option"

definition formatMessageStats :: "api_messages option \<Rightarrow> string" where
  "formatMessageStats messages =
     (case messages of
        None \<Rightarrow> ''messages=none''
      | Some ms \<Rightarrow>
         (let parts =
            (case ms_received ms of None \<Rightarrow> []
             | Some r \<Rightarrow> [''rx open='' @ dec_string (am_open r) @ '' keepalive='' @ dec_string (am_keepalive r) @
                 '' update='' @ dec_string (am_update r) @ '' notification='' @ dec_string (am_notification r) @
                 '' discarded='' @ dec_string (am_discarded r)]) @
            (case ms_sent ms of None \<Rightarrow> []
             | Some s \<Rightarrow> [''tx open='' @ dec_string (am_open s) @ '' keepalive='' @ dec_string (am_keepalive s) @
                 '' update='' @ dec_string (am_update s) @ '' notification='' @ dec_string (am_notification s)])
          in if length parts = 0 then ''messages=none'' else join_str ''; '' parts))"

definition formatTransport :: "api_transport option \<Rightarrow> string" where
  "formatTransport t =
     (case t of
        None \<Rightarrow> ''transport=none''
      | Some tr \<Rightarrow>
         (let trimmed = trim_space (at_local_address tr);
              local = (if trimmed = [] then ''unspecified'' else trimmed)
          in if at_remote_port tr = 0 \<and> at_local_port tr = 0
             then ''transport local='' @ local @ '' (no active socket)''
             else ''transport local='' @ local @ '':'' @ dec_string (at_local_port tr) @
                  '' remote_port='' @ dec_string (at_remote_port tr) @
                  '' passive='' @ (if at_passive_mode tr then ''true'' else ''false'')))"

definition peerAdminState :: "api_peer_state option \<Rightarrow> string" where
  "peerAdminState st =
     (case st of
        None \<Rightarrow> ''unknown''
      | Some s \<Rightarrow> (case ps_admin_state s of
          AdminUp \<Rightarrow> ''up'' | AdminDown \<Rightarrow> ''down'' | AdminPfxCt \<Rightarrow> ''pfx_ct'' | AdminOther \<Rightarrow> ''unknown''))"

definition formatPeerSnapshot :: "api_peer option \<Rightarrow> string" where
  "formatPeerSnapshot peer =
     (case peer of
        None \<Rightarrow> []
      | Some p \<Rightarrow> join_str ''; ''
          ((case ap_conf p of None \<Rightarrow> []
            | Some internal \<Rightarrow> [''admin='' @ peerAdminState (ap_state p),
                if internal then ''peer_type=iBGP'' else ''peer_type=eBGP'']) @
           (case ap_state p of None \<Rightarrow> []
            | Some st \<Rightarrow>
                (let rid = trim_space (ps_router_id st)
                 in (if rid \<noteq> [] \<and> rid \<noteq> ''0.0.0.0'' then [''peer_router_id='' @ rid] else []) @
                    (if ps_flops st > 0 then [''flops='' @ dec_string (ps_flops st)] else []) @
                    [formatMessageStats (ps_messages st)])) @
           [formatTransport (ap_transport p)] @
           (case ap_multihop p of
              Some (True, ttl) \<Rightarrow> [''multihop_ttl='' @ dec_string ttl]
            | _ \<Rightarrow> [])))"

definition buildStateChangeMessage ::
  "session_state \<Rightarrow> session_state \<Rightarrow> string \<Rightarrow> api_peer option \<Rightarrow> duration \<Rightarrow> bool \<Rightarrow> string" where
  "buildStateChangeMessage prev nxt neighborAddr peer inStateFor passive =
     ''state '' @ session_state_string prev @ arrow @ session_state_string nxt @
     (let hint = transitionHint prev nxt passive in if hint \<noteq> [] then ''; '' @ hint else []) @
     (if peer \<noteq> None \<and> formatPeerSnapshot peer \<noteq> [] then ''; '' @ formatPeerSnapshot peer else []) @
     (if inStateFor > 0 \<and> nxt \<noteq> SessEstablished
      then ''; in_state_for='' @ duration_seconds_string inStateFor else []) @
     (if neighborAddr \<noteq> [] \<and> isSessionFailureTransition prev nxt
      then ''; check peer reachability, AS/password, multihop/TTL, and firewall rules for TCP/179'' else [])"

section \<open>Properties\<close>

text \<open>C38: The event log implements the full history: whatever was recorded and removed, the log of a
  neighbour lists the newest entries since its last removal, in order, as many as were asked for
  and at most 400.\<close>

theorem event_log_refines_history:
  assumes "0 < limit"
  shows "log_list (fold log_apply evs newEventLog) i limit =
    last_n (min maxLogEntriesPerNeighbor (nat limit)) (fold history_apply evs (\<lambda>i. []) i)"
proof -
  have "log_of (fold log_apply evs newEventLog) i =
      last_n maxLogEntriesPerNeighbor (fold history_apply evs (\<lambda>i. []) i)"
    using log_refines_run[OF log_refines_new] by (simp add: log_refines_def)
  then show ?thesis
    using assms by (simp add: log_list_last_n last_n_last_n min.commute)
qed

lemma event_log_refines_history_witness:
  "log_list (fold log_apply
      [LogAdd 1 \<lparr>le_timestamp = 1, le_level = ''info'', le_message = ''a'', le_address = []\<rparr>,
       LogRemove 1,
       LogAdd 1 \<lparr>le_timestamp = 2, le_level = ''info'', le_message = ''b'', le_address = []\<rparr>,
       LogAdd 2 \<lparr>le_timestamp = 3, le_level = ''warn'', le_message = ''c'', le_address = []\<rparr>]
      newEventLog) 1 5 =
   [\<lparr>le_timestamp = 2, le_level = ''info'', le_message = ''b'', le_address = []\<rparr>]"
  by (subst event_log_refines_history) (simp_all add: last_n_def maxLogEntriesPerNeighbor_def)

end
