(* ===== verification/Sessions.thy ===== *)
theory Sessions
  imports SessionLog
begin

text \<open>
  \<open>internal/bgp/manager.go\<close> with \<open>prefix_count.go\<close>, the state changes of \<open>diagnostics.go\<close> and the
  address lookup of \<open>gobgp_logger.go\<close>: the registry of BGP neighbours beside the embedded GoBGP
  speaker. GoBGP is the record \<open>gobgp\<close>: what a management call answers may depend on every call made
  before it, and its tables and peers on the instant they are read. The calls made are kept in
  order in \<open>sm_calls\<close>. An operation reads the clock once, at its argument \<open>now\<close>.
\<close>

section \<open>The speaker\<close>

record peer_config =
  pc_local_asn :: u32
  pc_neighbor_address :: string
  pc_peer_asn :: u32
  pc_internal :: bool
  pc_local_address :: string
  pc_passive_mode :: bool
  pc_connect_retry :: nat
  pc_hold_time :: nat
  pc_keepalive_interval :: nat
  pc_families :: "(bool \<times> bool) list"
  pc_multihop_ttl :: "nat option"

record global_config =
  gc_asn :: u32
  gc_router_id :: string
  gc_listen_port :: int
  gc_listen_addresses :: "string list"

datatype bgp_call =
    StartBgp global_config
  | AddPeer peer_config
  | DeletePeer string
  | DisablePeer string
  | EnablePeer string
  | ResetPeer string bool

text \<open>\<open>gb_table\<close>: the destinations in a peer's Adj-RIB-In for IPv4 (\<open>False\<close>) or IPv6; \<open>gb_peers\<close>: the
  peers \<open>ListPeer\<close> hands to its callback.\<close>

record gobgp =
  gb_answer :: "bgp_call list \<Rightarrow> bgp_call \<Rightarrow> go_error option"
  gb_table :: "go_time \<Rightarrow> string \<Rightarrow> bool \<Rightarrow> go_error + u64"
  gb_peers :: "go_time \<Rightarrow> string \<Rightarrow> go_error + api_peer list"
  gb_text :: "go_error \<Rightarrow> string"

section \<open>The manager\<close>

record BGPConfig =
  cf_listen_port :: int
  cf_router_id :: string
  cf_local_as :: u32
  cf_listen_addresses :: "string list"
  cf_add_path_receive :: bool

record neighbor_entry =
  ne_neighbor :: bgp_neighbor
  ne_neighbor_ip :: string
  ne_ipv6_neighbor_ip :: string

record prefixCountEntry =
  pe_total :: int
  pe_updated_at :: go_time

record SessionManager =
  sm_server :: bool
  sm_cfg :: BGPConfig
  sm_neighbors :: "int \<rightharpoonup> neighbor_entry"
  sm_node_neighbors :: "int \<rightharpoonup> int set"
  sm_states :: "int \<rightharpoonup> session_state"
  sm_state_since :: "int \<rightharpoonup> go_time"
  sm_events :: eventLog
  sm_global_as :: u32
  sm_prefix_counts :: "int \<rightharpoonup> prefixCountEntry"
  sm_calls :: "bgp_call list"

definition NewSessionManager :: "BGPConfig \<Rightarrow> SessionManager" where
  "NewSessionManager cfg =
     \<lparr>sm_server = False, sm_cfg = cfg, sm_neighbors = Map.empty, sm_node_neighbors = Map.empty,
      sm_states = Map.empty, sm_state_since = Map.empty, sm_events = newEventLog, sm_global_as = 0,
      sm_prefix_counts = Map.empty, sm_calls = []\<rparr>"

definition recordEvent ::
  "go_time \<Rightarrow> int \<Rightarrow> string \<Rightarrow> string \<Rightarrow> string \<Rightarrow> SessionManager \<Rightarrow> SessionManager" where
  "recordEvent now i level message address m =
     m\<lparr>sm_events := log_add now i level message address (sm_events m)\<rparr>"

definition GetNeighborLogs :: "int \<Rightarrow> int \<Rightarrow> SessionManager \<Rightarrow> LogEntry list" where
  "GetNeighborLogs i limit m = log_list (sm_events m) i limit"

text \<open>One management call.\<close>

definition bgp_request :: "gobgp \<Rightarrow> bgp_call \<Rightarrow> SessionManager \<Rightarrow> go_error option \<times> SessionManager" where
  "bgp_request srv c m = (gb_answer srv (sm_calls m) c, m\<lparr>sm_calls := sm_calls m @ [c]\<rparr>)"

definition neighborEntry :: "int \<Rightarrow> SessionManager \<Rightarrow> go_error + neighbor_entry" where
  "neighborEntry i m =
     (case sm_neighbors m i of
        None \<Rightarrow> Inl (PlainError (''neighbor '' @ format_int i @ '' is not active in the bgp session manager''))
      | Some e \<Rightarrow> Inr e)"

definition peerAddresses :: "neighbor_entry \<Rightarrow> string list" where
  "peerAddresses e =
     (if ne_neighbor_ip e \<noteq> [] then [ne_neighbor_ip e] else []) @
     (if ne_ipv6_neighbor_ip e \<noteq> [] then [ne_ipv6_neighbor_ip e] else [])"

definition not_started :: go_error where "not_started = PlainError ''bgp server not started''"

section \<open>Stop and restart\<close>

fun stop_loop ::
  "gobgp \<Rightarrow> go_time \<Rightarrow> int \<Rightarrow> go_error option \<Rightarrow> string list \<Rightarrow> SessionManager \<Rightarrow>
   go_error option \<times> SessionManager" where
  "stop_loop srv now i firstErr [] m = (firstErr, m)"
| "stop_loop srv now i firstErr (addr # addrs) m =
     (case bgp_request srv (DisablePeer addr) m of
        (Some err, m1) \<Rightarrow>
          stop_loop srv now i (if firstErr = None then Some err else firstErr) addrs
            (recordEvent now i ''error'' (''stop failed: '' @ gb_text srv err) addr m1)
      | (None, m1) \<Rightarrow>
          stop_loop srv now i firstErr addrs
            (recordEvent now i ''info'' ''session stopped (admin down)'' addr m1))"

definition StopNeighbor ::
  "gobgp \<Rightarrow> go_time \<Rightarrow> int \<Rightarrow> SessionManager \<Rightarrow> go_error option \<times> SessionManager" where
  "StopNeighbor srv now i m =
     (if \<not> sm_server m then (Some not_started, m)
      else case neighborEntry i m of
        Inl err \<Rightarrow> (Some err, m)
      | Inr e \<Rightarrow> stop_loop srv now i None (peerAddresses e) m)"

definition enable_peer :: "gobgp \<Rightarrow> go_time \<Rightarrow> int \<Rightarrow> string \<Rightarrow> SessionManager \<Rightarrow> SessionManager" where
  "enable_peer srv now i addr m =
     (case bgp_request srv (EnablePeer addr) m of
        (Some err, m1) \<Rightarrow>
          recordEvent now i ''warn'' (''enable before restart failed: '' @ gb_text srv err) addr m1
      | (None, m1) \<Rightarrow> m1)"

fun restart_loop ::
  "gobgp \<Rightarrow> go_time \<Rightarrow> int \<Rightarrow> go_error option \<Rightarrow> string list \<Rightarrow> SessionManager \<Rightarrow>
   go_error option \<times> SessionManager" where
  "restart_loop srv now i firstErr [] m = (firstErr, m)"
| "restart_loop srv now i firstErr (addr # addrs) m =
     (case bgp_request srv (ResetPeer addr False) (enable_peer srv now i addr m) of
        (Some err, m1) \<Rightarrow>
          restart_loop srv now i (if firstErr = None then Some err else firstErr) addrs
            (recordEvent now i ''error'' (''restart failed: '' @ gb_text srv err) addr m1)
      | (None, m1) \<Rightarrow>
          restart_loop srv now i firstErr addrs
            (recordEvent now i ''info'' ''session restarted (reset sent)'' addr m1))"

definition RestartNeighbor ::
  "gobgp \<Rightarrow> go_time \<Rightarrow> int \<Rightarrow> SessionManager \<Rightarrow> go_error option \<times> SessionManager" where
  "RestartNeighbor srv now i m =
     (if \<not> sm_server m then (Some not_started, m)
      else case neighborEntry i m of
        Inl err \<Rightarrow> (Some err, m)
      | Inr e \<Rightarrow> restart_loop srv now i None (peerAddresses e) m)"

section \<open>Starting the speaker\<close>

definition IsReady :: "SessionManager \<Rightarrow> bool" where
  "IsReady m \<longleftrightarrow> sm_server m \<and> sm_global_as m > 0"

definition unset_router_id :: "string \<Rightarrow> bool" where
  "unset_router_id r \<longleftrightarrow> r = [] \<or> r = ''0.0.0.0''"

definition effectiveRouterID :: "SessionManager \<Rightarrow> string \<Rightarrow> string" where
  "effectiveRouterID m preferred =
     (let r1 = trim_space preferred;
          r2 = (if unset_router_id r1 then trim_space (cf_router_id (sm_cfg m)) else r1)
      in if unset_router_id r2 then ''127.0.0.1'' else r2)"

definition ensureBGPGlobalStarted ::
  "gobgp \<Rightarrow> u32 \<Rightarrow> string \<Rightarrow> SessionManager \<Rightarrow> go_error option \<times> SessionManager" where
  "ensureBGPGlobalStarted srv localAS routerID m =
     (if \<not> sm_server m then (Some not_started, m)
      else if localAS = 0
      then (Some (PlainError ''bgp.local_as must be greater than 0 in config.yaml''), m)
      else if sm_global_as m \<noteq> 0 then (None, m)
      else (let rid = effectiveRouterID m routerID in
        if parse_ip rid = None then (Some (PlainError (''invalid bgp router_id: '' @ rid)), m)
        else (let port = (if cf_listen_port (sm_cfg m) > 0 \<and> cf_listen_port (sm_cfg m) \<le> 65535
                          then cf_listen_port (sm_cfg m) else 11790);
                  addrs = (if length (cf_listen_addresses (sm_cfg m)) = 0 then [''127.0.0.1'']
                           else cf_listen_addresses (sm_cfg m))
              in case bgp_request srv (StartBgp \<lparr>gc_asn = localAS, gc_router_id = rid,
                        gc_listen_port = port, gc_listen_addresses = addrs\<rparr>) m of
                   (Some err, m1) \<Rightarrow> (Some (WrapError ''start bgp server: '' err), m1)
                 | (None, m1) \<Rightarrow> (None, m1\<lparr>sm_global_as := localAS\<rparr>))))"

definition Start :: "gobgp \<Rightarrow> SessionManager \<Rightarrow> go_error option \<times> SessionManager" where
  "Start srv m =
     (let m1 = m\<lparr>sm_server := True\<rparr> in
      if cf_local_as (sm_cfg m1) > 0
      then ensureBGPGlobalStarted srv (cf_local_as (sm_cfg m1)) (cf_router_id (sm_cfg m1)) m1
      else (None, m1))"

definition configuredLocalAS :: "SessionManager \<Rightarrow> u32" where
  "configuredLocalAS m = (if sm_global_as m > 0 then sm_global_as m else cf_local_as (sm_cfg m))"

section \<open>The node index\<close>

text \<open>\<open>nodeNeighbors\<close>: which neighbours are filed under a node. A node whose last neighbour leaves
  is dropped from the map.\<close>

type_synonym node_index = "int \<rightharpoonup> int set"

definition node_ids :: "node_index \<Rightarrow> int \<Rightarrow> int set" where
  "node_ids ix nodeID = (case ix nodeID of None \<Rightarrow> {} | Some ids \<Rightarrow> ids)"

definition file_under :: "int \<Rightarrow> int \<Rightarrow> node_index \<Rightarrow> node_index" where
  "file_under nodeID i ix = ix(nodeID \<mapsto> insert i (node_ids ix nodeID))"

definition drop_id :: "int \<Rightarrow> int set \<Rightarrow> int set option" where
  "drop_id i ids = (if ids - {i} = {} then None else Some (ids - {i}))"

definition unfile :: "int \<Rightarrow> node_index \<Rightarrow> node_index" where
  "unfile i ix = (\<lambda>nodeID. Option.bind (ix nodeID) (drop_id i))"

definition unfile_others :: "int \<Rightarrow> int \<Rightarrow> node_index \<Rightarrow> node_index" where
  "unfile_others nodeID i ix =
     (\<lambda>k. if k = nodeID then ix k else Option.bind (ix k) (drop_id i))"

section \<open>Adding, removing and updating neighbours\<close>

definition buildAfiSafi :: "SessionManager \<Rightarrow> bool \<Rightarrow> bool \<times> bool" where
  "buildAfiSafi m v6 = (v6, cf_add_path_receive (sm_cfg m))"

definition peerTypeFromNeighbor :: "bgp_neighbor \<Rightarrow> u32 \<Rightarrow> bool" where
  "peerTypeFromNeighbor n localAS = IsInternal (PeerTypeFor localAS (bn_remote_as n))"

definition buildPeerConfig :: "SessionManager \<Rightarrow> bgp_neighbor \<Rightarrow> string \<Rightarrow> string \<Rightarrow> peer_config" where
  "buildPeerConfig m n localAddr neighborAddr =
     \<lparr>pc_local_asn = sm_global_as m, pc_neighbor_address = neighborAddr, pc_peer_asn = bn_remote_as n,
      pc_internal = peerTypeFromNeighbor n (configuredLocalAS m),
      pc_local_address = localAddr, pc_passive_mode = bn_passive_mode n,
      pc_connect_retry = 10, pc_hold_time = 90, pc_keepalive_interval = 30,
      pc_families = [buildAfiSafi m (contains_str neighborAddr '':'')],
      pc_multihop_ttl =
        (if bn_multihop n \<and> PeerTypeFor (configuredLocalAS m) (bn_remote_as n) = BGPPeerExternal
         then Some 5 else None)\<rparr>"

definition invalidatePrefixCount :: "int \<Rightarrow> SessionManager \<Rightarrow> SessionManager" where
  "invalidatePrefixCount i m = m\<lparr>sm_prefix_counts := (sm_prefix_counts m)(i := None)\<rparr>"

text \<open>The two peers of \<open>AddNeighbor\<close>: a failure of the IPv4 one ends it, a failure of the IPv6 one is
  recorded and leaves the entry without it.\<close>

definition add_peer4 ::
  "gobgp \<Rightarrow> go_time \<Rightarrow> bgp_neighbor \<Rightarrow> string \<Rightarrow> SessionManager \<Rightarrow> go_error option \<times> SessionManager" where
  "add_peer4 srv now n ip m =
     (if ip = [] then (None, m)
      else case bgp_request srv (AddPeer (buildPeerConfig m n (bn_peering_ip n) ip)) m of
        (Some err, m1) \<Rightarrow>
          (Some (WrapError (''add bgp peer '' @ ip @ '': '') err),
           recordEvent now (bn_id n) ''error'' (''add ipv4 peer failed: '' @ gb_text srv err) ip m1)
      | (None, m1) \<Rightarrow>
          (None, recordEvent now (bn_id n) ''info''
             (''ipv4 peer added; '' @
              formatNeighborConfig n (sm_global_as m1) (bn_peering_ip n) ip) ip m1))"

definition add_peer6 ::
  "gobgp \<Rightarrow> go_time \<Rightarrow> bgp_neighbor \<Rightarrow> SessionManager \<Rightarrow> string \<times> SessionManager" where
  "add_peer6 srv now n m =
     (if trim_space (bn_ipv6_neighbor_ip n) = [] then ([], m)
      else case bgp_request srv
             (AddPeer (buildPeerConfig m n (bn_ipv6_peering_ip n) (bn_ipv6_neighbor_ip n))) m of
        (Some err, m1) \<Rightarrow>
          ([], recordEvent now (bn_id n) ''warn'' (''add ipv6 peer failed: '' @ gb_text srv err)
                 (bn_ipv6_neighbor_ip n) m1)
      | (None, m1) \<Rightarrow>
          (bn_ipv6_neighbor_ip n,
           recordEvent now (bn_id n) ''info''
             (''ipv6 peer added; '' @ formatNeighborConfig n (sm_global_as m1) (bn_ipv6_peering_ip n)
                (bn_ipv6_neighbor_ip n)) (bn_ipv6_neighbor_ip n) m1))"

definition register ::
  "go_time \<Rightarrow> bgp_neighbor \<Rightarrow> string \<Rightarrow> string \<Rightarrow> SessionManager \<Rightarrow> SessionManager" where
  "register now n ip ip6 m =
     m\<lparr>sm_neighbors := (sm_neighbors m)(bn_id n \<mapsto>
         \<lparr>ne_neighbor = n, ne_neighbor_ip = ip, ne_ipv6_neighbor_ip = ip6\<rparr>),
       sm_node_neighbors := file_under (bn_node_id n) (bn_id n) (sm_node_neighbors m),
       sm_states := (sm_states m)(bn_id n \<mapsto> SessIdle),
       sm_state_since := (sm_state_since m)(bn_id n \<mapsto> now)\<rparr>"

definition AddNeighbor ::
  "gobgp \<Rightarrow> go_time \<Rightarrow> bgp_neighbor \<Rightarrow> SessionManager \<Rightarrow> go_error option \<times> SessionManager" where
  "AddNeighbor srv now n m =
     (if \<not> sm_server m then (Some not_started, m)
      else if sm_global_as m = 0 then
        (Some (PlainError (''bgp.local_as is not configured '' @ em_dash @
           '' set bgp.local_as in config.yaml and restart HopStat'')), m)
      else (let ip = trim_space (bn_neighbor_ip n) in
              case add_peer4 srv now n ip m of
                (Some err, m1) \<Rightarrow> (Some err, m1)
              | (None, m1) \<Rightarrow>
                  (case add_peer6 srv now n m1 of (ip6, m2) \<Rightarrow> (None, register now n ip ip6 m2))))"

definition delete_peer4 ::
  "gobgp \<Rightarrow> go_time \<Rightarrow> int \<Rightarrow> neighbor_entry \<Rightarrow> SessionManager \<Rightarrow> go_error option \<times> SessionManager" where
  "delete_peer4 srv now i e m =
     (if ne_neighbor_ip e = [] then (None, m)
      else case bgp_request srv (DeletePeer (ne_neighbor_ip e)) m of
        (Some err, m1) \<Rightarrow>
          (Some (WrapError (''remove bgp peer '' @ ne_neighbor_ip e @ '': '') err),
           recordEvent now i ''error'' (''remove ipv4 peer failed: '' @ gb_text srv err) (ne_neighbor_ip e) m1)
      | (None, m1) \<Rightarrow> (None, recordEvent now i ''info'' ''ipv4 peer removed'' (ne_neighbor_ip e) m1))"

definition delete_peer6 :: "gobgp \<Rightarrow> go_time \<Rightarrow> int \<Rightarrow> neighbor_entry \<Rightarrow> SessionManager \<Rightarrow> SessionManager" where
  "delete_peer6 srv now i e m =
     (if ne_ipv6_neighbor_ip e = [] then m
      else case bgp_request srv (DeletePeer (ne_ipv6_neighbor_ip e)) m of
        (Some err, m1) \<Rightarrow>
          recordEvent now i ''warn'' (''remove ipv6 peer failed: '' @ gb_text srv err) (ne_ipv6_neighbor_ip e) m1
      | (None, m1) \<Rightarrow> recordEvent now i ''info'' ''ipv6 peer removed'' (ne_ipv6_neighbor_ip e) m1)"

definition unregister :: "int \<Rightarrow> SessionManager \<Rightarrow> SessionManager" where
  "unregister i m =
     m\<lparr>sm_neighbors := (sm_neighbors m)(i := None), sm_states := (sm_states m)(i := None),
       sm_node_neighbors := unfile i (sm_node_neighbors m)\<rparr>"

definition RemoveNeighbor ::
  "gobgp \<Rightarrow> go_time \<Rightarrow> int \<Rightarrow> SessionManager \<Rightarrow> go_error option \<times> SessionManager" where
  "RemoveNeighbor srv now i m =
     (if \<not> sm_server m then (Some not_started, m)
      else case sm_neighbors m i of
        None \<Rightarrow> (None, m)
      | Some e \<Rightarrow>
         (case delete_peer4 srv now i e m of
            (Some err, m1) \<Rightarrow> (Some err, m1)
          | (None, m1) \<Rightarrow>
              (let m2 = unregister i (delete_peer6 srv now i e m1)
               in (None, invalidatePrefixCount i (m2\<lparr>sm_events := log_remove i (sm_events m2)\<rparr>)))))"

text \<open>Both arguments are non-nil where \<open>UpdateNeighbor\<close> calls it.\<close>

definition sessionParamsEqual :: "bgp_neighbor \<Rightarrow> bgp_neighbor \<Rightarrow> bool" where
  "sessionParamsEqual a b \<longleftrightarrow>
     trim_space (bn_neighbor_ip a) = trim_space (bn_neighbor_ip b) \<and>
     trim_space (bn_peering_ip a) = trim_space (bn_peering_ip b) \<and>
     trim_space (bn_ipv6_neighbor_ip a) = trim_space (bn_ipv6_neighbor_ip b) \<and>
     trim_space (bn_ipv6_peering_ip a) = trim_space (bn_ipv6_peering_ip b) \<and>
     bn_remote_as a = bn_remote_as b \<and> bn_multihop a = bn_multihop b \<and>
     bn_passive_mode a = bn_passive_mode b"

definition adoptNeighborRecord :: "bgp_neighbor \<Rightarrow> neighbor_entry \<Rightarrow> SessionManager \<Rightarrow> SessionManager" where
  "adoptNeighborRecord n e m =
     m\<lparr>sm_neighbors := (sm_neighbors m)(bn_id n \<mapsto> e\<lparr>ne_neighbor := n\<rparr>),
       sm_node_neighbors :=
         file_under (bn_node_id n) (bn_id n) (unfile_others (bn_node_id n) (bn_id n) (sm_node_neighbors m))\<rparr>"

definition UpdateNeighbor ::
  "gobgp \<Rightarrow> go_time \<Rightarrow> bgp_neighbor \<Rightarrow> SessionManager \<Rightarrow> go_error option \<times> SessionManager" where
  "UpdateNeighbor srv now n m =
     (case sm_neighbors m (bn_id n) of
        Some e \<Rightarrow>
          if sessionParamsEqual (ne_neighbor e) n
          then (None, recordEvent now (bn_id n) ''info'' ''settings updated; session left up''
                  (ne_neighbor_ip e) (adoptNeighborRecord n e m))
          else AddNeighbor srv now n (snd (RemoveNeighbor srv now (bn_id n) m))
      | None \<Rightarrow> AddNeighbor srv now n (snd (RemoveNeighbor srv now (bn_id n) m)))"

text \<open>\<open>LoadNeighbors\<close> goes on after a neighbour that cannot be added.\<close>

definition LoadNeighbors ::
  "gobgp \<Rightarrow> go_time \<Rightarrow> go_error + bgp_neighbor list \<Rightarrow> SessionManager \<Rightarrow> go_error option \<times> SessionManager" where
  "LoadNeighbors srv now repo m =
     (case repo of
        Inl err \<Rightarrow> (Some (WrapError ''load bgp neighbors: '' err), m)
      | Inr ns \<Rightarrow> (None, fold (\<lambda>n s. snd (AddNeighbor srv now n s)) ns m))"

section \<open>Changes of session state\<close>

definition apiStateToDomain :: "api_session_state \<Rightarrow> session_state" where
  "apiStateToDomain s = (case s of
     ApiIdle \<Rightarrow> SessIdle | ApiConnect \<Rightarrow> SessConnect | ApiActive \<Rightarrow> SessActive
   | ApiOpenSent \<Rightarrow> SessOpenSent | ApiOpenConfirm \<Rightarrow> SessOpenConfirm
   | ApiEstablished \<Rightarrow> SessEstablished | _ \<Rightarrow> SessIdle)"

text \<open>The order in which the neighbours map is ranged over is the argument \<open>ks\<close>.\<close>

definition owns_address :: "SessionManager \<Rightarrow> string \<Rightarrow> int \<Rightarrow> bool" where
  "owns_address m addr i =
     (case sm_neighbors m i of
        None \<Rightarrow> False
      | Some e \<Rightarrow> ne_neighbor_ip e = addr \<or> ne_ipv6_neighbor_ip e = addr)"

definition neighborIDForAddress :: "int list \<Rightarrow> string \<Rightarrow> SessionManager \<Rightarrow> int option" where
  "neighborIDForAddress ks addr m = (if addr = [] then None else find (owns_address m addr) ks)"

definition isPassive :: "int \<Rightarrow> SessionManager \<Rightarrow> bool" where
  "isPassive i m =
     (case sm_neighbors m i of None \<Rightarrow> False | Some e \<Rightarrow> bn_passive_mode (ne_neighbor e))"

definition fetchPeerByAddress ::
  "gobgp \<Rightarrow> go_time \<Rightarrow> string \<Rightarrow> SessionManager \<Rightarrow> go_error + api_peer" where
  "fetchPeerByAddress srv now addr m =
     (if \<not> sm_server m then Inl not_started
      else case gb_peers srv now addr of
        Inl err \<Rightarrow> Inl err
      | Inr ps \<Rightarrow> if ps = [] then Inl (PlainError (''peer not found: '' @ addr)) else Inr (last ps))"

datatype peer_event_type = PeerEventInit | PeerEventEndOfInit | PeerEventState

record peer_event =
  ev_type :: peer_event_type
  ev_peer :: "api_peer option"

text \<open>What the change does to the registry; \<open>since\<close> is the zero time when nothing is known.\<close>

definition since_of :: "SessionManager \<Rightarrow> int \<Rightarrow> go_time" where
  "since_of m i = (case sm_state_since m i of None \<Rightarrow> 0 | Some t \<Rightarrow> t)"

definition set_state :: "go_time \<Rightarrow> int \<Rightarrow> session_state \<Rightarrow> SessionManager \<Rightarrow> SessionManager" where
  "set_state now i nxt m =
     invalidatePrefixCount i
       (m\<lparr>sm_state_since := (sm_state_since m)(i \<mapsto> now), sm_states := (sm_states m)(i \<mapsto> nxt)\<rparr>)"

definition handlePeerStateChange ::
  "gobgp \<Rightarrow> go_time \<Rightarrow> int \<Rightarrow> string \<Rightarrow> session_state \<Rightarrow> session_state \<Rightarrow> peer_event option \<Rightarrow>
   SessionManager \<Rightarrow> SessionManager" where
  "handlePeerStateChange srv now i addr prev nxt peerEv m =
     (if map_option ev_type peerEv = Some PeerEventEndOfInit then m
      else if map_option ev_type peerEv = Some PeerEventInit
      then recordEvent now i ''info'' (''peer watcher initialized for '' @ addr) addr m
      else if prev = nxt then m
      else if sm_neighbors m i = None then m
      else (let inStateFor = (if is_zero_time (since_of m i) then 0 else time_sub now (since_of m i));
                m1 = set_state now i nxt m;
                peer = (if isSessionFailureTransition prev nxt \<or> nxt \<noteq> SessEstablished
                        then (case fetchPeerByAddress srv now addr m1 of
                                Inr snap \<Rightarrow> Some snap
                              | Inl err \<Rightarrow> Option.bind peerEv ev_peer)
                        else Option.bind peerEv ev_peer)
            in recordEvent now i (logLevelForStateChange prev nxt)
                 (buildStateChangeMessage prev nxt addr peer inStateFor (isPassive i m1)) addr m1))"

definition status_of :: "SessionManager \<Rightarrow> int \<Rightarrow> session_state" where
  "status_of m i = (case sm_states m i of None \<Rightarrow> SessNone | Some s \<Rightarrow> s)"

text \<open>The watcher looks the neighbour and its state up under the read lock and commits later: the
  first half of \<open>handleWatchPeerEvent\<close> yields the arguments of the second.\<close>

definition watch_lookup ::
  "int list \<Rightarrow> peer_event \<Rightarrow> SessionManager \<Rightarrow> (int \<times> string \<times> session_state \<times> session_state) option" where
  "watch_lookup ks ev m =
     (case ev_peer ev of
        None \<Rightarrow> None
      | Some p \<Rightarrow>
         (case ap_state p of
            None \<Rightarrow> None
          | Some st \<Rightarrow>
             (case neighborIDForAddress ks (ps_neighbor_address st) m of
                None \<Rightarrow> None
              | Some i \<Rightarrow> Some (i, ps_neighbor_address st, status_of m i,
                                 apiStateToDomain (ps_session_state st)))))"

definition handleWatchPeerEvent ::
  "gobgp \<Rightarrow> go_time \<Rightarrow> int list \<Rightarrow> peer_event option \<Rightarrow> SessionManager \<Rightarrow> SessionManager" where
  "handleWatchPeerEvent srv now ks peerEv m =
     (case Option.bind peerEv (\<lambda>ev. watch_lookup ks ev m) of
        None \<Rightarrow> m
      | Some (i, addr, prev, nxt) \<Rightarrow> handlePeerStateChange srv now i addr prev nxt peerEv m)"

text \<open>GoBGP's own line about a session that went down: the address and the printed reason of its
  fields.\<close>

definition recordPeerDown ::
  "go_time \<Rightarrow> int list \<Rightarrow> string \<Rightarrow> string \<Rightarrow> SessionManager \<Rightarrow> SessionManager" where
  "recordPeerDown now ks addr reason m =
     (case neighborIDForAddress ks addr m of
        None \<Rightarrow> m
      | Some i \<Rightarrow>
          recordEvent now i ''warn''
            (''peer down; reason='' @ reason @
             (if peerDownHint reason \<noteq> [] then ''; '' @ peerDownHint reason else [])) addr m)"

section \<open>Sessions that do not come up\<close>

definition stuckSessionLogInterval :: duration where "stuckSessionLogInterval = 3 * minute"

definition stuck_hint :: "neighbor_entry \<Rightarrow> session_state \<Rightarrow> string" where
  "stuck_hint e state =
     (if bn_passive_mode (ne_neighbor e) \<and> (state = SessActive \<or> state = SessConnect)
      then ''passive mode '' @ em_dash @ '' no inbound TCP/179 connection from the peer yet; '' @
           ''check the peer'' @ [CHR 0x27] @ ''s neighbor config and ACLs towards our bind address''
      else stuckStateHint state)"

definition log_stuck_address ::
  "gobgp \<Rightarrow> go_time \<Rightarrow> int \<Rightarrow> neighbor_entry \<Rightarrow> session_state \<Rightarrow> duration \<Rightarrow> string \<Rightarrow>
   SessionManager \<Rightarrow> SessionManager" where
  "log_stuck_address srv now i e state inStateFor addr m =
     (let head = ''session not established (state='' @ session_state_string state @ '', in_state_for='' @
                 duration_seconds_string inStateFor
      in case fetchPeerByAddress srv now addr m of
           Inl err \<Rightarrow>
             recordEvent now i ''warn'' (head @ ''); failed to fetch peer stats: '' @ gb_text srv err) addr m
         | Inr snap \<Rightarrow>
             recordEvent now i ''warn'' (head @ ''); '' @ formatPeerSnapshot (Some snap) @
               (if stuck_hint e state \<noteq> [] then ''; '' @ stuck_hint e state else [])) addr m)"

text \<open>The peers are collected under the read lock, then reported one by one.\<close>

definition stuck_peers ::
  "go_time \<Rightarrow> int list \<Rightarrow> SessionManager \<Rightarrow> (int \<times> neighbor_entry \<times> session_state \<times> go_time) list" where
  "stuck_peers now ks m =
     List.map_filter (\<lambda>i. case sm_neighbors m i of
        None \<Rightarrow> None
      | Some e \<Rightarrow>
          if status_of m i = SessEstablished \<or> status_of m i = SessNone then None
          else Some (i, e, status_of m i, if is_zero_time (since_of m i) then now else since_of m i)) ks"

fun stuck_loop ::
  "gobgp \<Rightarrow> go_time \<Rightarrow> (int \<times> neighbor_entry \<times> session_state \<times> go_time) list \<Rightarrow> (int \<rightharpoonup> go_time) \<Rightarrow>
   SessionManager \<Rightarrow> (int \<rightharpoonup> go_time) \<times> SessionManager" where
  "stuck_loop srv now [] lastLogged m = (lastLogged, m)"
| "stuck_loop srv now ((i, e, state, since) # ps) lastLogged m =
     (if time_sub now (case lastLogged i of None \<Rightarrow> 0 | Some t \<Rightarrow> t) < stuckSessionLogInterval
      then stuck_loop srv now ps lastLogged m
      else if time_sub now since < 45 * second then stuck_loop srv now ps lastLogged m
      else stuck_loop srv now ps (lastLogged(i \<mapsto> now))
             (fold (log_stuck_address srv now i e state (time_sub now since)) (peerAddresses e) m))"

definition logStuckSessions ::
  "gobgp \<Rightarrow> go_time \<Rightarrow> int list \<Rightarrow> (int \<rightharpoonup> go_time) \<Rightarrow> SessionManager \<Rightarrow>
   (int \<rightharpoonup> go_time) \<times> SessionManager" where
  "logStuckSessions srv now ks lastLogged m = stuck_loop srv now (stuck_peers now ks m) lastLogged m"

section \<open>Counts and statuses\<close>

definition prefixCountCacheTTL :: duration where "prefixCountCacheTTL = 30 * second"

definition cachedPrefixCount :: "go_time \<Rightarrow> int \<Rightarrow> SessionManager \<Rightarrow> int option" where
  "cachedPrefixCount now i m =
     (case sm_prefix_counts m i of
        None \<Rightarrow> None
      | Some pc \<Rightarrow>
          if time_sub now (pe_updated_at pc) \<ge> prefixCountCacheTTL then None else Some (pe_total pc))"

definition storePrefixCount :: "go_time \<Rightarrow> int \<Rightarrow> int \<Rightarrow> SessionManager \<Rightarrow> SessionManager" where
  "storePrefixCount now i cnt m =
     m\<lparr>sm_prefix_counts := (sm_prefix_counts m)(i \<mapsto> \<lparr>pe_total = cnt, pe_updated_at = now\<rparr>)\<rparr>"

definition countAdjPrefixes ::
  "gobgp \<Rightarrow> go_time \<Rightarrow> string \<Rightarrow> bool \<Rightarrow> SessionManager \<Rightarrow> go_error + int" where
  "countAdjPrefixes srv now peerAddr v6 m =
     (if peerAddr = [] \<or> \<not> sm_server m then Inr 0
      else case gb_table srv now peerAddr v6 of
        Inl err \<Rightarrow> Inl err
      | Inr num \<Rightarrow> Inr (min (uint num) (2 ^ 31 - 1)))"

text \<open>A family that cannot be read counts nothing.\<close>

definition count_or_zero :: "go_error + int \<Rightarrow> int" where
  "count_or_zero r = (case r of Inl err \<Rightarrow> 0 | Inr k \<Rightarrow> k)"

definition prefixesReceivedForEntry ::
  "gobgp \<Rightarrow> go_time \<Rightarrow> neighbor_entry \<Rightarrow> SessionManager \<Rightarrow> int" where
  "prefixesReceivedForEntry srv now e m =
     sum_list (map (\<lambda>addr. count_or_zero (countAdjPrefixes srv now addr False m) +
                           count_or_zero (countAdjPrefixes srv now addr True m)) (peerAddresses e))"

definition GetPrefixesReceived ::
  "gobgp \<Rightarrow> go_time \<Rightarrow> int \<Rightarrow> SessionManager \<Rightarrow> int \<times> SessionManager" where
  "GetPrefixesReceived srv now i m =
     (case sm_neighbors m i of
        None \<Rightarrow> (0, invalidatePrefixCount i m)
      | Some e \<Rightarrow>
          if \<not> sm_server m \<or> status_of m i \<noteq> SessEstablished then (0, invalidatePrefixCount i m)
          else (case cachedPrefixCount now i m of
                  Some cnt \<Rightarrow> (cnt, m)
                | None \<Rightarrow>
                    (let cnt = prefixesReceivedForEntry srv now e m
                     in (cnt, storePrefixCount now i cnt m))))"

definition GetStatus :: "int \<Rightarrow> SessionManager \<Rightarrow> session_state" where
  "GetStatus i m = status_of m i"

definition GetAllStatuses :: "SessionManager \<Rightarrow> int \<rightharpoonup> session_state" where
  "GetAllStatuses m = sm_states m"

definition session_status ::
  "gobgp \<Rightarrow> go_time \<Rightarrow> SessionManager \<Rightarrow> int \<times> neighbor_entry \<Rightarrow> bgp_session_status" where
  "session_status srv now m = (\<lambda>(i, e).
     \<lparr>st_neighbor_id = i, st_node_id = bn_node_id (ne_neighbor e), st_state = status_of m i,
      st_remote_as = bn_remote_as (ne_neighbor e), st_neighbor_ip = bn_neighbor_ip (ne_neighbor e),
      st_prefixes_received =
        (if status_of m i = SessEstablished then prefixesReceivedForEntry srv now e m else 0),
      st_uptime = []\<rparr>)"

definition GetSessionStatuses ::
  "gobgp \<Rightarrow> go_time \<Rightarrow> int list \<Rightarrow> SessionManager \<Rightarrow> bgp_session_status list" where
  "GetSessionStatuses srv now ks m =
     map (session_status srv now m)
       (List.map_filter (\<lambda>i. map_option (Pair i) (sm_neighbors m i)) ks)"

section \<open>What the engine asks\<close>

definition NodeIDForNeighborIP :: "int list \<Rightarrow> string \<Rightarrow> SessionManager \<Rightarrow> int option" where
  "NodeIDForNeighborIP ks ip m =
     (if ip = [] then None
      else Option.bind (find (owns_address m ip) ks)
             (\<lambda>i. map_option (\<lambda>e. bn_node_id (ne_neighbor e)) (sm_neighbors m i)))"

definition HasActiveSession :: "int \<Rightarrow> SessionManager \<Rightarrow> bool" where
  "HasActiveSession nodeID m \<longleftrightarrow>
     (\<exists>i \<in> node_ids (sm_node_neighbors m) nodeID. status_of m i = SessEstablished)"

definition HasNeighbors :: "int \<Rightarrow> SessionManager \<Rightarrow> bool" where
  "HasNeighbors nodeID m \<longleftrightarrow> node_ids (sm_node_neighbors m) nodeID \<noteq> {}"

definition entry_addresses :: "neighbor_entry option \<Rightarrow> string set" where
  "entry_addresses e = (case e of None \<Rightarrow> {} | Some e \<Rightarrow> set (peerAddresses e))"

definition neighborIPsForNode :: "int \<Rightarrow> SessionManager \<Rightarrow> string set" where
  "neighborIPsForNode nodeID m =
     (\<Union>i \<in> node_ids (sm_node_neighbors m) nodeID. entry_addresses (sm_neighbors m i))"

end
