(* ===== verification/SessionRegistry.thy ===== *)
theory SessionRegistry
  imports Sessions
begin

text \<open>
  Correctness of the session manager. The map \<open>nodeNeighbors\<close> is an index of the neighbours by the
  node that owns them; the locale \<open>group_index\<close> states what such an index promises. On top of it
  the manager refines a plain table from neighbour to node, state and addresses, whatever admin
  calls, queued peer events and background reports are interleaved.
\<close>

section \<open>An index by owner\<close>

definition indexes :: "(int \<Rightarrow> int set) \<Rightarrow> (int \<rightharpoonup> int) \<Rightarrow> bool" where
  "indexes mem owner \<longleftrightarrow> (\<forall>k. mem k = {i. owner i = Some k})"

locale group_index =
  fixes members :: "'x \<Rightarrow> int \<Rightarrow> int set"
    and put :: "int \<Rightarrow> int \<Rightarrow> 'x \<Rightarrow> 'x"
    and unfile :: "int \<Rightarrow> 'x \<Rightarrow> 'x"
    and unfile_others :: "int \<Rightarrow> int \<Rightarrow> 'x \<Rightarrow> 'x"
  assumes members_put: "members (put k i x) j = (if j = k then insert i (members x j) else members x j)"
    and members_unfile: "members (unfile i x) j = members x j - {i}"
    and members_unfile_others:
      "members (unfile_others k i x) j = (if j = k then members x j else members x j - {i})"
begin

lemma indexes_put:
  "indexes (members x) owner \<Longrightarrow> owner i = None \<or> owner i = Some k \<Longrightarrow>
   indexes (members (put k i x)) (owner(i \<mapsto> k))"
  unfolding indexes_def members_put by auto

lemma indexes_unfile:
  "indexes (members x) owner \<Longrightarrow> indexes (members (unfile i x)) (owner(i := None))"
  unfolding indexes_def members_unfile by auto

lemma indexes_move:
  "indexes (members x) owner \<Longrightarrow>
   indexes (members (put k i (unfile_others k i x))) (owner(i \<mapsto> k))"
  unfolding indexes_def members_put members_unfile_others by auto

lemma indexes_nonempty:
  "indexes (members x) owner \<Longrightarrow> members x k \<noteq> {} \<longleftrightarrow> (\<exists>i. owner i = Some k)"
  unfolding indexes_def by auto

end

lemma node_ids_unfile: "node_ids (unfile i ix) k = node_ids ix k - {i}"
  by (auto simp: node_ids_def unfile_def drop_id_def split: option.splits)

lemma node_ids_file: "node_ids (file_under n i ix) k = (if k = n then insert i (node_ids ix k) else node_ids ix k)"
  by (simp add: node_ids_def file_under_def)

lemma node_ids_unfile_others:
  "node_ids (unfile_others n i ix) k = (if k = n then node_ids ix k else node_ids ix k - {i})"
  by (auto simp: node_ids_def unfile_others_def drop_id_def split: option.splits)

interpretation ni: group_index node_ids file_under unfile unfile_others
  by unfold_locales (simp_all add: node_ids_file node_ids_unfile node_ids_unfile_others)

text \<open>No node is kept with an empty set.\<close>

definition no_empty_node :: "node_index \<Rightarrow> bool" where
  "no_empty_node ix \<longleftrightarrow> (\<forall>k. ix k \<noteq> Some {})"

lemma no_empty_file [simp]: "no_empty_node ix \<Longrightarrow> no_empty_node (file_under n i ix)"
  by (auto simp: no_empty_node_def file_under_def)

lemma no_empty_unfile [simp]: "no_empty_node (unfile i ix)"
  by (auto simp: no_empty_node_def unfile_def drop_id_def bind_eq_Some_conv split: if_splits)

lemma no_empty_unfile_others [simp]: "no_empty_node ix \<Longrightarrow> no_empty_node (unfile_others n i ix)"
  by (auto simp: no_empty_node_def unfile_others_def drop_id_def bind_eq_Some_conv split: if_splits)

section \<open>What an operation does to the registry\<close>

definition reg ::
  "SessionManager \<Rightarrow> (int \<rightharpoonup> neighbor_entry) \<times> node_index \<times> (int \<rightharpoonup> session_state) \<times>
   (int \<rightharpoonup> go_time) \<times> (int \<rightharpoonup> prefixCountEntry)" where
  "reg m = (sm_neighbors m, sm_node_neighbors m, sm_states m, sm_state_since m, sm_prefix_counts m)"

named_theorems session_effects

lemma recordEvent_effect [session_effects, simp]:
  "reg (recordEvent now i l msg a m) = reg m"
  "sm_server (recordEvent now i l msg a m) = sm_server m"
  "sm_global_as (recordEvent now i l msg a m) = sm_global_as m"
  "sm_calls (recordEvent now i l msg a m) = sm_calls m"
  "sm_cfg (recordEvent now i l msg a m) = sm_cfg m"
  by (simp_all add: recordEvent_def reg_def)

lemma bgp_request_effect [session_effects]:
  "bgp_request srv c m = (r, m') \<Longrightarrow>
   reg m' = reg m \<and> sm_server m' = sm_server m \<and> sm_global_as m' = sm_global_as m \<and>
   sm_cfg m' = sm_cfg m \<and> sm_events m' = sm_events m"
  by (auto simp: bgp_request_def reg_def)

definition same_registry :: "SessionManager \<Rightarrow> SessionManager \<Rightarrow> bool" where
  "same_registry m' m \<longleftrightarrow> reg m' = reg m \<and> sm_server m' = sm_server m"

lemma same_registry_refl [simp]: "same_registry m m"
  and same_registry_record [simp]:
    "same_registry (recordEvent now i l msg a m1) m \<longleftrightarrow> same_registry m1 m"
  by (auto simp: same_registry_def)

lemma same_registry_request:
  "bgp_request srv c m1 = (r, m2) \<Longrightarrow> same_registry m2 m \<longleftrightarrow> same_registry m1 m"
  by (auto simp: same_registry_def dest: bgp_request_effect)

lemma same_registry_stop:
  "same_registry m1 m \<Longrightarrow> same_registry (snd (stop_loop srv now i f addrs m1)) m"
  by (induction srv now i f addrs m1 rule: stop_loop.induct)
     (auto split: prod.splits option.splits simp: same_registry_request)

lemma same_registry_enable: "same_registry (enable_peer srv now i addr m1) m \<longleftrightarrow> same_registry m1 m"
  by (auto simp: enable_peer_def same_registry_request split: prod.splits option.splits)

lemma same_registry_restart:
  "same_registry m1 m \<Longrightarrow> same_registry (snd (restart_loop srv now i f addrs m1)) m"
  by (induction srv now i f addrs m1 rule: restart_loop.induct)
     (auto split: prod.splits option.splits simp: same_registry_request same_registry_enable)

lemma StopNeighbor_effect: "same_registry (snd (StopNeighbor srv now i m)) m"
  by (auto simp: StopNeighbor_def same_registry_stop split: sum.splits)

lemma RestartNeighbor_effect: "same_registry (snd (RestartNeighbor srv now i m)) m"
  by (auto simp: RestartNeighbor_def same_registry_restart split: sum.splits)

lemma recordPeerDown_effect: "same_registry (recordPeerDown now ks addr reason m) m"
  by (auto simp: recordPeerDown_def split: option.splits)

lemma same_registry_stuck_addresses:
  "same_registry m1 m \<Longrightarrow> same_registry (fold (log_stuck_address srv now i e st d) addrs m1) m"
  by (induction addrs arbitrary: m1) (auto simp: log_stuck_address_def Let_def split: sum.splits)

lemma same_registry_stuck:
  "same_registry m1 m \<Longrightarrow> same_registry (snd (stuck_loop srv now ps ll m1)) m"
proof (induction ps arbitrary: ll m1)
  case (Cons p ps)
  then show ?case by (cases p) (simp add: same_registry_stuck_addresses)
qed simp

lemma logStuckSessions_effect: "same_registry (snd (logStuckSessions srv now ks ll m)) m"
  by (simp add: logStuckSessions_def same_registry_stuck)

lemma same_registry_global: "same_registry (m1\<lparr>sm_global_as := x\<rparr>) m \<longleftrightarrow> same_registry m1 m"
  by (simp add: same_registry_def reg_def)

lemma ensureBGPGlobalStarted_effect:
  "same_registry (snd (ensureBGPGlobalStarted srv las rid m)) m"
  by (simp add: ensureBGPGlobalStarted_def Let_def same_registry_request same_registry_global
           split: prod.splits option.splits)

lemmas quiet_effects =
  StopNeighbor_effect RestartNeighbor_effect recordPeerDown_effect logStuckSessions_effect

lemma Start_effect: "reg (snd (Start srv m)) = reg m" "sm_server (snd (Start srv m))"
  using ensureBGPGlobalStarted_effect[of srv _ _ "m\<lparr>sm_server := True\<rparr>"]
  by (auto simp: Start_def Let_def same_registry_def reg_def)

lemma same_registry_register:
  "same_registry m1 m \<Longrightarrow> same_registry (register now n ip ip6 m1) (register now n ip ip6 m)"
  by (simp add: same_registry_def reg_def register_def)

lemma same_registry_unregister:
  "same_registry m1 m \<Longrightarrow> same_registry (unregister i m1) (unregister i m)"
  by (simp add: same_registry_def reg_def unregister_def)

lemma same_registry_invalidate:
  "same_registry m1 m \<Longrightarrow> same_registry (invalidatePrefixCount i m1) (invalidatePrefixCount i m)"
  by (simp add: same_registry_def reg_def invalidatePrefixCount_def)

lemma same_registry_events [simp]: "same_registry (m1\<lparr>sm_events := l\<rparr>) m \<longleftrightarrow> same_registry m1 m"
  by (simp add: same_registry_def reg_def)

lemma add_peer6_effect: "add_peer6 srv now n m1 = (ip6, m2) \<Longrightarrow> same_registry m2 m \<longleftrightarrow> same_registry m1 m"
  by (auto simp: add_peer6_def same_registry_request split: if_splits prod.splits option.splits)

lemma add_peer4_effect:
  "add_peer4 srv now n ip m1 = (r, m2) \<Longrightarrow> same_registry m2 m \<longleftrightarrow> same_registry m1 m"
  by (auto simp: add_peer4_def same_registry_request split: if_splits prod.splits option.splits)

lemma add_peer6_ip: "add_peer6 srv now n m1 = (ip6, m2) \<Longrightarrow> ip6 \<in> {[], bn_ipv6_neighbor_ip n}"
  by (auto simp: add_peer6_def split: if_splits prod.splits option.splits)

lemma AddNeighbor_effect:
  assumes "AddNeighbor srv now n m = (r, m')"
  shows "(r \<noteq> None \<and> same_registry m' m) \<or>
    (r = None \<and> sm_server m \<and>
     (\<exists>ip6 \<in> {[], bn_ipv6_neighbor_ip n}.
        same_registry m' (register now n (trim_space (bn_neighbor_ip n)) ip6 m)))"
proof (cases "sm_server m \<and> sm_global_as m \<noteq> 0")
  case True
  obtain r1 m1 where 4: "add_peer4 srv now n (trim_space (bn_neighbor_ip n)) m = (r1, m1)"
    by fastforce
  obtain ip6 m2 where 6: "add_peer6 srv now n m1 = (ip6, m2)" by fastforce
  have "same_registry m1 m" using add_peer4_effect[OF 4] by simp
  then have "same_registry m2 m" using add_peer6_effect[OF 6] by simp
  with \<open>same_registry m1 m\<close> show ?thesis
    using assms True add_peer6_ip[OF 6] 4 6
    by (cases r1) (auto simp: AddNeighbor_def Let_def intro!: same_registry_register)
qed (use assms in \<open>auto simp: AddNeighbor_def split: if_splits\<close>)

lemma delete_peer4_effect:
  "delete_peer4 srv now i e m1 = (r, m2) \<Longrightarrow> same_registry m2 m \<longleftrightarrow> same_registry m1 m"
  by (auto simp: delete_peer4_def same_registry_request split: if_splits prod.splits option.splits)

lemma delete_peer6_effect [simp]: "same_registry (delete_peer6 srv now i e m1) m \<longleftrightarrow> same_registry m1 m"
  by (auto simp: delete_peer6_def same_registry_request split: prod.splits option.splits)

lemma RemoveNeighbor_effect:
  assumes "RemoveNeighbor srv now i m = (r, m')"
  shows "(same_registry m' m \<and> (r \<noteq> None \<or> sm_neighbors m i = None)) \<or>
    (r = None \<and> same_registry m' (invalidatePrefixCount i (unregister i m)))"
proof (cases "sm_server m \<and> sm_neighbors m i \<noteq> None")
  case True
  then show ?thesis
    using assms
    by (auto simp: RemoveNeighbor_def Let_def delete_peer4_effect split: prod.splits option.splits
        intro!: same_registry_invalidate same_registry_unregister)
qed (use assms in \<open>auto simp: RemoveNeighbor_def split: if_splits option.splits\<close>)

lemma UpdateNeighbor_cases:
  assumes "UpdateNeighbor srv now n m = (r, m')"
  obtains (adopt) e where "sm_neighbors m (bn_id n) = Some e" "sessionParamsEqual (ne_neighbor e) n"
      "r = None" "same_registry m' (adoptNeighborRecord n e m)"
  | (replace) m1 where "m1 = snd (RemoveNeighbor srv now (bn_id n) m)" "AddNeighbor srv now n m1 = (r, m')"
  using assms by (auto simp: UpdateNeighbor_def split: option.splits if_splits)

lemma handlePeerStateChange_effect:
  "same_registry (handlePeerStateChange srv now i addr prev nxt ev m)
     (if map_option ev_type ev \<in> {Some PeerEventEndOfInit, Some PeerEventInit} \<or> prev = nxt \<or>
         sm_neighbors m i = None then m else set_state now i nxt m)"
  by (auto simp: handlePeerStateChange_def Let_def)

lemma GetPrefixesReceived_effect:
  "snd (GetPrefixesReceived srv now i m) \<in>
     {m, invalidatePrefixCount i m, storePrefixCount now i (fst (GetPrefixesReceived srv now i m)) m}"
  by (auto simp: GetPrefixesReceived_def Let_def split: option.splits)

section \<open>Runs\<close>

text \<open>The operations of the manager, in the granularity in which they interleave: a peer event of
  the watcher is looked up first and committed later, so a commit may carry any neighbour and any
  previous state.\<close>

datatype session_op =
    OpStart
  | OpAdd bgp_neighbor
  | OpRemove int
  | OpUpdate bgp_neighbor
  | OpStop int
  | OpRestart int
  | OpStateChange int string session_state api_session_state "peer_event option"
  | OpPeerDown "int list" string string
  | OpStuck "int list" "int \<rightharpoonup> go_time"
  | OpPrefixes int

fun session_apply :: "gobgp \<Rightarrow> go_time \<Rightarrow> session_op \<Rightarrow> SessionManager \<Rightarrow> SessionManager" where
  "session_apply srv now OpStart m = snd (Start srv m)"
| "session_apply srv now (OpAdd n) m = snd (AddNeighbor srv now n m)"
| "session_apply srv now (OpRemove i) m = snd (RemoveNeighbor srv now i m)"
| "session_apply srv now (OpUpdate n) m = snd (UpdateNeighbor srv now n m)"
| "session_apply srv now (OpStop i) m = snd (StopNeighbor srv now i m)"
| "session_apply srv now (OpRestart i) m = snd (RestartNeighbor srv now i m)"
| "session_apply srv now (OpStateChange i addr prev s ev) m =
     handlePeerStateChange srv now i addr prev (apiStateToDomain s) ev m"
| "session_apply srv now (OpPeerDown ks addr reason) m = recordPeerDown now ks addr reason m"
| "session_apply srv now (OpStuck ks ll) m = snd (logStuckSessions srv now ks ll m)"
| "session_apply srv now (OpPrefixes i) m = snd (GetPrefixesReceived srv now i m)"

text \<open>A neighbour is only added under an id the database has just given out.\<close>

fun op_allowed :: "session_op \<Rightarrow> SessionManager \<Rightarrow> bool" where
  "op_allowed (OpAdd n) m = (sm_neighbors m (bn_id n) = None)"
| "op_allowed _ m = True"

inductive session_reach :: "gobgp \<Rightarrow> BGPConfig \<Rightarrow> go_time \<Rightarrow> SessionManager \<Rightarrow> bool"
  for srv :: gobgp and cfg :: BGPConfig where
  init: "0 \<le> t \<Longrightarrow> session_reach srv cfg t (NewSessionManager cfg)"
| wait: "session_reach srv cfg t m \<Longrightarrow> t \<le> t' \<Longrightarrow> session_reach srv cfg t' m"
| op: "session_reach srv cfg t m \<Longrightarrow> op_allowed ev m \<Longrightarrow> session_reach srv cfg t (session_apply srv t ev m)"

text \<open>A watched event is either ignored or one of these commits.\<close>

lemma watch_lookup_state:
  "watch_lookup ks ev m = Some (i, addr, prev, nxt) \<Longrightarrow> \<exists>s. nxt = apiStateToDomain s"
  by (auto simp: watch_lookup_def split: option.splits)

lemma handleWatchPeerEvent_step:
  "handleWatchPeerEvent srv now ks peerEv m = m \<or>
   (\<exists>i addr prev s. handleWatchPeerEvent srv now ks peerEv m =
      session_apply srv now (OpStateChange i addr prev s peerEv) m)"
proof (cases "Option.bind peerEv (\<lambda>ev. watch_lookup ks ev m)")
  case (Some q)
  obtain i addr prev nxt where q: "q = (i, addr, prev, nxt)" by (cases q)
  with Some obtain s where "nxt = apiStateToDomain s"
    by (auto simp: bind_eq_Some_conv dest: watch_lookup_state)
  then show ?thesis using Some q by (simp add: handleWatchPeerEvent_def) metis
qed (simp add: handleWatchPeerEvent_def)

section \<open>The abstract table\<close>

type_synonym registry = "int \<rightharpoonup> int \<times> session_state \<times> string list"

definition abs_registry :: "SessionManager \<Rightarrow> registry" where
  "abs_registry m = (\<lambda>i. map_option
     (\<lambda>e. (bn_node_id (ne_neighbor e), status_of m i, peerAddresses e)) (sm_neighbors m i))"

text \<open>What an operation may do to the table, on its success or failure: a neighbour joins idle under
  its node, leaves, moves to another node with its session untouched, or changes its state. No
  operation touches another neighbour's row.\<close>

definition joined :: "bgp_neighbor \<Rightarrow> registry \<Rightarrow> registry \<Rightarrow> bool" where
  "joined n r r' \<longleftrightarrow> (\<exists>addrs. r' = r(bn_id n \<mapsto> (bn_node_id n, SessIdle, addrs)))"

definition moved :: "bgp_neighbor \<Rightarrow> registry \<Rightarrow> registry \<Rightarrow> bool" where
  "moved n r r' \<longleftrightarrow>
     (\<exists>k s addrs. r (bn_id n) = Some (k, s, addrs) \<and> r' = r(bn_id n \<mapsto> (bn_node_id n, s, addrs)))"

definition changed :: "int \<Rightarrow> session_state \<Rightarrow> registry \<Rightarrow> registry \<Rightarrow> bool" where
  "changed i s' r r' \<longleftrightarrow> (\<exists>k s addrs. r i = Some (k, s, addrs) \<and> r' = r(i \<mapsto> (k, s', addrs)))"

lemma joinedI: "joined n r (r(bn_id n \<mapsto> (bn_node_id n, SessIdle, addrs)))"
  by (auto simp: joined_def)

lemma movedI: "r (bn_id n) = Some (k, s, addrs) \<Longrightarrow> moved n r (r(bn_id n \<mapsto> (bn_node_id n, s, addrs)))"
  by (auto simp: moved_def)

lemma changedI: "r i = Some (k, s, addrs) \<Longrightarrow> changed i s' r (r(i \<mapsto> (k, s', addrs)))"
  by (auto simp: changed_def)

fun registry_step :: "session_op \<Rightarrow> registry \<Rightarrow> registry \<Rightarrow> bool" where
  "registry_step (OpAdd n) r r' = (r' = r \<or> joined n r r')"
| "registry_step (OpRemove i) r r' = (r' = r \<or> r' = r(i := None))"
| "registry_step (OpUpdate n) r r' = (r' = r \<or> r' = r(bn_id n := None) \<or> joined n r r' \<or> moved n r r')"
| "registry_step (OpStateChange i addr prev s ev) r r' = (r' = r \<or> changed i (apiStateToDomain s) r r')"
| "registry_step _ r r' = (r' = r)"

definition owner_of :: "SessionManager \<Rightarrow> int \<rightharpoonup> int" where
  "owner_of m = (\<lambda>i. map_option (\<lambda>e. bn_node_id (ne_neighbor e)) (sm_neighbors m i))"

definition registry_ok :: "SessionManager \<Rightarrow> bool" where
  "registry_ok m \<longleftrightarrow>
     indexes (node_ids (sm_node_neighbors m)) (owner_of m) \<and> no_empty_node (sm_node_neighbors m) \<and>
     dom (sm_states m) = dom (sm_neighbors m) \<and> SessNone \<notin> ran (sm_states m) \<and>
     (\<forall>i e. sm_neighbors m i = Some e \<longrightarrow> bn_id (ne_neighbor e) = i)"

lemma registry_congs:
  assumes "same_registry m' m"
  shows "registry_ok m' \<longleftrightarrow> registry_ok m" and "abs_registry m' = abs_registry m"
    and "owner_of m' = owner_of m" and "sm_neighbors m' = sm_neighbors m"
    and "sm_node_neighbors m' = sm_node_neighbors m" and "sm_states m' = sm_states m"
    and "sm_server m' = sm_server m" and "sm_prefix_counts m' = sm_prefix_counts m"
    and "sm_state_since m' = sm_state_since m"
  using assms
  by (simp_all add: same_registry_def reg_def registry_ok_def abs_registry_def owner_of_def status_of_def)

lemma owner_register:
  "owner_of (register now n ip ip6 m) = (owner_of m)(bn_id n \<mapsto> bn_node_id n)"
  by (auto simp: owner_of_def register_def)

lemma registry_ok_register:
  assumes "registry_ok m" "owner_of m (bn_id n) = None \<or> owner_of m (bn_id n) = Some (bn_node_id n)"
  shows "registry_ok (register now n ip ip6 m)"
  using assms ni.indexes_put[of "sm_node_neighbors m" "owner_of m" "bn_id n" "bn_node_id n"]
  unfolding registry_ok_def owner_register
  by (auto simp: register_def ran_def split: if_splits)

lemma abs_register:
  "abs_registry (register now n ip ip6 m) = (abs_registry m)(bn_id n \<mapsto> (bn_node_id n, SessIdle,
     peerAddresses \<lparr>ne_neighbor = n, ne_neighbor_ip = ip, ne_ipv6_neighbor_ip = ip6\<rparr>))"
  by (auto simp: abs_registry_def register_def status_of_def)

lemma registry_ok_invalidate [simp]: "registry_ok (invalidatePrefixCount i m) \<longleftrightarrow> registry_ok m"
  and abs_invalidate [simp]: "abs_registry (invalidatePrefixCount i m) = abs_registry m"
  by (simp_all add: registry_ok_def owner_of_def abs_registry_def invalidatePrefixCount_def status_of_def)

lemma registry_ok_store [simp]: "registry_ok (storePrefixCount now i k m) \<longleftrightarrow> registry_ok m"
  and abs_store [simp]: "abs_registry (storePrefixCount now i k m) = abs_registry m"
  by (simp_all add: registry_ok_def owner_of_def abs_registry_def storePrefixCount_def status_of_def)

lemma owner_unregister: "owner_of (unregister i m) = (owner_of m)(i := None)"
  by (auto simp: owner_of_def unregister_def)

lemma registry_ok_unregister:
  assumes "registry_ok m"
  shows "registry_ok (unregister i m)"
  using assms ni.indexes_unfile[of "sm_node_neighbors m" "owner_of m" i]
  unfolding registry_ok_def owner_unregister
  by (auto simp: unregister_def ran_def dom_def split: if_splits)

lemma abs_unregister: "abs_registry (unregister i m) = (abs_registry m)(i := None)"
  by (auto simp: abs_registry_def unregister_def status_of_def)

lemma owner_adopt:
  "owner_of (adoptNeighborRecord n e m) = (owner_of m)(bn_id n \<mapsto> bn_node_id n)"
  by (auto simp: owner_of_def adoptNeighborRecord_def)

lemma registry_ok_adopt:
  assumes "registry_ok m" "sm_neighbors m (bn_id n) = Some e"
  shows "registry_ok (adoptNeighborRecord n e m)"
  using assms ni.indexes_move[of "sm_node_neighbors m" "owner_of m" "bn_node_id n" "bn_id n"]
  unfolding registry_ok_def owner_adopt
  by (auto simp: adoptNeighborRecord_def)

lemma abs_adopt:
  "sm_neighbors m (bn_id n) = Some e \<Longrightarrow>
   abs_registry (adoptNeighborRecord n e m) =
     (abs_registry m)(bn_id n \<mapsto> (bn_node_id n, status_of m (bn_id n), peerAddresses e))"
  by (auto simp: abs_registry_def adoptNeighborRecord_def status_of_def peerAddresses_def)

lemma registry_ok_set_state:
  assumes "registry_ok m" "sm_neighbors m i \<noteq> None" "nxt \<noteq> SessNone"
  shows "registry_ok (set_state now i nxt m)"
  using assms
  by (auto simp: set_state_def registry_ok_def owner_of_def invalidatePrefixCount_def ran_def dom_def
      split: if_splits)

lemma abs_set_state:
  "sm_neighbors m i = Some e \<Longrightarrow> abs_registry (set_state now i nxt m) =
     (abs_registry m)(i \<mapsto> (bn_node_id (ne_neighbor e), nxt, peerAddresses e))"
  by (auto simp: abs_registry_def set_state_def invalidatePrefixCount_def status_of_def)

section \<open>Every operation keeps the registry well formed and refines the table\<close>

definition delete_ok :: "gobgp \<Rightarrow> bool" where
  "delete_ok srv \<longleftrightarrow> (\<forall>h a. gb_answer srv h (DeletePeer a) = None)"

definition refines_step :: "session_op \<Rightarrow> SessionManager \<Rightarrow> SessionManager \<Rightarrow> bool" where
  "refines_step ev m m' \<longleftrightarrow> registry_ok m' \<and> registry_step ev (abs_registry m) (abs_registry m')"

lemma registry_step_refl [simp]: "registry_step ev r r"
  by (cases ev) simp_all

lemma refines_same: "same_registry m' m \<Longrightarrow> registry_ok m \<Longrightarrow> refines_step ev m m'"
  by (simp add: refines_step_def registry_congs)

lemma RemoveNeighbor_registry:
  assumes "registry_ok m"
  shows "registry_ok (snd (RemoveNeighbor srv now i m))"
    and "abs_registry (snd (RemoveNeighbor srv now i m)) \<in> {abs_registry m, (abs_registry m)(i := None)}"
    and "sm_server (snd (RemoveNeighbor srv now i m)) = sm_server m"
proof -
  obtain r m' where R: "RemoveNeighbor srv now i m = (r, m')" by fastforce
  have srv: "sm_server (invalidatePrefixCount i (unregister i m)) = sm_server m"
    by (simp add: invalidatePrefixCount_def unregister_def)
  show "registry_ok (snd (RemoveNeighbor srv now i m))"
    and "abs_registry (snd (RemoveNeighbor srv now i m)) \<in> {abs_registry m, (abs_registry m)(i := None)}"
    and "sm_server (snd (RemoveNeighbor srv now i m)) = sm_server m"
    using RemoveNeighbor_effect[OF R] assms registry_ok_unregister[OF assms] R srv
    by (auto simp: registry_congs abs_unregister)
qed

lemma RemoveNeighbor_gone:
  assumes "delete_ok srv" "sm_server m"
  shows "sm_neighbors (snd (RemoveNeighbor srv now i m)) i = None"
proof (cases "sm_neighbors m i")
  case (Some e)
  obtain r m1 where 4: "delete_peer4 srv now i e m = (r, m1)" by fastforce
  then have "r = None"
    using assms(1) by (auto simp: delete_peer4_def bgp_request_def delete_ok_def split: if_splits)
  then show ?thesis
    using Some 4 assms(2)
    by (simp add: RemoveNeighbor_def Let_def unregister_def invalidatePrefixCount_def)
qed (simp add: RemoveNeighbor_def)

lemma AddNeighbor_refines:
  assumes "registry_ok m" "AddNeighbor srv now n m = (r, m')"
    and "sm_server m \<Longrightarrow> sm_neighbors m (bn_id n) = None"
  shows "refines_step (OpAdd n) m m'"
  using AddNeighbor_effect[OF assms(2)]
proof (elim disjE conjE bexE)
  fix ip6
  assume "sm_server m" and same: "same_registry m' (register now n (trim_space (bn_neighbor_ip n)) ip6 m)"
  then have "owner_of m (bn_id n) = None" using assms(3) by (simp add: owner_of_def)
  then show ?thesis
    using registry_ok_register[OF assms(1)] registry_congs[OF same]
    by (simp add: refines_step_def abs_register joinedI)
qed (use assms(1) refines_same in blast)

lemma UpdateNeighbor_refines:
  assumes "registry_ok m" "delete_ok srv" "UpdateNeighbor srv now n m = (r, m')"
  shows "refines_step (OpUpdate n) m m'"
  using assms(3)
proof (cases rule: UpdateNeighbor_cases)
  case (adopt e)
  then have "abs_registry m (bn_id n) = Some (bn_node_id (ne_neighbor e), status_of m (bn_id n), peerAddresses e)"
    by (simp add: abs_registry_def)
  then show ?thesis
    using registry_ok_adopt[OF assms(1)] adopt
    by (auto simp: refines_step_def registry_congs abs_adopt movedI)
next
  case (replace m1)
  note rm = RemoveNeighbor_registry[OF assms(1), of srv now "bn_id n", folded replace(1)]
  show ?thesis
    using AddNeighbor_effect[OF replace(2)]
  proof (elim disjE conjE bexE)
    assume "same_registry m' m1"
    then show ?thesis
      using rm by (auto simp: refines_step_def registry_congs)
  next
    fix ip6
    assume "sm_server m1" and same: "same_registry m' (register now n (trim_space (bn_neighbor_ip n)) ip6 m1)"
    then have "owner_of m1 (bn_id n) = None"
      using rm(3) RemoveNeighbor_gone[OF assms(2)] replace(1) by (simp add: owner_of_def)
    then show ?thesis
      using registry_ok_register[OF rm(1)] registry_congs[OF same] rm(2)
      by (auto simp: refines_step_def abs_register joinedI)
  qed
qed

lemma apiStateToDomain_not_none [simp]: "apiStateToDomain s \<noteq> SessNone"
  by (cases s) (simp_all add: apiStateToDomain_def)

lemma handlePeerStateChange_refines:
  fixes s :: api_session_state
  defines "nxt \<equiv> apiStateToDomain s"
  assumes "registry_ok m"
  shows "refines_step (OpStateChange i addr prev s ev) m
    (handlePeerStateChange srv now i addr prev (apiStateToDomain s) ev m)"
proof -
  have nxt: "nxt \<noteq> SessNone" by (simp add: nxt_def)
  note eff = handlePeerStateChange_effect[of srv now i addr prev nxt ev m]
  show ?thesis
  proof (cases "map_option ev_type ev \<in> {Some PeerEventEndOfInit, Some PeerEventInit} \<or> prev = nxt \<or>
      sm_neighbors m i = None")
    case True
    then show ?thesis using eff assms(2) by (simp only: if_True refines_same nxt_def)
  next
    case False
    then obtain e where e: "sm_neighbors m i = Some e" by auto
    then have "abs_registry m i = Some (bn_node_id (ne_neighbor e), status_of m i, peerAddresses e)"
      by (simp add: abs_registry_def)
    moreover have "same_registry (handlePeerStateChange srv now i addr prev nxt ev m) (set_state now i nxt m)"
      using eff False by (simp only: if_False)
    ultimately show ?thesis
      using registry_ok_set_state[OF assms(2) _ nxt] e abs_set_state[OF e]
      by (auto simp: refines_step_def registry_congs changedI nxt_def)
  qed
qed

lemma session_apply_refines:
  assumes "registry_ok m" "delete_ok srv" "op_allowed ev m"
  shows "refines_step ev m (session_apply srv now ev m)"
proof (cases ev)
  case OpStart
  have "registry_ok (snd (Start srv m)) = registry_ok m" "abs_registry (snd (Start srv m)) = abs_registry m"
    using Start_effect(1)[of srv m]
    by (auto simp: reg_def registry_ok_def owner_of_def abs_registry_def status_of_def)
  then show ?thesis using OpStart assms by (simp add: refines_step_def)
next
  case (OpAdd n)
  then show ?thesis
    using assms AddNeighbor_refines[of m srv now n] by (cases "AddNeighbor srv now n m") auto
next
  case (OpRemove i)
  then show ?thesis
    using RemoveNeighbor_registry[OF assms(1), of srv now i]
    by (auto simp: refines_step_def)
next
  case (OpUpdate n)
  then show ?thesis
    using assms UpdateNeighbor_refines[of m srv now n] by (cases "UpdateNeighbor srv now n m") auto
next
  case (OpPrefixes i)
  then show ?thesis
    using GetPrefixesReceived_effect[of srv now i m] assms(1)
    by (auto simp: refines_step_def)
qed (use assms in \<open>simp_all add: refines_same StopNeighbor_effect RestartNeighbor_effect
      recordPeerDown_effect logStuckSessions_effect handlePeerStateChange_refines\<close>)

lemma registry_ok_new: "registry_ok (NewSessionManager cfg)"
  by (auto simp: registry_ok_def NewSessionManager_def owner_of_def indexes_def node_ids_def no_empty_node_def)

lemma session_reach_ok:
  "session_reach srv cfg t m \<Longrightarrow> delete_ok srv \<Longrightarrow> registry_ok m"
  by (induction rule: session_reach.induct)
     (use session_apply_refines in \<open>auto simp: registry_ok_new refines_step_def\<close>)

lemma registry_members:
  "registry_ok m \<Longrightarrow> node_ids (sm_node_neighbors m) n =
     {i. \<exists>e. sm_neighbors m i = Some e \<and> bn_node_id (ne_neighbor e) = n}"
  by (auto simp: registry_ok_def indexes_def owner_of_def)

lemma abs_registry_Some:
  "abs_registry m i = Some (n, s, a) \<longleftrightarrow>
     (\<exists>e. sm_neighbors m i = Some e \<and> bn_node_id (ne_neighbor e) = n \<and> status_of m i = s \<and> peerAddresses e = a)"
  by (auto simp: abs_registry_def)

lemma HasNeighbors_abs:
  "registry_ok m \<Longrightarrow> HasNeighbors n m \<longleftrightarrow> (\<exists>i s a. abs_registry m i = Some (n, s, a))"
  by (auto simp: HasNeighbors_def registry_members abs_registry_Some)

lemma HasActiveSession_abs:
  "registry_ok m \<Longrightarrow>
   HasActiveSession n m \<longleftrightarrow> (\<exists>i a. abs_registry m i = Some (n, SessEstablished, a))"
  by (auto simp: HasActiveSession_def registry_members abs_registry_Some)

lemma neighborIPsForNode_abs:
  assumes "registry_ok m"
  shows "neighborIPsForNode n m = {ip. \<exists>i s a. abs_registry m i = Some (n, s, a) \<and> ip \<in> set a}"
proof (intro set_eqI)
  fix ip
  have "ip \<in> neighborIPsForNode n m \<longleftrightarrow>
      (\<exists>i e. sm_neighbors m i = Some e \<and> bn_node_id (ne_neighbor e) = n \<and> ip \<in> set (peerAddresses e))"
    by (auto simp: neighborIPsForNode_def registry_members[OF assms] entry_addresses_def) blast
  then show "ip \<in> neighborIPsForNode n m \<longleftrightarrow>
      ip \<in> {ip. \<exists>i s a. abs_registry m i = Some (n, s, a) \<and> ip \<in> set a}"
    by (simp only: mem_Collect_eq abs_registry_Some) blast
qed

section \<open>Prefix counts\<close>

lemma prefixesReceived_cong:
  "sm_server m' = sm_server m \<Longrightarrow> peerAddresses e' = peerAddresses e \<Longrightarrow>
   prefixesReceivedForEntry srv t e' m' = prefixesReceivedForEntry srv t e m"
  by (simp add: prefixesReceivedForEntry_def countAdjPrefixes_def)

text \<open>A cached count of an established neighbour was taken during that session.\<close>

definition count_ok :: "gobgp \<Rightarrow> SessionManager \<Rightarrow> int \<Rightarrow> prefixCountEntry \<Rightarrow> bool" where
  "count_ok srv m i pc \<longleftrightarrow>
     (\<forall>e. sm_neighbors m i = Some e \<and> status_of m i = SessEstablished \<longrightarrow>
        sm_server m \<and> since_of m i \<le> pe_updated_at pc \<and>
        pe_total pc = prefixesReceivedForEntry srv (pe_updated_at pc) e m)"

definition counts_ok :: "gobgp \<Rightarrow> go_time \<Rightarrow> SessionManager \<Rightarrow> bool" where
  "counts_ok srv now m \<longleftrightarrow>
     0 \<le> now \<and> (\<forall>i t. sm_state_since m i = Some t \<longrightarrow> t \<le> now) \<and>
     (\<forall>i pc. sm_prefix_counts m i = Some pc \<longrightarrow> pe_updated_at pc \<le> now \<and> count_ok srv m i pc)"

lemma counts_ok_same:
  assumes "same_registry m' m"
  shows "counts_ok srv now m' \<longleftrightarrow> counts_ok srv now m"
  using assms prefixesReceived_cong[of m' m]
  by (auto simp: counts_ok_def count_ok_def registry_congs since_of_def status_of_def)

lemma counts_ok_register: "counts_ok srv now m \<Longrightarrow> counts_ok srv now (register now n ip ip6 m)"
  using prefixesReceived_cong[of "register now n ip ip6 m" m]
  by (auto simp: counts_ok_def count_ok_def register_def since_of_def status_of_def split: if_splits)

lemma counts_ok_remove:
  "counts_ok srv now m \<Longrightarrow> counts_ok srv now (invalidatePrefixCount i (unregister i m))"
  using prefixesReceived_cong[of "invalidatePrefixCount i (unregister i m)" m]
  by (auto simp: counts_ok_def count_ok_def unregister_def invalidatePrefixCount_def since_of_def
      status_of_def split: if_splits)

lemma counts_ok_invalidate: "counts_ok srv now m \<Longrightarrow> counts_ok srv now (invalidatePrefixCount i m)"
  using prefixesReceived_cong[of "invalidatePrefixCount i m" m]
  by (auto simp: counts_ok_def count_ok_def invalidatePrefixCount_def since_of_def
      status_of_def split: if_splits)

lemma counts_ok_set_state: "counts_ok srv now m \<Longrightarrow> counts_ok srv now (set_state now i nxt m)"
  using prefixesReceived_cong[of "set_state now i nxt m" m]
  by (auto simp: counts_ok_def count_ok_def set_state_def invalidatePrefixCount_def since_of_def
      status_of_def split: if_splits)

lemma counts_ok_adopt:
  assumes "counts_ok srv now m" "sm_neighbors m (bn_id n) = Some e"
  shows "counts_ok srv now (adoptNeighborRecord n e m)"
proof -
  have "prefixesReceivedForEntry srv t (e\<lparr>ne_neighbor := n\<rparr>) (adoptNeighborRecord n e m) =
      prefixesReceivedForEntry srv t e m" for t
    by (rule prefixesReceived_cong) (simp_all add: adoptNeighborRecord_def peerAddresses_def)
  moreover have "prefixesReceivedForEntry srv t e' (adoptNeighborRecord n e m) =
      prefixesReceivedForEntry srv t e' m" for t e'
    by (rule prefixesReceived_cong) (simp_all add: adoptNeighborRecord_def)
  ultimately show ?thesis
    using assms
    by (auto simp: counts_ok_def count_ok_def adoptNeighborRecord_def since_of_def status_of_def
        split: if_splits)
qed

lemma counts_ok_prefixes:
  assumes "counts_ok srv now m"
  shows "counts_ok srv now (snd (GetPrefixesReceived srv now i m))"
proof -
  have "count_ok srv m i \<lparr>pe_total = prefixesReceivedForEntry srv now e m, pe_updated_at = now\<rparr>"
    if "sm_neighbors m i = Some e" "sm_server m" for e
    using that assms by (auto simp: count_ok_def counts_ok_def since_of_def split: option.splits)
  moreover have "count_ok srv (storePrefixCount now i k m) j pc = count_ok srv m j pc" for k j pc
    using prefixesReceived_cong[of "storePrefixCount now i k m" m]
    by (simp add: count_ok_def storePrefixCount_def since_of_def status_of_def)
  ultimately show ?thesis
    using assms counts_ok_invalidate[OF assms, of i]
    by (auto simp: GetPrefixesReceived_def Let_def counts_ok_def storePrefixCount_def[of now i _ m]
        split: option.splits)
qed

lemma counts_ok_Remove:
  "counts_ok srv now m \<Longrightarrow> counts_ok srv now (snd (RemoveNeighbor srv now i m))"
  using RemoveNeighbor_effect[of srv now i m "fst (RemoveNeighbor srv now i m)"]
  by (cases "RemoveNeighbor srv now i m") (auto simp: counts_ok_same counts_ok_remove)

lemma counts_ok_Add:
  assumes "counts_ok srv now m"
  shows "counts_ok srv now (snd (AddNeighbor srv now n m))"
proof -
  obtain r m' where A: "AddNeighbor srv now n m = (r, m')" by fastforce
  then show ?thesis
    using AddNeighbor_effect[OF A] counts_ok_same counts_ok_register[OF assms] assms by auto
qed

lemma counts_ok_Update:
  assumes "counts_ok srv now m"
  shows "counts_ok srv now (snd (UpdateNeighbor srv now n m))"
proof -
  obtain r m' where U: "UpdateNeighbor srv now n m = (r, m')" by fastforce
  from U show ?thesis
  proof (cases rule: UpdateNeighbor_cases)
    case (adopt e)
    then show ?thesis using U counts_ok_adopt[OF assms] by (simp add: counts_ok_same)
  next
    case (replace m1)
    then show ?thesis
      using U counts_ok_Add[OF counts_ok_Remove[OF assms], of n "bn_id n"] by simp
  qed
qed

lemma counts_ok_state_change:
  assumes "counts_ok srv now m"
  shows "counts_ok srv now (handlePeerStateChange srv now i addr prev nxt ev m)"
  using counts_ok_same[OF handlePeerStateChange_effect[of srv now i addr prev nxt ev m]]
    counts_ok_set_state[OF assms] assms
  by presburger

lemma counts_ok_start:
  assumes "counts_ok srv now m"
  shows "counts_ok srv now (snd (Start srv m))"
proof -
  have "prefixesReceivedForEntry srv t e (snd (Start srv m)) = prefixesReceivedForEntry srv t e m"
    if "sm_server m" for t e
    by (rule prefixesReceived_cong) (simp_all add: that Start_effect)
  then show ?thesis
    using assms Start_effect[of srv m]
    by (auto simp: counts_ok_def count_ok_def reg_def since_of_def status_of_def)
qed

lemma counts_ok_apply:
  assumes "counts_ok srv now m"
  shows "counts_ok srv now (session_apply srv now ev m)"
  by (cases ev)
     (simp_all add: assms counts_ok_Add counts_ok_Remove counts_ok_Update counts_ok_state_change
        counts_ok_prefixes counts_ok_start quiet_effects[THEN counts_ok_same])

lemma counts_ok_wait: "counts_ok srv now m \<Longrightarrow> now \<le> now' \<Longrightarrow> counts_ok srv now' m"
  unfolding counts_ok_def by (meson order_trans)

lemma session_reach_counts: "session_reach srv cfg now m \<Longrightarrow> counts_ok srv now m"
proof (induction rule: session_reach.induct)
  case (init t)
  then show ?case by (simp add: counts_ok_def NewSessionManager_def)
qed (simp_all add: counts_ok_wait counts_ok_apply)

section \<open>A removed neighbour\<close>

definition absent :: "int \<Rightarrow> SessionManager \<Rightarrow> bool" where
  "absent i m \<longleftrightarrow> sm_neighbors m i = None \<and> sm_states m i = None \<and>
     (\<forall>k. i \<notin> node_ids (sm_node_neighbors m) k) \<and> sm_prefix_counts m i = None"

text \<open>The operations that may bring a neighbour in.\<close>

fun readmits :: "int \<Rightarrow> session_op \<Rightarrow> bool" where
  "readmits i (OpAdd n) = (bn_id n = i)"
| "readmits i (OpUpdate n) = (bn_id n = i)"
| "readmits i _ = False"

lemma absent_same: "same_registry m' m \<Longrightarrow> absent i m' \<longleftrightarrow> absent i m"
  by (simp add: absent_def registry_congs)

lemma absent_remove: "absent i (invalidatePrefixCount i (unregister i m))"
  by (simp add: absent_def invalidatePrefixCount_def unregister_def node_ids_unfile)

lemma absent_unregister: "absent i m \<Longrightarrow> absent i (invalidatePrefixCount j (unregister j m))"
  by (simp add: absent_def invalidatePrefixCount_def unregister_def node_ids_unfile)

lemma absent_register: "absent i m \<Longrightarrow> bn_id n \<noteq> i \<Longrightarrow> absent i (register now n ip ip6 m)"
  by (auto simp: absent_def register_def node_ids_file)

lemma absent_adopt: "absent i m \<Longrightarrow> bn_id n \<noteq> i \<Longrightarrow> absent i (adoptNeighborRecord n e m)"
  by (auto simp: absent_def adoptNeighborRecord_def node_ids_file node_ids_unfile_others)

lemma absent_Remove: "absent i m \<Longrightarrow> absent i (snd (RemoveNeighbor srv now j m))"
  using RemoveNeighbor_effect[of srv now j m "fst (RemoveNeighbor srv now j m)"]
  by (cases "RemoveNeighbor srv now j m") (auto simp: absent_same absent_unregister)

lemma absent_Add:
  assumes "absent i m" "bn_id n \<noteq> i"
  shows "absent i (snd (AddNeighbor srv now n m))"
proof -
  obtain r m' where A: "AddNeighbor srv now n m = (r, m')" by fastforce
  then show ?thesis
    using AddNeighbor_effect[OF A] absent_same absent_register[OF assms] assms by auto
qed

lemma absent_Update:
  assumes "absent i m" "bn_id n \<noteq> i"
  shows "absent i (snd (UpdateNeighbor srv now n m))"
proof -
  obtain r m' where U: "UpdateNeighbor srv now n m = (r, m')" by fastforce
  from U show ?thesis
  proof (cases rule: UpdateNeighbor_cases)
    case (adopt e)
    then show ?thesis using U absent_adopt[OF assms] by (simp add: absent_same)
  next
    case (replace m1)
    then show ?thesis
      using U absent_Add[OF absent_Remove[OF assms(1), of srv now "bn_id n"] assms(2), of srv now] by simp
  qed
qed

lemma absent_state_change:
  assumes "absent i m"
  shows "absent i (handlePeerStateChange srv now j addr prev nxt ev m)"
proof -
  have "absent i (set_state now j nxt m)" if "sm_neighbors m j \<noteq> None"
    using that assms by (auto simp: absent_def set_state_def invalidatePrefixCount_def)
  then show ?thesis
    using absent_same[OF handlePeerStateChange_effect[of srv now j addr prev nxt ev m]] assms by presburger
qed

lemma absent_prefixes:
  assumes "absent i m"
  shows "absent i (snd (GetPrefixesReceived srv now j m))"
  using assms
  by (cases "j = i")
     (auto simp: GetPrefixesReceived_def absent_def Let_def invalidatePrefixCount_def storePrefixCount_def
        split: option.splits)

lemma absent_start: "absent i m \<Longrightarrow> absent i (snd (Start srv m))"
  using Start_effect[of srv m] by (simp add: absent_def reg_def)

lemma absent_apply:
  assumes "absent i m" "\<not> readmits i ev"
  shows "absent i (session_apply srv now ev m)"
  using assms
  by (cases ev)
     (simp_all add: absent_Add absent_Remove absent_Update absent_state_change absent_prefixes
        absent_start quiet_effects[THEN absent_same])

definition session_run :: "gobgp \<Rightarrow> (go_time \<times> session_op) list \<Rightarrow> SessionManager \<Rightarrow> SessionManager" where
  "session_run srv evs m = fold (\<lambda>(now, ev). session_apply srv now ev) evs m"

lemma absent_run:
  "absent i m \<Longrightarrow> \<forall>p \<in> set evs. \<not> readmits i (snd p) \<Longrightarrow> absent i (session_run srv evs m)"
  by (induction evs arbitrary: m) (auto simp: session_run_def absent_apply)

section \<open>Properties\<close>




text \<open>C27: Once a neighbour has been removed, no queued peer event, report or operation on another
  neighbour brings it back: it has no state, no node lists it and no address leads to it.\<close>

theorem removed_neighbour_stays_gone:
  assumes "RemoveNeighbor srv now i m = (None, m1)" and "sm_neighbors m i \<noteq> None"
    and "\<forall>p \<in> set evs. \<not> readmits i (snd p)"
  shows "GetStatus i (session_run srv evs m1) = SessNone \<and>
    GetAllStatuses (session_run srv evs m1) i = None \<and>
    (\<forall>n. i \<notin> node_ids (sm_node_neighbors (session_run srv evs m1)) n) \<and>
    neighborIDForAddress ks addr (session_run srv evs m1) \<noteq> Some i"
proof -
  have "absent i m1"
    using RemoveNeighbor_effect[OF assms(1)] assms(2) absent_remove[of i m] by (auto simp: absent_same)
  then have gone: "absent i (session_run srv evs m1)" by (rule absent_run[OF _ assms(3)])
  then have "\<not> owns_address (session_run srv evs m1) addr i" by (simp add: absent_def owns_address_def)
  then have "neighborIDForAddress ks addr (session_run srv evs m1) \<noteq> Some i"
    by (auto simp: neighborIDForAddress_def find_Some_iff)
  with gone show ?thesis by (simp add: absent_def GetStatus_def GetAllStatuses_def status_of_def)
qed

text \<open>Saving a neighbour whose session parameters did not change costs nothing: no call reaches
  GoBGP, every session keeps its state and its addresses, and the neighbour is filed under its new
  node and no other.\<close>

theorem UpdateNeighbor_leaves_session_up:
  assumes "sm_neighbors m (bn_id n) = Some e" and "sessionParamsEqual (ne_neighbor e) n"
  shows "fst (UpdateNeighbor srv t n m) = None \<and>
    sm_calls (snd (UpdateNeighbor srv t n m)) = sm_calls m \<and>
    sm_states (snd (UpdateNeighbor srv t n m)) = sm_states m \<and>
    abs_registry (snd (UpdateNeighbor srv t n m)) =
      (abs_registry m)(bn_id n \<mapsto> (bn_node_id n, status_of m (bn_id n), peerAddresses e)) \<and>
    (bn_id n \<in> node_ids (sm_node_neighbors (snd (UpdateNeighbor srv t n m))) k \<longleftrightarrow> k = bn_node_id n)"
proof -
  let ?m = "adoptNeighborRecord n e m"
  have same: "same_registry (snd (UpdateNeighbor srv t n m)) ?m"
    using assms by (simp add: UpdateNeighbor_def)
  have calls: "sm_calls ?m = sm_calls m" and states: "sm_states ?m = sm_states m"
    by (simp_all add: adoptNeighborRecord_def)
  have "bn_id n \<in> node_ids (sm_node_neighbors ?m) k \<longleftrightarrow> k = bn_node_id n"
    by (simp add: adoptNeighborRecord_def node_ids_file node_ids_unfile_others)
  then show ?thesis
    using assms calls registry_congs[OF same] states abs_adopt[OF assms(1)]
    by (simp add: UpdateNeighbor_def)
qed

section \<open>Witnesses\<close>

definition sample_gobgp :: gobgp where
  "sample_gobgp = \<lparr>gb_answer = (\<lambda>_ _. None), gb_table = (\<lambda>_ _ v6. if v6 then Inl CtxDeadlineExceeded else Inr 7),
     gb_peers = (\<lambda>_ _. Inr []), gb_text = (\<lambda>_. [])\<rparr>"

definition sample_bgp_config :: BGPConfig where
  "sample_bgp_config = \<lparr>cf_listen_port = 179, cf_router_id = ''192.0.2.1'', cf_local_as = 64500,
     cf_listen_addresses = [], cf_add_path_receive = True\<rparr>"

definition sample_neighbor :: bgp_neighbor where
  "sample_neighbor = \<lparr>bn_id = 1, bn_node_id = 10, bn_local_as = 0, bn_remote_as = 64501,
     bn_peering_ip = [], bn_neighbor_ip = ''192.0.2.2'', bn_ipv6_peering_ip = [],
     bn_ipv6_neighbor_ip = [], bn_multihop = False, bn_passive_mode = False, bn_peer_type = [],
     bn_default_route_as = 0, bn_created_at = 0, bn_updated_at = 0\<rparr>"

definition sample_session :: SessionManager where
  "sample_session = session_run sample_gobgp
     [(5, OpStart), (5, OpAdd sample_neighbor),
      (5, OpStateChange 1 ''192.0.2.2'' SessIdle ApiEstablished None)]
     (NewSessionManager sample_bgp_config)"

lemma sample_session_neighbor:
  "sm_neighbors sample_session 1 =
     Some \<lparr>ne_neighbor = sample_neighbor, ne_neighbor_ip = ''192.0.2.2'', ne_ipv6_neighbor_ip = []\<rparr>"
  by code_simp

lemma sample_session_neighbors_other: "i \<noteq> 1 \<Longrightarrow> sm_neighbors sample_session i = None"
proof -
  assume "i \<noteq> 1"
  have "absent i sample_session"
    unfolding sample_session_def
    by (rule absent_run)
       (use \<open>i \<noteq> 1\<close> in \<open>auto simp: absent_def NewSessionManager_def node_ids_def sample_neighbor_def\<close>)
  then show ?thesis by (simp add: absent_def)
qed

lemma sample_session_state: "status_of sample_session 1 = SessEstablished"
  by code_simp

lemma sample_delete_ok: "delete_ok sample_gobgp"
  by (simp add: delete_ok_def sample_gobgp_def)

lemma sample_session_reach: "session_reach sample_gobgp sample_bgp_config 5 sample_session"
proof -
  let ?m1 = "session_apply sample_gobgp 5 OpStart (NewSessionManager sample_bgp_config)"
  have 1: "session_reach sample_gobgp sample_bgp_config 5 ?m1"
    by (rule session_reach.op[OF session_reach.init]) simp_all
  have "sm_neighbors ?m1 (bn_id sample_neighbor) = None"
    using Start_effect(1)[of sample_gobgp "NewSessionManager sample_bgp_config"]
    by (simp add: reg_def NewSessionManager_def)
  then have "session_reach sample_gobgp sample_bgp_config 5
      (session_apply sample_gobgp 5 (OpAdd sample_neighbor) ?m1)"
    by (intro session_reach.op[OF 1]) simp
  then show ?thesis
    unfolding sample_session_def session_run_def
    by (simp add: session_reach.op del: session_apply.simps)
qed


lemma sample_session_registry:
  "abs_registry sample_session = [1 \<mapsto> (10, SessEstablished, [''192.0.2.2''])]"
proof
  fix i
  show "abs_registry sample_session i = [1 \<mapsto> (10, SessEstablished, [''192.0.2.2''])] i"
    using sample_session_neighbor sample_session_state sample_session_neighbors_other[of i]
    by (simp add: abs_registry_def peerAddresses_def sample_neighbor_def)
qed



lemma removed_neighbour_stays_gone_witness:
  "GetStatus 1 (session_run sample_gobgp
      [(7, OpStateChange 1 ''192.0.2.2'' SessIdle ApiEstablished None), (8, OpRestart 1)]
      (snd (RemoveNeighbor sample_gobgp 6 1 sample_session))) = SessNone"
proof -
  have "RemoveNeighbor sample_gobgp 6 1 sample_session =
      (None, snd (RemoveNeighbor sample_gobgp 6 1 sample_session))"
  proof (rule prod_eqI)
    show "fst (RemoveNeighbor sample_gobgp 6 1 sample_session) =
        fst (None, snd (RemoveNeighbor sample_gobgp 6 1 sample_session))"
      by (simp only: fst_conv) code_simp
  qed simp
  then show ?thesis
    using removed_neighbour_stays_gone[of sample_gobgp 6 1 sample_session _
        "[(7, OpStateChange 1 ''192.0.2.2'' SessIdle ApiEstablished None), (8, OpRestart 1)]"]
      sample_session_neighbor
    by simp
qed

lemma UpdateNeighbor_leaves_session_up_witness:
  "sm_states (snd (UpdateNeighbor sample_gobgp 6 (sample_neighbor\<lparr>bn_node_id := 20\<rparr>) sample_session)) 1 =
     Some SessEstablished"
proof -
  have "sm_states sample_session 1 = Some SessEstablished" by code_simp
  moreover have "bn_id (sample_neighbor\<lparr>bn_node_id := 20\<rparr>) = 1" by (simp add: sample_neighbor_def)
  ultimately show ?thesis
    using UpdateNeighbor_leaves_session_up[of sample_session "sample_neighbor\<lparr>bn_node_id := 20\<rparr>"]
      sample_session_neighbor
    by (simp add: sessionParamsEqual_def)
qed

text \<open>Without the assumption on deletions the index goes wrong: an update that replaces a session
  while GoBGP refuses to delete the old peer leaves the neighbour filed under its old node too.\<close>

lemma failed_delete_files_twice:
  assumes "sm_neighbors m (bn_id n) = Some e" "\<not> sessionParamsEqual (ne_neighbor e) n"
    and "fst (RemoveNeighbor srv t (bn_id n) m) \<noteq> None" "fst (UpdateNeighbor srv t n m) = None"
    and "bn_id n \<in> node_ids (sm_node_neighbors m) k"
  shows "bn_id n \<in> node_ids (sm_node_neighbors (snd (UpdateNeighbor srv t n m))) k \<and>
    bn_id n \<in> node_ids (sm_node_neighbors (snd (UpdateNeighbor srv t n m))) (bn_node_id n)"
proof -
  obtain r m1 where R: "RemoveNeighbor srv t (bn_id n) m = (r, m1)" by fastforce
  then have same: "same_registry m1 m" using RemoveNeighbor_effect[OF R] assms(3) by auto
  obtain r2 m2 where A: "AddNeighbor srv t n m1 = (r2, m2)" by fastforce
  have U: "UpdateNeighbor srv t n m = (r2, m2)" using assms(1,2) R A by (simp add: UpdateNeighbor_def)
  then obtain ip6 where "same_registry m2 (register t n (trim_space (bn_neighbor_ip n)) ip6 m1)"
    using AddNeighbor_effect[OF A] assms(4) by auto
  then show ?thesis
    using U assms(5) registry_congs(5)[OF same]
    by (simp add: registry_congs register_def node_ids_file)
qed

end
