(* ===== verification/SessionLookup.thy ===== *)
theory SessionLookup
  imports SessionRegistry Engine
begin

text \<open>
  The lookups of the session manager: \<open>LookupRoute\<close> and \<open>pathToRouteEntry\<close> of
  \<open>internal/bgp/manager.go\<close>, \<open>internal/bgp/pathdetail.go\<close> and \<open>neighborsWithDefaultRouteAS\<close> of
  \<open>internal/bgp/query.go\<close>, and the manager as the engine sees it. GoBGP's global table is the
  argument \<open>rib\<close>; its path attributes are decoded by GoBGP and appear here as the cases the source
  distinguishes, texts GoBGP prints (a large community, any attribute verbatim) as strings.
\<close>

section \<open>Paths\<close>

datatype path_attr =
    AttrAsPath "u32 list list"
  | AttrNextHop "net_ip option"
  | AttrMpReachNLRI "string option"
  | AttrOrigin nat
  | AttrLocalPref u32
  | AttrMultiExitDisc u32
  | AttrOriginatorId "net_ip option"
  | AttrClusterList "net_ip list"
  | AttrCommunities "u32 list"
  | AttrLargeCommunities "string option list"
  | AttrExtendedCommunities "string option list"
  | AttrUnread

text \<open>Every attribute comes with its printed form.\<close>

record api_path =
  pa_neighbor_ip :: string
  pa_source_asn :: u32
  pa_best :: bool
  pa_age :: go_time
  pa_identifier :: u32
  pa_attrs :: "go_error + (path_attr \<times> string) list"

text \<open>The destinations \<open>ListPath\<close> yields for a prefix in one family (\<open>True\<close>: IPv6), and the whole
  seconds of a duration, which the source takes through a floating-point number.\<close>

record rib =
  rib_list :: "bool \<Rightarrow> string \<Rightarrow> go_error + (string \<times> api_path list) list"
  rib_seconds :: "duration \<Rightarrow> int"

definition communityToString :: "u32 \<Rightarrow> string" where
  "communityToString value =
     format_uint (drop_bit 16 value) @ '':'' @ format_uint (and value 0xFFFF)"

definition originToString :: "nat \<Rightarrow> string" where
  "originToString v =
     (if v = 0 then ''IGP'' else if v = 1 then ''EGP'' else if v = 2 then ''incomplete'' else dec_string v)"

fun apply_attr :: "path_attr \<Rightarrow> bgp_route_entry \<Rightarrow> bgp_route_entry" where
  "apply_attr (AttrAsPath segs) e = e\<lparr>e_as_path := asPathToString segs\<rparr>"
| "apply_attr (AttrNextHop v) e = (case v of None \<Rightarrow> e | Some ip \<Rightarrow> e\<lparr>e_next_hop := ip_string ip\<rparr>)"
| "apply_attr (AttrMpReachNLRI v) e = (case v of None \<Rightarrow> e | Some s \<Rightarrow> e\<lparr>e_next_hop := s\<rparr>)"
| "apply_attr (AttrOrigin v) e = e\<lparr>e_origin := originToString v\<rparr>"
| "apply_attr (AttrLocalPref v) e = e\<lparr>e_local_pref := format_uint v\<rparr>"
| "apply_attr (AttrMultiExitDisc v) e = e\<lparr>e_med := format_uint v\<rparr>"
| "apply_attr (AttrOriginatorId v) e =
     (case v of None \<Rightarrow> e | Some ip \<Rightarrow> e\<lparr>e_originator_id := ip_string ip\<rparr>)"
| "apply_attr (AttrClusterList ids) e = e\<lparr>e_cluster_list := e_cluster_list e @ map ip_string ids\<rparr>"
| "apply_attr (AttrCommunities cs) e =
     e\<lparr>e_communities := e_communities e @ map communityToString cs\<rparr>"
| "apply_attr (AttrLargeCommunities cs) e =
     e\<lparr>e_communities := e_communities e @ List.map_filter (\<lambda>c. c) cs\<rparr>"
| "apply_attr (AttrExtendedCommunities cs) e =
     e\<lparr>e_communities := e_communities e @ List.map_filter (\<lambda>c. c) cs\<rparr>"
| "apply_attr AttrUnread e = e"

definition pathToRouteEntry :: "rib \<Rightarrow> go_time \<Rightarrow> api_path \<Rightarrow> string \<Rightarrow> bgp_route_entry" where
  "pathToRouteEntry r now path pfx =
     (let age = time_sub now (pa_age path);
          base = \<lparr>e_prefix = pfx, e_next_hop = [], e_as_path = [], e_origin = [], e_local_pref = [],
                  e_med = [], e_neighbor_ip = pa_neighbor_ip path, e_source_asn = pa_source_asn path,
                  e_best = pa_best path, e_age = duration_seconds_string age,
                  e_age_seconds = rib_seconds r age, e_originator_id = [], e_cluster_list = [],
                  e_communities = []\<rparr>
      in case pa_attrs path of
           Inl err \<Rightarrow> base
         | Inr attrs \<Rightarrow> fold (\<lambda>a e. apply_attr (fst a) e) attrs base)"

section \<open>The lookup\<close>

definition prefix_ip :: "string \<Rightarrow> net_ip option" where
  "prefix_ip pfx =
     (if contains_str pfx ''/'' then map_option fst (parse_cidr pfx) else parse_ip pfx)"

text \<open>\<open>IPv6\<close>: whether the address has no IPv4 form.\<close>

definition is_family6 :: "net_ip \<Rightarrow> bool" where
  "is_family6 ip \<longleftrightarrow> to4 ip = None"

definition familyForPrefix :: "string \<Rightarrow> go_error + bool" where
  "familyForPrefix pfx =
     (case prefix_ip pfx of
        None \<Rightarrow> Inl (PlainError (''invalid prefix: '' @ pfx))
      | Some ip \<Rightarrow> Inr (is_family6 ip))"

text \<open>The paths of all destinations with their prefixes, without those of other nodes' neighbours
  when a node is given.\<close>

definition node_paths :: "SessionManager \<Rightarrow> int \<Rightarrow> (string \<times> api_path list) list \<Rightarrow> (string \<times> api_path) list" where
  "node_paths m nodeID dsts =
     filter (\<lambda>p. nodeID \<le> 0 \<or> pa_neighbor_ip (snd p) \<in> neighborIPsForNode nodeID m)
       (concat (map (\<lambda>dst. map (Pair (fst dst)) (snd dst)) dsts))"

definition LookupRoute ::
  "rib \<Rightarrow> go_time \<Rightarrow> dns_lookup \<Rightarrow> (bgp_route_entry list \<Rightarrow> string list) \<Rightarrow> SessionManager \<Rightarrow> int \<Rightarrow>
   string \<Rightarrow> go_error + bgp_route_entry list" where
  "LookupRoute r now dns grp m nodeID pfx =
     (if \<not> sm_server m then Inl not_started
      else case NormalizeBGPLookup dns pfx of
        Inl err \<Rightarrow> Inl err
      | Inr normalized \<Rightarrow>
         (case prefix_ip normalized of
            None \<Rightarrow> Inl (PlainError (''invalid prefix: '' @ normalized))
          | Some ip \<Rightarrow>
             (case rib_list r (is_family6 ip) normalized of
                Inl err \<Rightarrow> Inl (WrapError ''bgp route lookup: '' err)
              | Inr dsts \<Rightarrow>
                  (let results = map (\<lambda>p. pathToRouteEntry r now (snd p) (fst p)) (node_paths m nodeID dsts)
                   in Inr (ensureBestAmongEntries (grp results) results)))))"

section \<open>Paths in detail\<close>

definition pathToDetail ::
  "rib \<Rightarrow> go_time \<Rightarrow> (string \<Rightarrow> string) option \<Rightarrow> api_path \<Rightarrow> string \<Rightarrow> bgp_path_detail" where
  "pathToDetail r now nameOf path pfx =
     (let e = pathToRouteEntry r now path pfx in
      \<lparr>pd_prefix = e_prefix e, pd_neighbor_ip = e_neighbor_ip e,
       pd_node_name = (case nameOf of None \<Rightarrow> [] | Some nm \<Rightarrow> nm (e_neighbor_ip e)),
       pd_identifier = pa_identifier path, pd_source_asn = e_source_asn e, pd_best = e_best e,
       pd_age = e_age e, pd_next_hop = e_next_hop e, pd_as_path = e_as_path e, pd_origin = e_origin e,
       pd_local_pref = e_local_pref e, pd_med = e_med e, pd_communities = e_communities e,
       pd_attributes = (case pa_attrs path of
          Inl err \<Rightarrow> [] | Inr attrs \<Rightarrow> map (\<lambda>a. trim_space (snd a)) attrs)\<rparr>)"

definition LookupPathDetails ::
  "rib \<Rightarrow> go_time \<Rightarrow> dns_lookup \<Rightarrow> SessionManager \<Rightarrow> int \<Rightarrow> string \<Rightarrow> (string \<Rightarrow> string) option \<Rightarrow>
   go_error + bgp_path_detail list" where
  "LookupPathDetails r now dns m nodeID pfx nameOf =
     (if \<not> sm_server m then Inl not_started
      else case NormalizeBGPLookup dns pfx of
        Inl err \<Rightarrow> Inl err
      | Inr normalized \<Rightarrow>
         (case familyForPrefix normalized of
            Inl err \<Rightarrow> Inl err
          | Inr v6 \<Rightarrow>
             (case rib_list r v6 normalized of
                Inl err \<Rightarrow> Inl (WrapError ''bgp path lookup: '' err)
              | Inr dsts \<Rightarrow>
                  Inr (map (\<lambda>p. pathToDetail r now nameOf (snd p) (fst p)) (node_paths m nodeID dsts)))))"

section \<open>The manager behind the engine\<close>

text \<open>The order in which a node's set of neighbours is ranged over is the argument \<open>ids\<close>.\<close>

definition neighborsWithDefaultRouteAS :: "int list \<Rightarrow> SessionManager \<Rightarrow> neighborDefaultConfig list" where
  "neighborsWithDefaultRouteAS ids m =
     List.map_filter (\<lambda>i. case sm_neighbors m i of
        None \<Rightarrow> None
      | Some e \<Rightarrow>
          if bn_default_route_as (ne_neighbor e) = 0 then None
          else Some \<lparr>nd_neighbor_ip = ne_neighbor_ip e, nd_ipv6_neighbor_ip = ne_ipv6_neighbor_ip e,
                     nd_default_route_as = bn_default_route_as (ne_neighbor e)\<rparr>) ids"

definition session_route_env ::
  "rib \<Rightarrow> go_time \<Rightarrow> dns_lookup \<Rightarrow> (bgp_route_entry list \<Rightarrow> string list) \<Rightarrow> (int \<Rightarrow> int list) \<Rightarrow>
   route_sort \<Rightarrow> entry_sort \<Rightarrow> SessionManager \<Rightarrow> route_env" where
  "session_route_env r now dns grp ids srt srt_e m =
     \<lparr>re_global_as = sm_global_as m, re_lookup = LookupRoute r now dns grp m,
      re_defaults = (\<lambda>nodeID. neighborsWithDefaultRouteAS (ids nodeID) m), re_dns = dns,
      re_sort_routes = srt, re_sort_entries = srt_e\<rparr>"

definition session_bgp_mgr :: "int list \<Rightarrow> route_env \<Rightarrow> SessionManager \<Rightarrow> bgp_mgr" where
  "session_bgp_mgr ks env m =
     \<lparr>bm_ready = IsReady m, bm_has_neighbors = (\<lambda>n. HasNeighbors n m),
      bm_active_session = (\<lambda>n. HasActiveSession n m),
      bm_node_for_ip = (\<lambda>ip. NodeIDForNeighborIP ks ip m), bm_env = env\<rparr>"

section \<open>Lemmas\<close>

lemma apply_attr_keeps:
  "e_neighbor_ip (apply_attr a e) = e_neighbor_ip e \<and> e_prefix (apply_attr a e) = e_prefix e \<and>
   e_best (apply_attr a e) = e_best e"
  by (cases a) (auto split: option.splits)

lemma fold_attr_keeps:
  "e_neighbor_ip (fold (\<lambda>a e. apply_attr (fst a) e) attrs e) = e_neighbor_ip e \<and>
   e_prefix (fold (\<lambda>a e. apply_attr (fst a) e) attrs e) = e_prefix e"
  by (induction attrs arbitrary: e) (simp_all add: apply_attr_keeps)

lemma pathToRouteEntry_keeps [simp]:
  "e_neighbor_ip (pathToRouteEntry r now path pfx) = pa_neighbor_ip path"
  "e_prefix (pathToRouteEntry r now path pfx) = pfx"
  by (simp_all add: pathToRouteEntry_def Let_def fold_attr_keeps split: sum.split)

lemma node_paths_own:
  "(pfx, path) \<in> set (node_paths m nodeID dsts) \<Longrightarrow>
   nodeID \<le> 0 \<or> pa_neighbor_ip path \<in> neighborIPsForNode nodeID m"
  by (auto simp: node_paths_def)

lemma LookupRoute_Inr:
  assumes "LookupRoute r now dns grp m nodeID pfx = Inr es"
  obtains dsts results where "es = ensureBestAmongEntries (grp results) results"
    and "results = map (\<lambda>p. pathToRouteEntry r now (snd p) (fst p)) (node_paths m nodeID dsts)"
  using assms by (auto simp: LookupRoute_def Let_def split: if_splits sum.splits option.splits)

text \<open>What the marking promises, entry by entry.\<close>

lemma ensureBest_entries:
  assumes "distinct order" "set order = e_prefix ` set es"
  shows "map e_neighbor_ip (ensureBestAmongEntries order es) = map e_neighbor_ip es"
    and "map e_prefix (ensureBestAmongEntries order es) = map e_prefix es"
    and "k < length es \<Longrightarrow> e_best (ensureBestAmongEntries order es ! k) =
      (k = selected_entry es (e_prefix (es ! k)))"
    and "length (ensureBestAmongEntries order es) = length es"
  unfolding ensureBestAmongEntries_map[OF assms]
  by (auto intro: nth_equalityI)

lemma ensureBest_unique:
  assumes "distinct order" "set order = e_prefix ` set es" "p \<in> e_prefix ` set es"
  shows "\<exists>!k. k < length es \<and> e_prefix (es ! k) = p \<and> e_best (ensureBestAmongEntries order es ! k)"
  using selected_entry_best[OF assms(3)] ensureBest_entries(3)[OF assms(1,2)]
  by (intro ex1I[of _ "selected_entry es p"]) auto

section \<open>Properties\<close>


section \<open>Witnesses\<close>

definition sample_path :: "string \<Rightarrow> api_path" where
  "sample_path peer = \<lparr>pa_neighbor_ip = peer, pa_source_asn = 64501, pa_best = True, pa_age = 0,
     pa_identifier = 0, pa_attrs = Inr [(AttrAsPath [[64501, 3356]], []), (AttrOrigin 0, [])]\<rparr>"

definition sample_rib :: rib where
  "sample_rib = \<lparr>rib_list = (\<lambda>_ pfx. Inr [(pfx, [sample_path ''192.0.2.9'', sample_path ''192.0.2.2''])]),
     rib_seconds = (\<lambda>d. d div second)\<rparr>"

definition sample_groups :: "bgp_route_entry list \<Rightarrow> string list" where
  "sample_groups es = remdups (map e_prefix es)"


end
