(* ===== verification/Versions.thy ===== *)
theory Versions
  imports Go_Sort Go_Fields "HOL-Library.Product_Lexorder"
begin

text \<open>
  Release versions (\<open>internal/updater/updater.go\<close>) and the release notes between two versions
  (\<open>internal/updater/releasenotes.go\<close>). The embedded notes, the tags GitHub lists and the notes
  fetched from it are arguments, as is the instance of \<open>sort.Slice\<close>. The components of a version are
  Go \<open>int\<close>s of 64 bits: too many digits wrap around.
\<close>

section \<open>Comparing versions\<close>

fun digits_value :: "u64 \<Rightarrow> string \<Rightarrow> u64" where
  "digits_value n [] = n"
| "digits_value n (c # s) =
     digits_value (if is_digit c then n * 10 + of_nat (digit_val c) else n) s"

type_synonym semver = "int \<times> int \<times> int"

definition version_part :: "string list \<Rightarrow> nat \<Rightarrow> int" where
  "version_part parts i =
     (if i < length parts then sint (digits_value 0 (takeWhile (\<lambda>c. c \<noteq> CHR ''-'') (parts ! i))) else 0)"

definition parseSemver :: "string \<Rightarrow> semver" where
  "parseSemver v =
     (let parts = split_n 3 (CHR ''.'') (trim_prefix v ''v'')
      in (version_part parts 0, version_part parts 1, version_part parts 2))"

fun semver_order :: "semver \<Rightarrow> semver \<Rightarrow> int" where
  "semver_order (a1, a2, a3) (b1, b2, b3) =
     (if a1 \<noteq> b1 then (if a1 > b1 then 1 else -1)
      else if a2 \<noteq> b2 then (if a2 > b2 then 1 else -1)
      else if a3 \<noteq> b3 then (if a3 > b3 then 1 else -1)
      else 0)"

definition semverCmp :: "string \<Rightarrow> string \<Rightarrow> int" where
  "semverCmp a b = semver_order (parseSemver a) (parseSemver b)"

definition isNewer :: "string \<Rightarrow> string \<Rightarrow> bool" where
  "isNewer latest current =
     (if current = ''dev'' \<or> current = [] then latest \<noteq> [] else semverCmp latest current > 0)"

definition normalizeTag :: "string \<Rightarrow> string" where
  "normalizeTag v = trim_space v"

type_synonym string_sort = "(string \<Rightarrow> string \<Rightarrow> bool) \<Rightarrow> string list \<Rightarrow> string list"

definition sortVersions :: "string_sort \<Rightarrow> string list \<Rightarrow> string list" where
  "sortVersions srt versions = srt (\<lambda>a b. semverCmp a b < 0) versions"

section \<open>Known versions\<close>

text \<open>\<open>ns_files\<close>: the names of the embedded notes; \<open>ns_read\<close>: the contents of one; \<open>ns_tags\<close>: the names
  of the repository's tags; \<open>ns_raw\<close>: status and body of a note on GitHub.\<close>

record note_source =
  ns_files :: "string list"
  ns_read :: "string \<Rightarrow> string option"
  ns_tags :: "go_error + (nat \<times> (go_error + string list))"
  ns_raw :: "string \<Rightarrow> go_error + (nat \<times> string)"
  ns_sort :: string_sort

definition listEmbeddedVersions :: "note_source \<Rightarrow> string list" where
  "listEmbeddedVersions ns = sortVersions (ns_sort ns) (map (\<lambda>f. trim_suffix f ''.md'') (ns_files ns))"

definition latestEmbeddedVersion :: "note_source \<Rightarrow> string" where
  "latestEmbeddedVersion ns =
     (let versions = listEmbeddedVersions ns in if length versions = 0 then [] else last versions)"

definition readEmbeddedNote :: "note_source \<Rightarrow> string \<Rightarrow> string option" where
  "readEmbeddedNote ns version = map_option trim_space (ns_read ns (normalizeTag version @ ''.md''))"

definition rawNotesURL :: "string \<Rightarrow> string \<Rightarrow> string" where
  "rawNotesURL repo version =
     ''https://raw.githubusercontent.com/'' @ repo @ ''/main/docs/whats-new/'' @ normalizeTag version @ ''.md''"

definition fetchRawNote :: "note_source \<Rightarrow> string \<Rightarrow> string \<Rightarrow> go_error + string" where
  "fetchRawNote ns repo version =
     (case ns_raw ns (rawNotesURL repo version) of
        Inl err \<Rightarrow> Inl err
      | Inr (status, body) \<Rightarrow>
          if status \<noteq> 200 then Inl (PlainError (''raw notes returned '' @ dec_string status))
          else Inr (trim_space (take (256 * 1024) body)))"

definition fetchGitTags :: "note_source \<Rightarrow> go_error + string list" where
  "fetchGitTags ns =
     (case ns_tags ns of
        Inl err \<Rightarrow> Inl err
      | Inr (status, decoded) \<Rightarrow>
          if status \<noteq> 200 then Inl (PlainError (''github tags returned '' @ dec_string status))
          else (case decoded of
                  Inl err \<Rightarrow> Inl err
                | Inr names \<Rightarrow>
                    Inr (sortVersions (ns_sort ns)
                      (filter (\<lambda>v. v \<noteq> [] \<and> has_prefix v ''v'') (map normalizeTag names)))))"

definition allKnownVersions :: "note_source \<Rightarrow> string list" where
  "allKnownVersions ns =
     (let embedded = listEmbeddedVersions ns;
          merged = (case fetchGitTags ns of
                      Inl err \<Rightarrow> embedded
                    | Inr tags \<Rightarrow> embedded @ dedup_by (\<lambda>v. v) embedded tags)
      in sortVersions (ns_sort ns) merged)"

definition in_range :: "string \<Rightarrow> string \<Rightarrow> string \<Rightarrow> bool" where
  "in_range since latest v \<longleftrightarrow> \<not> (semverCmp v since \<le> 0 \<or> semverCmp v latest > 0)"

definition versionsBetweenExclusive ::
  "string_sort \<Rightarrow> string \<Rightarrow> string \<Rightarrow> string list \<Rightarrow> string list" where
  "versionsBetweenExclusive srt since0 latest0 known =
     (let since = normalizeTag since0; latest = normalizeTag latest0 in
      if since = [] \<or> latest = [] \<or> semverCmp latest since \<le> 0 then []
      else (let out = dedup_by (\<lambda>v. v) [] (filter (in_range since latest) (map normalizeTag known));
                out' = (if semverCmp latest since > 0 \<and> latest \<notin> set out then out @ [latest] else out)
            in sortVersions srt out'))"

definition loadReleaseNote :: "note_source \<Rightarrow> string \<Rightarrow> string \<Rightarrow> go_error + string" where
  "loadReleaseNote ns repo version =
     (case readEmbeddedNote ns version of
        Some note \<Rightarrow> if note \<noteq> [] then Inr note else fetchRawNote ns repo version
      | None \<Rightarrow> fetchRawNote ns repo version)"

definition note_separator :: string where
  "note_separator = [CHR 0x0A, CHR 0x0A] @ ''---'' @ [CHR 0x0A, CHR 0x0A]"

definition note_part :: "go_error + string \<Rightarrow> string option" where
  "note_part r = (case r of Inl err \<Rightarrow> None | Inr note \<Rightarrow> if trim_space note = [] then None else Some note)"

definition AggregateReleaseNotes ::
  "note_source \<Rightarrow> string \<Rightarrow> string \<Rightarrow> string \<Rightarrow> string \<times> string list" where
  "AggregateReleaseNotes ns repo since latest =
     (let versions = versionsBetweenExclusive (ns_sort ns) since latest (allKnownVersions ns) in
      if length versions = 0 then ([], [])
      else (let parts = List.map_filter (\<lambda>v. note_part (loadReleaseNote ns repo v)) versions
            in if length parts = 0 then ([], versions) else (join_str note_separator parts, versions)))"

definition en_dash :: string where "en_dash = [CHR '' '', CHR 0xE2, CHR 0x80, CHR 0x93, CHR '' '']"

definition aggregatedReleaseName :: "string list \<Rightarrow> string" where
  "aggregatedReleaseName versions =
     (if length versions = 0 then []
      else if length versions = 1 then ''HopStat '' @ versions ! 0
      else ''HopStat '' @ versions ! 0 @ en_dash @ last versions)"

section \<open>Lemmas\<close>

lemma semver_order_neg: "semver_order a b < 0 \<longleftrightarrow> a < b"
  by (cases a; cases b) auto

lemma semver_order_pos: "semver_order a b > 0 \<longleftrightarrow> b < a"
  by (cases a; cases b) auto

lemma semverCmp_less: "semverCmp a b < 0 \<longleftrightarrow> parseSemver a < parseSemver b"
  and semverCmp_greater: "semverCmp a b > 0 \<longleftrightarrow> parseSemver b < parseSemver a"
  by (simp_all add: semverCmp_def semver_order_neg semver_order_pos)

lemma semverCmp_le: "semverCmp a b \<le> 0 \<longleftrightarrow> parseSemver a \<le> parseSemver b"
  using semverCmp_greater[of a b] by auto

lemma version_order_weak: "strict_weak (\<lambda>a b. semverCmp a b < 0)"
  unfolding strict_weak_def semverCmp_less by (meson less_irrefl less_trans not_less order_trans)

lemma sortVersions_facts:
  assumes "slice_sorter srt"
  shows "set (sortVersions srt vs) = set vs" and "mset (sortVersions srt vs) = mset vs"
    and "sorted_wrt (\<lambda>a b. parseSemver a \<le> parseSemver b) (sortVersions srt vs)"
  using slice_sorter.srt_set[OF assms] slice_sorter.perm[OF assms]
    slice_sorter.ordered[OF assms version_order_weak, of vs]
  by (simp_all add: sortVersions_def semverCmp_less not_less)

subsection \<open>Printing and reading a version\<close>

lemma digits_value_append:
  "digits_value n (xs @ ys) = digits_value (digits_value n xs) ys"
  by (induction xs arbitrary: n) simp_all

lemma digits_value_dec: "digits_value 0 (dec_string n) = of_nat n"
proof (induction n rule: dec_string.induct)
  case (1 n)
  show ?case
  proof (cases "n < 10")
    case True
    then show ?thesis by (simp add: dec_string.simps[of n])
  next
    case False
    then have "of_nat n = (of_nat (n div 10) * 10 + of_nat (n mod 10) :: u64)"
      by (metis div_mult_mod_eq mult.commute of_nat_add of_nat_mult of_nat_numeral)
    then show ?thesis
      using False 1 by (simp add: dec_string.simps[of n] digits_value_append)
  qed
qed

definition format_version :: "nat \<Rightarrow> nat \<Rightarrow> nat \<Rightarrow> string" where
  "format_version a b c = ''v'' @ dec_string a @ ''.'' @ dec_string b @ ''.'' @ dec_string c"

lemma dec_string_plain: "CHR ''.'' \<notin> set (dec_string n)" "CHR ''-'' \<notin> set (dec_string n)"
  using dec_string_digits[of "CHR ''.''" n] dec_string_digits[of "CHR ''-''" n]
  by (auto simp: is_digit_def code_def)

lemma version_part_dec:
  assumes "n < 2 ^ 63" "i < length parts" "parts ! i = dec_string n \<or> (\<exists>pre. parts ! i = dec_string n @ ''-'' @ pre)"
  shows "version_part parts i = int n"
proof -
  have "takeWhile (\<lambda>c. c \<noteq> CHR ''-'') (parts ! i) = dec_string n"
    using assms(3) dec_string_plain(2)[of n] by (auto simp: takeWhile_append)
  moreover have "sint (of_nat n :: u64) = int n"
    using assms(1) by (simp add: signed_of_nat signed_take_bit_int_eq_self)
  ultimately show ?thesis using assms(2) by (simp add: version_part_def digits_value_dec)
qed

section \<open>Properties\<close>

text \<open>A version \<open>vA.B.C\<close>, with or without a pre-release suffix, reads back as its three numbers.\<close>

theorem parseSemver_format:
  assumes "a < 2 ^ 63" "b < 2 ^ 63" "c < 2 ^ 63"
  shows "parseSemver (format_version a b c) = (int a, int b, int c) \<and>
    parseSemver (format_version a b c @ ''-'' @ pre) = (int a, int b, int c)"
proof -
  have split: "split_n 3 (CHR ''.'') (dec_string a @ ''.'' @ dec_string b @ ''.'' @ t) =
      [dec_string a, dec_string b, t]" for t
    using split_n_sep[OF dec_string_plain(1)[of a], of 1] split_n_sep[OF dec_string_plain(1)[of b], of 0]
    by (simp add: numeral_3_eq_3)
  have v: "trim_prefix (''v'' @ s) ''v'' = s" for s by (simp add: trim_prefix_def has_prefix_def)
  have "parseSemver (''v'' @ dec_string a @ ''.'' @ dec_string b @ ''.'' @ t) = (int a, int b, int c)"
    if "t = dec_string c \<or> (\<exists>pre. t = dec_string c @ ''-'' @ pre)" for t
    unfolding parseSemver_def Let_def v split
    using assms that by (auto intro!: version_part_dec)
  then show ?thesis unfolding format_version_def by (metis append.assoc)
qed

text \<open>The notes shown for an update cover exactly the known versions after the seen one up to the
  latest, and the latest even when nothing lists it: each once, oldest first.\<close>

theorem versionsBetweenExclusive_correct:
  assumes "slice_sorter srt" and "normalizeTag since \<noteq> []" and "normalizeTag latest \<noteq> []"
    and "semverCmp (normalizeTag latest) (normalizeTag since) > 0"
  shows "set (versionsBetweenExclusive srt since latest known) = insert (normalizeTag latest)
      {v \<in> normalizeTag ` set known. parseSemver (normalizeTag since) < parseSemver v \<and>
         parseSemver v \<le> parseSemver (normalizeTag latest)} \<and>
    distinct (versionsBetweenExclusive srt since latest known) \<and>
    sorted_wrt (\<lambda>a b. parseSemver a \<le> parseSemver b) (versionsBetweenExclusive srt since latest known)"
proof -
  let ?s = "normalizeTag since" and ?l = "normalizeTag latest"
  let ?in = "filter (in_range ?s ?l) (map normalizeTag known)"
  let ?d = "dedup_by (\<lambda>v. v) [] ?in"
  let ?out = "if ?l \<notin> set ?d then ?d @ [?l] else ?d"
  have set_d: "set ?d = set ?in" using dedup_by_image[of "\<lambda>v. v" "[]" ?in] by simp
  have dist: "distinct ?out" using distinct_dedup_by[of "\<lambda>v. v" "[]" ?in] by auto
  have eq: "versionsBetweenExclusive srt since latest known = sortVersions srt ?out"
    using assms(2-4) by (simp add: versionsBetweenExclusive_def Let_def)
  note srt = sortVersions_facts[OF assms(1), of ?out]
  have "set ?out = insert ?l (set ?in)" using set_d by auto
  moreover have "set ?in = {v \<in> normalizeTag ` set known. parseSemver ?s < parseSemver v \<and>
      parseSemver v \<le> parseSemver ?l}"
    by (auto simp: in_range_def semverCmp_le semverCmp_greater not_le not_less)
  moreover have "distinct (sortVersions srt ?out)"
    using dist srt(2) by (metis mset_eq_imp_distinct_iff)
  ultimately show ?thesis unfolding eq using srt(1,3) by simp
qed

lemma parseSemver_format_witness: "parseSemver (format_version 1 20 3 @ ''-'' @ ''rc1'') = (1, 20, 3)"
  using parseSemver_format[of 1 20 3 "''rc1''"] by simp

lemma versionsBetweenExclusive_correct_witness:
  "set (versionsBetweenExclusive slice_insertion_sort ''v1.0.0'' ''v1.10.0'' [''v1.2.0'', ''v1.0.0'', ''v2.0.0'']) =
     {''v1.2.0'', ''v1.10.0''}"
proof -
  have n: "normalizeTag ''v1.0.0'' = ''v1.0.0''" "normalizeTag ''v1.10.0'' = ''v1.10.0''"
      "normalizeTag ''v1.2.0'' = ''v1.2.0''" "normalizeTag ''v2.0.0'' = ''v2.0.0''"
    and p: "parseSemver ''v1.0.0'' = (1, 0, 0)" "parseSemver ''v1.10.0'' = (1, 10, 0)"
      "parseSemver ''v1.2.0'' = (1, 2, 0)" "parseSemver ''v2.0.0'' = (2, 0, 0)"
    by code_simp+
  have one: "{v \<in> {a, b, c}. P v} = {a}" if "P a" "\<not> P b" "\<not> P c" for P :: "string \<Rightarrow> bool" and a b c
    using that by blast
  have "semverCmp ''v1.10.0'' ''v1.0.0'' > 0" by (simp only: semverCmp_greater p) simp
  then have "set (versionsBetweenExclusive slice_insertion_sort ''v1.0.0'' ''v1.10.0''
      [''v1.2.0'', ''v1.0.0'', ''v2.0.0'']) =
      insert ''v1.10.0'' {v \<in> {''v1.2.0'', ''v1.0.0'', ''v2.0.0''}.
        parseSemver ''v1.0.0'' < parseSemver v \<and> parseSemver v \<le> parseSemver ''v1.10.0''}"
    using versionsBetweenExclusive_correct[OF gs.slice_sorter_axioms, of "''v1.0.0''" "''v1.10.0''"
        "[''v1.2.0'', ''v1.0.0'', ''v2.0.0'']"]
    by (simp only: n list.set image_insert image_empty list.distinct not_False_eq_True simp_thms)
  also have "\<dots> = insert ''v1.10.0'' {''v1.2.0''}"
    by (subst one) (simp_all only: p, simp_all)
  also have "\<dots> = {''v1.2.0'', ''v1.10.0''}" by (rule insert_commute)
  finally show ?thesis .
qed

text \<open>A pre-release counts as the release it precedes: whoever runs it is never offered the release.\<close>

lemma isNewer_ignores_prerelease:
  "\<not> isNewer ''v1.2.0'' ''v1.2.0-rc1'' \<and> isNewer ''v1.2.1'' ''v1.2.0-rc1'' \<and> isNewer ''v1.2.3.4'' ''v1.2.9''"
  by code_simp

end
