(* ===== verification/Updater.thy ===== *)
theory Updater
  imports Versions
begin

text \<open>
  \<open>internal/updater\<close>: the update status and the replacement of the running binary. The file system is a
  map from paths to contents; what the operating system and GitHub answer are the fields of
  \<open>os_env\<close>. SHA-256 is a function of the environment.
\<close>

section \<open>The environment\<close>

record Asset =
  a_name :: string
  a_url :: string

record Release =
  rl_tag :: string
  rl_name :: string
  rl_body :: string
  rl_url :: string
  rl_assets :: "Asset list"

text \<open>A response body: the bytes that arrive, the error that ends them if any, and whether a reader
  that stops early has met that error already.\<close>

record http_body =
  hb_bytes :: string
  hb_error :: "go_error option"
  hb_early :: bool

type_synonym file_system = "string \<rightharpoonup> string"

text \<open>\<open>os_write\<close>: what a file holds after an attempt to write it (\<open>None\<close>: untouched) and the error.\<close>

record os_env =
  os_update_enabled :: string
  os_goos :: string
  os_goarch :: string
  os_dockerenv :: bool
  os_cgroup :: "string option"
  os_executable :: "go_error + string"
  os_symlinks :: "string \<Rightarrow> go_error + string"
  os_dir :: "string \<Rightarrow> string"
  os_join :: "string \<Rightarrow> string \<Rightarrow> string"
  os_write :: "string \<Rightarrow> string \<Rightarrow> string option \<times> go_error option"
  os_open :: "string \<Rightarrow> go_error option"
  os_read_error :: "string \<Rightarrow> go_error option"
  os_chmod :: "string \<Rightarrow> go_error option"
  os_rename :: "string \<Rightarrow> string \<Rightarrow> go_error option"
  os_remove :: "string \<Rightarrow> bool"
  os_exec :: "string \<Rightarrow> go_error option"
  os_release :: "string \<Rightarrow> go_error + (nat \<times> (go_error + Release))"
  os_get :: "string \<Rightarrow> go_error + (nat \<times> http_body)"
  os_sha256_hex :: "string \<Rightarrow> string"

definition remove_file :: "os_env \<Rightarrow> string \<Rightarrow> file_system \<Rightarrow> file_system" where
  "remove_file env p fs = (if os_remove env p then fs(p := None) else fs)"

definition write_file :: "os_env \<Rightarrow> string \<Rightarrow> string \<Rightarrow> file_system \<Rightarrow> go_error option \<times> file_system" where
  "write_file env p content fs =
     (case os_write env p content of
        (None, err) \<Rightarrow> (err, fs)
      | (Some c, err) \<Rightarrow> (err, fs(p \<mapsto> c)))"

section \<open>Is self-update supported?\<close>

definition resolve_executable :: "os_env \<Rightarrow> go_error + string" where
  "resolve_executable env =
     (case os_executable env of Inl err \<Rightarrow> Inl err | Inr p \<Rightarrow> os_symlinks env p)"

definition write_test_path :: "os_env \<Rightarrow> string \<Rightarrow> string" where
  "write_test_path env execPath = os_join env (os_dir env execPath) ''.hopstat-write-test''"

definition newer_image :: string where
  "newer_image = '' deployment '' @ [CHR 0xE2, CHR 0x80, CHR 0x94] @ '' pull a newer image instead''"

definition SelfUpdateSupported :: "os_env \<Rightarrow> file_system \<Rightarrow> (bool \<times> string) \<times> file_system" where
  "SelfUpdateSupported env fs =
     (if to_lower (trim_space (os_update_enabled env)) = ''false''
      then ((False, ''disabled via LG_UPDATE_ENABLED=false''), fs)
      else if os_goos env \<noteq> ''linux''
      then ((False, ''self-update is only supported on Linux''), fs)
      else if os_dockerenv env then ((False, ''docker'' @ newer_image), fs)
      else if (case os_cgroup env of None \<Rightarrow> False
               | Some cg \<Rightarrow> contains_str cg ''docker'' \<or> contains_str cg ''containerd'' \<or> contains_str cg ''kubepods'')
      then ((False, ''container'' @ newer_image), fs)
      else case resolve_executable env of
        Inl err \<Rightarrow> ((False, ''cannot resolve executable path''), fs)
      | Inr p \<Rightarrow>
         (case write_file env (write_test_path env p) ''x'' fs of
            (Some err, fs1) \<Rightarrow> ((False, ''binary directory is not writable''), fs1)
          | (None, fs1) \<Rightarrow> ((True, []), remove_file env (write_test_path env p) fs1)))"

section \<open>The updater\<close>

record Status =
  us_current :: string
  us_latest :: string
  us_update_available :: bool
  us_release_url :: string
  us_release_name :: string
  us_release_notes :: string
  us_release_versions :: "string list"
  us_self_update_enabled :: bool
  us_self_update_reason :: string

record cachedStatus =
  cs_status :: Status
  cs_until :: go_time

text \<open>\<open>up_enabled_live\<close>: the answer of the live setting, when there is such a source and it has one.\<close>

record Updater =
  up_repo :: string
  up_current :: string
  up_enabled :: bool
  up_enabled_live :: "(bool \<times> bool) option"
  up_release_api_url :: string
  up_status_cache :: "string \<rightharpoonup> cachedStatus"
  up_before_restart :: bool

definition New_updater :: "string \<Rightarrow> string \<Rightarrow> bool \<Rightarrow> Updater" where
  "New_updater repo currentVersion enabled =
     \<lparr>up_repo = repo, up_current = currentVersion, up_enabled = enabled, up_enabled_live = None,
      up_release_api_url = [], up_status_cache = Map.empty, up_before_restart = False\<rparr>"

definition selfUpdateAllowed :: "Updater \<Rightarrow> bool" where
  "selfUpdateAllowed u =
     (case up_enabled_live u of Some (enabled, True) \<Rightarrow> enabled | _ \<Rightarrow> up_enabled u)"

definition releaseURL :: "Updater \<Rightarrow> string" where
  "releaseURL u =
     (if up_release_api_url u \<noteq> [] then up_release_api_url u
      else ''https://api.github.com/repos/'' @ up_repo u @ ''/releases/latest'')"

definition fetchLatest :: "os_env \<Rightarrow> Updater \<Rightarrow> go_error + Release" where
  "fetchLatest env u =
     (case os_release env (releaseURL u) of
        Inl err \<Rightarrow> Inl (WrapError ''github api: '' err)
      | Inr (status, decoded) \<Rightarrow>
          if status \<noteq> 200 then Inl (PlainError (''github api returned '' @ dec_string status))
          else (case decoded of Inl err \<Rightarrow> Inl (WrapError ''decode response: '' err) | Inr rel \<Rightarrow> Inr rel))"

definition selfUpdateDisabledReason :: string where
  "selfUpdateDisabledReason = ''self-update is disabled''"

text \<open>Whether the panel offers the update, and why not.\<close>

definition self_update_state :: "Updater \<Rightarrow> bool \<times> string \<Rightarrow> bool \<times> string" where
  "self_update_state u spt =
     (let allowed = selfUpdateAllowed u; supported = fst spt in
      (allowed \<and> supported,
       if \<not> allowed then selfUpdateDisabledReason else if supported then [] else snd spt))"

text \<open>Name, notes and versions of a status whose notes are aggregated when there is more than what
  was seen, starting from \<open>nm\<close>, \<open>notes\<close>.\<close>

definition aggregated ::
  "note_source \<Rightarrow> Updater \<Rightarrow> string \<Rightarrow> string \<Rightarrow> string \<Rightarrow> string \<Rightarrow> string \<times> string \<times> string list" where
  "aggregated ns u since latest nm notes =
     (case AggregateReleaseNotes ns (up_repo u) since latest of
        (agg, versions) \<Rightarrow>
          if trim_space agg \<noteq> []
          then (if aggregatedReleaseName versions \<noteq> [] then aggregatedReleaseName versions else nm, agg, versions)
          else (nm, notes, []))"

definition buildStatusFromEmbedded ::
  "os_env \<Rightarrow> note_source \<Rightarrow> Updater \<Rightarrow> string \<Rightarrow> file_system \<Rightarrow> Status \<times> file_system" where
  "buildStatusFromEmbedded env ns u since0 fs =
     (let embedded = normalizeTag (latestEmbeddedVersion ns);
          latest = (if embedded = [] then normalizeTag (up_current u) else embedded);
          since = normalizeTag since0;
          nm = ''HopStat '' @ latest;
          (rname, notes, versions) =
            (if since \<noteq> [] \<and> isNewer latest since then aggregated ns u since latest nm []
             else (nm, (case readEmbeddedNote ns latest of Some note \<Rightarrow> note | None \<Rightarrow> []), []));
          (spt, fs1) = SelfUpdateSupported env fs;
          (enabled, reason) = self_update_state u spt
      in (\<lparr>us_current = up_current u, us_latest = latest, us_update_available = isNewer latest (up_current u),
           us_release_url = ''https://github.com/'' @ up_repo u @ ''/releases/tag/'' @ latest,
           us_release_name = rname, us_release_notes = notes, us_release_versions = versions,
           us_self_update_enabled = enabled, us_self_update_reason = reason\<rparr>, fs1))"

definition buildStatus ::
  "os_env \<Rightarrow> note_source \<Rightarrow> Updater \<Rightarrow> string \<Rightarrow> file_system \<Rightarrow> Status \<times> file_system" where
  "buildStatus env ns u since0 fs =
     (case fetchLatest env u of
        Inl err \<Rightarrow> buildStatusFromEmbedded env ns u since0 fs
      | Inr rel \<Rightarrow>
         (let (spt, fs1) = SelfUpdateSupported env fs;
              (enabled, reason) = self_update_state u spt;
              since = normalizeTag since0;
              (rname, notes, versions) =
                (if since \<noteq> [] \<and> isNewer (rl_tag rel) since
                 then aggregated ns u since (rl_tag rel) (rl_name rel) (rl_body rel)
                 else (rl_name rel, rl_body rel, []))
          in (\<lparr>us_current = up_current u, us_latest = rl_tag rel,
               us_update_available = isNewer (rl_tag rel) (up_current u), us_release_url = rl_url rel,
               us_release_name = rname, us_release_notes = notes, us_release_versions = versions,
               us_self_update_enabled = enabled, us_self_update_reason = reason\<rparr>, fs1)))"

definition statusCacheTTL :: duration where "statusCacheTTL = 60 * second"

definition cached_status :: "go_time \<Rightarrow> string \<Rightarrow> Updater \<Rightarrow> Status option" where
  "cached_status now since u =
     (case up_status_cache u since of
        None \<Rightarrow> None
      | Some e \<Rightarrow> if now > cs_until e then None else Some (cs_status e))"

text \<open>The status, the updater with its cache and the file system afterwards. \<open>buildStatus\<close> never fails,
  so neither does this and only statuses are cached.\<close>

definition get_status ::
  "os_env \<Rightarrow> note_source \<Rightarrow> go_time \<Rightarrow> string \<Rightarrow> Updater \<Rightarrow> file_system \<Rightarrow> Status \<times> Updater \<times> file_system" where
  "get_status env ns now since0 u fs =
     (let since = normalizeTag since0 in
      case cached_status now since u of
        Some st \<Rightarrow> (st, u, fs)
      | None \<Rightarrow>
         (let (st, fs1) = buildStatus env ns u since fs
          in (st, u\<lparr>up_status_cache := (up_status_cache u)(since \<mapsto>
                \<lparr>cs_status = st, cs_until = now + statusCacheTTL\<rparr>)\<rparr>, fs1)))"

section \<open>Replacing the binary\<close>

definition download_limit :: nat where "download_limit = 200 * 2 ^ 20"

definition download :: "os_env \<Rightarrow> string \<Rightarrow> string \<Rightarrow> file_system \<Rightarrow> go_error option \<times> file_system" where
  "download env url dest fs =
     (case os_get env url of
        Inl err \<Rightarrow> (Some err, fs)
      | Inr (status, body) \<Rightarrow>
          if status \<noteq> 200 then (Some (PlainError (''download returned '' @ dec_string status)), fs)
          else (case write_file env dest (take download_limit (hb_bytes body)) fs of
                  (Some err, fs1) \<Rightarrow> (Some err, fs1)
                | (None, fs1) \<Rightarrow>
                    (if length (hb_bytes body) < download_limit then hb_error body else None, fs1)))"

definition checksum_line :: "string \<Rightarrow> string \<Rightarrow> string option" where
  "checksum_line assetName line =
     (case str_fields line of
        [digest, nm] \<Rightarrow> if nm = assetName then Some digest else None
      | _ \<Rightarrow> None)"

fun find_checksum :: "string \<Rightarrow> string list \<Rightarrow> string option" where
  "find_checksum assetName [] = None"
| "find_checksum assetName (line # rest) =
     (case checksum_line assetName line of Some digest \<Rightarrow> Some digest | None \<Rightarrow> find_checksum assetName rest)"

text \<open>What scanning the checksums yields: the entry, or the scanner's error.\<close>

definition scan_checksums :: "string \<Rightarrow> http_body \<Rightarrow> go_error + string" where
  "scan_checksums assetName body =
     (case scanner_lines (hb_bytes body) of
        (ls, tooLong) \<Rightarrow>
          (case find_checksum assetName ls of
             Some digest \<Rightarrow>
               (case hb_error body of
                  Some err \<Rightarrow> if hb_early body then Inl (WrapError ''read checksums: '' err) else Inr digest
                | None \<Rightarrow> Inr digest)
           | None \<Rightarrow>
               if tooLong then Inl (WrapError ''read checksums: '' (PlainError ''bufio.Scanner: token too long''))
               else (case hb_error body of
                       Some err \<Rightarrow> Inl (WrapError ''read checksums: '' err)
                     | None \<Rightarrow> Inr [])))"

definition verifyChecksum ::
  "os_env \<Rightarrow> string \<Rightarrow> string \<Rightarrow> string \<Rightarrow> file_system \<Rightarrow> go_error option" where
  "verifyChecksum env filePath assetName checksumURL fs =
     (case os_get env checksumURL of
        Inl err \<Rightarrow> Some (WrapError ''fetch checksums: '' err)
      | Inr (status, body) \<Rightarrow>
          if status \<noteq> 200 then Some (PlainError (''checksums.txt returned '' @ dec_string status))
          else (case scan_checksums assetName body of
                  Inl err \<Rightarrow> Some err
                | Inr expected \<Rightarrow>
                    if expected = [] then Some (PlainError (''no checksum entry for '' @ assetName))
                    else (case (os_open env filePath, fs filePath) of
                            (None, Some content) \<Rightarrow>
                              (case os_read_error env filePath of
                                 Some err \<Rightarrow> Some (WrapError ''hash binary: '' err)
                               | None \<Rightarrow>
                                   if os_sha256_hex env content \<noteq> expected
                                   then Some (PlainError (''SHA256 mismatch: got '' @ os_sha256_hex env content @
                                          '', want '' @ expected))
                                   else None)
                          | (Some err, _) \<Rightarrow> Some err
                          | (None, None) \<Rightarrow> Some (PlainError ''file does not exist''))))"

fun asset_urls :: "string \<Rightarrow> string \<Rightarrow> string \<Rightarrow> Asset list \<Rightarrow> string \<times> string" where
  "asset_urls assetName dl sums [] = (dl, sums)"
| "asset_urls assetName dl sums (a # as) =
     (if a_name a = assetName then asset_urls assetName (a_url a) sums as
      else if a_name a = ''checksums.txt'' then asset_urls assetName dl (a_url a) as
      else asset_urls assetName dl sums as)"

datatype apply_outcome = ApplyFailed go_error | ApplyExec string

definition asset_name :: "os_env \<Rightarrow> string" where
  "asset_name env = ''hopstat-'' @ os_goos env @ ''-'' @ os_goarch env"

text \<open>The part of \<open>Apply\<close> after the paths are known: download beside the binary, verify, make
  executable, rename, restart. Every failure removes the downloaded file.\<close>

definition install ::
  "os_env \<Rightarrow> string \<Rightarrow> string \<Rightarrow> string \<Rightarrow> file_system \<Rightarrow> apply_outcome \<times> file_system" where
  "install env execPath dlURL checksumURL fs =
     (let tmp = execPath @ ''.new'' in
      case download env dlURL tmp fs of
        (Some err, fs1) \<Rightarrow> (ApplyFailed (WrapError ''download: '' err), remove_file env tmp fs1)
      | (None, fs1) \<Rightarrow>
         (case verifyChecksum env tmp (asset_name env) checksumURL fs1 of
            Some err \<Rightarrow> (ApplyFailed (WrapError ''checksum verification failed: '' err), remove_file env tmp fs1)
          | None \<Rightarrow>
             (case os_chmod env tmp of
                Some err \<Rightarrow> (ApplyFailed (WrapError ''chmod: '' err), remove_file env tmp fs1)
              | None \<Rightarrow>
                 (case os_rename env tmp execPath of
                    Some err \<Rightarrow> (ApplyFailed (WrapError ''replace binary: '' err), remove_file env tmp fs1)
                  | None \<Rightarrow>
                     (let fs2 = fs1(execPath := fs1 tmp, tmp := None) in
                      case os_exec env execPath of
                        Some err \<Rightarrow> (ApplyFailed err, fs2)
                      | None \<Rightarrow> (ApplyExec execPath, fs2))))))"

definition Apply :: "os_env \<Rightarrow> Updater \<Rightarrow> file_system \<Rightarrow> apply_outcome \<times> file_system" where
  "Apply env u fs =
     (if \<not> selfUpdateAllowed u then (ApplyFailed (PlainError ''self-update is disabled''), fs)
      else case SelfUpdateSupported env fs of
        ((False, reason), fs1) \<Rightarrow> (ApplyFailed (PlainError (''self-update not supported: '' @ reason)), fs1)
      | ((True, reason), fs1) \<Rightarrow>
         (case fetchLatest env u of
            Inl err \<Rightarrow> (ApplyFailed (WrapError ''fetch release: '' err), fs1)
          | Inr rel \<Rightarrow>
             (case asset_urls (asset_name env) [] [] (rl_assets rel) of
                (dlURL, checksumURL) \<Rightarrow>
                  if dlURL = [] then
                    (ApplyFailed (PlainError (''no release asset for '' @ os_goos env @ ''/'' @ os_goarch env)), fs1)
                  else if checksumURL = [] then
                    (ApplyFailed (PlainError ''checksums.txt not found in release assets''), fs1)
                  else (case os_executable env of
                          Inl err \<Rightarrow> (ApplyFailed (WrapError ''executable path: '' err), fs1)
                        | Inr p \<Rightarrow>
                           (case os_symlinks env p of
                              Inl err \<Rightarrow> (ApplyFailed (WrapError ''eval symlinks: '' err), fs1)
                            | Inr execPath \<Rightarrow> install env execPath dlURL checksumURL fs1)))))"

section \<open>Lemmas\<close>

lemma remove_file_other: "q \<noteq> p \<Longrightarrow> remove_file env p fs q = fs q"
  by (simp add: remove_file_def)

lemma write_file_other: "write_file env p c fs = (r, fs') \<Longrightarrow> q \<noteq> p \<Longrightarrow> fs' q = fs q"
  by (auto simp: write_file_def split: prod.splits option.splits)

lemma download_other: "download env url dest fs = (r, fs') \<Longrightarrow> q \<noteq> dest \<Longrightarrow> fs' q = fs q"
  by (auto simp: download_def write_file_other split: sum.splits prod.splits if_splits option.splits)

lemma SelfUpdateSupported_files:
  assumes "SelfUpdateSupported env fs = (r, fs')" and "resolve_executable env = Inr e"
    and "q \<noteq> write_test_path env e"
  shows "fs' q = fs q"
proof -
  obtain w fs1 where w: "write_file env (write_test_path env e) ''x'' fs = (w, fs1)" by fastforce
  then have "fs1 q = fs q" using write_file_other assms(3) by blast
  moreover have "fs' = fs \<or> fs' = fs1 \<or> fs' = remove_file env (write_test_path env e) fs1"
    using assms(1,2) w by (auto simp: SelfUpdateSupported_def split: if_splits option.splits)
  ultimately show ?thesis using remove_file_other[OF assms(3)] by auto
qed

text \<open>A file that passes the check has the digest that the checksums list for the asset.\<close>

definition listed_digest :: "os_env \<Rightarrow> string \<Rightarrow> string \<Rightarrow> string \<Rightarrow> bool" where
  "listed_digest env assetName checksumURL digest \<longleftrightarrow>
     (\<exists>body. os_get env checksumURL = Inr (200, body) \<and>
        find_checksum assetName (fst (scanner_lines (hb_bytes body))) = Some digest)"

lemma scan_checksums_found:
  "scan_checksums nm body = Inr digest \<Longrightarrow> digest \<noteq> [] \<Longrightarrow>
   find_checksum nm (fst (scanner_lines (hb_bytes body))) = Some digest"
  by (auto simp: scan_checksums_def split: prod.splits option.splits if_splits)

lemma verifyChecksum_sound:
  assumes "verifyChecksum env file nm url fs = None"
  shows "\<exists>content. fs file = Some content \<and> listed_digest env nm url (os_sha256_hex env content)"
proof -
  obtain body where get: "os_get env url = Inr (200, body)"
    using assms by (auto simp: verifyChecksum_def split: sum.splits prod.splits if_splits)
  then obtain expected content where "scan_checksums nm body = Inr expected" "expected \<noteq> []"
      "fs file = Some content" "os_sha256_hex env content = expected"
    using assms by (auto simp: verifyChecksum_def split: sum.splits if_splits option.splits)
  then show ?thesis using get scan_checksums_found by (auto simp: listed_digest_def)
qed

lemma install_files:
  assumes "install env e dl sums fs = (out, fs')" and "q \<noteq> e @ ''.new''" and "fs' q \<noteq> fs q"
  shows "q = e \<and> (\<exists>bin. fs' q = Some bin \<and> listed_digest env (asset_name env) sums (os_sha256_hex env bin))"
proof -
  let ?tmp = "e @ ''.new''"
  obtain r fs1 where d: "download env dl ?tmp fs = (r, fs1)" by fastforce
  have same: "fs1 q = fs q" "remove_file env ?tmp fs1 q = fs q"
    using download_other[OF d assms(2)] remove_file_other[OF assms(2)] by simp_all
  have v: "r = None" "verifyChecksum env ?tmp (asset_name env) sums fs1 = None"
    and fs': "fs' = fs1(e := fs1 ?tmp, ?tmp := None)"
    using assms(1,3) d same
    by (auto simp: install_def Let_def split: option.splits)
  obtain content where "fs1 ?tmp = Some content"
      "listed_digest env (asset_name env) sums (os_sha256_hex env content)"
    using verifyChecksum_sound[OF v(2)] by blast
  then show ?thesis using fs' assms(2,3) same(1) by (auto split: if_splits)
qed

lemma install_cleans:
  assumes "os_remove env (e @ ''.new'')"
  shows "snd (install env e dl sums fs) (e @ ''.new'') = None"
  using assms by (auto simp: install_def Let_def remove_file_def split: prod.splits option.splits)

section \<open>Properties\<close>

text \<open>C21: An update changes no file but the binary and its own scratch files, and the binary only where
  self-update is allowed and supported, to contents whose SHA-256 digest the checksums file of the
  latest release lists for this platform's asset. Whatever fails before leaves the binary as it was.\<close>

theorem Apply_verified:
  assumes "resolve_executable env = Inr e" and "q \<noteq> write_test_path env e" and "q \<noteq> e @ ''.new''"
    and "snd (Apply env u fs) q \<noteq> fs q"
  shows "q = e \<and> selfUpdateAllowed u \<and> fst (fst (SelfUpdateSupported env fs)) \<and>
    (\<exists>rel dl sums bin. fetchLatest env u = Inr rel \<and>
       asset_urls (asset_name env) [] [] (rl_assets rel) = (dl, sums) \<and>
       snd (Apply env u fs) q = Some bin \<and>
       listed_digest env (asset_name env) sums (os_sha256_hex env bin))"
proof -
  obtain ok reason fs1 where S: "SelfUpdateSupported env fs = ((ok, reason), fs1)" by (metis prod.exhaust)
  have same: "fs1 q = fs q" by (rule SelfUpdateSupported_files[OF S assms(1,2)])
  obtain p where p: "os_executable env = Inr p" "os_symlinks env p = Inr e"
    using assms(1) by (auto simp: resolve_executable_def split: sum.splits)
  have "selfUpdateAllowed u" by (rule ccontr) (use assms(4) in \<open>simp add: Apply_def\<close>)
  moreover from this have ok by (rule_tac ccontr) (use assms(4) S same in \<open>simp add: Apply_def\<close>)
  ultimately have allowed: "selfUpdateAllowed u" "ok" .
  then obtain rel where fetched: "fetchLatest env u = Inr rel"
    using assms(4) S same by (cases "fetchLatest env u") (simp_all add: Apply_def)
  obtain dl sums where urls: "asset_urls (asset_name env) [] [] (rl_assets rel) = (dl, sums)" by fastforce
  note rel = fetched urls
  have eq: "snd (Apply env u fs) = snd (install env e dl sums fs1)"
    using assms(4) S same allowed rel p by (auto simp: Apply_def split: if_splits)
  obtain out fs' where i: "install env e dl sums fs1 = (out, fs')" by fastforce
  have "fs' q \<noteq> fs1 q" using assms(4) eq i same by simp
  from install_files[OF i assms(3) this] show ?thesis
    using allowed rel eq i S by auto
qed

section \<open>Witness\<close>

definition sample_release :: Release where
  "sample_release = \<lparr>rl_tag = ''v1.1.0'', rl_name = [], rl_body = [], rl_url = [],
     rl_assets = [\<lparr>a_name = ''hopstat-linux-amd64'', a_url = ''u1''\<rparr>, \<lparr>a_name = ''checksums.txt'', a_url = ''u2''\<rparr>]\<rparr>"

definition sample_os :: os_env where
  "sample_os = \<lparr>os_update_enabled = [], os_goos = ''linux'', os_goarch = ''amd64'', os_dockerenv = False,
     os_cgroup = None, os_executable = Inr ''/bin/h'', os_symlinks = (\<lambda>p. Inr p),
     os_dir = (\<lambda>_. ''/bin''), os_join = (\<lambda>a b. a @ ''/'' @ b), os_write = (\<lambda>_ c. (Some c, None)),
     os_open = (\<lambda>_. None), os_read_error = (\<lambda>_. None), os_chmod = (\<lambda>_. None),
     os_rename = (\<lambda>_ _. None), os_remove = (\<lambda>_. True), os_exec = (\<lambda>_. None),
     os_release = (\<lambda>_. Inr (200, Inr sample_release)),
     os_get = (\<lambda>url. Inr (200, \<lparr>hb_bytes = (if url = ''u1'' then ''new'' else ''abc  hopstat-linux-amd64''),
       hb_error = None, hb_early = False\<rparr>)),
     os_sha256_hex = (\<lambda>_. ''abc'')\<rparr>"

definition sample_updater :: Updater where
  "sample_updater = New_updater ''HopStat/HopStat'' ''v1.0.0'' True"

lemma sample_apply: "snd (Apply sample_os sample_updater [''/bin/h'' \<mapsto> ''old'']) ''/bin/h'' = Some ''new''"
  by code_simp

lemma Apply_verified_witness:
  "\<exists>sums bin. snd (Apply sample_os sample_updater [''/bin/h'' \<mapsto> ''old'']) ''/bin/h'' = Some bin \<and>
     listed_digest sample_os ''hopstat-linux-amd64'' sums ''abc''"
proof -
  have "resolve_executable sample_os = Inr ''/bin/h''" by code_simp
  moreover have "''/bin/h'' \<noteq> write_test_path sample_os ''/bin/h''" by code_simp
  moreover have "asset_name sample_os = ''hopstat-linux-amd64''" by code_simp
  moreover have "os_sha256_hex sample_os bin = ''abc''" for bin by (simp add: sample_os_def)
  ultimately show ?thesis
    using Apply_verified[of sample_os "''/bin/h''" "''/bin/h''" sample_updater "[''/bin/h'' \<mapsto> ''old'']"]
      sample_apply
    by auto
qed

end
