(* ===== verification/Database.thy ===== *)
theory Database
  imports Domain Go_Sort
begin

text \<open>
  The tables of nodes and BGP neighbours (\<open>internal/store/migrate.go\<close>) and the statements on them
  (\<open>internal/store/queries/node.sql.go\<close>, \<open>bgp_neighbor.sql.go\<close>). A table is the list of its rows in the
  order of their ids, which \<open>AUTOINCREMENT\<close> never gives out twice. Foreign keys are on
  (\<open>internal/store/db.go\<close>): a neighbour needs its node, and goes with it. The other tables that refer
  to nodes are not modelled.
\<close>

section \<open>Outcomes\<close>

text \<open>What a Go call ends in; \<open>Panicked\<close> is the dereference of a nil pointer.\<close>

datatype 'a outcome = Returned 'a | Failed go_error | Panicked

section \<open>Rows and tables\<close>

record node_row =
  nr_id :: int
  nr_name :: string
  nr_description :: string
  nr_type :: string
  nr_city :: string
  nr_country :: string
  nr_lat :: "float64 option"
  nr_lon :: "float64 option"
  nr_credential_id :: "int option"
  nr_active :: int
  nr_is_default :: int
  nr_enabled_cmds :: string
  nr_bgp_config :: "string option"
  nr_agent_url :: string
  nr_agent_token :: string
  nr_created_at :: string
  nr_updated_at :: string

record neighbor_row =
  br_id :: int
  br_node_id :: int
  br_local_as :: u32
  br_remote_as :: u32
  br_peering_ip :: string
  br_neighbor_ip :: string
  br_ipv6_peering_ip :: string
  br_ipv6_neighbor_ip :: string
  br_multihop :: int
  br_passive_mode :: int
  br_peer_type :: string
  br_default_route_as :: u32
  br_created_at :: string
  br_updated_at :: string

text \<open>\<open>db_statements\<close> counts the statements issued, so that any of them may fail on its own.\<close>

record database =
  db_nodes :: "node_row list"
  db_node_seq :: int
  db_neighbors :: "neighbor_row list"
  db_neighbor_seq :: int
  db_statements :: nat

text \<open>\<open>sq_error k\<close>: whether the \<open>k\<close>th statement fails, and whether it has taken effect even so, as when
  the connection is interrupted after the commit. \<open>ORDER BY\<close> is not stable.\<close>

record sql_env =
  sq_error :: "nat \<Rightarrow> (bool \<times> go_error) option"
  sq_now :: string
  sq_fk_error :: go_error
  sq_no_rows :: go_error
  sq_sort_nodes :: "(node_row \<Rightarrow> node_row \<Rightarrow> bool) \<Rightarrow> node_row list \<Rightarrow> node_row list"
  sq_sort_neighbors :: "(neighbor_row \<Rightarrow> neighbor_row \<Rightarrow> bool) \<Rightarrow> neighbor_row list \<Rightarrow> neighbor_row list"

section \<open>Statements and their sequence\<close>

type_synonym 'a db_call = "database \<Rightarrow> 'a outcome \<times> database"

definition statement :: "'e sql_env_scheme \<Rightarrow> 'a db_call \<Rightarrow> 'a db_call" where
  "statement env f db =
     (let db1 = db\<lparr>db_statements := Suc (db_statements db)\<rparr> in
      case sq_error env (db_statements db) of
        None \<Rightarrow> f db1
      | Some (done, err) \<Rightarrow> (Failed err, if done then snd (f db1) else db1))"

definition db_return :: "'a \<Rightarrow> 'a db_call" where
  "db_return a db = (Returned a, db)"

text \<open>The code's \<open>if err != nil { return err }\<close> between two calls.\<close>

definition db_bind :: "'a db_call \<Rightarrow> ('a \<Rightarrow> 'b db_call) \<Rightarrow> 'b db_call" where
  "db_bind m f db =
     (case m db of
        (Returned a, db1) \<Rightarrow> f a db1
      | (Failed err, db1) \<Rightarrow> (Failed err, db1)
      | (Panicked, db1) \<Rightarrow> (Panicked, db1))"

text \<open>A call whose error the code passes over.\<close>

definition db_try :: "'a db_call \<Rightarrow> ('a option \<Rightarrow> 'b) \<Rightarrow> 'b db_call" where
  "db_try m f db =
     (case m db of
        (Returned a, db1) \<Rightarrow> (Returned (f (Some a)), db1)
      | (_, db1) \<Rightarrow> (Returned (f None), db1))"

text \<open>A pointer the code follows without looking.\<close>

definition deref :: "'a option \<Rightarrow> ('a \<Rightarrow> 'b db_call) \<Rightarrow> 'b db_call" where
  "deref p f db = (case p of None \<Rightarrow> (Panicked, db) | Some a \<Rightarrow> f a db)"

section \<open>Nodes\<close>

definition find_node :: "database \<Rightarrow> int \<Rightarrow> node_row option" where
  "find_node db i = find (\<lambda>r. nr_id r = i) (db_nodes db)"

definition GetAllNodes :: "'e sql_env_scheme \<Rightarrow> node_row list db_call" where
  "GetAllNodes env = statement env (\<lambda>db.
     (Returned (sq_sort_nodes env (\<lambda>a b. str_less (nr_name a) (nr_name b)) (db_nodes db)), db))"

definition default_first :: "node_row \<Rightarrow> node_row \<Rightarrow> bool" where
  "default_first a b \<longleftrightarrow> nr_is_default a > nr_is_default b \<or>
     (nr_is_default a = nr_is_default b \<and> str_less (nr_name a) (nr_name b))"

definition GetActiveNodes :: "'e sql_env_scheme \<Rightarrow> node_row list db_call" where
  "GetActiveNodes env = statement env (\<lambda>db.
     (Returned (sq_sort_nodes env default_first (filter (\<lambda>r. nr_active r = 1) (db_nodes db))), db))"

definition GetNodeByID :: "'e sql_env_scheme \<Rightarrow> int \<Rightarrow> node_row option db_call" where
  "GetNodeByID env i = statement env (\<lambda>db. (Returned (find_node db i), db))"

definition insert_node :: "string \<Rightarrow> node_row \<Rightarrow> database \<Rightarrow> database" where
  "insert_node now arg db =
     db\<lparr>db_nodes := db_nodes db @
          [arg\<lparr>nr_id := db_node_seq db + 1, nr_created_at := now, nr_updated_at := now\<rparr>],
        db_node_seq := db_node_seq db + 1\<rparr>"

definition CreateNodeQ :: "'e sql_env_scheme \<Rightarrow> node_row \<Rightarrow> node_row option db_call" where
  "CreateNodeQ env arg =
     db_bind (statement env (\<lambda>db. (Returned (db_node_seq db + 1), insert_node (sq_now env) arg db)))
       (\<lambda>i. GetNodeByID env i)"

definition update_node :: "string \<Rightarrow> node_row \<Rightarrow> database \<Rightarrow> database" where
  "update_node now arg db =
     db\<lparr>db_nodes := map (\<lambda>r. if nr_id r = nr_id arg
          then arg\<lparr>nr_created_at := nr_created_at r, nr_updated_at := now\<rparr> else r) (db_nodes db)\<rparr>"

definition UpdateNodeQ :: "'e sql_env_scheme \<Rightarrow> node_row \<Rightarrow> node_row option db_call" where
  "UpdateNodeQ env arg =
     db_bind (statement env (\<lambda>db. (Returned (), update_node (sq_now env) arg db)))
       (\<lambda>_. GetNodeByID env (nr_id arg))"

definition delete_node :: "int \<Rightarrow> database \<Rightarrow> database" where
  "delete_node i db =
     db\<lparr>db_nodes := filter (\<lambda>r. nr_id r \<noteq> i) (db_nodes db),
        db_neighbors := filter (\<lambda>r. br_node_id r \<noteq> i \<or> find_node db i = None) (db_neighbors db)\<rparr>"

definition DeleteNodeQ :: "'e sql_env_scheme \<Rightarrow> int \<Rightarrow> unit db_call" where
  "DeleteNodeQ env i = statement env (\<lambda>db. (Returned (), delete_node i db))"

text \<open>The transaction of \<open>SetDefaultNode\<close>: it is rolled back when no row has the id, and a failure of
  any of its statements leaves the table as it was.\<close>

definition set_default :: "int \<Rightarrow> database \<Rightarrow> database" where
  "set_default i db =
     db\<lparr>db_nodes := map (\<lambda>r. r\<lparr>nr_is_default := (if nr_id r = i then 1 else 0)\<rparr>) (db_nodes db)\<rparr>"

definition SetDefaultNodeQ :: "'e sql_env_scheme \<Rightarrow> int \<Rightarrow> unit db_call" where
  "SetDefaultNodeQ env i = statement env (\<lambda>db.
     if find_node db i = None then (Failed (sq_no_rows env), db) else (Returned (), set_default i db))"

section \<open>BGP neighbours\<close>

definition find_neighbor :: "database \<Rightarrow> int \<Rightarrow> neighbor_row option" where
  "find_neighbor db i = find (\<lambda>r. br_id r = i) (db_neighbors db)"

definition GetAllBGPNeighbors :: "'e sql_env_scheme \<Rightarrow> neighbor_row list db_call" where
  "GetAllBGPNeighbors env = statement env (\<lambda>db.
     (Returned (sq_sort_neighbors env (\<lambda>a b. str_less (br_created_at b) (br_created_at a)) (db_neighbors db)), db))"

definition GetBGPNeighborsByNodeID :: "'e sql_env_scheme \<Rightarrow> int \<Rightarrow> neighbor_row list db_call" where
  "GetBGPNeighborsByNodeID env nodeID = statement env (\<lambda>db.
     (Returned (filter (\<lambda>r. br_node_id r = nodeID) (db_neighbors db)), db))"

definition GetBGPNeighborByID :: "'e sql_env_scheme \<Rightarrow> int \<Rightarrow> neighbor_row option db_call" where
  "GetBGPNeighborByID env i = statement env (\<lambda>db. (Returned (find_neighbor db i), db))"

definition insert_neighbor :: "string \<Rightarrow> neighbor_row \<Rightarrow> database \<Rightarrow> database" where
  "insert_neighbor now arg db =
     db\<lparr>db_neighbors := db_neighbors db @
          [arg\<lparr>br_id := db_neighbor_seq db + 1, br_created_at := now, br_updated_at := now\<rparr>],
        db_neighbor_seq := db_neighbor_seq db + 1\<rparr>"

definition CreateBGPNeighborQ :: "'e sql_env_scheme \<Rightarrow> neighbor_row \<Rightarrow> neighbor_row option db_call" where
  "CreateBGPNeighborQ env arg =
     db_bind (statement env (\<lambda>db.
         if find_node db (br_node_id arg) = None then (Failed (sq_fk_error env), db)
         else (Returned (db_neighbor_seq db + 1), insert_neighbor (sq_now env) arg db)))
       (\<lambda>i. GetBGPNeighborByID env i)"

definition update_neighbor :: "string \<Rightarrow> neighbor_row \<Rightarrow> database \<Rightarrow> database" where
  "update_neighbor now arg db =
     db\<lparr>db_neighbors := map (\<lambda>r. if br_id r = br_id arg
          then arg\<lparr>br_created_at := br_created_at r, br_updated_at := now\<rparr> else r) (db_neighbors db)\<rparr>"

definition UpdateBGPNeighborQ :: "'e sql_env_scheme \<Rightarrow> neighbor_row \<Rightarrow> neighbor_row option db_call" where
  "UpdateBGPNeighborQ env arg =
     db_bind (statement env (\<lambda>db.
         if find_neighbor db (br_id arg) \<noteq> None \<and> find_node db (br_node_id arg) = None
         then (Failed (sq_fk_error env), db)
         else (Returned (), update_neighbor (sq_now env) arg db)))
       (\<lambda>_. GetBGPNeighborByID env (br_id arg))"

definition delete_neighbor :: "int \<Rightarrow> database \<Rightarrow> database" where
  "delete_neighbor i db = db\<lparr>db_neighbors := filter (\<lambda>r. br_id r \<noteq> i) (db_neighbors db)\<rparr>"

definition DeleteBGPNeighborQ :: "'e sql_env_scheme \<Rightarrow> int \<Rightarrow> unit db_call" where
  "DeleteBGPNeighborQ env i = statement env (\<lambda>db. (Returned (), delete_neighbor i db))"

section \<open>Rules for sequences of calls\<close>

text \<open>\<open>db_keeps I m\<close>: whatever \<open>m\<close> ends in, \<open>I\<close> still holds.\<close>

definition db_keeps :: "(database \<Rightarrow> bool) \<Rightarrow> 'a db_call \<Rightarrow> bool" where
  "db_keeps I m \<longleftrightarrow> (\<forall>db. I db \<longrightarrow> I (snd (m db)))"

text \<open>An invariant of the tables does not read the counter.\<close>

definition ignores_counter :: "(database \<Rightarrow> bool) \<Rightarrow> bool" where
  "ignores_counter I \<longleftrightarrow> (\<forall>db k. I (db\<lparr>db_statements := k\<rparr>) = I db)"

lemma db_keeps_return [intro]: "db_keeps I (db_return a)"
  by (simp add: db_keeps_def db_return_def)

lemma db_keeps_bind [intro]: "db_keeps I m \<Longrightarrow> (\<And>a. db_keeps I (f a)) \<Longrightarrow> db_keeps I (db_bind m f)"
  unfolding db_keeps_def db_bind_def
  by (force split: prod.split outcome.split)

lemma db_keeps_try [intro]: "db_keeps I m \<Longrightarrow> db_keeps I (db_try m f)"
  unfolding db_keeps_def db_try_def by (force split: prod.split outcome.split)

lemma db_keeps_deref [intro]: "(\<And>a. db_keeps I (f a)) \<Longrightarrow> db_keeps I (deref p f)"
  by (simp add: db_keeps_def deref_def split: option.split)

lemma db_keeps_statement:
  assumes "ignores_counter I" "\<And>db. I db \<Longrightarrow> I (snd (f db))"
  shows "db_keeps I (statement env f)"
  using assms by (auto simp: db_keeps_def statement_def Let_def ignores_counter_def split: option.split)

lemma db_keeps_read:
  assumes "ignores_counter I" "\<And>db. snd (f db) = db"
  shows "db_keeps I (statement env f)"
  using assms by (intro db_keeps_statement) simp_all

lemma find_node_iff: "find_node db i = None \<longleftrightarrow> i \<notin> nr_id ` set (db_nodes db)"
  by (auto simp: find_node_def find_None_iff)

lemma find_neighbor_iff: "find_neighbor db i = None \<longleftrightarrow> i \<notin> br_id ` set (db_neighbors db)"
  by (auto simp: find_neighbor_def find_None_iff)

lemma find_neighbor_Some: "find_neighbor db i = Some r \<Longrightarrow> r \<in> set (db_neighbors db) \<and> br_id r = i"
  by (auto simp: find_neighbor_def find_Some_iff)

lemma find_node_Some: "find_node db i = Some r \<Longrightarrow> r \<in> set (db_nodes db) \<and> nr_id r = i"
  by (auto simp: find_node_def find_Some_iff)

end
