(* ===== verification/Credentials.thy ===== *)
theory Credentials
  imports Go_Net
begin

text \<open>
  Encryption of agent tokens at rest (\<open>internal/store/repo/crypto.go\<close>) and its use in
  \<open>internal/store/repo/node_repo.go\<close>. AES-GCM and the random source are arguments; the hexadecimal
  coding of \<open>encoding/hex\<close> is spelt out.
\<close>

section \<open>Hexadecimal coding\<close>

fun hex_encode :: "string \<Rightarrow> string" where
  "hex_encode [] = []"
| "hex_encode (c # s) = hex_digit (code c div 16) # hex_digit (code c mod 16) # hex_encode s"

text \<open>\<open>hex.DecodeString\<close>: a byte that is no digit is reported before an odd length; \<open>bad\<close> is the
  error for such a byte.\<close>

fun hex_decode :: "(char \<Rightarrow> go_error) \<Rightarrow> string \<Rightarrow> go_error + string" where
  "hex_decode bad [] = Inr []"
| "hex_decode bad [c] =
     (case hex_val c of
        None \<Rightarrow> Inl (bad c)
      | Some _ \<Rightarrow> Inl (PlainError ''encoding/hex: odd length hex string''))"
| "hex_decode bad (c # d # s) =
     (case hex_val c of
        None \<Rightarrow> Inl (bad c)
      | Some h \<Rightarrow>
         (case hex_val d of
            None \<Rightarrow> Inl (bad d)
          | Some l \<Rightarrow>
             (case hex_decode bad s of
                Inl err \<Rightarrow> Inl err
              | Inr bs \<Rightarrow> Inr (char_of (16 * h + l) # bs))))"

lemma hex_val_digit: "n < 16 \<Longrightarrow> hex_val (hex_digit n) = Some n"
  by (auto simp: hex_val_def hex_digit_def code_def is_digit_def digit_val_def)

lemma hex_decode_encode: "hex_decode bad (hex_encode s) = Inr s"
proof (induction s)
  case (Cons c s)
  have "code c < 256" by (simp add: code_def)
  then have "code c div 16 < 16" "code c mod 16 < 16" by simp_all
  moreover have "char_of (code c) = c" by (simp add: code_def)
  ultimately show ?case using Cons by (simp add: hex_val_digit)
qed simp

section \<open>Sealing and opening\<close>

text \<open>\<open>gm_aes\<close>, \<open>gm_gcm\<close>: what \<open>aes.NewCipher\<close> and \<open>cipher.NewGCM\<close> answer; \<open>gm_seal\<close>, \<open>gm_open\<close>: the AEAD
  under a key and a nonce.\<close>

record gcm =
  gm_bad_hex :: "char \<Rightarrow> go_error"
  gm_aes :: "string \<Rightarrow> go_error option"
  gm_gcm :: "string \<Rightarrow> go_error option"
  gm_nonce_size :: nat
  gm_seal :: "string \<Rightarrow> string \<Rightarrow> string \<Rightarrow> string"
  gm_open :: "string \<Rightarrow> string \<Rightarrow> string \<Rightarrow> go_error + string"

text \<open>The key both functions start with.\<close>

definition decode_key :: "gcm \<Rightarrow> string \<Rightarrow> go_error + string" where
  "decode_key g hexKey =
     (case hex_decode (gm_bad_hex g) hexKey of
        Inl err \<Rightarrow> Inl (WrapError ''decode hex key: '' err)
      | Inr key \<Rightarrow>
          if length key \<noteq> 32 then Inl (PlainError (''key must be 32 bytes, got '' @ dec_string (length key)))
          else Inr key)"

definition new_gcm :: "gcm \<Rightarrow> string \<Rightarrow> go_error option" where
  "new_gcm g key =
     (case gm_aes g key of
        Some err \<Rightarrow> Some (WrapError ''create cipher: '' err)
      | None \<Rightarrow> map_option (WrapError ''create GCM: '') (gm_gcm g key))"

text \<open>\<open>rnd\<close>: the outcome of reading as many random bytes as the nonce has.\<close>

definition Encrypt :: "gcm \<Rightarrow> (go_error + string) \<Rightarrow> string \<Rightarrow> string \<Rightarrow> go_error + string" where
  "Encrypt g rnd plaintext hexKey =
     (case decode_key g hexKey of
        Inl err \<Rightarrow> Inl err
      | Inr key \<Rightarrow>
         (case new_gcm g key of
            Some err \<Rightarrow> Inl err
          | None \<Rightarrow>
             (case rnd of
                Inl err \<Rightarrow> Inl (WrapError ''generate nonce: '' err)
              | Inr nonce \<Rightarrow> Inr (hex_encode (nonce @ gm_seal g key nonce plaintext)))))"

definition Decrypt :: "gcm \<Rightarrow> string \<Rightarrow> string \<Rightarrow> go_error + string" where
  "Decrypt g hexCiphertext hexKey =
     (case decode_key g hexKey of
        Inl err \<Rightarrow> Inl err
      | Inr key \<Rightarrow>
         (case hex_decode (gm_bad_hex g) hexCiphertext of
            Inl err \<Rightarrow> Inl (WrapError ''decode hex ciphertext: '' err)
          | Inr data \<Rightarrow>
             (case new_gcm g key of
                Some err \<Rightarrow> Inl err
              | None \<Rightarrow>
                  if length data < gm_nonce_size g then Inl (PlainError ''ciphertext too short'')
                  else (case gm_open g key (take (gm_nonce_size g) data) (drop (gm_nonce_size g) data) of
                          Inl err \<Rightarrow> Inl (WrapError ''decrypt: '' err)
                        | Inr plaintext \<Rightarrow> Inr plaintext))))"

section \<open>Tokens\<close>

definition encryptToken :: "gcm \<Rightarrow> (go_error + string) \<Rightarrow> string \<Rightarrow> string \<Rightarrow> string" where
  "encryptToken g rnd credentialKey token =
     (if token = [] \<or> credentialKey = [] then token
      else case Encrypt g rnd token credentialKey of Inl _ \<Rightarrow> token | Inr enc \<Rightarrow> enc)"

definition decryptToken :: "gcm \<Rightarrow> string \<Rightarrow> string \<Rightarrow> string" where
  "decryptToken g credentialKey token =
     (if token = [] \<or> credentialKey = [] then token
      else case Decrypt g token credentialKey of Inl _ \<Rightarrow> token | Inr dec \<Rightarrow> dec)"

section \<open>Lemmas\<close>

text \<open>What a key that cannot be used does: both directions leave the token as it is.\<close>

lemma unusable_key:
  assumes "decode_key g k = Inl e \<or> (\<exists>key. decode_key g k = Inr key \<and> new_gcm g key \<noteq> None)"
  shows "encryptToken g rnd k t = t" and "decryptToken g k t = t"
  using assms by (auto simp: encryptToken_def decryptToken_def Encrypt_def Decrypt_def split: sum.splits)

lemma Decrypt_Encrypt:
  assumes "Encrypt g rnd t k = Inr c" and "\<And>n. rnd = Inr n \<Longrightarrow> length n = gm_nonce_size g"
    and "\<And>key n. gm_open g key n (gm_seal g key n t) = Inr t"
  shows "Decrypt g c k = Inr t"
proof -
  obtain key n where k: "decode_key g k = Inr key" "new_gcm g key = None" "rnd = Inr n"
      "c = hex_encode (n @ gm_seal g key n t)"
    using assms(1) by (auto simp: Encrypt_def split: sum.splits option.splits)
  then show ?thesis
    using assms(2)[OF k(3)] assms(3) by (simp add: Decrypt_def hex_decode_encode)
qed

section \<open>Properties\<close>

text \<open>Whatever the credential key (set, empty, malformed or of the wrong size), a token written with
  it reads back unchanged with it, provided the random source answers and AES-GCM opens what it sealed;
  with a usable key what is stored is the hexadecimal text of nonce and ciphertext, not the token.\<close>

theorem token_roundtrip:
  assumes "\<And>key n. gm_open g key n (gm_seal g key n t) = Inr t" and "length n = gm_nonce_size g" and "n \<noteq> []"
  shows "decryptToken g k (encryptToken g (Inr n) k t) = t \<and>
    (\<forall>key. t \<noteq> [] \<longrightarrow> decode_key g k = Inr key \<longrightarrow> new_gcm g key = None \<longrightarrow>
       encryptToken g (Inr n) k t = hex_encode (n @ gm_seal g key n t))"
proof (cases "\<exists>key. decode_key g k = Inr key \<and> new_gcm g key = None")
  case True
  then obtain key where key: "decode_key g k = Inr key" "new_gcm g key = None" by blast
  let ?c = "hex_encode (n @ gm_seal g key n t)"
  have enc: "Encrypt g (Inr n) t k = Inr ?c" using key by (simp add: Encrypt_def)
  have dec: "Decrypt g ?c k = Inr t" using Decrypt_Encrypt[OF enc] assms by simp
  have "k \<noteq> []" using key(1) by (auto simp: decode_key_def)
  moreover have "?c \<noteq> []" using assms(3) by (cases n) simp_all
  ultimately show ?thesis
    using enc dec key by (auto simp: encryptToken_def decryptToken_def)
next
  case False
  then have "(\<exists>e. decode_key g k = Inl e) \<or> (\<exists>key. decode_key g k = Inr key \<and> new_gcm g key \<noteq> None)"
    by (cases "decode_key g k") auto
  then have "encryptToken g (Inr n) k t = t" "decryptToken g k t = t" using unusable_key by blast+
  then show ?thesis using False by auto
qed

text \<open>A toy that seals by reversal.\<close>

definition toy_gcm :: gcm where
  "toy_gcm = \<lparr>gm_bad_hex = (\<lambda>_. PlainError ''encoding/hex: invalid byte''), gm_aes = (\<lambda>_. None),
     gm_gcm = (\<lambda>_. None), gm_nonce_size = 12, gm_seal = (\<lambda>key n p. rev p),
     gm_open = (\<lambda>key n c. Inr (rev c))\<rparr>"

lemma toy_open: "gm_open toy_gcm key n (gm_seal toy_gcm key n t) = Inr t"
  by (simp add: toy_gcm_def)

definition toy_key :: string where "toy_key = hex_encode (replicate 32 (CHR ''k''))"
definition toy_nonce :: string where "toy_nonce = replicate 12 (CHR ''n'')"

lemma token_roundtrip_witness:
  "decryptToken toy_gcm toy_key (encryptToken toy_gcm (Inr toy_nonce) toy_key ''secret'') = ''secret'' \<and>
   encryptToken toy_gcm (Inr toy_nonce) toy_key ''secret'' =
     hex_encode (toy_nonce @ gm_seal toy_gcm (replicate 32 (CHR ''k'')) toy_nonce ''secret'')"
proof -
  have "length toy_nonce = gm_nonce_size toy_gcm" by code_simp
  moreover have "decode_key toy_gcm toy_key = Inr (replicate 32 (CHR ''k''))" by code_simp
  moreover have "new_gcm toy_gcm (replicate 32 (CHR ''k'')) = None" by code_simp
  moreover have "toy_nonce \<noteq> []" by (simp add: toy_nonce_def)
  ultimately show ?thesis using token_roundtrip[OF toy_open, of toy_nonce toy_key "''secret''"] by blast
qed

end
