(* ===== verification/Repos.thy ===== *)
theory Repos
  imports Database Credentials
begin

text \<open>
  The repositories of nodes and BGP neighbours (\<open>internal/store/repo/node_repo.go\<close>,
  \<open>bgp_neighbor_repo.go\<close>) and the in-memory snapshot of the active nodes that public reads and queries use
  (\<open>internal/sitecache/nodes.go\<close>).
\<close>

section \<open>The environment\<close>

text \<open>\<open>rp_marshal\<close>, \<open>rp_unmarshal\<close>: \<open>json.Marshal\<close> of a list of commands and what \<open>json.Unmarshal\<close> leaves in
  the slice, whether it fails or not; \<open>rp_parse\<close>: \<open>time.Parse\<close>.\<close>

record repo_env = sql_env +
  rp_key :: string
  rp_gcm :: gcm
  rp_random :: "go_error + string"
  rp_marshal :: "string list \<Rightarrow> string"
  rp_unmarshal :: "string \<Rightarrow> string list"
  rp_parse :: "string \<Rightarrow> string \<Rightarrow> go_time option"

definition time_layouts :: "string list" where
  "time_layouts =
     [''2006-01-02 15:04:05'', ''2006-01-02T15:04:05Z07:00'', ''2006-01-02T15:04:05Z'', ''2006-01-02T15:04:05'']"

fun parse_layouts :: "(string \<Rightarrow> string \<Rightarrow> go_time option) \<Rightarrow> string \<Rightarrow> string list \<Rightarrow> go_time" where
  "parse_layouts prs s [] = 0"
| "parse_layouts prs s (layout # ls) =
     (case prs layout s of Some t \<Rightarrow> t | None \<Rightarrow> parse_layouts prs s ls)"

definition parseTime :: "'e repo_env_scheme \<Rightarrow> string \<Rightarrow> go_time" where
  "parseTime env s = parse_layouts (rp_parse env) s time_layouts"

definition boolToInt :: "bool \<Rightarrow> int" where "boolToInt b = (if b then 1 else 0)"

section \<open>Nodes\<close>

definition mapNode :: "'e repo_env_scheme \<Rightarrow> node_row \<Rightarrow> node" where
  "mapNode env r =
     \<lparr>n_id = nr_id r, n_name = nr_name r, n_description = nr_description r, n_type = nr_type r,
      n_city = nr_city r, n_country = nr_country r, n_lat = nr_lat r, n_lon = nr_lon r,
      n_credential_id = nr_credential_id r, n_active = (nr_active r = 1), n_is_default = (nr_is_default r = 1),
      n_enabled_cmds = NormalizeEnabledCmds (rp_unmarshal env (nr_enabled_cmds r)),
      n_bgp_config = None, n_agent_url = nr_agent_url r, n_agent_token = nr_agent_token r,
      n_created_at = parseTime env (nr_created_at r), n_updated_at = parseTime env (nr_updated_at r)\<rparr>"

text \<open>A node as the repository hands it out.\<close>

definition read_node :: "'e repo_env_scheme \<Rightarrow> node_row \<Rightarrow> node" where
  "read_node env r =
     (let n = mapNode env r
      in n\<lparr>n_agent_token := decryptToken (rp_gcm env) (rp_key env) (n_agent_token n)\<rparr>)"

fun min_id_loop :: "int \<Rightarrow> node_row list \<Rightarrow> int" where
  "min_id_loop m [] = m"
| "min_id_loop m (r # rs) = min_id_loop (if nr_id r < m then nr_id r else m) rs"

definition ensureDefault :: "'e repo_env_scheme \<Rightarrow> unit db_call" where
  "ensureDefault env =
     db_bind (GetAllNodes env) (\<lambda>nodes.
       if length nodes = 0 then db_return ()
       else if list_ex (\<lambda>n. nr_is_default n = 1) nodes then db_return ()
       else SetDefaultNodeQ env (min_id_loop (nr_id (nodes ! 0)) nodes))"

definition NodeRepo_GetAll :: "'e repo_env_scheme \<Rightarrow> node list db_call" where
  "NodeRepo_GetAll env = db_bind (GetAllNodes env) (\<lambda>nodes. db_return (map (read_node env) nodes))"

definition NodeRepo_GetActive :: "'e repo_env_scheme \<Rightarrow> node list db_call" where
  "NodeRepo_GetActive env =
     db_bind (ensureDefault env) (\<lambda>_.
       db_bind (GetActiveNodes env) (\<lambda>nodes. db_return (map (read_node env) nodes)))"

definition NodeRepo_GetByID :: "'e repo_env_scheme \<Rightarrow> int \<Rightarrow> node db_call" where
  "NodeRepo_GetByID env i =
     db_bind (GetNodeByID env i) (\<lambda>row.
       case row of
         None \<Rightarrow> (\<lambda>db. (Failed ErrNodeNotFound, db))
       | Some r \<Rightarrow> db_return (read_node env r))"

text \<open>The row \<open>Create\<close> inserts; its \<open>Lon\<close> is not set.\<close>

definition created_row :: "'e repo_env_scheme \<Rightarrow> node \<Rightarrow> node_row" where
  "created_row env n =
     \<lparr>nr_id = 0, nr_name = n_name n, nr_description = n_description n, nr_type = n_type n, nr_city = n_city n,
      nr_country = n_country n, nr_lat = n_lat n, nr_lon = None, nr_credential_id = None,
      nr_active = boolToInt (n_active n), nr_is_default = boolToInt (n_is_default n),
      nr_enabled_cmds = rp_marshal env (NormalizeEnabledCmds (n_enabled_cmds n)), nr_bgp_config = None,
      nr_agent_url = n_agent_url n,
      nr_agent_token = encryptToken (rp_gcm env) (rp_random env) (rp_key env) (n_agent_token n),
      nr_created_at = [], nr_updated_at = []\<rparr>"

text \<open>A failure of the second read leaves the row of the first one in use.\<close>

definition NodeRepo_Create :: "'e repo_env_scheme \<Rightarrow> node \<Rightarrow> node db_call" where
  "NodeRepo_Create env n =
     db_bind (CreateNodeQ env (created_row env n)) (\<lambda>p. deref p (\<lambda>created.
       db_bind (if n_is_default n then SetDefaultNodeQ env (nr_id created) else ensureDefault env) (\<lambda>_.
         db_try (GetNodeByID env (nr_id created)) (\<lambda>res.
           read_node env (case res of Some (Some refreshed) \<Rightarrow> refreshed | _ \<Rightarrow> created)))))"

definition updated_row :: "'e repo_env_scheme \<Rightarrow> node \<Rightarrow> node_row" where
  "updated_row env n =
     \<lparr>nr_id = n_id n, nr_name = n_name n, nr_description = n_description n, nr_type = n_type n,
      nr_city = n_city n, nr_country = n_country n, nr_lat = n_lat n, nr_lon = n_lon n, nr_credential_id = None,
      nr_active = boolToInt (n_active n), nr_is_default = boolToInt (n_is_default n),
      nr_enabled_cmds = rp_marshal env (NormalizeEnabledCmds (n_enabled_cmds n)), nr_bgp_config = None,
      nr_agent_url = n_agent_url n,
      nr_agent_token = encryptToken (rp_gcm env) (rp_random env) (rp_key env) (n_agent_token n),
      nr_created_at = [], nr_updated_at = []\<rparr>"

definition NodeRepo_Update :: "'e repo_env_scheme \<Rightarrow> node \<Rightarrow> node db_call" where
  "NodeRepo_Update env n =
     db_bind (UpdateNodeQ env (updated_row env n)) (\<lambda>p. deref p (\<lambda>r. db_return (read_node env r)))"

definition NodeRepo_SetDefault :: "'e repo_env_scheme \<Rightarrow> int \<Rightarrow> unit db_call" where
  "NodeRepo_SetDefault env i = SetDefaultNodeQ env i"

definition NodeRepo_Delete :: "'e repo_env_scheme \<Rightarrow> int \<Rightarrow> unit db_call" where
  "NodeRepo_Delete env i = db_bind (DeleteNodeQ env i) (\<lambda>_. ensureDefault env)"

text \<open>The token stays as it is stored.\<close>

definition NodeRepo_UpdateEnabledCmds :: "'e repo_env_scheme \<Rightarrow> int \<Rightarrow> command_type list \<Rightarrow> unit db_call" where
  "NodeRepo_UpdateEnabledCmds env i cmds =
     db_bind (GetNodeByID env i) (\<lambda>p. deref p (\<lambda>r.
       db_bind (UpdateNodeQ env (r\<lparr>nr_enabled_cmds := rp_marshal env (NormalizeEnabledCmds cmds)\<rparr>))
         (\<lambda>_. db_return ())))"

section \<open>BGP neighbours\<close>

definition mapBGPNeighbor :: "neighbor_row \<Rightarrow> bgp_neighbor" where
  "mapBGPNeighbor r =
     \<lparr>bn_id = br_id r, bn_node_id = br_node_id r, bn_local_as = br_local_as r, bn_remote_as = br_remote_as r,
      bn_peering_ip = br_peering_ip r, bn_neighbor_ip = br_neighbor_ip r,
      bn_ipv6_peering_ip = br_ipv6_peering_ip r, bn_ipv6_neighbor_ip = br_ipv6_neighbor_ip r,
      bn_multihop = (br_multihop r = 1), bn_passive_mode = (br_passive_mode r = 1),
      bn_peer_type = PeerTypeFor (br_local_as r) (br_remote_as r), bn_default_route_as = br_default_route_as r,
      bn_created_at = 0, bn_updated_at = 0\<rparr>"

text \<open>The row written for a neighbour; \<open>Create\<close> leaves out the id.\<close>

definition neighbor_row_of :: "bgp_neighbor \<Rightarrow> neighbor_row" where
  "neighbor_row_of n =
     \<lparr>br_id = bn_id n, br_node_id = bn_node_id n, br_local_as = bn_local_as n, br_remote_as = bn_remote_as n,
      br_peering_ip = bn_peering_ip n, br_neighbor_ip = bn_neighbor_ip n,
      br_ipv6_peering_ip = bn_ipv6_peering_ip n, br_ipv6_neighbor_ip = bn_ipv6_neighbor_ip n,
      br_multihop = boolToInt (bn_multihop n), br_passive_mode = boolToInt (bn_passive_mode n),
      br_peer_type = PeerTypeFor (bn_local_as n) (bn_remote_as n), br_default_route_as = bn_default_route_as n,
      br_created_at = [], br_updated_at = []\<rparr>"

definition NeighborRepo_GetAll :: "'e sql_env_scheme \<Rightarrow> bgp_neighbor list db_call" where
  "NeighborRepo_GetAll env = db_bind (GetAllBGPNeighbors env) (\<lambda>rs. db_return (map mapBGPNeighbor rs))"

definition NeighborRepo_GetByNodeID :: "'e sql_env_scheme \<Rightarrow> int \<Rightarrow> bgp_neighbor list db_call" where
  "NeighborRepo_GetByNodeID env nodeID =
     db_bind (GetBGPNeighborsByNodeID env nodeID) (\<lambda>rs. db_return (map mapBGPNeighbor rs))"

definition NeighborRepo_GetByID :: "'e sql_env_scheme \<Rightarrow> int \<Rightarrow> bgp_neighbor option db_call" where
  "NeighborRepo_GetByID env i =
     db_bind (GetBGPNeighborByID env i) (\<lambda>p. db_return (map_option mapBGPNeighbor p))"

definition NeighborRepo_Create :: "'e sql_env_scheme \<Rightarrow> bgp_neighbor \<Rightarrow> bgp_neighbor db_call" where
  "NeighborRepo_Create env n =
     db_bind (CreateBGPNeighborQ env ((neighbor_row_of n)\<lparr>br_id := 0\<rparr>))
       (\<lambda>p. deref p (\<lambda>r. db_return (mapBGPNeighbor r)))"

definition NeighborRepo_Update :: "'e sql_env_scheme \<Rightarrow> bgp_neighbor \<Rightarrow> bgp_neighbor db_call" where
  "NeighborRepo_Update env n =
     db_bind (UpdateBGPNeighborQ env (neighbor_row_of n)) (\<lambda>p. deref p (\<lambda>r. db_return (mapBGPNeighbor r)))"

definition NeighborRepo_Delete :: "'e sql_env_scheme \<Rightarrow> int \<Rightarrow> unit db_call" where
  "NeighborRepo_Delete env i = DeleteBGPNeighborQ env i"

section \<open>The snapshot of active nodes\<close>

text \<open>Nothing in the list \<open>GetActive\<close> returns is nil.\<close>

record node_cache =
  nc_nodes :: "node list"
  nc_by_id :: "int \<rightharpoonup> node"

definition empty_node_cache :: node_cache where
  "empty_node_cache = \<lparr>nc_nodes = [], nc_by_id = Map.empty\<rparr>"

definition cache_of :: "node list \<Rightarrow> node_cache" where
  "cache_of nodes =
     \<lparr>nc_nodes = map (\<lambda>n. n\<lparr>n_agent_token := []\<rparr>) nodes,
      nc_by_id = foldl (\<lambda>m n. m(n_id n \<mapsto> n)) Map.empty nodes\<rparr>"

text \<open>A failure leaves the snapshot as it was; every caller only logs it.\<close>

definition RefreshNodes :: "'e repo_env_scheme \<Rightarrow> node_cache \<Rightarrow> database \<Rightarrow> node_cache \<times> database" where
  "RefreshNodes env cache db =
     (case NodeRepo_GetActive env db of
        (Returned nodes, db1) \<Rightarrow> (cache_of nodes, db1)
      | (_, db1) \<Rightarrow> (cache, db1))"

definition NodeByID :: "int \<Rightarrow> node_cache \<Rightarrow> node option" where
  "NodeByID i cache = nc_by_id cache i"

definition ActiveNodes :: "node_cache \<Rightarrow> node list" where
  "ActiveNodes cache =
     (if length (nc_nodes cache) = 0 then [] else map (\<lambda>n. n\<lparr>n_agent_token := []\<rparr>) (nc_nodes cache))"

text \<open>The repository the engine uses.\<close>

definition CachedNodeRepo_GetByID :: "'e repo_env_scheme \<Rightarrow> node_cache \<Rightarrow> int \<Rightarrow> node db_call" where
  "CachedNodeRepo_GetByID env cache i =
     (case NodeByID i cache of Some n \<Rightarrow> db_return n | None \<Rightarrow> NodeRepo_GetByID env i)"

end
