(* ===== verification/Http_Reply.thy ===== *)
theory Http_Reply
  imports Go_Base
begin

text \<open>
  What a handler answers: a status with data, a status with an error text, or a panic, which the
  recovery middleware turns into a bare 500.
\<close>

datatype 'a reply = Reply nat 'a | Refused nat string | Crashed

definition sanitizeError :: "go_error \<Rightarrow> string" where "sanitizeError err = ''internal error''"

definition internal_error :: "go_error \<Rightarrow> 'b reply" where
  "internal_error err = Refused 500 (sanitizeError err)"

end
