(* ===== verification/NodeAPI.thy ===== *)
theory NodeAPI
  imports Repos SessionLookup Http_Reply
begin

text \<open>
  The administration of nodes (\<open>internal/server/handler/public.go\<close>): listing, reading, creating,
  updating, choosing the default, deleting and testing. A handler is a function of the decoded request
  and the panel, that is the database, the snapshot of active nodes and the session manager if BGP runs.
\<close>

section \<open>The panel\<close>

record panel =
  pn_db :: database
  pn_cache :: node_cache
  pn_mgr :: "SessionManager option"

text \<open>\<open>pe_driver\<close>: whether a driver can be made for a node and what its connection test answers.\<close>

record panel_env = repo_env +
  pe_now :: go_time
  pe_bgp :: gobgp
  pe_url_parse :: "string \<Rightarrow> url option"
  pe_lookup :: dns_lookup
  pe_ifaces :: iface_list
  pe_error_text :: "go_error \<Rightarrow> string"
  pe_required :: string
  pe_driver :: "node \<Rightarrow> go_error + go_error option"

text \<open>One call of a repository, what the handler does with its error and how it goes on.\<close>

definition handle ::
  "'a db_call \<Rightarrow> (go_error \<Rightarrow> 'b reply) \<Rightarrow> ('a \<Rightarrow> panel \<Rightarrow> 'b reply \<times> panel) \<Rightarrow> panel \<Rightarrow> 'b reply \<times> panel" where
  "handle m onerr f p =
     (case m (pn_db p) of
        (Returned a, db1) \<Rightarrow> f a (p\<lparr>pn_db := db1\<rparr>)
      | (Failed err, db1) \<Rightarrow> (onerr err, p\<lparr>pn_db := db1\<rparr>)
      | (Panicked, db1) \<Rightarrow> (Crashed, p\<lparr>pn_db := db1\<rparr>))"

text \<open>The id in the path of the request.\<close>

definition with_id :: "string \<Rightarrow> string \<Rightarrow> (int \<Rightarrow> panel \<Rightarrow> 'b reply \<times> panel) \<Rightarrow> panel \<Rightarrow> 'b reply \<times> panel" where
  "with_id msg idp f p = (case go_atoi idp of None \<Rightarrow> (Refused 400 msg, p) | Some i \<Rightarrow> f i p)"

definition refresh_nodes :: "'e repo_env_scheme \<Rightarrow> panel \<Rightarrow> panel" where
  "refresh_nodes env p =
     (case RefreshNodes env (pn_cache p) (pn_db p) of (cache, db1) \<Rightarrow> p\<lparr>pn_db := db1, pn_cache := cache\<rparr>)"

section \<open>Reading\<close>

text \<open>Each public node with whether a session of it is up.\<close>

definition ListNodes :: "panel \<Rightarrow> (node \<times> bool) list" where
  "ListNodes p =
     map (\<lambda>n. (n, case pn_mgr p of None \<Rightarrow> False | Some m \<Rightarrow> HasActiveSession (n_id n) m)) (ActiveNodes (pn_cache p))"

definition GetNode :: "'e repo_env_scheme \<Rightarrow> string \<Rightarrow> panel \<Rightarrow> node reply \<times> panel" where
  "GetNode env idp =
     with_id ''invalid node id'' idp (\<lambda>i.
       handle (NodeRepo_GetByID env i) (\<lambda>_. Refused 404 ''node not found'')
         (\<lambda>n p. (Reply 200 (n\<lparr>n_agent_token := []\<rparr>), p)))"

definition ListAllNodes :: "'e repo_env_scheme \<Rightarrow> panel \<Rightarrow> node list reply \<times> panel" where
  "ListAllNodes env = handle (NodeRepo_GetAll env) internal_error (\<lambda>ns p. (Reply 200 ns, p))"

section \<open>Writing\<close>

text \<open>The decoded body of both writes. \<open>CreateNode\<close> takes an absent \<open>active\<close> as false and requires name
  and type; \<open>UpdateNode\<close> takes an absent one as unchanged.\<close>

record node_request =
  nq_name :: string
  nq_description :: string
  nq_type :: string
  nq_city :: string
  nq_country :: string
  nq_lat :: "float64 option"
  nq_lon :: "float64 option"
  nq_active :: "bool option"
  nq_enabled_cmds :: "string list"
  nq_agent_url :: string
  nq_agent_token :: string

definition validAgentURL :: "'e panel_env_scheme \<Rightarrow> string \<Rightarrow> bool" where
  "validAgentURL env raw = ValidAgentURL (pe_url_parse env) (pe_lookup env) (pe_ifaces env) raw"

definition quoted :: "string \<Rightarrow> string" where "quoted s = [CHR 0x27] @ s @ [CHR 0x27]"

definition invalid_type :: string where
  "invalid_type =
     ''invalid node type. Must be '' @ quoted ''standalone'' @ '' or '' @ quoted ''lg_node''"

definition invalid_agent_url :: string where
  "invalid_agent_url = ''agent_url must be a valid HTTP or HTTPS URL''"

definition new_node :: "node_request \<Rightarrow> node" where
  "new_node req =
     (let cmds = NormalizeEnabledCmdStrings (nq_enabled_cmds req);
          enabledCmds = (if length cmds = 0 then DefaultEnabledCmds else cmds)
      in \<lparr>n_id = 0, n_name = nq_name req, n_description = nq_description req, n_type = nq_type req,
          n_city = nq_city req, n_country = nq_country req, n_lat = nq_lat req, n_lon = nq_lon req,
          n_credential_id = None, n_active = (nq_active req = Some True), n_is_default = False,
          n_enabled_cmds = enabledCmds, n_bgp_config = None, n_agent_url = nq_agent_url req,
          n_agent_token = nq_agent_token req, n_created_at = 0, n_updated_at = 0\<rparr>)"

definition CreateNode :: "'e panel_env_scheme \<Rightarrow> string + node_request \<Rightarrow> panel \<Rightarrow> node reply \<times> panel" where
  "CreateNode env body p =
     (case body of
        Inl msg \<Rightarrow> (Refused 400 msg, p)
      | Inr req \<Rightarrow>
          if nq_name req = [] \<or> nq_type req = [] then (Refused 400 (pe_required env), p)
          else if nq_type req \<noteq> ''standalone'' \<and> nq_type req \<noteq> ''lg_node'' then (Refused 400 invalid_type, p)
          else if nq_type req = ''lg_node'' \<and> nq_agent_url req \<noteq> [] \<and> \<not> validAgentURL env (nq_agent_url req)
          then (Refused 400 invalid_agent_url, p)
          else handle (NodeRepo_Create env (new_node req)) internal_error
                 (\<lambda>created p1. (Reply 201 (created\<lparr>n_agent_token := []\<rparr>), refresh_nodes env p1)) p)"

text \<open>The fields a request leaves out stay, the agent URL apart.\<close>

definition apply_place :: "node_request \<Rightarrow> node \<Rightarrow> node" where
  "apply_place req n =
     n\<lparr>n_city := (if nq_city req \<noteq> [] then nq_city req else n_city n),
       n_country := (if nq_country req \<noteq> [] then nq_country req else n_country n),
       n_lat := (case nq_lat req of None \<Rightarrow> n_lat n | Some x \<Rightarrow> Some x),
       n_lon := (case nq_lon req of None \<Rightarrow> n_lon n | Some x \<Rightarrow> Some x),
       n_active := (case nq_active req of None \<Rightarrow> n_active n | Some b \<Rightarrow> b)\<rparr>"

definition apply_agent :: "node_request \<Rightarrow> node \<Rightarrow> node" where
  "apply_agent req n =
     n\<lparr>n_agent_url := nq_agent_url req,
       n_agent_token := (if nq_agent_token req \<noteq> [] then nq_agent_token req else n_agent_token n)\<rparr>"

definition apply_request :: "'e panel_env_scheme \<Rightarrow> node_request \<Rightarrow> node \<Rightarrow> string + node" where
  "apply_request env req n0 =
     (let n1 = n0\<lparr>n_name := (if nq_name req \<noteq> [] then nq_name req else n_name n0),
                  n_description := (if nq_description req \<noteq> [] then nq_description req else n_description n0)\<rparr> in
      if nq_type req \<noteq> [] \<and> nq_type req \<noteq> ''standalone'' \<and> nq_type req \<noteq> ''lg_node'' then Inl invalid_type
      else (let n2 = apply_place req (if nq_type req \<noteq> [] then n1\<lparr>n_type := nq_type req\<rparr> else n1);
                cmds = NormalizeEnabledCmdStrings (nq_enabled_cmds req) in
        if length (nq_enabled_cmds req) > 0 \<and> length cmds = 0
        then Inl ''enabled_cmds must include at least one supported command''
        else (let n3 = (if length (nq_enabled_cmds req) > 0 then n2\<lparr>n_enabled_cmds := cmds\<rparr> else n2);
                  n4 = apply_agent req n3 in
          if n_type n4 = ''lg_node'' \<and> n_agent_url n4 \<noteq> [] \<and> \<not> validAgentURL env (n_agent_url n4)
          then Inl invalid_agent_url
          else Inr n4)))"

text \<open>The updated node goes back with its token, which the other writes blank.\<close>

definition UpdateNode ::
  "'e panel_env_scheme \<Rightarrow> string \<Rightarrow> string + node_request \<Rightarrow> panel \<Rightarrow> node reply \<times> panel" where
  "UpdateNode env idp body =
     with_id ''invalid id'' idp (\<lambda>i p.
       case body of
         Inl msg \<Rightarrow> (Refused 400 msg, p)
       | Inr req \<Rightarrow>
           handle (NodeRepo_GetByID env i) (\<lambda>_. Refused 404 ''node not found'') (\<lambda>n p1.
             case apply_request env req n of
               Inl msg \<Rightarrow> (Refused 400 msg, p1)
             | Inr n' \<Rightarrow>
                 handle (NodeRepo_Update env n') internal_error
                   (\<lambda>updated p2. (Reply 200 updated, refresh_nodes env p2)) p1) p)"

definition SetDefaultNode :: "'e panel_env_scheme \<Rightarrow> string \<Rightarrow> panel \<Rightarrow> node reply \<times> panel" where
  "SetDefaultNode env idp =
     with_id ''invalid id'' idp (\<lambda>i.
       handle (NodeRepo_GetByID env i) (\<lambda>_. Refused 404 ''node not found'') (\<lambda>_.
         handle (NodeRepo_SetDefault env i) internal_error (\<lambda>_.
           handle (NodeRepo_GetByID env i) internal_error
             (\<lambda>n p. (Reply 200 (n\<lparr>n_agent_token := []\<rparr>), refresh_nodes env p)))))"

section \<open>Testing a node\<close>

definition dash_text :: "string \<Rightarrow> string \<Rightarrow> string" where "dash_text a b = a @ '' '' @ em_dash @ '' '' @ b"

definition friendlyConnError :: "(go_error \<Rightarrow> string) \<Rightarrow> go_error option \<Rightarrow> string" where
  "friendlyConnError text e =
     (case e of
        None \<Rightarrow> []
      | Some err \<Rightarrow>
          if errors_is err CtxDeadlineExceeded \<or> contains_str (text err) ''context deadline exceeded''
          then dash_text ''connection timed out'' ''check agent URL, firewall, and that the agent is running''
          else if contains_str (text err) ''connection refused''
          then dash_text ''connection refused'' ''agent is not listening on that address''
          else if contains_str (text err) ''no route to host''
          then dash_text ''no route to host'' ''check network connectivity''
          else if contains_str (text err) ''health check failed: 401'' then ''invalid agent token''
          else text err)"

text \<open>Status, message and node id.\<close>

type_synonym test_result = "string \<times> string \<times> int"

definition test_problem :: "node \<Rightarrow> string option" where
  "test_problem n =
     (if n_type n = NodeTypeLGNode \<and> trim_space (n_agent_url n) = [] then Some ''agent URL is not configured''
      else if n_type n = NodeTypeLGNode \<and> trim_space (n_agent_token n) = [] then Some ''agent token is not configured''
      else if n_type n = NodeTypeStandalone \<and> trim_space (n_agent_token n) = []
      then Some ''agent token is not configured''
      else None)"

definition TestNode :: "'e panel_env_scheme \<Rightarrow> string \<Rightarrow> panel \<Rightarrow> test_result reply \<times> panel" where
  "TestNode env idp =
     with_id ''invalid id'' idp (\<lambda>i.
       handle (NodeRepo_GetByID env i) (\<lambda>_. Refused 404 ''node not found'') (\<lambda>n p.
         (case test_problem n of
            Some msg \<Rightarrow> Reply 200 (''error'', msg, n_id n)
          | None \<Rightarrow>
             (case pe_driver env n of
                Inl _ \<Rightarrow> Refused 500 ''failed to create driver''
              | Inr (Some err) \<Rightarrow> Reply 200 (''error'', friendlyConnError (pe_error_text env) (Some err), n_id n)
              | Inr None \<Rightarrow> Reply 200 (''ok'', ''connection successful'', n_id n)), p)))"

end
