(* ===== verification/NeighborAPI.thy ===== *)
theory NeighborAPI
  imports NodeAPI
begin

text \<open>
  The administration of BGP neighbours (\<open>internal/server/handler/bgp_neighbor.go\<close>) and the deletion of a
  node, which takes its neighbours down first (\<open>DeleteNode\<close> in \<open>public.go\<close>).
\<close>

section \<open>Requests\<close>

record bgpNeighborRequest =
  rq_node_id :: int
  rq_remote_as :: u32
  rq_peering_ip :: string
  rq_neighbor_ip :: string
  rq_ipv6_peering_ip :: string
  rq_ipv6_neighbor_ip :: string
  rq_multihop :: bool
  rq_passive_mode :: "bool option"
  rq_default_route_as :: u32

definition validateBGPConfigured :: "BGPConfig \<Rightarrow> string" where
  "validateBGPConfigured cfg =
     (if cf_local_as cfg = 0
      then ''bgp.local_as is not configured in config.yaml '' @ em_dash @ '' set your ASN and restart HopStat''
      else [])"

definition trim_addresses :: "bgpNeighborRequest \<Rightarrow> bgpNeighborRequest" where
  "trim_addresses r =
     r\<lparr>rq_peering_ip := trim_space (rq_peering_ip r), rq_neighbor_ip := trim_space (rq_neighbor_ip r),
       rq_ipv6_peering_ip := trim_space (rq_ipv6_peering_ip r),
       rq_ipv6_neighbor_ip := trim_space (rq_ipv6_neighbor_ip r)\<rparr>"

text \<open>The message, empty when the request is fine, and the request with its addresses trimmed.\<close>

definition Validate :: "bgpNeighborRequest \<Rightarrow> string \<times> bgpNeighborRequest" where
  "Validate r0 =
     (if rq_node_id r0 \<le> 0 then (''node is required'', r0)
      else if rq_remote_as r0 = 0 then (''remote_as must be > 0'', r0)
      else
        let r = trim_addresses r0;
            hasV4 = (rq_peering_ip r \<noteq> [] \<or> rq_neighbor_ip r \<noteq> []);
            hasV6 = (rq_ipv6_peering_ip r \<noteq> [] \<or> rq_ipv6_neighbor_ip r \<noteq> [])
        in (if \<not> hasV4 \<and> \<not> hasV6 then ''IPv4 or IPv6 peering addresses are required''
            else if rq_peering_ip r \<noteq> [] \<and> rq_neighbor_ip r = []
            then ''neighbor_ip is required when peering_ip is set''
            else if rq_neighbor_ip r \<noteq> [] \<and> rq_peering_ip r = []
            then ''peering_ip is required when neighbor_ip is set''
            else if rq_ipv6_peering_ip r \<noteq> [] \<and> rq_ipv6_neighbor_ip r = []
            then ''ipv6_neighbor_ip is required when ipv6_peering_ip is set''
            else if rq_ipv6_neighbor_ip r \<noteq> [] \<and> rq_ipv6_peering_ip r = []
            then ''ipv6_peering_ip is required when ipv6_neighbor_ip is set''
            else if rq_peering_ip r \<noteq> [] \<and> parse_ip (rq_peering_ip r) = None then ''invalid peering_ip''
            else if rq_peering_ip r \<noteq> [] \<and> parse_ip (rq_neighbor_ip r) = None then ''invalid neighbor_ip''
            else if rq_ipv6_peering_ip r \<noteq> [] \<and> parse_ip (rq_ipv6_peering_ip r) = None
            then ''invalid ipv6_peering_ip''
            else if rq_ipv6_peering_ip r \<noteq> [] \<and> parse_ip (rq_ipv6_neighbor_ip r) = None
            then ''invalid ipv6_neighbor_ip''
            else [], r))"

definition resolveBGPNeighborPassiveMode :: "BGPConfig \<Rightarrow> bgpNeighborRequest \<Rightarrow> bool" where
  "resolveBGPNeighborPassiveMode cfg req =
     (case rq_passive_mode req of Some b \<Rightarrow> b | None \<Rightarrow> DefaultPassiveMode (cf_local_as cfg) (rq_remote_as req))"

definition bgpNeighborFromRequest :: "int \<Rightarrow> BGPConfig \<Rightarrow> bgpNeighborRequest \<Rightarrow> bgp_neighbor" where
  "bgpNeighborFromRequest i cfg req =
     \<lparr>bn_id = i, bn_node_id = rq_node_id req, bn_local_as = cf_local_as cfg, bn_remote_as = rq_remote_as req,
      bn_peering_ip = rq_peering_ip req, bn_neighbor_ip = rq_neighbor_ip req,
      bn_ipv6_peering_ip = rq_ipv6_peering_ip req, bn_ipv6_neighbor_ip = rq_ipv6_neighbor_ip req,
      bn_multihop = rq_multihop req, bn_passive_mode = resolveBGPNeighborPassiveMode cfg req,
      bn_peer_type = PeerTypeFor (cf_local_as cfg) (rq_remote_as req),
      bn_default_route_as = rq_default_route_as req, bn_created_at = 0, bn_updated_at = 0\<rparr>"

text \<open>The checks every write starts with. The binding refuses a missing node or AS.\<close>

definition checked_request ::
  "'e panel_env_scheme \<Rightarrow> BGPConfig \<Rightarrow> string + bgpNeighborRequest \<Rightarrow> string + bgpNeighborRequest" where
  "checked_request env cfg body =
     (case body of
        Inl msg \<Rightarrow> Inl msg
      | Inr r0 \<Rightarrow>
          if rq_node_id r0 = 0 \<or> rq_remote_as r0 = 0 then Inl (pe_required env)
          else (case Validate r0 of
                  (msg, r) \<Rightarrow>
                    if msg \<noteq> [] then Inl msg
                    else if validateBGPConfigured cfg \<noteq> [] then Inl (validateBGPConfigured cfg)
                    else Inr r))"

section \<open>Calls of the session manager\<close>

text \<open>Without a manager there is nothing to keep in step.\<close>

definition syncBGPNeighbor ::
  "(SessionManager \<Rightarrow> go_error option \<times> SessionManager) \<Rightarrow> panel \<Rightarrow> go_error option \<times> panel" where
  "syncBGPNeighbor fn p =
     (case pn_mgr p of
        None \<Rightarrow> (None, p)
      | Some m \<Rightarrow> (case fn m of (err, m1) \<Rightarrow> (err, p\<lparr>pn_mgr := Some m1\<rparr>)))"

fun remove_loop ::
  "'e panel_env_scheme \<Rightarrow> bgp_neighbor list \<Rightarrow> panel \<Rightarrow> go_error option \<times> panel" where
  "remove_loop env [] p = (None, p)"
| "remove_loop env (n # ns) p =
     (case syncBGPNeighbor (RemoveNeighbor (pe_bgp env) (pe_now env) (bn_id n)) p of
        (Some err, p1) \<Rightarrow> (Some err, p1)
      | (None, p1) \<Rightarrow> remove_loop env ns p1)"

definition removeBGPNeighborsForNode ::
  "'e panel_env_scheme \<Rightarrow> int \<Rightarrow> (panel \<Rightarrow> 'b reply \<times> panel) \<Rightarrow> panel \<Rightarrow> 'b reply \<times> panel" where
  "removeBGPNeighborsForNode env nodeID k p =
     (if pn_mgr p = None then k p
      else handle (NeighborRepo_GetByNodeID env nodeID) internal_error (\<lambda>ns p1.
             case remove_loop env ns p1 of
               (Some err, p2) \<Rightarrow> (internal_error err, p2)
             | (None, p2) \<Rightarrow> k p2) p)"

definition DeleteNode :: "'e panel_env_scheme \<Rightarrow> string \<Rightarrow> panel \<Rightarrow> string reply \<times> panel" where
  "DeleteNode env idp =
     with_id ''invalid id'' idp (\<lambda>i.
       removeBGPNeighborsForNode env i
         (handle (NodeRepo_Delete env i) internal_error (\<lambda>_ p. (Reply 200 ''deleted'', refresh_nodes env p))))"

section \<open>Reading\<close>

text \<open>Status, then the settings shown with it.\<close>

definition GetBGPConfig :: "BGPConfig \<Rightarrow> panel \<Rightarrow> string" where
  "GetBGPConfig cfg p =
     (if cf_local_as cfg > 0
      then (case pn_mgr p of
              None \<Rightarrow> ''restart_required''
            | Some m \<Rightarrow> if IsReady m then ''ready'' else ''restart_required'')
      else ''not_configured'')"

definition bgpStatuses :: "panel \<Rightarrow> int \<rightharpoonup> session_state" where
  "bgpStatuses p = (case pn_mgr p of None \<Rightarrow> Map.empty | Some m \<Rightarrow> GetAllStatuses m)"

definition state_or_none :: "(int \<rightharpoonup> session_state) \<Rightarrow> int \<Rightarrow> session_state" where
  "state_or_none st i = (case st i of None \<Rightarrow> SessNone | Some s \<Rightarrow> s)"

text \<open>The rows one after the other: counting prefixes may fill the manager's cache.\<close>

fun neighbor_list_loop ::
  "'e panel_env_scheme \<Rightarrow> BGPConfig \<Rightarrow> (int \<rightharpoonup> session_state) \<Rightarrow> bgp_neighbor list \<Rightarrow> panel \<Rightarrow>
   (bgp_neighbor \<times> session_state \<times> int) list \<times> panel" where
  "neighbor_list_loop env cfg st [] p = ([], p)"
| "neighbor_list_loop env cfg st (n # ns) p =
     (let n1 = (if cf_local_as cfg > 0 then n\<lparr>bn_local_as := cf_local_as cfg\<rparr> else n);
          s = state_or_none st (bn_id n);
          (prefixes, p1) =
            (case pn_mgr p of
               None \<Rightarrow> (0, p)
             | Some m \<Rightarrow>
                 if s = SessEstablished
                 then (case GetPrefixesReceived (pe_bgp env) (pe_now env) (bn_id n) m of
                         (k, m1) \<Rightarrow> (k, p\<lparr>pn_mgr := Some m1\<rparr>))
                 else (0, p));
          (rest, p2) = neighbor_list_loop env cfg st ns p1
      in ((n1, s, prefixes) # rest, p2))"

definition ListBGPNeighbors ::
  "'e panel_env_scheme \<Rightarrow> BGPConfig \<Rightarrow> panel \<Rightarrow> (bgp_neighbor \<times> session_state \<times> int) list reply \<times> panel" where
  "ListBGPNeighbors env cfg =
     handle (NeighborRepo_GetAll env) internal_error (\<lambda>ns p.
       case neighbor_list_loop env cfg (bgpStatuses p) ns p of (rows, p1) \<Rightarrow> (Reply 200 rows, p1))"

section \<open>Writing\<close>

definition CreateBGPNeighbor ::
  "'e panel_env_scheme \<Rightarrow> BGPConfig \<Rightarrow> string + bgpNeighborRequest \<Rightarrow> panel \<Rightarrow> bgp_neighbor reply \<times> panel" where
  "CreateBGPNeighbor env cfg body p =
     (case checked_request env cfg body of
        Inl msg \<Rightarrow> (Refused 400 msg, p)
      | Inr req \<Rightarrow>
          handle (NeighborRepo_Create env (bgpNeighborFromRequest 0 cfg req)) internal_error (\<lambda>created p1.
            case syncBGPNeighbor (AddNeighbor (pe_bgp env) (pe_now env) created) p1 of
              (Some err, p2) \<Rightarrow>
                (Refused 400 (sanitizeError err),
                 p2\<lparr>pn_db := snd (NeighborRepo_Delete env (bn_id created) (pn_db p2))\<rparr>)
            | (None, p2) \<Rightarrow> (Reply 201 created, p2)) p)"

definition UpdateBGPNeighbor ::
  "'e panel_env_scheme \<Rightarrow> BGPConfig \<Rightarrow> string \<Rightarrow> string + bgpNeighborRequest \<Rightarrow> panel \<Rightarrow>
   bgp_neighbor reply \<times> panel" where
  "UpdateBGPNeighbor env cfg idp body =
     with_id ''invalid id'' idp (\<lambda>i p.
       case checked_request env cfg body of
         Inl msg \<Rightarrow> (Refused 400 msg, p)
       | Inr req \<Rightarrow>
           handle (NeighborRepo_Update env (bgpNeighborFromRequest i cfg req)) internal_error (\<lambda>updated p1.
             case syncBGPNeighbor (UpdateNeighbor (pe_bgp env) (pe_now env) updated) p1 of
               (Some err, p2) \<Rightarrow> (Refused 400 (sanitizeError err), p2)
             | (None, p2) \<Rightarrow> (Reply 200 updated, p2)) p)"

definition DeleteBGPNeighbor :: "'e panel_env_scheme \<Rightarrow> string \<Rightarrow> panel \<Rightarrow> string reply \<times> panel" where
  "DeleteBGPNeighbor env idp =
     with_id ''invalid id'' idp (\<lambda>i p.
       case syncBGPNeighbor (RemoveNeighbor (pe_bgp env) (pe_now env) i) p of
         (Some err, p1) \<Rightarrow> (Refused 400 (sanitizeError err), p1)
       | (None, p1) \<Rightarrow>
           handle (NeighborRepo_Delete env i) internal_error (\<lambda>_ p2. (Reply 200 ''deleted'', p2)) p1)"

section \<open>Sessions\<close>

definition GetBGPNeighborStatuses :: "'e panel_env_scheme \<Rightarrow> int list \<Rightarrow> panel \<Rightarrow> bgp_session_status list" where
  "GetBGPNeighborStatuses env ks p =
     (case pn_mgr p of None \<Rightarrow> [] | Some m \<Rightarrow> GetSessionStatuses (pe_bgp env) (pe_now env) ks m)"

definition no_manager :: "'b reply" where
  "no_manager = Refused 503 ''bgp session manager is not available''"

text \<open>Id, action and the status afterwards.\<close>

definition bgpNeighborAction ::
  "(int \<Rightarrow> SessionManager \<Rightarrow> go_error option \<times> SessionManager) \<Rightarrow> string \<Rightarrow> string \<Rightarrow> panel \<Rightarrow>
   (int \<times> string \<times> session_state) reply \<times> panel" where
  "bgpNeighborAction fn action idp =
     with_id ''invalid id'' idp (\<lambda>i p.
       case pn_mgr p of
         None \<Rightarrow> (no_manager, p)
       | Some m \<Rightarrow>
          (case fn i m of
             (Some err, m1) \<Rightarrow> (Refused 400 (sanitizeError err), p\<lparr>pn_mgr := Some m1\<rparr>)
           | (None, m1) \<Rightarrow> (Reply 200 (i, action, GetStatus i m1), p\<lparr>pn_mgr := Some m1\<rparr>)))"

definition StopBGPNeighbor ::
  "'e panel_env_scheme \<Rightarrow> string \<Rightarrow> panel \<Rightarrow> (int \<times> string \<times> session_state) reply \<times> panel" where
  "StopBGPNeighbor env = bgpNeighborAction (StopNeighbor (pe_bgp env) (pe_now env)) ''stop''"

definition RestartBGPNeighbor ::
  "'e panel_env_scheme \<Rightarrow> string \<Rightarrow> panel \<Rightarrow> (int \<times> string \<times> session_state) reply \<times> panel" where
  "RestartBGPNeighbor env = bgpNeighborAction (RestartNeighbor (pe_bgp env) (pe_now env)) ''restart''"

definition logs_limit :: "string \<Rightarrow> int" where
  "logs_limit raw =
     (if raw = [] then 100 else case go_atoi raw of Some n \<Rightarrow> if n > 0 then n else 100 | None \<Rightarrow> 100)"

definition GetBGPNeighborLogs :: "string \<Rightarrow> string \<Rightarrow> panel \<Rightarrow> LogEntry list reply \<times> panel" where
  "GetBGPNeighborLogs idp limit =
     with_id ''invalid id'' idp (\<lambda>i p.
       (case pn_mgr p of None \<Rightarrow> no_manager | Some m \<Rightarrow> Reply 200 (GetNeighborLogs i (logs_limit limit) m), p))"

section \<open>Raw paths\<close>

text \<open>The node whose session carried a path, by name. The names are looked up once per node.\<close>

definition bgpPathNodeNamer :: "int list \<Rightarrow> SessionManager \<Rightarrow> node_cache \<Rightarrow> string \<Rightarrow> string" where
  "bgpPathNodeNamer ks m cache neighborIP =
     (case NodeIDForNeighborIP ks neighborIP m of
        None \<Rightarrow> []
      | Some nodeID \<Rightarrow> (case NodeByID nodeID cache of None \<Rightarrow> [] | Some n \<Rightarrow> n_name n))"

definition query_node_id :: "string \<Rightarrow> int option" where
  "query_node_id q =
     (let raw = trim_space q in
      if raw = [] then Some 0
      else case go_atoi raw of None \<Rightarrow> None | Some n \<Rightarrow> if n < 0 then None else Some n)"

definition LookupBGPPaths ::
  "'e panel_env_scheme \<Rightarrow> rib \<Rightarrow> int list \<Rightarrow> string \<Rightarrow> string \<Rightarrow> panel \<Rightarrow> bgp_path_detail list reply" where
  "LookupBGPPaths env r ks prefixQ nodeQ p =
     (case pn_mgr p of
        None \<Rightarrow> Refused 503 ''bgp is not configured''
      | Some m \<Rightarrow>
          if \<not> IsReady m then Refused 503 ''bgp is not configured''
          else if trim_space prefixQ = [] then Refused 400 ''prefix is required''
          else (case query_node_id nodeQ of
                  None \<Rightarrow> Refused 400 ''invalid node_id''
                | Some nodeID \<Rightarrow>
                   (case LookupPathDetails r (pe_now env) (pe_lookup env) m nodeID (trim_space prefixQ)
                           (Some (bgpPathNodeNamer ks m (pn_cache p))) of
                      Inl err \<Rightarrow> Refused 400 (pe_error_text env err)
                    | Inr details \<Rightarrow> Reply 200 details)))"

end
