(* ===== verification/SessionPeers.thy ===== *)
theory SessionPeers
  imports SessionRegistry
begin

text \<open>
  Which peers the session manager asks GoBGP to add, and which neighbours an operation can bring into
  the manager: the lemmas the administration interface needs about \<open>internal/bgp/manager.go\<close>.
\<close>

section \<open>Neighbours that are not there\<close>

definition readmits_none :: "int \<Rightarrow> session_op \<Rightarrow> bool" where
  "readmits_none i ev \<longleftrightarrow> (\<forall>n. (ev = OpAdd n \<or> ev = OpUpdate n) \<longrightarrow> bn_id n \<noteq> i)"

lemma same_neighbors: "same_registry m' m \<Longrightarrow> sm_neighbors m' = sm_neighbors m"
  by (simp add: registry_congs)

lemma unknown_Add:
  assumes "sm_neighbors m i = None" "bn_id n \<noteq> i"
  shows "sm_neighbors (snd (AddNeighbor srv now n m)) i = None"
proof -
  obtain r m' where A: "AddNeighbor srv now n m = (r, m')" by fastforce
  then show ?thesis
    using AddNeighbor_effect[OF A] assms by (auto simp: same_neighbors register_def)
qed

lemma unknown_Remove:
  assumes "RemoveNeighbor srv now j m = (r, m')"
  shows "sm_neighbors m i = None \<Longrightarrow> sm_neighbors m' i = None" and "r = None \<Longrightarrow> sm_neighbors m' j = None"
  using RemoveNeighbor_effect[OF assms]
  by (auto simp: same_neighbors invalidatePrefixCount_def unregister_def)

lemma unknown_Update:
  assumes "sm_neighbors m i = None" "bn_id n \<noteq> i"
  shows "sm_neighbors (snd (UpdateNeighbor srv now n m)) i = None"
proof -
  obtain r m' where U: "UpdateNeighbor srv now n m = (r, m')" by fastforce
  then show ?thesis
  proof (cases rule: UpdateNeighbor_cases)
    case (adopt e)
    then show ?thesis using U assms by (simp add: same_neighbors adoptNeighborRecord_def)
  next
    case (replace m1)
    have "sm_neighbors m1 i = None" using replace(1) unknown_Remove(1)[OF surjective_pairing] assms(1) by metis
    then show ?thesis using unknown_Add[OF _ assms(2)] U replace(2) by (metis snd_conv)
  qed
qed

lemma unknown_state_change:
  assumes "sm_neighbors m i = None"
  shows "sm_neighbors (handlePeerStateChange srv now j addr prev nxt ev m) i = None"
  using same_neighbors[OF handlePeerStateChange_effect[of srv now j addr prev nxt ev m]] assms
  by (auto simp: set_state_def invalidatePrefixCount_def)

lemma unknown_prefixes: "sm_neighbors (snd (GetPrefixesReceived srv now j m)) = sm_neighbors m"
  by (auto simp: GetPrefixesReceived_def Let_def invalidatePrefixCount_def storePrefixCount_def
      split: option.split)

lemma unknown_apply:
  assumes "sm_neighbors m i = None" "readmits_none i ev"
  shows "sm_neighbors (session_apply srv now ev m) i = None"
  using assms Start_effect(1)[of srv m]
  by (cases ev)
     (auto simp: readmits_none_def unknown_Add unknown_Remove(1)[OF surjective_pairing] unknown_Update
        unknown_state_change unknown_prefixes reg_def quiet_effects[THEN same_neighbors])

section \<open>The peers asked for\<close>

fun added_peer :: "bgp_call \<Rightarrow> peer_config option" where
  "added_peer (AddPeer pc) = Some pc"
| "added_peer _ = None"

definition peers_added :: "SessionManager \<Rightarrow> peer_config set" where
  "peers_added m = {pc. AddPeer pc \<in> set (sm_calls m)}"

text \<open>What the operations other than adding leave alone.\<close>

definition peer_frame :: "SessionManager \<Rightarrow> BGPConfig \<times> u32 \<times> peer_config set" where
  "peer_frame m = (sm_cfg m, sm_global_as m, peers_added m)"

lemma peer_frame_record [simp]: "peer_frame (recordEvent now i l msg a m) = peer_frame m"
  by (simp add: peer_frame_def peers_added_def recordEvent_def)

lemma peer_frame_request:
  "bgp_request srv c m = (r, m') \<Longrightarrow> added_peer c = None \<Longrightarrow> peer_frame m' = peer_frame m"
  by (cases c) (auto simp: peer_frame_def peers_added_def bgp_request_def)

lemma peer_frame_stop: "peer_frame (snd (stop_loop srv now i fe addrs m)) = peer_frame m"
proof (induction srv now i fe addrs m rule: stop_loop.induct)
  case (2 srv now i fe addr addrs m)
  obtain r m1 where "bgp_request srv (DisablePeer addr) m = (r, m1)" by fastforce
  then show ?case using 2 by (cases r) (simp_all add: peer_frame_request)
qed simp

lemma peer_frame_enable [simp]: "peer_frame (enable_peer srv now i addr m) = peer_frame m"
  by (auto simp: enable_peer_def peer_frame_request split: prod.splits option.splits)

lemma peer_frame_restart: "peer_frame (snd (restart_loop srv now i fe addrs m)) = peer_frame m"
proof (induction srv now i fe addrs m rule: restart_loop.induct)
  case (2 srv now i fe addr addrs m)
  obtain r m1 where R: "bgp_request srv (ResetPeer addr False) (enable_peer srv now i addr m) = (r, m1)" by fastforce
  then have "peer_frame m1 = peer_frame m" by (simp add: peer_frame_request)
  then show ?case using 2 R by (cases r) simp_all
qed simp

lemma peer_frame_delete4: "delete_peer4 srv now i e m = (r, m') \<Longrightarrow> peer_frame m' = peer_frame m"
  by (auto simp: delete_peer4_def peer_frame_request split: if_splits prod.splits option.splits)

lemma peer_frame_delete6 [simp]: "peer_frame (delete_peer6 srv now i e m) = peer_frame m"
  by (auto simp: delete_peer6_def peer_frame_request split: prod.splits option.splits)

lemma peer_frame_fields [simp]:
  "peer_frame (invalidatePrefixCount i m) = peer_frame m"
  "peer_frame (unregister i m) = peer_frame m"
  "peer_frame (register now n ip ip6 m) = peer_frame m"
  "peer_frame (adoptNeighborRecord n e m) = peer_frame m"
  "peer_frame (set_state now i s m) = peer_frame m"
  "peer_frame (storePrefixCount now i k m) = peer_frame m"
  "peer_frame (m\<lparr>sm_events := l\<rparr>) = peer_frame m"
  by (simp_all add: peer_frame_def peers_added_def invalidatePrefixCount_def unregister_def register_def
      adoptNeighborRecord_def set_state_def storePrefixCount_def)

lemma peer_frame_Remove: "peer_frame (snd (RemoveNeighbor srv now i m)) = peer_frame m"
  by (auto simp: RemoveNeighbor_def Let_def peer_frame_delete4 split: prod.splits option.splits)

lemma peer_frame_stuck_address [simp]: "peer_frame (log_stuck_address srv now i e s d a m) = peer_frame m"
  by (simp add: log_stuck_address_def Let_def split: sum.split)

lemma peer_frame_stuck_addresses: "peer_frame (fold (log_stuck_address srv now i e s d) as m) = peer_frame m"
  by (induction as arbitrary: m) simp_all

lemma peer_frame_stuck: "peer_frame (snd (stuck_loop srv now ps ll m)) = peer_frame m"
  by (induction ps arbitrary: ll m) (auto simp: peer_frame_stuck_addresses)

text \<open>Everything a manager meets but adding, updating and starting.\<close>

lemma peer_frame_apply:
  assumes "\<And>n. ev \<noteq> OpAdd n" "\<And>n. ev \<noteq> OpUpdate n" "ev \<noteq> OpStart"
  shows "peer_frame (session_apply srv now ev m) = peer_frame m"
  using assms
  by (cases ev)
     (auto simp: peer_frame_Remove peer_frame_stop peer_frame_restart peer_frame_stuck StopNeighbor_def
        RestartNeighbor_def handlePeerStateChange_def recordPeerDown_def logStuckSessions_def
        GetPrefixesReceived_def Let_def split: sum.splits option.splits)

section \<open>Valid peers\<close>

lemma trim_space_Nil [simp]: "trim_space [] = []"
  by code_simp

text \<open>An address pair is empty or two addresses without blanks around them.\<close>

definition valid_pair :: "string \<Rightarrow> string \<Rightarrow> bool" where
  "valid_pair a b \<longleftrightarrow> (a = [] \<and> b = []) \<or>
     (parse_ip a \<noteq> None \<and> parse_ip b \<noteq> None \<and> trim_space a = a \<and> trim_space b = b)"

definition valid_neighbor :: "bgp_neighbor \<Rightarrow> bool" where
  "valid_neighbor n \<longleftrightarrow> bn_remote_as n \<noteq> 0 \<and> valid_pair (bn_peering_ip n) (bn_neighbor_ip n) \<and>
     valid_pair (bn_ipv6_peering_ip n) (bn_ipv6_neighbor_ip n)"

definition peer_ok :: "BGPConfig \<Rightarrow> peer_config \<Rightarrow> bool" where
  "peer_ok cfg pc \<longleftrightarrow> pc_local_asn pc = cf_local_as cfg \<and> pc_local_asn pc \<noteq> 0 \<and> pc_peer_asn pc \<noteq> 0 \<and>
     parse_ip (pc_neighbor_address pc) \<noteq> None \<and> parse_ip (pc_local_address pc) \<noteq> None"

definition peers_ok :: "BGPConfig \<Rightarrow> SessionManager \<Rightarrow> bool" where
  "peers_ok cfg m \<longleftrightarrow> sm_cfg m = cfg \<and> sm_global_as m \<in> {0, cf_local_as cfg} \<and>
     (\<forall>pc \<in> peers_added m. peer_ok cfg pc)"

lemma peers_ok_frame: "peer_frame m' = peer_frame m \<Longrightarrow> peers_ok cfg m' \<longleftrightarrow> peers_ok cfg m"
  by (simp add: peers_ok_def peer_frame_def)

lemma peers_ok_request:
  assumes "peers_ok cfg m" "bgp_request srv c m = (r, m')" "\<And>pc. c = AddPeer pc \<Longrightarrow> peer_ok cfg pc"
  shows "peers_ok cfg m' \<and> sm_global_as m' = sm_global_as m"
  using assms by (auto simp: peers_ok_def bgp_request_def peers_added_def)

lemma peer_ok_build:
  assumes "peers_ok cfg m" "sm_global_as m \<noteq> 0" "bn_remote_as n \<noteq> 0" "parse_ip a \<noteq> None" "parse_ip b \<noteq> None"
  shows "peer_ok cfg (buildPeerConfig m n a b)"
  using assms by (auto simp: peer_ok_def peers_ok_def buildPeerConfig_def)

lemma global_record [simp]: "sm_global_as (recordEvent now i l msg a m) = sm_global_as m"
  by (simp add: recordEvent_def)

lemmas peers_ok_record [simp] = peers_ok_frame[OF peer_frame_record]
lemmas peers_ok_fields [simp] = peer_frame_fields[THEN peers_ok_frame]

lemma peers_ok_add4:
  assumes "peers_ok cfg m" "sm_global_as m \<noteq> 0" "valid_neighbor n"
    "add_peer4 srv now n (trim_space (bn_neighbor_ip n)) m = (r, m')"
  shows "peers_ok cfg m' \<and> sm_global_as m' = sm_global_as m"
proof (cases "bn_neighbor_ip n = []")
  case True
  then show ?thesis using assms by (simp add: add_peer4_def)
next
  case False
  then have v: "parse_ip (bn_peering_ip n) \<noteq> None" "parse_ip (bn_neighbor_ip n) \<noteq> None"
      "trim_space (bn_neighbor_ip n) = bn_neighbor_ip n"
    using assms(3) by (auto simp: valid_neighbor_def valid_pair_def)
  obtain r1 m1 where req: "bgp_request srv (AddPeer (buildPeerConfig m n (bn_peering_ip n) (bn_neighbor_ip n))) m = (r1, m1)"
    by fastforce
  have "peer_ok cfg (buildPeerConfig m n (bn_peering_ip n) (bn_neighbor_ip n))"
    using peer_ok_build[OF assms(1,2)] assms(3) v by (simp add: valid_neighbor_def)
  then have "peers_ok cfg m1 \<and> sm_global_as m1 = sm_global_as m"
    using peers_ok_request[OF assms(1) req] by simp
  then show ?thesis using assms(4) req False v by (auto simp: add_peer4_def split: option.splits)
qed

lemma peers_ok_add6:
  assumes "peers_ok cfg m" "sm_global_as m \<noteq> 0" "valid_neighbor n" "add_peer6 srv now n m = (ip6, m')"
  shows "peers_ok cfg m' \<and> sm_global_as m' = sm_global_as m"
proof (cases "trim_space (bn_ipv6_neighbor_ip n) = []")
  case True
  then show ?thesis using assms by (simp add: add_peer6_def)
next
  case False
  then have v: "parse_ip (bn_ipv6_peering_ip n) \<noteq> None" "parse_ip (bn_ipv6_neighbor_ip n) \<noteq> None"
    using assms(3) by (auto simp: valid_neighbor_def valid_pair_def)
  obtain r1 m1 where req: "bgp_request srv
      (AddPeer (buildPeerConfig m n (bn_ipv6_peering_ip n) (bn_ipv6_neighbor_ip n))) m = (r1, m1)"
    by fastforce
  have "peer_ok cfg (buildPeerConfig m n (bn_ipv6_peering_ip n) (bn_ipv6_neighbor_ip n))"
    using peer_ok_build[OF assms(1,2)] assms(3) v by (simp add: valid_neighbor_def)
  then have "peers_ok cfg m1 \<and> sm_global_as m1 = sm_global_as m"
    using peers_ok_request[OF assms(1) req] by simp
  then show ?thesis using assms(4) req False by (auto simp: add_peer6_def split: option.splits)
qed

lemma peers_ok_Add:
  assumes "peers_ok cfg m" "valid_neighbor n"
  shows "peers_ok cfg (snd (AddNeighbor srv now n m))"
proof (cases "sm_server m \<and> sm_global_as m \<noteq> 0")
  case True
  obtain r1 m1 where 4: "add_peer4 srv now n (trim_space (bn_neighbor_ip n)) m = (r1, m1)" by fastforce
  obtain ip6 m2 where 6: "add_peer6 srv now n m1 = (ip6, m2)" by fastforce
  have m1: "peers_ok cfg m1 \<and> sm_global_as m1 = sm_global_as m"
    using peers_ok_add4[OF assms(1) _ assms(2) 4] True by blast
  then have "peers_ok cfg m2" using peers_ok_add6[OF _ _ assms(2) 6] True by simp
  then show ?thesis
    using True m1 4 6 by (cases r1) (simp_all add: AddNeighbor_def Let_def)
qed (use assms in \<open>auto simp: AddNeighbor_def\<close>)

lemma peers_ok_Remove: "peers_ok cfg (snd (RemoveNeighbor srv now i m)) \<longleftrightarrow> peers_ok cfg m"
  by (rule peers_ok_frame[OF peer_frame_Remove])

lemma peers_ok_Update:
  assumes "peers_ok cfg m" "valid_neighbor n"
  shows "peers_ok cfg (snd (UpdateNeighbor srv now n m))"
  using assms
  by (auto simp: UpdateNeighbor_def peers_ok_Add peers_ok_Remove split: option.split)

lemma peers_ok_New: "peers_ok cfg (NewSessionManager cfg)"
  by (simp add: peers_ok_def NewSessionManager_def peers_added_def)

lemma peers_ok_Start:
  assumes "peers_ok cfg m" shows "peers_ok cfg (snd (Start srv m))"
proof -
  define m1 where "m1 = m\<lparr>sm_server := True\<rparr>"
  have m1: "peers_ok cfg m1" "sm_cfg m1 = cfg" using assms by (auto simp: m1_def peers_ok_def peers_added_def)
  have "peers_ok cfg (snd (ensureBGPGlobalStarted srv (cf_local_as cfg) rid m1))" for rid
  proof -
    have "peers_ok cfg m2 \<Longrightarrow> peers_ok cfg (m2\<lparr>sm_global_as := cf_local_as cfg\<rparr>)" for m2
      by (simp add: peers_ok_def peers_added_def)
    moreover have "bgp_request srv (StartBgp g) m1 = (r, m2) \<Longrightarrow> peers_ok cfg m2" for g r m2
      using peers_ok_request[OF m1(1)] by blast
    ultimately show ?thesis
      using m1(1) by (auto simp: ensureBGPGlobalStarted_def Let_def split: option.splits prod.splits)
  qed
  then show ?thesis using m1 by (simp add: Start_def Let_def m1_def[symmetric])
qed

end
