(* ===== verification/PanelRun.thy ===== *)
theory PanelRun
  imports NeighborAPI SessionPeers
begin

text \<open>
  The panel as a whole: every request, every event of the session manager and every restart, in any
  order and with statements failing at will. A handler runs without another in between.
\<close>

section \<open>Steps\<close>

datatype panel_op =
    DoCreateNode "string + node_request"
  | DoUpdateNode string "string + node_request"
  | DoSetDefault string
  | DoDeleteNode string
  | DoCreateNeighbor "string + bgpNeighborRequest"
  | DoUpdateNeighbor string "string + bgpNeighborRequest"
  | DoDeleteNeighbor string
  | DoListNeighbors
  | DoSession session_op
  | DoBoot

text \<open>What \<open>main\<close> does with the session manager when the server starts.\<close>

definition boot_manager :: "'e panel_env_scheme \<Rightarrow> BGPConfig \<Rightarrow> database \<Rightarrow> SessionManager option \<times> database" where
  "boot_manager env cfg db =
     (case Start (pe_bgp env) (NewSessionManager cfg) of
        (Some err, m) \<Rightarrow> (None, db)
      | (None, m) \<Rightarrow>
         (case NeighborRepo_GetAll env db of
            (Returned ns, db1) \<Rightarrow> (Some (snd (LoadNeighbors (pe_bgp env) (pe_now env) (Inr ns) m)), db1)
          | (Failed err, db1) \<Rightarrow> (Some (snd (LoadNeighbors (pe_bgp env) (pe_now env) (Inl err) m)), db1)
          | (Panicked, db1) \<Rightarrow> (Some m, db1)))"

definition boot :: "'e panel_env_scheme \<Rightarrow> BGPConfig \<Rightarrow> panel \<Rightarrow> panel" where
  "boot env cfg p =
     (let p1 = refresh_nodes env (p\<lparr>pn_cache := empty_node_cache\<rparr>) in
      case boot_manager env cfg (pn_db p1) of (mgr, db1) \<Rightarrow> p1\<lparr>pn_mgr := mgr, pn_db := db1\<rparr>)"

definition on_manager :: "(SessionManager \<Rightarrow> SessionManager) \<Rightarrow> panel \<Rightarrow> panel" where
  "on_manager f p = p\<lparr>pn_mgr := map_option f (pn_mgr p)\<rparr>"

fun panel_apply :: "'e panel_env_scheme \<Rightarrow> BGPConfig \<Rightarrow> panel_op \<Rightarrow> panel \<Rightarrow> panel" where
  "panel_apply env cfg (DoCreateNode body) p = snd (CreateNode env body p)"
| "panel_apply env cfg (DoUpdateNode i body) p = snd (UpdateNode env i body p)"
| "panel_apply env cfg (DoSetDefault i) p = snd (SetDefaultNode env i p)"
| "panel_apply env cfg (DoDeleteNode i) p = snd (DeleteNode env i p)"
| "panel_apply env cfg (DoCreateNeighbor body) p = snd (CreateBGPNeighbor env cfg body p)"
| "panel_apply env cfg (DoUpdateNeighbor i body) p = snd (UpdateBGPNeighbor env cfg i body p)"
| "panel_apply env cfg (DoDeleteNeighbor i) p = snd (DeleteBGPNeighbor env i p)"
| "panel_apply env cfg DoListNeighbors p = snd (ListBGPNeighbors env cfg p)"
| "panel_apply env cfg (DoSession ev) p = on_manager (session_apply (pe_bgp env) (pe_now env) ev) p"
| "panel_apply env cfg DoBoot p = boot env cfg p"

text \<open>Adding, removing and updating go through the requests; everything else the manager meets.\<close>

fun own_event :: "session_op \<Rightarrow> bool" where
  "own_event (OpAdd n) = False"
| "own_event (OpRemove i) = False"
| "own_event (OpUpdate n) = False"
| "own_event OpStart = False"
| "own_event _ = True"

fun panel_op_ok :: "panel_op \<Rightarrow> bool" where
  "panel_op_ok (DoSession ev) = own_event ev"
| "panel_op_ok _ = True"

definition empty_panel :: panel where
  "empty_panel = \<lparr>pn_db = \<lparr>db_nodes = [], db_node_seq = 0, db_neighbors = [], db_neighbor_seq = 0,
     db_statements = 0\<rparr>, pn_cache = empty_node_cache, pn_mgr = None\<rparr>"

text \<open>\<open>E\<close>: the environments a step may meet.\<close>

inductive panel_reach :: "(panel_env \<Rightarrow> bool) \<Rightarrow> gobgp \<Rightarrow> BGPConfig \<Rightarrow> go_time \<Rightarrow> panel \<Rightarrow> bool"
  for E :: "panel_env \<Rightarrow> bool" and srv :: gobgp and cfg :: BGPConfig where
  init: "0 \<le> t \<Longrightarrow> panel_reach E srv cfg t empty_panel"
| step: "panel_reach E srv cfg t p \<Longrightarrow> E env \<Longrightarrow> pe_bgp env = srv \<Longrightarrow> t \<le> pe_now env \<Longrightarrow> panel_op_ok op \<Longrightarrow>
    panel_reach E srv cfg (pe_now env) (panel_apply env cfg op p)"

section \<open>The tables\<close>

definition valid_row :: "neighbor_row \<Rightarrow> bool" where
  "valid_row r \<longleftrightarrow> valid_neighbor (mapBGPNeighbor r)"

lemma valid_row_stamps [simp]:
  "valid_row (r\<lparr>br_created_at := a\<rparr>) = valid_row r"
  "valid_row (r\<lparr>br_updated_at := b\<rparr>) = valid_row r"
  "valid_row (r\<lparr>br_id := i\<rparr>) = valid_row r"
  by (simp_all add: valid_row_def valid_neighbor_def mapBGPNeighbor_def)

text \<open>A table with an automatic key.\<close>

definition table_ok :: "('a \<Rightarrow> int) \<Rightarrow> int \<Rightarrow> 'a list \<Rightarrow> bool" where
  "table_ok key sequence rows \<longleftrightarrow> distinct (map key rows) \<and> (\<forall>r \<in> set rows. key r \<le> sequence)"

lemma table_append: "table_ok key q rows \<Longrightarrow> key r = q + 1 \<Longrightarrow> table_ok key (q + 1) (rows @ [r])"
  by (force simp: table_ok_def)

lemma table_map: "table_ok key q rows \<Longrightarrow> (\<And>r. key (f r) = key r) \<Longrightarrow> table_ok key q (map f rows)"
  by (simp add: table_ok_def comp_def)

lemma table_filter: "table_ok key q rows \<Longrightarrow> table_ok key q (filter P rows)"
  by (simp add: table_ok_def distinct_map_filter)

definition neighbors_ok :: "database \<Rightarrow> bool" where
  "neighbors_ok db \<longleftrightarrow> table_ok br_id (db_neighbor_seq db) (db_neighbors db) \<and> list_all valid_row (db_neighbors db)"

definition keys_ok :: "database \<Rightarrow> bool" where
  "keys_ok db \<longleftrightarrow> br_node_id ` set (db_neighbors db) \<subseteq> nr_id ` set (db_nodes db)"

definition default_ids :: "database \<Rightarrow> int set" where
  "default_ids db = {nr_id r | r. r \<in> set (db_nodes db) \<and> nr_is_default r = 1}"

definition one_default :: "database \<Rightarrow> bool" where
  "one_default db \<longleftrightarrow> (\<forall>i \<in> default_ids db. \<forall>j \<in> default_ids db. i = j)"

definition db_ok :: "database \<Rightarrow> bool" where
  "db_ok db \<longleftrightarrow> table_ok nr_id (db_node_seq db) (db_nodes db) \<and> neighbors_ok db \<and> keys_ok db \<and> one_default db"

lemma db_ok_counter [simp]: "db_ok (db\<lparr>db_statements := k\<rparr>) = db_ok db"
  by (simp add: db_ok_def neighbors_ok_def keys_ok_def one_default_def default_ids_def)

lemma one_default_subset: "one_default db \<Longrightarrow> default_ids db' \<subseteq> default_ids db \<Longrightarrow> one_default db'"
  unfolding one_default_def by blast

lemma db_ok_insert_node:
  assumes "db_ok db" "nr_is_default row \<noteq> 1"
  shows "db_ok (insert_node now row db)"
proof -
  have "default_ids (insert_node now row db) \<subseteq> default_ids db"
    using assms(2) by (auto simp: default_ids_def insert_node_def)
  moreover have "table_ok nr_id (db_node_seq (insert_node now row db)) (db_nodes (insert_node now row db))"
    using assms(1) by (simp add: db_ok_def insert_node_def table_append)
  moreover have "keys_ok (insert_node now row db)" "neighbors_ok (insert_node now row db)"
    using assms(1) by (auto simp: db_ok_def keys_ok_def neighbors_ok_def insert_node_def)
  ultimately show ?thesis using assms(1) one_default_subset by (auto simp: db_ok_def)
qed

lemma default_ids_set: "default_ids (set_default i db) \<subseteq> {i}"
  by (auto simp: default_ids_def set_default_def split: if_splits)

lemma db_ok_set_default:
  assumes "db_ok db" shows "db_ok (set_default i db)"
proof -
  have "one_default (set_default i db)" using default_ids_set[of i db] by (auto simp: one_default_def)
  moreover have "table_ok nr_id (db_node_seq db) (db_nodes (set_default i db))"
    using assms by (simp add: db_ok_def set_default_def table_map)
  moreover have "keys_ok (set_default i db)"
    using assms by (simp add: db_ok_def keys_ok_def set_default_def image_image)
  ultimately show ?thesis using assms by (simp add: db_ok_def neighbors_ok_def set_default_def)
qed

text \<open>A write of a node leaves the other rows, and may not mark a node that was not the default.\<close>

definition keeps_mark :: "node_row \<Rightarrow> database \<Rightarrow> bool" where
  "keeps_mark row db \<longleftrightarrow>
     (\<forall>r \<in> set (db_nodes db). nr_id r = nr_id row \<longrightarrow> nr_is_default row = 1 \<longrightarrow> nr_is_default r = 1)"

lemma db_ok_update_node:
  assumes "db_ok db" "keeps_mark row db"
  shows "db_ok (update_node now row db)"
proof -
  define f where "f = (\<lambda>r. if nr_id r = nr_id row
    then row\<lparr>nr_created_at := nr_created_at r, nr_updated_at := now\<rparr> else r)"
  have upd: "update_node now row db = db\<lparr>db_nodes := map f (db_nodes db)\<rparr>"
    by (simp add: update_node_def f_def)
  have id: "nr_id (f r) = nr_id r" for r by (simp add: f_def)
  have "nr_is_default (f r) = 1 \<Longrightarrow> r \<in> set (db_nodes db) \<Longrightarrow> nr_is_default r = 1" for r
    using assms(2) by (auto simp: f_def keeps_mark_def split: if_splits)
  then have "default_ids (update_node now row db) \<subseteq> default_ids db"
    unfolding default_ids_def upd using id by auto
  moreover have "table_ok nr_id (db_node_seq db) (map f (db_nodes db))"
    using assms(1) id by (simp add: db_ok_def table_map)
  moreover have "keys_ok (db\<lparr>db_nodes := map f (db_nodes db)\<rparr>)"
    using assms(1) id by (simp add: db_ok_def keys_ok_def image_image)
  moreover have "one_default (update_node now row db)"
    using one_default_subset calculation(1) assms(1) by (simp only: db_ok_def) blast
  ultimately show ?thesis
    using assms(1) unfolding db_ok_def upd by (simp add: neighbors_ok_def)
qed

lemma db_ok_delete_node:
  assumes "db_ok db" shows "db_ok (delete_node i db)"
proof -
  have "default_ids (delete_node i db) \<subseteq> default_ids db" by (auto simp: default_ids_def delete_node_def)
  moreover have "table_ok nr_id (db_node_seq db) (db_nodes (delete_node i db))"
    using assms by (simp add: db_ok_def delete_node_def table_filter)
  moreover have "keys_ok (delete_node i db)"
    using assms by (auto simp: db_ok_def keys_ok_def delete_node_def find_node_iff)
  moreover have "neighbors_ok (delete_node i db)"
    using assms by (auto simp: db_ok_def neighbors_ok_def delete_node_def table_filter list_all_iff)
  moreover have "one_default (delete_node i db)"
    using one_default_subset calculation(1) assms by (simp only: db_ok_def) blast
  moreover have "db_node_seq (delete_node i db) = db_node_seq db" by (simp add: delete_node_def)
  ultimately show ?thesis by (simp add: db_ok_def)
qed

lemma db_ok_neighbors:
  assumes "db_ok db" "db_nodes db' = db_nodes db" "db_node_seq db' = db_node_seq db" "neighbors_ok db'" "keys_ok db'"
  shows "db_ok db'"
proof -
  have "default_ids db' = default_ids db" by (simp only: default_ids_def assms(2))
  then have "one_default db'" using assms(1) by (simp add: db_ok_def one_default_def)
  then show ?thesis using assms by (simp only: db_ok_def)
qed

lemma db_ok_insert_neighbor:
  assumes "db_ok db" "find_node db (br_node_id row) \<noteq> None" "valid_row row"
  shows "db_ok (insert_neighbor now row db)"
proof (rule db_ok_neighbors[OF assms(1)])
  show "neighbors_ok (insert_neighbor now row db)"
    using assms(1,3) by (simp add: db_ok_def neighbors_ok_def insert_neighbor_def table_append)
  show "keys_ok (insert_neighbor now row db)"
    using assms(1,2) by (auto simp: db_ok_def keys_ok_def insert_neighbor_def find_node_iff)
qed (simp_all add: insert_neighbor_def)

lemma db_ok_update_neighbor:
  assumes "db_ok db" "find_node db (br_node_id row) \<noteq> None \<or> find_neighbor db (br_id row) = None" "valid_row row"
  shows "db_ok (update_neighbor now row db)"
proof -
  define f where "f = (\<lambda>r. if br_id r = br_id row
    then row\<lparr>br_created_at := br_created_at r, br_updated_at := now\<rparr> else r)"
  have upd: "update_neighbor now row db = db\<lparr>db_neighbors := map f (db_neighbors db)\<rparr>"
    by (simp add: update_neighbor_def f_def)
  have id: "br_id (f r) = br_id r" for r by (simp add: f_def)
  have "list_all valid_row (map f (db_neighbors db))"
    using assms(1,3) by (auto simp: db_ok_def neighbors_ok_def list_all_iff f_def)
  moreover have "table_ok br_id (db_neighbor_seq db) (map f (db_neighbors db))"
    using assms(1) id by (simp add: db_ok_def neighbors_ok_def table_map)
  ultimately have "neighbors_ok (update_neighbor now row db)" by (simp add: neighbors_ok_def upd)
  moreover have "br_node_id (f r) \<in> nr_id ` set (db_nodes db)" if "r \<in> set (db_neighbors db)" for r
  proof (cases "br_id r = br_id row")
    case True
    then have "br_id row \<in> br_id ` set (db_neighbors db)" using that by (metis imageI)
    then show ?thesis using True assms(2) by (simp add: f_def find_node_iff find_neighbor_iff)
  next
    case False
    then show ?thesis using that assms(1) by (auto simp: f_def db_ok_def keys_ok_def)
  qed
  then have "keys_ok (update_neighbor now row db)" by (auto simp: keys_ok_def upd)
  ultimately show ?thesis by (intro db_ok_neighbors[OF assms(1)]) (simp_all add: upd)
qed

lemma db_ok_delete_neighbor:
  assumes "db_ok db" shows "db_ok (delete_neighbor i db)"
proof (rule db_ok_neighbors[OF assms])
  show "neighbors_ok (delete_neighbor i db)"
    using assms by (auto simp: db_ok_def neighbors_ok_def delete_neighbor_def table_filter list_all_iff)
  show "keys_ok (delete_neighbor i db)"
    using assms by (auto simp: db_ok_def keys_ok_def delete_neighbor_def)
qed (simp_all add: delete_neighbor_def)

section \<open>Calls that leave the neighbours alone\<close>

definition node_frame :: "neighbor_row list \<Rightarrow> int \<Rightarrow> database \<Rightarrow> bool" where
  "node_frame ns q db \<longleftrightarrow> db_ok db \<and> db_neighbors db = ns \<and> db_neighbor_seq db = q"

lemma ignores_node_frame: "ignores_counter (node_frame ns q)"
  by (simp add: ignores_counter_def node_frame_def)

lemma node_frame_reads [intro]:
  "db_keeps (node_frame ns q) (GetAllNodes env)"
  "db_keeps (node_frame ns q) (GetActiveNodes env)"
  "db_keeps (node_frame ns q) (GetNodeByID env i)"
  "db_keeps (node_frame ns q) (GetAllBGPNeighbors env)"
  "db_keeps (node_frame ns q) (GetBGPNeighborsByNodeID env i)"
  "db_keeps (node_frame ns q) (GetBGPNeighborByID env i)"
  unfolding GetAllNodes_def GetActiveNodes_def GetNodeByID_def GetAllBGPNeighbors_def
    GetBGPNeighborsByNodeID_def GetBGPNeighborByID_def
  by (rule db_keeps_read[OF ignores_node_frame], simp)+

lemma node_frame_set_default [intro]: "db_keeps (node_frame ns q) (SetDefaultNodeQ env i)"
  unfolding SetDefaultNodeQ_def
  by (rule db_keeps_statement[OF ignores_node_frame])
     (simp add: node_frame_def db_ok_set_default, simp add: set_default_def)

lemma node_frame_ensure [intro]: "db_keeps (node_frame ns q) (ensureDefault env)"
  unfolding ensureDefault_def by (intro db_keeps_bind node_frame_reads) auto

lemma node_frame_create [intro]:
  assumes "nr_is_default row \<noteq> 1"
  shows "db_keeps (node_frame ns q) (CreateNodeQ env row)"
  unfolding CreateNodeQ_def
  by (intro db_keeps_bind node_frame_reads db_keeps_statement[OF ignores_node_frame])
     (use assms in \<open>simp add: node_frame_def db_ok_insert_node, simp add: insert_node_def\<close>)

lemma node_frame_repo [intro]:
  "db_keeps (node_frame ns q) (NodeRepo_GetAll env)"
  "db_keeps (node_frame ns q) (NodeRepo_GetActive env)"
  "db_keeps (node_frame ns q) (NodeRepo_SetDefault env i)"
  "db_keeps (node_frame ns q) (NeighborRepo_GetAll env)"
  "db_keeps (node_frame ns q) (NeighborRepo_GetByNodeID env i)"
  unfolding NodeRepo_GetAll_def NodeRepo_GetActive_def NodeRepo_SetDefault_def NeighborRepo_GetAll_def
    NeighborRepo_GetByNodeID_def
  by blast+

lemma node_frame_get [intro]: "db_keeps (node_frame ns q) (NodeRepo_GetByID env i)"
  unfolding NodeRepo_GetByID_def
  by (intro db_keeps_bind node_frame_reads) (auto simp: db_keeps_def db_return_def split: option.split)

lemma node_frame_repo_create [intro]:
  assumes "\<not> n_is_default n"
  shows "db_keeps (node_frame ns q) (NodeRepo_Create env n)"
  unfolding NodeRepo_Create_def
  by (intro db_keeps_bind db_keeps_deref db_keeps_try node_frame_create node_frame_reads)
     (use assms in \<open>auto simp: created_row_def boolToInt_def\<close>)

text \<open>The update of a node that was just read.\<close>

lemma NodeRepo_GetByID_Returned:
  assumes "NodeRepo_GetByID env i db = (Returned n, db1)"
  shows "\<exists>r k. find_node db i = Some r \<and> n = read_node env r \<and> db1 = db\<lparr>db_statements := k\<rparr>"
  using assms
  by (auto simp: NodeRepo_GetByID_def db_bind_def db_return_def GetNodeByID_def statement_def Let_def find_node_def
      split: prod.splits outcome.splits option.splits)

lemma apply_place_keeps [simp]: "n_id (apply_place req n) = n_id n" "n_is_default (apply_place req n) = n_is_default n"
  and apply_agent_keeps [simp]: "n_id (apply_agent req n) = n_id n" "n_is_default (apply_agent req n) = n_is_default n"
  by (simp_all add: apply_place_def apply_agent_def)

lemma checked_eq_Inr: "(if b then Inl x else y) = Inr z \<longleftrightarrow> \<not> b \<and> y = Inr z"
  by simp

lemma apply_request_keeps:
  assumes "apply_request env req n = Inr n'"
  shows "n_id n' = n_id n \<and> n_is_default n' = n_is_default n"
proof -
  define n1 where "n1 = n\<lparr>n_name := (if nq_name req \<noteq> [] then nq_name req else n_name n),
    n_description := (if nq_description req \<noteq> [] then nq_description req else n_description n)\<rparr>"
  define n2 where "n2 = apply_place req (if nq_type req \<noteq> [] then n1\<lparr>n_type := nq_type req\<rparr> else n1)"
  define n3 where "n3 = (if length (nq_enabled_cmds req) > 0
    then n2\<lparr>n_enabled_cmds := NormalizeEnabledCmdStrings (nq_enabled_cmds req)\<rparr> else n2)"
  have "n' = apply_agent req n3"
    using assms unfolding apply_request_def Let_def n1_def[symmetric] n2_def[symmetric] n3_def[symmetric]
    by (simp only: checked_eq_Inr sum.inject)
  moreover have "n_id n1 = n_id n" "n_is_default n1 = n_is_default n" by (simp_all add: n1_def)
  then have "n_id n2 = n_id n" "n_is_default n2 = n_is_default n" by (simp_all add: n2_def)
  then have "n_id n3 = n_id n" "n_is_default n3 = n_is_default n" by (simp_all add: n3_def)
  ultimately show ?thesis by simp
qed

lemma keeps_mark_update:
  assumes "db_ok db" "find_node db i = Some r" "n_id n = i" "n_is_default n \<Longrightarrow> nr_is_default r = 1"
  shows "keeps_mark (updated_row env n) db"
proof -
  have "r' = r" if "r' \<in> set (db_nodes db)" "nr_id r' = i" for r'
  proof -
    have "inj_on nr_id (set (db_nodes db))"
      using assms(1) by (simp add: db_ok_def table_ok_def distinct_map)
    then show ?thesis using that find_node_Some[OF assms(2)] by (metis inj_onD)
  qed
  then show ?thesis using assms(3,4) by (auto simp: keeps_mark_def updated_row_def boolToInt_def split: if_splits)
qed

lemma node_frame_update:
  assumes "node_frame ns q db" "keeps_mark (updated_row env n) db"
  shows "node_frame ns q (snd (NodeRepo_Update env n db))"
proof -
  let ?w = "statement env (\<lambda>db. (Returned (), update_node (sq_now env) (updated_row env n) db))"
  have "node_frame ns q (update_node (sq_now env) (updated_row env n) (db\<lparr>db_statements := k\<rparr>))" for k
    using assms by (simp add: node_frame_def db_ok_update_node keeps_mark_def) (simp add: update_node_def)
  then have w: "node_frame ns q (snd (?w db))"
    using assms(1) by (auto simp: statement_def Let_def node_frame_def split: option.split)
  obtain r db1 where eq: "?w db = (r, db1)" by fastforce
  have rest: "db_keeps (node_frame ns q) (db_bind (GetNodeByID env (nr_id (updated_row env n)))
      (\<lambda>p. deref p (\<lambda>r. db_return (read_node env r))))"
    by (intro db_keeps_bind db_keeps_deref node_frame_reads) auto
  show ?thesis
    using w eq rest
    by (cases r) (auto simp: NodeRepo_Update_def UpdateNodeQ_def db_bind_def db_keeps_def)
qed

end
