(* ===== verification/PanelInvariant.thy ===== *)
theory PanelInvariant
  imports PanelRun
begin

text \<open>
  The invariant of the panel: the tables are in order, the session manager knows only neighbours that
  have a row, and every peer it ever asked GoBGP for is a valid one.
\<close>

section \<open>The manager beside the table\<close>

definition mgr_ok :: "gobgp \<Rightarrow> BGPConfig \<Rightarrow> go_time \<Rightarrow> int set \<Rightarrow> SessionManager \<Rightarrow> bool" where
  "mgr_ok srv cfg t ids m \<longleftrightarrow> session_reach srv cfg t m \<and> peers_ok cfg m \<and> (\<forall>i. i \<notin> ids \<longrightarrow> sm_neighbors m i = None)"

lemma mgr_ok_wait: "mgr_ok srv cfg t ids m \<Longrightarrow> t \<le> t' \<Longrightarrow> mgr_ok srv cfg t' ids m"
  unfolding mgr_ok_def using session_reach.wait by blast

lemma mgr_ok_apply:
  assumes "mgr_ok srv cfg t ids m" "own_event ev \<or> (\<exists>i. ev = OpRemove i)"
  shows "mgr_ok srv cfg t ids (session_apply srv t ev m)"
proof -
  have "op_allowed ev m" "\<And>n. ev \<noteq> OpAdd n" "\<And>n. ev \<noteq> OpUpdate n" "ev \<noteq> OpStart"
    using assms(2) by (cases ev; auto)+
  then show ?thesis
    using assms(1) session_reach.op[of srv cfg t m ev] unknown_apply[of m _ ev srv t]
      peers_ok_frame[OF peer_frame_apply[of ev srv t m], of cfg]
    by (simp add: mgr_ok_def readmits_none_def)
qed

lemma mgr_ok_Remove:
  assumes "mgr_ok srv cfg t ids m" "RemoveNeighbor srv t i m = (r, m')"
  shows "mgr_ok srv cfg t ids m'" and "r = None \<Longrightarrow> mgr_ok srv cfg t (ids - {i}) m'"
proof -
  show *: "mgr_ok srv cfg t ids m'" using mgr_ok_apply[OF assms(1), of "OpRemove i"] assms(2) by simp
  show "r = None \<Longrightarrow> mgr_ok srv cfg t (ids - {i}) m'"
    using * unknown_Remove(2)[OF assms(2)] by (auto simp: mgr_ok_def)
qed

lemma mgr_ok_Add:
  assumes "mgr_ok srv cfg t ids m" "AddNeighbor srv t n m = (r, m')" "valid_neighbor n" "sm_neighbors m (bn_id n) = None"
  shows "mgr_ok srv cfg t (insert (bn_id n) ids) m'" and "r \<noteq> None \<Longrightarrow> mgr_ok srv cfg t ids m'"
proof -
  have "session_reach srv cfg t m'"
    using session_reach.op[of srv cfg t m "OpAdd n"] assms by (simp add: mgr_ok_def)
  moreover have "peers_ok cfg m'" using peers_ok_Add[of cfg m n srv t] assms by (simp add: mgr_ok_def)
  moreover have "sm_neighbors m' i = None" if "i \<notin> insert (bn_id n) ids" for i
    using unknown_Add[of m i n srv t] that assms(1,2) by (simp add: mgr_ok_def)
  moreover have "sm_neighbors m' = sm_neighbors m" if "r \<noteq> None"
    using AddNeighbor_effect[OF assms(2)] that same_neighbors by blast
  ultimately show "mgr_ok srv cfg t (insert (bn_id n) ids) m'" and "r \<noteq> None \<Longrightarrow> mgr_ok srv cfg t ids m'"
    using assms(1) by (simp_all add: mgr_ok_def)
qed

lemma mgr_ok_Update:
  assumes "mgr_ok srv cfg t ids m" "valid_neighbor n" "bn_id n \<in> ids"
  shows "mgr_ok srv cfg t ids (snd (UpdateNeighbor srv t n m))"
  using assms session_reach.op[of srv cfg t m "OpUpdate n"] peers_ok_Update[of cfg m n srv t]
    unknown_Update[of m _ n srv t]
  by (auto simp: mgr_ok_def)

section \<open>The panel\<close>

definition neighbor_ids :: "database \<Rightarrow> int set" where
  "neighbor_ids db = br_id ` set (db_neighbors db)"

definition panel_ok :: "gobgp \<Rightarrow> BGPConfig \<Rightarrow> go_time \<Rightarrow> panel \<Rightarrow> bool" where
  "panel_ok srv cfg t p \<longleftrightarrow>
     db_ok (pn_db p) \<and> (\<forall>m. pn_mgr p = Some m \<longrightarrow> mgr_ok srv cfg t (neighbor_ids (pn_db p)) m)"

lemma panel_ok_wait: "panel_ok srv cfg t p \<Longrightarrow> t \<le> t' \<Longrightarrow> panel_ok srv cfg t' p"
  by (auto simp: panel_ok_def intro: mgr_ok_wait)

lemma panel_ok_cache [simp]: "panel_ok srv cfg t (p\<lparr>pn_cache := c\<rparr>) \<longleftrightarrow> panel_ok srv cfg t p"
  by (simp add: panel_ok_def)

text \<open>A handler that calls a repository keeps a property of the panel if every way the call ends does.\<close>

lemma handleI:
  assumes "\<And>a db1. m (pn_db p) = (Returned a, db1) \<Longrightarrow> Q (snd (f a (p\<lparr>pn_db := db1\<rparr>)))"
    and "\<And>r db1. m (pn_db p) = (r, db1) \<Longrightarrow> (\<And>a. r \<noteq> Returned a) \<Longrightarrow> Q (p\<lparr>pn_db := db1\<rparr>)"
  shows "Q (snd (handle m onerr f p))"
  using assms unfolding handle_def by (force split: prod.split outcome.split)

lemma panel_ok_with_id:
  "panel_ok srv cfg t p \<Longrightarrow> (\<And>i. panel_ok srv cfg t (snd (f i p))) \<Longrightarrow>
   panel_ok srv cfg t (snd (with_id msg idp f p))"
  by (simp add: with_id_def split: option.split)

lemma panel_ok_call:
  assumes "panel_ok srv cfg t p" "\<And>ns q. db_keeps (node_frame ns q) m"
  shows "m (pn_db p) = (r, db1) \<Longrightarrow> panel_ok srv cfg t (p\<lparr>pn_db := db1\<rparr>)"
proof -
  assume "m (pn_db p) = (r, db1)"
  then have "node_frame (db_neighbors (pn_db p)) (db_neighbor_seq (pn_db p)) db1"
    using assms by (force simp: db_keeps_def node_frame_def panel_ok_def)
  then show ?thesis using assms(1) by (simp add: panel_ok_def node_frame_def neighbor_ids_def)
qed

lemma panel_ok_handle:
  assumes "panel_ok srv cfg t p" "\<And>ns q. db_keeps (node_frame ns q) m"
    and "\<And>a p1. panel_ok srv cfg t p1 \<Longrightarrow> panel_ok srv cfg t (snd (f a p1))"
  shows "panel_ok srv cfg t (snd (handle m onerr f p))"
  using panel_ok_call[OF assms(1,2)] assms(3) by (blast intro: handleI)

lemma panel_ok_refresh: "panel_ok srv cfg t p \<Longrightarrow> panel_ok srv cfg t (refresh_nodes env p)"
proof -
  assume ok: "panel_ok srv cfg t p"
  obtain r db1 where eq: "NodeRepo_GetActive env (pn_db p) = (r, db1)" by fastforce
  then have "panel_ok srv cfg t (p\<lparr>pn_db := db1\<rparr>)"
    using panel_ok_call[OF ok node_frame_repo(2)] by blast
  then show ?thesis using eq
    by (cases r) (simp_all add: refresh_nodes_def RefreshNodes_def panel_ok_def)
qed

section \<open>Node requests\<close>

lemma panel_ok_CreateNode:
  "panel_ok srv cfg t p \<Longrightarrow> panel_ok srv cfg t (snd (CreateNode env body p))"
proof -
  assume ok: "panel_ok srv cfg t p"
  have "\<not> n_is_default (new_node req)" for req by (simp add: new_node_def Let_def)
  then have "panel_ok srv cfg t (snd (handle (NodeRepo_Create env (new_node req)) internal_error
      (\<lambda>created p1. (Reply 201 (created\<lparr>n_agent_token := []\<rparr>), refresh_nodes env p1)) p))" for req
    by (intro panel_ok_handle[OF ok] node_frame_repo_create) (simp_all add: panel_ok_refresh)
  then show ?thesis using ok by (simp add: CreateNode_def split: sum.split)
qed

lemma panel_ok_write_node:
  assumes "panel_ok srv cfg t p" "find_node (pn_db p) i = Some r" "apply_request env req (read_node env r) = Inr n'"
  shows "panel_ok srv cfg t (snd (handle (NodeRepo_Update env n') internal_error
      (\<lambda>updated p2. (Reply 200 updated, refresh_nodes env p2)) p))"
proof (rule handleI)
  have n': "n_id n' = i" "n_is_default n' \<Longrightarrow> nr_is_default r = 1"
    using apply_request_keeps[OF assms(3)] find_node_Some[OF assms(2)]
    by (auto simp: read_node_def mapNode_def Let_def)
  have "keeps_mark (updated_row env n') (pn_db p)"
    using keeps_mark_update[OF _ assms(2) n'] assms(1) by (simp add: panel_ok_def)
  then have *: "panel_ok srv cfg t (p\<lparr>pn_db := snd (NodeRepo_Update env n' (pn_db p))\<rparr>)"
    using node_frame_update[of "db_neighbors (pn_db p)" "db_neighbor_seq (pn_db p)" "pn_db p" env n'] assms(1)
    by (simp add: panel_ok_def node_frame_def neighbor_ids_def)
  show "panel_ok srv cfg t (snd (Reply 200 a, refresh_nodes env (p\<lparr>pn_db := db1\<rparr>)))"
    if "NodeRepo_Update env n' (pn_db p) = (Returned a, db1)" for a db1
    using * that panel_ok_refresh by simp
  show "panel_ok srv cfg t (p\<lparr>pn_db := db1\<rparr>)" if "NodeRepo_Update env n' (pn_db p) = (q, db1)" for q db1
    using * that by simp
qed

lemma panel_ok_UpdateNode:
  assumes ok: "panel_ok srv cfg t p"
  shows "panel_ok srv cfg t (snd (UpdateNode env idp body p))"
  unfolding UpdateNode_def
proof (intro panel_ok_with_id ok)
  fix i
  have "panel_ok srv cfg t (snd (handle (NodeRepo_GetByID env i) (\<lambda>_. Refused 404 ''node not found'') (\<lambda>n p1.
      case apply_request env req n of
        Inl msg \<Rightarrow> (Refused 400 msg, p1)
      | Inr n' \<Rightarrow> handle (NodeRepo_Update env n') internal_error
          (\<lambda>updated p2. (Reply 200 updated, refresh_nodes env p2)) p1) p))" for req
  proof (rule handleI)
    fix n db1 assume get: "NodeRepo_GetByID env i (pn_db p) = (Returned n, db1)"
    then obtain r k where "find_node (pn_db p) i = Some r" "n = read_node env r" "db1 = (pn_db p)\<lparr>db_statements := k\<rparr>"
      using NodeRepo_GetByID_Returned by blast
    then have "find_node (pn_db (p\<lparr>pn_db := db1\<rparr>)) i = Some r" "n = read_node env r" by (simp_all add: find_node_def)
    moreover have "panel_ok srv cfg t (p\<lparr>pn_db := db1\<rparr>)" by (rule panel_ok_call[OF ok node_frame_get get])
    ultimately show "panel_ok srv cfg t (snd (case apply_request env req n of
        Inl msg \<Rightarrow> (Refused 400 msg, p\<lparr>pn_db := db1\<rparr>)
      | Inr n' \<Rightarrow> handle (NodeRepo_Update env n') internal_error
          (\<lambda>updated p2. (Reply 200 updated, refresh_nodes env p2)) (p\<lparr>pn_db := db1\<rparr>)))"
      using panel_ok_write_node[of srv cfg t "p\<lparr>pn_db := db1\<rparr>" i r env req] by (simp split: sum.split)
  qed (rule panel_ok_call[OF ok node_frame_get])
  then show "panel_ok srv cfg t (snd (case body of Inl msg \<Rightarrow> (Refused 400 msg, p) | Inr req \<Rightarrow>
      handle (NodeRepo_GetByID env i) (\<lambda>_. Refused 404 ''node not found'') (\<lambda>n p1.
        case apply_request env req n of
          Inl msg \<Rightarrow> (Refused 400 msg, p1)
        | Inr n' \<Rightarrow> handle (NodeRepo_Update env n') internal_error
            (\<lambda>updated p2. (Reply 200 updated, refresh_nodes env p2)) p1) p))"
    using ok by (simp split: sum.split)
qed

lemma panel_ok_SetDefault:
  "panel_ok srv cfg t p \<Longrightarrow> panel_ok srv cfg t (snd (SetDefaultNode env idp p))"
  unfolding SetDefaultNode_def
  by (intro panel_ok_with_id panel_ok_handle node_frame_get node_frame_repo) (simp_all add: panel_ok_refresh)

section \<open>Neighbour requests\<close>

lemma mgr_ok_mono: "mgr_ok srv cfg t ids m \<Longrightarrow> ids \<subseteq> ids' \<Longrightarrow> mgr_ok srv cfg t ids' m"
  by (auto simp: mgr_ok_def)

lemma Validate_valid:
  assumes "Validate r0 = ([], r)" "rq_remote_as r0 \<noteq> 0"
  shows "rq_remote_as r \<noteq> 0 \<and> valid_pair (rq_peering_ip r) (rq_neighbor_ip r) \<and>
    valid_pair (rq_ipv6_peering_ip r) (rq_ipv6_neighbor_ip r)"
proof -
  have r: "r = trim_addresses r0"
    using assms by (simp add: Validate_def Let_def split: if_split_asm)
  have "(rq_peering_ip r = [] \<longleftrightarrow> rq_neighbor_ip r = []) \<and>
      (rq_ipv6_peering_ip r = [] \<longleftrightarrow> rq_ipv6_neighbor_ip r = []) \<and>
      (rq_peering_ip r \<noteq> [] \<longrightarrow> parse_ip (rq_peering_ip r) \<noteq> None \<and> parse_ip (rq_neighbor_ip r) \<noteq> None) \<and>
      (rq_ipv6_peering_ip r \<noteq> [] \<longrightarrow>
         parse_ip (rq_ipv6_peering_ip r) \<noteq> None \<and> parse_ip (rq_ipv6_neighbor_ip r) \<noteq> None)"
    using assms unfolding Validate_def Let_def r[symmetric] by (simp split: if_split_asm) blast
  moreover have "trim_space (rq_peering_ip r) = rq_peering_ip r" "trim_space (rq_neighbor_ip r) = rq_neighbor_ip r"
      "trim_space (rq_ipv6_peering_ip r) = rq_ipv6_peering_ip r"
      "trim_space (rq_ipv6_neighbor_ip r) = rq_ipv6_neighbor_ip r" "rq_remote_as r = rq_remote_as r0"
    by (simp_all add: r trim_addresses_def trim_space_idem)
  ultimately show ?thesis using assms(2) unfolding valid_pair_def by auto
qed

lemma checked_valid:
  assumes "checked_request env cfg body = Inr req"
  shows "valid_neighbor (bgpNeighborFromRequest i cfg req)"
proof -
  obtain r0 where "body = Inr r0" "rq_remote_as r0 \<noteq> 0" "Validate r0 = ([], req)"
    using assms by (auto simp: checked_request_def split: sum.splits prod.splits if_splits)
  then show ?thesis using Validate_valid by (simp add: valid_neighbor_def bgpNeighborFromRequest_def)
qed

lemma valid_row_of [simp]: "valid_row (neighbor_row_of n) = valid_neighbor n"
  by (simp add: valid_row_def valid_neighbor_def mapBGPNeighbor_def neighbor_row_of_def)

lemma neighbor_ids_counter [simp]: "neighbor_ids (db\<lparr>db_statements := k\<rparr>) = neighbor_ids db"
  by (simp add: neighbor_ids_def)

lemma find_counter [simp]:
  "find_neighbor (db\<lparr>db_statements := k\<rparr>) = find_neighbor db" "find_node (db\<lparr>db_statements := k\<rparr>) = find_node db"
  by (simp_all add: find_neighbor_def find_node_def fun_eq_iff)

lemma find_inserted:
  assumes "db_ok db"
  shows "db_neighbor_seq db + 1 \<notin> neighbor_ids db"
    and "find_neighbor (insert_neighbor now row db) (db_neighbor_seq db + 1) =
      Some (row\<lparr>br_id := db_neighbor_seq db + 1, br_created_at := now, br_updated_at := now\<rparr>)"
proof -
  have le: "\<forall>r \<in> set (db_neighbors db). br_id r \<le> db_neighbor_seq db"
    using assms by (simp add: db_ok_def neighbors_ok_def table_ok_def)
  then show "db_neighbor_seq db + 1 \<notin> neighbor_ids db" by (auto simp: neighbor_ids_def)
  have "find P (xs @ [x]) = Some x" if "\<forall>y \<in> set xs. \<not> P y" "P x" for P and xs :: "neighbor_row list" and x
    using that by (induction xs) auto
  moreover have "\<forall>y \<in> set (db_neighbors db). br_id y \<noteq> db_neighbor_seq db + 1" using le by auto
  ultimately show "find_neighbor (insert_neighbor now row db) (db_neighbor_seq db + 1) =
      Some (row\<lparr>br_id := db_neighbor_seq db + 1, br_created_at := now, br_updated_at := now\<rparr>)"
    by (simp add: find_neighbor_def insert_neighbor_def)
qed

text \<open>How the three writes of a neighbour end.\<close>

lemma statement_post:
  assumes "statement env f db = (r, db')" "\<And>k. Q (db\<lparr>db_statements := k\<rparr>)" "\<And>k. Q (snd (f (db\<lparr>db_statements := k\<rparr>)))"
  shows "Q db'"
  using assms(1,2) assms(3)[of "Suc (db_statements db)"]
  by (auto simp: statement_def Let_def split: option.splits if_splits)

lemma statement_Returned:
  assumes "statement env f db = (Returned a, db')"
  obtains k where "f (db\<lparr>db_statements := k\<rparr>) = (Returned a, db')"
  using assms by (auto simp: statement_def Let_def split: option.splits)

lemma GetBGPNeighborByID_ends:
  assumes "GetBGPNeighborByID env i db = (r, db')"
  shows "\<exists>k. db' = db\<lparr>db_statements := k\<rparr> \<and> (\<forall>p. r = Returned p \<longrightarrow> p = find_neighbor db i)"
  using assms by (auto simp: GetBGPNeighborByID_def statement_def Let_def split: option.splits)

lemma read_back_neighbor:
  assumes "db_bind (GetBGPNeighborByID env i) (\<lambda>p. deref p (\<lambda>r. db_return (mapBGPNeighbor r))) db = (r, db')"
  shows "\<exists>k. db' = db\<lparr>db_statements := k\<rparr> \<and>
    (\<forall>n. r = Returned n \<longrightarrow> (\<exists>row. find_neighbor db i = Some row \<and> n = mapBGPNeighbor row))"
proof -
  obtain q db1 where g: "GetBGPNeighborByID env i db = (q, db1)" by fastforce
  from GetBGPNeighborByID_ends[OF this]
  obtain k where k: "db1 = db\<lparr>db_statements := k\<rparr>" "\<And>p. q = Returned p \<Longrightarrow> p = find_neighbor db i"
    by blast
  then show ?thesis
    using assms g
    by (cases q) (auto simp: db_bind_def deref_def db_return_def split: option.splits)
qed

lemma db_bind_assoc: "db_bind (db_bind m f) g = db_bind m (\<lambda>a. db_bind (f a) g)"
  by (rule ext) (simp add: db_bind_def split: prod.split outcome.split)

lemma NeighborRepo_Create_ends:
  assumes "NeighborRepo_Create env n db = (r, db')" "db_ok db" "valid_neighbor n"
  shows "db_ok db' \<and> neighbor_ids db \<subseteq> neighbor_ids db' \<and>
    (\<forall>c. r = Returned c \<longrightarrow> valid_neighbor c \<and> bn_id c \<notin> neighbor_ids db \<and>
       neighbor_ids db' = insert (bn_id c) (neighbor_ids db))"
proof -
  define row where "row = (neighbor_row_of n)\<lparr>br_id := 0\<rparr>"
  define ins where "ins = (\<lambda>db. if find_node db (br_node_id row) = None then (Failed (sq_fk_error env), db)
    else (Returned (db_neighbor_seq db + 1), insert_neighbor (sq_now env) row db))"
  have row: "valid_row row" using assms(3) by (simp add: row_def)
  have ids: "neighbor_ids (insert_neighbor now r d) = insert (db_neighbor_seq d + 1) (neighbor_ids d)" for now r d
    by (simp add: neighbor_ids_def insert_neighbor_def)
  obtain q db1 where w: "statement env ins db = (q, db1)" by fastforce
  have db1: "db_ok db1 \<and> neighbor_ids db \<subseteq> neighbor_ids db1"
    by (rule statement_post[OF w])
       (use assms(2) row in \<open>auto simp: ins_def ids db_ok_insert_neighbor\<close>)
  have rest: "(case q of Returned i \<Rightarrow>
      db_bind (GetBGPNeighborByID env i) (\<lambda>p. deref p (\<lambda>r. db_return (mapBGPNeighbor r))) db1
    | Failed err \<Rightarrow> (Failed err, db1) | Panicked \<Rightarrow> (Panicked, db1)) = (r, db')"
    using assms(1) w unfolding NeighborRepo_Create_def CreateBGPNeighborQ_def db_bind_assoc
      row_def[symmetric] ins_def[symmetric]
    by (subst (asm) db_bind_def) (simp split: outcome.split)
  show ?thesis
  proof (cases q)
    case (Returned i)
    obtain k where "ins (db\<lparr>db_statements := k\<rparr>) = (Returned i, db1)"
      using w unfolding Returned by (rule statement_Returned)
    then have d: "i = db_neighbor_seq db + 1" "db1 = insert_neighbor (sq_now env) row (db\<lparr>db_statements := k\<rparr>)"
      by (auto simp: ins_def split: if_splits)
    have found: "find_neighbor db1 i =
        Some (row\<lparr>br_id := i, br_created_at := sq_now env, br_updated_at := sq_now env\<rparr>)" "i \<notin> neighbor_ids db"
      using find_inserted[of "db\<lparr>db_statements := k\<rparr>"] assms(2) d by simp_all
    have "\<exists>k. db' = db1\<lparr>db_statements := k\<rparr> \<and>
        (\<forall>c. r = Returned c \<longrightarrow> (\<exists>row. find_neighbor db1 i = Some row \<and> c = mapBGPNeighbor row))"
      using read_back_neighbor[of env i db1 r db'] rest Returned by simp
    moreover have "bn_id (mapBGPNeighbor (row\<lparr>br_id := i, br_created_at := x, br_updated_at := y\<rparr>)) = i"
      "valid_neighbor (mapBGPNeighbor (row\<lparr>br_id := i, br_created_at := x, br_updated_at := y\<rparr>))" for x y
      using row unfolding valid_row_def[symmetric] by (simp_all add: mapBGPNeighbor_def)
    moreover have "neighbor_ids db1 = insert i (neighbor_ids db)" using d by (simp add: ids)
    ultimately show ?thesis using db1 found by auto
  qed (use rest db1 in auto)
qed

lemma NeighborRepo_Update_ends:
  assumes "NeighborRepo_Update env n db = (r, db')" "db_ok db" "valid_neighbor n"
  shows "db_ok db' \<and> neighbor_ids db' = neighbor_ids db \<and>
    (\<forall>c. r = Returned c \<longrightarrow> valid_neighbor c \<and> bn_id c \<in> neighbor_ids db)"
proof -
  define row where "row = neighbor_row_of n"
  define upd where "upd = (\<lambda>db. if find_neighbor db (br_id row) \<noteq> None \<and> find_node db (br_node_id row) = None
    then (Failed (sq_fk_error env), db) else (Returned (), update_neighbor (sq_now env) row db))"
  have row: "valid_row row" using assms(3) by (simp add: row_def)
  have ids: "neighbor_ids (update_neighbor now x d) = neighbor_ids d" for now x d
  proof -
    have "map br_id (db_neighbors (update_neighbor now x d)) = map br_id (db_neighbors d)"
      by (simp add: update_neighbor_def)
    then show ?thesis unfolding neighbor_ids_def by (metis set_map)
  qed
  obtain q db1 where w: "statement env upd db = (q, db1)" by fastforce
  have db1: "db_ok db1 \<and> neighbor_ids db1 = neighbor_ids db"
    by (rule statement_post[OF w])
       (use assms(2) row in \<open>auto simp: upd_def ids intro!: db_ok_update_neighbor\<close>)
  have rest: "(case q of Returned i \<Rightarrow>
      db_bind (GetBGPNeighborByID env (br_id row)) (\<lambda>p. deref p (\<lambda>r. db_return (mapBGPNeighbor r))) db1
    | Failed err \<Rightarrow> (Failed err, db1) | Panicked \<Rightarrow> (Panicked, db1)) = (r, db')"
    using assms(1) w unfolding NeighborRepo_Update_def UpdateBGPNeighborQ_def db_bind_assoc
      row_def[symmetric] upd_def[symmetric]
    by (subst (asm) db_bind_def) (simp split: outcome.split)
  show ?thesis
  proof (cases q)
    case (Returned u)
    have "\<exists>k. db' = db1\<lparr>db_statements := k\<rparr> \<and>
        (\<forall>c. r = Returned c \<longrightarrow> (\<exists>x. find_neighbor db1 (br_id row) = Some x \<and> c = mapBGPNeighbor x))"
      using read_back_neighbor[of env "br_id row" db1 r db'] rest Returned by simp
    moreover have "valid_neighbor (mapBGPNeighbor x) \<and> bn_id (mapBGPNeighbor x) \<in> neighbor_ids db"
      if "find_neighbor db1 (br_id row) = Some x" for x
    proof -
      have "x \<in> set (db_neighbors db1)" using find_neighbor_Some[OF that] by simp
      then have "valid_row x" using db1 by (simp add: db_ok_def neighbors_ok_def list_all_iff)
      moreover have "br_id x \<in> neighbor_ids db1"
        using \<open>x \<in> set (db_neighbors db1)\<close> by (simp add: neighbor_ids_def)
      ultimately show ?thesis using db1 by (simp add: valid_row_def mapBGPNeighbor_def)
    qed
    ultimately show ?thesis using db1 by auto
  qed (use rest db1 in auto)
qed

lemma NeighborRepo_Delete_ends:
  assumes "NeighborRepo_Delete env i db = (r, db')" "db_ok db"
  shows "db_ok db' \<and> neighbor_ids db - {i} \<subseteq> neighbor_ids db'"
proof -
  have w: "statement env (\<lambda>db. (Returned (), delete_neighbor i db)) db = (r, db')"
    using assms(1) by (simp add: NeighborRepo_Delete_def DeleteBGPNeighborQ_def)
  have "neighbor_ids (delete_neighbor i d) = neighbor_ids d - {i}" for d
    by (auto simp: neighbor_ids_def delete_neighbor_def)
  then have "db_ok (delete_neighbor i (db\<lparr>db_statements := k\<rparr>)) \<and>
      neighbor_ids db - {i} \<subseteq> neighbor_ids (delete_neighbor i (db\<lparr>db_statements := k\<rparr>))" for k
    using assms(2) db_ok_delete_neighbor[of "db\<lparr>db_statements := k\<rparr>" i] by simp
  then show ?thesis
    using statement_post[OF w, where Q = "\<lambda>d. db_ok d \<and> neighbor_ids db - {i} \<subseteq> neighbor_ids d"] assms(2)
    by simp
qed

subsection \<open>With the manager\<close>

lemma panel_ok_sync:
  assumes "panel_ok srv cfg t p" "syncBGPNeighbor fn p = (err, p')"
    and "\<And>m m'. pn_mgr p = Some m \<Longrightarrow> fn m = (err, m') \<Longrightarrow> mgr_ok srv cfg t ids m'"
    and "ids \<subseteq> neighbor_ids (pn_db p)"
  shows "panel_ok srv cfg t p' \<and> pn_db p' = pn_db p \<and> (\<forall>m. pn_mgr p' = Some m \<longrightarrow> mgr_ok srv cfg t ids m)"
proof (cases "pn_mgr p")
  case None
  then show ?thesis using assms(1,2) by (simp add: syncBGPNeighbor_def)
next
  case (Some m)
  obtain m' where m': "fn m = (err, m')" "p' = p\<lparr>pn_mgr := Some m'\<rparr>"
    using assms(2) Some by (auto simp: syncBGPNeighbor_def split: prod.splits)
  then have "mgr_ok srv cfg t ids m'" using assms(3) Some by blast
  then show ?thesis using assms(1,4) m' mgr_ok_mono by (simp add: panel_ok_def)
qed

lemma panel_ok_new_db:
  assumes "db_ok db" "\<And>m. pn_mgr p = Some m \<Longrightarrow> mgr_ok srv cfg t ids m" "ids \<subseteq> neighbor_ids db"
  shows "panel_ok srv cfg t (p\<lparr>pn_db := db\<rparr>)"
  using assms mgr_ok_mono by (auto simp: panel_ok_def)

lemma panel_ok_CreateNeighbor:
  assumes ok: "panel_ok srv cfg t p" and env: "pe_bgp env = srv" "pe_now env = t"
  shows "panel_ok srv cfg t (snd (CreateBGPNeighbor env cfg body p))"
proof (cases "checked_request env cfg body")
  case (Inr req)
  let ?n = "bgpNeighborFromRequest 0 cfg req"
  note ends = NeighborRepo_Create_ends[of env ?n "pn_db p", OF _ _ checked_valid[OF Inr]]
  have db: "db_ok (pn_db p)" using ok by (simp add: panel_ok_def)
  have mgr: "\<And>m. pn_mgr p = Some m \<Longrightarrow> mgr_ok srv cfg t (neighbor_ids (pn_db p)) m"
    using ok by (simp add: panel_ok_def)
  have "panel_ok srv cfg t (snd (handle (NeighborRepo_Create env ?n) internal_error (\<lambda>created p1.
      case syncBGPNeighbor (AddNeighbor (pe_bgp env) (pe_now env) created) p1 of
        (Some err, p2) \<Rightarrow>
          (Refused 400 (sanitizeError err),
           p2\<lparr>pn_db := snd (NeighborRepo_Delete env (bn_id created) (pn_db p2))\<rparr>)
      | (None, p2) \<Rightarrow> (Reply 201 created, p2)) p))"
  proof (rule handleI)
    fix c db1 assume c: "NeighborRepo_Create env ?n (pn_db p) = (Returned c, db1)"
    note e = ends[OF c db]
    let ?p1 = "p\<lparr>pn_db := db1\<rparr>"
    have p1: "panel_ok srv cfg t ?p1" using panel_ok_new_db[OF _ mgr] e by blast
    obtain err p2 where s: "syncBGPNeighbor (AddNeighbor (pe_bgp env) (pe_now env) c) ?p1 = (err, p2)" by fastforce
    have add: "mgr_ok srv cfg t (insert (bn_id c) (neighbor_ids (pn_db p))) m' \<and>
        (err \<noteq> None \<longrightarrow> mgr_ok srv cfg t (neighbor_ids (pn_db p)) m')"
      if "pn_mgr ?p1 = Some m" "AddNeighbor (pe_bgp env) (pe_now env) c m = (err, m')" for m m'
    proof -
      have m: "mgr_ok srv cfg t (neighbor_ids (pn_db p)) m" using that(1) mgr by simp
      then have "sm_neighbors m (bn_id c) = None" using e by (auto simp: mgr_ok_def)
      then show ?thesis using mgr_ok_Add[OF m] that(2) e env by blast
    qed
    show "panel_ok srv cfg t (snd (case syncBGPNeighbor (AddNeighbor (pe_bgp env) (pe_now env) c) ?p1 of
        (Some err, p2) \<Rightarrow> (Refused 400 (sanitizeError err),
           p2\<lparr>pn_db := snd (NeighborRepo_Delete env (bn_id c) (pn_db p2))\<rparr>)
      | (None, p2) \<Rightarrow> (Reply 201 c, p2)))"
    proof (cases err)
      case None
      then show ?thesis using panel_ok_sync[OF p1 s, of "insert (bn_id c) (neighbor_ids (pn_db p))"] add s e by simp
    next
      case (Some x)
      have p2: "pn_db p2 = db1" "\<And>m. pn_mgr p2 = Some m \<Longrightarrow> mgr_ok srv cfg t (neighbor_ids (pn_db p)) m"
        using panel_ok_sync[OF p1 s, of "neighbor_ids (pn_db p)"] add e Some by auto
      obtain q db2 where d: "NeighborRepo_Delete env (bn_id c) db1 = (q, db2)" by fastforce
      then have "db_ok db2" "neighbor_ids (pn_db p) \<subseteq> neighbor_ids db2"
        using NeighborRepo_Delete_ends[OF d] e by auto
      then have "panel_ok srv cfg t (p2\<lparr>pn_db := db2\<rparr>)" using panel_ok_new_db p2(2) by blast
      then show ?thesis using s Some d p2(1) by simp
    qed
  next
    fix r db1 assume "NeighborRepo_Create env ?n (pn_db p) = (r, db1)"
    then show "panel_ok srv cfg t (p\<lparr>pn_db := db1\<rparr>)" using ends[OF _ db] panel_ok_new_db[OF _ mgr] by blast
  qed
  then show ?thesis using Inr by (simp add: CreateBGPNeighbor_def)
qed (use ok in \<open>simp add: CreateBGPNeighbor_def\<close>)

lemma panel_ok_UpdateNeighbor:
  assumes ok: "panel_ok srv cfg t p" and env: "pe_bgp env = srv" "pe_now env = t"
  shows "panel_ok srv cfg t (snd (UpdateBGPNeighbor env cfg idp body p))"
  unfolding UpdateBGPNeighbor_def
proof (intro panel_ok_with_id ok)
  fix i
  have db: "db_ok (pn_db p)" using ok by (simp add: panel_ok_def)
  have mgr: "\<And>m. pn_mgr p = Some m \<Longrightarrow> mgr_ok srv cfg t (neighbor_ids (pn_db p)) m"
    using ok by (simp add: panel_ok_def)
  have "panel_ok srv cfg t (snd (handle (NeighborRepo_Update env (bgpNeighborFromRequest i cfg req)) internal_error
      (\<lambda>updated p1. case syncBGPNeighbor (UpdateNeighbor (pe_bgp env) (pe_now env) updated) p1 of
          (Some err, p2) \<Rightarrow> (Refused 400 (sanitizeError err), p2)
        | (None, p2) \<Rightarrow> (Reply 200 updated, p2)) p))"
    if req: "checked_request env cfg body = Inr req" for req
  proof (rule handleI)
    fix c db1 assume c: "NeighborRepo_Update env (bgpNeighborFromRequest i cfg req) (pn_db p) = (Returned c, db1)"
    note e = NeighborRepo_Update_ends[OF c db checked_valid[OF req]]
    let ?p1 = "p\<lparr>pn_db := db1\<rparr>"
    have p1: "panel_ok srv cfg t ?p1" using panel_ok_new_db[OF _ mgr] e by simp
    obtain err p2 where s: "syncBGPNeighbor (UpdateNeighbor (pe_bgp env) (pe_now env) c) ?p1 = (err, p2)" by fastforce
    have "mgr_ok srv cfg t (neighbor_ids (pn_db p)) m'"
      if "pn_mgr ?p1 = Some m" "UpdateNeighbor (pe_bgp env) (pe_now env) c m = (err, m')" for m m'
      using mgr_ok_Update[OF mgr, of m c] that e env by simp
    then have "panel_ok srv cfg t p2" using panel_ok_sync[OF p1 s, of "neighbor_ids (pn_db p)"] e by simp
    then show "panel_ok srv cfg t (snd (case syncBGPNeighbor (UpdateNeighbor (pe_bgp env) (pe_now env) c) ?p1 of
          (Some err, p2) \<Rightarrow> (Refused 400 (sanitizeError err), p2)
        | (None, p2) \<Rightarrow> (Reply 200 c, p2)))"
      using s by (simp split: option.split)
  next
    fix r db1 assume "NeighborRepo_Update env (bgpNeighborFromRequest i cfg req) (pn_db p) = (r, db1)"
    note e = NeighborRepo_Update_ends[OF this db checked_valid[OF req]]
    show "panel_ok srv cfg t (p\<lparr>pn_db := db1\<rparr>)" using panel_ok_new_db[OF _ mgr] e by simp
  qed
  then show "panel_ok srv cfg t (snd (case checked_request env cfg body of
      Inl msg \<Rightarrow> (Refused 400 msg, p)
    | Inr req \<Rightarrow> handle (NeighborRepo_Update env (bgpNeighborFromRequest i cfg req)) internal_error
        (\<lambda>updated p1. case syncBGPNeighbor (UpdateNeighbor (pe_bgp env) (pe_now env) updated) p1 of
            (Some err, p2) \<Rightarrow> (Refused 400 (sanitizeError err), p2)
          | (None, p2) \<Rightarrow> (Reply 200 updated, p2)) p))"
    using ok by (simp split: sum.split)
qed

lemma panel_ok_DeleteNeighbor:
  assumes ok: "panel_ok srv cfg t p" and env: "pe_bgp env = srv" "pe_now env = t"
  shows "panel_ok srv cfg t (snd (DeleteBGPNeighbor env idp p))"
  unfolding DeleteBGPNeighbor_def
proof (intro panel_ok_with_id ok)
  fix i
  have mgr: "\<And>m. pn_mgr p = Some m \<Longrightarrow> mgr_ok srv cfg t (neighbor_ids (pn_db p)) m"
    using ok by (simp add: panel_ok_def)
  obtain err p1 where s: "syncBGPNeighbor (RemoveNeighbor (pe_bgp env) (pe_now env) i) p = (err, p1)" by fastforce
  have rm: "mgr_ok srv cfg t (neighbor_ids (pn_db p)) m' \<and>
      (err = None \<longrightarrow> mgr_ok srv cfg t (neighbor_ids (pn_db p) - {i}) m')"
    if "pn_mgr p = Some m" "RemoveNeighbor (pe_bgp env) (pe_now env) i m = (err, m')" for m m'
    using mgr_ok_Remove[OF mgr] that env by simp
  have p1: "panel_ok srv cfg t p1" "pn_db p1 = pn_db p"
    using panel_ok_sync[OF ok s, of "neighbor_ids (pn_db p)"] rm by auto
  show "panel_ok srv cfg t (snd (case syncBGPNeighbor (RemoveNeighbor (pe_bgp env) (pe_now env) i) p of
      (Some err, p1) \<Rightarrow> (Refused 400 (sanitizeError err), p1)
    | (None, p1) \<Rightarrow> handle (NeighborRepo_Delete env i) internal_error (\<lambda>_ p2. (Reply 200 ''deleted'', p2)) p1))"
  proof (cases err)
    case None
    have m1: "\<And>m. pn_mgr p1 = Some m \<Longrightarrow> mgr_ok srv cfg t (neighbor_ids (pn_db p) - {i}) m"
      using panel_ok_sync[OF ok s, of "neighbor_ids (pn_db p) - {i}"] rm None by auto
    have "panel_ok srv cfg t (p1\<lparr>pn_db := db2\<rparr>)" if "NeighborRepo_Delete env i (pn_db p1) = (q, db2)" for q db2
    proof (rule panel_ok_new_db[OF _ m1])
      show "db_ok db2" and "neighbor_ids (pn_db p) - {i} \<subseteq> neighbor_ids db2"
        using NeighborRepo_Delete_ends[OF that] p1 by (auto simp: panel_ok_def)
    qed
    note deleted = this
    have "panel_ok srv cfg t (snd (handle (NeighborRepo_Delete env i) internal_error
        (\<lambda>_ p2. (Reply 200 ''deleted'', p2)) p1))"
      by (rule handleI[where Q = "panel_ok srv cfg t"]) (simp_all add: deleted)
    then show ?thesis using s None by simp
  qed (use s p1 in simp)
qed

section \<open>Deleting a node\<close>

lemma NodeRepo_Delete_ends:
  assumes "NodeRepo_Delete env i db = (r, db')" "db_ok db"
  shows "db_ok db' \<and> {br_id r | r. r \<in> set (db_neighbors db) \<and> br_node_id r \<noteq> i} \<subseteq> neighbor_ids db'"
proof -
  let ?rest = "{br_id r | r. r \<in> set (db_neighbors db) \<and> br_node_id r \<noteq> i}"
  obtain q db1 where d: "DeleteNodeQ env i db = (q, db1)" by fastforce
  then have w: "statement env (\<lambda>db. (Returned (), delete_node i db)) db = (q, db1)" by (simp add: DeleteNodeQ_def)
  have "?rest \<subseteq> neighbor_ids (delete_node i (db\<lparr>db_statements := k\<rparr>))" for k
    by (auto simp: neighbor_ids_def delete_node_def)
  moreover have "?rest \<subseteq> neighbor_ids db" by (auto simp: neighbor_ids_def)
  ultimately have db1: "db_ok db1 \<and> ?rest \<subseteq> neighbor_ids db1"
    using statement_post[OF w, where Q = "\<lambda>d. db_ok d \<and> ?rest \<subseteq> neighbor_ids d"] assms(2)
    by (simp add: db_ok_delete_node)
  have "node_frame (db_neighbors db1) (db_neighbor_seq db1) (snd (ensureDefault env db1))"
    using node_frame_ensure db1 by (auto simp: db_keeps_def node_frame_def)
  then have "db_ok (snd (ensureDefault env db1))" "neighbor_ids (snd (ensureDefault env db1)) = neighbor_ids db1"
    by (simp_all add: node_frame_def neighbor_ids_def)
  then show ?thesis
    using assms(1) d db1 by (cases q) (auto simp: NodeRepo_Delete_def db_bind_def)
qed

lemma remove_loop_ok:
  assumes "remove_loop env ns p = (err, p')" "panel_ok srv cfg t p" "pe_bgp env = srv" "pe_now env = t"
    "\<forall>m. pn_mgr p = Some m \<longrightarrow> mgr_ok srv cfg t ids m" "ids \<subseteq> neighbor_ids (pn_db p)"
  shows "panel_ok srv cfg t p' \<and> pn_db p' = pn_db p \<and>
    (err = None \<longrightarrow> (\<forall>m. pn_mgr p' = Some m \<longrightarrow> mgr_ok srv cfg t (ids - bn_id ` set ns) m))"
  using assms(1,2,5,6)
proof (induction ns arbitrary: p ids)
  case (Cons n ns)
  obtain e p1 where s: "syncBGPNeighbor (RemoveNeighbor (pe_bgp env) (pe_now env) (bn_id n)) p = (e, p1)" by fastforce
  have rm: "mgr_ok srv cfg t ids m' \<and> (e = None \<longrightarrow> mgr_ok srv cfg t (ids - {bn_id n}) m')"
    if "pn_mgr p = Some m" "RemoveNeighbor (pe_bgp env) (pe_now env) (bn_id n) m = (e, m')" for m m'
    using mgr_ok_Remove[of srv cfg t ids m] that Cons.prems(3) assms(3,4) by simp
  have p1: "panel_ok srv cfg t p1 \<and> pn_db p1 = pn_db p"
    using panel_ok_sync[OF Cons.prems(2) s, of ids] rm Cons.prems(4) by blast
  show ?case
  proof (cases e)
    case None
    then have loop: "remove_loop env ns p1 = (err, p')" using Cons.prems(1) s by simp
    have m1: "\<forall>m. pn_mgr p1 = Some m \<longrightarrow> mgr_ok srv cfg t (ids - {bn_id n}) m"
      using panel_ok_sync[OF Cons.prems(2) s, of "ids - {bn_id n}"] rm None Cons.prems(4) by blast
    have "ids - {bn_id n} - bn_id ` set ns = ids - bn_id ` set (n # ns)" by auto
    then show ?thesis using Cons.IH[OF loop _ m1] p1 Cons.prems(4) by auto
  qed (use Cons.prems(1) s p1 in auto)
qed simp

lemma NeighborRepo_GetByNodeID_Returned:
  assumes "NeighborRepo_GetByNodeID env i db = (Returned ns, db1)"
  shows "bn_id ` set ns = {br_id r | r. r \<in> set (db_neighbors db) \<and> br_node_id r = i} \<and>
    db_neighbors db1 = db_neighbors db"
proof -
  have "ns = map mapBGPNeighbor (filter (\<lambda>r. br_node_id r = i) (db_neighbors db)) \<and> db_neighbors db1 = db_neighbors db"
    using assms
    by (auto simp: NeighborRepo_GetByNodeID_def db_bind_def db_return_def GetBGPNeighborsByNodeID_def statement_def
        Let_def split: prod.splits outcome.splits option.splits)
  moreover have "bn_id (mapBGPNeighbor r) = br_id r" for r by (simp add: mapBGPNeighbor_def)
  ultimately show ?thesis by (auto simp: image_image)
qed

lemma panel_ok_delete_rows:
  assumes "panel_ok srv cfg t p"
    "\<forall>m. pn_mgr p = Some m \<longrightarrow>
       mgr_ok srv cfg t {br_id r | r. r \<in> set (db_neighbors (pn_db p)) \<and> br_node_id r \<noteq> i} m"
  shows "panel_ok srv cfg t (snd (handle (NodeRepo_Delete env i) internal_error
      (\<lambda>_ p. (Reply 200 ''deleted'', refresh_nodes env p)) p))"
proof -
  have *: "panel_ok srv cfg t (p\<lparr>pn_db := db1\<rparr>)" if "NodeRepo_Delete env i (pn_db p) = (r, db1)" for r db1
  proof (rule panel_ok_new_db)
    have "db_ok (pn_db p)" using assms(1) by (simp add: panel_ok_def)
    note e = NodeRepo_Delete_ends[OF that this]
    show "db_ok db1" using e by blast
    show "{br_id r | r. r \<in> set (db_neighbors (pn_db p)) \<and> br_node_id r \<noteq> i} \<subseteq> neighbor_ids db1" using e by blast
  qed (use assms(2) in blast)
  show ?thesis
    by (rule handleI[where Q = "panel_ok srv cfg t"]) (use * panel_ok_refresh in auto)
qed

lemma panel_ok_DeleteNode:
  assumes ok: "panel_ok srv cfg t p" and env: "pe_bgp env = srv" "pe_now env = t"
  shows "panel_ok srv cfg t (snd (DeleteNode env idp p))"
  unfolding DeleteNode_def
proof (intro panel_ok_with_id ok)
  fix i
  let ?k = "handle (NodeRepo_Delete env i) internal_error (\<lambda>_ p. (Reply 200 ''deleted'', refresh_nodes env p))"
  let ?rest = "\<lambda>db. {br_id r | r. r \<in> set (db_neighbors db) \<and> br_node_id r \<noteq> i}"
  show "panel_ok srv cfg t (snd (removeBGPNeighborsForNode env i ?k p))"
  proof (cases "pn_mgr p = None")
    case True
    then show ?thesis using panel_ok_delete_rows[OF ok] by (simp add: removeBGPNeighborsForNode_def)
  next
    case False
    have "panel_ok srv cfg t (snd (handle (NeighborRepo_GetByNodeID env i) internal_error (\<lambda>ns p1.
        case remove_loop env ns p1 of (Some err, p2) \<Rightarrow> (internal_error err, p2) | (None, p2) \<Rightarrow> ?k p2) p))"
    proof (rule handleI[where Q = "panel_ok srv cfg t"])
      fix ns db1 assume g: "NeighborRepo_GetByNodeID env i (pn_db p) = (Returned ns, db1)"
      note e = NeighborRepo_GetByNodeID_Returned[OF g]
      let ?p1 = "p\<lparr>pn_db := db1\<rparr>"
      have p1: "panel_ok srv cfg t ?p1" by (rule panel_ok_call[OF ok node_frame_repo(5) g])
      obtain err p2 where l: "remove_loop env ns ?p1 = (err, p2)" by fastforce
      have "\<forall>m. pn_mgr ?p1 = Some m \<longrightarrow> mgr_ok srv cfg t (neighbor_ids db1) m" using p1 by (simp add: panel_ok_def)
      note r = remove_loop_ok[OF l p1 env this]
      have "neighbor_ids db1 - bn_id ` set ns \<subseteq> ?rest db1" using e by (auto simp: neighbor_ids_def)
      then have "panel_ok srv cfg t (snd (?k p2))" if "err = None"
        using panel_ok_delete_rows[of srv cfg t p2 i env] r that mgr_ok_mono by fastforce
      then show "panel_ok srv cfg t (snd (case remove_loop env ns ?p1 of
          (Some err, p2) \<Rightarrow> (internal_error err, p2) | (None, p2) \<Rightarrow> ?k p2))"
        using l r by (cases err) simp_all
    qed (rule panel_ok_call[OF ok node_frame_repo(5)])
    then show ?thesis unfolding removeBGPNeighborsForNode_def by (simp only: False if_False)
  qed
qed

section \<open>Reading neighbours, events and restarts\<close>

lemma panel_ok_mgr:
  assumes "panel_ok srv cfg t p" "\<And>m. pn_mgr p = Some m \<Longrightarrow> own_event ev"
  shows "panel_ok srv cfg t (on_manager (session_apply srv t ev) p)"
  using assms mgr_ok_apply by (auto simp: panel_ok_def on_manager_def)

lemma panel_ok_list_loop:
  assumes "panel_ok srv cfg t p" "pe_bgp env = srv" "pe_now env = t"
  shows "panel_ok srv cfg t (snd (neighbor_list_loop env cfg st ns p))"
  using assms(1)
proof (induction ns arbitrary: p)
  case (Cons n ns)
  define p1 where "p1 = (case pn_mgr p of None \<Rightarrow> p | Some m \<Rightarrow>
    if state_or_none st (bn_id n) = SessEstablished
    then p\<lparr>pn_mgr := Some (snd (GetPrefixesReceived (pe_bgp env) (pe_now env) (bn_id n) m))\<rparr> else p)"
  have "p1 \<in> {p, on_manager (session_apply srv t (OpPrefixes (bn_id n))) p}"
    using assms(2,3) by (auto simp: p1_def on_manager_def split: option.split)
  then have "panel_ok srv cfg t p1" using Cons.prems panel_ok_mgr[OF Cons.prems] by auto
  moreover have "snd (neighbor_list_loop env cfg st (n # ns) p) = snd (neighbor_list_loop env cfg st ns p1)"
    by (simp add: p1_def Let_def split: option.split prod.split)
  ultimately show ?case using Cons.IH by simp
qed simp

lemma panel_ok_ListNeighbors:
  assumes "panel_ok srv cfg t p" "pe_bgp env = srv" "pe_now env = t"
  shows "panel_ok srv cfg t (snd (ListBGPNeighbors env cfg p))"
  unfolding ListBGPNeighbors_def
proof (rule panel_ok_handle[OF assms(1) node_frame_repo(4)])
  fix ns p1 assume "panel_ok srv cfg t p1"
  from panel_ok_list_loop[OF this assms(2,3), of "bgpStatuses p1" ns]
  show "panel_ok srv cfg t (snd (case neighbor_list_loop env cfg (bgpStatuses p1) ns p1 of
      (rows, p1) \<Rightarrow> (Reply 200 rows, p1)))"
    by (simp add: case_prod_unfold)
qed

lemma mgr_ok_fold:
  assumes "mgr_ok srv cfg t ids m" "distinct (map bn_id ns)" "bn_id ` set ns \<inter> ids = {}"
    "\<forall>n \<in> set ns. valid_neighbor n"
  shows "mgr_ok srv cfg t (ids \<union> bn_id ` set ns) (fold (\<lambda>n s. snd (AddNeighbor srv t n s)) ns m)"
  using assms
proof (induction ns arbitrary: m ids)
  case (Cons n ns)
  obtain r m1 where A: "AddNeighbor srv t n m = (r, m1)" by fastforce
  have "sm_neighbors m (bn_id n) = None" using Cons.prems(1,3) by (auto simp: mgr_ok_def)
  then have "mgr_ok srv cfg t (insert (bn_id n) ids) m1"
    using mgr_ok_Add(1)[OF Cons.prems(1) A] Cons.prems(4) by simp
  then have "mgr_ok srv cfg t (insert (bn_id n) ids \<union> bn_id ` set ns)
      (fold (\<lambda>n s. snd (AddNeighbor srv t n s)) ns m1)"
    by (rule Cons.IH) (use Cons.prems in auto)
  then show ?case using A by simp
qed simp

lemma mgr_ok_started:
  assumes "0 \<le> t"
  shows "mgr_ok srv cfg t {} (snd (Start srv (NewSessionManager cfg)))"
proof -
  have "session_reach srv cfg t (snd (Start srv (NewSessionManager cfg)))"
    using session_reach.op[OF session_reach.init[OF assms], of OpStart] by simp
  moreover have "sm_neighbors (snd (Start srv (NewSessionManager cfg))) = Map.empty"
    using Start_effect(1)[of srv "NewSessionManager cfg"] by (simp add: reg_def NewSessionManager_def)
  ultimately show ?thesis by (simp add: mgr_ok_def peers_ok_Start peers_ok_New)
qed

text \<open>The rows \<open>GetAll\<close> returns, in whatever order.\<close>

lemma NeighborRepo_GetAll_Returned:
  assumes "NeighborRepo_GetAll env db = (Returned ns, db1)" "slice_sorter (sq_sort_neighbors env)" "db_ok db"
  shows "distinct (map bn_id ns) \<and> bn_id ` set ns = neighbor_ids db \<and> (\<forall>n \<in> set ns. valid_neighbor n) \<and>
    neighbor_ids db1 = neighbor_ids db"
proof -
  define rows where "rows = sq_sort_neighbors env (\<lambda>a b. str_less (br_created_at b) (br_created_at a)) (db_neighbors db)"
  have ns: "ns = map mapBGPNeighbor rows" "db_neighbors db1 = db_neighbors db"
    using assms(1)
    by (auto simp: NeighborRepo_GetAll_def db_bind_def db_return_def GetAllBGPNeighbors_def statement_def Let_def
        rows_def split: prod.splits outcome.splits option.splits)
  have perm: "mset rows = mset (db_neighbors db)" using slice_sorter.perm[OF assms(2)] by (simp add: rows_def)
  then have set: "set rows = set (db_neighbors db)" by (rule mset_eq_setD)
  have id: "bn_id (mapBGPNeighbor r) = br_id r" for r by (simp add: mapBGPNeighbor_def)
  have "distinct (map br_id (db_neighbors db))" "\<forall>r \<in> set (db_neighbors db). valid_row r"
    using assms(3) by (simp_all add: db_ok_def neighbors_ok_def table_ok_def list_all_iff)
  moreover have "mset (map br_id rows) = mset (map br_id (db_neighbors db))" using perm by simp
  then have "distinct (map br_id rows) = distinct (map br_id (db_neighbors db))" by (rule mset_eq_imp_distinct_iff)
  moreover have "map bn_id ns = map br_id rows" by (simp only: ns(1) map_map comp_def id)
  ultimately have "distinct (map bn_id ns)" "\<forall>n \<in> set ns. valid_neighbor n"
    using set by (simp only:, simp add: ns(1) valid_row_def)
  moreover have "bn_id ` set ns = neighbor_ids db" "neighbor_ids db1 = neighbor_ids db"
    using ns set id by (simp_all add: neighbor_ids_def image_image)
  ultimately show ?thesis by simp
qed

lemma panel_ok_boot:
  assumes ok: "panel_ok srv cfg t p" and env: "pe_bgp env = srv" "pe_now env = t" "0 \<le> t"
    "slice_sorter (sq_sort_neighbors env)"
  shows "panel_ok srv cfg t (boot env cfg p)"
proof -
  define p1 where "p1 = refresh_nodes env (p\<lparr>pn_cache := empty_node_cache\<rparr>)"
  have "panel_ok srv cfg t p1" unfolding p1_def by (rule panel_ok_refresh) (use ok in simp)
  then have p1: "db_ok (pn_db p1)" by (simp add: panel_ok_def)
  obtain e m where s: "Start srv (NewSessionManager cfg) = (e, m)" by fastforce
  have m: "mgr_ok srv cfg t {} m" using mgr_ok_started[OF env(3), of srv cfg] s by simp
  obtain r db1 where g: "NeighborRepo_GetAll env (pn_db p1) = (r, db1)" by fastforce
  have "node_frame (db_neighbors (pn_db p1)) (db_neighbor_seq (pn_db p1)) (pn_db p1)"
    using p1 by (simp add: node_frame_def)
  then have "node_frame (db_neighbors (pn_db p1)) (db_neighbor_seq (pn_db p1)) (snd (NeighborRepo_GetAll env (pn_db p1)))"
    using node_frame_repo(4)[unfolded db_keeps_def] by blast
  then have db1: "db_ok db1" using g by (simp add: node_frame_def)
  have loaded: "mgr_ok srv cfg t (neighbor_ids db1) (fold (\<lambda>n s. snd (AddNeighbor srv t n s)) ns m)"
    if "r = Returned ns" for ns
    using mgr_ok_fold[OF m, of ns] NeighborRepo_GetAll_Returned[OF _ env(4) p1, of ns db1] g that by simp
  have post: "db_ok db \<and> (\<forall>m. mgr = Some m \<longrightarrow> mgr_ok srv cfg t (neighbor_ids db) m)"
    if "boot_manager env cfg (pn_db p1) = (mgr, db)" for mgr db
  proof (cases e)
    case None
    note m' = mgr_ok_mono[OF m empty_subsetI, of "neighbor_ids db1"]
    show ?thesis
    proof (cases r)
      case (Returned ns)
      then have "mgr = Some (fold (\<lambda>n s. snd (AddNeighbor srv t n s)) ns m)" "db = db1"
        using that s g None env by (simp_all add: boot_manager_def LoadNeighbors_def)
      then show ?thesis using db1 loaded[OF Returned] by simp
    next
      case (Failed err)
      then have "mgr = Some m" "db = db1"
        using that s g None env by (simp_all add: boot_manager_def LoadNeighbors_def)
      then show ?thesis using db1 m' by simp
    next
      case Panicked
      then have "mgr = Some m" "db = db1" using that s g None env by (simp_all add: boot_manager_def)
      then show ?thesis using db1 m' by simp
    qed
  next
    case (Some err)
    then have "mgr = None" "db = pn_db p1" using that s env by (simp_all add: boot_manager_def)
    then show ?thesis using p1 by simp
  qed
  obtain mgr db where b: "boot_manager env cfg (pn_db p1) = (mgr, db)" by fastforce
  then have "boot env cfg p = p1\<lparr>pn_mgr := mgr, pn_db := db\<rparr>" by (simp add: boot_def Let_def p1_def)
  then show ?thesis using post[OF b] by (simp add: panel_ok_def)
qed

lemma panel_ok_apply:
  assumes "panel_ok srv cfg t p" "pe_bgp env = srv" "pe_now env = t" "0 \<le> t"
    "slice_sorter (sq_sort_neighbors env)" "panel_op_ok op"
  shows "panel_ok srv cfg t (panel_apply env cfg op p)"
  using assms panel_ok_mgr[of srv cfg t p]
  by (cases op)
     (simp_all add: panel_ok_CreateNode panel_ok_UpdateNode panel_ok_SetDefault panel_ok_DeleteNode
        panel_ok_CreateNeighbor panel_ok_UpdateNeighbor panel_ok_DeleteNeighbor panel_ok_ListNeighbors panel_ok_boot)

lemma panel_reach_time: "panel_reach E srv cfg t p \<Longrightarrow> 0 \<le> t"
  by (induction rule: panel_reach.induct) simp_all

lemma panel_reach_ok:
  assumes "panel_reach E srv cfg t p" "\<And>env. E env \<Longrightarrow> slice_sorter (sq_sort_neighbors env)"
  shows "panel_ok srv cfg t p"
  using assms(1)
proof (induction rule: panel_reach.induct)
  case (init t)
  show ?case
    by (simp add: panel_ok_def empty_panel_def db_ok_def neighbors_ok_def keys_ok_def one_default_def
        default_ids_def table_ok_def)
next
  case (step t p env op)
  have "0 \<le> pe_now env" using panel_reach_time[OF step.hyps(1)] step.hyps(4) by simp
  then show ?case
    using panel_ok_apply[OF panel_ok_wait[OF step.IH step.hyps(4)] step.hyps(3) refl _ assms(2)[OF step.hyps(2)]]
      step.hyps(5) by blast
qed

end
