(* ===== verification/Panel.thy ===== *)
theory Panel
  imports PanelInvariant
begin

text \<open>
  What holds of the panel in every reachable state, a concrete run, and what the administration
  interface gets wrong.
\<close>

section \<open>The default node\<close>

definition never_fails :: "'e sql_env_scheme \<Rightarrow> bool" where
  "never_fails env \<longleftrightarrow> (\<forall>k. sq_error env k = None)"

lemma never_fails_statement:
  "never_fails env \<Longrightarrow> statement env f db = f (db\<lparr>db_statements := Suc (db_statements db)\<rparr>)"
  by (simp add: never_fails_def statement_def Let_def)

lemma min_id_loop_Min: "min_id_loop m rs = Min (insert m (nr_id ` set rs))"
proof (induction rs arbitrary: m)
  case (Cons r rs)
  show ?case
  proof (cases "rs = []")
    case False
    then have "Min (insert m (nr_id ` set (r # rs))) = min m (min (nr_id r) (Min (nr_id ` set rs)))" by simp
    moreover have "Min (insert (if nr_id r < m then nr_id r else m) (nr_id ` set rs)) =
        min (if nr_id r < m then nr_id r else m) (Min (nr_id ` set rs))" using False by simp
    ultimately show ?thesis using Cons by (simp add: min_def)
  qed simp
qed simp

text \<open>Whoever was the default stays it; when nobody was, the node with the lowest id becomes it.\<close>

lemma ensureDefault_default:
  assumes "never_fails env" "slice_sorter (sq_sort_nodes env)" "db_nodes db \<noteq> []"
  shows "default_ids (snd (ensureDefault env db)) =
    (if default_ids db = {} then {Min (nr_id ` set (db_nodes db))} else default_ids db)"
proof -
  define rows where "rows = sq_sort_nodes env (\<lambda>a b. str_less (nr_name a) (nr_name b)) (db_nodes db)"
  have set: "set rows = set (db_nodes db)" using slice_sorter.srt_set[OF assms(2)] by (simp add: rows_def)
  then have ne: "rows \<noteq> []" using assms(3) by auto
  have any: "list_ex (\<lambda>n. nr_is_default n = 1) rows \<longleftrightarrow> default_ids db \<noteq> {}"
    unfolding list_ex_iff set default_ids_def by auto
  have "rows ! 0 \<in> set rows" using ne by simp
  then have min: "min_id_loop (nr_id (rows ! 0)) rows = Min (nr_id ` set (db_nodes db))"
    unfolding min_id_loop_Min set[symmetric] by (simp add: insert_absorb)
  have get: "GetAllNodes env db = (Returned rows, db\<lparr>db_statements := Suc (db_statements db)\<rparr>)"
    using assms(1) by (simp add: GetAllNodes_def never_fails_statement rows_def)
  have "Min (nr_id ` set (db_nodes db)) \<in> nr_id ` set (db_nodes db)" using assms(3) by simp
  then have found: "find_node db (Min (nr_id ` set (db_nodes db))) \<noteq> None" by (simp add: find_node_iff)
  have marked: "default_ids (set_default i (db\<lparr>db_statements := k\<rparr>)) = {i}" if "find_node db i \<noteq> None" for i k
  proof -
    obtain r where r: "r \<in> set (db_nodes db)" "nr_id r = i" using \<open>find_node db i \<noteq> None\<close> by (auto simp: find_node_iff)
    let ?db = "set_default i (db\<lparr>db_statements := k\<rparr>)"
    let ?r = "r\<lparr>nr_is_default := (if nr_id r = i then 1 else 0)\<rparr>"
    have "?r \<in> set (db_nodes ?db)" using r(1) by (simp add: set_default_def)
    moreover have "nr_id ?r = i" "nr_is_default ?r = 1" using r(2) by simp_all
    ultimately have "i \<in> default_ids ?db" unfolding default_ids_def by (intro CollectI exI[of _ ?r]) simp
    then show ?thesis using default_ids_set[of i "db\<lparr>db_statements := k\<rparr>"] by blast
  qed
  have same: "default_ids (db\<lparr>db_statements := k\<rparr>) = default_ids db" for k by (simp add: default_ids_def)
  show ?thesis
  proof (cases "default_ids db = {}")
    case True
    then have "ensureDefault env db =
        SetDefaultNodeQ env (Min (nr_id ` set (db_nodes db))) (db\<lparr>db_statements := Suc (db_statements db)\<rparr>)"
      using get any ne min by (simp add: ensureDefault_def db_bind_def)
    then show ?thesis
      using True found marked assms(1) by (simp add: SetDefaultNodeQ_def never_fails_statement)
  next
    case False
    then show ?thesis using get any ne same by (simp add: ensureDefault_def db_bind_def db_return_def)
  qed
qed

lemma refresh_nodes_default:
  assumes "never_fails env"
  shows "default_ids (pn_db (refresh_nodes env p)) = default_ids (snd (ensureDefault env (pn_db p)))"
proof -
  obtain r db1 where e: "ensureDefault env (pn_db p) = (r, db1)" by fastforce
  show ?thesis
    using e assms
    by (cases r) (simp_all add: refresh_nodes_def RefreshNodes_def NodeRepo_GetActive_def db_bind_def db_return_def
        GetActiveNodes_def never_fails_statement default_ids_def)
qed

section \<open>Properties\<close>


text \<open>C11: Every peer GoBGP was ever asked to add has our configured AS, a non-zero AS of its own and two
  addresses that parse, through every path by which a neighbour reaches the manager.\<close>

theorem panel_peers_valid:
  assumes "panel_reach E srv cfg t p" and "\<And>env. E env \<Longrightarrow> slice_sorter (sq_sort_neighbors env)"
    and "pn_mgr p = Some m" and "AddPeer pc \<in> set (sm_calls m)"
  shows "pc_local_asn pc = cf_local_as cfg \<and> cf_local_as cfg \<noteq> 0 \<and> pc_peer_asn pc \<noteq> 0 \<and>
    parse_ip (pc_neighbor_address pc) \<noteq> None \<and> parse_ip (pc_local_address pc) \<noteq> None"
  using panel_reach_ok[OF assms(1,2)] assms(3,4)
  by (auto simp: panel_ok_def mgr_ok_def peers_ok_def peers_added_def peer_ok_def)


section \<open>A run\<close>

definition sample_env :: panel_env where
  "sample_env = \<lparr>sq_error = (\<lambda>_. None), sq_now = ''2026-01-01 00:00:00'', sq_fk_error = PlainError ''fk'',
     sq_no_rows = PlainError ''sql: no rows in result set'', sq_sort_nodes = slice_insertion_sort,
     sq_sort_neighbors = slice_insertion_sort, rp_key = [], rp_gcm = toy_gcm, rp_random = Inr toy_nonce,
     rp_marshal = join_str '','', rp_unmarshal = split_char (CHR '',''), rp_parse = (\<lambda>_ _. Some 1),
     pe_now = 5, pe_bgp = sample_gobgp, pe_url_parse = (\<lambda>_. None), pe_lookup = (\<lambda>_. Inr []),
     pe_ifaces = None, pe_error_text = (\<lambda>_. ''error''), pe_required = ''required'', pe_driver = (\<lambda>_. Inr None)\<rparr>"

definition sample_node_request :: node_request where
  "sample_node_request = \<lparr>nq_name = ''fra1'', nq_description = [], nq_type = ''standalone'', nq_city = [],
     nq_country = [], nq_lat = Some 3, nq_lon = Some 4, nq_active = Some True, nq_enabled_cmds = [''ping''],
     nq_agent_url = [], nq_agent_token = ''tok''\<rparr>"

definition sample_neighbor_request :: bgpNeighborRequest where
  "sample_neighbor_request = \<lparr>rq_node_id = 1, rq_remote_as = 64501, rq_peering_ip = '' 192.0.2.1'',
     rq_neighbor_ip = ''192.0.2.2'', rq_ipv6_peering_ip = [], rq_ipv6_neighbor_ip = [], rq_multihop = False,
     rq_passive_mode = None, rq_default_route_as = 0\<rparr>"

definition sample_panel :: panel where
  "sample_panel = fold (panel_apply sample_env sample_bgp_config)
     [DoCreateNode (Inr sample_node_request), DoBoot, DoCreateNeighbor (Inr sample_neighbor_request)] empty_panel"

definition sample_only :: "panel_env \<Rightarrow> bool" where "sample_only env \<longleftrightarrow> env = sample_env"

lemma sample_sorts: "sample_only env \<Longrightarrow> slice_sorter (sq_sort_neighbors env)"
  by (simp add: sample_only_def sample_env_def gs.slice_sorter_axioms)

lemma sample_reach: "panel_reach sample_only sample_gobgp sample_bgp_config 5 sample_panel"
proof -
  have env: "pe_now sample_env = 5" "pe_bgp sample_env = sample_gobgp" "sample_only sample_env"
    by (simp_all add: sample_env_def sample_only_def)
  have step: "panel_reach sample_only sample_gobgp sample_bgp_config 5 (panel_apply sample_env sample_bgp_config op p)"
    if "panel_reach sample_only sample_gobgp sample_bgp_config 5 p" "panel_op_ok op" for op p
    using panel_reach.step[OF that(1) env(3,2) _ that(2)] env(1) by simp
  have init: "panel_reach sample_only sample_gobgp sample_bgp_config 5 empty_panel" by (rule panel_reach.init) simp
  show ?thesis
    unfolding sample_panel_def fold_simps by (intro step init) (simp_all only: panel_op_ok.simps)
qed

lemma sample_manager:
  "map_option (\<lambda>m. map_option ne_neighbor_ip (sm_neighbors m 1)) (pn_mgr sample_panel) = Some (Some ''192.0.2.2'')"
  by code_simp

lemma sample_calls:
  "map_option (\<lambda>m. map (\<lambda>c. map_option pc_neighbor_address (added_peer c)) (sm_calls m)) (pn_mgr sample_panel) =
     Some [None, Some ''192.0.2.2'']"
  by code_simp


lemma panel_peers_valid_witness:
  "\<exists>m pc. pn_mgr sample_panel = Some m \<and> AddPeer pc \<in> set (sm_calls m) \<and> pc_local_asn pc = 64500"
proof -
  obtain m where m: "pn_mgr sample_panel = Some m"
      "map (\<lambda>c. map_option pc_neighbor_address (added_peer c)) (sm_calls m) = [None, Some ''192.0.2.2'']"
    using sample_calls by (cases "pn_mgr sample_panel") auto
  then obtain c where "c \<in> set (sm_calls m)" "map_option pc_neighbor_address (added_peer c) = Some ''192.0.2.2''"
    by (auto simp: map_eq_Cons_conv intro: that)
  then obtain pc where pc: "AddPeer pc \<in> set (sm_calls m)" by (cases c rule: added_peer.cases) auto
  then show ?thesis
    using panel_peers_valid[OF sample_reach sample_sorts m(1) pc] m(1)
    by (auto simp: sample_bgp_config_def)
qed


section \<open>What goes wrong\<close>

text \<open>A node is created without its longitude, the latitude is kept; an update stores both.\<close>

lemma CreateNode_drops_longitude:
  "(case fst (CreateNode sample_env (Inr sample_node_request) empty_panel) of
      Reply c n \<Rightarrow> c = 201 \<and> n_lat n = Some 3 \<and> n_lon n = None | _ \<Rightarrow> False) \<and>
   (case fst (UpdateNode sample_env ''1'' (Inr sample_node_request) sample_panel) of
      Reply c n \<Rightarrow> c = 200 \<and> n_lat n = Some 3 \<and> n_lon n = Some 4 | _ \<Rightarrow> False)"
  by code_simp

text \<open>An update answers with the token that all other answers about one node leave out.\<close>

lemma UpdateNode_shows_token:
  "(case fst (UpdateNode sample_env ''1'' (Inr sample_node_request) sample_panel) of
      Reply _ n \<Rightarrow> n_agent_token n = ''tok'' | _ \<Rightarrow> False) \<and>
   (case fst (GetNode sample_env ''1'' sample_panel) of Reply _ n \<Rightarrow> n_agent_token n = [] | _ \<Rightarrow> False)"
  by code_simp

text \<open>The row an update writes has no credential, whatever the node had.\<close>

lemma update_forgets_credential: "nr_credential_id (updated_row env n) = None \<and> nr_bgp_config (updated_row env n) = None"
  by (simp add: updated_row_def)

text \<open>Updating a neighbour that does not exist follows a nil pointer.\<close>

lemma UpdateBGPNeighbor_unknown_panics:
  assumes "go_atoi idp = Some i" "find_neighbor (pn_db p) i = None" "never_fails env"
    and "checked_request env cfg body = Inr req"
  shows "fst (UpdateBGPNeighbor env cfg idp body p) = Crashed"
proof -
  let ?row = "neighbor_row_of (bgpNeighborFromRequest i cfg req)"
  have none: "find_neighbor (db\<lparr>db_statements := k\<rparr>) j = find_neighbor db j" for db k j by simp
  have i: "br_id ?row = i" by (simp add: neighbor_row_of_def bgpNeighborFromRequest_def)
  have "find_neighbor (update_neighbor now r db) j = None" if "find_neighbor db j = None" "br_id r = j" for now r db j
  proof -
    have "map br_id (db_neighbors (update_neighbor now r db)) = map br_id (db_neighbors db)"
      by (simp add: update_neighbor_def)
    then show ?thesis using that(1) unfolding find_neighbor_iff by (metis set_map)
  qed
  then have "fst (NeighborRepo_Update env (bgpNeighborFromRequest i cfg req) (pn_db p)) = Panicked"
    using assms(2,3) i
    by (simp add: NeighborRepo_Update_def UpdateBGPNeighborQ_def GetBGPNeighborByID_def db_bind_def deref_def
        never_fails_statement)
  then show ?thesis
    using assms(1,4) by (simp add: UpdateBGPNeighbor_def with_id_def handle_def case_prod_unfold)
qed

text \<open>Two requests for the same neighbour that interleave: the row of an update is written and read back,
  the neighbour is deleted and unknown to the manager, and then the update reaches the manager, which
  takes the neighbour in again. No row is left through which a request could remove it.\<close>

lemma update_after_delete_readmits:
  assumes "sm_neighbors m (bn_id n) = None" and "fst (UpdateNeighbor srv now n m) = None"
  shows "sm_neighbors (snd (UpdateNeighbor srv now n m)) (bn_id n) \<noteq> None"
proof -
  let ?m = "snd (RemoveNeighbor srv now (bn_id n) m)"
  have "UpdateNeighbor srv now n m = AddNeighbor srv now n ?m" using assms(1) by (simp add: UpdateNeighbor_def)
  then obtain m' where A: "AddNeighbor srv now n ?m = (None, m')" "snd (UpdateNeighbor srv now n m) = m'"
    using assms(2) by (metis prod.collapse)
  then show ?thesis
    using AddNeighbor_effect[OF A(1)] same_neighbors[of m'] by (auto simp: register_def)
qed

end
