(* ===== verification/Turnstile.thy ===== *)
theory Turnstile
  imports Go_Fields Http_Reply
begin

text \<open>
  The check of public queries by Cloudflare Turnstile (\<open>internal/turnstile\<close>): its stored settings, how
  the panel changes them and how a token is verified. The argument \<open>sv\<close> is the outcome of the request to
  siteverify for a secret, a token and an address, with the decoded body of its answer.
\<close>

section \<open>Settings\<close>

type_synonym settings_map = "string \<rightharpoonup> string"

definition lookup :: "settings_map \<Rightarrow> string \<Rightarrow> string" where
  "lookup m key = (case m key of Some v \<Rightarrow> v | None \<Rightarrow> [])"

definition SettingSiteKey :: string where "SettingSiteKey = ''turnstile_site_key''"
definition SettingSecret :: string where "SettingSecret = ''turnstile_secret''"
definition SettingHostnames :: string where "SettingHostnames = ''turnstile_hostnames''"
definition SettingCleared :: string where "SettingCleared = ''turnstile_cleared''"

lemmas turnstile_keys = SettingSiteKey_def SettingSecret_def SettingHostnames_def SettingCleared_def

record turnstile_status =
  ts_configured :: bool
  ts_site_key :: string
  ts_secret_set :: bool
  ts_hostnames :: "string list"

record turnstile_update =
  tu_site_key :: string
  tu_secret :: string
  tu_hostnames :: string
  tu_clear :: bool

record turnstile_config =
  tc_site_key :: string
  tc_secret :: string
  tc_hostnames :: "string list"

definition host_sep :: "char \<Rightarrow> bool" where
  "host_sep c \<longleftrightarrow> c = CHR '','' \<or> c = CHR 0x0A \<or> c = CHR 0x0D \<or> c = CHR '' '' \<or> c = CHR 0x09"

definition ParseHostnames :: "string \<Rightarrow> string list" where
  "ParseHostnames raw = dedup_by (\<lambda>x. x) [] (fields_func host_sep [] raw)"

definition joinHostnames :: "string list \<Rightarrow> string" where
  "joinHostnames hosts = join_str '','' hosts"

definition empty_config :: turnstile_config where
  "empty_config = \<lparr>tc_site_key = [], tc_secret = [], tc_hostnames = []\<rparr>"

definition Effective :: "settings_map \<Rightarrow> turnstile_config" where
  "Effective settings =
     (if lookup settings SettingCleared = ''1'' then empty_config
      else \<lparr>tc_site_key = trim_space (lookup settings SettingSiteKey),
            tc_secret = trim_space (lookup settings SettingSecret),
            tc_hostnames = ParseHostnames (lookup settings SettingHostnames)\<rparr>)"

definition StatusFrom :: "settings_map \<Rightarrow> turnstile_status" where
  "StatusFrom settings =
     (let cfg = Effective settings in
      \<lparr>ts_configured = (tc_site_key cfg \<noteq> [] \<and> tc_secret cfg \<noteq> [] \<and> length (tc_hostnames cfg) > 0),
       ts_site_key = tc_site_key cfg, ts_secret_set = (tc_secret cfg \<noteq> []), ts_hostnames = tc_hostnames cfg\<rparr>)"

definition SettingsFromUpdate_turnstile :: "turnstile_update \<Rightarrow> settings_map \<Rightarrow> go_error + settings_map" where
  "SettingsFromUpdate_turnstile req current =
     (if tu_clear req
      then Inr [SettingSiteKey \<mapsto> [], SettingSecret \<mapsto> [], SettingHostnames \<mapsto> [], SettingCleared \<mapsto> ''1'']
      else
        let site = trim_space (tu_site_key req);
            hosts = ParseHostnames (tu_hostnames req);
            secret0 = trim_space (tu_secret req);
            secret = (if secret0 = [] then trim_space (lookup current SettingSecret) else secret0);
            out0 = [SettingSiteKey \<mapsto> site, SettingHostnames \<mapsto> joinHostnames hosts, SettingCleared \<mapsto> []];
            out = (if trim_space (tu_secret req) \<noteq> [] then out0(SettingSecret \<mapsto> trim_space (tu_secret req))
                   else out0)
        in if site = [] \<and> secret = [] \<and> length hosts = 0
           then Inr (out(SettingSecret \<mapsto> [], SettingCleared \<mapsto> ''1''))
           else if site = [] \<or> secret = [] \<or> length hosts = 0
           then Inl (PlainError ''turnstile site key, secret, and hostnames must all be set together'')
           else Inr out)"

section \<open>Verification\<close>

definition ActionQuery :: string where "ActionQuery = ''query''"
definition maxTokenLen :: nat where "maxTokenLen = 2048"
definition errRejected :: go_error where "errRejected = PlainError ''turnstile rejected''"

record siteverify_result =
  sv_success :: bool
  sv_action :: string
  sv_hostname :: string

text \<open>The client and the endpoint do not change; the set of host names is kept as a list.\<close>

record Verifier =
  vf_secret :: string
  vf_hostnames :: "string list"

definition New_verifier :: "turnstile_config \<Rightarrow> Verifier" where
  "New_verifier cfg =
     \<lparr>vf_secret = trim_space (tc_secret cfg),
      vf_hostnames = filter (\<lambda>h. h \<noteq> []) (map trim_space (tc_hostnames cfg))\<rparr>"

definition Enabled :: "Verifier \<Rightarrow> bool" where "Enabled v \<longleftrightarrow> vf_secret v \<noteq> []"

text \<open>The answer: none when the request fails, else the status and the decoded body, if it decodes.\<close>

type_synonym siteverify = "string \<Rightarrow> string \<Rightarrow> string \<Rightarrow> (int \<times> siteverify_result option) option"

definition Verify :: "siteverify \<Rightarrow> Verifier \<Rightarrow> string \<Rightarrow> string \<Rightarrow> go_error option" where
  "Verify sv v token0 remoteIP =
     (let token = trim_space token0 in
      if token = [] \<or> length token > maxTokenLen \<or> length (vf_hostnames v) = 0 then Some errRejected
      else case sv (vf_secret v) token remoteIP of
        None \<Rightarrow> Some errRejected
      | Some (status, body) \<Rightarrow>
          if status \<noteq> 200 then Some errRejected
          else (case body of
                  None \<Rightarrow> Some errRejected
                | Some r \<Rightarrow>
                    if sv_hostname r \<notin> set (vf_hostnames v) \<or> \<not> sv_success r \<or> sv_action r \<noteq> ActionQuery
                    then Some errRejected else None))"

section \<open>Facts\<close>

lemma ParseHostnames_parts: "h \<in> set (ParseHostnames raw) \<Longrightarrow> h \<noteq> [] \<and> (\<forall>c \<in> set h. \<not> host_sep c)"
proof -
  have "set (dedup_by (\<lambda>x. x) seen xs) \<subseteq> set xs" for seen and xs :: "string list"
    by (induction "\<lambda>x :: string. x" seen xs rule: dedup_by.induct) auto
  then show "h \<in> set (ParseHostnames raw) \<Longrightarrow> ?thesis"
    using fields_func_parts[of h host_sep "[]" raw] unfolding ParseHostnames_def by auto
qed

text \<open>Reading back the host names that were stored.\<close>

lemma fields_func_join:
  assumes "\<And>w. w \<in> set ws \<Longrightarrow> w \<noteq> [] \<and> (\<forall>c \<in> set w. \<not> p c)" and "p d"
  shows "fields_func p [] (join_str [d] ws) = ws"
  using assms(1)
proof (induction "[d]" ws rule: join_str.induct)
  case (2 w)
  then show ?case using fields_func_run[of w p "[]" "[]"] by auto
next
  case (3 w v ws)
  have "fields_func p [] (join_str [d] (v # ws)) = v # ws" using 3 by auto
  moreover have "w \<noteq> []" "\<And>c. c \<in> set w \<Longrightarrow> \<not> p c" using "3.prems"[of w] by auto
  ultimately show ?case using fields_func_word[of w p d "join_str [d] (v # ws)"] assms(2) by simp
qed simp

lemma dedup_id: "distinct xs \<Longrightarrow> set xs \<inter> set seen = {} \<Longrightarrow> dedup_by (\<lambda>x. x) seen xs = xs"
  by (induction "\<lambda>x :: 'a. x" seen xs rule: dedup_by.induct) auto

lemma distinct_dedup: "distinct (dedup_by (\<lambda>x. x) seen xs) \<and> set (dedup_by (\<lambda>x. x) seen xs) \<inter> set seen = {}"
  by (induction "\<lambda>x :: 'a. x" seen xs rule: dedup_by.induct) auto

lemma ParseHostnames_join: "ParseHostnames (joinHostnames (ParseHostnames raw)) = ParseHostnames raw"
proof -
  have "fields_func host_sep [] (joinHostnames (ParseHostnames raw)) = ParseHostnames raw"
    unfolding joinHostnames_def
    by (rule fields_func_join) (use ParseHostnames_parts in \<open>auto simp: host_sep_def\<close>)
  then show ?thesis
    using distinct_dedup[of "[]" "fields_func host_sep [] raw"] dedup_id[of "ParseHostnames raw" "[]"]
    by (simp add: ParseHostnames_def)
qed

text \<open>A saved change leaves the check either off or complete; off means that no query is checked.\<close>

definition all_or_nothing :: "turnstile_config \<Rightarrow> bool" where
  "all_or_nothing cfg \<longleftrightarrow>
     cfg = empty_config \<or> (tc_site_key cfg \<noteq> [] \<and> tc_secret cfg \<noteq> [] \<and> tc_hostnames cfg \<noteq> [])"

lemma SettingsFromUpdate_turnstile_complete:
  assumes "SettingsFromUpdate_turnstile req current = Inr out"
  shows "all_or_nothing (Effective (current ++ out))"
proof (cases "tu_clear req")
  case True
  then show ?thesis
    using assms by (auto simp: SettingsFromUpdate_turnstile_def Effective_def all_or_nothing_def lookup_def map_add_Some_iff)
next
  case False
  define site where "site = trim_space (tu_site_key req)"
  define hosts where "hosts = ParseHostnames (tu_hostnames req)"
  define given where "given = trim_space (tu_secret req)"
  define secret where "secret = (if given = [] then trim_space (lookup current SettingSecret) else given)"
  define out0 where "out0 = [SettingSiteKey \<mapsto> site, SettingHostnames \<mapsto> joinHostnames hosts, SettingCleared \<mapsto> []]"
  define out1 where "out1 = (if given \<noteq> [] then out0(SettingSecret \<mapsto> given) else out0)"
  have keys: "SettingSiteKey \<noteq> SettingCleared" "SettingSecret \<noteq> SettingCleared" "SettingHostnames \<noteq> SettingCleared"
      "SettingSiteKey \<noteq> SettingSecret" "SettingSiteKey \<noteq> SettingHostnames" "SettingSecret \<noteq> SettingHostnames"
    by (simp_all add: turnstile_keys)
  have out: "if site = [] \<and> secret = [] \<and> hosts = [] then out = out1(SettingSecret \<mapsto> [], SettingCleared \<mapsto> ''1'')
      else site \<noteq> [] \<and> secret \<noteq> [] \<and> hosts \<noteq> [] \<and> out = out1"
    using assms False
    unfolding SettingsFromUpdate_turnstile_def Let_def site_def[symmetric] hosts_def[symmetric] given_def[symmetric]
      secret_def[symmetric] out0_def[symmetric] out1_def[symmetric]
    by (simp split: if_splits)
  show ?thesis
  proof (cases "site = [] \<and> secret = [] \<and> hosts = []")
    case True
    then have "lookup (current ++ out) SettingCleared = ''1''" using out by (simp add: lookup_def)
    then show ?thesis by (simp add: Effective_def all_or_nothing_def)
  next
    case complete: False
    then have eq: "out = out1" "site \<noteq> []" "secret \<noteq> []" "hosts \<noteq> []" using out by (auto split: if_splits)
    have look: "lookup (current ++ out1) SettingCleared = []" "lookup (current ++ out1) SettingSiteKey = site"
        "lookup (current ++ out1) SettingHostnames = joinHostnames hosts"
        "trim_space (lookup (current ++ out1) SettingSecret) = secret"
      using keys by (auto simp: lookup_def out1_def out0_def secret_def given_def map_add_def)
    then have "Effective (current ++ out) = \<lparr>tc_site_key = site, tc_secret = secret, tc_hostnames = hosts\<rparr>"
      using ParseHostnames_join[of "tu_hostnames req"]
      by (simp add: Effective_def eq(1) hosts_def site_def)
    then show ?thesis using eq by (simp add: all_or_nothing_def)
  qed
qed

end
