(* ===== verification/SiteSettings.thy ===== *)
theory SiteSettings
  imports Turnstile Engine_Base Geo_Settings
begin

text \<open>
  The site settings: the table (\<open>internal/store/queries/settings.sql.go\<close>), the copy that requests read
  (\<open>internal/sitecache/settings.go\<close>), the handlers that read and change them (\<open>public.go\<close>, \<open>logo.go\<close>,
  \<open>turnstile_admin.go\<close>, \<open>geoip.go\<close>), the values taken over from the configuration file
  (\<open>internal/server/settings_seed.go\<close>) and the readers of single values.
\<close>

section \<open>The table and its copy\<close>

record site =
  st_rows :: settings_map
  st_all :: settings_map
  st_public :: settings_map
  st_local_as :: u32

text \<open>What one request meets: errors of reading the table and of reading it again for the copy, of
  writing a key, the modification time (Unix seconds) of a file below the uploads directory, the
  order in which maps are ranged over, and \<open>Error()\<close>.\<close>

record site_env =
  ev_read :: "go_error option"
  ev_refresh :: "go_error option"
  ev_write :: "string \<Rightarrow> go_error option"
  ev_stat :: "string \<Rightarrow> int option"
  ev_range :: "settings_map \<Rightarrow> string list"
  ev_bounds :: "string list"
  ev_error_text :: "go_error \<Rightarrow> string"

fun set_loop :: "(string \<Rightarrow> go_error option) \<Rightarrow> settings_map \<Rightarrow> string list \<Rightarrow> settings_map \<Rightarrow> go_error option \<times> settings_map" where
  "set_loop fails m [] rows = (None, rows)"
| "set_loop fails m (k # ks) rows =
     (case fails k of
        Some err \<Rightarrow> (Some err, rows)
      | None \<Rightarrow> set_loop fails m ks (rows(k \<mapsto> lookup m k)))"

definition SetSettings :: "site_env \<Rightarrow> settings_map \<Rightarrow> site \<Rightarrow> go_error option \<times> site" where
  "SetSettings env m s =
     (case set_loop (ev_write env) m (ev_range env m) (st_rows s) of (err, rows) \<Rightarrow> (err, s\<lparr>st_rows := rows\<rparr>))"

definition SetSetting :: "site_env \<Rightarrow> string \<Rightarrow> string \<Rightarrow> site \<Rightarrow> go_error option \<times> site" where
  "SetSetting env key val s =
     (case ev_write env key of
        Some err \<Rightarrow> (Some err, s)
      | None \<Rightarrow> (None, s\<lparr>st_rows := (st_rows s)(key \<mapsto> val)\<rparr>))"

definition GetSettings :: "site_env \<Rightarrow> site \<Rightarrow> go_error + settings_map" where
  "GetSettings env s = (case ev_read env of Some err \<Rightarrow> Inl err | None \<Rightarrow> Inr (st_rows s))"

section \<open>The logo's address\<close>

definition before_query :: "string \<Rightarrow> string" where
  "before_query path = takeWhile (\<lambda>c. c \<noteq> CHR ''?'') path"

text \<open>The file of a logo below the uploads directory.\<close>

definition logo_file :: "string \<Rightarrow> string" where "logo_file base = ''logo'' @ trim_prefix base ''/logo''"

definition busted :: "string \<Rightarrow> int \<Rightarrow> string" where "busted base t = base @ ''?v='' @ format_int t"

definition enrichLogoPath :: "(string \<Rightarrow> int option) \<Rightarrow> settings_map \<Rightarrow> settings_map" where
  "enrichLogoPath stat settings =
     (case settings ''logo_path'' of
        None \<Rightarrow> settings
      | Some path \<Rightarrow>
          if trim_space path = [] then settings
          else let base = before_query path in
            if \<not> has_prefix base ''/logo.'' then settings
            else (case stat (logo_file base) of
                    None \<Rightarrow> settings(''logo_path'' \<mapsto> base)
                  | Some t \<Rightarrow> settings(''logo_path'' \<mapsto> busted base t)))"

definition logoFilePath :: "string \<Rightarrow> string" where
  "logoFilePath logoURLPath =
     (let base = before_query (trim_space logoURLPath)
      in if \<not> has_prefix base ''/logo.'' then [] else logo_file base)"

definition logoPathWithCacheBuster :: "(string \<Rightarrow> int option) \<Rightarrow> string \<Rightarrow> string" where
  "logoPathWithCacheBuster stat logoPath =
     (if trim_space logoPath = [] then []
      else let base = before_query logoPath; diskPath = logoFilePath base in
        if diskPath = [] then logoPath
        else (case stat diskPath of None \<Rightarrow> base | Some t \<Rightarrow> busted base t))"

definition enrichSettingsLogoPath :: "(string \<Rightarrow> int option) \<Rightarrow> settings_map \<Rightarrow> settings_map" where
  "enrichSettingsLogoPath stat settings =
     (case settings ''logo_path'' of
        None \<Rightarrow> settings
      | Some path \<Rightarrow> settings(''logo_path'' \<mapsto> logoPathWithCacheBuster stat path))"

section \<open>The copy requests read\<close>

definition publicSettingKeys :: "string list" where
  "publicSettingKeys = [''site_name'', ''site_description'', ''logo_path'', ''header_color'', ''url_website'',
     ''url_peeringdb'', ''url_contact'', ''url_terms'', ''url_privacy'', ''active_languages'']"

definition only_keys :: "string list \<Rightarrow> settings_map \<Rightarrow> settings_map" where
  "only_keys ks m = (\<lambda>k. if k \<in> set ks then m k else None)"

definition RefreshSettings :: "site_env \<Rightarrow> u32 \<Rightarrow> site \<Rightarrow> go_error option \<times> site" where
  "RefreshSettings env bgpLocalAS s =
     (case ev_refresh env of
        Some err \<Rightarrow> (Some err, s)
      | None \<Rightarrow>
          (let settings = enrichLogoPath (ev_stat env) (st_rows s);
               las = (if bgpLocalAS = 0 then st_local_as s else bgpLocalAS);
               public = only_keys publicSettingKeys settings
           in (None, s\<lparr>st_all := settings,
                       st_public := (if las > 0 then public(''local_as'' \<mapsto> format_uint las) else public),
                       st_local_as := las\<rparr>)))"

definition AllSettings :: "site \<Rightarrow> settings_map" where "AllSettings s = st_all s"
definition PublicSettings :: "site \<Rightarrow> settings_map" where "PublicSettings s = st_public s"

section \<open>Handlers\<close>

definition GetPublicSettings :: "site \<Rightarrow> settings_map" where
  "GetPublicSettings s =
     (let key = tc_site_key (Effective (AllSettings s))
      in if key \<noteq> [] then (PublicSettings s)(''turnstile_site_key'' \<mapsto> key) else PublicSettings s)"

definition secretSettingKeys :: "string list" where
  "secretSettingKeys = [SettingLicenseKey, SettingSecret]"

definition without_secrets :: "settings_map \<Rightarrow> settings_map" where
  "without_secrets m = (\<lambda>k. if k \<in> set secretSettingKeys then None else m k)"

definition load_failed :: "'b reply" where "load_failed = Refused 500 ''failed to load settings''"

definition GetAdminSettings :: "site_env \<Rightarrow> site \<Rightarrow> settings_map reply" where
  "GetAdminSettings env s =
     (case GetSettings env s of
        Inl err \<Rightarrow> load_failed
      | Inr settings \<Rightarrow> Reply 200 (without_secrets (enrichSettingsLogoPath (ev_stat env) settings)))"

definition SettingSelfUpdateEnabled :: string where "SettingSelfUpdateEnabled = ''self_update_enabled''"
definition SettingRetentionDays :: string where "SettingRetentionDays = ''audit_retention_days''"
definition KeepForever :: int where "KeepForever = 0"
definition MaxRetentionDays :: int where "MaxRetentionDays = 3650"

definition allowedSettingKeys :: "string list" where
  "allowedSettingKeys = [''site_name'', ''site_description'', ''logo_path'', ''header_color'', ''url_website'',
     ''url_peeringdb'', ''url_contact'', ''url_terms'', ''url_privacy'', ''ping_count'', ''max_hops'',
     ''traceroute_max_timeouts'', ''active_languages'', SettingQueryTimeoutSec, SettingTracerouteTimeoutSec,
     SettingSelfUpdateEnabled, SettingRetentionDays]"

definition numericSettingBounds :: "string \<Rightarrow> (int \<times> int) option" where
  "numericSettingBounds = map_of [(SettingQueryTimeoutSec, (MinTimeoutSec, MaxTimeoutSec)),
     (SettingTracerouteTimeoutSec, (MinTimeoutSec, MaxTimeoutSec)),
     (SettingRetentionDays, (KeepForever, MaxRetentionDays))]"

text \<open>The first bad value in the order the bounds are ranged over.\<close>

fun validateNumericSettings :: "string list \<Rightarrow> settings_map \<Rightarrow> string option" where
  "validateNumericSettings [] filtered = None"
| "validateNumericSettings (key # keys) filtered =
     (case (filtered key, numericSettingBounds key) of
        (Some raw, Some (lo, hi)) \<Rightarrow>
          (case go_atoi (trim_space raw) of
             Some n \<Rightarrow>
               if n < lo \<or> n > hi
               then Some (key @ '' must be a whole number between '' @ format_int lo @ '' and '' @ format_int hi)
               else validateNumericSettings keys filtered
           | None \<Rightarrow>
               Some (key @ '' must be a whole number between '' @ format_int lo @ '' and '' @ format_int hi))
      | _ \<Rightarrow> validateNumericSettings keys filtered)"

text \<open>The names \<open>removeLogoFiles\<close> deletes.\<close>

definition logo_names :: "string list" where
  "logo_names = [''logo.png'', ''logo.jpg'', ''logo.svg'', ''logo.webp'']"

text \<open>The answer, the files deleted and the settings after it. The refresh's error is only logged.\<close>

definition UpdateSettings ::
  "site_env \<Rightarrow> string + settings_map \<Rightarrow> site \<Rightarrow> settings_map reply \<times> string list \<times> site" where
  "UpdateSettings env body s =
     (case body of
        Inl msg \<Rightarrow> (Refused 400 msg, [], s)
      | Inr req \<Rightarrow>
          (let filtered = only_keys allowedSettingKeys req in
           case validateNumericSettings (ev_bounds env) filtered of
             Some msg \<Rightarrow> (Refused 400 msg, [], s)
           | None \<Rightarrow>
               (let removed = (case filtered ''logo_path'' of
                                 Some p \<Rightarrow> if trim_space p = [] then logo_names else []
                               | None \<Rightarrow> []) in
                case SetSettings env filtered s of
                  (Some err, s1) \<Rightarrow> (Refused 500 ''failed to update settings'', removed, s1)
                | (None, s1) \<Rightarrow>
                    (let s2 = snd (RefreshSettings env 0 s1)
                     in (Reply 200 (without_secrets (enrichSettingsLogoPath (ev_stat env) (AllSettings s2))),
                         removed, s2)))))"

definition TurnstileStatus :: "site_env \<Rightarrow> site \<Rightarrow> turnstile_status reply" where
  "TurnstileStatus env s =
     (case GetSettings env s of Inl err \<Rightarrow> load_failed | Inr settings \<Rightarrow> Reply 200 (StatusFrom settings))"

definition UpdateTurnstile ::
  "site_env \<Rightarrow> string + turnstile_update \<Rightarrow> site \<Rightarrow> turnstile_status reply \<times> site" where
  "UpdateTurnstile env body s =
     (case body of
        Inl msg \<Rightarrow> (Refused 400 msg, s)
      | Inr req \<Rightarrow>
          (case GetSettings env s of
             Inl err \<Rightarrow> (load_failed, s)
           | Inr settings \<Rightarrow>
               (case SettingsFromUpdate_turnstile req settings of
                  Inl err \<Rightarrow> (Refused 400 (ev_error_text env err), s)
                | Inr toSet \<Rightarrow>
                    (case SetSettings env toSet s of
                       (Some err, s1) \<Rightarrow> (Refused 500 ''failed to save settings'', s1)
                     | (None, s1) \<Rightarrow>
                         (Reply 200 (StatusFrom (settings ++ toSet)), snd (RefreshSettings env 0 s1))))))"

definition GeoIPStatus :: "site_env \<Rightarrow> status_env \<Rightarrow> string \<Rightarrow> GeoIPDB option \<Rightarrow> site \<Rightarrow> geo_status reply" where
  "GeoIPStatus env senv dbDir geoDB s =
     (case GetSettings env s of
        Inl err \<Rightarrow> load_failed | Inr settings \<Rightarrow> Reply 200 (CollectStatus senv settings dbDir geoDB))"

text \<open>Nothing is written when nothing changes; the copy is not refreshed.\<close>

definition UpdateGeoIPConfig ::
  "(nat \<Rightarrow> nat \<Rightarrow> nat \<Rightarrow> nat) \<Rightarrow> site_env \<Rightarrow> status_env \<Rightarrow> string \<Rightarrow> GeoIPDB option \<Rightarrow>
   string + CredentialUpdate \<Rightarrow> site \<Rightarrow> geo_status reply \<times> site" where
  "UpdateGeoIPConfig ff env senv dbDir geoDB body s =
     (case body of
        Inl msg \<Rightarrow> (Refused 400 msg, s)
      | Inr req \<Rightarrow>
          (case GetSettings env s of
             Inl err \<Rightarrow> (load_failed, s)
           | Inr settings \<Rightarrow>
               (case SettingsFromUpdate ff req settings of
                  Inl err \<Rightarrow> (Refused 400 (ev_error_text env err), s)
                | Inr None \<Rightarrow> (Reply 200 (CollectStatus senv settings dbDir geoDB), s)
                | Inr (Some toSet) \<Rightarrow>
                    (case SetSettings env toSet s of
                       (Some err, s1) \<Rightarrow> (Refused 500 ''failed to save settings'', s1)
                     | (None, s1) \<Rightarrow> (Reply 200 (CollectStatus senv (settings ++ toSet) dbDir geoDB), s1)))))"

section \<open>Values from the configuration file\<close>

record seed_config =
  sc_default_timeout :: int
  sc_traceroute_timeout :: int
  sc_update_enabled :: bool
  sc_retention_days :: int

definition seed :: "settings_map \<Rightarrow> string \<Rightarrow> string \<Rightarrow> settings_map \<Rightarrow> settings_map" where
  "seed stored key val toSet = (if lookup stored key \<noteq> [] then toSet else toSet(key \<mapsto> val))"

definition seeds :: "seed_config \<Rightarrow> settings_map \<Rightarrow> settings_map" where
  "seeds cfg stored =
     (let m1 = (if sc_default_timeout cfg > 0
                then seed stored SettingQueryTimeoutSec (format_int (sc_default_timeout cfg)) Map.empty else Map.empty);
          m2 = (if sc_traceroute_timeout cfg > 0
                then seed stored SettingTracerouteTimeoutSec (format_int (sc_traceroute_timeout cfg)) m1 else m1);
          m3 = seed stored SettingSelfUpdateEnabled (if sc_update_enabled cfg then ''true'' else ''false'') m2
      in if sc_retention_days cfg > 0
         then seed stored SettingRetentionDays (format_int (sc_retention_days cfg)) m3 else m3)"

definition SeedSettingsFromConfig :: "site_env \<Rightarrow> seed_config \<Rightarrow> site \<Rightarrow> go_error option \<times> site" where
  "SeedSettingsFromConfig env cfg s =
     (case GetSettings env s of
        Inl err \<Rightarrow> (Some err, s)
      | Inr stored \<Rightarrow> if ev_range env (seeds cfg stored) = [] then (None, s) else SetSettings env (seeds cfg stored) s)"

definition selfUpdateSettingSource :: "site_env \<Rightarrow> site \<Rightarrow> bool \<times> bool" where
  "selfUpdateSettingSource env s =
     (case GetSettings env s of
        Inl err \<Rightarrow> (False, False)
      | Inr stored \<Rightarrow>
          (case stored SettingSelfUpdateEnabled of
             None \<Rightarrow> (False, False)
           | Some raw \<Rightarrow> if raw = [] then (False, False) else (raw = ''true'', True)))"

section \<open>Single values\<close>

definition settingInt :: "settings_map \<Rightarrow> string \<Rightarrow> int \<Rightarrow> int \<Rightarrow> int \<Rightarrow> int" where
  "settingInt settings key defaultVal lo hi =
     (case settings key of
        None \<Rightarrow> defaultVal
      | Some raw \<Rightarrow>
         (case go_atoi (trim_space raw) of
            None \<Rightarrow> defaultVal
          | Some n \<Rightarrow> if n < lo then defaultVal else if n > hi then hi else n))"

definition RetentionFromSettings :: "settings_map \<Rightarrow> int \<Rightarrow> int" where
  "RetentionFromSettings settings fallback =
     (case settings SettingRetentionDays of
        None \<Rightarrow> fallback
      | Some raw \<Rightarrow> if raw = [] then fallback else (case go_atoi raw of None \<Rightarrow> fallback | Some days \<Rightarrow> days))"

section \<open>Writing a map\<close>

lemma set_loop_rows:
  assumes "set_loop fails m ks rows = (err, rows')"
  shows "(k \<notin> set ks \<longrightarrow> rows' k = rows k) \<and> (rows' k = rows k \<or> rows' k = Some (lookup m k)) \<and>
    (err = None \<and> k \<in> set ks \<longrightarrow> rows' k = Some (lookup m k)) \<and>
    ((\<forall>k \<in> set ks. fails k = None) \<longrightarrow> err = None)"
  using assms
proof (induction fails m ks rows rule: set_loop.induct)
  case (2 fails m l ls rows)
  show ?case
  proof (cases "fails l")
    case None
    then have "set_loop fails m ls (rows(l \<mapsto> lookup m l)) = (err, rows')" using "2.prems" by simp
    from "2.IH"[OF None this] show ?thesis by (cases "k = l") (simp_all add: None)
  qed (use 2 in auto)
qed auto

lemma SetSettings_rows:
  assumes "SetSettings env m s = (err, s')" and "enumerates (ev_range env m) m"
  shows "st_all s' = st_all s" and "st_public s' = st_public s" and "st_local_as s' = st_local_as s"
    and "k \<notin> dom m \<Longrightarrow> st_rows s' k = st_rows s k"
    and "err = None \<Longrightarrow> st_rows s' = st_rows s ++ m"
    and "(\<And>k. ev_write env k = None) \<Longrightarrow> err = None"
proof -
  obtain rows where loop: "set_loop (ev_write env) m (ev_range env m) (st_rows s) = (err, rows)"
      and s': "s' = s\<lparr>st_rows := rows\<rparr>"
    using assms(1) by (auto simp: SetSettings_def split: prod.splits)
  note rows = set_loop_rows[OF loop] and order = enumeratesD(2)[OF assms(2)]
  show "st_all s' = st_all s" "st_public s' = st_public s" "st_local_as s' = st_local_as s" by (simp_all add: s')
  show "k \<notin> dom m \<Longrightarrow> st_rows s' k = st_rows s k" using rows[of k] order by (simp add: s')
  show "(\<And>k. ev_write env k = None) \<Longrightarrow> err = None" using rows[of "[]"] by simp
  show "st_rows s' = st_rows s ++ m" if "err = None"
  proof
    fix k
    show "st_rows s' k = (st_rows s ++ m) k"
      using rows[of k] order that by (cases "m k") (auto simp: s' lookup_def map_add_def dom_def)
  qed
qed

end
