(* ===== verification/Go_Regexp.thy ===== *)
theory Go_Regexp
  imports Go_Fields
begin

text \<open>
  Go's \<open>regexp\<close> package for the patterns of the program: leftmost match, alternatives in the order of
  the pattern. A pattern runs at a position of a text and yields its possible ends with the groups
  captured so far, the preferred one first. All classes used are ASCII or exclude ASCII characters
  only, so that bytes can stand for runes.
\<close>

section \<open>Patterns\<close>

text \<open>The flag of \<open>RxOpt\<close> and \<open>RxStar\<close>: greedy.\<close>

datatype regex =
    RxChars "char \<Rightarrow> bool"
  | RxSeq regex regex
  | RxAlt regex regex
  | RxOpt bool regex
  | RxStar bool regex
  | RxGroup nat regex
  | RxWordBoundary
  | RxBegin
  | RxEnd

type_synonym rx_state = "nat \<times> (nat \<times> nat \<times> nat) list"

definition rx_digit :: "char \<Rightarrow> bool" where "rx_digit c \<longleftrightarrow> is_digit c"

definition rx_space :: "char \<Rightarrow> bool" where
  "rx_space c \<longleftrightarrow> c = CHR '' '' \<or> c = CHR 0x09 \<or> c = CHR 0x0A \<or> c = CHR 0x0C \<or> c = CHR 0x0D"

definition rx_word :: "char \<Rightarrow> bool" where
  "rx_word c \<longleftrightarrow> is_digit c \<or> (code (CHR ''a'') \<le> code c \<and> code c \<le> code (CHR ''z'')) \<or>
     (code (CHR ''A'') \<le> code c \<and> code c \<le> code (CHR ''Z'')) \<or> c = CHR ''_''"

definition rx_lit :: "char \<Rightarrow> regex" where "rx_lit c = RxChars (\<lambda>x. x = c)"
definition rx_plus :: "bool \<Rightarrow> regex \<Rightarrow> regex" where "rx_plus g r = RxSeq r (RxStar g r)"

fun rx_seqs :: "regex list \<Rightarrow> regex" where
  "rx_seqs [] = RxOpt True (RxChars (\<lambda>_. False))"
| "rx_seqs [r] = r"
| "rx_seqs (r # rs) = RxSeq r (rx_seqs rs)"

section \<open>Matching\<close>

text \<open>A round of a loop has to consume something, so as many rounds as the text has bytes are enough.\<close>

fun star_rounds :: "bool \<Rightarrow> (rx_state \<Rightarrow> rx_state list) \<Rightarrow> nat \<Rightarrow> rx_state \<Rightarrow> rx_state list" where
  "star_rounds g f 0 x = [x]"
| "star_rounds g f (Suc k) x =
     (let more = concat (map (star_rounds g f k) (filter (\<lambda>y. fst x < fst y) (f x)))
      in if g then more @ [x] else x # more)"

definition word_boundary :: "string \<Rightarrow> nat \<Rightarrow> bool" where
  "word_boundary w i \<longleftrightarrow>
     (0 < i \<and> rx_word (w ! (i - 1))) \<noteq> (i < length w \<and> rx_word (w ! i))"

fun rx_run :: "string \<Rightarrow> regex \<Rightarrow> rx_state \<Rightarrow> rx_state list" where
  "rx_run w (RxChars p) (i, cs) = (if i < length w \<and> p (w ! i) then [(Suc i, cs)] else [])"
| "rx_run w (RxSeq r s) x = concat (map (rx_run w s) (rx_run w r x))"
| "rx_run w (RxAlt r s) x = rx_run w r x @ rx_run w s x"
| "rx_run w (RxOpt g r) x = (if g then rx_run w r x @ [x] else x # rx_run w r x)"
| "rx_run w (RxStar g r) x = star_rounds g (rx_run w r) (length w) x"
| "rx_run w (RxGroup k r) x = map (\<lambda>y. (fst y, (k, fst x, fst y) # snd y)) (rx_run w r x)"
| "rx_run w RxWordBoundary x = (if word_boundary w (fst x) then [x] else [])"
| "rx_run w RxBegin x = (if fst x = 0 then [x] else [])"
| "rx_run w RxEnd x = (if fst x = length w then [x] else [])"

text \<open>Start, end and groups of a match.\<close>

type_synonym rx_match = "nat \<times> nat \<times> (nat \<times> nat \<times> nat) list"

fun rx_first :: "string \<Rightarrow> regex \<Rightarrow> nat list \<Rightarrow> rx_match option" where
  "rx_first w r [] = None"
| "rx_first w r (i # is) =
     (case rx_run w r (i, []) of [] \<Rightarrow> rx_first w r is | (j, cs) # _ \<Rightarrow> Some (i, j, cs))"

definition rx_find :: "regex \<Rightarrow> string \<Rightarrow> rx_match option" where
  "rx_find r w = rx_first w r [0..<Suc (length w)]"

definition substring :: "string \<Rightarrow> nat \<Rightarrow> nat \<Rightarrow> string" where
  "substring w i j = take (j - i) (drop i w)"

definition rx_matches :: "regex \<Rightarrow> string \<Rightarrow> bool" where "rx_matches r w \<longleftrightarrow> rx_find r w \<noteq> None"

fun rx_literal :: "string \<Rightarrow> regex" where
  "rx_literal s = rx_seqs (map rx_lit s)"

text \<open>The text of a group, empty when it took no part.\<close>

definition rx_group :: "string \<Rightarrow> rx_match \<Rightarrow> nat \<Rightarrow> string" where
  "rx_group w m k = (case map_of (snd (snd m)) k of None \<Rightarrow> [] | Some (i, j) \<Rightarrow> substring w i j)"

text \<open>All matches that do not overlap; none of the patterns matches the empty text.\<close>

lemma rx_first_start: "rx_first w r is = Some (i, j, cs) \<Longrightarrow> i \<in> set is \<and> (j, cs) \<in> set (rx_run w r (i, []))"
  by (induction "is") (auto split: list.splits prod.splits)

function rx_all_from :: "string \<Rightarrow> regex \<Rightarrow> nat \<Rightarrow> rx_match list" where
  "rx_all_from w r i =
     (case rx_first w r [i..<Suc (length w)] of
        None \<Rightarrow> []
      | Some (s, e, cs) \<Rightarrow> (s, e, cs) # rx_all_from w r (max e (Suc s)))"
  by pat_completeness auto
termination
proof (relation "measure (\<lambda>(w, r, i). Suc (length w) - i)", goal_cases)
  case (2 w r i y s y' e cs)
  then have "s \<in> set [i..<Suc (length w)]" using rx_first_start by blast
  then show ?case by auto
qed simp

declare rx_all_from.simps [simp del]

definition rx_find_all :: "regex \<Rightarrow> string \<Rightarrow> rx_match list" where
  "rx_find_all r w = rx_all_from w r 0"

section \<open>Facts\<close>

text \<open>A match stays inside the text.\<close>

lemma star_rounds_inv:
  assumes "Q x" and "\<And>x y. Q x \<Longrightarrow> y \<in> set (f x) \<Longrightarrow> fst x < fst y \<Longrightarrow> Q y" and "y \<in> set (star_rounds g f k x)"
  shows "Q y"
  using assms(1,3)
proof (induction k arbitrary: x)
  case (Suc k)
  show ?case
  proof (cases "y = x")
    case False
    then obtain z where "z \<in> set (f x)" "fst x < fst z" "y \<in> set (star_rounds g f k z)"
      using Suc.prems(2) by (auto simp: Let_def split: if_splits)
    then show ?thesis using Suc.IH[of z] assms(2)[OF Suc.prems(1)] by blast
  qed (use Suc.prems in simp)
qed simp

lemma rx_run_bounds:
  "y \<in> set (rx_run w r x) \<Longrightarrow> fst x \<le> length w \<Longrightarrow> fst x \<le> fst y \<and> fst y \<le> length w"
proof (induction w r x arbitrary: y rule: rx_run.induct)
  case (2 w r s x)
  then obtain z where "z \<in> set (rx_run w r x)" "y \<in> set (rx_run w s z)" by auto
  then show ?case using "2.IH"(1)[of z] "2.IH"(2)[of z y] "2.prems"(2) by force
next
  case (5 w g r x)
  have "fst x \<le> fst y \<and> fst y \<le> length w"
    by (rule star_rounds_inv[where Q = "\<lambda>z. fst x \<le> fst z \<and> fst z \<le> length w"])
       (use 5 in \<open>auto dest: order_trans\<close>)
  then show ?case .
qed (auto split: if_splits)

text \<open>What a pattern of characters of one kind consumes is of that kind.\<close>

fun rx_over :: "(char \<Rightarrow> bool) \<Rightarrow> regex \<Rightarrow> bool" where
  "rx_over p (RxChars q) = (\<forall>c. q c \<longrightarrow> p c)"
| "rx_over p (RxSeq r s) = (rx_over p r \<and> rx_over p s)"
| "rx_over p (RxAlt r s) = (rx_over p r \<and> rx_over p s)"
| "rx_over p (RxOpt g r) = rx_over p r"
| "rx_over p (RxStar g r) = rx_over p r"
| "rx_over p (RxGroup k r) = rx_over p r"
| "rx_over p _ = True"

definition all_between :: "(char \<Rightarrow> bool) \<Rightarrow> string \<Rightarrow> nat \<Rightarrow> nat \<Rightarrow> bool" where
  "all_between p w i j \<longleftrightarrow> (\<forall>k. i \<le> k \<and> k < j \<longrightarrow> p (w ! k))"

lemma all_between_trans: "all_between p w i j \<Longrightarrow> all_between p w j k \<Longrightarrow> all_between p w i k"
  unfolding all_between_def by (metis not_le)

lemma rx_run_over:
  "y \<in> set (rx_run w r x) \<Longrightarrow> rx_over p r \<Longrightarrow> all_between p w (fst x) (fst y)"
proof (induction w r x arbitrary: y rule: rx_run.induct)
  case (2 w r s x)
  then obtain z where "z \<in> set (rx_run w r x)" "y \<in> set (rx_run w s z)" by auto
  then show ?case using "2.IH"(1)[of z] "2.IH"(2)[of z y] "2.prems"(2) all_between_trans by fastforce
next
  case (5 w g r x)
  show ?case
    by (rule star_rounds_inv[where Q = "\<lambda>z. all_between p w (fst x) (fst z)"])
       (use 5 in \<open>auto simp: all_between_def[of p w "fst x" "fst x"] intro: all_between_trans\<close>)
next
  case (1 w q i cs)
  then show ?case by (auto simp: all_between_def split: if_splits) (metis le_less_Suc_eq)
qed (auto simp: all_between_def split: if_splits)

lemma all_between_substring: "all_between p w i j \<Longrightarrow> j \<le> length w \<Longrightarrow> c \<in> set (substring w i j) \<Longrightarrow> p c"
  by (auto simp: all_between_def substring_def in_set_conv_nth)

lemma substring_sub: "\<exists>u v. w = u @ substring w i j @ v"
proof -
  have "w = take i w @ take (j - i) (drop i w) @ drop (j - i) (drop i w)"
    by (simp only: append_take_drop_id)
  then show ?thesis unfolding substring_def by blast
qed

text \<open>What a group captured.\<close>

fun group_over :: "(char \<Rightarrow> bool) \<Rightarrow> nat \<Rightarrow> regex \<Rightarrow> bool" where
  "group_over p k (RxSeq r s) = (group_over p k r \<and> group_over p k s)"
| "group_over p k (RxAlt r s) = (group_over p k r \<and> group_over p k s)"
| "group_over p k (RxOpt g r) = group_over p k r"
| "group_over p k (RxStar g r) = group_over p k r"
| "group_over p k (RxGroup l r) = ((k = l \<longrightarrow> rx_over p r) \<and> group_over p k r)"
| "group_over p k _ = True"

definition captures_over :: "(char \<Rightarrow> bool) \<Rightarrow> string \<Rightarrow> nat \<Rightarrow> rx_state \<Rightarrow> bool" where
  "captures_over p w k x \<longleftrightarrow>
     fst x \<le> length w \<and> (\<forall>i j. (k, i, j) \<in> set (snd x) \<longrightarrow> j \<le> length w \<and> all_between p w i j)"

lemma rx_run_captures:
  "y \<in> set (rx_run w r x) \<Longrightarrow> group_over p k r \<Longrightarrow> captures_over p w k x \<Longrightarrow> captures_over p w k y"
proof (induction w r x arbitrary: y rule: rx_run.induct)
  case (2 w r s x)
  then obtain z where "z \<in> set (rx_run w r x)" "y \<in> set (rx_run w s z)" by auto
  then show ?case using "2.IH"(1)[of z] "2.IH"(2)[of z y] "2.prems"(2,3) by simp
next
  case (5 w g r x)
  show ?case by (rule star_rounds_inv[where Q = "captures_over p w k"]) (use 5 in auto)
next
  case (6 w l r x)
  then obtain z where z: "z \<in> set (rx_run w r x)" "y = (fst z, (l, fst x, fst z) # snd z)" by auto
  then have "captures_over p w k z" using "6.IH" "6.prems" by simp
  moreover have "k = l \<longrightarrow> all_between p w (fst x) (fst z)" using rx_run_over[OF z(1)] "6.prems"(2) by simp
  ultimately show ?case by (auto simp: captures_over_def z(2))
qed (auto simp: captures_over_def split: if_splits)

lemma rx_group_over:
  assumes "rx_find r w = Some m" "group_over p k r" "c \<in> set (rx_group w m k)"
  shows "p c"
proof -
  obtain i j cs where m: "m = (i, j, cs)" by (cases m) auto
  have "i \<le> length w" "(j, cs) \<in> set (rx_run w r (i, []))"
    using rx_first_start[OF assms(1)[unfolded rx_find_def m]] by auto
  then have caps: "captures_over p w k (j, cs)"
    using rx_run_captures[OF _ assms(2), of "(j, cs)" w "(i, [])"] by (simp add: captures_over_def)
  obtain a b where ab: "map_of cs k = Some (a, b)" "c \<in> set (substring w a b)"
    using assms(3) by (cases "map_of cs k") (auto simp: rx_group_def m)
  then have "b \<le> length w" "all_between p w a b" using caps map_of_SomeD[OF ab(1)] by (auto simp: captures_over_def)
  then show ?thesis using all_between_substring ab(2) by blast
qed

text \<open>Successive matches do not overlap.\<close>

lemma rx_all_from_ordered:
  "sorted_wrt (\<lambda>m1 m2. fst (snd m1) \<le> fst m2) (rx_all_from w r i) \<and>
   (\<forall>m \<in> set (rx_all_from w r i). i \<le> fst m \<and> fst m \<le> fst (snd m) \<and> fst (snd m) \<le> length w)"
proof (induction w r i rule: rx_all_from.induct)
  case (1 w r i)
  show ?case
  proof (cases "rx_first w r [i..<Suc (length w)]")
    case None
    then show ?thesis by (simp add: rx_all_from.simps[of w r i])
  next
    case (Some m)
    obtain s e cs where m: "m = (s, e, cs)" by (cases m) auto
    have s: "i \<le> s" "s \<le> length w" "s \<le> e" "e \<le> length w"
      using rx_first_start[OF Some[unfolded m]] rx_run_bounds[of "(e, cs)" w r "(s, [])"] by auto
    have all: "rx_all_from w r i = (s, e, cs) # rx_all_from w r (max e (Suc s))"
      using Some by (simp add: rx_all_from.simps[of w r i] m)
    note rest = "1.IH"[OF Some m[symmetric] refl]
    have "i \<le> fst m'" if "m' \<in> set (rx_all_from w r (max e (Suc s)))" for m'
      using rest that s by fastforce
    then show ?thesis using rest s unfolding all by auto
  qed
qed

end
