(* ===== verification/LogoUpload.thy ===== *)
theory LogoUpload
  imports SiteSettings Go_Regexp
begin

text \<open>
  The upload of a logo (\<open>UploadLogo\<close> in \<open>internal/server/handler/public.go\<close>). \<open>detect\<close> is
  \<open>http.DetectContentType\<close>, \<open>lower\<close> is \<open>strings.ToLower\<close>; the uploads directory is seen through the
  files the handler removes and writes.
\<close>

datatype file_effect = RemovedFile string | WroteFile string string

text \<open>The uploaded file: none when the form has none, its declared size, its contents, how much of it
  the first read returned, and the outcomes of the calls that can fail.\<close>

record upload =
  ul_size :: int
  ul_content :: string
  ul_chunk :: nat
  ul_read :: "go_error option"
  ul_seek :: "go_error option"
  ul_read_all :: "go_error option"
  ul_seek_again :: "go_error option"
  ul_mkdir :: "go_error option"
  ul_create :: "go_error option"
  ul_copy :: "go_error option"

definition svgEventHandlers :: regex where
  "svgEventHandlers =
     rx_seqs [RxWordBoundary, rx_literal ''on'',
       rx_plus True (RxChars (\<lambda>c. code (CHR ''a'') \<le> code c \<and> code c \<le> code (CHR ''z''))), rx_lit (CHR ''='')]"

definition svgExternalRef :: regex where
  "svgExternalRef =
     rx_seqs [RxAlt (RxSeq (RxOpt True (rx_lit (CHR ''x''))) (rx_literal ''link:href''))
                (RxAlt (rx_literal ''href'') (rx_literal ''src'')),
       RxStar True (RxChars rx_space), rx_lit (CHR ''=''), RxStar True (RxChars rx_space),
       RxChars (\<lambda>c. c = CHR 0x22 \<or> c = CHR 0x27),
       rx_literal ''http'', RxOpt True (rx_lit (CHR ''s'')), rx_literal ''://'']"

definition svg_disallowed :: "string \<Rightarrow> bool" where
  "svg_disallowed lower \<longleftrightarrow>
     rx_matches svgEventHandlers lower \<or> contains_str lower ''<script'' \<or> contains_str lower ''javascript:'' \<or>
     contains_str lower ''<foreignobject'' \<or> contains_str lower ''data:'' \<or> rx_matches svgExternalRef lower"

definition logo_mime :: "(string \<Rightarrow> string) \<Rightarrow> string \<Rightarrow> string" where
  "logo_mime detect head =
     (let mime = detect head in
      if (has_prefix mime ''text/xml'' \<or> has_prefix mime ''application/xml'' \<or> has_prefix mime ''text/plain'') \<and>
         contains_str head ''<svg''
      then ''image/svg+xml'' else mime)"

definition logo_ext :: "string \<Rightarrow> string" where
  "logo_ext mime =
     (if mime = ''image/jpeg'' then ''.jpg'' else if mime = ''image/svg+xml'' then ''.svg''
      else if mime = ''image/webp'' then ''.webp'' else ''.png'')"

text \<open>What is wrong with the file, if anything.\<close>

definition check_logo :: "(string \<Rightarrow> string) \<Rightarrow> (string \<Rightarrow> string) \<Rightarrow> upload \<Rightarrow> (nat \<times> string) + string" where
  "check_logo detect lower f =
     (if ul_size f > 2 * 1024 * 1024 then Inl (400, ''file too large (max 2MB)'')
      else if ul_read f \<noteq> None then Inl (500, ''failed to read file'')
      else let mime = logo_mime detect (take (min 512 (ul_chunk f)) (ul_content f)) in
        if mime \<noteq> ''image/png'' \<and> mime \<noteq> ''image/jpeg'' \<and> mime \<noteq> ''image/svg+xml'' \<and> mime \<noteq> ''image/webp''
        then Inl (400, ''invalid file type (allowed: png, jpeg, svg, webp)'')
        else if ul_seek f \<noteq> None then Inl (500, ''failed to read file'')
        else if mime = ''image/svg+xml'' then
          (if ul_read_all f \<noteq> None then Inl (500, ''failed to read file'')
           else if svg_disallowed (lower (ul_content f)) then Inl (400, ''SVG contains disallowed content'')
           else if ul_seek_again f \<noteq> None then Inl (500, ''failed to read file'')
           else Inr mime)
        else Inr mime)"

text \<open>The old files go before the new one is written; the settings follow last.\<close>

definition UploadLogo ::
  "(string \<Rightarrow> string) \<Rightarrow> (string \<Rightarrow> string) \<Rightarrow> site_env \<Rightarrow> upload option \<Rightarrow> site \<Rightarrow>
   string reply \<times> file_effect list \<times> site" where
  "UploadLogo detect lower env file s =
     (case file of
        None \<Rightarrow> (Refused 400 ''no file uploaded'', [], s)
      | Some f \<Rightarrow>
          (case check_logo detect lower f of
             Inl (status, msg) \<Rightarrow> (Refused status msg, [], s)
           | Inr mime \<Rightarrow>
               (let ext = logo_ext mime;
                    removed = map (\<lambda>e. RemovedFile (''logo'' @ e))
                      (filter (\<lambda>e. e \<noteq> ext) [''.png'', ''.jpg'', ''.svg'', ''.webp'']) in
                if ul_mkdir f \<noteq> None then (Refused 500 ''failed to create upload directory'', [], s)
                else if ul_create f \<noteq> None then (Refused 500 ''failed to save logo'', removed, s)
                else if ul_copy f \<noteq> None
                then (Refused 500 ''failed to save logo'', removed @ [WroteFile (''logo'' @ ext) []], s)
                else (let fx = removed @ [WroteFile (''logo'' @ ext) (ul_content f)]; logoPath = ''/logo'' @ ext in
                      case SetSetting env ''logo_path'' logoPath s of
                        (Some err, s1) \<Rightarrow> (Refused 500 ''logo saved but settings update failed'', fx, s1)
                      | (None, s1) \<Rightarrow>
                          (Reply 200 (logoPathWithCacheBuster (ev_stat env) logoPath), fx,
                           snd (RefreshSettings env 0 s1))))))"

text \<open>Only a logo of one of four types is stored, and one SVG only when none of the six patterns finds
  anything in it.\<close>

lemma UploadLogo_stored:
  assumes "UploadLogo detect lower env (Some f) s = (r, fx, s')" and "WroteFile name contents \<in> set fx"
  shows "name \<in> {''logo.png'', ''logo.jpg'', ''logo.svg'', ''logo.webp''} \<and> ul_size f \<le> 2097152 \<and>
    (name = ''logo.svg'' \<longrightarrow> \<not> svg_disallowed (lower (ul_content f)))"
proof -
  obtain mime where mime: "check_logo detect lower f = Inr mime" "name = ''logo'' @ logo_ext mime"
    using assms by (auto simp: UploadLogo_def Let_def split: sum.splits if_splits option.splits prod.splits)
  then have "ul_size f \<le> 2097152" "mime = ''image/svg+xml'' \<longrightarrow> \<not> svg_disallowed (lower (ul_content f))"
    by (auto simp: check_logo_def Let_def split: if_splits)
  then show ?thesis using mime(2) by (auto simp: logo_ext_def split: if_splits)
qed

text \<open>The pattern for event handlers wants the equals sign right behind the name, the XML in the browser
  does not.\<close>

lemma svg_handler_with_blank_accepted:
  "svg_disallowed ''<svg onload='' \<and> \<not> svg_disallowed ''<svg onload =alert(1)>'' \<and>
   \<not> svg_disallowed ''<a href=//evil.example>''"
  by code_simp

end
