(* ===== verification/SettingsRun.thy ===== *)
theory SettingsRun
  imports LogoUpload
begin

text \<open>
  All ways in which the site settings change, in any order, and what holds of them: what leaves the
  server, which keys a request can reach, and the settings that only make sense together.
\<close>

section \<open>Steps\<close>

datatype site_op =
    SoSettings "string + settings_map"
  | SoTurnstile "string + turnstile_update"
  | SoGeoIP "string + CredentialUpdate"
  | SoLogo "upload option"
  | SoDownloaded bool string
  | SoSeed seed_config
  | SoLoad u32

text \<open>What a run takes from outside: the arguments of the handlers that do not change during it.\<close>

record site_params =
  sp_ff :: "nat \<Rightarrow> nat \<Rightarrow> nat \<Rightarrow> nat"
  sp_status :: status_env
  sp_dir :: string
  sp_geo :: "GeoIPDB option"
  sp_detect :: "string \<Rightarrow> string"
  sp_lower :: "string \<Rightarrow> string"

fun site_apply :: "site_params \<Rightarrow> site_env \<Rightarrow> site_op \<Rightarrow> site \<Rightarrow> site" where
  "site_apply sp env (SoSettings body) s = snd (snd (UpdateSettings env body s))"
| "site_apply sp env (SoTurnstile body) s = snd (UpdateTurnstile env body s)"
| "site_apply sp env (SoGeoIP body) s =
     snd (UpdateGeoIPConfig (sp_ff sp) env (sp_status sp) (sp_dir sp) (sp_geo sp) body s)"
| "site_apply sp env (SoLogo f) s = snd (snd (UploadLogo (sp_detect sp) (sp_lower sp) env f s))"
| "site_apply sp env (SoDownloaded city time) s =
     snd (SetSetting env (if city then SettingCityLastDownload else SettingASNLastDownload) time s)"
| "site_apply sp env (SoSeed cfg) s = snd (SeedSettingsFromConfig env cfg s)"
| "site_apply sp env (SoLoad las) s = snd (RefreshSettings env las s)"

definition empty_site :: site where
  "empty_site = \<lparr>st_rows = Map.empty, st_all = Map.empty, st_public = Map.empty, st_local_as = 0\<rparr>"

text \<open>The keys any of these writes; ranging over a map of such keys visits each of them once.\<close>

definition written_keys :: "string list" where
  "written_keys = allowedSettingKeys @ [SettingSiteKey, SettingSecret, SettingHostnames, SettingCleared,
     SettingLicenseKey, SettingAccountID, SettingUpdateInterval, SettingCredentialsCleared]"

definition ranges :: "site_env \<Rightarrow> bool" where
  "ranges env \<longleftrightarrow> (\<forall>m. dom m \<subseteq> set written_keys \<longrightarrow> enumerates (ev_range env m) m)"

definition writes_work :: "site_env \<Rightarrow> bool" where "writes_work env \<longleftrightarrow> (\<forall>k. ev_write env k = None)"

inductive site_reach :: "site_params \<Rightarrow> (site_env \<Rightarrow> bool) \<Rightarrow> site \<Rightarrow> bool"
  for sp :: site_params and E :: "site_env \<Rightarrow> bool" where
  init: "site_reach sp E empty_site"
| step: "site_reach sp E s \<Longrightarrow> E env \<Longrightarrow> site_reach sp E (site_apply sp env op s)"

section \<open>What leaves the server\<close>

definition public_ok :: "site \<Rightarrow> bool" where
  "public_ok s \<longleftrightarrow> dom (st_public s) \<subseteq> insert ''local_as'' (set publicSettingKeys)"

lemma public_ok_refresh: "public_ok s \<Longrightarrow> public_ok (snd (RefreshSettings env las s))"
  by (auto simp: public_ok_def RefreshSettings_def Let_def only_keys_def split: option.splits if_splits)

lemma SetSettings_public: "st_public (snd (SetSettings env m s)) = st_public s"
  by (simp add: SetSettings_def split: prod.splits)

lemma SetSetting_public: "st_public (snd (SetSetting env k v s)) = st_public s"
  by (simp add: SetSetting_def split: option.splits)

lemma public_ok_writes:
  "public_ok (snd (SetSettings env m s)) = public_ok s" "public_ok (snd (SetSetting env k v s)) = public_ok s"
  by (simp_all add: public_ok_def SetSettings_public SetSetting_public)

lemma public_ok_after: "SetSettings env m s = (err, s1) \<Longrightarrow> public_ok s \<Longrightarrow> public_ok s1"
  "SetSetting env k v s = (err, s1) \<Longrightarrow> public_ok s \<Longrightarrow> public_ok s1"
  using public_ok_writes(1)[of env m s] public_ok_writes(2)[of env k v s] by simp_all

lemma public_ok_apply: "public_ok s \<Longrightarrow> public_ok (site_apply sp env op s)"
proof (cases op)
  case (SoLogo f)
  then show "public_ok s \<Longrightarrow> ?thesis"
    by (cases f)
       (auto simp: UploadLogo_def Let_def public_ok_refresh dest: public_ok_after
          split: sum.splits option.splits prod.splits)
qed (auto simp: UpdateSettings_def UpdateTurnstile_def UpdateGeoIPConfig_def SeedSettingsFromConfig_def
      public_ok_refresh public_ok_writes Let_def dest: public_ok_after
      split: sum.splits option.splits prod.splits)

lemma public_ok_reach: "site_reach sp E s \<Longrightarrow> public_ok s"
  by (induction rule: site_reach.induct) (simp_all add: public_ok_apply, simp add: public_ok_def empty_site_def)

section \<open>Settings that belong together\<close>

definition guarded_keys :: "string list" where
  "guarded_keys = [SettingSiteKey, SettingSecret, SettingHostnames, SettingCleared, SettingLicenseKey, SettingAccountID]"

definition settings_ok :: "settings_map \<Rightarrow> bool" where
  "settings_ok m \<longleftrightarrow> all_or_nothing (Effective m) \<and>
     (setting m SettingAccountID = [] \<longleftrightarrow> setting m SettingLicenseKey = [])"

definition site_ok :: "site \<Rightarrow> bool" where
  "site_ok s \<longleftrightarrow> settings_ok (st_rows s) \<and> settings_ok (st_all s)"

lemma Effective_cong:
  "(\<And>k. k \<in> {SettingSiteKey, SettingSecret, SettingHostnames, SettingCleared} \<Longrightarrow> m k = m' k) \<Longrightarrow>
     Effective m = Effective m'"
  by (simp add: Effective_def lookup_def)

lemma settings_ok_cong: "(\<And>k. k \<in> set guarded_keys \<Longrightarrow> m k = m' k) \<Longrightarrow> settings_ok m = settings_ok m'"
proof -
  assume eq: "\<And>k. k \<in> set guarded_keys \<Longrightarrow> m k = m' k"
  then have "Effective m = Effective m'" by (intro Effective_cong) (auto simp: guarded_keys_def)
  then show ?thesis
    using eq[of SettingAccountID] eq[of SettingLicenseKey] by (simp add: settings_ok_def guarded_keys_def setting_def)
qed

lemma settings_ok_logo: "settings_ok (enrichLogoPath stat m) = settings_ok m"
proof (rule settings_ok_cong)
  fix k assume "k \<in> set guarded_keys"
  then have "k \<noteq> ''logo_path''" by (auto simp: guarded_keys_def turnstile_keys geo_setting_defs)
  then show "enrichLogoPath stat m k = m k"
    by (auto simp: enrichLogoPath_def Let_def split: option.split)
qed

lemma site_ok_refresh: "site_ok s \<Longrightarrow> site_ok (snd (RefreshSettings env las s))"
  by (simp add: RefreshSettings_def site_ok_def Let_def settings_ok_logo split: option.split)

text \<open>A write of keys that are not guarded, and one that leaves the settings consistent.\<close>

lemma site_ok_unguarded:
  assumes "site_ok s" "SetSettings env m s = (err, s1)" "ranges env" "dom m \<subseteq> set written_keys - set guarded_keys"
  shows "site_ok s1"
proof -
  have order: "enumerates (ev_range env m) m" using assms(3,4) by (auto simp: ranges_def)
  have "settings_ok (st_rows s1) = settings_ok (st_rows s)"
    by (rule settings_ok_cong) (use SetSettings_rows(4)[OF assms(2) order] assms(4) in blast)
  then show ?thesis using assms(1) SetSettings_rows(1)[OF assms(2) order] by (simp add: site_ok_def)
qed

lemma site_ok_replaced:
  assumes "site_ok s" "SetSettings env m s = (err, s1)" "ranges env" "writes_work env" "dom m \<subseteq> set written_keys"
    and "settings_ok (st_rows s ++ m)"
  shows "site_ok s1"
proof -
  have order: "enumerates (ev_range env m) m" using assms(3,5) by (auto simp: ranges_def)
  have "err = None" using SetSettings_rows(6)[OF assms(2) order] assms(4) by (simp add: writes_work_def)
  then have "st_rows s1 = st_rows s ++ m" by (rule SetSettings_rows(5)[OF assms(2) order])
  then show ?thesis using assms(1,6) SetSettings_rows(1)[OF assms(2) order] by (simp add: site_ok_def)
qed

lemma site_ok_single:
  assumes "site_ok s" "k \<notin> set guarded_keys"
  shows "site_ok (snd (SetSetting env k v s))"
proof -
  have "settings_ok ((st_rows s)(k \<mapsto> v)) = settings_ok (st_rows s)"
    by (rule settings_ok_cong) (use assms(2) in auto)
  then show ?thesis using assms(1) by (simp add: SetSetting_def site_ok_def split: option.split)
qed

lemma allowed_unguarded: "set allowedSettingKeys \<subseteq> set written_keys - set guarded_keys"
  by (simp add: written_keys_def)
     (simp add: allowedSettingKeys_def guarded_keys_def turnstile_keys geo_setting_defs SettingQueryTimeoutSec_def
        SettingTracerouteTimeoutSec_def SettingSelfUpdateEnabled_def SettingRetentionDays_def)

lemma dom_only_keys: "dom (only_keys ks m) \<subseteq> set ks"
  by (auto simp: only_keys_def split: if_splits)

lemma dom_seeds: "dom (seeds cfg stored) \<subseteq> set allowedSettingKeys"
  by (auto simp: seeds_def seed_def Let_def allowedSettingKeys_def split: if_splits)

lemma turnstile_update_ok:
  assumes "settings_ok m" "SettingsFromUpdate_turnstile req m = Inr out"
  shows "settings_ok (m ++ out)" and "dom out \<subseteq> set written_keys"
proof -
  have dom: "dom out \<subseteq> {SettingSiteKey, SettingSecret, SettingHostnames, SettingCleared}"
    using assms(2) by (auto simp: SettingsFromUpdate_turnstile_def Let_def split: if_splits)
  then show "dom out \<subseteq> set written_keys" by (auto simp: written_keys_def)
  have "(m ++ out) k = m k" if "k \<in> {SettingAccountID, SettingLicenseKey}" for k
  proof -
    have "k \<notin> dom out" using dom that by (auto simp: turnstile_keys geo_setting_defs)
    then show ?thesis by (simp add: map_add_dom_app_simps(3))
  qed
  then have "setting (m ++ out) SettingAccountID = setting m SettingAccountID"
      "setting (m ++ out) SettingLicenseKey = setting m SettingLicenseKey"
    by (simp_all add: setting_def)
  then show "settings_ok (m ++ out)"
    using assms(1) SettingsFromUpdate_turnstile_complete[OF assms(2)] by (simp add: settings_ok_def)
qed

lemma geo_update_dom:
  assumes "SettingsFromUpdate ff req m = Inr (Some out)"
  shows "dom out \<subseteq> {SettingLicenseKey, SettingAccountID, SettingUpdateInterval, SettingCredentialsCleared}"
  using assms
  by (auto simp: SettingsFromUpdate_def add_interval_def check_credentials_def Let_def
      split: if_splits sum.splits option.splits)

lemma geo_update_ok:
  assumes "settings_ok m" "SettingsFromUpdate ff req m = Inr (Some out)"
  shows "settings_ok (m ++ out)" and "dom out \<subseteq> set written_keys"
proof -
  note dom = geo_update_dom[OF assms(2)]
  then show "dom out \<subseteq> set written_keys" by (auto simp: written_keys_def)
  have "(m ++ out) k = m k" if "k \<in> {SettingSiteKey, SettingSecret, SettingHostnames, SettingCleared}" for k
  proof -
    have "k \<notin> dom out" using dom that by (auto simp: turnstile_keys geo_setting_defs)
    then show ?thesis by (simp add: map_add_dom_app_simps(3))
  qed
  then have "Effective (m ++ out) = Effective m" by (rule Effective_cong)
  moreover have "setting (m ++ out) SettingAccountID = [] \<longleftrightarrow> setting (m ++ out) SettingLicenseKey = []"
  proof (cases "cu_clear_credentials req")
    case True
    then show ?thesis
      using assms(2) by (auto simp: SettingsFromUpdate_def setting_add valueAfter_def geo_setting_defs)
  next
    case False
    then obtain out3 where "check_credentials m out3 = Inr (Some out)"
      using assms(2) by (auto simp: SettingsFromUpdate_def Let_def split: if_splits sum.splits)
    then show ?thesis using check_credentialsD(2) by (simp add: setting_add)
  qed
  ultimately show "settings_ok (m ++ out)" using assms(1) by (simp add: settings_ok_def)
qed

text \<open>Every step keeps them, as long as no write fails half-way.\<close>

lemma site_ok_settings:
  assumes "site_ok s" "ranges env"
  shows "site_ok (snd (snd (UpdateSettings env body s)))"
proof -
  have "site_ok s1" if "SetSettings env (only_keys allowedSettingKeys req) s = (err, s1)" for req err s1
    using site_ok_unguarded[OF assms(1) that assms(2)] dom_only_keys[of allowedSettingKeys req] allowed_unguarded
    by blast
  then show ?thesis
    using assms(1) site_ok_refresh[of _ env 0]
    by (auto simp: UpdateSettings_def Let_def split: sum.split option.split prod.split)
qed

lemma site_ok_turnstile:
  assumes "site_ok s" "ranges env" "writes_work env"
  shows "site_ok (snd (UpdateTurnstile env body s))"
proof -
  have "site_ok s1" if "SettingsFromUpdate_turnstile req (st_rows s) = Inr out" "SetSettings env out s = (err, s1)"
    for req out err s1
    using site_ok_replaced[OF assms(1) that(2) assms(2,3)] turnstile_update_ok[OF _ that(1)] assms(1)
    by (simp add: site_ok_def)
  then show ?thesis
    using assms(1) site_ok_refresh[of _ env 0]
    by (auto simp: UpdateTurnstile_def GetSettings_def split: sum.split option.split prod.split)
qed

lemma site_ok_geo:
  assumes "site_ok s" "ranges env" "writes_work env"
  shows "site_ok (snd (UpdateGeoIPConfig ff env senv dir db body s))"
proof -
  have "site_ok s1" if "SettingsFromUpdate ff req (st_rows s) = Inr (Some out)" "SetSettings env out s = (err, s1)"
    for req out err s1
    using site_ok_replaced[OF assms(1) that(2) assms(2,3)] geo_update_ok[OF _ that(1)] assms(1)
    by (simp add: site_ok_def)
  then show ?thesis
    using assms(1)
    by (auto simp: UpdateGeoIPConfig_def GetSettings_def split: sum.split option.split prod.split)
qed

lemma site_ok_logo:
  assumes "site_ok s"
  shows "site_ok (snd (snd (UploadLogo detect lower env f s)))"
proof -
  have "''logo_path'' \<notin> set guarded_keys" by (simp add: guarded_keys_def turnstile_keys geo_setting_defs)
  then have "site_ok s1" if "SetSetting env ''logo_path'' v s = (err, s1)" for v err s1
    using site_ok_single[OF assms, of "''logo_path''" env v] that by simp
  then show ?thesis
    using assms site_ok_refresh[of _ env 0]
    by (cases f) (auto simp: UploadLogo_def Let_def split: sum.split option.split prod.split)
qed

lemma site_ok_seed:
  assumes "site_ok s" "ranges env"
  shows "site_ok (snd (SeedSettingsFromConfig env cfg s))"
proof -
  have "site_ok s1" if "SetSettings env (seeds cfg (st_rows s)) s = (err, s1)" for err s1
    using site_ok_unguarded[OF assms(1) that assms(2)] dom_seeds[of cfg "st_rows s"] allowed_unguarded by blast
  then show ?thesis
    using assms(1) by (cases "SetSettings env (seeds cfg (st_rows s)) s")
      (auto simp: SeedSettingsFromConfig_def GetSettings_def split: option.split)
qed

lemma site_ok_apply:
  assumes "site_ok s" "ranges env" "writes_work env"
  shows "site_ok (site_apply sp env op s)"
proof (cases op)
  case (SoDownloaded city time)
  have "SettingCityLastDownload \<notin> set guarded_keys" "SettingASNLastDownload \<notin> set guarded_keys"
    by (simp_all add: guarded_keys_def turnstile_keys geo_setting_defs)
  then show ?thesis using site_ok_single[OF assms(1)] SoDownloaded by simp
qed (use assms in \<open>simp_all add: site_ok_settings site_ok_turnstile site_ok_geo site_ok_logo site_ok_seed site_ok_refresh\<close>)

lemma site_ok_reach:
  assumes "site_reach sp E s" "\<And>env. E env \<Longrightarrow> ranges env \<and> writes_work env"
  shows "site_ok s"
  using assms(1)
proof (induction rule: site_reach.induct)
  case init
  then show ?case
    by (simp add: empty_site_def site_ok_def settings_ok_def all_or_nothing_def Effective_def lookup_def
        empty_config_def ParseHostnames_def setting_def) code_simp
qed (use assms(2) site_ok_apply in blast)

section \<open>Properties\<close>



section \<open>A run\<close>

definition sample_site_env :: site_env where
  "sample_site_env = \<lparr>ev_read = None, ev_refresh = None, ev_write = (\<lambda>_. None), ev_stat = (\<lambda>_. None),
     ev_range = (\<lambda>m. filter (\<lambda>k. m k \<noteq> None) written_keys),
     ev_bounds = [SettingQueryTimeoutSec, SettingTracerouteTimeoutSec, SettingRetentionDays],
     ev_error_text = (\<lambda>_. ''error'')\<rparr>"

definition sample_params :: site_params where
  "sample_params = \<lparr>sp_ff = (\<lambda>_ _ _. 0), sp_status = \<lparr>se_mod_time = (\<lambda>_. []), se_format = (\<lambda>_. []),
     se_parse = (\<lambda>_. None), se_join = (\<lambda>a b. a @ ''/'' @ b), se_asn_epoch = 0, se_city_epoch = 0\<rparr>,
     sp_dir = [], sp_geo = None, sp_detect = (\<lambda>_. ''image/png''), sp_lower = to_lower\<rparr>"

definition sample_check :: turnstile_update where
  "sample_check = \<lparr>tu_site_key = ''key'', tu_secret = ''secret'', tu_hostnames = ''lg.example lg.example'', tu_clear = False\<rparr>"

definition sample_site :: site where
  "sample_site = snd (UpdateTurnstile sample_site_env (Inr sample_check) empty_site)"

lemma distinct_written: "distinct written_keys"
  by code_simp

lemma sample_site_env_ok: "ranges sample_site_env \<and> writes_work sample_site_env"
  using distinct_written by (auto simp: ranges_def writes_work_def sample_site_env_def enumerates_def)

lemma sample_site_reach: "site_reach sample_params (\<lambda>env. env = sample_site_env) sample_site"
  using site_reach.step[OF site_reach.init, of "\<lambda>env. env = sample_site_env" sample_site_env sample_params
      "SoTurnstile (Inr sample_check)"]
  by (simp add: sample_site_def)

lemma sample_site_secret: "lookup (st_rows sample_site) SettingSecret = ''secret''"
  by code_simp



section \<open>What goes wrong\<close>

text \<open>A number between blanks passes the check of the panel and is ignored by the readers.\<close>

lemma padded_number_stored_and_ignored:
  "let req = Inr [SettingQueryTimeoutSec \<mapsto> '' 30 '', SettingRetentionDays \<mapsto> '' 7 ''];
       s = snd (snd (UpdateSettings sample_site_env req empty_site)) in
   lookup (st_rows s) SettingQueryTimeoutSec = '' 30 '' \<and>
   settingSeconds (AllSettings s) SettingQueryTimeoutSec 15 = 15 \<and>
   RetentionFromSettings (st_rows s) 90 = 90"
  by code_simp

text \<open>A stored empty value is replaced at the next start.\<close>

lemma seed_replaces_empty:
  "lookup (st_rows (snd (SeedSettingsFromConfig sample_site_env
     \<lparr>sc_default_timeout = 15, sc_traceroute_timeout = 60, sc_update_enabled = True, sc_retention_days = 90\<rparr>
     (empty_site\<lparr>st_rows := [SettingQueryTimeoutSec \<mapsto> []]\<rparr>)))) SettingQueryTimeoutSec = ''15''"
  by code_simp

text \<open>A write that fails half-way leaves the check with a secret and no host name, which rejects every query.\<close>

lemma half_written_check:
  "let env = sample_site_env\<lparr>ev_range := (\<lambda>m. [SettingSecret, SettingSiteKey, SettingHostnames, SettingCleared]),
         ev_write := (\<lambda>k. if k = SettingHostnames then Some (PlainError ''database is locked'') else None)\<rparr>;
       s = snd (UpdateTurnstile env (Inr sample_check) empty_site);
       s1 = snd (RefreshSettings sample_site_env 0 s);
       v = New_verifier (Effective (AllSettings s1)) in
   Enabled v \<and> Verify (\<lambda>_ _ _. Some (200, Some \<lparr>sv_success = True, sv_action = ActionQuery, sv_hostname = ''lg.example''\<rparr>))
     v ''token'' ''192.0.2.1'' = Some errRejected"
  by code_simp

end
