(* ===== verification/TracerouteLines.thy ===== *)
theory TracerouteLines
  imports Go_Regexp Geo_Names Go_Net
begin

text \<open>
  The traceroute lines a query streams (\<open>internal/server/handler/public.go\<close>): the responder's address,
  the label of its AS and the split of a hop that several routers answered. \<open>resolve\<close> is what
  \<open>GeoIPDB.ResolveASN\<close> answers for an address, none on an error.
\<close>

section \<open>Patterns\<close>

definition digits13 :: regex where
  "digits13 = RxSeq (RxChars rx_digit) (RxOpt True (RxSeq (RxChars rx_digit) (RxOpt True (RxChars rx_digit))))"

definition dotted_quad :: regex where
  "dotted_quad = rx_seqs [digits13, rx_lit (CHR ''.''), digits13, rx_lit (CHR ''.''), digits13,
     rx_lit (CHR ''.''), digits13]"

definition ipRegex :: regex where
  "ipRegex = rx_seqs [RxWordBoundary, RxGroup 1 dotted_quad, RxWordBoundary]"

definition tracerouteHopRe :: regex where
  "tracerouteHopRe =
     rx_seqs [RxBegin, RxGroup 1 (RxSeq (RxStar True (RxChars rx_space)) (rx_plus True (RxChars rx_digit))),
       rx_plus True (RxChars rx_space), RxGroup 2 (rx_plus True (RxChars (\<lambda>c. c \<noteq> CHR 0x0A))), RxEnd]"

definition tracerouteHostIPRe :: regex where
  "tracerouteHostIPRe =
     rx_seqs [RxGroup 1 (rx_plus False (RxChars (\<lambda>c. \<not> rx_space c))), rx_plus True (RxChars rx_space),
       rx_lit (CHR ''(''), RxGroup 2 dotted_quad, rx_lit (CHR '')'')]"

definition tracerouteLineIP :: "string \<Rightarrow> string" where
  "tracerouteLineIP line =
     (case rx_find tracerouteHostIPRe line of
        Some m \<Rightarrow> rx_group line m 2
      | None \<Rightarrow> (case rx_find ipRegex line of Some m \<Rightarrow> rx_group line m 1 | None \<Rightarrow> []))"

section \<open>The label\<close>

text \<open>The length of the UTF-8 sequence a string starts with, none when it starts with none.\<close>

definition continuation :: "char \<Rightarrow> bool" where "continuation c \<longleftrightarrow> 0x80 \<le> code c \<and> code c \<le> 0xBF"

definition rune_length :: "string \<Rightarrow> nat option" where
  "rune_length s =
     (case s of
        [] \<Rightarrow> None
      | a # t \<Rightarrow>
          (let n = code a;
               lo = (if n = 0xE0 then 0xA0 else if n = 0xF0 then 0x90 else 0x80);
               hi = (if n = 0xED then 0x9F else if n = 0xF4 then 0x8F else 0xBF);
               second = (t \<noteq> [] \<and> lo \<le> code (t ! 0) \<and> code (t ! 0) \<le> hi)
           in if n < 0x80 then Some 1
              else if 0xC2 \<le> n \<and> n \<le> 0xDF \<and> second then Some 2
              else if 0xE0 \<le> n \<and> n \<le> 0xEF \<and> second \<and> 2 \<le> length t \<and> continuation (t ! 1) then Some 3
              else if 0xF0 \<le> n \<and> n \<le> 0xF4 \<and> second \<and> 3 \<le> length t \<and> continuation (t ! 1) \<and>
                      continuation (t ! 2) then Some 4
              else None))"

text \<open>\<open>strings.Map\<close> drops the control characters and turns bytes that are no UTF-8 into U+FFFD.\<close>

function sanitizeName :: "string \<Rightarrow> string" where
  "sanitizeName [] = []"
| "sanitizeName (a # t) =
     (case rune_length (a # t) of
        None \<Rightarrow> [CHR 0xEF, CHR 0xBF, CHR 0xBD] @ sanitizeName t
      | Some n \<Rightarrow> (if code a < 32 then [] else take n (a # t)) @ sanitizeName (drop n (a # t)))"
  by pat_completeness auto
termination
proof (relation "measure length", goal_cases)
  case (3 a t n)
  then have "0 < n" by (auto simp: rune_length_def Let_def split: if_splits)
  then show ?case by simp
qed simp_all

definition not_shown :: "net_ip option \<Rightarrow> bool" where
  "not_shown parsed = (case parsed of None \<Rightarrow> True | Some p \<Rightarrow> is_private p \<or> is_loopback p \<or> is_link_local_unicast p)"

definition asSuffixForIP :: "(string \<Rightarrow> as_info option) \<Rightarrow> string \<Rightarrow> string" where
  "asSuffixForIP resolve ip =
     (if not_shown (parse_ip ip) then []
      else case resolve ip of
        None \<Rightarrow> []
      | Some info \<Rightarrow>
          if as_asn info = 0 then []
          else (let suffix = '' [AS'' @ format_uint (as_asn info) @ '' -'';
                    name0 = sanitizeName (FormatTracerouteOrgName (as_org_name info));
                    name = (if name0 = [] then sanitizeName (FormatTracerouteOrgName (as_short_name info)) else name0)
                in suffix @ (if name \<noteq> [] then '' '' @ name else []) @ '']''))"

definition enrichLineWithAS :: "(string \<Rightarrow> as_info option) \<Rightarrow> string \<Rightarrow> string" where
  "enrichLineWithAS resolve line =
     (let ip = tracerouteLineIP line in if ip = [] then line else line @ asSuffixForIP resolve ip)"

definition enrichProbeSegment :: "(string \<Rightarrow> as_info option) \<Rightarrow> string \<Rightarrow> string" where
  "enrichProbeSegment resolve segment =
     (let ip = tracerouteLineIP segment in if ip = [] then segment else segment @ asSuffixForIP resolve ip)"

section \<open>Hops\<close>

text \<open>From the start of each host to the start of the next one.\<close>

fun probe_segments :: "string \<Rightarrow> nat list \<Rightarrow> string list" where
  "probe_segments body [] = []"
| "probe_segments body (start # starts) =
     (let fin = (case starts of [] \<Rightarrow> length body | s # _ \<Rightarrow> s);
          segment = trim_space (substring body start fin)
      in (if segment \<noteq> [] then [segment] else []) @ probe_segments body starts)"

definition splitTracerouteProbes :: "string \<Rightarrow> string list" where
  "splitTracerouteProbes body0 =
     (let body = trim_space body0 in
      if body = [] then []
      else (let locs = rx_find_all tracerouteHostIPRe body in
            if length locs = 0 then [body] else probe_segments body (map fst locs)))"

fun public_ips_loop :: "string list \<Rightarrow> string list \<Rightarrow> string list" where
  "public_ips_loop seen [] = []"
| "public_ips_loop seen (seg # segs) =
     (let ip = tracerouteLineIP seg in
      if ip = [] \<or> not_shown (parse_ip ip) \<or> ip \<in> set seen then public_ips_loop seen segs
      else ip # public_ips_loop (ip # seen) segs)"

definition distinctPublicIPs :: "string list \<Rightarrow> string list" where
  "distinctPublicIPs segments = public_ips_loop [] segments"

definition formatTracerouteLine :: "(string \<Rightarrow> as_info option) \<Rightarrow> string \<Rightarrow> string" where
  "formatTracerouteLine resolve line =
     (let trimmed = trim_space line in
      if trimmed = [] \<or> has_prefix trimmed ''traceroute to'' \<or> has_prefix trimmed ''Start'' then line
      else case rx_find tracerouteHopRe line of
        None \<Rightarrow> enrichLineWithAS resolve line
      | Some m \<Rightarrow>
          (let hopPrefix = rx_group line m 1;
               body = trim_space (rx_group line m 2);
               probes = splitTracerouteProbes body
           in if length probes \<le> 1 \<or> length (distinctPublicIPs probes) \<le> 1
              then enrichLineWithAS resolve line
              else (let pad = replicate (length hopPrefix + 2) (CHR '' '')
                    in hopPrefix @ ''  '' @
                       join_str ([CHR 0x0A] @ pad) (map (enrichProbeSegment resolve) probes))))"

section \<open>Facts\<close>

definition is_part :: "string \<Rightarrow> string \<Rightarrow> bool" where "is_part p s \<longleftrightarrow> (\<exists>u v. s = u @ p @ v)"

lemma is_part_refl [intro]: "is_part s s"
  unfolding is_part_def by (intro exI[of _ "[]"]) simp

lemma is_part_trans [trans]: "is_part p q \<Longrightarrow> is_part q s \<Longrightarrow> is_part p s"
  unfolding is_part_def by (metis append.assoc)

lemma is_part_set: "is_part p s \<Longrightarrow> set p \<subseteq> set s"
  by (auto simp: is_part_def)

lemma is_part_substring [intro]: "is_part (substring w i j) w"
  unfolding is_part_def by (rule substring_sub)

lemma is_part_trim: "is_part (trim_space s) s"
proof -
  obtain u where "s = u @ trim_space_left s" using trim_seqs_suffix unfolding trim_space_left_def by metis
  moreover obtain v where "trim_space_left s = trim_space s @ v"
    using trim_space_right_prefix unfolding trim_space_def by blast
  ultimately have "s = u @ trim_space s @ v" by simp
  then show ?thesis unfolding is_part_def by blast
qed

lemma is_part_group: "is_part (rx_group w m k) w"
proof (cases "map_of (snd (snd m)) k")
  case None
  then show ?thesis by (auto simp: rx_group_def is_part_def intro: exI[of _ "[]"])
next
  case (Some ij)
  then show ?thesis by (cases ij) (simp add: rx_group_def is_part_substring)
qed

lemma probe_segments_parts: "p \<in> set (probe_segments body starts) \<Longrightarrow> is_part p body"
  by (induction body starts rule: probe_segments.induct)
     (auto simp: Let_def intro: is_part_trans[OF is_part_trim is_part_substring] split: if_splits)

lemma splitTracerouteProbes_parts: "p \<in> set (splitTracerouteProbes body) \<Longrightarrow> is_part p body"
  using is_part_trans[OF _ is_part_trim[of body]] probe_segments_parts
  by (auto simp: splitTracerouteProbes_def Let_def is_part_trim split: if_splits)

lemma rune_length_tail:
  assumes "rune_length (a # t) = Some n"
  shows "(n = 1 \<and> code a < 0x80 \<or> 0x80 \<le> code a) \<and> (\<forall>i < n - 1. i < length t \<and> 0x80 \<le> code (t ! i))"
proof -
  have "i < 2 \<longleftrightarrow> i = 0 \<or> i = 1" "i < 3 \<longleftrightarrow> i = 0 \<or> i = 1 \<or> i = 2" for i :: nat by auto
  then show ?thesis
    using assms by (auto simp: rune_length_def Let_def continuation_def split: if_splits)
qed

lemma sanitizeName_printable: "c \<in> set (sanitizeName s) \<Longrightarrow> 32 \<le> code c"
proof (induction s rule: sanitizeName.induct)
  case (2 a t)
  show ?case
  proof (cases "rune_length (a # t)")
    case None
    then show ?thesis using 2 by (auto simp: code_def)
  next
    case (Some n)
    have "32 \<le> code x" if "x \<in> set (take n (a # t))" "\<not> code a < 32" for x
    proof (cases "x = a")
      case False
      then have "x \<in> set (take (n - 1) t)" using that(1) by (cases n) auto
      then obtain i where "i < n - 1" "x = t ! i" by (auto simp: in_set_conv_nth)
      then show ?thesis using rune_length_tail[OF Some] by fastforce
    qed (use that in simp)
    then show ?thesis using 2 Some by (auto split: if_splits)
  qed
qed simp

lemma asSuffix_printable: "c \<in> set (asSuffixForIP resolve ip) \<Longrightarrow> 32 \<le> code c"
proof -
  have "32 \<le> (of_char c :: nat)" if "c \<in> set (format_uint n)" for n c
    using dec_string_digits[of c "unat n"] that by (simp add: format_uint_def is_digit_def code_def)
  then show "c \<in> set (asSuffixForIP resolve ip) \<Longrightarrow> 32 \<le> code c"
    by (auto simp: asSuffixForIP_def Let_def code_def dest: sanitizeName_printable[unfolded code_def]
        split: if_splits option.splits)
qed

lemma enrich_label:
  "\<exists>label. (\<forall>c \<in> set label. 32 \<le> code c) \<and> enrichProbeSegment resolve p = p @ label"
  "\<exists>label. (\<forall>c \<in> set label. 32 \<le> code c) \<and> enrichLineWithAS resolve p = p @ label"
  using asSuffix_printable
  by (auto simp: enrichProbeSegment_def enrichLineWithAS_def Let_def intro: exI[of _ "[]"])

lemma split_indented:
  assumes "xs \<noteq> []" "\<And>x. x \<in> set xs \<Longrightarrow> d \<notin> set x" "d \<notin> set pad"
  shows "split_char d (join_str ([d] @ pad) xs) = hd xs # map ((@) pad) (tl xs)"
proof -
  have "join_str ([d] @ pad) (x # ys) = join_str [d] (x # map ((@) pad) ys)" for x ys
  proof (induction ys arbitrary: x)
    case (Cons a ys)
    then show ?case by (cases ys) simp_all
  qed simp
  then have "join_str ([d] @ pad) xs = join_str [d] (hd xs # map ((@) pad) (tl xs))"
    using assms(1) by (cases xs) simp_all
  moreover have "d \<notin> set w" if "w \<in> set (hd xs # map ((@) pad) (tl xs))" for w
    using that assms by (cases xs) auto
  ultimately show ?thesis using split_join_char[of "hd xs # map ((@) pad) (tl xs)" d] by simp
qed

text \<open>The address a line is labelled by consists of digits and dots and stands in the line.\<close>

lemma tracerouteLineIP_quad:
  "is_part (tracerouteLineIP line) line \<and> (\<forall>c \<in> set (tracerouteLineIP line). is_digit c \<or> c = CHR ''.'')"
proof -
  let ?p = "\<lambda>c. is_digit c \<or> c = CHR ''.''"
  have re: "group_over ?p 2 tracerouteHostIPRe" "group_over ?p 1 ipRegex"
    by (simp_all add: tracerouteHostIPRe_def ipRegex_def dotted_quad_def digits13_def rx_lit_def rx_plus_def
        rx_digit_def)
  have nil: "is_part [] line" unfolding is_part_def by (intro exI[of _ "[]"] exI[of _ line]) simp
  show ?thesis
    using rx_group_over[OF _ re(1)] rx_group_over[OF _ re(2)] is_part_group nil
    by (auto simp: tracerouteLineIP_def split: option.split)
qed

section \<open>What is streamed\<close>

text \<open>A traceroute line of one path is streamed as it is with at most a label behind it; a hop that several
  routers answered becomes one line per probe, each a piece of the hop with at most a label behind it,
  the later ones indented under the first. No label holds a control character, so an AS name can
  neither add lines to the stream nor hide one.\<close>

theorem formatTracerouteLine_lines:
  assumes "CHR 0x0A \<notin> set line"
  shows "(\<exists>label. (\<forall>c \<in> set label. 32 \<le> code c) \<and> formatTracerouteLine resolve line = line @ label) \<or>
    (\<exists>hop parts. is_part hop line \<and> 2 \<le> length parts \<and>
      (\<forall>(p, label) \<in> set parts. is_part p line \<and> (\<forall>c \<in> set label. 32 \<le> code c)) \<and>
      split_char (CHR 0x0A) (formatTracerouteLine resolve line) =
        (hop @ ''  '' @ fst (hd parts) @ snd (hd parts)) #
        map (\<lambda>(p, label). replicate (length hop + 2) (CHR '' '') @ p @ label) (tl parts))"
proof (cases "\<exists>label. (\<forall>c \<in> set label. 32 \<le> code c) \<and> formatTracerouteLine resolve line = line @ label")
  case False
  then have "\<not> formatTracerouteLine resolve line = line" by force
  then obtain m where m: "rx_find tracerouteHopRe line = Some m" and
      probes: "\<not> length (splitTracerouteProbes (trim_space (rx_group line m 2))) \<le> 1"
      and eq: "formatTracerouteLine resolve line = rx_group line m 1 @ ''  '' @
        join_str ([CHR 0x0A] @ replicate (length (rx_group line m 1) + 2) (CHR '' ''))
          (map (enrichProbeSegment resolve) (splitTracerouteProbes (trim_space (rx_group line m 2))))"
    using False enrich_label(2)[of resolve line]
    by (auto simp: formatTracerouteLine_def Let_def split: if_splits option.splits)
  define hop where "hop = rx_group line m 1"
  define ps where "ps = splitTracerouteProbes (trim_space (rx_group line m 2))"
  define label where "label p = drop (length p) (enrichProbeSegment resolve p)" for p
  have label: "enrichProbeSegment resolve p = p @ label p" "c \<in> set (label p) \<Longrightarrow> 32 \<le> code c" for p c
    using enrich_label(1)[of resolve p] by (auto simp: label_def)
  have parts: "is_part p line" if "p \<in> set ps" for p
    using splitTracerouteProbes_parts[of p] that is_part_trim is_part_group
    unfolding ps_def by (meson is_part_trans)
  have no_nl: "CHR 0x0A \<notin> set x" if "x \<in> set (map (enrichProbeSegment resolve) ps)" for x
  proof -
    obtain p where p: "p \<in> set ps" "x = p @ label p" using \<open>x \<in> _\<close> by (auto simp: label(1))
    then show ?thesis
      using is_part_set[OF parts[OF p(1)]] assms label(2)[of "CHR 0x0A" p] by (auto simp: code_def)
  qed
  have hop: "is_part hop line" "CHR 0x0A \<notin> set hop"
    using is_part_group[of line m 1] is_part_set assms unfolding hop_def by blast+
  have ne: "ps \<noteq> []" using probes by (auto simp: ps_def)
  define pad where "pad = replicate (length hop + 2) (CHR '' '')"
  define body where "body = join_str ([CHR 0x0A] @ pad) (map (enrichProbeSegment resolve) ps)"
  have eq': "formatTracerouteLine resolve line = (hop @ ''  '') @ body"
    by (simp only: eq hop_def ps_def pad_def body_def append_assoc)
  have split: "split_char (CHR 0x0A) body =
      enrichProbeSegment resolve (hd ps) # map (\<lambda>p. pad @ enrichProbeSegment resolve p) (tl ps)"
    unfolding body_def
    using split_indented[of "map (enrichProbeSegment resolve) ps" "CHR 0x0A" pad, OF _ no_nl] ne
    by (simp add: hd_map map_tl comp_def pad_def)
  have "split_char (CHR 0x0A) (u @ s) = (u @ hd (split_char (CHR 0x0A) s)) # tl (split_char (CHR 0x0A) s)"
    if "CHR 0x0A \<notin> set u" for u s
    using that by (induction u) (auto split: list.split)
  from this[of "hop @ ''  ''" body] hop(2)
  have "split_char (CHR 0x0A) (formatTracerouteLine resolve line) =
      (hop @ ''  '' @ hd ps @ label (hd ps)) # map (\<lambda>p. pad @ p @ label p) (tl ps)"
    by (simp add: eq' split label(1))
  moreover define parts where "parts = map (\<lambda>p. (p, label p)) ps"
  ultimately show ?thesis
    using hop(1) probes parts label(2) ne
    by (intro disjI2 exI[of _ hop] exI[of _ parts])
       (auto simp: parts_def ps_def[symmetric] hd_map map_tl[symmetric] comp_def pad_def)
qed blast

definition sample_resolve :: "string \<Rightarrow> as_info option" where
  "sample_resolve ip =
     (if ip = ''8.8.8.8'' then Some (empty_as_info\<lparr>as_asn := 15169, as_org_name := ''Goo'' @ [CHR 0x0A] @ ''gle''\<rparr>)
      else None)"

definition sample_hop_line :: string where "sample_hop_line = '' 3  a (8.8.8.8)  1 ms b (9.9.9.9)  2 ms''"

lemma sample_hop_format:
  "formatTracerouteLine sample_resolve sample_hop_line =
     '' 3  a (8.8.8.8)  1 ms [AS15169 - Goo gle]'' @ [CHR 0x0A] @ ''    b (9.9.9.9)  2 ms''"
  by code_simp

lemma formatTracerouteLine_lines_witness:
  "\<exists>hop parts. is_part hop sample_hop_line \<and> 2 \<le> length parts \<and>
     split_char (CHR 0x0A) (formatTracerouteLine sample_resolve sample_hop_line) =
       (hop @ ''  '' @ fst (hd parts) @ snd (hd parts)) #
       map (\<lambda>(p, label). replicate (length hop + 2) (CHR '' '') @ p @ label) (tl parts)"
proof -
  have line: "CHR 0x0A \<notin> set sample_hop_line" by (simp add: sample_hop_line_def)
  have "\<not> (\<exists>label. (\<forall>c \<in> set label. 32 \<le> code c) \<and>
      formatTracerouteLine sample_resolve sample_hop_line = sample_hop_line @ label)"
  proof
    assume "\<exists>label. (\<forall>c \<in> set label. 32 \<le> code c) \<and>
      formatTracerouteLine sample_resolve sample_hop_line = sample_hop_line @ label"
    then obtain label where label: "\<forall>c \<in> set label. 32 \<le> code c"
        "formatTracerouteLine sample_resolve sample_hop_line = sample_hop_line @ label" by blast
    have "CHR 0x0A \<in> set (formatTracerouteLine sample_resolve sample_hop_line)" by (simp add: sample_hop_format)
    then have "CHR 0x0A \<in> set label" using line by (simp only: label(2) set_append Un_iff) blast
    then show False using label(1) by (auto simp: code_def)
  qed
  then show ?thesis using formatTracerouteLine_lines[OF line, of sample_resolve] by blast
qed

end
