(* ===== verification/Submit.thy ===== *)
theory Submit
  imports Engine QueryStream TracerouteLines SiteSettings Repos Target
begin

text \<open>
  The submission of a query (\<open>SubmitQuery\<close> and \<open>GetResult\<close> in \<open>internal/server/handler/public.go\<close>): the
  checks of a request, the callbacks that carry the engine's output into the query store, the wait for
  the AS path and what is published in the end. The engine runs in a goroutine of its own; its
  prefetch of the AS path, other queries, readers and the cleanup of the store interleave with it.
\<close>

section \<open>The request\<close>

record submit_request =
  sr_node_id :: int
  sr_command :: string
  sr_target :: string
  sr_protocol :: string
  sr_ping_count :: int
  sr_max_hops :: int
  sr_turnstile :: string

text \<open>What a request meets: the copy of the settings, siteverify, the snapshot of the nodes, DNS, a fresh
  id, the client's address, the time and the text of the binding's error.\<close>

record submit_env =
  sn_settings :: settings_map
  sn_siteverify :: siteverify
  sn_nodes :: node_cache
  sn_dns :: dns_lookup
  sn_uuid :: string
  sn_client_ip :: string
  sn_now :: go_time
  sn_required :: string

text \<open>A refusal: status, message and error code, empty where the answer has none.\<close>

type_synonym refusal = "nat \<times> string \<times> string"

definition refuse_error :: "go_error \<Rightarrow> refusal" where
  "refuse_error err = (400, SanitizeErrorMsg err, ClassifyError err)"

definition activeTurnstile :: "submit_env \<Rightarrow> Verifier" where
  "activeTurnstile env = New_verifier (Effective (sn_settings env))"

definition clamp_options :: "submit_request \<Rightarrow> query_options" where
  "clamp_options req =
     (let pc = (if sr_ping_count req \<le> 0 then 5 else sr_ping_count req);
          mh = (if sr_max_hops req \<le> 0 then 30 else sr_max_hops req)
      in \<lparr>qo_ping_count = (if pc > 20 then 20 else pc), qo_max_hops = (if mh > 64 then 64 else mh),
          qo_protocol = sr_protocol req\<rparr>)"

definition max_timeouts :: "settings_map \<Rightarrow> int" where
  "max_timeouts settings = settingInt settings ''traceroute_max_timeouts'' 5 1 20"

definition invalid_command :: string where
  "invalid_command = ''invalid command. Must be one of: ping, traceroute, bgp_route''"

text \<open>The checks in their order; an accepted request becomes a query with its audit text.\<close>

definition check_submit :: "submit_env \<Rightarrow> string + submit_request \<Rightarrow> refusal + query \<times> string" where
  "check_submit env body =
     (case body of
        Inl msg \<Rightarrow> Inl (400, msg, [])
      | Inr req \<Rightarrow>
          if sr_node_id req = 0 \<or> sr_command req = [] \<or> sr_target req = [] then Inl (400, sn_required env, [])
          else if Enabled (activeTurnstile env) \<and>
                  Verify (sn_siteverify env) (activeTurnstile env) (sr_turnstile req) (sn_client_ip env) \<noteq> None
          then Inl (403, ''security check failed'', ''TURNSTILE'')
          else if \<not> IsSupportedNodeCommand (sr_command req) then Inl (400, invalid_command, [])
          else (case NodeByID (sr_node_id req) (sn_nodes env) of
                  None \<Rightarrow> Inl (404, ''node not found'', [])
                | Some n \<Rightarrow>
                    if length (n_enabled_cmds n) > 0 \<and> \<not> CanExecute n (sr_command req)
                    then Inl (refuse_error ErrCommandDisabled)
                    else (case ValidateQueryTarget (sn_dns env) (sr_command req) (sr_target req) of
                            Inl err \<Rightarrow> Inl (refuse_error err)
                          | Inr resolved \<Rightarrow>
                              let opts = clamp_options req in
                              Inr (\<lparr>q_id = sn_uuid env, q_node_id = sr_node_id req, q_command = sr_command req,
                                     q_target = resolved, q_options = opts, q_source_ip = sn_client_ip env,
                                     q_user_id = None, q_created_at = sn_now env\<rparr>,
                                   FormatQueryAuditParams (sr_command req) resolved (sr_protocol req)
                                     (qo_ping_count opts) (qo_max_hops opts)))))"

section \<open>Lines\<close>

definition is_header :: "string \<Rightarrow> bool" where
  "is_header line \<longleftrightarrow>
     has_prefix (trim_space line) ''traceroute to'' \<or> has_prefix (trim_space line) ''Start''"

text \<open>\<open>geo\<close>: none without a GeoIP database.\<close>

definition line_parts :: "(string \<Rightarrow> as_info option) option \<Rightarrow> string \<Rightarrow> string \<Rightarrow> string list" where
  "line_parts geo command line =
     (let enriched = (case geo of
            Some resolve \<Rightarrow>
              if command = ''traceroute'' \<and> \<not> is_header line then formatTracerouteLine resolve line else line
          | None \<Rightarrow> line)
      in filter (\<lambda>part. part \<noteq> []) (split_char (CHR 0x0A) enriched))"

text \<open>How many hops in a row have not answered, after one more line.\<close>

definition count_timeouts :: "string \<Rightarrow> string \<Rightarrow> int \<Rightarrow> int" where
  "count_timeouts command line k =
     (if command \<noteq> ''traceroute'' then k
      else let stripped = trim_left_set (CHR 0x09 # ''0123456789. '') (trim_space line) in
        if has_prefix stripped ''* * *'' then k + 1 else if contains_str stripped ''ms'' then 0 else k)"

definition ShouldStop :: "settings_map \<Rightarrow> string \<Rightarrow> string list \<Rightarrow> bool" where
  "ShouldStop settings command ls \<longleftrightarrow> max_timeouts settings \<le> fold (count_timeouts command) ls 0"

section \<open>Waiting for the AS path\<close>

text \<open>One turn of the loop: the time of its test, the store's answer, the time at which the remaining
  time is computed, and whether the channel was ready before the timer.\<close>

record wait_world =
  ww_now :: "nat \<Rightarrow> go_time"
  ww_get :: "nat \<Rightarrow> query_result option option"
  ww_until :: "nat \<Rightarrow> go_time"
  ww_woken :: "nat \<Rightarrow> bool"

definition wait_ready :: "query_result option option \<Rightarrow> bool" where
  "wait_ready got = (case got of Some r \<Rightarrow> asPathEnrichmentReady r | None \<Rightarrow> False)"

text \<open>The turn in which the loop ends; none when it never does.\<close>

partial_function (option) waitForASPathEnrichment :: "wait_world \<Rightarrow> go_time \<Rightarrow> nat \<Rightarrow> nat option" where
  "waitForASPathEnrichment w deadline k =
     (if \<not> ww_now w k < deadline then Some k
      else if wait_ready (ww_get w k) then Some k
      else if deadline - ww_until w k \<le> 0 then Some k
      else waitForASPathEnrichment w deadline (Suc k))"

definition poll_interval :: duration where "poll_interval = 100000000"

definition asPathWait :: duration where "asPathWait = 8 * second"

definition poll_wait :: "wait_world \<Rightarrow> go_time \<Rightarrow> nat \<Rightarrow> duration" where
  "poll_wait w deadline k =
     (if deadline - ww_until w k > poll_interval then poll_interval else deadline - ww_until w k)"

text \<open>Time does not run backwards, and a timer fires no earlier than it was set for.\<close>

definition clock_ok :: "wait_world \<Rightarrow> go_time \<Rightarrow> bool" where
  "clock_ok w deadline \<longleftrightarrow> (\<forall>k. ww_now w k \<le> ww_until w k \<and> ww_until w k \<le> ww_now w (Suc k) \<and>
     (\<not> ww_woken w k \<longrightarrow> ww_until w k + poll_wait w deadline k \<le> ww_now w (Suc k)))"

section \<open>Publishing\<close>

text \<open>What the callbacks do to the store.\<close>

fun callback_events :: "string \<Rightarrow> (string \<Rightarrow> as_info option) option \<Rightarrow> string \<Rightarrow> engine_event \<Rightarrow> store_event list" where
  "callback_events qid geo command (EvPartial r) = [EvMerge qid (Some r)]"
| "callback_events qid geo command (EvLine line) = map (EvAppend qid) (line_parts geo command line)"

definition submit_callbacks :: execute_option where
  "submit_callbacks = \<lparr>eo_on_line = True, eo_on_partial = True, eo_should_stop = True\<rparr>"

definition engine_events :: "string \<Rightarrow> (string \<Rightarrow> as_info option) option \<Rightarrow> string \<Rightarrow> engine_event list \<Rightarrow> store_event list" where
  "engine_events qid geo command evs = concat (map (callback_events qid geo command) evs)"

text \<open>The goroutine from the first entry to the final result: \<open>during\<close> are the steps on the store until
  the engine returns, its callbacks and whatever interleaves with them; \<open>waiting\<close>, \<open>reading\<close> those of
  others until the stored result is read and until it is replaced.\<close>

definition run_query ::
  "go_time \<Rightarrow> go_time \<Rightarrow> string \<Rightarrow> query_result option \<Rightarrow> store_event list \<Rightarrow> store_event list \<Rightarrow> store_event list \<Rightarrow>
   query_store \<Rightarrow> query_store" where
  "run_query start fin qid result during waiting reading s =
     (let s1 = store_run during (SetRunning start qid s);
          s2 = store_run waiting (MarkOutputComplete qid s1);
          merged = finish_read qid result s2
      in SetResult fin qid merged (store_run reading s2))"

record audit_entry =
  ae_source_ip :: string
  ae_node_id :: "int option"
  ae_command :: string
  ae_params :: string
  ae_duration_ms :: int
  ae_success :: bool
  ae_error_msg :: string

definition audit_of :: "query \<Rightarrow> string \<Rightarrow> query_result \<Rightarrow> audit_entry" where
  "audit_of q params r =
     \<lparr>ae_source_ip = q_source_ip q, ae_node_id = Some (q_node_id q), ae_command = q_command q, ae_params = params,
      ae_duration_ms = qr_duration_ms r, ae_success = (qr_status r = StatusDone), ae_error_msg = qr_error_msg r\<rparr>"

definition GetResult :: "string \<Rightarrow> query_store \<Rightarrow> query_result option reply" where
  "GetResult qid s =
     (if qid = [] then Refused 400 ''missing query id''
      else case Get qid s of
        None \<Rightarrow> Refused 404 ''query result not found or expired''
      | Some r \<Rightarrow> Reply 200 r)"

section \<open>The wait ends\<close>

lemma wait_stops:
  assumes "i \<le> K" and "\<not> ww_now w K < deadline"
  shows "\<exists>n. waitForASPathEnrichment w deadline i = Some n \<and> n \<le> K \<and>
    (wait_ready (ww_get w n) \<or> deadline \<le> ww_now w n \<or> deadline \<le> ww_until w n)"
  using assms(1)
proof (induction "K - i" arbitrary: i)
  case 0
  then have "i = K" by simp
  then show ?case using assms(2) by (subst waitForASPathEnrichment.simps) simp
next
  case (Suc d)
  show ?case
  proof (cases "ww_now w i < deadline \<and> \<not> wait_ready (ww_get w i) \<and> \<not> deadline - ww_until w i \<le> 0")
    case True
    have "d = K - Suc i" "Suc i \<le> K" using Suc.hyps(2) by simp_all
    then obtain n where n: "waitForASPathEnrichment w deadline (Suc i) = Some n" "n \<le> K"
        "wait_ready (ww_get w n) \<or> deadline \<le> ww_now w n \<or> deadline \<le> ww_until w n"
      using Suc.hyps(1)[of "Suc i"] by blast
    moreover have "waitForASPathEnrichment w deadline i = waitForASPathEnrichment w deadline (Suc i)"
      using True by (subst waitForASPathEnrichment.simps) simp
    ultimately show ?thesis by auto
  next
    case False
    then have "waitForASPathEnrichment w deadline i = Some i"
      by (subst waitForASPathEnrichment.simps) auto
    then show ?thesis using False Suc.prems by auto
  qed
qed

lemma wait_progress:
  assumes "clock_ok w deadline"
  shows "min deadline (ww_now w 0 + poll_interval * (int k - int (card {j. j < k \<and> ww_woken w j}))) \<le> ww_now w k"
proof (induction k)
  case (Suc k)
  have step: "ww_now w k \<le> ww_now w (Suc k)" "\<not> ww_woken w k \<longrightarrow> ww_until w k + poll_wait w deadline k \<le> ww_now w (Suc k)"
      "ww_now w k \<le> ww_until w k"
    using assms by (auto simp: clock_ok_def intro: order_trans)
  have fin: "finite {j. j < k \<and> ww_woken w j}" by simp
  show ?case
  proof (cases "ww_woken w k")
    case True
    then have "{j. j < Suc k \<and> ww_woken w j} = insert k {j. j < k \<and> ww_woken w j}" by auto
    then have "card {j. j < Suc k \<and> ww_woken w j} = Suc (card {j. j < k \<and> ww_woken w j})" using fin by simp
    then show ?thesis using Suc step(1) by simp
  next
    case False
    then have "{j. j < Suc k \<and> ww_woken w j} = {j. j < k \<and> ww_woken w j}" by (auto simp: less_Suc_eq)
    moreover have "min deadline (ww_now w k + poll_interval) \<le> ww_now w (Suc k)"
      using step False by (auto simp: poll_wait_def split: if_splits)
    moreover have "ww_now w 0 + poll_interval * (int (Suc k) - c) = ww_now w 0 + poll_interval * (int k - c) + poll_interval"
      for c by (simp add: algebra_simps)
    moreover have "min d (x + p) \<le> b" if "min d x \<le> a" "a \<le> b" "min d (a + p) \<le> b" for d x a b p :: int
      using that by (auto simp: min_def split: if_splits)
    ultimately show ?thesis using Suc step(1) by (simp only:)
  qed
qed simp

text \<open>C28: Waiting for the AS path always ends. While the clock moves on and at most \<open>n\<close> notifications cut
  a turn short, it ends within 80 turns and \<open>n\<close> more, and it ends because the enrichment is complete or
  the eight seconds are over.\<close>

theorem wait_terminates:
  assumes clock: "clock_ok w deadline" and woken: "\<forall>k. card {j. j < k \<and> ww_woken w j} \<le> n"
    and start: "deadline \<le> ww_now w 0 + asPathWait"
  shows "\<exists>k. waitForASPathEnrichment w deadline 0 = Some k \<and> k \<le> 80 + n \<and>
    (wait_ready (ww_get w k) \<or> deadline \<le> ww_now w k \<or> deadline \<le> ww_until w k)"
proof (rule wait_stops)
  have "card {j. j < 80 + n \<and> ww_woken w j} \<le> n" using woken by blast
  then have "80 \<le> int (80 + n) - int (card {j. j < 80 + n \<and> ww_woken w j})" by simp
  then have "asPathWait \<le> poll_interval * (int (80 + n) - int (card {j. j < 80 + n \<and> ww_woken w j}))"
    by (simp add: asPathWait_def poll_interval_def)
  then show "\<not> ww_now w (80 + n) < deadline"
    using wait_progress[OF clock, of "80 + n"] start by (simp add: min_def split: if_splits)
qed simp

text \<open>A path of two networks of which one is enriched: the loop runs until the time is over.\<close>

definition slow_world :: wait_world where
  "slow_world = \<lparr>ww_now = (\<lambda>k. int k * poll_interval), ww_get = (\<lambda>_. Some (Some (empty_query_result\<lparr>qr_as_path := [1, 2]\<rparr>))),
     ww_until = (\<lambda>k. int k * poll_interval), ww_woken = (\<lambda>_. False)\<rparr>"

lemma wait_terminates_witness:
  "\<exists>k. waitForASPathEnrichment slow_world asPathWait 0 = Some k \<and> k \<le> 80 + 0 \<and>
    (wait_ready (ww_get slow_world k) \<or> asPathWait \<le> ww_now slow_world k \<or> asPathWait \<le> ww_until slow_world k)"
  by (rule wait_terminates) (auto simp: slow_world_def clock_ok_def poll_wait_def poll_interval_def)

text \<open>The channel of a query the store no longer has is closed and always ready: no timer slows the
  loop down, which then turns as often as it can until the time is over.\<close>

lemma wait_spins_without_entry:
  "Get qid s = None \<Longrightarrow> \<not> wait_ready (Get qid s) \<and> NotifyReady qid s"
  by (simp add: Get_def wait_ready_def NotifyReady_def)

section \<open>Accepted requests\<close>


text \<open>A ping from the first node, with the security check on.\<close>

definition sample_submit :: submit_env where
  "sample_submit =
     \<lparr>sn_settings = [SettingSecret \<mapsto> ''secret'', SettingHostnames \<mapsto> ''lg.example''],
      sn_siteverify = (\<lambda>_ _ _. Some (200, Some \<lparr>sv_success = True, sv_action = ActionQuery, sv_hostname = ''lg.example''\<rparr>)),
      sn_nodes = \<lparr>nc_nodes = [], nc_by_id = [1 \<mapsto> example_node NodeTypeStandalone [CmdPing]]\<rparr>,
      sn_dns = example_lookup, sn_uuid = ''u1'', sn_client_ip = ''198.51.100.7'', sn_now = 7, sn_required = []\<rparr>"

definition sample_request :: submit_request where
  "sample_request = \<lparr>sr_node_id = 1, sr_command = CmdPing, sr_target = '' example.org'', sr_protocol = [], sr_ping_count = 90,
     sr_max_hops = 0, sr_turnstile = ''token''\<rparr>"

lemma sample_submit_accepted:
  "check_submit sample_submit (Inr sample_request) =
     Inr (\<lparr>q_id = ''u1'', q_node_id = 1, q_command = CmdPing, q_target = ''93.184.216.34'',
            q_options = \<lparr>qo_ping_count = 20, qo_max_hops = 30, qo_protocol = []\<rparr>, q_source_ip = ''198.51.100.7'',
            q_user_id = None, q_created_at = 7\<rparr>, ''93.184.216.34'' @ mid_dot @ ''count 20'')"
  by code_simp



end
