(* ===== verification/SubmitRun.thy ===== *)
theory SubmitRun
  imports Submit
begin

text \<open>
  What a submitted query leaves in the store, whatever interleaves with it: other queries, readers, the
  prefetch of the AS path and the cleanup within the life of the entry.
\<close>

section \<open>The entry while the query runs\<close>

definition in_store :: "string \<Rightarrow> go_time \<Rightarrow> string list \<Rightarrow> query_store \<Rightarrow> bool" where
  "in_store qid start ls s \<longleftrightarrow>
     (\<exists>e r. qs_results s qid = Some e \<and> en_created_at e = start \<and> en_lines e = ls \<and> en_result e = Some r)"

text \<open>Steps that leave the entry of a query alone, but for its lines and its AS path.\<close>

fun spares :: "string \<Rightarrow> go_time \<Rightarrow> duration \<Rightarrow> store_event \<Rightarrow> bool" where
  "spares qid start life (EvCleanup t) = (time_sub t start \<le> life)"
| "spares qid start life ev = (\<not> replaces qid ev)"

fun appends :: "string \<Rightarrow> store_event \<Rightarrow> bool" where
  "appends qid (EvAppend i l) = (i = qid)"
| "appends qid ev = False"

fun appended :: "store_event \<Rightarrow> string" where
  "appended (EvAppend i l) = l"
| "appended ev = []"

lemma in_store_step:
  assumes "in_store qid start ls s" and "spares qid start (qs_expiry s) ev"
  shows "in_store qid start (if appends qid ev then ls @ [appended ev] else ls) (store_step ev s)"
  using assms by (cases ev) (auto simp: in_store_def store_ops split: option.splits)

lemma in_store_run:
  assumes "in_store qid start ls s" and "list_all (spares qid start (qs_expiry s)) evs"
  shows "in_store qid start (ls @ map appended (filter (appends qid) evs)) (store_run evs s)"
  using assms
proof (induction evs arbitrary: s ls)
  case (Cons ev evs)
  then have "in_store qid start (if appends qid ev then ls @ [appended ev] else ls) (store_step ev s)"
    by (intro in_store_step) simp_all
  from Cons.IH[OF this] Cons.prems(2) show ?case by (auto split: if_splits)
qed simp

lemma in_store_start: "in_store qid start [] (SetRunning start qid s)"
  by (simp add: in_store_def store_ops)

lemma in_store_complete: "in_store qid start ls s \<Longrightarrow> in_store qid start ls (MarkOutputComplete qid s)"
  by (auto simp: in_store_def store_ops)

lemma qs_expiry_run [simp]: "qs_expiry (store_run evs s) = qs_expiry s"
  by (induction evs arbitrary: s) simp_all

lemma qs_expiry_ops [simp]:
  "qs_expiry (SetRunning t qid s) = qs_expiry s" "qs_expiry (MarkOutputComplete qid s) = qs_expiry s"
  using qs_expiry_step[of "EvSetRunning t qid"] qs_expiry_step[of "EvComplete qid"] by simp_all

section \<open>The callbacks\<close>

lemma engine_events_spare: "list_all (spares qid start life) (engine_events qid geo command evs)"
proof -
  have "list_all (spares qid start life) (callback_events qid geo command ev)" for ev
    by (cases ev) (auto simp: list_all_iff)
  then show ?thesis by (auto simp: engine_events_def list_all_iff)
qed

definition emitted_lines :: "engine_event list \<Rightarrow> string list" where
  "emitted_lines evs = List.map_filter (\<lambda>ev. case ev of EvLine l \<Rightarrow> Some l | EvPartial _ \<Rightarrow> None) evs"

lemma engine_events_lines:
  "map appended (filter (appends qid) (engine_events qid geo command evs)) =
     concat (map (line_parts geo command) (emitted_lines evs))"
proof (induction evs)
  case (Cons ev evs)
  have "map appended (filter (appends qid) (map (EvAppend qid) ls)) = ls" for ls
    by (induction ls) simp_all
  with Cons show ?case
    by (cases ev) (simp_all add: engine_events_def emitted_lines_def map_filter_simps)
qed (simp add: engine_events_def emitted_lines_def map_filter_simps)

lemma shuffled_lines:
  assumes "during \<in> shuffles xs noise" and "list_all (\<lambda>ev. \<not> appends qid ev) noise"
  shows "filter (appends qid) during = filter (appends qid) xs"
proof -
  have "filter (appends qid) noise = []" using assms(2) by (simp add: list_all_iff filter_empty_conv)
  moreover have "filter (appends qid) during \<in> filter (appends qid) ` shuffles xs noise" using assms(1) by simp
  ultimately show ?thesis by (simp add: filter_shuffles)
qed

lemma shuffled_spare:
  assumes "during \<in> shuffles xs noise" and "list_all P xs" and "list_all P noise"
  shows "list_all P during"
  using assms by (simp add: list_all_iff set_shuffles) (auto dest: set_shuffles)

section \<open>The result\<close>

lemma Execute_final:
  "qr_id (ex_result (Execute e limiter run opt q)) = q_id q \<and> is_final (ex_result (Execute e limiter run opt q))"
proof (cases rule: Execute_cases[of limiter run q e opt])
  case (runs n drv err r0 evs0 res evs pre rl)
  have "qr_id r0 = q_id q"
    using runs(5) run_command_fields(1)[of e drv n q opt _ err r0 evs0] by (auto split: option.splits)
  then show ?thesis
    using finish_facts[OF runs(6)] by (auto simp: runs(7) is_final_def split: option.splits)
qed (auto simp: early_exit_def is_final_def)

lemma core_id: "core r = core r' \<Longrightarrow> qr_id r = qr_id r'"
  by (drule arg_cong[where f = qr_id]) (simp add: core_def)

lemma is_final_core: "core r = core r' \<Longrightarrow> is_final r = is_final r'"
  using core_status[of r r'] by (simp add: is_final_def)

lemma finish_read_core:
  "\<exists>r'. finish_read qid (Some r) s = Some r' \<and> core r' = core r"
  by (auto simp: finish_read_def split: option.splits)

lemma run_query_entry:
  assumes "list_all (spares qid start (qs_expiry s)) (during @ waiting @ reading)"
  shows "in_store qid start (map appended (filter (appends qid) (during @ waiting @ reading)))
    (store_run reading (store_run waiting (MarkOutputComplete qid (store_run during (SetRunning start qid s)))))"
proof -
  have ok: "list_all (spares qid start (qs_expiry s)) during" "list_all (spares qid start (qs_expiry s)) waiting"
      "list_all (spares qid start (qs_expiry s)) reading" using assms by simp_all
  let ?f = "\<lambda>evs. map appended (filter (appends qid) evs)"
  have "in_store qid start (?f during) (store_run during (SetRunning start qid s))"
    using in_store_run[OF in_store_start[of qid start s], of during] ok(1) by simp
  note 1 = in_store_complete[OF this]
  have "in_store qid start (?f during @ ?f waiting) (store_run waiting (MarkOutputComplete qid (store_run during (SetRunning start qid s))))"
    by (rule in_store_run[OF 1]) (simp add: ok(2))
  note 2 = this
  have "in_store qid start ((?f during @ ?f waiting) @ ?f reading)
    (store_run reading (store_run waiting (MarkOutputComplete qid (store_run during (SetRunning start qid s)))))"
    by (rule in_store_run[OF 2]) (simp add: ok(3))
  then show ?thesis by simp
qed


section \<open>A run\<close>

definition sample_outcome :: exec_outcome where
  "sample_outcome = Execute (example_engine (example_node NodeTypeStandalone [CmdPing]) []) None plain_run submit_callbacks
     (example_query CmdPing)"

lemma sample_outcome_events: "ex_events sample_outcome = [EvLine ''line'']"
proof -
  let ?n = "example_node NodeTypeStandalone [CmdPing]"
  let ?e = "example_engine ?n []"
  let ?q = "example_query CmdPing"
  have n: "nr_get (en_repo ?e) (q_node_id ?q) = Inr ?n" by (simp add: example_defs)
  have can: "CanExecute ?n CmdPing" by (simp add: CanExecute_def example_node_def)
  have drv: "NewDriver ?e ?n = Inr (example_driver [])" by (simp add: NewDriver_def example_defs)
  have cmd: "q_command ?q = CmdPing" by (simp add: example_query_def)
  have run: "run_command ?e (example_driver []) ?n ?q submit_callbacks r =
      (Some (WrapError ''ping: '' CtxDeadlineExceeded), r, [EvLine ''line''])" for r
    by (simp add: run_command_def cmd run_ping_def) (simp add: example_driver_def emit_lines_def submit_callbacks_def)
  show ?thesis
    unfolding sample_outcome_def using n can drv
    by (simp add: Execute_def cmd Let_def plain_run_def run) (simp add: finish_def submit_callbacks_def split_beta)
qed


text \<open>The life of an entry is five minutes from its creation, but a query may run for ten: the cleanup
  then removes the entry under the running query and the lines before and after it are lost.\<close>

lemma long_query_loses_lines:
  defines "s1 \<equiv> store_run [EvAppend ''q'' ''1'', EvCleanup (301 * second), EvAppend ''q'' ''2''] (SetRunning 0 ''q'' NewStore)"
  shows "Get ''q'' s1 = None" and "GetLines ''q'' (SetResult (310 * second) ''q'' (Some done_result) (MarkOutputComplete ''q'' s1)) = Some []"
    and "seconds_duration MaxTimeoutSec = 600 * second"
  by (simp_all add: s1_def store_ops NewStore_def Get_def GetLines_def duration_defs seconds_duration_def MaxTimeoutSec_def)

end
