(* ===== verification/Parser.thy ===== *)
theory Parser
  imports Go_Regexp Go_Net Domain
begin

text \<open>
  \<open>internal/parser/generic.go\<close>, \<open>juniper.go\<close> and \<open>mikrotik.go\<close>: what the output of ping, traceroute and
  router shells is turned into. Floating-point numbers are bit patterns; reading and computing with
  them are arguments, and so is the case folding of text that need not be ASCII.
\<close>

section \<open>Numbers\<close>

text \<open>\<open>pe_parse\<close> is \<open>strconv.ParseFloat(s, 64)\<close>: the value, and whether there was no error.\<close>

record parse_env =
  pe_parse :: "string \<Rightarrow> float64 \<times> bool"
  pe_of_int :: "int \<Rightarrow> float64"
  pe_add :: "float64 \<Rightarrow> float64 \<Rightarrow> float64"
  pe_div :: "float64 \<Rightarrow> float64 \<Rightarrow> float64"
  pe_mul :: "float64 \<Rightarrow> float64 \<Rightarrow> float64"
  pe_lower :: "string \<Rightarrow> string"
  pe_upper :: "string \<Rightarrow> string"

definition float_zero :: "float64 \<Rightarrow> bool" where "float_zero x \<longleftrightarrow> x = 0 \<or> x = 0x8000000000000000"
definition float_hundred :: float64 where "float_hundred = 0x4059000000000000"

text \<open>\<open>n, _ := strconv.Atoi(s)\<close>: the value that comes with an error, too.\<close>

definition atoi_value :: "string \<Rightarrow> int" where
  "atoi_value s =
     (case go_atoi s of
        Some n \<Rightarrow> n
      | None \<Rightarrow>
         (let neg = has_prefix s ''-'';
              ds = (if has_prefix s ''-'' \<or> has_prefix s ''+'' then tl s else s)
          in if parse_uint 64 ds = NumSyntax then 0 else if neg then - (2 ^ 63) else 2 ^ 63 - 1))"

definition int64_sub :: "int \<Rightarrow> int \<Rightarrow> int" where
  "int64_sub a b = sint (word_of_int (a - b) :: 64 word)"

definition parseUint32 :: "string \<Rightarrow> u32" where
  "parseUint32 s =
     (case parse_uint 32 (trim_space s) of NumOk n \<Rightarrow> of_nat n | NumSyntax \<Rightarrow> 0 | NumRange \<Rightarrow> 0xFFFFFFFF)"

section \<open>Lines\<close>

definition splitLines :: "string \<Rightarrow> string list" where
  "splitLines s = split_char (CHR 0x0A) (trim_space s)"

definition noRouteIndicators :: "string list" where
  "noRouteIndicators = [''no route'', ''not in table'', ''network not in table'', ''no such network'', ''% Network not in'']"

definition containsNoRoute :: "parse_env \<Rightarrow> string \<Rightarrow> bool" where
  "containsNoRoute env s \<longleftrightarrow> list_ex (contains_str (pe_lower env s)) noRouteIndicators"

definition blank_set :: "char list" where "blank_set = [CHR '' '', CHR 0x09]"

section \<open>Tables of routes\<close>

definition parseBGPLine :: "string \<Rightarrow> bgp_route option" where
  "parseBGPLine line0 =
     (if trim_space line0 = [] then None
      else let indented = (line0 \<noteq> trim_left_set blank_set line0); line = trim_space line0 in
        if \<not> has_prefix line ''*'' \<and> \<not> indented then None
        else let flds = str_fields line in
          if length flds < 2 then None
          else let prefix0 = trim_prefix (trim_prefix (hd flds) ''*>'') ''*'';
                   flagged = (has_prefix prefix0 ''i'' \<or> has_prefix prefix0 ''e'' \<or> has_prefix prefix0 ''?'')
            in if flagged \<and> length flds < 3 then None
               else let prefix = (if flagged then flds ! 1 else prefix0);
                        origin = (if flagged then last flds else [])
                 in if parse_cidr prefix = None then None
                    else Some (empty_route\<lparr>r_origin := origin, r_prefix := prefix\<rparr>))"

definition bgp_result_of :: "string \<Rightarrow> bgp_route list \<Rightarrow> bgp_result" where
  "bgp_result_of raw routes = \<lparr>br_routes = routes, br_raw = raw, br_target_as = None\<rparr>"

definition parseBGPRouteGeneric :: "string \<Rightarrow> bgp_result" where
  "parseBGPRouteGeneric raw = bgp_result_of raw (List.map_filter parseBGPLine (splitLines raw))"

section \<open>Ping\<close>

definition empty_ping :: "string \<Rightarrow> ping_result" where
  "empty_ping raw = \<lparr>pg_packets_sent = 0, pg_packets_recv = 0, pg_packet_loss = 0, pg_min_rtt = 0, pg_avg_rtt = 0,
     pg_max_rtt = 0, pg_raw = raw\<rparr>"

text \<open>One word of the summary line: the count or the share stands before it.\<close>

definition summary_field :: "parse_env \<Rightarrow> string list \<Rightarrow> nat \<Rightarrow> ping_result \<Rightarrow> ping_result" where
  "summary_field env flds i r =
     (let f = flds ! i in
      if f = ''transmitted'' then
        (if i \<ge> 2 then (case go_atoi (flds ! (i - 2)) of Some n \<Rightarrow> r\<lparr>pg_packets_sent := n\<rparr> | None \<Rightarrow> r) else r)
      else if f = ''received'' then
        (if i > 0 then
           (let val0 = flds ! (i - 1);
                val = (if val0 = ''packets'' \<and> i \<ge> 2 then flds ! (i - 2) else val0)
            in case go_atoi val of Some n \<Rightarrow> r\<lparr>pg_packets_recv := n\<rparr> | None \<Rightarrow> r)
         else r)
      else if f = ''loss'' then
        (if i > 0 then
           (let cand0 = flds ! (i - 1);
                candidate = (if cand0 = ''packet'' \<and> i \<ge> 2 then flds ! (i - 2) else cand0);
                loss = trim_suffix candidate ''%''
            in if loss \<noteq> candidate then
                 (case pe_parse env loss of (n, ok) \<Rightarrow> if ok then r\<lparr>pg_packet_loss := n\<rparr> else r)
               else r)
         else r)
      else r)"

definition summary_line :: "parse_env \<Rightarrow> string \<Rightarrow> ping_result \<Rightarrow> ping_result" where
  "summary_line env line r =
     (if contains_str line ''packets transmitted'' \<or> contains_str line ''packets transmitted,'' then
        (let flds = str_fields (filter (\<lambda>c. c \<noteq> CHR '','') line)
         in fold (summary_field env flds) [0..<length flds] r)
      else r)"

definition rtt_line :: "parse_env \<Rightarrow> string \<Rightarrow> ping_result \<Rightarrow> ping_result" where
  "rtt_line env line r =
     (if contains_str line ''rtt'' \<or> contains_str line ''min/avg/max'' then
        (case index_str line ''='' of
           None \<Rightarrow> r
         | Some idx \<Rightarrow>
             (let stats1 = trim_prefix (trim_space (drop (idx + 1) line)) ''mdev='';
                  stats = trim_space (trim_suffix (trim_space stats1) ''ms'');
                  parts = split_char (CHR ''/'') stats
              in if length parts \<ge> 3 then
                   (let r1 = (case pe_parse env (parts ! 0) of (v, ok) \<Rightarrow> if ok then r\<lparr>pg_min_rtt := v\<rparr> else r);
                        r2 = (case pe_parse env (parts ! 1) of (v, ok) \<Rightarrow> if ok then r1\<lparr>pg_avg_rtt := v\<rparr> else r1)
                    in case pe_parse env (parts ! 2) of (v, ok) \<Rightarrow> if ok then r2\<lparr>pg_max_rtt := v\<rparr> else r2)
                 else r))
      else r)"

definition seq_field :: "parse_env \<Rightarrow> string list \<Rightarrow> nat \<Rightarrow> ping_result \<Rightarrow> ping_result" where
  "seq_field env flds i r =
     (let f = flds ! i;
          r1 = (if has_prefix f ''time='' then
                  (case pe_parse env (trim_prefix f ''time='') of (t, ok) \<Rightarrow> if ok then r\<lparr>pg_avg_rtt := t\<rparr> else r)
                else r)
      in if f = ''loss='' \<and> i + 1 < length flds then
           (let candidate = flds ! (i + 1); loss = trim_suffix candidate ''%''
            in if loss \<noteq> candidate then
                 (case pe_parse env loss of (n, ok) \<Rightarrow> if ok then r1\<lparr>pg_packet_loss := n\<rparr> else r1)
               else r1)
         else r1)"

definition seq_line :: "parse_env \<Rightarrow> string \<Rightarrow> ping_result \<Rightarrow> ping_result" where
  "seq_line env line r =
     (if contains_str line ''seq='' then
        (let flds = str_fields line in fold (seq_field env flds) [0..<length flds] r)
      else r)"

definition loss_share :: "parse_env \<Rightarrow> ping_result \<Rightarrow> float64" where
  "loss_share env r =
     pe_mul env (pe_div env (pe_of_int env (int64_sub (pg_packets_sent r) (pg_packets_recv r)))
       (pe_of_int env (pg_packets_sent r))) float_hundred"

definition ping_line :: "parse_env \<Rightarrow> string \<Rightarrow> ping_result \<Rightarrow> ping_result" where
  "ping_line env line0 r = (let line = trim_space line0 in seq_line env line (rtt_line env line (summary_line env line r)))"

definition parsePingGeneric :: "parse_env \<Rightarrow> string \<Rightarrow> ping_result" where
  "parsePingGeneric env raw =
     (let r = fold (ping_line env) (splitLines raw) (empty_ping raw)
      in if pg_packets_sent r > 0 \<and> pg_packets_recv r > 0 \<and> float_zero (pg_packet_loss r)
         then r\<lparr>pg_packet_loss := loss_share env r\<rparr> else r)"

section \<open>Traceroute\<close>

definition rtt_field :: "parse_env \<Rightarrow> string list \<Rightarrow> nat \<Rightarrow> float64 list" where
  "rtt_field env flds i =
     (let field = trim_set ''()'' (flds ! i) in
      if field = ''ms'' then
        (if i > 0 then (case pe_parse env (flds ! (i - 1)) of (rtt, ok) \<Rightarrow> if ok then [rtt] else []) else [])
      else if has_suffix field ''ms'' \<or> has_suffix field ''ms*'' then
        (case pe_parse env (trim_suffix (trim_suffix field ''*'') ''ms'') of (rtt, ok) \<Rightarrow> if ok then [rtt] else [])
      else [])"

definition hop_address :: "string list \<Rightarrow> string" where
  "hop_address flds =
     (case find (\<lambda>f. parse_ip f \<noteq> None) (map (trim_set ''()'') flds) of None \<Rightarrow> [] | Some f \<Rightarrow> f)"

definition parseTracerouteLine :: "parse_env \<Rightarrow> string \<Rightarrow> hop option" where
  "parseTracerouteLine env line0 =
     (let line = trim_left_set blank_set line0;
          rest0 = trim_left_set ''0123456789'' line;
          number = (case go_atoi (trim_space (take (length line - length rest0) line)) of Some n \<Rightarrow> n | None \<Rightarrow> 0);
          flds = str_fields (trim_left_set (CHR ''.'' # blank_set) rest0)
      in if length flds < 1 then None
         else let ip = hop_address flds in
           Some \<lparr>hop_number = number, hop_ip = ip, hop_host = (if ip = [] then hd flds else []),
                 hop_rtt = concat (map (rtt_field env flds) [0..<length flds]), hop_as_info = None\<rparr>)"

definition parseTracerouteGeneric :: "parse_env \<Rightarrow> string \<Rightarrow> traceroute_result" where
  "parseTracerouteGeneric env raw =
     \<lparr>tr_hops = List.map_filter (\<lambda>line0.
        let line = trim_space line0 in
        if line = [] \<or> has_prefix line ''traceroute'' \<or> has_prefix line ''Traceroute'' then None
        else parseTracerouteLine env line) (splitLines raw), tr_raw = raw\<rparr>"

section \<open>Juniper\<close>

definition isPrefix :: "string \<Rightarrow> bool" where
  "isPrefix s \<longleftrightarrow> contains_str s ''/'' \<and> length (filter (\<lambda>c. c = CHR ''.'') s) \<ge> 2"

definition juniper_field :: "string list \<Rightarrow> nat \<Rightarrow> bgp_route \<Rightarrow> bgp_route" where
  "juniper_field flds i r =
     (let f = flds ! i;
          r1 = (if contains_str f ''/'' \<and> isPrefix f then r\<lparr>r_prefix := f\<rparr> else r);
          r2 = (if i > 0 \<and> flds ! (i - 1) = ''to'' then r1\<lparr>r_next_hop := f\<rparr> else r1)
      in if f = ''IGP'' \<or> f = ''EGP'' \<or> f = ''Incomplete'' then r2\<lparr>r_origin := f\<rparr> else r2)"

definition juniper_line :: "string \<Rightarrow> bgp_route option" where
  "juniper_line line0 =
     (let line = trim_space line0 in
      if \<not> has_prefix line ''*'' \<and> \<not> has_prefix line '' '' then None
      else let flds = str_fields line in
        if length flds < 2 then None
        else let route = fold (juniper_field flds) [0..<length flds] empty_route
          in if r_prefix route \<noteq> [] then Some route else None)"

definition Juniper_ParseBGPRoute :: "parse_env \<Rightarrow> string \<Rightarrow> bgp_result" where
  "Juniper_ParseBGPRoute env raw =
     bgp_result_of raw (if containsNoRoute env raw then [] else List.map_filter juniper_line (splitLines raw))"

section \<open>MikroTik\<close>

text \<open>The replies with a time on one line: their sum and their number.\<close>

definition time_field :: "parse_env \<Rightarrow> string \<Rightarrow> float64 \<times> int \<Rightarrow> float64 \<times> int" where
  "time_field env f acc =
     (if has_prefix f ''time='' then
        (case pe_parse env (trim_prefix f ''time='') of
           (t, ok) \<Rightarrow> if ok then (pe_add env (fst acc) t, snd acc + 1) else acc)
      else acc)"

definition reply_line :: "parse_env \<Rightarrow> string \<Rightarrow> ping_result \<Rightarrow> ping_result" where
  "reply_line env line r =
     (if contains_str line ''seq='' then
        (case fold (time_field env) (str_fields line) (0, 0) of
           (rttSum, rttCount) \<Rightarrow>
             (let r1 = r\<lparr>pg_packets_sent := pg_packets_sent r + 1, pg_packets_recv := pg_packets_recv r + rttCount\<rparr>
              in if rttCount > 0 then r1\<lparr>pg_avg_rtt := pe_div env rttSum (pe_of_int env rttCount)\<rparr> else r1))
      else r)"

definition total_field :: "parse_env \<Rightarrow> string list \<Rightarrow> nat \<Rightarrow> ping_result \<Rightarrow> ping_result" where
  "total_field env flds i r =
     (let f = flds ! i; before = flds ! (i - 1) in
      if i = 0 then r
      else if f = ''transmitted'' then r\<lparr>pg_packets_sent := atoi_value before\<rparr>
      else if f = ''received'' then r\<lparr>pg_packets_recv := atoi_value before\<rparr>
      else if f = ''loss'' then r\<lparr>pg_packet_loss := fst (pe_parse env (trim_suffix before ''%''))\<rparr>
      else r)"

definition total_line :: "parse_env \<Rightarrow> string \<Rightarrow> ping_result \<Rightarrow> ping_result" where
  "total_line env line r =
     (if contains_str line ''packets transmitted'' then
        (let flds = str_fields line in fold (total_field env flds) [0..<length flds] r)
      else r)"

definition min_avg_max_line :: "parse_env \<Rightarrow> string \<Rightarrow> ping_result \<Rightarrow> ping_result" where
  "min_avg_max_line env line r =
     (if contains_str line ''min/avg/max'' then
        (case index_str line ''='' of
           None \<Rightarrow> r
         | Some idx \<Rightarrow>
             (let parts = split_char (CHR ''/'') (trim_space (drop (idx + 1) line))
              in if length parts \<ge> 3 then
                   r\<lparr>pg_min_rtt := fst (pe_parse env (parts ! 0)), pg_avg_rtt := fst (pe_parse env (parts ! 1)),
                     pg_max_rtt := fst (pe_parse env (parts ! 2))\<rparr>
                 else r))
      else r)"

definition MikroTik_ParsePing :: "parse_env \<Rightarrow> string \<Rightarrow> ping_result" where
  "MikroTik_ParsePing env raw =
     (let r = fold (\<lambda>line0 r. let line = trim_space line0 in
                min_avg_max_line env line (total_line env line (reply_line env line r))) (splitLines raw) (empty_ping raw)
      in if pg_packets_sent r > 0 \<and> float_zero (pg_packet_loss r)
         then r\<lparr>pg_packet_loss := loss_share env r\<rparr> else r)"

section \<open>An environment\<close>

text \<open>Whole numbers and ASCII.\<close>

definition ascii_env :: parse_env where
  "ascii_env = \<lparr>pe_parse = (\<lambda>s. case go_atoi s of Some n \<Rightarrow> (word_of_int n, True) | None \<Rightarrow> (0, False)),
     pe_of_int = word_of_int, pe_add = (\<lambda>x y. x + y), pe_div = (\<lambda>x y. x div y), pe_mul = (\<lambda>x y. x * y),
     pe_lower = to_lower, pe_upper = to_upper\<rparr>"

end
