(* ===== verification/ParserVendors.thy ===== *)
theory ParserVendors
  imports Parser
begin

text \<open>
  \<open>internal/parser/bird.go\<close>, \<open>cisco.go\<close> and the choice of a parser (\<open>parser.go\<close>, \<open>registry.go\<close>).
\<close>

section \<open>BIRD\<close>

definition isBGPOriginToken :: "parse_env \<Rightarrow> string \<Rightarrow> bool" where
  "isBGPOriginToken env s \<longleftrightarrow> pe_upper env s \<in> set [''I'', ''E'', ''?'', ''IGP'', ''EGP'', ''INCOMPLETE'']"

definition normalizeBGPOrigin :: "parse_env \<Rightarrow> string \<Rightarrow> string" where
  "normalizeBGPOrigin env s =
     (let u = pe_upper env s in
      if u = ''I'' \<or> u = ''IGP'' then ''IGP'' else if u = ''E'' \<or> u = ''EGP'' then ''EGP''
      else if u = ''?'' \<or> u = ''INCOMPLETE'' then ''incomplete'' else s)"

definition digits1 :: regex where "digits1 = rx_plus True (RxChars rx_digit)"

definition bird_asnRe :: regex where
  "bird_asnRe = rx_seqs [rx_literal ''(AS'', RxGroup 1 digits1, rx_lit (CHR '')'')]"

definition bird_commRe :: regex where
  "bird_commRe = rx_seqs [rx_lit (CHR ''(''), RxGroup 1 (rx_seqs [digits1, rx_lit (CHR '':''), digits1]), rx_lit (CHR '')'')]"

definition all_groups :: "regex \<Rightarrow> string \<Rightarrow> string list" where
  "all_groups re line = map (\<lambda>m. rx_group line m 1) (rx_find_all re line)"

definition bird_field :: "string list \<Rightarrow> nat \<Rightarrow> bgp_route \<Rightarrow> bgp_route" where
  "bird_field flds i r =
     (let f = flds ! i;
          r1 = (if f = ''via'' \<and> i + 1 < length flds then r\<lparr>r_next_hop := trim_suffix (flds ! (i + 1)) '',''\<rparr> else r)
      in if has_prefix f ''[AS'' then r1\<lparr>r_as_path := r_as_path r1 @ [parseUint32 (trim_suffix (trim_prefix f ''[AS'') '']'')]\<rparr>
         else r1)"

definition parseBirdVerboseRoute :: "string \<Rightarrow> string \<Rightarrow> bool \<Rightarrow> bgp_route option" where
  "parseBirdVerboseRoute line pfx best =
     (if \<not> contains_str line '' via '' \<and> \<not> rx_matches bird_asnRe line then None
      else let flds = str_fields line;
               r1 = fold (bird_field flds) [0..<length flds] (empty_route\<lparr>r_prefix := pfx, r_best := best\<rparr>);
               r = r1\<lparr>r_as_path := r_as_path r1 @ map parseUint32 (all_groups bird_asnRe line),
                      r_communities := r_communities r1 @ all_groups bird_commRe line\<rparr>
        in if r_next_hop r = [] \<and> r_as_path r = [] \<and> r_communities r = [] then None else Some r)"

fun tabular_loop :: "parse_env \<Rightarrow> nat \<Rightarrow> string list \<Rightarrow> bgp_route \<Rightarrow> bgp_route" where
  "tabular_loop env idx [] r = r"
| "tabular_loop env idx (field # flds) r =
     (if isBGPOriginToken env field then r\<lparr>r_origin := normalizeBGPOrigin env field\<rparr>
      else case parse_uint 32 field of
        NumOk n \<Rightarrow>
          if r_next_hop r \<noteq> [] \<and> r_local_pref r = 0 \<and> idx = 1
          then tabular_loop env (Suc idx) flds (r\<lparr>r_local_pref := of_nat n\<rparr>)
          else tabular_loop env (Suc idx) flds (r\<lparr>r_as_path := r_as_path r @ [of_nat n]\<rparr>)
      | _ \<Rightarrow> tabular_loop env (Suc idx) flds r)"

definition parseBirdTabularFields :: "parse_env \<Rightarrow> string list \<Rightarrow> string \<Rightarrow> bool \<Rightarrow> bgp_route option" where
  "parseBirdTabularFields env flds pfx best =
     (case flds of
        [] \<Rightarrow> None
      | f # fs \<Rightarrow>
         (let r0 = empty_route\<lparr>r_prefix := pfx, r_best := best\<rparr>;
              r = (if parse_ip f \<noteq> None then tabular_loop env 1 fs (r0\<lparr>r_next_hop := f\<rparr>)
                   else tabular_loop env 0 flds r0)
          in if r_next_hop r = [] \<and> r_as_path r = [] then None else Some r))"

function strip_marks :: "string \<Rightarrow> bool \<times> string" where
  "strip_marks [] = (False, [])"
| "strip_marks (c # s) =
     (if c = CHR ''*'' \<or> c = CHR ''>'' then (True, snd (strip_marks (trim_left_set blank_set s))) else (False, c # s))"
  by pat_completeness auto
termination
  by (relation "measure length") (auto simp: trim_left_set_def less_Suc_eq_le intro: length_dropWhile_le)

definition parseBirdRouteLine :: "parse_env \<Rightarrow> string \<Rightarrow> string \<Rightarrow> bgp_route option \<times> string" where
  "parseBirdRouteLine env line currentPrefix =
     (if trim_space line = [] then (None, currentPrefix)
      else case strip_marks (trim_left_set blank_set line) of
        (best, trimmed) \<Rightarrow>
          (case str_fields trimmed of
             [] \<Rightarrow> (None, currentPrefix)
           | f # fs \<Rightarrow>
              (let own = (contains_str f ''/'' \<and> isPrefix f);
                   pfx = (if own then f else currentPrefix)
               in if pfx = [] then (None, currentPrefix)
                  else case parseBirdVerboseRoute trimmed pfx best of
                    Some route \<Rightarrow> (Some route, pfx)
                  | None \<Rightarrow> (parseBirdTabularFields env (if own then fs else f # fs) pfx best, pfx))))"

text \<open>The prefix of the lines before; it is kept only along with a route.\<close>

fun bird_routes :: "parse_env \<Rightarrow> string \<Rightarrow> string list \<Rightarrow> bgp_route list" where
  "bird_routes env currentPrefix [] = []"
| "bird_routes env currentPrefix (line # ls) =
     (case parseBirdRouteLine env line currentPrefix of
        (Some route, pfx) \<Rightarrow> route # bird_routes env pfx ls
      | (None, _) \<Rightarrow> bird_routes env currentPrefix ls)"

definition Bird_ParseBGPRoute :: "parse_env \<Rightarrow> string \<Rightarrow> bgp_result" where
  "Bird_ParseBGPRoute env raw =
     bgp_result_of raw (if containsNoRoute env raw then [] else bird_routes env [] (splitLines raw))"

section \<open>Cisco\<close>

definition blanks :: regex where "blanks = rx_plus True (RxChars rx_space)"
definition word1 :: regex where "word1 = rx_plus True (RxChars (\<lambda>c. \<not> rx_space c))"

definition cisco_re :: regex where
  "cisco_re =
     rx_seqs [RxBegin, RxGroup 1 (rx_plus True (RxChars (\<lambda>c. c \<in> set ''*>e ''))), blanks, RxGroup 2 word1, blanks,
       RxGroup 3 word1, blanks, RxGroup 4 digits1, blanks, RxGroup 5 digits1, blanks, RxGroup 6 word1]"

definition cisco_asPathRe :: regex where
  "cisco_asPathRe =
     rx_seqs [RxChars rx_space, RxGroup 1 (RxSeq digits1 (RxStar True (RxSeq (RxChars rx_space) digits1))), RxChars rx_space]"

definition cisco_commRe :: regex where
  "cisco_commRe =
     rx_seqs [RxWordBoundary,
       RxGroup 1 (rx_seqs [digits1, rx_lit (CHR '':''), digits1, RxOpt True (RxSeq (rx_lit (CHR '':'')) digits1)]),
       RxWordBoundary]"

definition cisco_line :: "string \<Rightarrow> bgp_route option" where
  "cisco_line line0 =
     (let line = trim_space line0 in
      case rx_find cisco_re line of
        None \<Rightarrow> None
      | Some m \<Rightarrow>
          Some (empty_route
            \<lparr>r_prefix := rx_group line m 2, r_next_hop := rx_group line m 3,
             r_as_path := (case rx_find cisco_asPathRe line of
                None \<Rightarrow> [] | Some am \<Rightarrow> map parseUint32 (str_fields (rx_group line am 1))),
             r_local_pref := parseUint32 (rx_group line m 4), r_med := parseUint32 (rx_group line m 5),
             r_origin := rx_group line m 6, r_communities := all_groups cisco_commRe line,
             r_best := contains_str (rx_group line m 1) ''>''\<rparr>))"

definition Cisco_ParseBGPRoute :: "parse_env \<Rightarrow> string \<Rightarrow> bgp_result" where
  "Cisco_ParseBGPRoute env raw =
     bgp_result_of raw (if containsNoRoute env raw then [] else List.map_filter cisco_line (splitLines raw))"

section \<open>The choice\<close>

datatype output_parser = GenericParser | CiscoParser | JuniperParser | MikroTikParser | BirdParser

definition GetParser :: "string \<Rightarrow> output_parser" where
  "GetParser vendor =
     (if vendor = ''cisco'' then CiscoParser else if vendor = ''juniper'' then JuniperParser
      else if vendor = ''mikrotik'' then MikroTikParser else if vendor = ''bird'' then BirdParser
      else GenericParser)"

fun ParseBGPRoute :: "output_parser \<Rightarrow> parse_env \<Rightarrow> string \<Rightarrow> bgp_result" where
  "ParseBGPRoute CiscoParser env raw = Cisco_ParseBGPRoute env raw"
| "ParseBGPRoute JuniperParser env raw = Juniper_ParseBGPRoute env raw"
| "ParseBGPRoute BirdParser env raw = Bird_ParseBGPRoute env raw"
| "ParseBGPRoute p env raw = parseBGPRouteGeneric raw"

fun ParsePing :: "output_parser \<Rightarrow> parse_env \<Rightarrow> string \<Rightarrow> ping_result" where
  "ParsePing MikroTikParser env raw = MikroTik_ParsePing env raw"
| "ParsePing p env raw = parsePingGeneric env raw"

definition ParseTraceroute :: "output_parser \<Rightarrow> parse_env \<Rightarrow> string \<Rightarrow> traceroute_result" where
  "ParseTraceroute p env raw = parseTracerouteGeneric env raw"

end
