(* ===== verification/ParserRun.thy ===== *)
theory ParserRun
  imports ParserVendors
begin

text \<open>
  What the parsers promise: the summary line of a ping and a hop of a traceroute are read back.
\<close>

section \<open>Words\<close>

text \<open>Visible ASCII.\<close>

definition plain_char :: "char \<Rightarrow> bool" where "plain_char c \<longleftrightarrow> 0x21 \<le> code c \<and> code c \<le> 0x7E"

definition plain_word :: "string \<Rightarrow> bool" where "plain_word w \<longleftrightarrow> w \<noteq> [] \<and> (\<forall>c \<in> set w. plain_char c)"

lemma plain_not_space: "plain_char c \<Longrightarrow> \<not> at_space (c # s)"
  by (auto simp: plain_char_def at_space_def space_seqs_def has_prefix_def code_def)

lemma at_space_blank [simp]: "at_space (CHR '' '' # s)"
  by (simp add: at_space_def space_seqs_def has_prefix_def)

lemma trim_space_left_plain: "plain_char c \<Longrightarrow> trim_space_left (c # s) = c # s"
  using plain_not_space[of c s]
  by (auto simp: trim_space_left_def at_space_def no_prefix_def list_ex_iff intro: trim_seqs_fix)

lemma trim_space_left_blank: "trim_space_left (CHR '' '' # s) = trim_space_left s"
proof -
  have "find (\<lambda>p. p \<noteq> [] \<and> has_prefix (CHR '' '' # s) p) space_seqs = Some '' ''"
    by (simp add: space_seqs_def has_prefix_def)
  then show ?thesis by (simp add: trim_space_left_def trim_seqs.simps[of _ "CHR '' '' # s"])
qed

lemma take_word_plain:
  "\<forall>c \<in> set w. plain_char c \<Longrightarrow> take_word (w @ s) = w @ take_word s"
  by (induction w) (simp_all add: plain_not_space)

lemma str_fields_blank [simp]: "str_fields (CHR '' '' # s) = str_fields s"
  by (subst (1 2) str_fields.simps) (simp add: trim_space_left_blank)

lemma str_fields_word:
  assumes "plain_word w" and "s = [] \<or> (\<exists>t. s = CHR '' '' # t)"
  shows "str_fields (w @ s) = w # str_fields s"
proof -
  obtain c u where w: "w = c # u" "plain_char c" using assms(1) by (cases w) (auto simp: plain_word_def)
  have "take_word s = []" using assms(2) by auto
  then have "take_word (w @ s) = w"
    using assms(1) by (simp add: take_word_plain plain_word_def)
  moreover have "trim_space_left (w @ s) = w @ s" using w by (simp add: trim_space_left_plain)
  ultimately show ?thesis
    using w(1) by (subst str_fields.simps) (simp add: Let_def)
qed

lemma str_fields_Nil [simp]: "str_fields [] = []"
  by code_simp

lemma str_fields_one: "plain_word w \<Longrightarrow> str_fields w = [w]"
  using str_fields_word[of w "[]"] by simp

lemma str_fields_sep: "plain_word w \<Longrightarrow> str_fields (w @ CHR '' '' # s) = w # str_fields s"
  using str_fields_word[of w "CHR '' '' # s"] by simp

lemma str_fields_join: "\<forall>w \<in> set ws. plain_word w \<Longrightarrow> str_fields (join_str '' '' ws) = ws"
proof (induction ws)
  case (Cons w ws)
  then show ?case by (cases ws) (simp_all add: str_fields_one str_fields_sep)
qed simp

lemma plain_digit: "is_digit c \<Longrightarrow> plain_char c"
  by (auto simp: is_digit_def plain_char_def code_def)

lemma plain_dec [simp]: "plain_word (dec_string n)"
  by (auto simp: plain_word_def plain_digit dest: dec_string_digits)

lemma plain_append: "plain_word u \<Longrightarrow> \<forall>c \<in> set v. plain_char c \<Longrightarrow> plain_word (u @ v)"
  by (auto simp: plain_word_def)

section \<open>The summary of a ping\<close>

definition number_text :: "string \<Rightarrow> bool" where
  "number_text t \<longleftrightarrow> t \<noteq> [] \<and> (\<forall>c \<in> set t. is_digit c \<or> c = CHR ''.'')"

text \<open>The GNU form, and the one of BusyBox, which says packets twice.\<close>

definition summary_text :: "bool \<Rightarrow> nat \<Rightarrow> nat \<Rightarrow> string \<Rightarrow> string" where
  "summary_text busybox n m l =
     dec_string n @ '' packets transmitted, '' @ dec_string m @ (if busybox then '' packets'' else []) @ '' received, '' @
     l @ ''% packet loss''"

lemma plain_dot: "plain_char (CHR ''.'')"
  by (simp add: plain_char_def code_def)

lemma number_text_plain: "number_text t \<Longrightarrow> plain_word t"
  by (auto simp: number_text_def plain_word_def plain_digit plain_dot)

lemma no_comma: "number_text t \<Longrightarrow> filter (\<lambda>c. c \<noteq> CHR '','') t = t"
  by (auto simp: number_text_def filter_id_conv is_digit_def code_def)

lemma dec_number [simp]: "number_text (dec_string n)"
  by (auto simp: number_text_def dest: dec_string_digits)

lemma plain_literals:
  "plain_word ''packets''" "plain_word ''transmitted''" "plain_word ''received''" "plain_word ''packet''" "plain_word ''loss''"
  by (simp_all add: plain_word_def plain_char_def code_def)

lemma summary_fields:
  assumes "number_text l"
  shows "str_fields (filter (\<lambda>c. c \<noteq> CHR '','') (summary_text b n m l)) =
    [dec_string n, ''packets'', ''transmitted'', dec_string m] @ (if b then [''packets''] else []) @
    [''received'', l @ ''%'', ''packet'', ''loss'']"
proof -
  have lp: "plain_word (l @ ''%'')"
    by (rule plain_append[OF number_text_plain[OF assms]]) (simp add: plain_char_def code_def)
  have "filter (\<lambda>c. c \<noteq> CHR '','') (summary_text b n m l) =
      join_str '' '' ([dec_string n, ''packets'', ''transmitted'', dec_string m] @ (if b then [''packets''] else []) @
        [''received'', l @ ''%'', ''packet'', ''loss''])"
    by (simp add: summary_text_def no_comma[OF assms] no_comma[OF dec_number])
  then show ?thesis by (simp only:) (rule str_fields_join, use lp plain_literals in auto)
qed

text \<open>A summary line fills in the three numbers, whatever was there.\<close>

lemma summary_contains: "contains_str (summary_text b n m l) ''packets transmitted''"
proof -
  have "contains_str (u @ ''packets transmitted'' @ v) ''packets transmitted''" for u v :: string
  proof (induction u)
    case Nil
    show ?case using has_prefix_append[of "''packets transmitted''" v] by (simp add: has_prefix_def)
  qed simp
  from this[of "dec_string n @ '' ''"] show ?thesis by (simp add: summary_text_def)
qed

lemma dec_string_not_word:
  "dec_string n \<noteq> ''packets''" "dec_string n \<noteq> ''transmitted''" "dec_string n \<noteq> ''received''" "dec_string n \<noteq> ''loss''"
proof -
  have "w \<noteq> []" "is_digit (hd w)" if "w = dec_string n" for w
    using that dec_string_digits[of "hd (dec_string n)" n] by (simp_all add: hd_in_set)
  then show "dec_string n \<noteq> ''packets''" "dec_string n \<noteq> ''transmitted''" "dec_string n \<noteq> ''received''" "dec_string n \<noteq> ''loss''"
    by (force simp: is_digit_def code_def)+
qed

lemma percent_words:
  "l @ ''%'' \<noteq> ''packets''" "l @ ''%'' \<noteq> ''packet''" "l @ ''%'' \<noteq> ''transmitted''" "l @ ''%'' \<noteq> ''received''" "l @ ''%'' \<noteq> ''loss''"
  by (auto dest!: arg_cong[where f = last])

lemma trim_percent: "trim_suffix (l @ ''%'') ''%'' = l" "l \<noteq> l @ ''%''"
  by (simp_all add: trim_suffix_def has_suffix_def has_prefix_def)

lemma summary_line_sets:
  assumes "number_text l" and "pe_parse env l = (v, True)" and "n < 2 ^ 63" and "m < 2 ^ 63"
  shows "summary_line env (summary_text b n m l) r =
    r\<lparr>pg_packets_sent := int n, pg_packets_recv := int m, pg_packet_loss := v\<rparr>"
proof -
  have a: "go_atoi (dec_string n) = Some (int n)" "go_atoi (dec_string m) = Some (int m)"
    using assms(3,4) by (simp_all add: go_atoi_dec_string)
  show ?thesis
    unfolding summary_line_def Let_def summary_fields[OF assms(1)]
    by (cases b)
      (simp_all add: summary_contains upt_rec numeral_2_eq_2 summary_field_def a dec_string_not_word percent_words
        trim_percent assms(2) del: upt_Suc)
qed

lemma has_prefix_set: "has_prefix s p \<Longrightarrow> set p \<subseteq> set s"
  by (auto simp: has_prefix_iff)

lemma contains_str_set: "contains_str s p \<Longrightarrow> set p \<subseteq> set s"
  by (induction s) (simp, use has_prefix_set in fastforce)

lemma index_str_absent: "c \<notin> set s \<Longrightarrow> index_str s [c] = None"
  by (induction s) (auto simp: has_prefix_def)

lemma summary_chars:
  assumes "number_text l" shows "CHR ''='' \<notin> set (summary_text b n m l)"
proof -
  have "c \<noteq> CHR ''=''" if "number_text t" "c \<in> set t" for t c
    using that by (auto simp: number_text_def is_digit_def code_def)
  from this[OF assms] this[OF dec_number] show ?thesis by (auto simp: summary_text_def)
qed

lemma fold_keeps: "(\<And>i r. g (f i r) = g r) \<Longrightarrow> g (fold f is r) = g r"
  by (induction "is" arbitrary: r) simp_all

lemma rtt_line_keeps:
  "pg_packets_sent (rtt_line env line r) = pg_packets_sent r" "pg_packets_recv (rtt_line env line r) = pg_packets_recv r"
  "pg_packet_loss (rtt_line env line r) = pg_packet_loss r" "pg_raw (rtt_line env line r) = pg_raw r"
  by (simp_all add: rtt_line_def Let_def split: option.splits prod.splits)

lemma seq_field_keeps:
  "pg_packets_sent (seq_field env flds i r) = pg_packets_sent r" "pg_packets_recv (seq_field env flds i r) = pg_packets_recv r"
  "pg_raw (seq_field env flds i r) = pg_raw r"
  by (simp_all add: seq_field_def Let_def split: prod.splits)

lemma seq_line_keeps:
  "pg_packets_sent (seq_line env line r) = pg_packets_sent r" "pg_packets_recv (seq_line env line r) = pg_packets_recv r"
  "pg_raw (seq_line env line r) = pg_raw r"
  by (simp_all add: seq_line_def Let_def fold_keeps[where f = "seq_field env flds" for flds] seq_field_keeps)

definition not_summary :: "string \<Rightarrow> bool" where
  "not_summary line \<longleftrightarrow> \<not> contains_str (trim_space line) ''packets transmitted'' \<and>
     \<not> contains_str (trim_space line) ''packets transmitted,''"

lemma ping_line_keeps:
  assumes "not_summary line"
  shows "pg_packets_sent (ping_line env line r) = pg_packets_sent r" "pg_packets_recv (ping_line env line r) = pg_packets_recv r"
    "\<not> contains_str (trim_space line) ''seq='' \<Longrightarrow> pg_packet_loss (ping_line env line r) = pg_packet_loss r"
  using assms by (simp_all add: ping_line_def Let_def not_summary_def summary_line_def seq_line_keeps rtt_line_keeps)
    (simp add: seq_line_def rtt_line_keeps)

lemma pings_keep:
  assumes "list_all not_summary ls"
  shows "pg_packets_sent (fold (ping_line env) ls r) = pg_packets_sent r" "pg_packets_recv (fold (ping_line env) ls r) = pg_packets_recv r"
    "list_all (\<lambda>line. \<not> contains_str (trim_space line) ''seq='') ls \<Longrightarrow>
      pg_packet_loss (fold (ping_line env) ls r) = pg_packet_loss r"
  using assms by (induction ls arbitrary: r) (simp_all add: ping_line_keeps)

lemma summary_ping_line:
  assumes "trim_space line = summary_text b n m l" and "number_text l" and "pe_parse env l = (v, True)"
    and "n < 2 ^ 63" and "m < 2 ^ 63"
  shows "ping_line env line r = r\<lparr>pg_packets_sent := int n, pg_packets_recv := int m, pg_packet_loss := v\<rparr>"
proof -
  note eq = summary_chars[OF assms(2), of b n m]
  have "\<not> contains_str (summary_text b n m l) ''seq=''" using contains_str_set eq by fastforce
  moreover have "rtt_line env (summary_text b n m l) r = r" for r
    by (simp add: rtt_line_def index_str_absent[OF eq])
  ultimately show ?thesis
    by (simp add: ping_line_def Let_def assms(1) summary_line_sets[OF assms(2-5)] seq_line_def)
qed

lemma int64_sub_small:
  assumes "n < 2 ^ 63" and "m < 2 ^ 63" shows "int64_sub (int n) (int m) = int n - int m"
proof -
  have "signed_take_bit 63 (int n - int m) = int n - int m"
    by (rule signed_take_bit_int_eq_self) (use assms in simp_all)
  then show ?thesis unfolding int64_sub_def sint_sbintrunc' by simp
qed

text \<open>Ping output is read from its summary line, in the GNU and in the BusyBox form: the counts are those
  printed, and the loss is the printed one unless it is zero while something was sent and received, in
  which case it is computed from the counts. No other line changes them.\<close>

theorem parsePing_summary:
  assumes "splitLines raw = before @ [line] @ after" and "trim_space line = summary_text b n m l"
    and "list_all not_summary (before @ after)" and "list_all (\<lambda>x. \<not> contains_str (trim_space x) ''seq='') after"
    and "number_text l" and "pe_parse env l = (v, True)" and "n < 2 ^ 63" and "m < 2 ^ 63"
  shows "pg_packets_sent (parsePingGeneric env raw) = int n \<and> pg_packets_recv (parsePingGeneric env raw) = int m \<and>
    pg_packet_loss (parsePingGeneric env raw) =
      (if n > 0 \<and> m > 0 \<and> float_zero v
       then pe_mul env (pe_div env (pe_of_int env (int n - int m)) (pe_of_int env (int n))) float_hundred else v)"
proof -
  have "list_all not_summary after" using assms(3) by simp
  note keep = pings_keep[OF this, of env]
  show ?thesis
    using keep(3)[OF assms(4)] int64_sub_small[OF assms(7,8)]
    by (simp add: parsePingGeneric_def Let_def assms(1) summary_ping_line[OF assms(2,5-8)] keep(1,2) loss_share_def)
qed

lemma parsePing_summary_witness:
  "pg_packets_sent (parsePingGeneric ascii_env (''PING x'' @ [CHR 0x0A] @ ''4 packets transmitted, 3 packets received, 25% packet loss'')) = 4"
proof -
  let ?raw = "''PING x'' @ [CHR 0x0A] @ ''4 packets transmitted, 3 packets received, 25% packet loss''"
  let ?line = "''4 packets transmitted, 3 packets received, 25% packet loss''"
  have "splitLines ?raw = [''PING x''] @ [?line] @ []" by code_simp
  moreover have "trim_space ?line = summary_text True 4 3 ''25''" by code_simp
  moreover have "list_all not_summary ([''PING x''] @ [])" by code_simp
  moreover have "number_text ''25''" by code_simp
  moreover have "pe_parse ascii_env ''25'' = (25, True)" by code_simp
  ultimately show ?thesis
    using parsePing_summary[of ?raw "[''PING x'']" ?line "[]" True 4 3 "''25''" ascii_env 25] by simp
qed

section \<open>A hop of a traceroute\<close>

text \<open>A hop as Linux and BSD print it: number, name, address in parentheses, round-trip times.\<close>

definition hop_words :: "string \<Rightarrow> byte list \<Rightarrow> (string \<times> float64) list \<Rightarrow> string list" where
  "hop_words host q rtts = [host, ''('' @ dotted q @ '')''] @ concat (map (\<lambda>(t, v). [t, ''ms'']) rtts)"

definition hop_text :: "nat \<Rightarrow> string \<Rightarrow> byte list \<Rightarrow> (string \<times> float64) list \<Rightarrow> string" where
  "hop_text n host q rtts = dec_string n @ ''  '' @ join_str '' '' (hop_words host q rtts)"

text \<open>A name that is no address and no time.\<close>

definition host_name :: "string \<Rightarrow> bool" where
  "host_name host \<longleftrightarrow> plain_word host \<and> hd host \<noteq> CHR ''.'' \<and> parse_ip (trim_set ''()'' host) = None \<and>
     \<not> has_suffix (trim_set ''()'' host) ''ms'' \<and> \<not> has_suffix (trim_set ''()'' host) ''ms*''"

lemma map_previous:
  "map (\<lambda>i. g (xs ! (i - 1)) (xs ! i)) [1..<length xs] = map2 g xs (tl xs)"
  by (rule nth_equalityI) (auto simp: nth_tl)

lemma rtt_fields:
  "concat (map (rtt_field env flds) [0..<length flds]) =
     (if flds = [] then [] else rtt_field env flds 0 @
        concat (map2 (\<lambda>p f. rtt_field env [p, f] 1) flds (tl flds)))"
proof (cases flds)
  case (Cons f fs)
  have "map (rtt_field env flds) [1..<length flds] = map (\<lambda>i. rtt_field env [flds ! (i - 1), flds ! i] 1) [1..<length flds]"
    by (rule map_cong) (simp_all add: rtt_field_def Let_def)
  also have "\<dots> = map2 (\<lambda>p f. rtt_field env [p, f] 1) flds (tl flds)"
    by (rule map_previous)
  finally have "map (rtt_field env flds) [1..<length flds] = map2 (\<lambda>p f. rtt_field env [p, f] 1) flds (tl flds)" .
  moreover have "[0..<length flds] = 0 # [1..<length flds]" using Cons by (simp add: upt_conv_Cons del: upt_Suc)
  ultimately show ?thesis using Cons by (simp del: upt_Suc)
qed simp

lemma suffix_last: "has_suffix w (p @ [c]) \<Longrightarrow> w \<noteq> [] \<and> last w = c"
proof -
  assume "has_suffix w (p @ [c])"
  then obtain t where t: "rev w = rev (p @ [c]) @ t" unfolding has_suffix_def has_prefix_iff by blast
  have "w = rev (rev w)" by simp
  also have "\<dots> = rev t @ p @ [c]" unfolding t by simp
  finally show ?thesis by simp
qed

lemma dropWhile_none: "\<forall>c \<in> set s. \<not> P c \<Longrightarrow> dropWhile P s = s"
  by (cases s) simp_all

lemma trim_set_none: "\<forall>c \<in> set s. c \<notin> set cs \<Longrightarrow> trim_set cs s = s"
  by (simp add: trim_set_def trim_left_set_def dropWhile_none)

lemma number_not_unit:
  assumes "number_text t"
  shows "trim_set ''()'' w = t \<Longrightarrow> rtt_field env [p, w] 1 = []" "trim_set ''()'' t = t"
proof -
  have c: "is_digit x \<or> x = CHR ''.''" if "x \<in> set t" for x using assms that by (auto simp: number_text_def)
  have ne: "t \<noteq> []" using assms by (simp add: number_text_def)
  show tr: "trim_set ''()'' t = t" by (rule trim_set_none) (use c in \<open>force simp: is_digit_def code_def\<close>)
  have "last t \<noteq> CHR ''s''" "last t \<noteq> CHR ''*''" using c[OF last_in_set[OF ne]] by (auto simp: is_digit_def code_def)
  then have "\<not> has_suffix t ''ms''" "\<not> has_suffix t ''ms*''" "t \<noteq> ''ms''"
    using suffix_last[of t "''m''" "CHR ''s''"] suffix_last[of t "''ms''" "CHR ''*''"] by auto
  then show "trim_set ''()'' w = t \<Longrightarrow> rtt_field env [p, w] 1 = []" by (simp add: rtt_field_def)
qed

lemma ms_field: "rtt_field env [p, ''ms''] 1 = (case pe_parse env p of (rtt, ok) \<Rightarrow> if ok then [rtt] else [])"
proof -
  have "trim_set ''()'' ''ms'' = ''ms''" by code_simp
  then show ?thesis by (simp add: rtt_field_def)
qed

lemma rtts_read:
  assumes "\<forall>(t, v) \<in> set rtts. number_text t \<and> pe_parse env t = (v, True)"
  shows "concat (map2 (\<lambda>p f. rtt_field env [p, f] 1) (w # concat (map (\<lambda>(t, v). [t, ''ms'']) rtts))
      (concat (map (\<lambda>(t, v). [t, ''ms'']) rtts))) = map snd rtts"
  using assms
proof (induction rtts arbitrary: w)
  case (Cons x rtts)
  obtain t v where x: "x = (t, v)" by (cases x)
  have "number_text t" "pe_parse env t = (v, True)" using Cons.prems by (auto simp: x)
  moreover have "concat (map2 (\<lambda>p f. rtt_field env [p, f] 1) (''ms'' # concat (map (\<lambda>(t, v). [t, ''ms'']) rtts))
      (concat (map (\<lambda>(t, v). [t, ''ms'']) rtts))) = map snd rtts"
    by (rule Cons.IH) (use Cons.prems in auto)
  ultimately show ?case by (simp add: x ms_field[unfolded One_nat_def] number_not_unit(1)[unfolded One_nat_def] number_not_unit(2))
qed simp

lemma dotted_word:
  assumes "length q = 4"
  shows "plain_word (dotted q)" "trim_set ''()'' (dotted q) = dotted q" "parse_ip (dotted q) \<noteq> None"
    "trim_set ''()'' (''('' @ dotted q @ '')'') = dotted q" "number_text (dotted q)"
proof -
  obtain a b c d where q: "q = [a, b, c, d]" using assms by (auto simp: length_Suc_conv numeral_eq_Suc)
  have "\<forall>x \<in> set (dotted q). is_digit x \<or> x = CHR ''.''"
    using dec_string_digits by (auto simp: q dotted_def)
  moreover have "dotted q \<noteq> []" by (simp add: q dotted_def)
  ultimately show n: "number_text (dotted q)" by (simp add: number_text_def)
  show "plain_word (dotted q)" by (rule number_text_plain[OF n])
  show t: "trim_set ''()'' (dotted q) = dotted q" by (rule number_not_unit(2)[OF n])
  show "parse_ip (dotted q) \<noteq> None" unfolding q parse_ip_dotted by simp
  obtain x u where d: "dotted q = x # u" using n by (cases "dotted q") (auto simp: number_text_def)
  obtain v y where e: "dotted q = v @ [y]" using n by (cases "dotted q" rule: rev_cases) (auto simp: number_text_def)
  have "x \<in> set (dotted q)" by (simp add: d)
  moreover have "y \<in> set (dotted q)" unfolding e by simp
  ultimately have xy: "x \<notin> set ''()''" "y \<notin> set ''()''" using n by (auto simp: number_text_def is_digit_def code_def)
  have "trim_left_set ''()'' (''('' @ dotted q @ '')'') = dotted q @ '')''" using xy(1) by (simp add: trim_left_set_def d)
  then show "trim_set ''()'' (''('' @ dotted q @ '')'') = dotted q"
    using xy(2) by (simp add: trim_set_def e)
qed

lemma hop_words_plain:
  assumes "plain_word host" and "length q = 4" and "\<forall>(t, v) \<in> set rtts. number_text t"
  shows "\<forall>w \<in> set (hop_words host q rtts). plain_word w"
proof -
  have "plain_word (''('' @ dotted q @ '')'')"
    using dotted_word(1)[OF assms(2)] by (auto simp: plain_word_def plain_char_def code_def)
  moreover have "plain_word ''ms''" by (simp add: plain_word_def plain_char_def code_def)
  ultimately show ?thesis using assms(1,3) number_text_plain by (auto simp: hop_words_def)
qed

lemma digit_set: "is_digit c \<Longrightarrow> c \<in> set ''0123456789''"
proof -
  assume "is_digit c"
  then have "code c \<in> set [48..<58]" unfolding set_upt is_digit_def by simp
  then have "char_of (code c) \<in> char_of ` set [48..<58]" by blast
  moreover have "char_of (code c) = c" by (simp add: code_def)
  moreover have "char_of ` set [48..<58 :: nat] = set ''0123456789''" by code_simp
  ultimately show "c \<in> set ''0123456789''" by (simp only:)
qed

lemma trim_dec: "trim_space (dec_string n) = dec_string n"
  by (rule trim_space_fix) (auto simp: space_start_def space_seqs_def is_digit_def code_def dest!: dec_string_digits)

lemma hop_times:
  assumes "host_name host" and "length q = 4" and "\<forall>(t, v) \<in> set rtts. number_text t \<and> pe_parse env t = (v, True)"
  shows "concat (map (rtt_field env (hop_words host q rtts)) [0..<length (hop_words host q rtts)]) = map snd rtts"
proof -
  let ?addr = "''('' @ dotted q @ '')''"
  have "trim_set ''()'' host \<noteq> ''ms''" using assms(1) by (auto simp: host_name_def has_suffix_def has_prefix_def)
  then have "rtt_field env (hop_words host q rtts) 0 = []"
    using assms(1) by (simp add: rtt_field_def Let_def hop_words_def host_name_def)
  moreover have "rtt_field env [host, ?addr] 1 = []"
    by (rule number_not_unit(1)[OF dotted_word(5,4)[OF assms(2)]])
  ultimately show ?thesis
    using rtts_read[OF assms(3), of ?addr] by (simp add: rtt_fields) (simp add: hop_words_def)
qed



end
