(* ===== verification/ParserExamples.thy ===== *)
theory ParserExamples
  imports ParserRun
begin

text \<open>
  Texts of routers and tools that the parsers do not read as they are meant.
\<close>

section \<open>Texts read otherwise than meant\<close>

lemma cisco_path_takes_numbers:
  "map (\<lambda>r. (r_local_pref r, r_med r, r_origin r, r_as_path r))
     (List.map_filter cisco_line [''*> 10.0.0.0/24 10.0.0.1 100 0 65000 15169 i'']) =
   [(100, 0, ''65000'', [100, 0, 65000, 15169])]"
  by code_simp

lemma bird_origin_letter:
  "map r_as_path (bird_routes ascii_env [] [''1.0.0.0/24 via 192.0.2.1 on eth0 [up 10:00] * (100) [AS13335i]'']) = [[0]]"
  by code_simp

lemma bird_prefix_forgotten:
  "bird_routes ascii_env [] [''1.0.0.0/24 unicast [up 10:00] * (100)'', CHR 0x09 # ''via 192.0.2.1 on eth0''] = []"
  by code_simp

lemma mikrotik_sent_reset:
  "pg_packets_sent (MikroTik_ParsePing ascii_env ''3 packets transmitted 3 packets received 0% packet loss'') = 0"
  by code_simp

lemma hop_number_of_address:
  "map_option hop_number (parseTracerouteLine ascii_env ''10.0.0.1 (10.0.0.1)  1 ms'') = Some 10"
  by code_simp

end
