(* ===== verification/StandaloneDriver.thy ===== *)
theory StandaloneDriver
  imports ParserVendors CircuitBreaker Engine
begin

text \<open>
  \<open>internal/driver/standalone/driver.go\<close>: the driver that runs ping, traceroute, birdc and vtysh on this
  machine, behind a circuit breaker of its own. What a process prints and how it ends, the resolver and
  the search for binaries are fields of an environment. The commands it ran are kept in a log.
\<close>

section \<open>Processes\<close>

text \<open>What starting it answers, its combined output, the lines its two streams yield in the order the
  driver gets them, and what waiting for it answers.\<close>

record process =
  pc_start :: "go_error option"
  pc_output :: string
  pc_lines :: "string list"
  pc_wait :: "go_error option"

type_synonym os_command = "string \<times> string list"

record exec_env =
  xe_parse :: parse_env
  xe_dns :: dns_lookup
  xe_has :: "string \<Rightarrow> bool"
  xe_run :: "os_command \<Rightarrow> process"
  xe_now :: go_time
  xe_done :: go_time

record driver_state =
  ds_breaker :: CircuitBreaker
  ds_log :: "os_command list"

definition NewDriver_standalone :: driver_state where
  "NewDriver_standalone = \<lparr>ds_breaker = New 5 (30 * second), ds_log = []\<rparr>"

definition execCmd :: "exec_env \<Rightarrow> os_command \<Rightarrow> driver_state \<Rightarrow> (string \<times> go_error option) \<times> driver_state" where
  "execCmd env cmd d =
     (case call_enter (xe_now env) (ds_breaker d) of
        (Inl err, cb) \<Rightarrow> (([], Some err), d\<lparr>ds_breaker := cb\<rparr>)
      | (Inr seq, cb) \<Rightarrow>
          (let p = xe_run env cmd;
               lastErr = (if pc_start p \<noteq> None then pc_start p else pc_wait p);
               out = (if pc_start p \<noteq> None then [] else pc_output p)
           in ((out, lastErr), d\<lparr>ds_breaker := call_exit (xe_done env) seq lastErr cb, ds_log := ds_log d @ [cmd]\<rparr>)))"

text \<open>An error before the process runs ends the call, but leaves \<open>lastErr\<close> as it is: nil.\<close>

definition execCmdStream ::
  "exec_env \<Rightarrow> os_command \<Rightarrow> driver_state \<Rightarrow> string list \<times> (string \<times> go_error option) \<times> driver_state" where
  "execCmdStream env cmd d =
     (case call_enter (xe_now env) (ds_breaker d) of
        (Inl err, cb) \<Rightarrow> ([], ([], Some err), d\<lparr>ds_breaker := cb\<rparr>)
      | (Inr seq, cb) \<Rightarrow>
          (let p = xe_run env cmd; d1 = d\<lparr>ds_log := ds_log d @ [cmd]\<rparr> in
           if pc_start p \<noteq> None
           then ([], ([], None), d1\<lparr>ds_breaker := call_exit (xe_done env) seq (pc_start p) cb\<rparr>)
           else (pc_lines p, (concat (map (\<lambda>l. l @ [CHR 0x0A]) (pc_lines p)), pc_wait p),
                 d1\<lparr>ds_breaker := call_exit (xe_done env) seq (pc_wait p) cb\<rparr>)))"

definition execOrStream ::
  "exec_env \<Rightarrow> bool \<Rightarrow> os_command \<Rightarrow> driver_state \<Rightarrow> string list \<times> (string \<times> go_error option) \<times> driver_state" where
  "execOrStream env onLine cmd d = (if onLine then execCmdStream env cmd d else ([], execCmd env cmd d))"

section \<open>Commands\<close>

definition resolve_error :: "go_error \<Rightarrow> go_error" where
  "resolve_error err = (if errors_is err ErrDNSNotFound then ErrDNSNotFound else ErrInvalidTarget)"

text \<open>A ping that failed has sent what it was asked to, and lost it all when nothing else is known.\<close>

definition failed_ping :: "int \<Rightarrow> ping_result \<Rightarrow> ping_result" where
  "failed_ping cnt parsed =
     (let p1 = (if pg_packets_sent parsed = 0 then parsed\<lparr>pg_packets_sent := cnt\<rparr> else parsed)
      in if pg_packets_recv p1 = 0 \<and> float_zero (pg_packet_loss p1) then p1\<lparr>pg_packet_loss := float_hundred\<rparr> else p1)"

definition Standalone_Ping ::
  "exec_env \<Rightarrow> bool \<Rightarrow> node \<Rightarrow> string \<Rightarrow> int \<Rightarrow> driver_state \<Rightarrow> string list \<times> (go_error + ping_result) \<times> driver_state" where
  "Standalone_Ping env onLine n tgt cnt d =
     (if \<not> CanExecute n CmdPing then ([], Inl ErrCommandDisabled, d)
      else case ResolveHost (xe_dns env) tgt of
        Inl err \<Rightarrow> ([], Inl (resolve_error err), d)
      | Inr resolved \<Rightarrow>
          (case execOrStream env onLine (''ping'', [''-c'', format_int cnt, ''-W'', ''2'', resolved]) d of
             (ls, (out, err), d1) \<Rightarrow>
               (let parsed = ParsePing (GetParser ''generic'') (xe_parse env) out
                in (ls, Inr (if err \<noteq> None then failed_ping cnt parsed else parsed), d1))))"

definition Standalone_Traceroute ::
  "exec_env \<Rightarrow> bool \<Rightarrow> node \<Rightarrow> string \<Rightarrow> int \<Rightarrow> driver_state \<Rightarrow>
   string list \<times> (go_error + traceroute_result) \<times> driver_state" where
  "Standalone_Traceroute env onLine n tgt maxHops d =
     (if \<not> CanExecute n CmdTraceroute then ([], Inl ErrCommandDisabled, d)
      else case ResolveHost (xe_dns env) tgt of
        Inl err \<Rightarrow> ([], Inl (resolve_error err), d)
      | Inr resolved \<Rightarrow>
          (case execOrStream env onLine (''traceroute'', [''-m'', format_int maxHops, ''-w'', ''1'', resolved]) d of
             (ls, (out, err), d1) \<Rightarrow>
               (ls, Inr (if err \<noteq> None then \<lparr>tr_hops = [], tr_raw = out\<rparr>
                         else ParseTraceroute (GetParser ''generic'') (xe_parse env) out), d1)))"

text \<open>The prefix a lookup is made for.\<close>

definition bgp_target :: "exec_env \<Rightarrow> string \<Rightarrow> go_error + string" where
  "bgp_target env pfx =
     (if \<not> contains_str pfx ''/'' \<and> parse_ip pfx = None then
        (case ResolveHost (xe_dns env) pfx of Inl err \<Rightarrow> Inl (resolve_error err) | Inr resolved \<Rightarrow> Inr resolved)
      else if contains_str pfx ''/'' \<and> parse_cidr pfx = None then Inl ErrInvalidTarget
      else Inr pfx)"

text \<open>One source: asked only where its binary is found; none unless it answers with routes.\<close>

definition ask_router ::
  "exec_env \<Rightarrow> string \<Rightarrow> os_command \<Rightarrow> driver_state \<Rightarrow> bgp_result option \<times> driver_state" where
  "ask_router env vendor cmd d =
     (if \<not> xe_has env (fst cmd) then (None, d)
      else case execCmd env cmd d of
        ((out, err), d1) \<Rightarrow>
          if err = None \<and> out \<noteq> [] then
            (let result = ParseBGPRoute (GetParser vendor) (xe_parse env) out
             in (if length (br_routes result) > 0 then Some result else None, d1))
          else (None, d1))"

definition Standalone_BGPRoute ::
  "exec_env \<Rightarrow> node \<Rightarrow> string \<Rightarrow> driver_state \<Rightarrow> (go_error + bgp_result) \<times> driver_state" where
  "Standalone_BGPRoute env n pfx0 d =
     (if \<not> CanExecute n CmdBGPRoute then (Inl ErrCommandDisabled, d)
      else case bgp_target env pfx0 of
        Inl err \<Rightarrow> (Inl err, d)
      | Inr pfx \<Rightarrow>
          (case ask_router env ''bird'' (''birdc'', [''show'', ''route'', ''for'', pfx]) d of
             (Some result, d1) \<Rightarrow> (Inr result, d1)
           | (None, d1) \<Rightarrow>
               (case ask_router env ''cisco'' (''vtysh'', [''-c'', ''show ip bgp '' @ pfx]) d1 of
                  (Some result, d2) \<Rightarrow> (Inr result, d2)
                | (None, d2) \<Rightarrow> (Inr (bgp_result_of (''no BGP data for '' @ pfx) []), d2))))"

text \<open>The driver as the engine uses it: one for every query, streaming to its callback.\<close>

definition standalone_driver :: "exec_env \<Rightarrow> node \<Rightarrow> node_driver" where
  "standalone_driver env n =
     \<lparr>dr_ping = (\<lambda>tgt cnt. case Standalone_Ping env True n tgt cnt NewDriver_standalone of (ls, r, d) \<Rightarrow> (ls, r)),
      dr_traceroute = (\<lambda>tgt hops. case Standalone_Traceroute env True n tgt hops NewDriver_standalone of (ls, r, d) \<Rightarrow> (ls, r)),
      dr_bgp_route = (\<lambda>pfx. fst (Standalone_BGPRoute env n pfx NewDriver_standalone))\<rparr>"

end
