(* ===== verification/AgentLink.thy ===== *)
theory AgentLink
  imports StandaloneDriver Http_Reply
begin

text \<open>
  The link between the panel and a remote node: the agent's API (\<open>internal/server/handler/agent_api.go\<close>,
  \<open>agent_stream.go\<close>) and the driver that talks to it (\<open>internal/driver/lgnode\<close>). JSON and HTTP are
  arguments; the framing of server-sent events is spelt out on both sides. None of the errors of reading
  or decoding is \<open>io.EOF\<close>.
\<close>

section \<open>Server-sent events\<close>

definition lf :: char where "lf = CHR 0x0A"

definition writeSSE :: "string \<Rightarrow> string \<Rightarrow> string" where
  "writeSSE event data = ''event: '' @ event @ [lf] @ ''data: '' @ data @ [lf, lf]"

definition sse_line_limit :: nat where "sse_line_limit = 1024 * 1024"

text \<open>The lines of a body and whether one is too long for the scanner's buffer.\<close>

fun sse_scan :: "string list \<Rightarrow> string list \<times> bool" where
  "sse_scan [] = ([], False)"
| "sse_scan (l # ls) =
     (if sse_line_limit \<le> length l then ([], True)
      else (case sse_scan ls of (ws, err) \<Rightarrow> (drop_cr l # ws, err)))"

definition sse_text_lines :: "string \<Rightarrow> string list" where
  "sse_text_lines s = (let ls = split_char lf s in if last ls = [] then butlast ls else ls)"

text \<open>What the callback answers to an event: its state, and an error that ends the reading.\<close>

type_synonym 's on_event = "string \<Rightarrow> string \<Rightarrow> 's \<Rightarrow> 's \<times> go_error option"

definition sse_flush :: "'s on_event \<Rightarrow> string \<Rightarrow> string list \<Rightarrow> 's \<Rightarrow> 's \<times> go_error option" where
  "sse_flush onEvent eventType dataLines s =
     (if eventType = [] \<and> dataLines = [] then (s, None) else onEvent eventType (join_str [lf] dataLines) s)"

datatype sse_kind = SseBlank | SseEvent string | SseData string | SseOther

definition sse_line :: "string \<Rightarrow> sse_kind" where
  "sse_line line0 =
     (let line = rev (dropWhile (\<lambda>c. c = CHR 0x0D) (rev line0)) in
      if line = [] then SseBlank
      else if has_prefix line ''event:'' then SseEvent (trim_space (trim_prefix line ''event:''))
      else if has_prefix line ''data:'' then SseData (trim_space (trim_prefix line ''data:''))
      else SseOther)"

fun sse_loop :: "'s on_event \<Rightarrow> string list \<Rightarrow> go_error option \<Rightarrow> string \<Rightarrow> string list \<Rightarrow> 's \<Rightarrow> 's \<times> go_error option" where
  "sse_loop onEvent [] scanErr eventType dataLines s =
     (case scanErr of Some err \<Rightarrow> (s, Some err) | None \<Rightarrow> sse_flush onEvent eventType dataLines s)"
| "sse_loop onEvent (l # ls) scanErr eventType dataLines s =
     (case sse_line l of
        SseBlank \<Rightarrow>
          (case sse_flush onEvent eventType dataLines s of
             (s1, Some err) \<Rightarrow> (s1, Some err)
           | (s1, None) \<Rightarrow> sse_loop onEvent ls scanErr [] [] s1)
      | SseEvent e \<Rightarrow> sse_loop onEvent ls scanErr e dataLines s
      | SseData d \<Rightarrow> sse_loop onEvent ls scanErr eventType (dataLines @ [d]) s
      | SseOther \<Rightarrow> sse_loop onEvent ls scanErr eventType dataLines s)"

definition err_too_long :: go_error where "err_too_long = PlainError ''bufio.Scanner: token too long''"

text \<open>The body is what could be read of it, and the error of reading on.\<close>

definition readSSE :: "string \<times> go_error option \<Rightarrow> 's on_event \<Rightarrow> 's \<Rightarrow> 's \<times> go_error option" where
  "readSSE body onEvent s =
     (case sse_scan (sse_text_lines (fst body)) of
        (ls, tooLong) \<Rightarrow> sse_loop onEvent ls (if tooLong then Some err_too_long else snd body) [] [] s)"

section \<open>The panel's side\<close>

text \<open>What HTTP answers to a request: it fails, or there is a status and a body.\<close>

type_synonym http_answer = "go_error + nat \<times> string \<times> go_error option"

record 'r agent_json =
  aj_line :: "string \<Rightarrow> string option"
  aj_error :: "string \<Rightarrow> string option"
  aj_result :: "string \<Rightarrow> 'r \<Rightarrow> go_error + 'r"

definition parseStreamError :: "'r agent_json \<Rightarrow> string \<Rightarrow> go_error" where
  "parseStreamError js data =
     (case aj_error js data of
        None \<Rightarrow> PlainError ''agent stream failed''
      | Some msg \<Rightarrow> if msg = [] then PlainError ''agent stream failed'' else PlainError msg)"

record 'r stream_state =
  ss_lines :: "string list"
  ss_error :: "go_error option"
  ss_result :: 'r
  ss_got :: bool

definition stream_event :: "'r agent_json \<Rightarrow> 'r stream_state on_event" where
  "stream_event js event data s =
     (if event = ''output'' \<or> event = [] then
        (if event = [] \<and> \<not> contains_str data ([CHR 0x22] @ ''line'' @ [CHR 0x22]) then (s, None)
         else (case aj_line js data of
                 None \<Rightarrow> (s, None)
               | Some line \<Rightarrow> (if line \<noteq> [] then s\<lparr>ss_lines := ss_lines s @ [line]\<rparr> else s, None)))
      else if event = ''result'' then
        (case aj_result js data (ss_result s) of
           Inl err \<Rightarrow> (s, Some err)
         | Inr r \<Rightarrow> (s\<lparr>ss_result := r, ss_got := True\<rparr>, None))
      else if event = ''error'' then (s\<lparr>ss_error := Some (parseStreamError js data)\<rparr>, None)
      else (s, None))"

definition request_failed :: "string \<Rightarrow> nat \<Rightarrow> go_error" where
  "request_failed what status = PlainError (what @ format_int (int status))"

text \<open>One request inside the breaker: the answer decoded.\<close>

definition agent_answer :: "'r agent_json \<Rightarrow> 'r \<Rightarrow> http_answer \<Rightarrow> go_error + 'r" where
  "agent_answer js zero answer =
     (case answer of
        Inl err \<Rightarrow> Inl err
      | Inr (status, text, readErr) \<Rightarrow>
          if status \<noteq> 200 then Inl (request_failed ''agent request failed: '' status)
          else aj_result js text zero)"

definition error_of :: "go_error + 'r \<Rightarrow> go_error option" where
  "error_of r = (case r of Inl err \<Rightarrow> Some err | Inr _ \<Rightarrow> None)"

record link_env =
  lk_http :: "string \<Rightarrow> http_answer"
  lk_now :: go_time
  lk_done :: go_time

definition doAgentRequest ::
  "link_env \<Rightarrow> 'r agent_json \<Rightarrow> 'r \<Rightarrow> string \<Rightarrow> CircuitBreaker \<Rightarrow> (go_error + 'r) \<times> CircuitBreaker" where
  "doAgentRequest env js zero path cb =
     (case call_enter (lk_now env) cb of
        (Inl err, cb1) \<Rightarrow> (Inl err, cb1)
      | (Inr seq, cb1) \<Rightarrow>
          (let r = agent_answer js zero (lk_http env path) in (r, call_exit (lk_done env) seq (error_of r) cb1)))"

definition stream_outcome :: "'r stream_state \<times> go_error option \<Rightarrow> go_error + 'r" where
  "stream_outcome x =
     (case x of
        (s, Some err) \<Rightarrow> Inl err
      | (s, None) \<Rightarrow>
          (case ss_error s of
             Some err \<Rightarrow> Inl err
           | None \<Rightarrow> if \<not> ss_got s then Inl (PlainError ''agent stream ended without result'') else Inr (ss_result s)))"

text \<open>An agent without streams answers 404 and is asked again, still inside the first call.\<close>

definition doAgentStreamRequest ::
  "link_env \<Rightarrow> 'r agent_json \<Rightarrow> 'r \<Rightarrow> string \<Rightarrow> CircuitBreaker \<Rightarrow> string list \<times> (go_error + 'r) \<times> CircuitBreaker" where
  "doAgentStreamRequest env js zero path cb =
     (case call_enter (lk_now env) cb of
        (Inl err, cb1) \<Rightarrow> ([], Inl err, cb1)
      | (Inr seq, cb1) \<Rightarrow>
          (case (case lk_http env path of
                   Inl err \<Rightarrow> ([], Inl err, cb1)
                 | Inr (status, text, readErr) \<Rightarrow>
                     if status = 404 then
                       (case doAgentRequest env js zero (trim_suffix path ''/stream'') cb1 of (r, cb2) \<Rightarrow> ([], r, cb2))
                     else if status \<noteq> 200 then ([], Inl (request_failed ''agent stream request failed: '' status), cb1)
                     else let x = readSSE (text, readErr) (stream_event js)
                            \<lparr>ss_lines = [], ss_error = None, ss_result = zero, ss_got = False\<rparr>
                       in (ss_lines (fst x), stream_outcome x, cb1)) of
             (ls, r, cb2) \<Rightarrow> (ls, r, call_exit (lk_done env) seq (error_of r) cb2)))"

definition lgnode_breaker :: CircuitBreaker where "lgnode_breaker = New 5 (30 * second)"

definition LGNode_Ping ::
  "link_env \<Rightarrow> ping_result agent_json \<Rightarrow> bool \<Rightarrow> node \<Rightarrow> string list \<times> (go_error + ping_result)" where
  "LGNode_Ping env js onLine n =
     (if \<not> CanExecute n CmdPing then ([], Inl ErrCommandDisabled)
      else if onLine then
        (case doAgentStreamRequest env js (empty_ping []) ''/agent/v1/ping/stream'' lgnode_breaker of (ls, r, cb) \<Rightarrow> (ls, r))
      else ([], fst (doAgentRequest env js (empty_ping []) ''/agent/v1/ping'' lgnode_breaker)))"

definition LGNode_Traceroute ::
  "link_env \<Rightarrow> traceroute_result agent_json \<Rightarrow> bool \<Rightarrow> node \<Rightarrow> string list \<times> (go_error + traceroute_result)" where
  "LGNode_Traceroute env js onLine n =
     (let zero = \<lparr>tr_hops = [], tr_raw = []\<rparr> in
      if \<not> CanExecute n CmdTraceroute then ([], Inl ErrCommandDisabled)
      else if onLine then
        (case doAgentStreamRequest env js zero ''/agent/v1/traceroute/stream'' lgnode_breaker of (ls, r, cb) \<Rightarrow> (ls, r))
      else ([], fst (doAgentRequest env js zero ''/agent/v1/traceroute'' lgnode_breaker)))"

definition LGNode_BGPRoute :: "link_env \<Rightarrow> bgp_result agent_json \<Rightarrow> node \<Rightarrow> go_error + bgp_result" where
  "LGNode_BGPRoute env js n =
     (if \<not> CanExecute n CmdBGPRoute then Inl ErrCommandDisabled
      else fst (doAgentRequest env js (bgp_result_of [] []) ''/agent/v1/bgp/route'' lgnode_breaker))"

section \<open>The agent's side\<close>

definition clamp_count :: "int \<Rightarrow> int" where
  "clamp_count cnt = (let c = (if cnt \<le> 0 then 5 else cnt) in if c > 50 then 50 else c)"

definition clamp_hops :: "int \<Rightarrow> int" where
  "clamp_hops hops = (let h = (if hops \<le> 0 then 30 else hops) in if h > 64 then 64 else h)"

text \<open>What a stream carries: every line, then the error or the result.\<close>

record 'r agent_encode =
  ae_line :: "string \<Rightarrow> string"
  ae_failure :: "go_error \<Rightarrow> string"
  ae_value :: "'r \<Rightarrow> string"

definition stream_body :: "'r agent_encode \<Rightarrow> string list \<times> (go_error + 'r) \<Rightarrow> string" where
  "stream_body en out =
     concat (map (\<lambda>l. writeSSE ''output'' (ae_line en l)) (fst out)) @
     (case snd out of Inl err \<Rightarrow> writeSSE ''error'' (ae_failure en err) | Inr r \<Rightarrow> writeSSE ''result'' (ae_value en r))"

text \<open>The node of the request's context, the binding of its body (the target and the cnt), the driver
  and its run.\<close>

definition agent_handler ::
  "node option \<Rightarrow> string + 'q \<Rightarrow> (node \<Rightarrow> go_error + 'd) \<Rightarrow> (node \<Rightarrow> 'q \<Rightarrow> 'd \<Rightarrow> 'b reply) \<Rightarrow> 'b reply" where
  "agent_handler ctx body mk run =
     (case ctx of
        None \<Rightarrow> Refused 500 ''internal error''
      | Some n \<Rightarrow>
          (case body of
             Inl msg \<Rightarrow> Refused 400 msg
           | Inr req \<Rightarrow>
               (case mk n of Inl err \<Rightarrow> Refused 500 ''failed to create driver'' | Inr drv \<Rightarrow> run n req drv)))"

definition agentPing ::
  "(go_error \<Rightarrow> string) \<Rightarrow> node option \<Rightarrow> string + string \<times> int \<Rightarrow>
   (node \<Rightarrow> go_error + (string \<Rightarrow> int \<Rightarrow> go_error + ping_result)) \<Rightarrow> ping_result reply" where
  "agentPing text ctx body mk =
     agent_handler ctx body mk (\<lambda>n req drv.
       case drv (fst req) (clamp_count (snd req)) of Inl err \<Rightarrow> Refused 500 (text err) | Inr r \<Rightarrow> Reply 200 r)"

definition agentTraceroute ::
  "(go_error \<Rightarrow> string) \<Rightarrow> node option \<Rightarrow> string + string \<times> int \<Rightarrow>
   (node \<Rightarrow> go_error + (string \<Rightarrow> int \<Rightarrow> go_error + traceroute_result)) \<Rightarrow> traceroute_result reply" where
  "agentTraceroute text ctx body mk =
     agent_handler ctx body mk (\<lambda>n req drv.
       case drv (fst req) (clamp_hops (snd req)) of Inl err \<Rightarrow> Refused 500 (text err) | Inr r \<Rightarrow> Reply 200 r)"

definition agentPingStream ::
  "ping_result agent_encode \<Rightarrow> node option \<Rightarrow> string + string \<times> int \<Rightarrow>
   (node \<Rightarrow> go_error + (string \<Rightarrow> int \<Rightarrow> string list \<times> (go_error + ping_result))) \<Rightarrow> string reply" where
  "agentPingStream en ctx body mk =
     agent_handler ctx body mk (\<lambda>n req drv. Reply 200 (stream_body en (drv (fst req) (clamp_count (snd req)))))"

definition agentTracerouteStream ::
  "traceroute_result agent_encode \<Rightarrow> node option \<Rightarrow> string + string \<times> int \<Rightarrow>
   (node \<Rightarrow> go_error + (string \<Rightarrow> int \<Rightarrow> string list \<times> (go_error + traceroute_result))) \<Rightarrow> string reply" where
  "agentTracerouteStream en ctx body mk =
     agent_handler ctx body mk (\<lambda>n req drv. Reply 200 (stream_body en (drv (fst req) (clamp_hops (snd req)))))"

definition agentHealth :: "node option \<Rightarrow> string reply" where
  "agentHealth ctx = (case ctx of None \<Rightarrow> Refused 500 ''internal error'' | Some n \<Rightarrow> Reply 200 (n_name n))"

definition agentCapabilities :: "node option \<Rightarrow> string list reply" where
  "agentCapabilities ctx = (case ctx of None \<Rightarrow> Refused 500 ''internal error'' | Some n \<Rightarrow> Reply 200 (n_enabled_cmds n))"

text \<open>A route lookup: from the BGP sessions where there is a ready manager, else by the local driver.
  \<open>build\<close> is \<open>BuildRouteResult\<close> of the ready manager with its AS number.\<close>

definition agentBGPRoute ::
  "(go_error \<Rightarrow> string) \<Rightarrow> engine \<Rightarrow> node option \<Rightarrow> string + string \<Rightarrow>
   ((int \<Rightarrow> string \<Rightarrow> go_error + bgp_result) \<times> u32) option \<Rightarrow>
   (node \<Rightarrow> go_error + (string \<Rightarrow> go_error + bgp_result)) \<Rightarrow> bgp_result reply" where
  "agentBGPRoute text e ctx body mgr mk =
     (case ctx of
        None \<Rightarrow> Refused 500 ''internal error''
      | Some n \<Rightarrow>
          (case body of
             Inl msg \<Rightarrow> Refused 400 msg
           | Inr pfx \<Rightarrow>
               if contains_str pfx ''/'' \<and> parse_cidr pfx = None then Refused 400 ''invalid prefix''
               else if \<not> contains_str pfx ''/'' \<and> parse_ip pfx = None then Refused 400 ''invalid IP address''
               else (case mgr of
                 Some (build, las) \<Rightarrow>
                   (case build (n_id n) pfx of
                      Inl err \<Rightarrow> Refused 500 (text err)
                    | Inr result \<Rightarrow>
                        (let r1 = result\<lparr>br_routes := ApplyOriginASPathToRoutes las (br_routes result)\<rparr>
                         in Reply 200 (if \<not> HasRouteASPath (Some r1) then EnrichResultTargetAS e r1 pfx else r1)))
               | None \<Rightarrow>
                   (case mk n of
                      Inl err \<Rightarrow> Refused 500 ''failed to create driver''
                    | Inr drv \<Rightarrow> (case drv pfx of Inl err \<Rightarrow> Refused 500 (text err) | Inr r \<Rightarrow> Reply 200 r)))))"

section \<open>Addresses\<close>

definition first_index :: "char \<Rightarrow> string \<Rightarrow> nat option" where
  "first_index c s = (if c \<in> set s then Some (length (takeWhile (\<lambda>x. x \<noteq> c) s)) else None)"

text \<open>\<open>net.SplitHostPort\<close>, \<open>net.JoinHostPort\<close>.\<close>

definition addr_error :: "string \<Rightarrow> string \<Rightarrow> go_error" where
  "addr_error addr why = PlainError ((if addr \<noteq> [] then ''address '' @ addr @ '': '' else []) @ why @ '' in address'')"

definition quoted_char :: "char \<Rightarrow> string" where "quoted_char c = [CHR 0x27, c, CHR 0x27]"

definition SplitHostPort :: "string \<Rightarrow> go_error + string \<times> string" where
  "SplitHostPort hp =
     (let bad = (\<lambda>why. Inl (addr_error hp why));
          finish = (\<lambda>host j k i.
            if CHR ''['' \<in> set (drop j hp) then bad (''unexpected '' @ quoted_char (CHR ''[''))
            else if CHR '']'' \<in> set (drop k hp) then bad (''unexpected '' @ quoted_char (CHR '']''))
            else Inr (host, drop (i + 1) hp))
      in case last_colon hp of
        None \<Rightarrow> bad ''missing port''
      | Some i \<Rightarrow>
          if has_prefix hp ''['' then
            (case first_index (CHR '']'') hp of
               None \<Rightarrow> bad (''missing '' @ quoted_char (CHR '']''))
             | Some k \<Rightarrow>
                 if k + 1 = length hp then bad ''missing port''
                 else if k + 1 = i then finish (take (k - 1) (drop 1 hp)) 1 (k + 1) i
                 else if hp ! (k + 1) = CHR '':'' then bad ''too many colons'' else bad ''missing port'')
          else if CHR '':'' \<in> set (take i hp) then bad ''too many colons''
          else finish (take i hp) 0 0 i)"

definition JoinHostPort :: "string \<Rightarrow> string \<Rightarrow> string" where
  "JoinHostPort host port =
     (if CHR '':'' \<in> set host then ''['' @ host @ '']:'' @ port else host @ '':'' @ port)"

text \<open>The address that is dialled.\<close>

definition agentDialContext :: "dns_lookup \<Rightarrow> iface_list \<Rightarrow> string \<Rightarrow> go_error + string" where
  "agentDialContext dns ifaces addr =
     (case SplitHostPort addr of
        Inl err \<Rightarrow> Inl err
      | Inr (host, port) \<Rightarrow>
          (case parse_ip host of
             Some ip \<Rightarrow>
               if \<not> AllowedAgentIP ifaces ip then Inl (PlainError (''agent address '' @ ip_string ip @ '' is not allowed''))
               else Inr addr
           | None \<Rightarrow>
               (case dns host of
                  Inl err \<Rightarrow> Inl err
                | Inr ips \<Rightarrow>
                    (case ips of
                       [] \<Rightarrow> Inl (PlainError (''agent host '' @ host @ '' resolved to no addresses''))
                     | ip0 # _ \<Rightarrow>
                         (case find (\<lambda>ip. \<not> AllowedAgentIP ifaces ip) ips of
                            Some ip \<Rightarrow> Inl (PlainError (''agent host '' @ host @ '' resolves to '' @ ip_string ip @
                              '', which is not allowed''))
                          | None \<Rightarrow> Inr (JoinHostPort (ip_string ip0) port))))))"

definition isLocalHost :: "iface_list \<Rightarrow> string \<Rightarrow> bool" where
  "isLocalHost ifaces host =
     (case parse_ip host of None \<Rightarrow> False | Some ip \<Rightarrow> is_loopback ip \<or> isLocalInterfaceIP ifaces ip)"

text \<open>\<open>with_host\<close> is the parsed URL printed with another host.\<close>

definition resolveLocalAgentURL ::
  "(string \<Rightarrow> url option) \<Rightarrow> (string \<Rightarrow> string \<Rightarrow> string) \<Rightarrow> iface_list \<Rightarrow> string \<Rightarrow> string" where
  "resolveLocalAgentURL url_parse with_host ifaces raw =
     (case url_parse raw of
        None \<Rightarrow> raw
      | Some u \<Rightarrow>
          if u_host u = [] then raw
          else let host = trim_brackets (to_lower (Hostname u)) in
            if host = ''localhost'' \<or> host = ''127.0.0.1'' \<or> host = ''::1'' then raw
            else if \<not> isLocalHost ifaces host then raw
            else let port = (if Port u = [] then (if u_scheme u = ''https'' then ''443'' else ''80'') else Port u)
              in with_host raw (JoinHostPort ''127.0.0.1'' port))"

definition agentURL :: "string \<Rightarrow> string \<Rightarrow> string" where
  "agentURL base path = rev (dropWhile (\<lambda>c. c = CHR ''/'') (rev base)) @ path"

definition TestConnection_lgnode :: "link_env \<Rightarrow> CircuitBreaker \<Rightarrow> go_error option \<times> CircuitBreaker" where
  "TestConnection_lgnode env cb =
     (case call_enter (lk_now env) cb of
        (Inl err, cb1) \<Rightarrow> (Some err, cb1)
      | (Inr seq, cb1) \<Rightarrow>
          (let r = (case lk_http env ''/agent/v1/health'' of
                      Inl err \<Rightarrow> Some err
                    | Inr (status, text, readErr) \<Rightarrow>
                        if status \<noteq> 200 then Some (request_failed ''health check failed: '' status) else None)
           in (r, call_exit (lk_done env) seq r cb1)))"

end
