(* ===== verification/StandaloneRun.thy ===== *)
theory StandaloneRun
  imports StandaloneDriver
begin

text \<open>
  Which commands the standalone driver can be made to run, and what it makes of a process that does not
  start.
\<close>

section \<open>What addresses and prefixes are spelt with\<close>

definition net_char :: "char \<Rightarrow> bool" where
  "net_char c \<longleftrightarrow> hex_val c \<noteq> None \<or> c = CHR '':'' \<or> c = CHR ''.'' \<or> c = CHR ''/''"

definition net_text :: "string \<Rightarrow> bool" where "net_text s \<longleftrightarrow> (\<forall>c \<in> set s. net_char c)"

lemma net_text_simps [simp]:
  "net_text []" "net_text (c # s) \<longleftrightarrow> net_char c \<and> net_text s" "net_text (s @ t) \<longleftrightarrow> net_text s \<and> net_text t"
  by (auto simp: net_text_def)

lemma net_char_literals [simp]: "net_char (CHR '':'')" "net_char (CHR ''.'')" "net_char (CHR ''/'')" "is_digit c \<Longrightarrow> net_char c"
  by (simp_all add: net_char_def hex_val_def)

lemma ipv4_fields_text: "ipv4_fields st val dl fs s = Some q \<Longrightarrow> net_text s"
  by (induction st val dl fs s rule: ipv4_fields.induct) (auto split: if_splits)

lemma hex_group_text: "hex_group off acc s = Some (off', acc', r) \<Longrightarrow> \<exists>u. s = u @ r \<and> net_text u"
proof (induction off acc s arbitrary: off' acc' r rule: hex_group.induct)
  case (2 off acc c s)
  show ?case
  proof (cases "hex_val c")
    case (Some d)
    then have "\<exists>u. s = u @ r \<and> net_text u" using 2 by (auto split: if_splits)
    then obtain u where "s = u @ r" "net_text u" by blast
    then have "c # s = (c # u) @ r \<and> net_text (c # u)" using Some by (simp add: net_char_def)
    then show ?thesis by blast
  qed (use 2 in \<open>auto intro: exI[of _ "[]"]\<close>)
qed (auto intro: exI[of _ "[]"])

lemma ipv6_loop_text: "ipv6_loop bs ell s = Some (bs', ell', r) \<Longrightarrow> \<exists>u. s = u @ r \<and> net_text u"
proof (induction "16 - length bs" arbitrary: bs ell s rule: less_induct)
  case less
  note unfold = ipv6_loop.simps[of bs ell s]
  show ?case
  proof (cases "16 \<le> length bs")
    case True
    then show ?thesis using less.prems by (auto simp: unfold intro: exI[of _ "[]"])
  next
    case False
    then obtain off acc t where g: "hex_group 0 0 s = Some (off, acc, t)" "off \<noteq> 0"
      using less.prems by (auto simp: unfold split: option.splits if_splits)
    obtain u where u: "s = u @ t" "net_text u" using hex_group_text[OF g(1)] by blast
    show ?thesis
    proof (cases "has_prefix t ''.''")
      case True
      then have "net_text s" "r = []"
        using less.prems False g by (auto simp: unfold split: if_splits dest: ipv4_fields_text)
      then show ?thesis by auto
    next
      case dot: False
      show ?thesis
      proof (cases t)
        case Nil
        then have "r = []" using less.prems False g dot by (auto simp: unfold)
        then show ?thesis using u Nil by auto
      next
        case (Cons c v)
        let ?bs = "bs @ [of_nat (acc div 256), of_nat (acc mod 256)]"
        have dec: "16 - length ?bs < 16 - length bs" using False by simp
        have c: "c = CHR '':''" using less.prems False g dot Cons by (auto simp: unfold Let_def split: if_splits)
        have "(\<exists>e w. ipv6_loop ?bs e w = Some (bs', ell', r) \<and> (v = w \<or> v = CHR '':'' # w)) \<or> (r = [] \<and> net_text v)"
          using less.prems False g dot Cons
          by (cases v) (auto simp: unfold Let_def has_prefix_def split: if_splits)
        then show ?thesis
        proof
          assume "\<exists>e w. ipv6_loop ?bs e w = Some (bs', ell', r) \<and> (v = w \<or> v = CHR '':'' # w)"
          then obtain e w where w: "ipv6_loop ?bs e w = Some (bs', ell', r)" "v = w \<or> v = CHR '':'' # w" by blast
          obtain x where x: "w = x @ r" "net_text x" using less.hyps[OF dec w(1)] by blast
          have "s = (u @ CHR '':'' # x) @ r \<or> s = (u @ CHR '':'' # CHR '':'' # x) @ r"
            using w(2) x(1) u(1) Cons c by auto
          then show ?thesis using u(2) x(2) by (metis net_char_literals(1) net_text_simps(2,3))
        next
          assume "r = [] \<and> net_text v"
          then show ?thesis using u Cons c by (intro exI[of _ s]) simp
        qed
      qed
    qed
  qed
qed

lemma parse_ipv6_text:
  assumes "parse_ipv6 s = Some (Addr6 bs [])" shows "net_text s"
proof -
  let ?b = "takeWhile (\<lambda>c. c \<noteq> CHR ''%'') s" and ?z = "dropWhile (\<lambda>c. c \<noteq> CHR ''%'') s"
  have z: "?z = []"
    using assms by (auto simp: parse_ipv6_def Let_def split: if_splits option.splits)
  have loop: "net_text w" if fin: "ipv6_finish (ipv6_loop a e w) \<noteq> None" for a e w
  proof -
    obtain b' e' r where r: "ipv6_loop a e w = Some (b', e', r)"
      by (cases "ipv6_loop a e w") (use fin in \<open>auto simp: ipv6_finish_def\<close>)
    then have "r = []" using fin by (auto simp: ipv6_finish_def split: if_splits)
    then show ?thesis using ipv6_loop_text[OF r] by auto
  qed
  have "net_text ?b"
  proof (cases "has_prefix ?b ''::''")
    case True
    then obtain w where w: "?b = CHR '':'' # CHR '':'' # w" by (auto simp: has_prefix_iff)
    have "net_text w" using assms z loop[of "[]" "Some 0" w]
      by (auto simp: parse_ipv6_def Let_def w has_prefix_def split: if_splits option.splits)
    then show ?thesis by (simp add: w)
  next
    case False
    then show ?thesis using assms z loop[of "[]" None ?b]
      by (auto simp: parse_ipv6_def Let_def split: if_splits option.splits)
  qed
  moreover have "s = ?b @ ?z" by simp
  ultimately show ?thesis using z by (metis append_Nil2)
qed

lemma parse_addr_text:
  "parse_addr s = Some (Addr4 q) \<Longrightarrow> net_text s" "parse_addr s = Some (Addr6 bs []) \<Longrightarrow> net_text s"
  by (auto simp: parse_addr_def parse_ipv6_text dest: ipv4_fields_text split: option.splits if_splits)
     (auto simp: parse_ipv6_def Let_def split: if_splits option.splits)

lemma parse_ip_text: "parse_ip s \<noteq> None \<Longrightarrow> net_text s"
  by (auto simp: parse_ip_def parse_addr_text split: option.splits parsed_addr.splits if_splits)

lemma parse_cidr_text:
  assumes "parse_cidr s \<noteq> None" shows "net_text s"
proof -
  let ?a = "takeWhile (\<lambda>c. c \<noteq> CHR ''/'') s" and ?m = "dropWhile (\<lambda>c. c \<noteq> CHR ''/'') s"
  have "parse_addr ?a \<noteq> None" by (cases "parse_addr ?a") (use assms in \<open>auto simp: parse_cidr_def Let_def split: if_splits\<close>)
  then obtain ad where ad: "parse_addr ?a = Some ad" by blast
  define zone where "zone = (case ad of Addr4 _ \<Rightarrow> [] | Addr6 _ z \<Rightarrow> z)"
  have "zone = []"
  proof (rule ccontr)
    assume "zone \<noteq> []"
    then have "parse_cidr s = None" unfolding parse_cidr_def Let_def ad option.case zone_def by simp
    then show False using assms by contradiction
  qed
  have "list_all is_digit (tl ?m)"
  proof (rule ccontr)
    assume "\<not> list_all is_digit (tl ?m)"
    then have "parse_cidr s = None" unfolding parse_cidr_def Let_def ad option.case by simp
    then show False using assms by contradiction
  qed
  then have digits: "net_text (tl ?m)" by (auto simp: net_text_def list_all_iff)
  have a: "net_text ?a" using ad \<open>zone = []\<close> parse_addr_text by (cases ad) (auto simp: zone_def)
  have m: "net_text ?m"
  proof (cases ?m)
    case (Cons c v)
    then have "c = CHR ''/''" using hd_dropWhile[of "\<lambda>c. c \<noteq> CHR ''/''" s] by simp
    then show ?thesis using digits Cons by (simp only: net_text_simps net_char_literals list.sel)
  qed (simp only: net_text_simps)
  have "net_text (?a @ ?m)" using a m by (simp only: net_text_simps)
  then show ?thesis by (simp only: takeWhile_dropWhile_id)
qed

section \<open>The commands\<close>

lemma execCmd_log: "execCmd env cmd d = (r, d') \<Longrightarrow> ds_log d' = ds_log d \<or> ds_log d' = ds_log d @ [cmd]"
  by (auto simp: execCmd_def Let_def split: prod.splits sum.splits)

lemma execOrStream_log:
  "execOrStream env onLine cmd d = (ls, r, d') \<Longrightarrow> ds_log d' = ds_log d \<or> ds_log d' = ds_log d @ [cmd]"
  by (auto simp: execOrStream_def execCmdStream_def Let_def split: prod.splits sum.splits if_splits dest: execCmd_log)

lemma ask_router_log: "ask_router env vendor cmd d = (r, d') \<Longrightarrow> set (ds_log d') \<subseteq> insert cmd (set (ds_log d))"
  by (auto simp: ask_router_def Let_def split: prod.splits if_splits dest!: execCmd_log)

text \<open>Commands with an address that is not blocked, or a route lookup for text that spells an address or a
  prefix and cannot be an option or more than one word.\<close>

definition safe_command :: "os_command \<Rightarrow> bool" where
  "safe_command cmd \<longleftrightarrow>
     (\<exists>k ip. \<not> IsBlockedIP ip \<and>
        (cmd = (''ping'', [''-c'', k, ''-W'', ''2'', ip_string ip]) \<or> cmd = (''traceroute'', [''-m'', k, ''-w'', ''1'', ip_string ip]))) \<or>
     (\<exists>p. net_text p \<and> (cmd = (''birdc'', [''show'', ''route'', ''for'', p]) \<or> cmd = (''vtysh'', [''-c'', ''show ip bgp '' @ p])))"

lemma addr_net_char: "addr_char c \<Longrightarrow> net_char c"
  by (auto simp: addr_char_def) (simp_all add: net_char_def hex_val_def code_def)

lemma resolved_text:
  assumes "ResolveHost dns h = Inr s" and "lookup_ok dns" shows "net_text s"
proof -
  obtain ip where ip: "s = ip_string ip"
      "parse_ip (trim_space h) = Some ip \<or> (\<exists>ips. dns (trim_space h) = Inr (ip # ips) \<and> list_all (\<lambda>a. \<not> IsBlockedIP a) (ip # ips))"
    using ResolveHost_InrE[OF assms(1)] by blast
  have "length ip = 4 \<or> length ip = 16"
    using ip(2)
  proof
    assume "\<exists>ips. dns (trim_space h) = Inr (ip # ips) \<and> list_all (\<lambda>a. \<not> IsBlockedIP a) (ip # ips)"
    then obtain ips where "dns (trim_space h) = Inr (ip # ips)" by blast
    with assms(2) have "list_all (\<lambda>ip. length ip = 4 \<or> length ip = 16) (ip # ips)" unfolding lookup_ok_def by blast
    then show ?thesis by simp
  qed (use parse_ip_length in blast)
  then show ?thesis using addr_char_ip_string addr_net_char by (auto simp: ip(1) net_text_def)
qed

lemma bgp_target_text: "bgp_target env p = Inr q \<Longrightarrow> lookup_ok (xe_dns env) \<Longrightarrow> net_text q"
  by (auto simp: bgp_target_def resolved_text parse_ip_text parse_cidr_text split: if_splits sum.splits)

text \<open>C13: Whatever target it is given, the standalone driver runs only ping and traceroute to an address that
  is not blocked, and route lookups for text that is spelt like an address or a prefix: no target becomes
  an option, a second argument or a command of its own.\<close>

theorem standalone_commands_safe:
  assumes "lookup_ok (xe_dns env)" and "\<forall>cmd \<in> set (ds_log d). safe_command cmd"
  shows "(\<forall>cmd \<in> set (ds_log (snd (snd (Standalone_Ping env onLine n tgt k d)))). safe_command cmd) \<and>
    (\<forall>cmd \<in> set (ds_log (snd (snd (Standalone_Traceroute env onLine n tgt k d)))). safe_command cmd) \<and>
    (\<forall>cmd \<in> set (ds_log (snd (Standalone_BGPRoute env n tgt d))). safe_command cmd)"
proof (intro conjI)
  have old: "safe_command cmd" if "cmd \<in> set (ds_log d)" for cmd using assms(2) that by blast
  have new: "safe_command (''ping'', [''-c'', j, ''-W'', ''2'', s])" "safe_command (''traceroute'', [''-m'', j, ''-w'', ''1'', s])"
    if "ResolveHost dns h = Inr s" for dns h s j
    using ResolveHost_InrE[OF that] by (auto simp: safe_command_def)
  show "\<forall>cmd \<in> set (ds_log (snd (snd (Standalone_Ping env onLine n tgt k d)))). safe_command cmd"
    by (auto simp: Standalone_Ping_def Let_def old new split: sum.splits prod.splits dest!: execOrStream_log)
  show "\<forall>cmd \<in> set (ds_log (snd (snd (Standalone_Traceroute env onLine n tgt k d)))). safe_command cmd"
    by (auto simp: Standalone_Traceroute_def Let_def old new split: sum.splits prod.splits dest!: execOrStream_log)
  have lookup: "safe_command (''birdc'', [''show'', ''route'', ''for'', p])" "safe_command (''vtysh'', [''-c'', ''show ip bgp '' @ p])"
    if "bgp_target env tgt = Inr p" for p
    using bgp_target_text[OF that assms(1)] by (auto simp: safe_command_def)
  show "\<forall>cmd \<in> set (ds_log (snd (Standalone_BGPRoute env n tgt d))). safe_command cmd"
  proof (cases "CanExecute n CmdBGPRoute \<and> (\<exists>p. bgp_target env tgt = Inr p)")
    case True
    then obtain p where p: "bgp_target env tgt = Inr p" by blast
    obtain r1 d1 where 1: "ask_router env ''bird'' (''birdc'', [''show'', ''route'', ''for'', p]) d = (r1, d1)" by fastforce
    obtain r2 d2 where 2: "ask_router env ''cisco'' (''vtysh'', [''-c'', ''show ip bgp '' @ p]) d1 = (r2, d2)" by fastforce
    have "snd (Standalone_BGPRoute env n tgt d) = d1 \<or> snd (Standalone_BGPRoute env n tgt d) = d2"
      using True by (auto simp: Standalone_BGPRoute_def p 1 2[simplified] split: option.splits)
    moreover have "\<forall>cmd \<in> set (ds_log d1). safe_command cmd" using ask_router_log[OF 1] old lookup(1)[OF p] by auto
    moreover then have "\<forall>cmd \<in> set (ds_log d2). safe_command cmd" using ask_router_log[OF 2] lookup(2)[OF p] by auto
    ultimately show ?thesis by auto
  next
    case False
    then show ?thesis using old by (auto simp: Standalone_BGPRoute_def split: sum.splits)
  qed
qed

section \<open>A run\<close>

text \<open>A machine on which everything prints one line and ends well, and one without binaries.\<close>

definition sample_exec :: exec_env where
  "sample_exec = \<lparr>xe_parse = ascii_env, xe_dns = example_lookup, xe_has = (\<lambda>_. True),
     xe_run = (\<lambda>_. \<lparr>pc_start = None, pc_output = ''x'', pc_lines = [''x''], pc_wait = None\<rparr>), xe_now = 1, xe_done = 2\<rparr>"

definition bare_exec :: exec_env where
  "bare_exec = sample_exec\<lparr>xe_run := (\<lambda>_. \<lparr>pc_start = Some (PlainError ''not found''), pc_output = [], pc_lines = [], pc_wait = None\<rparr>)\<rparr>"

definition any_node :: node where "any_node = example_node NodeTypeStandalone [CmdPing, CmdTraceroute, CmdBGPRoute]"

lemma standalone_commands_safe_witness:
  "list_all safe_command (ds_log (snd (Standalone_BGPRoute sample_exec any_node ''example.org'' NewDriver_standalone)))"
proof -
  have "lookup_ok (xe_dns sample_exec)"
    using example_lookup_ok by (simp add: sample_exec_def)
  moreover have "\<forall>cmd \<in> set (ds_log NewDriver_standalone). safe_command cmd" by (simp add: NewDriver_standalone_def)
  ultimately show ?thesis unfolding list_all_iff using standalone_commands_safe by blast
qed

lemma sample_lookups:
  "ds_log (snd (Standalone_BGPRoute sample_exec any_node ''example.org'' NewDriver_standalone)) =
     [(''birdc'', [''show'', ''route'', ''for'', ''93.184.216.34'']), (''vtysh'', [''-c'', ''show ip bgp 93.184.216.34''])]"
  by code_simp

text \<open>When ping does not start, a streamed query ends as if nothing had been sent or lost, an unstreamed one
  as if everything had been.\<close>

lemma missing_binary_streams_success:
  "map_prod id fst (Standalone_Ping bare_exec True any_node ''example.org'' 5 NewDriver_standalone) =
     ([], Inr (empty_ping []))"
  "fst (snd (Standalone_Ping bare_exec False any_node ''example.org'' 5 NewDriver_standalone)) =
     Inr ((empty_ping [])\<lparr>pg_packets_sent := 5, pg_packet_loss := float_hundred\<rparr>)"
  by code_simp+

end
