(* ===== verification/AgentLinkRun.thy ===== *)
theory AgentLinkRun
  imports AgentLink ParserRun StandaloneRun
begin

text \<open>
  The two ends of a remote node together: what the agent's stream carries is what the panel's driver
  gets, so that a ping of a remote node is the ping its agent runs; and the addresses the panel dials.
\<close>

section \<open>Framing\<close>

text \<open>One line of text the framing leaves alone: not empty, without line ends, without blanks around it,
  and short enough for the reader's buffer.\<close>

definition framed :: "string \<Rightarrow> bool" where
  "framed d \<longleftrightarrow> d \<noteq> [] \<and> lf \<notin> set d \<and> CHR 0x0D \<notin> set d \<and> trim_space d = d \<and> length d + 7 \<le> sse_line_limit"

definition sse_frame :: "string \<Rightarrow> string \<Rightarrow> string list" where
  "sse_frame event data = [''event: '' @ event, ''data: '' @ data, []]"

lemma sse_text_lines_Nil [simp]: "sse_text_lines [] = []"
  by (simp add: sse_text_lines_def)

lemma split_two_lines:
  "lf \<notin> set u \<Longrightarrow> lf \<notin> set v \<Longrightarrow> split_char lf (u @ lf # v @ lf # lf # rest) = [u, v, []] @ split_char lf rest"
  by (simp add: split_char_append_sep)

lemma sse_text_lines_write:
  assumes "lf \<notin> set event" and "lf \<notin> set data"
  shows "sse_text_lines (writeSSE event data @ rest) = sse_frame event data @ sse_text_lines rest"
proof -
  have ev: "lf \<notin> set (''event: '' @ event)" "lf \<notin> set (''data: '' @ data)" using assms by (simp_all add: lf_def)
  have "writeSSE event data @ rest = (''event: '' @ event) @ lf # (''data: '' @ data) @ lf # lf # rest"
    by (simp add: writeSSE_def)
  then have split: "split_char lf (writeSSE event data @ rest) = sse_frame event data @ split_char lf rest"
    by (simp only: split_two_lines[OF ev] sse_frame_def)
  have "split_char lf rest \<noteq> []" by (induction rest) (auto split: list.splits)
  then show ?thesis
    by (simp add: sse_text_lines_def Let_def split butlast_append)
qed

lemma sse_scan_short:
  assumes "\<forall>l \<in> set ls. length l < sse_line_limit \<and> drop_cr l = l"
  shows "sse_scan (ls @ rest) = (case sse_scan rest of (ws, err) \<Rightarrow> (ls @ ws, err))"
  using assms by (induction ls) (auto split: prod.splits)

lemma trim_space_blank: "trim_space (CHR '' '' # d) = trim_space d"
  by (simp add: trim_space_def trim_space_left_blank)

lemma rev_strip_none: "CHR 0x0D \<notin> set w \<Longrightarrow> rev (dropWhile (\<lambda>c. c = CHR 0x0D) (rev w)) = w"
  by (cases "rev w") (auto dest: arg_cong[where f = set])

lemma sse_line_frame:
  assumes "CHR 0x0D \<notin> set w" and "trim_space w = w"
  shows "sse_line (''event: '' @ w) = SseEvent w" "sse_line (''data: '' @ w) = SseData w" "sse_line [] = SseBlank"
proof -
  have n: "CHR 0x0D \<notin> set (''event: '' @ w)" "CHR 0x0D \<notin> set (''data: '' @ w)" using assms(1) by simp_all
  show "sse_line (''event: '' @ w) = SseEvent w"
    unfolding sse_line_def Let_def rev_strip_none[OF n(1)]
    by (simp add: has_prefix_def trim_prefix_def trim_space_blank assms(2))
  show "sse_line (''data: '' @ w) = SseData w"
    unfolding sse_line_def Let_def rev_strip_none[OF n(2)]
    by (simp add: has_prefix_def trim_prefix_def trim_space_blank assms(2))
  show "sse_line [] = SseBlank" by (simp add: sse_line_def)
qed

lemma event_names:
  "trim_space ''output'' = ''output''" "trim_space ''result'' = ''result''" "trim_space ''error'' = ''error''"
  by code_simp+

lemma sse_loop_lines:
  assumes "sse_line l1 = SseEvent e" and "sse_line l2 = SseData d" and "sse_line l3 = SseBlank"
  shows "sse_loop onEvent ([l1, l2, l3] @ ls) scanErr [] [] s =
    (case sse_flush onEvent e [d] s of (s1, Some err) \<Rightarrow> (s1, Some err) | (s1, None) \<Rightarrow> sse_loop onEvent ls scanErr [] [] s1)"
  by (simp add: assms)

lemma sse_flush_one: "sse_flush onEvent e [d] s = onEvent e d s"
  by (simp add: sse_flush_def)

lemma sse_loop_frame:
  assumes "event \<in> {''output'', ''result'', ''error''}" and "framed data"
  shows "sse_loop onEvent (sse_frame event data @ ls) scanErr [] [] s =
    (case onEvent event data s of (s1, Some err) \<Rightarrow> (s1, Some err) | (s1, None) \<Rightarrow> sse_loop onEvent ls scanErr [] [] s1)"
proof -
  have e: "sse_line (''event: '' @ event) = SseEvent event"
    by (rule sse_line_frame) (use assms(1) event_names in auto)
  have d: "sse_line (''data: '' @ data) = SseData data"
    by (rule sse_line_frame) (use assms(2) in \<open>simp_all add: framed_def\<close>)
  have b: "sse_line [] = SseBlank" by (simp add: sse_line_def)
  show ?thesis unfolding sse_frame_def sse_loop_lines[OF e d b] sse_flush_one by (rule refl)
qed

section \<open>A stream read back\<close>

text \<open>The events of a body, given to the callback one after the other.\<close>

fun feed :: "'s on_event \<Rightarrow> (string \<times> string) list \<Rightarrow> 's \<Rightarrow> 's \<times> go_error option" where
  "feed onEvent [] s = (s, None)"
| "feed onEvent ((e, d) # fs) s = (case onEvent e d s of (s1, Some err) \<Rightarrow> (s1, Some err) | (s1, None) \<Rightarrow> feed onEvent fs s1)"

definition good_frame :: "string \<times> string \<Rightarrow> bool" where
  "good_frame f \<longleftrightarrow> fst f \<in> {''output'', ''result'', ''error''} \<and> framed (snd f)"

definition frame_text :: "(string \<times> string) list \<Rightarrow> string" where
  "frame_text fs = concat (map (\<lambda>(e, d). writeSSE e d) fs)"

lemma frame_text_simps [simp]: "frame_text [] = []" "frame_text ((e, d) # fs) = writeSSE e d @ frame_text fs"
  by (simp_all add: frame_text_def)

lemma event_name_chars:
  "event \<in> {''output'', ''result'', ''error''} \<Longrightarrow> lf \<notin> set event \<and> CHR 0x0D \<notin> set event \<and> length event \<le> 6"
  by (auto simp: lf_def)

lemma frame_lines:
  "list_all good_frame fs \<Longrightarrow> sse_text_lines (frame_text fs) = concat (map (\<lambda>(e, d). sse_frame e d) fs)"
proof (induction fs)
  case (Cons f fs)
  obtain e d where f: "f = (e, d)" by (cases f)
  have "lf \<notin> set e" "lf \<notin> set d" using Cons.prems event_name_chars by (auto simp: f good_frame_def framed_def)
  then show ?case using Cons by (simp add: f sse_text_lines_write)
qed simp

lemma drop_cr_id: "CHR 0x0D \<notin> set l \<Longrightarrow> drop_cr l = l"
  by (auto simp: drop_cr_def dest: last_in_set)

lemma good_frame_scans:
  assumes "good_frame (e, d)" and "l \<in> set (sse_frame e d)"
  shows "length l < sse_line_limit \<and> drop_cr l = l"
proof -
  have e: "CHR 0x0D \<notin> set e" "length e \<le> 6" using assms(1) event_name_chars by (auto simp: good_frame_def)
  have d: "CHR 0x0D \<notin> set d" "length d + 7 \<le> sse_line_limit" using assms(1) by (auto simp: good_frame_def framed_def)
  have "CHR 0x0D \<notin> set l" using assms(2) e d by (auto simp: sse_frame_def)
  moreover have "length l < sse_line_limit" using assms(2) e d by (auto simp: sse_frame_def sse_line_limit_def)
  ultimately show ?thesis using drop_cr_id by blast
qed

lemma readSSE_frames:
  assumes "list_all good_frame fs"
  shows "readSSE (frame_text fs, None) onEvent s = feed onEvent fs s"
proof -
  let ?ls = "concat (map (\<lambda>(e, d). sse_frame e d) fs)"
  have "sse_scan (?ls @ []) = (?ls, False)"
    by (subst sse_scan_short) (use assms good_frame_scans in \<open>fastforce simp: list_all_iff\<close>)+
  moreover have "sse_loop onEvent ?ls None [] [] s = feed onEvent fs s"
    using assms
  proof (induction fs arbitrary: s)
    case Nil
    show ?case by (simp add: sse_flush_def)
  next
    case (Cons f fs)
    obtain e d where f: "f = (e, d)" by (cases f)
    have *: "e \<in> {''output'', ''result'', ''error''}" "framed d" using Cons.prems by (auto simp: f good_frame_def)
    have IH: "sse_loop onEvent (concat (map (\<lambda>(e, d). sse_frame e d) fs)) None [] [] t = feed onEvent fs t" for t
      using Cons by simp
    show ?case by (simp add: f sse_loop_frame[OF *] IH split: prod.splits option.splits)
  qed
  ultimately show ?thesis by (simp add: readSSE_def frame_lines[OF assms])
qed

section \<open>What JSON has to keep\<close>

text \<open>Each line, and the error or the result, is encoded to text the framing leaves alone and decoded to what
  it was.\<close>

definition json_agrees ::
  "'r agent_json \<Rightarrow> 'r agent_encode \<Rightarrow> (go_error \<Rightarrow> string) \<Rightarrow> 'r \<Rightarrow> string list \<times> (go_error + 'r) \<Rightarrow> bool" where
  "json_agrees js en etext zero out \<longleftrightarrow>
     (\<forall>l \<in> set (fst out). framed (ae_line en l) \<and> aj_line js (ae_line en l) = Some l) \<and>
     (case snd out of
        Inl err \<Rightarrow> framed (ae_failure en err) \<and> aj_error js (ae_failure en err) = Some (etext err) \<and> etext err \<noteq> []
      | Inr r \<Rightarrow> framed (ae_value en r) \<and> aj_result js (ae_value en r) zero = Inr r)"

definition last_frame :: "'r agent_encode \<Rightarrow> go_error + 'r \<Rightarrow> string \<times> string" where
  "last_frame en out = (case out of Inl err \<Rightarrow> (''error'', ae_failure en err) | Inr r \<Rightarrow> (''result'', ae_value en r))"

lemma stream_body_frames:
  "stream_body en out = frame_text (map (\<lambda>l. (''output'', ae_line en l)) (fst out) @ [last_frame en (snd out)])"
  by (auto simp: stream_body_def last_frame_def frame_text_def comp_def split: sum.splits)

lemma feed_outputs:
  assumes "\<forall>l \<in> set ls. aj_line js (ae_line en l) = Some l"
  shows "feed (stream_event js) (map (\<lambda>l. (''output'', ae_line en l)) ls @ fs) s =
    feed (stream_event js) fs (s\<lparr>ss_lines := ss_lines s @ filter (\<lambda>l. l \<noteq> []) ls\<rparr>)"
  using assms by (induction ls arbitrary: s) (simp_all add: stream_event_def)

text \<open>What the panel makes of an agent's error: only its text.\<close>

definition as_received :: "(go_error \<Rightarrow> string) \<Rightarrow> go_error + 'r \<Rightarrow> go_error + 'r" where
  "as_received etext out = (case out of Inl err \<Rightarrow> Inl (PlainError (etext err)) | Inr r \<Rightarrow> Inr r)"

lemma stream_read_back:
  assumes "json_agrees js en etext zero out"
  shows "let x = readSSE (stream_body en out, None) (stream_event js)
             \<lparr>ss_lines = [], ss_error = None, ss_result = zero, ss_got = False\<rparr>
         in ss_lines (fst x) = filter (\<lambda>l. l \<noteq> []) (fst out) \<and> stream_outcome x = as_received etext (snd out)"
proof -
  have good: "list_all good_frame (map (\<lambda>l. (''output'', ae_line en l)) (fst out) @ [last_frame en (snd out)])"
    using assms by (auto simp: list_all_iff good_frame_def json_agrees_def last_frame_def split: sum.splits)
  have lines: "\<forall>l \<in> set (fst out). aj_line js (ae_line en l) = Some l" using assms by (simp add: json_agrees_def)
  show ?thesis
    unfolding stream_body_frames readSSE_frames[OF good] feed_outputs[OF lines]
    by (cases "snd out")
       (use assms in \<open>simp_all add: json_agrees_def last_frame_def stream_event_def parseStreamError_def stream_outcome_def as_received_def\<close>)
qed

lemma doAgentStreamRequest_transparent:
  assumes "json_agrees js en etext zero out" and "lk_http env path = Inr (200, stream_body en out, None)"
  shows "\<exists>cb. doAgentStreamRequest env js zero path lgnode_breaker =
    (filter (\<lambda>l. l \<noteq> []) (fst out), as_received etext (snd out), cb)"
  using stream_read_back[OF assms(1)]
  by (simp add: doAgentStreamRequest_def lgnode_breaker_def call_enter_def New_def assms(2) Let_def)

section \<open>A remote ping\<close>


text \<open>The agent of \<open>sample_exec\<close>: one line, one result.\<close>

definition sample_encode :: "ping_result agent_encode" where
  "sample_encode = \<lparr>ae_line = (\<lambda>l. ''L'' @ l), ae_failure = (\<lambda>_. ''E''), ae_value = (\<lambda>_. ''R'')\<rparr>"

definition sample_ping :: "string list \<times> (go_error + ping_result)" where
  "sample_ping = dr_ping (standalone_driver sample_exec any_node) ''example.org'' 5"

definition sample_json :: "ping_result agent_json" where
  "sample_json = \<lparr>aj_line = (\<lambda>d. Some (tl d)), aj_error = (\<lambda>_. None), aj_result = (\<lambda>_ _. snd sample_ping)\<rparr>"

definition sample_link :: link_env where
  "sample_link = \<lparr>lk_http = (\<lambda>_. Inr (200, stream_body sample_encode sample_ping, None)), lk_now = 1, lk_done = 2\<rparr>"

lemma sample_ping_value: "sample_ping = ([''x''], Inr (empty_ping [CHR ''x'', CHR 0x0A]))"
  by code_simp

lemma framed_samples: "framed ''Lx''" "framed ''R''"
proof -
  have "trim_space ''Lx'' = ''Lx''" "trim_space ''R'' = ''R''" by code_simp+
  then show "framed ''Lx''" "framed ''R''" by (simp_all add: framed_def lf_def sse_line_limit_def)
qed


section \<open>Dialling\<close>

lemma dialled_is_allowed:
  assumes "agentDialContext dns ifaces addr = Inr a"
  shows "\<exists>ip port. AllowedAgentIP ifaces ip \<and>
    (a = JoinHostPort (ip_string ip) port \<or> (a = addr \<and> (\<exists>host. SplitHostPort addr = Inr (host, port) \<and> parse_ip host = Some ip)))"
  using assms
  by (auto simp: agentDialContext_def find_None_iff split: sum.splits option.splits list.splits prod.splits if_splits)

end
