(* ===== verification/AgentTools.thy ===== *)
theory AgentTools
  imports AgentLink StandaloneRun
begin

text \<open>
  The agent as a process of its own (\<open>internal/agent\<close>): the check of a target, the tools it starts and its
  HTTP handlers. \<open>lookup_host\<close> is \<open>net.LookupHost\<close>, which answers with texts; the processes are those of
  \<open>StandaloneDriver\<close>. Every tool answers with the commands it started. The raw text
  an error is answered with is left out of the replies.
\<close>

section \<open>Targets\<close>

definition shell_chars :: string where
  "shell_chars = '';|&`$(){}[]!><'' @ [CHR 0x0A, CHR 0x0D]"

definition isValidTarget :: "(string \<Rightarrow> go_error + string list) \<Rightarrow> string \<Rightarrow> bool" where
  "isValidTarget lookup_host tgt =
     (if list_ex (\<lambda>c. c \<in> set shell_chars) tgt \<or> length tgt > 253 then False
      else case parse_ip tgt of
        Some ip \<Rightarrow> \<not> IsBlockedIP ip
      | None \<Rightarrow>
          (case lookup_host tgt of
             Inl err \<Rightarrow> False
           | Inr addrs \<Rightarrow> addrs \<noteq> [] \<and>
               \<not> list_ex (\<lambda>addr. case parse_ip addr of Some ip \<Rightarrow> IsBlockedIP ip | None \<Rightarrow> False) addrs))"

section \<open>Tools\<close>

record agent_env = exec_env +
  ae_lookup_host :: "string \<Rightarrow> go_error + string list"

text \<open>\<open>CombinedOutput\<close>.\<close>

definition combined_output :: "'e exec_env_scheme \<Rightarrow> os_command \<Rightarrow> string \<times> go_error option" where
  "combined_output env cmd =
     (let p = xe_run env cmd
      in if pc_start p \<noteq> None then ([], pc_start p) else (pc_output p, pc_wait p))"

text \<open>An error with the raw text of the result beside it, empty for a nil result.\<close>

type_synonym 'r tool_answer = "(go_error \<times> string) + 'r"

definition invalid_target :: "string \<Rightarrow> go_error" where
  "invalid_target tgt = PlainError (''invalid target: '' @ tgt)"

definition runPing :: "agent_env \<Rightarrow> string \<Rightarrow> int \<Rightarrow> ping_result tool_answer \<times> os_command list" where
  "runPing env tgt cnt =
     (if \<not> isValidTarget (ae_lookup_host env) tgt then (Inl (invalid_target tgt, []), [])
      else let cmd = (''ping'', [''-c'', format_int cnt, ''-W'', ''2'', tgt]) in
        (case combined_output env cmd of
           (raw, Some err) \<Rightarrow>
             (if raw = [] then (Inl (err, raw), [cmd])
              else (Inr (failed_ping cnt (parsePingGeneric (xe_parse env) raw)), [cmd]))
         | (raw, None) \<Rightarrow> (Inr (parsePingGeneric (xe_parse env) raw), [cmd])))"

definition runTraceroute :: "agent_env \<Rightarrow> string \<Rightarrow> int \<Rightarrow> traceroute_result tool_answer \<times> os_command list" where
  "runTraceroute env tgt maxHops =
     (if \<not> isValidTarget (ae_lookup_host env) tgt then (Inl (invalid_target tgt, []), [])
      else let cmd = (''traceroute'', [''-m'', format_int maxHops, ''-w'', ''1'', tgt]) in
        (case combined_output env cmd of
           (raw, err) \<Rightarrow>
             (case err of
                Some e \<Rightarrow> if raw = [] then (Inl (e, raw), [cmd]) else (Inr (parseTracerouteGeneric (xe_parse env) raw), [cmd])
              | None \<Rightarrow> (Inr (parseTracerouteGeneric (xe_parse env) raw), [cmd]))))"

definition runBGPRoute :: "agent_env \<Rightarrow> string \<Rightarrow> (go_error + bgp_result) \<times> os_command list" where
  "runBGPRoute env pfx0 =
     (case NormalizeBGPLookup (xe_dns env) pfx0 of
        Inl err \<Rightarrow> (Inl err, [])
      | Inr pfx \<Rightarrow>
          (let bird = (''birdc'', [''show'', ''route'', ''for'', pfx]);
               vtysh = (''vtysh'', [''-c'', ''show ip bgp '' @ pfx]);
               routes = (\<lambda>vendor cmd. case combined_output env cmd of (raw, err) \<Rightarrow>
                  if err = None \<and> trim_space raw \<noteq> [] then Some (ParseBGPRoute (GetParser vendor) (xe_parse env) raw) else None)
           in case routes ''bird'' bird of
                Some result \<Rightarrow>
                  if length (br_routes result) > 0 then (Inr result, [bird])
                  else (case routes ''cisco'' vtysh of
                     Some r \<Rightarrow> (Inr r, [bird, vtysh])
                   | None \<Rightarrow> (Inr (bgp_result_of (''no BGP data for '' @ pfx) []), [bird, vtysh]))
              | None \<Rightarrow>
                  (case routes ''cisco'' vtysh of
                     Some r \<Rightarrow> (Inr r, [bird, vtysh])
                   | None \<Rightarrow> (Inr (bgp_result_of (''no BGP data for '' @ pfx) []), [bird, vtysh]))))"

section \<open>Handlers\<close>

text \<open>\<open>agentAuth\<close>: what is answered instead of the request.\<close>

definition agentAuth :: "string \<Rightarrow> string \<Rightarrow> (nat \<times> string) option" where
  "agentAuth token auth =
     (if auth = [] then Some (401, ''missing authorization header'')
      else if auth \<noteq> ''Bearer '' @ token then Some (401, ''invalid token'') else None)"

definition handlePing ::
  "agent_env \<Rightarrow> (go_error \<Rightarrow> string) \<Rightarrow> string + string \<times> int \<Rightarrow> ping_result reply \<times> os_command list" where
  "handlePing env text body =
     (case body of
        Inl msg \<Rightarrow> (Refused 400 msg, [])
      | Inr (tgt, cnt) \<Rightarrow>
          (case runPing env tgt (clamp_count cnt) of
             (Inl (err, raw), cmds) \<Rightarrow> (Refused 500 (text err), cmds)
           | (Inr r, cmds) \<Rightarrow> (Reply 200 r, cmds)))"

definition handleTraceroute ::
  "agent_env \<Rightarrow> (go_error \<Rightarrow> string) \<Rightarrow> string + string \<times> int \<Rightarrow> traceroute_result reply \<times> os_command list" where
  "handleTraceroute env text body =
     (case body of
        Inl msg \<Rightarrow> (Refused 400 msg, [])
      | Inr (tgt, hops) \<Rightarrow>
          (case runTraceroute env tgt (clamp_hops hops) of
             (Inl (err, raw), cmds) \<Rightarrow> (Refused 500 (text err), cmds)
           | (Inr r, cmds) \<Rightarrow> (Reply 200 r, cmds)))"

definition handleBGPRoute ::
  "agent_env \<Rightarrow> (go_error \<Rightarrow> string) \<Rightarrow> string + string \<Rightarrow> bgp_result reply \<times> os_command list" where
  "handleBGPRoute env text body =
     (case body of
        Inl msg \<Rightarrow> (Refused 400 msg, [])
      | Inr pfx \<Rightarrow>
          if contains_str pfx ''/'' \<and> parse_cidr pfx = None then (Refused 400 ''invalid prefix'', [])
          else if \<not> contains_str pfx ''/'' \<and> parse_ip pfx = None then (Refused 400 ''invalid IP address'', [])
          else (case runBGPRoute env pfx of
             (Inl err, cmds) \<Rightarrow> (Refused 500 (text err), cmds)
           | (Inr r, cmds) \<Rightarrow> (Reply 200 r, cmds)))"

definition handleCapabilities :: "string list reply" where
  "handleCapabilities = Reply 200 [''ping'', ''traceroute'', ''bgp_route'']"

definition handleHealth :: "string reply" where "handleHealth = Reply 200 ''agent''"

section \<open>What is started\<close>

text \<open>A target that spells an address is not blocked; a name had no blocked address when it was looked up; it
  holds none of the characters a shell acts on.\<close>

definition agent_command_ok :: "agent_env \<Rightarrow> os_command \<Rightarrow> bool" where
  "agent_command_ok env cmd \<longleftrightarrow>
     (\<exists>k tgt. (cmd = (''ping'', [''-c'', k, ''-W'', ''2'', tgt]) \<or> cmd = (''traceroute'', [''-m'', k, ''-w'', ''1'', tgt])) \<and>
        set tgt \<inter> set shell_chars = {} \<and>
        (case parse_ip tgt of
           Some ip \<Rightarrow> \<not> IsBlockedIP ip
         | None \<Rightarrow> \<exists>addrs. ae_lookup_host env tgt = Inr addrs \<and> addrs \<noteq> [] \<and>
             (\<forall>addr \<in> set addrs. \<forall>ip. parse_ip addr = Some ip \<longrightarrow> \<not> IsBlockedIP ip)))
     \<or> (\<exists>p. net_text p \<and> (cmd = (''birdc'', [''show'', ''route'', ''for'', p]) \<or> cmd = (''vtysh'', [''-c'', ''show ip bgp '' @ p])))"

lemma isValidTarget_ok:
  assumes "isValidTarget lookup tgt"
  shows "set tgt \<inter> set shell_chars = {} \<and>
    (case parse_ip tgt of
       Some ip \<Rightarrow> \<not> IsBlockedIP ip
     | None \<Rightarrow> \<exists>addrs. lookup tgt = Inr addrs \<and> addrs \<noteq> [] \<and>
         (\<forall>addr \<in> set addrs. \<forall>ip. parse_ip addr = Some ip \<longrightarrow> \<not> IsBlockedIP ip))"
  using assms
  by (auto simp: isValidTarget_def list_ex_iff split: if_splits option.splits sum.splits)

lemma ip_string_text: "length ip = 4 \<or> length ip = 16 \<Longrightarrow> net_text (ip_string ip)"
  using addr_char_ip_string addr_net_char by (auto simp: net_text_def)

lemma parse_cidr_address: "parse_cidr s = Some (ip, ipNet) \<Longrightarrow> length ip = 4 \<or> length ip = 16"
proof -
  assume "parse_cidr s = Some (ip, ipNet)"
  then obtain ad where "parse_addr (takeWhile (\<lambda>c. c \<noteq> CHR ''/'') s) = Some ad"
      "ip = (case ad of Addr4 q \<Rightarrow> v4_in_v6_prefix @ q | Addr6 b _ \<Rightarrow> b)"
    by (auto simp: parse_cidr_def Let_def split: if_splits option.splits)
  then show ?thesis by (cases ad) (simp_all add: parse_addr_length v4_in_v6_prefix_def)
qed

lemma NormalizeBGPLookup_text:
  assumes "NormalizeBGPLookup dns raw = Inr p" and "lookup_ok dns" shows "net_text p"
  using assms(1) parse_cidr_text parse_cidr_address ip_string_text resolved_text[OF _ assms(2)] parse_ip_length
  by (fastforce simp: NormalizeBGPLookup_def normalizeBGPLookupTarget_def Let_def split: if_splits option.splits prod.splits)


section \<open>A run\<close>

text \<open>\<open>net.LookupHost\<close> answers a literal address, also one with a zone, with its own text.\<close>

definition sample_agent :: agent_env where
  "sample_agent = \<lparr>xe_parse = ascii_env, xe_dns = example_lookup, xe_has = (\<lambda>_. True),
     xe_run = (\<lambda>_. \<lparr>pc_start = None, pc_output = ''x'', pc_lines = [''x''], pc_wait = None\<rparr>), xe_now = 1, xe_done = 2,
     ae_lookup_host = (\<lambda>h. if h = ''example.org'' then Inr [''93.184.216.34''] else if h = ''::1%lo'' then Inr [h] else Inl ErrDNSNotFound)\<rparr>"


section \<open>Otherwise than meant\<close>

text \<open>An address with a zone is no address to \<open>ParseIP\<close>, but is to the lookup, which answers with the text
  it got: the loopback and link-local addresses of IPv6 pass the check and are pinged.\<close>

lemma zoned_address_passes:
  "isValidTarget (ae_lookup_host sample_agent) ''::1%lo'' \<and> \<not> isValidTarget (ae_lookup_host sample_agent) ''::1''"
  "snd (handlePing sample_agent (\<lambda>_. []) (Inr (''::1%lo'', 3))) = [(''ping'', [''-c'', ''3'', ''-W'', ''2'', ''::1%lo''])]"
  by code_simp+

text \<open>The name itself is handed to the tool, which looks it up again: the addresses that were checked are not
  the ones that are pinged.\<close>

lemma name_is_looked_up_again:
  "snd (handleTraceroute sample_agent (\<lambda>_. []) (Inr (''example.org'', 0))) =
     [(''traceroute'', [''-m'', ''30'', ''-w'', ''1'', ''example.org''])]"
  by code_simp

end
