(* ===== verification/Accounts.thy ===== *)
theory Accounts
  imports AuthGuards Repos Http_Reply
begin

text \<open>
  The administrator's account: the table (\<open>internal/store/queries/user.sql.go\<close>,
  \<open>internal/store/repo/user_repo.go\<close>), how its password is first set (\<open>internal/store/migrate.go\<close>,
  \<open>cmd/lg/main.go\<close>), and the handlers of \<open>internal/server/handler/public.go\<close> for login, logout, session and
  account. bcrypt, the signing of tokens and \<open>mail.ParseAddress\<close> are arguments.
\<close>

section \<open>The table\<close>

record user_row =
  us_id :: int
  us_email :: string
  us_hash :: string
  us_created_at :: string
  us_last_login :: "string option"

text \<open>A table is the list of its rows in the order of their ids. \<open>ac_error k\<close>: whether the \<open>k\<close>th statement fails, and whether it has taken effect even so.\<close>

record account_env =
  ac_error :: "nat \<Rightarrow> (bool \<times> go_error) option"
  ac_timestamp :: string
  ac_now :: go_time
  ac_compare :: "string \<Rightarrow> string \<Rightarrow> bool"
  ac_hash :: "string \<Rightarrow> go_error + string"
  ac_random :: "go_error + string"
  ac_uuid :: string
  ac_sign :: "Claims \<Rightarrow> go_time \<Rightarrow> go_error + string"
  ac_address :: "string \<Rightarrow> bool"
  ac_text :: "go_error \<Rightarrow> string"
  ac_parse :: "string \<Rightarrow> string \<Rightarrow> go_time option"

record accounts =
  as_users :: "user_row list"
  as_statements :: nat

type_synonym 'a account_call = "accounts \<Rightarrow> (go_error + 'a) \<times> accounts"

definition account_statement :: "account_env \<Rightarrow> 'a account_call \<Rightarrow> 'a account_call" where
  "account_statement env f s =
     (let s1 = s\<lparr>as_statements := Suc (as_statements s)\<rparr> in
      case ac_error env (as_statements s) of
        None \<Rightarrow> f s1
      | Some (took_effect, err) \<Rightarrow> (Inl err, if took_effect then snd (f s1) else s1))"

definition GetUserByEmail :: "account_env \<Rightarrow> string \<Rightarrow> user_row option account_call" where
  "GetUserByEmail env email =
     account_statement env (\<lambda>s. (Inr (find (\<lambda>u. us_email u = email) (as_users s)), s))"

definition GetUserByID :: "account_env \<Rightarrow> int \<Rightarrow> user_row option account_call" where
  "GetUserByID env i = account_statement env (\<lambda>s. (Inr (find (\<lambda>u. us_id u = i) (as_users s)), s))"

definition UpdateLastLogin :: "account_env \<Rightarrow> int \<Rightarrow> unit account_call" where
  "UpdateLastLogin env i = account_statement env (\<lambda>s.
     (Inr (), s\<lparr>as_users := map (\<lambda>u. if us_id u = i then u\<lparr>us_last_login := Some (ac_timestamp env)\<rparr> else u) (as_users s)\<rparr>))"

text \<open>The column \<open>email\<close> is \<open>UNIQUE\<close>.\<close>

definition unique_failed :: go_error where
  "unique_failed = PlainError ''constraint failed: UNIQUE constraint failed: users.email (2067)''"

definition UpdateUser :: "account_env \<Rightarrow> int \<Rightarrow> string \<Rightarrow> string \<Rightarrow> unit account_call" where
  "UpdateUser env i email hash = account_statement env (\<lambda>s.
     if list_ex (\<lambda>u. us_id u = i) (as_users s) \<and> list_ex (\<lambda>u. us_id u \<noteq> i \<and> us_email u = email) (as_users s)
     then (Inl unique_failed, s)
     else (Inr (), s\<lparr>as_users := map (\<lambda>u. if us_id u = i then u\<lparr>us_email := email, us_hash := hash\<rparr> else u) (as_users s)\<rparr>))"

text \<open>\<open>UpdateCredentials\<close>: none stands for a nil user without an error.\<close>

definition UpdateCredentials :: "account_env \<Rightarrow> int \<Rightarrow> string \<Rightarrow> string \<Rightarrow> user_row option account_call" where
  "UpdateCredentials env i email hash s =
     (case UpdateUser env i email hash s of
        (Inl err, s1) \<Rightarrow> (Inl err, s1)
      | (Inr _, s1) \<Rightarrow> GetUserByID env i s1)"

section \<open>The first password\<close>

definition DefaultAdminEmail :: string where "DefaultAdminEmail = ''admin@hopstat.local''"

definition disabled_prefix :: string where "disabled_prefix = ''$2a$12$DISABLED''"

text \<open>The row the migrations leave.\<close>

definition seeded_accounts :: "string \<Rightarrow> accounts" where
  "seeded_accounts now =
     \<lparr>as_users = [\<lparr>us_id = 1, us_email = DefaultAdminEmail,
        us_hash = ''$2a$12$DISABLED.USE.LG_ADMIN_PASSWORD.ENV.TO.SET.INITIAL.PASSWORD'', us_created_at = now,
        us_last_login = None\<rparr>], as_statements = 0\<rparr>"

text \<open>SQLite's \<open>LIKE\<close> does not tell ASCII letters of either case apart.\<close>

definition like_disabled :: "string \<Rightarrow> bool" where
  "like_disabled hash = has_prefix (to_lower hash) (to_lower disabled_prefix)"

text \<open>The number of rows affected.\<close>

definition set_disabled :: "account_env \<Rightarrow> string \<Rightarrow> nat account_call" where
  "set_disabled env hash = account_statement env (\<lambda>s.
     (Inr (length (filter (\<lambda>u. like_disabled (us_hash u)) (as_users s))),
      s\<lparr>as_users := map (\<lambda>u. if like_disabled (us_hash u) then u\<lparr>us_hash := hash\<rparr> else u) (as_users s)\<rparr>))"

definition SeedAdminPassword :: "account_env \<Rightarrow> string \<Rightarrow> bool account_call" where
  "SeedAdminPassword env password s =
     (case ac_hash env password of
        Inl err \<Rightarrow> (Inl (WrapError ''hash admin password: '' err), s)
      | Inr hash \<Rightarrow>
          (case set_disabled env hash s of
             (Inl err, s1) \<Rightarrow> (Inl (WrapError ''seed admin password: '' err), s1)
           | (Inr k, s1) \<Rightarrow> (Inr (k \<noteq> 0), s1)))"

definition SetAdminPassword :: "account_env \<Rightarrow> string \<Rightarrow> unit account_call" where
  "SetAdminPassword env password s =
     (case ac_hash env password of
        Inl err \<Rightarrow> (Inl (WrapError ''hash admin password: '' err), s)
      | Inr hash \<Rightarrow>
          (case account_statement env (\<lambda>s. (Inr (length (filter (\<lambda>u. us_email u = DefaultAdminEmail) (as_users s))),
                s\<lparr>as_users := map (\<lambda>u. if us_email u = DefaultAdminEmail then u\<lparr>us_hash := hash\<rparr> else u) (as_users s)\<rparr>)) s of
             (Inl err, s1) \<Rightarrow> (Inl (WrapError ''set admin password: '' err), s1)
           | (Inr k, s1) \<Rightarrow> if k = 0 then (Inl (PlainError ''no admin user found''), s1) else (Inr (), s1)))"

definition ApplyAdminPassword :: "account_env \<Rightarrow> string \<Rightarrow> bool \<Rightarrow> bool account_call" where
  "ApplyAdminPassword env password force s =
     (if force then
        (case SetAdminPassword env password s of (Inl err, s1) \<Rightarrow> (Inl err, s1) | (Inr _, s1) \<Rightarrow> (Inr True, s1))
      else SeedAdminPassword env password s)"

text \<open>Email, password and whether it was generated; the password is 18 random bytes in base 64, which
  \<open>ac_random\<close> stands for.\<close>

definition EnsureFirstAdmin :: "account_env \<Rightarrow> (string \<times> string \<times> bool) account_call" where
  "EnsureFirstAdmin env s =
     (case account_statement env (\<lambda>s. (Inr (as_users s), s)) s of
        (Inl err, s1) \<Rightarrow> (Inl (WrapError ''query admin user: '' err), s1)
      | (Inr [], s1) \<Rightarrow> (Inr ([], [], False), s1)
      | (Inr (u # us), s1) \<Rightarrow>
          if \<not> has_prefix (us_hash u) disabled_prefix then (Inr (us_email u, [], False), s1)
          else (case ac_random env of
             Inl err \<Rightarrow> (Inl (WrapError ''generate password: '' err), s1)
           | Inr password \<Rightarrow>
               (case ac_hash env password of
                  Inl err \<Rightarrow> (Inl (WrapError ''hash admin password: '' err), s1)
                | Inr hash \<Rightarrow>
                    (case set_disabled env hash s1 of
                       (Inl err, s2) \<Rightarrow> (Inl (WrapError ''update admin password: '' err), s2)
                     | (Inr k, s2) \<Rightarrow> (Inr (if k = 0 then (us_email u, [], False) else (us_email u, password, True)), s2)))))"

definition adminPasswordForce :: "bool \<Rightarrow> string \<Rightarrow> bool" where
  "adminPasswordForce configGenerated env_value =
     (configGenerated \<or> to_lower (trim_space env_value) \<in> {''1'', ''true'', ''yes''})"

text \<open>What \<open>hopstat bootstrap\<close> prints, the email and the password it set, or the error it ends with;
  \<open>pw\<close> is the environment variable.\<close>

definition bootstrap_admin ::
  "account_env \<Rightarrow> string \<Rightarrow> bool \<Rightarrow> string \<Rightarrow> (string \<times> string option) account_call" where
  "bootstrap_admin env pw configGenerated force s =
     (if pw \<noteq> [] then
        (case ApplyAdminPassword env pw (adminPasswordForce configGenerated force) s of
           (Inl err, s1) \<Rightarrow> (Inl (WrapError ''seed admin password: '' err), s1)
         | (Inr applied, s1) \<Rightarrow> (Inr (DefaultAdminEmail, if applied then Some pw else None), s1))
      else
        (case EnsureFirstAdmin env s of
           (Inl err, s1) \<Rightarrow> (Inl (WrapError ''ensure admin user: '' err), s1)
         | (Inr (email, password, generated), s1) \<Rightarrow>
             if generated then (Inr (email, Some password), s1)
             else if email \<noteq> [] then (Inr (email, None), s1)
             else (Inl (PlainError (''no admin user found '' @ [CHR 0xE2, CHR 0x80, CHR 0x94] @ '' run migrations first'')), s1)))"

text \<open>The start of the server: the credentials it shows, or the error that ends it. A failure to apply the
  environment's password is only logged.\<close>

definition serve_admin ::
  "account_env \<Rightarrow> string \<Rightarrow> bool \<Rightarrow> string \<Rightarrow> (string \<times> string) option account_call" where
  "serve_admin env pw configGenerated force s =
     (if pw \<noteq> [] then
        (case ApplyAdminPassword env pw (adminPasswordForce configGenerated force) s of
           (Inl err, s1) \<Rightarrow> (Inr None, s1)
         | (Inr applied, s1) \<Rightarrow> (Inr (if applied then Some (DefaultAdminEmail, pw) else None), s1))
      else
        (case EnsureFirstAdmin env s of
           (Inl err, s1) \<Rightarrow> (Inl err, s1)
         | (Inr (email, password, generated), s1) \<Rightarrow> (Inr (if generated then Some (email, password) else None), s1)))"

section \<open>Sessions\<close>

text \<open>The expiry of a token is a Unix time: whole seconds.\<close>

definition session_claims :: "account_env \<Rightarrow> int \<Rightarrow> string \<Rightarrow> Claims" where
  "session_claims env userID role =
     \<lparr>cl_user_id = userID, cl_role = role, cl_id = ac_uuid env,
      cl_expires_at = Some ((ac_now env + 24 * hour) div second * second)\<rparr>"

definition generateJWT :: "account_env \<Rightarrow> int \<Rightarrow> string \<Rightarrow> go_error + string" where
  "generateJWT env userID role =
     ac_sign env (session_claims env userID role) (ac_now env div second * second)"

datatype cookie_action = KeepCookie | SetAuthCookie string | ClearAuthCookie

text \<open>The reply holds the expiry it names; the last login is written by a goroutine of its own, whose user
  is the last component.\<close>

definition Login ::
  "account_env \<Rightarrow> string + string \<times> string \<Rightarrow> accounts \<Rightarrow> (go_time reply \<times> cookie_action \<times> int option) \<times> accounts" where
  "Login env body s =
     (case body of
        Inl msg \<Rightarrow> ((Refused 400 msg, KeepCookie, None), s)
      | Inr (email, password) \<Rightarrow>
          (case GetUserByEmail env email s of
             (Inr (Some u), s1) \<Rightarrow>
               (if \<not> ac_compare env (us_hash u) password then ((Refused 401 ''invalid credentials'', KeepCookie, None), s1)
                else (case generateJWT env (us_id u) ''admin'' of
                  Inl err \<Rightarrow> ((Refused 500 ''failed to generate token'', KeepCookie, Some (us_id u)), s1)
                | Inr token \<Rightarrow> ((Reply 200 (ac_now env + 24 * hour), SetAuthCookie token, Some (us_id u)), s1)))
           | (_, s1) \<Rightarrow> ((Refused 401 ''invalid credentials'', KeepCookie, None), s1)))"

text \<open>What \<open>Auth\<close> left in the context; no route of \<open>Logout\<close> goes through it.\<close>

definition Session :: "Claims \<Rightarrow> go_time option reply" where
  "Session claims = Reply 200 (cl_expires_at claims)"

definition Logout ::
  "jwt_verify \<Rightarrow> string list \<Rightarrow> go_time \<Rightarrow> Claims option \<Rightarrow> request_creds \<Rightarrow> JTIDenyList \<Rightarrow>
   (string reply \<times> cookie_action) \<times> JTIDenyList" where
  "Logout verify order now ctx c d =
     (let expiry = (\<lambda>claims. case cl_expires_at claims of None \<Rightarrow> now + 24 * hour | Some t \<Rightarrow> t);
          revoke = (\<lambda>claims. if cl_id claims \<noteq> [] then Revoke order now (cl_id claims) (expiry claims) d else d)
      in ((Reply 200 ''logged out'', ClearAuthCookie),
          (case ctx of
             Some claims \<Rightarrow> revoke claims
           | None \<Rightarrow>
               (let tokenStr = ExtractBearerToken c in
                if tokenStr = [] then d
                else (case verify now tokenStr of None \<Rightarrow> d | Some claims \<Rightarrow> revoke claims)))))"

section \<open>The account\<close>

record domain_user =
  du_id :: int
  du_email :: string
  du_password_hash :: string
  du_created_at :: go_time
  du_last_login :: "go_time option"

text \<open>\<open>parseTimePtr\<close>: a time that does not parse is nil.\<close>

definition parseTimePtr :: "account_env \<Rightarrow> string \<Rightarrow> go_time option" where
  "parseTimePtr env text =
     (let t = parse_layouts (ac_parse env) text time_layouts in if is_zero_time t then None else Some t)"

definition mapUser :: "account_env \<Rightarrow> user_row \<Rightarrow> domain_user" where
  "mapUser env u =
     \<lparr>du_id = us_id u, du_email = us_email u, du_password_hash = us_hash u,
      du_created_at = parse_layouts (ac_parse env) (us_created_at u) time_layouts,
      du_last_login = (case us_last_login u of None \<Rightarrow> None | Some text \<Rightarrow> parseTimePtr env text)\<rparr>"

definition answer_of :: "account_env \<Rightarrow> user_row \<Rightarrow> domain_user" where
  "answer_of env u = (mapUser env u)\<lparr>du_password_hash := []\<rparr>"

definition GetAccount :: "account_env \<Rightarrow> int option \<Rightarrow> accounts \<Rightarrow> domain_user reply \<times> accounts" where
  "GetAccount env userID s =
     (case userID of
        None \<Rightarrow> (Refused 401 ''unauthorized'', s)
      | Some i \<Rightarrow>
          (case GetUserByID env i s of
             (Inr (Some u), s1) \<Rightarrow> (Reply 200 (answer_of env u), s1)
           | (_, s1) \<Rightarrow> (Refused 404 ''user not found'', s1)))"

record account_request =
  ar_email :: string
  ar_current_password :: string
  ar_new_password :: string

text \<open>The tail of \<open>UpdateAccount\<close>, once the new email and hash are known.\<close>

definition store_account ::
  "account_env \<Rightarrow> user_row \<Rightarrow> string \<Rightarrow> string \<Rightarrow> accounts \<Rightarrow> domain_user reply \<times> accounts" where
  "store_account env u email hash s =
     (case UpdateCredentials env (us_id u) email hash s of
        (Inl err, s1) \<Rightarrow>
          (if contains_str (ac_text env err) ''UNIQUE constraint failed'' then (Refused 409 ''email already in use'', s1)
           else (internal_error err, s1))
      | (Inr None, s1) \<Rightarrow> (Crashed, s1)
      | (Inr (Some updated), s1) \<Rightarrow> (Reply 200 (answer_of env updated), s1))"

definition UpdateAccount ::
  "account_env \<Rightarrow> int option \<Rightarrow> string + account_request \<Rightarrow> accounts \<Rightarrow> domain_user reply \<times> accounts" where
  "UpdateAccount env userID body s =
     (case (userID, body) of
        (None, _) \<Rightarrow> (Refused 401 ''unauthorized'', s)
      | (Some i, Inl msg) \<Rightarrow> (Refused 400 msg, s)
      | (Some i, Inr req) \<Rightarrow>
          if \<not> ac_address env (ar_email req) then (Refused 400 ''invalid email format'', s)
          else (case GetUserByID env i s of
            (Inr (Some u), s1) \<Rightarrow>
              (if \<not> ac_compare env (us_hash u) (ar_current_password req) then (Refused 401 ''invalid current password'', s1)
               else
                 (let email = trim_space (ar_email req) in
                  case (if ar_new_password req = [] then Inr (us_hash u) else ac_hash env (ar_new_password req)) of
                    Inl err \<Rightarrow> (Refused 500 ''failed to hash password'', s1)
                  | Inr hash \<Rightarrow>
                      if email = us_email u \<and> hash = us_hash u then (Refused 400 ''no changes to save'', s1)
                      else if email = us_email u then store_account env u email hash s1
                      else (case GetUserByEmail env email s1 of
                        (Inl err, s2) \<Rightarrow> (internal_error err, s2)
                      | (Inr other, s2) \<Rightarrow>
                          (if (case other of None \<Rightarrow> False | Some o' \<Rightarrow> us_id o' \<noteq> i) then (Refused 409 ''email already in use'', s2)
                           else store_account env u email hash s2))))
          | (_, s1) \<Rightarrow> (Refused 404 ''user not found'', s1)))"

end
