(* ===== verification/AccountsRun.thy ===== *)
theory AccountsRun
  imports Accounts
begin

text \<open>
  What holds of the administrator's account however it is used: who can change it, that the credentials a
  start shows open it, and that a session ends with its logout.
\<close>

section \<open>Steps\<close>

definition placeholder :: string where
  "placeholder = ''$2a$12$DISABLED.USE.LG_ADMIN_PASSWORD.ENV.TO.SET.INITIAL.PASSWORD''"

text \<open>What the code relies on of bcrypt: a hash matches the password it was made of, the placeholder none.
  The salts of real hashes are random; that one spells the placeholder's first letters is left out.\<close>

definition bcrypt_ok :: "(string \<Rightarrow> string \<Rightarrow> bool) \<Rightarrow> account_env \<Rightarrow> bool" where
  "bcrypt_ok cmp env \<longleftrightarrow> ac_compare env = cmp \<and>
     (\<forall>pw h. ac_hash env pw = Inr h \<longrightarrow> cmp h pw \<and> \<not> like_disabled h) \<and> (\<forall>pw. \<not> cmp placeholder pw)"

inductive account_step :: "(string \<Rightarrow> string \<Rightarrow> bool) \<Rightarrow> accounts \<Rightarrow> accounts \<Rightarrow> bool" for cmp where
  step_login: "bcrypt_ok cmp env \<Longrightarrow> account_step cmp s (snd (Login env body s))"
| step_last_login: "account_step cmp s (snd (UpdateLastLogin env i s))"
| step_get: "account_step cmp s (snd (GetAccount env userID s))"
| step_update: "bcrypt_ok cmp env \<Longrightarrow> account_step cmp s (snd (UpdateAccount env userID body s))"
| step_serve: "bcrypt_ok cmp env \<Longrightarrow> account_step cmp s (snd (serve_admin env pw generated force s))"
| step_bootstrap: "bcrypt_ok cmp env \<Longrightarrow> account_step cmp s (snd (bootstrap_admin env pw generated force s))"

inductive account_reach :: "(string \<Rightarrow> string \<Rightarrow> bool) \<Rightarrow> accounts \<Rightarrow> bool" for cmp where
  reach_seeded: "account_reach cmp (seeded_accounts now)"
| reach_step: "account_reach cmp s \<Longrightarrow> account_step cmp s s' \<Longrightarrow> account_reach cmp s'"

section \<open>What a statement does\<close>

text \<open>A statement changes the table by what it does or not at all.\<close>

lemma account_statement_users:
  "as_users (snd (account_statement env f s)) = as_users s \<or>
   as_users (snd (account_statement env f s)) = as_users (snd (f (s\<lparr>as_statements := Suc (as_statements s)\<rparr>)))"
  by (auto simp: account_statement_def Let_def split: option.splits)

lemma read_users [simp]:
  "as_users (snd (GetUserByEmail env email s)) = as_users s" "as_users (snd (GetUserByID env i s)) = as_users s"
  by (auto simp: GetUserByEmail_def GetUserByID_def account_statement_def Let_def split: option.splits)

lemma read_users_eq:
  "GetUserByEmail env email s = (r, s') \<Longrightarrow> as_users s' = as_users s"
  "GetUserByID env i s = (r, s') \<Longrightarrow> as_users s' = as_users s"
  using read_users by (metis snd_conv)+

lemma read_found:
  "GetUserByEmail env email s = (Inr (Some u), s') \<Longrightarrow> u \<in> set (as_users s) \<and> us_email u = email"
  "GetUserByID env i s = (Inr (Some u), s') \<Longrightarrow> u \<in> set (as_users s) \<and> us_id u = i"
  by (auto simp: GetUserByEmail_def GetUserByID_def account_statement_def Let_def find_Some_iff split: option.splits)

definition credentials :: "accounts \<Rightarrow> (int \<times> string \<times> string) list" where
  "credentials s = map (\<lambda>u. (us_id u, us_email u, us_hash u)) (as_users s)"

lemma credentials_users: "as_users s' = as_users s \<Longrightarrow> credentials s' = credentials s"
  by (simp add: credentials_def)

lemma credentials_last_login: "credentials (snd (UpdateLastLogin env i s)) = credentials s"
  by (auto simp: credentials_def UpdateLastLogin_def account_statement_def Let_def split: option.splits)

lemma Login_users: "as_users (snd (Login env body s)) = as_users s"
  by (auto simp: Login_def split: sum.splits prod.splits option.splits dest: read_users_eq)

lemma GetAccount_users: "as_users (snd (GetAccount env userID s)) = as_users s"
  by (auto simp: GetAccount_def split: sum.splits prod.splits option.splits dest: read_users_eq)

lemma store_account_users:
  "as_users (snd (store_account env u email hash s)) = as_users (snd (UpdateUser env (us_id u) email hash s))"
proof -
  obtain r1 s1 where 1: "UpdateUser env (us_id u) email hash s = (r1, s1)" by fastforce
  obtain r2 s2 where 2: "GetUserByID env (us_id u) s1 = (r2, s2)" by fastforce
  have "as_users s2 = as_users s1" by (rule read_users_eq(2)[OF 2])
  then show ?thesis
    by (cases r1; cases r2) (simp_all add: store_account_def UpdateCredentials_def 1 2 split: option.split)
qed

text \<open>An update that changes anything goes through \<open>UpdateUser\<close> after the password was compared.\<close>

lemma UpdateAccount_users:
  "as_users (snd (UpdateAccount env userID body s)) = as_users s \<or>
   (\<exists>i req u email hash s1. userID = Some i \<and> body = Inr req \<and> u \<in> set (as_users s) \<and> us_id u = i \<and>
      ac_compare env (us_hash u) (ar_current_password req) \<and>
      (hash = us_hash u \<or> ac_hash env (ar_new_password req) = Inr hash) \<and> as_users s1 = as_users s \<and>
      as_users (snd (UpdateAccount env userID body s)) = as_users (snd (UpdateUser env i email hash s1)))"
proof (cases "as_users (snd (UpdateAccount env userID body s)) = as_users s")
  case changed: False
  then obtain i req where req: "userID = Some i" "body = Inr req" "ac_address env (ar_email req)"
    by (auto simp: UpdateAccount_def split: option.splits sum.splits if_splits)
  obtain r1 s1 where g: "GetUserByID env i s = (r1, s1)" by fastforce
  note s1 = read_users_eq(2)[OF g]
  obtain u where u: "r1 = Inr (Some u)" "ac_compare env (us_hash u) (ar_current_password req)"
    using changed s1 by (auto simp: UpdateAccount_def req g split: option.splits sum.splits if_splits)
  note found = read_found(2)[OF g[unfolded u(1)]]
  let ?new = "if ar_new_password req = [] then Inr (us_hash u) else ac_hash env (ar_new_password req)"
  let ?email = "trim_space (ar_email req)"
  obtain hash where h: "?new = Inr hash"
    using changed s1 by (cases ?new) (simp_all add: UpdateAccount_def req g u Let_def)
  obtain r2 s2 where e: "GetUserByEmail env ?email s1 = (r2, s2)" by fastforce
  have "\<exists>t. as_users t = as_users s \<and>
      as_users (snd (UpdateAccount env userID body s)) = as_users (snd (UpdateUser env (us_id u) ?email hash t))"
    using changed s1 read_users_eq(1)[OF e]
    by (auto simp: UpdateAccount_def req g u h e Let_def store_account_users split: sum.splits option.splits if_splits)
  moreover have "hash = us_hash u \<or> ac_hash env (ar_new_password req) = Inr hash" using h by (auto split: if_splits)
  ultimately show ?thesis using req(1,2) found u(2) by (metis (no_types))
qed simp

section \<open>One account\<close>

definition account_inv :: "accounts \<Rightarrow> bool" where
  "account_inv s \<longleftrightarrow> (\<exists>u. as_users s = [u] \<and>
     (like_disabled (us_hash u) \<longrightarrow> us_hash u = placeholder \<and> us_email u = DefaultAdminEmail))"

lemma account_inv_users: "as_users s' = as_users s \<Longrightarrow> account_inv s \<Longrightarrow> account_inv s'"
  by (simp add: account_inv_def)

lemma account_statement_inv:
  assumes "account_inv s" and "\<And>s1. as_users s1 = as_users s \<Longrightarrow> account_inv (snd (f s1))"
  shows "account_inv (snd (account_statement env f s))"
  using assms account_statement_users[of env f s] account_inv_users[OF _ assms(1)]
    account_inv_users[OF _ assms(2)[of "s\<lparr>as_statements := Suc (as_statements s)\<rparr>"]] by fastforce

lemma UpdateLastLogin_inv: "account_inv s \<Longrightarrow> account_inv (snd (UpdateLastLogin env i s))"
  unfolding UpdateLastLogin_def by (rule account_statement_inv) (auto simp: account_inv_def)

lemma set_disabled_inv: "account_inv s \<Longrightarrow> \<not> like_disabled hash \<Longrightarrow> account_inv (snd (set_disabled env hash s))"
  unfolding set_disabled_def by (rule account_statement_inv) (auto simp: account_inv_def)

lemma UpdateUser_inv:
  "account_inv s \<Longrightarrow> \<not> like_disabled hash \<Longrightarrow> account_inv (snd (UpdateUser env i email hash s))"
  unfolding UpdateUser_def by (rule account_statement_inv) (auto simp: account_inv_def)

lemma SeedAdminPassword_inv:
  "account_inv s \<Longrightarrow> bcrypt_ok cmp env \<Longrightarrow> account_inv (snd (SeedAdminPassword env pw s))"
  by (cases "ac_hash env pw"; cases "set_disabled env (projr (ac_hash env pw)) s")
     (use set_disabled_inv[of s "projr (ac_hash env pw)" env] in
       \<open>auto simp: SeedAdminPassword_def bcrypt_ok_def split: sum.splits\<close>)

lemma SetAdminPassword_inv:
  assumes "account_inv s" and "bcrypt_ok cmp env"
  shows "account_inv (snd (SetAdminPassword env pw s))"
proof (cases "ac_hash env pw")
  case (Inr hash)
  then have "\<not> like_disabled hash" using assms(2) by (auto simp: bcrypt_ok_def)
  let ?f = "\<lambda>s. (Inr (length (filter (\<lambda>u. us_email u = DefaultAdminEmail) (as_users s))) :: go_error + nat,
    s\<lparr>as_users := map (\<lambda>u. if us_email u = DefaultAdminEmail then u\<lparr>us_hash := hash\<rparr> else u) (as_users s)\<rparr>)"
  have "account_inv (snd (account_statement env ?f s))"
    by (rule account_statement_inv[OF assms(1)]) (use assms(1) \<open>\<not> like_disabled hash\<close> in \<open>auto simp: account_inv_def\<close>)
  then show ?thesis
    by (cases "account_statement env ?f s") (auto simp: SetAdminPassword_def Inr split: sum.splits)
qed (use assms(1) in \<open>simp add: SetAdminPassword_def\<close>)

lemma ApplyAdminPassword_inv:
  "account_inv s \<Longrightarrow> bcrypt_ok cmp env \<Longrightarrow> account_inv (snd (ApplyAdminPassword env pw force s))"
  using SetAdminPassword_inv[of s cmp env pw] SeedAdminPassword_inv[of s cmp env pw]
  by (auto simp: ApplyAdminPassword_def split: prod.splits sum.splits)

lemma EnsureFirstAdmin_inv:
  assumes "account_inv s" and "bcrypt_ok cmp env"
  shows "account_inv (snd (EnsureFirstAdmin env s))"
proof -
  obtain r1 s1 where 1: "account_statement env (\<lambda>s. (Inr (as_users s), s)) s = (r1, s1)" by fastforce
  have "account_inv (snd (account_statement env (\<lambda>s. (Inr (as_users s) :: go_error + user_row list, s)) s))"
    by (rule account_statement_inv[OF assms(1)]) (use assms(1) in \<open>simp add: account_inv_def\<close>)
  then have s1: "account_inv s1" by (simp add: 1)
  show ?thesis
  proof (cases "\<exists>password hash. ac_random env = Inr password \<and> ac_hash env password = Inr hash")
    case True
    then obtain password hash where h: "ac_random env = Inr password" "ac_hash env password = Inr hash" by blast
    then have "\<not> like_disabled hash" using assms(2) by (auto simp: bcrypt_ok_def)
    obtain r2 s2 where 2: "set_disabled env hash s1 = (r2, s2)" by fastforce
    have "account_inv s2" using set_disabled_inv[OF s1 \<open>\<not> like_disabled hash\<close>, of env] by (simp add: 2)
    then show ?thesis using s1 by (auto simp: EnsureFirstAdmin_def 1 2 h split: sum.splits list.splits)
  next
    case False
    then show ?thesis using s1 by (auto simp: EnsureFirstAdmin_def 1 split: sum.splits list.splits)
  qed
qed

lemma start_inv:
  assumes "account_inv s" and "bcrypt_ok cmp env"
  shows "account_inv (snd (serve_admin env pw generated force s))" "account_inv (snd (bootstrap_admin env pw generated force s))"
  using ApplyAdminPassword_inv[OF assms, of pw "adminPasswordForce generated force"] EnsureFirstAdmin_inv[OF assms]
  by (auto simp: serve_admin_def bootstrap_admin_def split: prod.splits sum.splits)

lemma UpdateAccount_inv:
  assumes "account_inv s" and "bcrypt_ok cmp env"
  shows "account_inv (snd (UpdateAccount env userID body s))"
  using UpdateAccount_users[of env userID body s]
proof
  assume "\<exists>i req u email hash s1. userID = Some i \<and> body = Inr req \<and> u \<in> set (as_users s) \<and> us_id u = i \<and>
      ac_compare env (us_hash u) (ar_current_password req) \<and>
      (hash = us_hash u \<or> ac_hash env (ar_new_password req) = Inr hash) \<and> as_users s1 = as_users s \<and>
      as_users (snd (UpdateAccount env userID body s)) = as_users (snd (UpdateUser env i email hash s1))"
  then obtain i u email hash s1 and req :: account_request where u: "u \<in> set (as_users s)" "ac_compare env (us_hash u) (ar_current_password req)"
      "hash = us_hash u \<or> ac_hash env (ar_new_password req) = Inr hash" and s1: "as_users s1 = as_users s"
      and users: "as_users (snd (UpdateAccount env userID body s)) = as_users (snd (UpdateUser env i email hash s1))"
    by blast
  have "\<not> like_disabled hash" using assms u by (auto simp: account_inv_def bcrypt_ok_def)
  then show ?thesis using UpdateUser_inv account_inv_users[OF s1 assms(1)] account_inv_users[OF users] by blast
qed (rule account_inv_users[OF _ assms(1)])

lemma account_step_inv: "account_step cmp s s' \<Longrightarrow> account_inv s \<Longrightarrow> account_inv s'"
  by (induction rule: account_step.induct)
     (simp_all add: UpdateLastLogin_inv UpdateAccount_inv start_inv account_inv_users[OF Login_users]
       account_inv_users[OF GetAccount_users])

lemma account_reach_inv: "account_reach cmp s \<Longrightarrow> account_inv s"
proof (induction rule: account_reach.induct)
  case (reach_seeded now)
  show ?case by (simp add: account_inv_def seeded_accounts_def placeholder_def)
qed (blast intro: account_step_inv)

section \<open>The credentials a start shows\<close>

lemma set_disabled_shows:
  assumes "set_disabled env hash s = (Inr k, s1)" and "k \<noteq> 0" and "as_users s = [u]"
  shows "like_disabled (us_hash u) \<and> as_users s1 = [u\<lparr>us_hash := hash\<rparr>]"
  using assms by (auto simp: set_disabled_def account_statement_def Let_def split: option.splits prod.splits if_splits)

lemma ApplyAdminPassword_shows:
  assumes "ApplyAdminPassword env pw force s = (Inr True, s1)" and "account_inv s" and "bcrypt_ok cmp env"
  shows "\<exists>u. as_users s1 = [u] \<and> us_email u = DefaultAdminEmail \<and> cmp (us_hash u) pw"
proof -
  obtain u where u: "as_users s = [u]" "like_disabled (us_hash u) \<Longrightarrow> us_email u = DefaultAdminEmail"
    using assms(2) by (auto simp: account_inv_def)
  obtain hash where hash: "ac_hash env pw = Inr hash"
    using assms(1) by (cases "ac_hash env pw") (auto simp: ApplyAdminPassword_def SetAdminPassword_def SeedAdminPassword_def split: if_splits)
  then have cmp: "cmp hash pw" using assms(3) by (simp add: bcrypt_ok_def)
  show ?thesis
  proof (cases force)
    case True
    then show ?thesis using assms(1) u(1) cmp
      by (auto simp: ApplyAdminPassword_def SetAdminPassword_def hash account_statement_def Let_def
          split: prod.splits sum.splits option.splits if_splits)
  next
    case False
    obtain k where "set_disabled env hash s = (Inr k, s1)" "k \<noteq> 0"
      using assms(1) False by (auto simp: ApplyAdminPassword_def SeedAdminPassword_def hash split: prod.splits sum.splits)
    then show ?thesis using set_disabled_shows[OF _ _ u(1)] u(2) cmp by fastforce
  qed
qed

lemma EnsureFirstAdmin_shows:
  assumes "EnsureFirstAdmin env s = (Inr (email, password, True), s1)" and "account_inv s" and "bcrypt_ok cmp env"
  shows "\<exists>u. as_users s1 = [u] \<and> us_email u = email \<and> cmp (us_hash u) password"
proof -
  obtain r t where t: "account_statement env (\<lambda>s. (Inr (as_users s), s)) s = (r, t)" by fastforce
  obtain u where u: "as_users s = [u]" using assms(2) by (auto simp: account_inv_def)
  have r: "r = Inr [u] \<or> (\<exists>err. r = Inl err)" "as_users t = [u]"
    using t u by (auto simp: account_statement_def Let_def split: option.splits prod.splits if_splits)
  then obtain hash k where h: "ac_random env = Inr password" "ac_hash env password = Inr hash"
      "set_disabled env hash t = (Inr k, s1)" "k \<noteq> 0" "email = us_email u"
    using assms(1) by (auto simp: EnsureFirstAdmin_def t split: sum.splits prod.splits if_splits)
  then show ?thesis using set_disabled_shows[OF h(3,4) r(2)] assms(3) by (auto simp: bcrypt_ok_def)
qed

lemma start_shows:
  assumes "serve_admin env pw generated force s = (Inr (Some (email, p)), s1) \<or>
      bootstrap_admin env pw generated force s = (Inr (email, Some p), s1)"
    and "account_inv s" and "bcrypt_ok cmp env"
  shows "\<exists>u. as_users s1 = [u] \<and> us_email u = email \<and> cmp (us_hash u) p"
proof -
  let ?f = "adminPasswordForce generated force"
  have "(ApplyAdminPassword env pw ?f s = (Inr True, s1) \<and> email = DefaultAdminEmail \<and> p = pw) \<or>
      EnsureFirstAdmin env s = (Inr (email, p, True), s1)"
    using assms(1) by (auto simp: serve_admin_def bootstrap_admin_def split: if_splits prod.splits sum.splits)
  then show ?thesis using ApplyAdminPassword_shows[OF _ assms(2,3)] EnsureFirstAdmin_shows[OF _ assms(2,3)] by blast
qed

text \<open>C23: Whatever happened to the account before, the email and the password that a start of the server or
  the bootstrap command shows open a session, if the login's statement and the signing do not fail.\<close>

theorem shown_credentials_work:
  assumes "account_reach cmp s" and "bcrypt_ok cmp env" and "bcrypt_ok cmp env'"
    and "serve_admin env pw generated force s = (Inr (Some (email, p)), s1) \<or>
      bootstrap_admin env pw generated force s = (Inr (email, Some p), s1)"
    and "ac_error env' (as_statements s1) = None" and "\<forall>claims iat. ac_sign env' claims iat = Inr (sign claims)"
  shows "\<exists>i. fst (Login env' (Inr (email, p)) s1) =
    (Reply 200 (ac_now env' + 24 * hour), SetAuthCookie (sign (session_claims env' i ''admin'')), Some i)"
proof -
  obtain u where "as_users s1 = [u]" "us_email u = email" "cmp (us_hash u) p"
    using start_shows[OF assms(4) account_reach_inv[OF assms(1)] assms(2)] by blast
  then show ?thesis
    using assms(3,5,6)
    by (auto simp: Login_def GetUserByEmail_def account_statement_def Let_def generateJWT_def bcrypt_ok_def)
qed

section \<open>Who changes the account\<close>

text \<open>Email and password hash change, by a request, only for one that names the current password of the
  account it is logged in to; logging in and reading change neither, even where statements fail.\<close>

theorem credentials_change_needs_password:
  "credentials (snd (Login env login s)) = credentials s \<and> credentials (snd (GetAccount env userID s)) = credentials s \<and>
   credentials (snd (UpdateLastLogin env i s)) = credentials s \<and>
   (credentials (snd (UpdateAccount env userID body s)) \<noteq> credentials s \<longrightarrow>
    (\<exists>u req. u \<in> set (as_users s) \<and> userID = Some (us_id u) \<and> body = Inr req \<and>
       ac_compare env (us_hash u) (ar_current_password req)))"
proof (intro conjI impI)
  assume "credentials (snd (UpdateAccount env userID body s)) \<noteq> credentials s"
  then have "as_users (snd (UpdateAccount env userID body s)) \<noteq> as_users s" using credentials_users by blast
  then show "\<exists>u req. u \<in> set (as_users s) \<and> userID = Some (us_id u) \<and> body = Inr req \<and>
      ac_compare env (us_hash u) (ar_current_password req)"
    using UpdateAccount_users[of env userID body s] by blast
qed (simp_all add: credentials_users[OF Login_users] credentials_users[OF GetAccount_users] credentials_last_login)

section \<open>A session and its end\<close>

text \<open>What the code relies on of the tokens: a signed one is not empty and is verified, until it expires, to
  the claims it was made of.\<close>

definition tokens_ok :: "account_env \<Rightarrow> jwt_verify \<Rightarrow> bool" where
  "tokens_ok env verify \<longleftrightarrow> (\<forall>claims iat token. ac_sign env claims iat = Inr token \<longrightarrow> token \<noteq> [] \<and>
     (\<forall>t. verify t token = (case cl_expires_at claims of
        None \<Rightarrow> Some claims | Some e \<Rightarrow> if t < e then Some claims else None)))"

lemma Login_token:
  assumes "Login env (Inr (email, password)) s = ((r, SetAuthCookie token, uid), s1)"
  shows "\<exists>u \<in> set (as_users s). us_email u = email \<and> ac_compare env (us_hash u) password \<and>
    ac_sign env (session_claims env (us_id u) ''admin'') (ac_now env div second * second) = Inr token"
  using assms
  by (auto simp: Login_def generateJWT_def split: prod.splits sum.splits option.splits if_splits dest!: read_found(1))


section \<open>A run\<close>

definition sample_account_env :: account_env where
  "sample_account_env =
     \<lparr>ac_error = (\<lambda>_. None), ac_timestamp = ''now'', ac_now = 10 * hour, ac_compare = (\<lambda>h pw. h = ''H'' @ pw),
      ac_hash = (\<lambda>pw. if length pw > 72 then Inl (PlainError ''bcrypt: password length exceeds 72 bytes'') else Inr (''H'' @ pw)),
      ac_random = Inr ''random'', ac_uuid = ''id'', ac_sign = (\<lambda>_ _. Inr ''token''), ac_address = (\<lambda>_. True), ac_text = (\<lambda>_. []),
      ac_parse = (\<lambda>_ _. None)\<rparr>"

definition sample_claims :: Claims where "sample_claims = session_claims sample_account_env 1 ''admin''"

text \<open>A signer that signs one session only, so that its verifier can be written down.\<close>

definition one_session_env :: account_env where
  "one_session_env = sample_account_env\<lparr>ac_sign := (\<lambda>claims _. if claims = sample_claims then Inr ''token'' else Inl ErrUnauthorized)\<rparr>"

definition one_session_verify :: jwt_verify where
  "one_session_verify t token = (if token = ''token'' \<and> t < 34 * hour then Some sample_claims else None)"

definition sample_accounts :: accounts where
  "sample_accounts = \<lparr>as_users = [\<lparr>us_id = 1, us_email = ''a@b.org'', us_hash = ''Hsecret'', us_created_at = ''now'',
     us_last_login = None\<rparr>], as_statements = 0\<rparr>"

definition change_request :: account_request where
  "change_request = \<lparr>ar_email = ''a@b.org'', ar_current_password = ''secret'', ar_new_password = ''better secret''\<rparr>"

lemma sample_bcrypt: "bcrypt_ok (\<lambda>h pw. h = ''H'' @ pw) sample_account_env"
proof -
  have lower: "to_lower disabled_prefix = ''$2a$12$disabled''" "to_lower_char (CHR ''H'') = CHR ''h''" by code_simp+
  have "\<not> like_disabled (''H'' @ pw)" for pw by (simp add: like_disabled_def lower to_lower_def[of "_ # _"] has_prefix_def)
  then show ?thesis by (simp add: bcrypt_ok_def sample_account_env_def placeholder_def)
qed

lemma shown_credentials_work_witness:
  "\<exists>i. fst (Login sample_account_env (Inr (DefaultAdminEmail, ''random''))
      (snd (serve_admin sample_account_env [] False [] (seeded_accounts ''now'')))) =
    (Reply 200 (34 * hour), SetAuthCookie ''token'', Some i)"
proof -
  have "serve_admin sample_account_env [] False [] (seeded_accounts ''now'') =
      (Inr (Some (DefaultAdminEmail, ''random'')), snd (serve_admin sample_account_env [] False [] (seeded_accounts ''now'')))"
    by code_simp
  then show ?thesis
    using shown_credentials_work[OF reach_seeded sample_bcrypt sample_bcrypt, of "[]" False "[]" "''now''" DefaultAdminEmail
        "''random''" "snd (serve_admin sample_account_env [] False [] (seeded_accounts ''now''))" "\<lambda>_. ''token''"]
    by (simp add: sample_account_env_def)
qed

lemma credentials_change_needs_password_witness:
  "\<exists>u req. u \<in> set (as_users sample_accounts) \<and> Some (1 :: int) = Some (us_id u) \<and>
     (Inr change_request :: string + account_request) = Inr req \<and>
     ac_compare sample_account_env (us_hash u) (ar_current_password req)"
proof -
  have "credentials (snd (UpdateAccount sample_account_env (Some 1) (Inr change_request) sample_accounts)) \<noteq>
      credentials sample_accounts"
    by code_simp
  then show ?thesis
    using credentials_change_needs_password[of sample_account_env "Inl []" sample_accounts "Some 1" 1 "Inr change_request"] by blast
qed


section \<open>Otherwise than meant\<close>

text \<open>Once the administrator has changed the email, a forced password from the environment is not set.\<close>

lemma forced_password_after_email_change:
  "serve_admin sample_account_env ''new password'' True [] sample_accounts = (Inr None, sample_accounts\<lparr>as_statements := 1\<rparr>)"
  "fst (bootstrap_admin sample_account_env ''new password'' False ''yes'' sample_accounts) =
     Inl (WrapError ''seed admin password: '' (PlainError ''no admin user found''))"
  by code_simp+

text \<open>A new password of more than 72 bytes passes the checks of the request and fails in bcrypt.\<close>

lemma long_password_fails:
  "fst (UpdateAccount sample_account_env (Some 1)
     (Inr (change_request\<lparr>ar_new_password := replicate 100 (CHR ''x'')\<rparr>)) sample_accounts) = Refused 500 ''failed to hash password''"
  by code_simp

text \<open>An address with a display name is stored as it is, and is then the only name to log in with.\<close>

lemma display_name_is_login:
  "map us_email (as_users (snd (UpdateAccount sample_account_env (Some 1)
     (Inr (change_request\<lparr>ar_email := ''Ann <a@b.org>''\<rparr>)) sample_accounts))) = [''Ann <a@b.org>'']"
  by code_simp

end
