(* ===== verification/GeoUpdater.thy ===== *)
theory GeoUpdater
  imports Geo_Settings
begin

text \<open>
  \<open>internal/geo/updater.go\<close> with the callbacks \<open>cmd/lg/main.go\<close> gives it: when the MaxMind files are fetched
  and how they are put in place. The files are a map from paths; what HTTP, gzip, tar and zip yield and how
  operations on files fail are the fields of an environment.
\<close>

section \<open>The environment\<close>

text \<open>A file: its content and the time of its last change.\<close>

type_synonym geo_files = "string \<rightharpoonup> string \<times> go_time"

text \<open>What reading an archive yields: entries, and an error that ends them. The body of an entry is the bytes
  that can be read and the error after them.\<close>

datatype tar_event = TarEntry string int "string \<times> go_error option" | TarError go_error

record zip_entry =
  ze_dir :: bool
  ze_name :: string
  ze_open :: "go_error + string \<times> go_error option"

text \<open>\<open>gn_write\<close>: what a copy to a file leaves in it, and its error; \<open>gn_create\<close>, \<open>gn_rename\<close>, \<open>gn_close\<close>
  and \<open>gn_remove\<close> name what fails. \<open>gn_check\<close> is the time when the age of a file is looked at, \<open>gn_mmdb_done\<close>
  and \<open>gn_csv_done\<close> the times when its parts were put in place.\<close>

record geo_env =
  gn_check :: go_time
  gn_mmdb_done :: go_time
  gn_csv_done :: go_time
  gn_settings_error :: bool
  gn_save_error :: bool
  gn_float :: "nat \<Rightarrow> nat \<Rightarrow> nat \<Rightarrow> nat"
  gn_parse :: "string \<Rightarrow> go_time option"
  gn_format :: "go_time \<Rightarrow> string"
  gn_escape :: "string \<Rightarrow> string"
  gn_http :: "string \<Rightarrow> go_error + nat \<times> string"
  gn_read_error :: "string \<Rightarrow> go_error option"
  gn_untar :: "string \<Rightarrow> go_error + tar_event list"
  gn_unzip :: "string \<Rightarrow> go_error + zip_entry list"
  gn_dir :: "string \<Rightarrow> string"
  gn_join :: "string \<Rightarrow> string \<Rightarrow> string"
  gn_create :: "string \<Rightarrow> go_error option"
  gn_write :: "string \<Rightarrow> string \<Rightarrow> string \<times> go_error option"
  gn_close :: "string \<Rightarrow> go_error option"
  gn_rename :: "string \<Rightarrow> string \<Rightarrow> go_error option"
  gn_remove :: "string \<Rightarrow> bool"
  gn_mtime :: go_time

record geo_disk =
  gd_files :: geo_files
  gd_settings :: settings

section \<open>When to download\<close>

definition current_settings :: "geo_env \<Rightarrow> geo_disk \<Rightarrow> settings option" where
  "current_settings env s = (if gn_settings_error env then None else Some (gd_settings s))"

definition resolveCredentials :: "geo_env \<Rightarrow> geo_disk \<Rightarrow> string \<times> string" where
  "resolveCredentials env s =
     (case current_settings env s of
        None \<Rightarrow> ([], [])
      | Some st \<Rightarrow>
          (let key = setting st SettingLicenseKey; account = setting st SettingAccountID
           in if key \<noteq> [] \<and> account \<noteq> [] then (key, account) else ([], [])))"

definition resolveInterval :: "geo_env \<Rightarrow> geo_disk \<Rightarrow> duration" where
  "resolveInterval env s =
     (let d = (case current_settings env s of None \<Rightarrow> 72 * hour | Some st \<Rightarrow> ResolveUpdateInterval (gn_float env) st)
      in if d > 0 then d else 72 * hour)"

definition lastDownloadAt :: "geo_env \<Rightarrow> string \<Rightarrow> string \<Rightarrow> geo_disk \<Rightarrow> go_time" where
  "lastDownloadAt env edition targetPath s =
     (case gd_files s targetPath of
        None \<Rightarrow> 0
      | Some (content, mtime) \<Rightarrow>
          (let t = (case current_settings env s of None \<Rightarrow> 0 | Some st \<Rightarrow> LastDownloadFromSettings (gn_parse env) st edition)
           in if \<not> is_zero_time t then t else mtime))"

definition editionSidecarsMissing :: "geo_env \<Rightarrow> string \<Rightarrow> string \<Rightarrow> geo_disk \<Rightarrow> bool" where
  "editionSidecarsMissing env edition dbDir s =
     (if edition = ''GeoLite2-ASN'' then list_ex (\<lambda>name. gd_files s (gn_join env dbDir name) = None) [asnBlocksIPv4Name, asnBlocksIPv6Name]
      else if edition = ''GeoLite2-City'' then gd_files s (gn_join env dbDir cityLocationsName) = None
      else False)"

definition needsImmediateDownload :: "geo_env \<Rightarrow> string \<Rightarrow> string \<Rightarrow> geo_disk \<Rightarrow> bool" where
  "needsImmediateDownload env edition targetPath s =
     (gd_files s targetPath = None \<or> editionSidecarsMissing env edition (gn_dir env targetPath) s)"

definition needsDownload :: "geo_env \<Rightarrow> string \<Rightarrow> string \<Rightarrow> geo_disk \<Rightarrow> bool" where
  "needsDownload env edition targetPath s =
     (if needsImmediateDownload env edition targetPath s then True
      else let last = lastDownloadAt env edition targetPath s in
        if is_zero_time last then True else \<not> gn_check env < last + resolveInterval env s)"

section \<open>Putting a file in place\<close>

definition geo_write :: "geo_env \<Rightarrow> string \<Rightarrow> string \<Rightarrow> geo_files \<Rightarrow> go_error option \<times> geo_files" where
  "geo_write env p content fs =
     (case gn_write env p content of (written, err) \<Rightarrow> (err, fs(p \<mapsto> (written, gn_mtime env))))"

definition geo_remove :: "geo_env \<Rightarrow> string \<Rightarrow> geo_files \<Rightarrow> geo_files" where
  "geo_remove env p fs = (if gn_remove env p then fs(p := None) else fs)"

definition geo_rename :: "geo_env \<Rightarrow> string \<Rightarrow> string \<Rightarrow> geo_files \<Rightarrow> go_error option \<times> geo_files" where
  "geo_rename env p q fs =
     (case gn_rename env p q of Some err \<Rightarrow> (Some err, fs) | None \<Rightarrow> (None, (fs(q := fs p))(p := None)))"

definition path_base :: "string \<Rightarrow> string" where
  "path_base path =
     (let t = rev (dropWhile (\<lambda>c. c = CHR ''/'') (rev path)) in
      if path = [] then ''.'' else if t = [] then ''/'' else rev (takeWhile (\<lambda>c. c \<noteq> CHR ''/'') (rev t)))"

definition maxMMDBSize :: int where "maxMMDBSize = 200 * 2 ^ 20"

text \<open>The first error of a copy: of reading, if writing got that far.\<close>

definition copy_error :: "go_error option \<Rightarrow> go_error option \<Rightarrow> go_error option" where
  "copy_error werr rerr = (case werr of Some e \<Rightarrow> Some e | None \<Rightarrow> rerr)"

definition limited :: "int \<Rightarrow> string \<times> go_error option \<Rightarrow> string \<times> go_error option" where
  "limited n body = (if n \<le> int (length (fst body)) then (take (nat n) (fst body), None) else body)"

text \<open>The text of the error of an entry that is too big is shortened.\<close>

fun extract_tar :: "geo_env \<Rightarrow> string \<Rightarrow> tar_event list \<Rightarrow> geo_files \<Rightarrow> go_error option \<times> geo_files" where
  "extract_tar env tmp [] fs = (Some (PlainError ''no .mmdb file found in archive''), fs)"
| "extract_tar env tmp (TarError err # es) fs = (Some (WrapError ''read tar: '' err), fs)"
| "extract_tar env tmp (TarEntry name sz body # es) fs =
     (if \<not> has_suffix (path_base name) ''.mmdb'' then extract_tar env tmp es fs
      else if sz > maxMMDBSize then (Some (PlainError (''mmdb entry over the limit'')), fs)
      else case gn_create env tmp of
        Some err \<Rightarrow> (Some (WrapError ''create temp file: '' err), fs)
      | None \<Rightarrow>
          (case limited maxMMDBSize body of (content, rerr) \<Rightarrow>
             (case geo_write env tmp content fs of (werr, fs1) \<Rightarrow>
                (case copy_error werr rerr of
                   Some err \<Rightarrow> (Some (WrapError ''write mmdb: '' err), fs1)
                 | None \<Rightarrow> (None, fs1)))))"

definition extractMMDBFile :: "geo_env \<Rightarrow> string \<Rightarrow> string \<Rightarrow> geo_files \<Rightarrow> go_error option \<times> geo_files" where
  "extractMMDBFile env body tmp fs =
     (case gn_untar env body of
        Inl err \<Rightarrow> (Some (WrapError ''gunzip: '' err), fs)
      | Inr es \<Rightarrow> extract_tar env tmp es fs)"

definition maxCSVSize :: int where "maxCSVSize = 100 * 2 ^ 20"

definition writeArchiveFile ::
  "geo_env \<Rightarrow> string \<times> go_error option \<Rightarrow> string \<Rightarrow> geo_files \<Rightarrow> go_error option \<times> geo_files" where
  "writeArchiveFile env body targetPath fs =
     (let tmp = targetPath @ ''.tmp'' in
      case gn_create env tmp of
        Some err \<Rightarrow> (Some (WrapError ''create csv temp: '' err), fs)
      | None \<Rightarrow>
          (case limited maxCSVSize body of (content, rerr) \<Rightarrow>
             (case geo_write env tmp content fs of (werr, fs1) \<Rightarrow>
                (case copy_error werr rerr of
                   Some err \<Rightarrow> (Some (WrapError ''write csv: '' err), geo_remove env tmp fs1)
                 | None \<Rightarrow>
                     (case gn_close env tmp of
                        Some err \<Rightarrow> (Some err, geo_remove env tmp fs1)
                      | None \<Rightarrow> geo_rename env tmp targetPath fs1)))))"

fun extract_zip ::
  "geo_env \<Rightarrow> string \<Rightarrow> string list \<Rightarrow> string list \<Rightarrow> zip_entry list \<Rightarrow> geo_files \<Rightarrow> (go_error + string list) \<times> geo_files" where
  "extract_zip env dbDir wanted found [] fs = (Inr found, fs)"
| "extract_zip env dbDir wanted found (f # zs) fs =
     (let base = path_base (ze_name f) in
      if ze_dir f \<or> base \<notin> set wanted then extract_zip env dbDir wanted found zs fs
      else case ze_open f of
        Inl err \<Rightarrow> (Inl (WrapError (''open csv '' @ base @ '': '') err), fs)
      | Inr body \<Rightarrow>
          (case writeArchiveFile env body (gn_join env dbDir base) fs of
             (Some err, fs1) \<Rightarrow> (Inl err, fs1)
           | (None, fs1) \<Rightarrow> extract_zip env dbDir wanted (base # found) zs fs1))"

text \<open>Which of several missing files is named depends on the order of a map; the error here names the first.\<close>

definition extractCSVFiles ::
  "geo_env \<Rightarrow> string \<Rightarrow> string \<Rightarrow> string list \<Rightarrow> geo_files \<Rightarrow> go_error option \<times> geo_files" where
  "extractCSVFiles env body dbDir wanted fs =
     (case gn_read_error env body of
        Some err \<Rightarrow> (Some (WrapError ''read csv archive: '' err), fs)
      | None \<Rightarrow>
          (case gn_unzip env body of
             Inl err \<Rightarrow> (Some (WrapError ''open csv zip: '' err), fs)
           | Inr zs \<Rightarrow>
               (case extract_zip env dbDir wanted [] zs fs of
                  (Inl err, fs1) \<Rightarrow> (Some err, fs1)
                | (Inr found, fs1) \<Rightarrow>
                    (case find (\<lambda>name. name \<notin> set found) wanted of
                       Some name \<Rightarrow> (Some (PlainError (''csv file '' @ name @ '' not found in archive'')), fs1)
                     | None \<Rightarrow> (None, fs1)))))"

section \<open>Downloads\<close>

definition download_url :: "geo_env \<Rightarrow> string \<Rightarrow> string \<Rightarrow> geo_disk \<Rightarrow> string" where
  "download_url env edition sfx s =
     (case resolveCredentials env s of (key, account) \<Rightarrow>
        ''https://download.maxmind.com/app/geoip_download?edition_id='' @ gn_escape env edition @ ''&license_key='' @
        gn_escape env key @ ''&account_id='' @ gn_escape env account @ ''&suffix='' @ sfx)"

text \<open>\<open>gn_http\<close> is the client with its redirect policy, which \<open>Target\<close> models. The body of an answer that is not 200 only goes into the text of the error, and is left out.\<close>

definition fetchMaxMind :: "geo_env \<Rightarrow> string \<Rightarrow> string \<Rightarrow> go_error + string" where
  "fetchMaxMind env dlURL edition =
     (case gn_http env dlURL of
        Inl err \<Rightarrow> Inl (WrapError ''download: '' err)
      | Inr (status, body) \<Rightarrow>
          if status \<noteq> 200 then Inl (PlainError (''download '' @ edition @ '': HTTP '' @ format_int (int status))) else Inr body)"

text \<open>\<open>onDownload\<close>: the time is stored in the settings.\<close>

definition onDownload :: "geo_env \<Rightarrow> string \<Rightarrow> go_time \<Rightarrow> geo_disk \<Rightarrow> geo_disk" where
  "onDownload env edition at s =
     (if gn_save_error env then s
      else s\<lparr>gd_settings := (gd_settings s)((if edition = ''GeoLite2-City'' then SettingCityLastDownload else SettingASNLastDownload)
             \<mapsto> gn_format env at)\<rparr>)"

definition downloadMMDBEdition :: "geo_env \<Rightarrow> string \<Rightarrow> string \<Rightarrow> geo_disk \<Rightarrow> go_error option \<times> geo_disk" where
  "downloadMMDBEdition env edition targetPath s =
     (case fetchMaxMind env (download_url env edition ''tar.gz'' s) edition of
        Inl err \<Rightarrow> (Some err, s)
      | Inr body \<Rightarrow>
          (let tmp = targetPath @ ''.tmp'' in
           case extractMMDBFile env body tmp (gd_files s) of
             (Some err, fs) \<Rightarrow> (Some (WrapError (''extract '' @ edition @ '': '') err), s\<lparr>gd_files := geo_remove env tmp fs\<rparr>)
           | (None, fs) \<Rightarrow>
               (case geo_rename env tmp targetPath fs of
                  (Some err, fs1) \<Rightarrow> (Some (WrapError ''rename to target: '' err), s\<lparr>gd_files := fs1\<rparr>)
                | (None, fs1) \<Rightarrow> (None, onDownload env edition (gn_mmdb_done env) (s\<lparr>gd_files := fs1\<rparr>)))))"

definition csvEditionSidecars :: "string \<Rightarrow> string \<times> string list" where
  "csvEditionSidecars edition =
     (if edition = ''GeoLite2-ASN'' then (''GeoLite2-ASN-CSV'', [asnBlocksIPv4Name, asnBlocksIPv6Name])
      else if edition = ''GeoLite2-City'' then (''GeoLite2-City-CSV'', [cityLocationsName])
      else ([], []))"

definition downloadCSVSidecars :: "geo_env \<Rightarrow> string \<Rightarrow> string \<Rightarrow> geo_disk \<Rightarrow> go_error option \<times> geo_disk" where
  "downloadCSVSidecars env edition dbDir s =
     (case csvEditionSidecars edition of (csvEdition, wanted) \<Rightarrow>
        if csvEdition = [] \<or> wanted = [] then (None, s)
        else (case fetchMaxMind env (download_url env csvEdition ''zip'' s) csvEdition of
          Inl err \<Rightarrow> (Some err, s)
        | Inr body \<Rightarrow>
            (case extractCSVFiles env body dbDir wanted (gd_files s) of
               (Some err, fs) \<Rightarrow> (Some (WrapError (''extract '' @ csvEdition @ '': '') err), s\<lparr>gd_files := fs\<rparr>)
             | (None, fs) \<Rightarrow> (None, onDownload env edition (gn_csv_done env) (s\<lparr>gd_files := fs\<rparr>)))))"

text \<open>The conditions are read once, before the downloads.\<close>

definition tryDownloadEdition :: "geo_env \<Rightarrow> string \<Rightarrow> string \<Rightarrow> geo_disk \<Rightarrow> bool \<times> geo_disk" where
  "tryDownloadEdition env edition targetPath s =
     (if \<not> needsDownload env edition targetPath s then (False, s)
      else
        (let dbDir = gn_dir env targetPath;
             mmdbMissing = (gd_files s targetPath = None);
             csvMissing = editionSidecarsMissing env edition dbDir s;
             scheduled = (\<not> needsImmediateDownload env edition targetPath s);
             (updated1, s1) = (if mmdbMissing \<or> scheduled
               then (case downloadMMDBEdition env edition targetPath s of (err, t) \<Rightarrow> (err = None, t)) else (False, s));
             (updated2, s2) = (if csvMissing \<or> scheduled \<or> mmdbMissing
               then (case downloadCSVSidecars env edition dbDir s1 of (err, t) \<Rightarrow> (err = None, t)) else (False, s1))
         in (updated1 \<or> updated2, s2)))"

text \<open>One cycle: whether the databases are to be read again. The two editions have times of their own.\<close>

definition updateAll :: "geo_env \<Rightarrow> geo_env \<Rightarrow> string \<Rightarrow> string \<Rightarrow> geo_disk \<Rightarrow> bool \<times> geo_disk" where
  "updateAll env envCity asnPath cityPath s =
     (case resolveCredentials env s of (key, account) \<Rightarrow>
        if key = [] \<or> account = [] then (False, s)
        else (case tryDownloadEdition env ''GeoLite2-ASN'' asnPath s of (r1, s1) \<Rightarrow>
                (case tryDownloadEdition envCity ''GeoLite2-City'' cityPath s1 of (r2, s2) \<Rightarrow> (r1 \<or> r2, s2))))"

text \<open>\<open>Run\<close>: a cycle at the start and one at every tick; the interval of the ticks is read once, at the start.\<close>

definition run_interval :: "geo_env \<Rightarrow> geo_disk \<Rightarrow> duration" where
  "run_interval env s = resolveInterval env s"

fun geo_run :: "(geo_env \<times> geo_env) list \<Rightarrow> string \<Rightarrow> string \<Rightarrow> geo_disk \<Rightarrow> geo_disk" where
  "geo_run [] asnPath cityPath s = s"
| "geo_run ((env, envCity) # cycles) asnPath cityPath s =
     geo_run cycles asnPath cityPath (snd (updateAll env envCity asnPath cityPath s))"

end
