(* ===== verification/GeoUpdaterRun.thy ===== *)
theory GeoUpdaterRun
  imports GeoUpdater
begin

text \<open>
  What the download loop does to the files: the databases are whole at every moment a cycle ends, nothing
  else is touched; and when the loop does not do what it is for.
\<close>

section \<open>What may change\<close>

definition same_off :: "string set \<Rightarrow> geo_files \<Rightarrow> geo_files \<Rightarrow> bool" where
  "same_off P fs fs' \<longleftrightarrow> (\<forall>p. p \<notin> P \<longrightarrow> fs' p = fs p)"

lemma same_off_refl [simp]: "same_off P fs fs"
  by (simp add: same_off_def)

lemma same_off_trans: "same_off P fs fs1 \<Longrightarrow> same_off Q fs1 fs2 \<Longrightarrow> P \<subseteq> R \<Longrightarrow> Q \<subseteq> R \<Longrightarrow> same_off R fs fs2"
  by (fastforce simp: same_off_def)

lemma same_off_steps:
  "geo_write env p c fs = (err, fs') \<Longrightarrow> same_off {p} fs fs'" "same_off {p} fs (geo_remove env p fs)"
  "geo_rename env p q fs = (err, fs') \<Longrightarrow> same_off {p, q} fs fs'"
  by (auto simp: same_off_def geo_write_def geo_remove_def geo_rename_def split: prod.splits option.splits if_splits)

section \<open>Databases\<close>

definition tar_entry_ok :: "tar_event \<Rightarrow> bool" where
  "tar_entry_ok x = (case x of
     TarError err \<Rightarrow> True
   | TarEntry name sz body \<Rightarrow> (if snd body = None then int (length (fst body)) = sz else int (length (fst body)) < sz))"

text \<open>What is relied on: a copy without an error wrote everything, and an entry of a tar file is as long as its
  header says or its reading ends in an error.\<close>

definition geo_env_ok :: "geo_env \<Rightarrow> bool" where
  "geo_env_ok env \<longleftrightarrow> (\<forall>p c w. gn_write env p c = (w, None) \<longrightarrow> w = c) \<and>
     (\<forall>body es. gn_untar env body = Inr es \<longrightarrow> list_all tar_entry_ok es) \<and>
     (\<forall>d n. gn_join env d n = d @ ''/'' @ n) \<and> (\<forall>d n. CHR ''/'' \<notin> set n \<longrightarrow> gn_dir env (d @ ''/'' @ n) = d)"

text \<open>The whole of an entry that is a database and within the limit, of an archive that was served.\<close>

definition whole_mmdb :: "geo_env \<Rightarrow> string \<Rightarrow> bool" where
  "whole_mmdb env c \<longleftrightarrow> int (length c) \<le> maxMMDBSize \<and>
     (\<exists>url body es name. gn_http env url = Inr (200, body) \<and> gn_untar env body = Inr es \<and>
        TarEntry name (int (length c)) (c, None) \<in> set es \<and> has_suffix (path_base name) ''.mmdb'')"

lemma limited_whole: "limited n (c, e) = (c', None) \<Longrightarrow> int (length c) \<le> n \<Longrightarrow> c' = c"
  by (auto simp: limited_def split: if_splits)

lemma extract_tar_same: "extract_tar env tmp es fs = (err, fs') \<Longrightarrow> same_off {tmp} fs fs'"
  by (induction env tmp es fs rule: extract_tar.induct)
     (auto split: if_splits option.splits prod.splits dest: same_off_steps(1))

lemma geo_write_whole:
  "geo_write env p c fs = (None, fs') \<Longrightarrow> geo_env_ok env \<Longrightarrow> fs' p = Some (c, gn_mtime env)"
  by (auto simp: geo_write_def geo_env_ok_def split: prod.splits)

lemma extract_tar_whole:
  assumes "extract_tar env tmp es fs = (None, fs')" and "geo_env_ok env"
    and "list_all tar_entry_ok es"
  shows "\<exists>name c. fs' tmp = Some (c, gn_mtime env) \<and> int (length c) \<le> maxMMDBSize \<and>
    TarEntry name (int (length c)) (c, None) \<in> set es \<and> has_suffix (path_base name) ''.mmdb''"
  using assms
proof (induction env tmp es fs rule: extract_tar.induct)
  case (3 env tmp name sz body es fs)
  show ?case
  proof (cases "has_suffix (path_base name) ''.mmdb''")
    case True
    obtain c e where body: "body = (c, e)" by (cases body)
    obtain c' r where lim: "limited maxMMDBSize (c, e) = (c', r)" by fastforce
    have small: "sz \<le> maxMMDBSize" using 3(2) True by (auto split: if_splits)
    have len: "if e = None then int (length c) = sz else int (length c) < sz" using 3(4) body by (auto simp: tar_entry_ok_def split: if_splits)
    have w: "r = None" "geo_write env tmp c' fs = (None, fs')"
      using 3(2) True small
      by (auto simp: body lim copy_error_def split: option.splits prod.splits if_splits)
    have "c' = c" using limited_whole[of maxMMDBSize c e c'] lim w(1) len small by (auto split: if_splits)
    moreover have "e = None"
      using lim w(1) len small by (cases e) (auto simp: limited_def split: if_splits)
    ultimately show ?thesis using geo_write_whole[OF w(2) 3(3)] len small True body by auto
  next
    case False
    then have "extract_tar env tmp es fs = (None, fs')" using 3(2) by simp
    from 3(1)[OF False this 3(3)] 3(4) show ?thesis by fastforce
  qed
qed auto

lemma extractMMDBFile_whole:
  assumes "extractMMDBFile env body tmp fs = (err, fs')" and "geo_env_ok env"
  shows "same_off {tmp} fs fs'" "err = None \<Longrightarrow> \<exists>name c es. fs' tmp = Some (c, gn_mtime env) \<and>
    int (length c) \<le> maxMMDBSize \<and> gn_untar env body = Inr es \<and> TarEntry name (int (length c)) (c, None) \<in> set es \<and>
    has_suffix (path_base name) ''.mmdb''"
proof -
  show "same_off {tmp} fs fs'" using assms(1) extract_tar_same by (auto simp: extractMMDBFile_def split: sum.splits)
  assume "err = None"
  then obtain es where es: "gn_untar env body = Inr es" "extract_tar env tmp es fs = (None, fs')"
    using assms(1) by (auto simp: extractMMDBFile_def split: sum.splits)
  have "list_all tar_entry_ok es" using assms(2) es(1) unfolding geo_env_ok_def by blast
  from extract_tar_whole[OF es(2) assms(2) this] es(1) show "\<exists>name c es. fs' tmp = Some (c, gn_mtime env) \<and>
    int (length c) \<le> maxMMDBSize \<and> gn_untar env body = Inr es \<and> TarEntry name (int (length c)) (c, None) \<in> set es \<and>
    has_suffix (path_base name) ''.mmdb''" by blast
qed

text \<open>A path after a step: as it was, or a whole database.\<close>

definition kept_or_whole :: "geo_env \<Rightarrow> string \<Rightarrow> geo_disk \<Rightarrow> geo_disk \<Rightarrow> bool" where
  "kept_or_whole env p s s' \<longleftrightarrow>
     gd_files s' p = gd_files s p \<or> (\<exists>c. gd_files s' p = Some (c, gn_mtime env) \<and> whole_mmdb env c)"

lemma onDownload_files [simp]: "gd_files (onDownload env edition t s) = gd_files s"
  by (simp add: onDownload_def)

lemma downloadMMDBEdition_effect:
  assumes "downloadMMDBEdition env edition target s = (err, s')" and "geo_env_ok env"
  shows "same_off {target, target @ ''.tmp''} (gd_files s) (gd_files s')" "kept_or_whole env target s s'"
proof -
  let ?tmp = "target @ ''.tmp''" and ?url = "download_url env edition ''tar.gz'' s"
  have "same_off {target, ?tmp} (gd_files s) (gd_files s') \<and> kept_or_whole env target s s'"
  proof (cases "fetchMaxMind env ?url edition")
    case (Inr body)
    then have served: "gn_http env ?url = Inr (200, body)"
      by (auto simp: fetchMaxMind_def split: sum.splits if_splits)
    obtain e fs where x: "extractMMDBFile env body ?tmp (gd_files s) = (e, fs)" by fastforce
    note same = extractMMDBFile_whole(1)[OF x assms(2)]
    show ?thesis
    proof (cases e)
      case (Some er)
      have "same_off {target, ?tmp} (gd_files s) (geo_remove env ?tmp fs)"
        by (rule same_off_trans[OF same same_off_steps(2)]) auto
      moreover have "geo_remove env ?tmp fs target = gd_files s target"
        using same by (auto simp: same_off_def geo_remove_def)
      ultimately show ?thesis
        using assms(1) by (auto simp: downloadMMDBEdition_def Inr x Some kept_or_whole_def)
    next
      case None
      obtain c where c: "fs ?tmp = Some (c, gn_mtime env)" "whole_mmdb env c"
        using extractMMDBFile_whole(2)[OF x assms(2) None] served unfolding whole_mmdb_def by blast
      obtain e2 fs2 where r: "geo_rename env ?tmp target fs = (e2, fs2)" by fastforce
      have "same_off {target, ?tmp} (gd_files s) fs2"
        by (rule same_off_trans[OF same same_off_steps(3)[OF r]]) auto
      moreover have "fs2 target = gd_files s target \<or> fs2 target = Some (c, gn_mtime env)"
        using r same c(1) by (auto simp: geo_rename_def same_off_def split: option.splits)
      ultimately show ?thesis
        using assms(1) c(2) by (auto simp: downloadMMDBEdition_def Inr x None r kept_or_whole_def split: option.splits)
    qed
  qed (use assms(1) in \<open>auto simp: downloadMMDBEdition_def kept_or_whole_def\<close>)
  then show "same_off {target, ?tmp} (gd_files s) (gd_files s')" "kept_or_whole env target s s'" by blast+
qed

section \<open>Sidecar files\<close>

definition with_tmp :: "string \<Rightarrow> string set" where "with_tmp p = {p, p @ ''.tmp''}"

lemma writeArchiveFile_same: "writeArchiveFile env body target fs = (err, fs') \<Longrightarrow> same_off (with_tmp target) fs fs'"
  by (auto simp: writeArchiveFile_def Let_def same_off_def with_tmp_def geo_write_def geo_remove_def geo_rename_def
      split: option.splits prod.splits if_splits)

definition csv_paths :: "geo_env \<Rightarrow> string \<Rightarrow> string list \<Rightarrow> string set" where
  "csv_paths env d wanted = (\<Union>name \<in> set wanted. with_tmp (gn_join env d name))"

lemma extract_zip_same: "extract_zip env d wanted found zs fs = (r, fs') \<Longrightarrow> same_off (csv_paths env d wanted) fs fs'"
proof (induction env d wanted found zs fs rule: extract_zip.induct)
  case (2 env d wanted found f zs fs)
  let ?base = "path_base (ze_name f)"
  show ?case
  proof (cases "ze_dir f \<or> ?base \<notin> set wanted")
    case True
    then show ?thesis using 2 by (simp add: Let_def)
  next
    case wanted: False
    show ?thesis
    proof (cases "ze_open f")
      case (Inr body)
      obtain err fs1 where w: "writeArchiveFile env body (gn_join env d ?base) fs = (err, fs1)" by fastforce
      have "with_tmp (gn_join env d ?base) \<subseteq> csv_paths env d wanted" using wanted by (auto simp: csv_paths_def)
      note step = same_off_trans[OF writeArchiveFile_same[OF w] _ this subset_refl]
      show ?thesis
      proof (cases err)
        case None
        then have "extract_zip env d wanted (?base # found) zs fs1 = (r, fs')"
          using 2(3) wanted Inr w by (simp add: Let_def)
        from 2(2)[OF refl wanted Inr _ None this] w show ?thesis using step by simp
      next
        case (Some e)
        then have "fs' = fs1" using 2(3) wanted Inr w by (auto simp: Let_def)
        then show ?thesis using step[of fs1] by simp
      qed
    qed (use 2(3) wanted in \<open>auto simp: Let_def\<close>)
  qed
qed simp

lemma extractCSVFiles_same: "extractCSVFiles env body d wanted fs = (err, fs') \<Longrightarrow> same_off (csv_paths env d wanted) fs fs'"
  by (auto simp: extractCSVFiles_def split: option.splits sum.splits prod.splits dest: extract_zip_same)

lemma downloadCSVSidecars_same:
  "downloadCSVSidecars env edition d s = (err, s') \<Longrightarrow>
     same_off (csv_paths env d (snd (csvEditionSidecars edition))) (gd_files s) (gd_files s')"
  by (auto simp: downloadCSVSidecars_def split: option.splits sum.splits prod.splits if_splits dest!: extractCSVFiles_same)

section \<open>A cycle\<close>

definition in_dir :: "string \<Rightarrow> string \<Rightarrow> string" where "in_dir d name = d @ ''/'' @ name"

lemma in_dir_eq [simp]: "in_dir d a = in_dir d b \<longleftrightarrow> a = b" "in_dir d a @ t = in_dir d (a @ t)"
  by (simp_all add: in_dir_def)

text \<open>The files of an edition, and their temporary files.\<close>

definition edition_paths :: "string \<Rightarrow> string \<Rightarrow> string \<Rightarrow> string set" where
  "edition_paths d edition file =
     with_tmp (in_dir d file) \<union> (\<Union>name \<in> set (snd (csvEditionSidecars edition)). with_tmp (in_dir d name))"

lemma tryDownloadEdition_effect:
  assumes "tryDownloadEdition env edition (in_dir d file) s = (r, s')" and "geo_env_ok env" and "CHR ''/'' \<notin> set file"
    and "\<forall>name \<in> set (snd (csvEditionSidecars edition)). file \<notin> {name, name @ ''.tmp''}"
  shows "same_off (edition_paths d edition file) (gd_files s) (gd_files s')" "kept_or_whole env (in_dir d file) s s'"
proof -
  let ?p = "in_dir d file" and ?P = "edition_paths d edition file"
  have dir: "gn_dir env ?p = d" using assms(2,3) by (simp add: geo_env_ok_def in_dir_def)
  have csv: "csv_paths env d (snd (csvEditionSidecars edition)) = (\<Union>name \<in> set (snd (csvEditionSidecars edition)). with_tmp (in_dir d name))"
    using assms(2) by (simp add: csv_paths_def geo_env_ok_def in_dir_def)
  have untouched: "?p \<notin> csv_paths env d (snd (csvEditionSidecars edition))"
    using assms(4) by (auto simp: csv with_tmp_def)
  have csv_step: "same_off ?P (gd_files t) (gd_files t') \<and> gd_files t' ?p = gd_files t ?p"
    if "downloadCSVSidecars env edition d t = (err, t')" for t t' err
    using downloadCSVSidecars_same[OF that] untouched unfolding csv edition_paths_def same_off_def by blast
  have mmdb_step: "same_off ?P (gd_files t) (gd_files t') \<and> kept_or_whole env ?p t t'"
    if "downloadMMDBEdition env edition ?p t = (err, t')" for t t' err
    using downloadMMDBEdition_effect[OF that assms(2)] unfolding edition_paths_def with_tmp_def same_off_def by blast
  obtain b s1 where 1: "s1 = s \<or> downloadMMDBEdition env edition ?p s = (b, s1)"
      and 2: "s' = s1 \<or> (\<exists>err. downloadCSVSidecars env edition d s1 = (err, s'))"
    using assms(1) unfolding tryDownloadEdition_def dir Let_def
    by (auto split: if_splits prod.splits)
  have "same_off ?P (gd_files s) (gd_files s1) \<and> kept_or_whole env ?p s s1"
    using 1 mmdb_step by (auto simp: kept_or_whole_def)
  moreover have "same_off ?P (gd_files s1) (gd_files s') \<and> gd_files s' ?p = gd_files s1 ?p"
    using 2 csv_step by auto
  ultimately show "same_off ?P (gd_files s) (gd_files s')" "kept_or_whole env ?p s s'"
    by (auto simp: kept_or_whole_def intro: same_off_trans)
qed

definition asn_file :: string where "asn_file = ''GeoLite2-ASN.mmdb''"
definition city_file :: string where "city_file = ''GeoLite2-City.mmdb''"

definition geo_paths :: "string \<Rightarrow> string set" where
  "geo_paths d = edition_paths d ''GeoLite2-ASN'' asn_file \<union> edition_paths d ''GeoLite2-City'' city_file"

lemma sidecar_names:
  "snd (csvEditionSidecars ''GeoLite2-ASN'') = [asnBlocksIPv4Name, asnBlocksIPv6Name]"
  "snd (csvEditionSidecars ''GeoLite2-City'') = [cityLocationsName]"
  by (simp_all add: csvEditionSidecars_def)

lemmas geo_names = asn_file_def city_file_def asnBlocksIPv4Name_def asnBlocksIPv6Name_def cityLocationsName_def

lemma editions_apart:
  "in_dir d city_file \<notin> edition_paths d ''GeoLite2-ASN'' asn_file"
  "in_dir d asn_file \<notin> edition_paths d ''GeoLite2-City'' city_file"
  by (simp_all add: edition_paths_def sidecar_names with_tmp_def geo_names)

lemma no_slash: "CHR ''/'' \<notin> set asn_file" "CHR ''/'' \<notin> set city_file"
  by (simp_all add: geo_names)

lemma no_sidecar:
  "\<forall>name \<in> set (snd (csvEditionSidecars ''GeoLite2-ASN'')). asn_file \<notin> {name, name @ ''.tmp''}"
  "\<forall>name \<in> set (snd (csvEditionSidecars ''GeoLite2-City'')). city_file \<notin> {name, name @ ''.tmp''}"
  by (simp_all add: sidecar_names geo_names)

lemma updateAll_effect:
  assumes "geo_env_ok env" and "geo_env_ok envCity"
    and "updateAll env envCity (in_dir d asn_file) (in_dir d city_file) s = (r, s')"
  shows "same_off (geo_paths d) (gd_files s) (gd_files s')"
    "kept_or_whole env (in_dir d asn_file) s s'" "kept_or_whole envCity (in_dir d city_file) s s'"
proof -
  obtain r1 s1 where 1: "tryDownloadEdition env ''GeoLite2-ASN'' (in_dir d asn_file) s = (r1, s1)" by fastforce
  obtain r2 s2 where 2: "tryDownloadEdition envCity ''GeoLite2-City'' (in_dir d city_file) s1 = (r2, s2)" by fastforce
  note a = tryDownloadEdition_effect[OF 1 assms(1) no_slash(1) no_sidecar(1)]
  note c = tryDownloadEdition_effect[OF 2 assms(2) no_slash(2) no_sidecar(2)]
  have "s' = s \<or> s' = s2" using assms(3) by (auto simp: updateAll_def 1 2 split: prod.splits if_splits)
  moreover have "same_off (geo_paths d) (gd_files s) (gd_files s2)"
    by (rule same_off_trans[OF a(1) c(1)]) (auto simp: geo_paths_def)
  moreover have "kept_or_whole env (in_dir d asn_file) s s2" "kept_or_whole envCity (in_dir d city_file) s s2"
    using a c editions_apart by (auto simp: kept_or_whole_def same_off_def)
  ultimately show "same_off (geo_paths d) (gd_files s) (gd_files s')"
    "kept_or_whole env (in_dir d asn_file) s s'" "kept_or_whole envCity (in_dir d city_file) s s'"
    by (auto simp: kept_or_whole_def)
qed

definition downloaded_by :: "(geo_env \<times> geo_env) list \<Rightarrow> geo_disk \<Rightarrow> string \<Rightarrow> geo_disk \<Rightarrow> bool" where
  "downloaded_by cycles s p s' \<longleftrightarrow> gd_files s' p = gd_files s p \<or>
     (\<exists>x \<in> set cycles. \<exists>env \<in> {fst x, snd x}. \<exists>c. gd_files s' p = Some (c, gn_mtime env) \<and> whole_mmdb env c)"

lemma downloaded_by_Cons:
  "kept_or_whole env p s s1 \<Longrightarrow> env \<in> {fst x, snd x} \<Longrightarrow> downloaded_by cycles s1 p s' \<Longrightarrow> downloaded_by (x # cycles) s p s'"
  by (auto simp: kept_or_whole_def downloaded_by_def)


section \<open>A run\<close>

text \<open>Whole seconds stand for RFC 3339.\<close>

definition slash_dir :: "string \<Rightarrow> string" where
  "slash_dir p = rev (tl (dropWhile (\<lambda>c. c \<noteq> CHR ''/'') (rev p)))"

definition geo_sample :: geo_env where
  "geo_sample = \<lparr>gn_check = 100 * hour, gn_mmdb_done = 101 * hour, gn_csv_done = 102 * hour, gn_settings_error = False,
     gn_save_error = False, gn_float = (\<lambda>_ _ _. 0),
     gn_parse = (\<lambda>s. case go_atoi s of None \<Rightarrow> None | Some k \<Rightarrow> Some (k * second)),
     gn_format = (\<lambda>t. format_int (t div second)), gn_escape = id,
     gn_http = (\<lambda>url. Inr (200, if has_suffix url ''zip'' then ''zip'' else ''tar'')), gn_read_error = (\<lambda>_. None),
     gn_untar = (\<lambda>_. Inr [TarEntry ''db/new.mmdb'' 4 (''data'', None)]),
     gn_unzip = (\<lambda>_. Inr (map (\<lambda>name. \<lparr>ze_dir = False, ze_name = name, ze_open = Inr (''rows'', None)\<rparr>)
        [asnBlocksIPv4Name, asnBlocksIPv6Name, cityLocationsName])),
     gn_dir = slash_dir, gn_join = (\<lambda>d n. d @ ''/'' @ n), gn_create = (\<lambda>_. None), gn_write = (\<lambda>_ c. (c, None)),
     gn_close = (\<lambda>_. None), gn_rename = (\<lambda>_ _. None), gn_remove = (\<lambda>_. True), gn_mtime = 102 * hour\<rparr>"

definition geo_empty :: geo_disk where
  "geo_empty = \<lparr>gd_files = Map.empty, gd_settings = [SettingLicenseKey \<mapsto> ''key'', SettingAccountID \<mapsto> ''1'']\<rparr>"

lemma slash_dir: "CHR ''/'' \<notin> set n \<Longrightarrow> slash_dir (d @ ''/'' @ n) = d"
  by (simp add: slash_dir_def dropWhile_append)

lemma geo_sample_ok: "geo_env_ok geo_sample"
  by (simp add: geo_env_ok_def geo_sample_def slash_dir[simplified] tar_entry_ok_def)


lemma geo_sample_run:
  "gd_files (geo_run [(geo_sample, geo_sample)] (in_dir ''/g'' asn_file) (in_dir ''/g'' city_file) geo_empty) (in_dir ''/g'' city_file) =
     Some (''data'', 102 * hour)"
  by code_simp

section \<open>Otherwise than meant\<close>

text \<open>A CSV file over the limit is cut off and put in place as if it were whole.\<close>

lemma csv_cut_short:
  assumes "maxCSVSize < int (length c)" and "gn_create env (p @ ''.tmp'') = None" and "\<And>q x. gn_write env q x = (x, None)"
    and "gn_close env (p @ ''.tmp'') = None" and "gn_rename env (p @ ''.tmp'') p = None"
  shows "\<exists>fs'. writeArchiveFile env (c, err) p fs = (None, fs') \<and> fs' p = Some (take (nat maxCSVSize) c, gn_mtime env)"
  using assms by (simp add: writeArchiveFile_def Let_def limited_def geo_write_def geo_rename_def copy_error_def)

text \<open>The time of a download is taken when it is done, which is after the tick that started it: at the next
  tick the interval is not over, so that files are fetched at every second tick only.\<close>

lemma next_tick_skips:
  assumes "\<not> needsImmediateDownload env edition p s" and "lastDownloadAt env edition p s = tick + took" and "0 < took" and "0 < tick"
    and "gn_check env = tick + resolveInterval env s"
  shows "\<not> needsDownload env edition p s"
  using assms by (simp add: needsDownload_def is_zero_time_def)

text \<open>The database could not be fetched but the CSV files could: the edition counts as downloaded, and the
  old database stays for the whole interval.\<close>

definition geo_old :: geo_disk where
  "geo_old = geo_empty\<lparr>gd_files := (\<lambda>p. if p \<in> set (map (in_dir ''/g'') [asn_file, asnBlocksIPv4Name, asnBlocksIPv6Name])
     then Some (''old'', 1) else None)\<rparr>"

definition no_tar :: geo_env where
  "no_tar = geo_sample\<lparr>gn_http := (\<lambda>url. if has_suffix url ''zip'' then Inr (200, ''zip'') else Inl ErrTimeout)\<rparr>"

lemma failed_database_waits:
  "let s = snd (tryDownloadEdition no_tar ''GeoLite2-ASN'' (in_dir ''/g'' asn_file) geo_old)
   in gd_files s (in_dir ''/g'' asn_file) = Some (''old'', 1) \<and>
      \<not> needsDownload (geo_sample\<lparr>gn_check := 173 * hour\<rparr>) ''GeoLite2-ASN'' (in_dir ''/g'' asn_file) s"
  by code_simp

end
