(* ===== verification/Statements.thy ===== *)
theory Statements
  imports Database Http_Reply
begin

text \<open>
  A table of its own with its statements: rows in the order of their ids, which are never given out twice,
  and a count of the statements issued, any of which may fail.
\<close>

record 'a row_table =
  rt_rows :: "'a list"
  rt_seq :: int
  rt_statements :: nat

record row_env =
  rw_error :: "nat \<Rightarrow> (bool \<times> go_error) option"
  rw_now :: string

type_synonym ('a, 'b) row_call = "'a row_table \<Rightarrow> 'b outcome \<times> 'a row_table"

definition row_statement :: "'e row_env_scheme \<Rightarrow> ('a, 'b) row_call \<Rightarrow> ('a, 'b) row_call" where
  "row_statement env f t =
     (let t1 = t\<lparr>rt_statements := Suc (rt_statements t)\<rparr> in
      case rw_error env (rt_statements t) of
        None \<Rightarrow> f t1
      | Some (took_effect, err) \<Rightarrow> (Failed err, if took_effect then snd (f t1) else t1))"

definition row_bind :: "('a, 'b) row_call \<Rightarrow> ('b \<Rightarrow> ('a, 'c) row_call) \<Rightarrow> ('a, 'c) row_call" where
  "row_bind m f t =
     (case m t of
        (Returned b, t1) \<Rightarrow> f b t1
      | (Failed err, t1) \<Rightarrow> (Failed err, t1)
      | (Panicked, t1) \<Rightarrow> (Panicked, t1))"

definition row_query :: "'e row_env_scheme \<Rightarrow> ('a list \<Rightarrow> 'b) \<Rightarrow> ('a, 'b) row_call" where
  "row_query env f = row_statement env (\<lambda>t. (Returned (f (rt_rows t)), t))"

definition row_change :: "'e row_env_scheme \<Rightarrow> ('a list \<Rightarrow> 'a list) \<Rightarrow> ('a, unit) row_call" where
  "row_change env f = row_statement env (\<lambda>t. (Returned (), t\<lparr>rt_rows := f (rt_rows t)\<rparr>))"

text \<open>\<open>LastInsertId\<close> is the id the row got.\<close>

definition row_insert :: "'e row_env_scheme \<Rightarrow> (int \<Rightarrow> 'a) \<Rightarrow> ('a, int) row_call" where
  "row_insert env row = row_statement env (\<lambda>t.
     (Returned (rt_seq t + 1), t\<lparr>rt_rows := rt_rows t @ [row (rt_seq t + 1)], rt_seq := rt_seq t + 1\<rparr>))"

text \<open>\<open>active = CASE WHEN active = 1 THEN 0 ELSE 1 END\<close>.\<close>

definition flip_active :: "int \<Rightarrow> int" where "flip_active a = (if a = 1 then 0 else 1)"

section \<open>What statements keep\<close>

lemma row_query_rows [simp]: "rt_rows (snd (row_query env f t)) = rt_rows t"
  by (auto simp: row_query_def row_statement_def Let_def split: option.splits)

lemma row_query_eq: "row_query env f t = (r, t') \<Longrightarrow> rt_rows t' = rt_rows t"
  using row_query_rows by (metis snd_conv)

lemma row_query_Returned: "row_query env f t = (Returned b, t') \<Longrightarrow> b = f (rt_rows t)"
  by (auto simp: row_query_def row_statement_def Let_def split: option.splits)

lemma row_change_cases:
  "row_change env f t = (r, t') \<Longrightarrow> (rt_rows t' = f (rt_rows t) \<and> r \<noteq> Panicked) \<or> (rt_rows t' = rt_rows t \<and> (\<exists>err. r = Failed err))"
  by (auto simp: row_change_def row_statement_def Let_def split: option.splits if_splits)

lemma row_insert_cases:
  "row_insert env row t = (r, t') \<Longrightarrow>
     (rt_rows t' = rt_rows t @ [row (rt_seq t + 1)] \<and> rt_seq t' = rt_seq t + 1 \<and> (r = Returned (rt_seq t + 1) \<or> (\<exists>err. r = Failed err))) \<or>
     (rt_rows t' = rt_rows t \<and> rt_seq t' = rt_seq t \<and> (\<exists>err. r = Failed err))"
  by (auto simp: row_insert_def row_statement_def Let_def split: option.splits if_splits)

text \<open>Calls that only read.\<close>

definition reads :: "('a, 'b) row_call \<Rightarrow> bool" where
  "reads f \<longleftrightarrow> (\<forall>t. rt_rows (snd (f t)) = rt_rows t \<and> rt_seq (snd (f t)) = rt_seq t)"

lemma reads_query [simp]: "reads (row_query env f)"
  by (auto simp: reads_def row_query_def row_statement_def Let_def split: option.splits)

lemma reads_return [simp]: "reads (\<lambda>t. (x, t))"
  by (simp add: reads_def)

lemma reads_bind [simp]: "reads m \<Longrightarrow> (\<And>b. reads (f b)) \<Longrightarrow> reads (row_bind m f)"
  by (auto simp: reads_def row_bind_def split: prod.splits outcome.splits) (metis snd_conv)+

lemma bind_reads:
  assumes "\<And>b. reads (f b)"
  shows "rt_rows (snd (row_bind m f t)) = rt_rows (snd (m t)) \<and> rt_seq (snd (row_bind m f t)) = rt_seq (snd (m t))"
  using assms by (auto simp: reads_def row_bind_def split: prod.splits outcome.splits)

lemma row_change_effect:
  "(rt_rows (snd (row_change env f t)) = f (rt_rows t) \<or> rt_rows (snd (row_change env f t)) = rt_rows t) \<and>
   rt_seq (snd (row_change env f t)) = rt_seq t"
  by (auto simp: row_change_def row_statement_def Let_def split: option.splits)

lemma row_insert_effect:
  "(rt_rows (snd (row_insert env row t)) = rt_rows t @ [row (rt_seq t + 1)] \<and> rt_seq (snd (row_insert env row t)) = rt_seq t + 1) \<or>
   (rt_rows (snd (row_insert env row t)) = rt_rows t \<and> rt_seq (snd (row_insert env row t)) = rt_seq t)"
  by (auto simp: row_insert_def row_statement_def Let_def split: option.splits)

end
