(* ===== verification/CommunityRules.thy ===== *)
theory CommunityRules
  imports Statements Repos
begin

text \<open>
  The rules that explain BGP communities: the table (\<open>internal/store/queries/community_rule.sql.go\<close>,
  \<open>internal/store/repo/community_rule_repo.go\<close>), the copy that queries and visitors read
  (\<open>internal/sitecache/communities.go\<close>, \<open>cached_repos.go\<close>) and the handlers that change them (\<open>public.go\<close>).
\<close>

section \<open>The table\<close>

record rule_row =
  rr_id :: int
  rr_community :: string
  rr_severity :: string
  rr_message_i18n :: string
  rr_scope :: string
  rr_node_id :: "int option"
  rr_active :: int
  rr_created_at :: string
  rr_updated_at :: string

record rule_env = row_env +
  rw_sort :: "(rule_row \<Rightarrow> rule_row \<Rightarrow> bool) \<Rightarrow> rule_row list \<Rightarrow> rule_row list"

definition newest_first :: "rule_row \<Rightarrow> rule_row \<Rightarrow> bool" where
  "newest_first a b = str_less (rr_created_at b) (rr_created_at a)"

definition by_community :: "rule_row \<Rightarrow> rule_row \<Rightarrow> bool" where
  "by_community a b \<longleftrightarrow> str_less (rr_community a) (rr_community b) \<or>
     (rr_community a = rr_community b \<and> rr_id a < rr_id b)"

definition GetAllCommunityRules :: "rule_env \<Rightarrow> (rule_row, rule_row list) row_call" where
  "GetAllCommunityRules env = row_query env (rw_sort env newest_first)"

definition GetActiveCommunityRules :: "rule_env \<Rightarrow> (rule_row, rule_row list) row_call" where
  "GetActiveCommunityRules env = row_query env (\<lambda>rows. rw_sort env by_community (filter (\<lambda>r. rr_active r = 1) rows))"

definition GetActiveCommunityRulesForNode :: "rule_env \<Rightarrow> int \<Rightarrow> (rule_row, rule_row list) row_call" where
  "GetActiveCommunityRulesForNode env nodeID = row_query env (\<lambda>rows. rw_sort env newest_first
     (filter (\<lambda>r. rr_active r = 1 \<and> (rr_scope r = ''global'' \<or> rr_node_id r = Some nodeID)) rows))"

definition GetCommunityRuleByID :: "rule_env \<Rightarrow> int \<Rightarrow> (rule_row, rule_row option) row_call" where
  "GetCommunityRuleByID env i = row_query env (find (\<lambda>r. rr_id r = i))"

text \<open>A node in the argument would be checked against the table of nodes; the handlers never give one.\<close>

definition CreateCommunityRuleQ :: "rule_env \<Rightarrow> rule_row \<Rightarrow> (rule_row, rule_row option) row_call" where
  "CreateCommunityRuleQ env arg =
     row_bind (row_insert env (\<lambda>i. arg\<lparr>rr_id := i, rr_created_at := rw_now env, rr_updated_at := rw_now env\<rparr>))
       (GetCommunityRuleByID env)"

definition UpdateCommunityRuleQ :: "rule_env \<Rightarrow> rule_row \<Rightarrow> (rule_row, rule_row option) row_call" where
  "UpdateCommunityRuleQ env arg =
     row_bind (row_change env (map (\<lambda>r. if rr_id r = rr_id arg
         then arg\<lparr>rr_created_at := rr_created_at r, rr_updated_at := rw_now env\<rparr> else r)))
       (\<lambda>_. GetCommunityRuleByID env (rr_id arg))"

definition DeleteCommunityRuleQ :: "rule_env \<Rightarrow> int \<Rightarrow> (rule_row, unit) row_call" where
  "DeleteCommunityRuleQ env i = row_change env (filter (\<lambda>r. rr_id r \<noteq> i))"

definition ToggleCommunityRuleQ :: "rule_env \<Rightarrow> int \<Rightarrow> (rule_row, unit) row_call" where
  "ToggleCommunityRuleQ env i = row_change env (map (\<lambda>r. if rr_id r = i
     then r\<lparr>rr_active := flip_active (rr_active r), rr_updated_at := rw_now env\<rparr> else r))"

section \<open>The repository\<close>

text \<open>The times of a row are not read.\<close>

definition mapCommunityRule :: "rule_row \<Rightarrow> community_rule" where
  "mapCommunityRule r =
     \<lparr>cr_id = rr_id r, cr_community = rr_community r, cr_severity = NormalizeSeverity (rr_severity r),
      cr_message_i18n = rr_message_i18n r, cr_scope = rr_scope r, cr_node_id = rr_node_id r, cr_active = (rr_active r = 1),
      cr_created_at = 0, cr_updated_at = 0\<rparr>"

definition rule_row_of :: "community_rule \<Rightarrow> rule_row" where
  "rule_row_of rule =
     \<lparr>rr_id = cr_id rule, rr_community = cr_community rule, rr_severity = cr_severity rule,
      rr_message_i18n = cr_message_i18n rule, rr_scope = cr_scope rule, rr_node_id = cr_node_id rule,
      rr_active = boolToInt (cr_active rule), rr_created_at = [], rr_updated_at = []\<rparr>"

definition mapped :: "rule_row option \<Rightarrow> (rule_row, community_rule) row_call" where
  "mapped p t = (case p of None \<Rightarrow> (Panicked, t) | Some r \<Rightarrow> (Returned (mapCommunityRule r), t))"

definition RuleRepo_GetAll :: "rule_env \<Rightarrow> (rule_row, community_rule list) row_call" where
  "RuleRepo_GetAll env = row_bind (GetAllCommunityRules env) (\<lambda>rows t. (Returned (map mapCommunityRule rows), t))"

definition RuleRepo_GetActive :: "rule_env \<Rightarrow> (rule_row, community_rule list) row_call" where
  "RuleRepo_GetActive env = row_bind (GetActiveCommunityRules env) (\<lambda>rows t. (Returned (map mapCommunityRule rows), t))"

definition RuleRepo_GetActiveRulesForNode :: "rule_env \<Rightarrow> int \<Rightarrow> (rule_row, community_rule list) row_call" where
  "RuleRepo_GetActiveRulesForNode env nodeID =
     row_bind (GetActiveCommunityRulesForNode env nodeID) (\<lambda>rows t. (Returned (map mapCommunityRule rows), t))"

definition RuleRepo_Create :: "rule_env \<Rightarrow> community_rule \<Rightarrow> (rule_row, community_rule) row_call" where
  "RuleRepo_Create env rule = row_bind (CreateCommunityRuleQ env (rule_row_of rule)) mapped"

definition RuleRepo_Update :: "rule_env \<Rightarrow> community_rule \<Rightarrow> (rule_row, community_rule) row_call" where
  "RuleRepo_Update env rule = row_bind (UpdateCommunityRuleQ env (rule_row_of rule)) mapped"

section \<open>The copy in memory\<close>

record public_community =
  pc_id :: int
  pc_community :: string
  pc_severity :: string
  pc_message_i18n :: string
  pc_scope :: string

record rule_site =
  ru_table :: "rule_row row_table"
  ru_public :: "public_community list"
  ru_rules :: "community_rule list option"

definition public_of :: "community_rule \<Rightarrow> public_community" where
  "public_of rule = \<lparr>pc_id = cr_id rule, pc_community = cr_community rule, pc_severity = cr_severity rule,
     pc_message_i18n = cr_message_i18n rule, pc_scope = cr_scope rule\<rparr>"

definition RefreshCommunities :: "rule_env \<Rightarrow> rule_site \<Rightarrow> go_error option \<times> rule_site" where
  "RefreshCommunities env s =
     (case RuleRepo_GetActive env (ru_table s) of
        (Returned rules, t) \<Rightarrow> (None, s\<lparr>ru_table := t, ru_public := map public_of rules, ru_rules := Some rules\<rparr>)
      | (Failed err, t) \<Rightarrow> (Some err, s\<lparr>ru_table := t\<rparr>)
      | (Panicked, t) \<Rightarrow> (None, s\<lparr>ru_table := t\<rparr>))"

definition ActiveCommunityRulesForNode :: "int \<Rightarrow> rule_site \<Rightarrow> community_rule list option" where
  "ActiveCommunityRulesForNode nodeID s =
     (case ru_rules s of
        None \<Rightarrow> None
      | Some rules \<Rightarrow> Some (filter (\<lambda>r. cr_active r \<and> (cr_scope r = ''global'' \<or> cr_node_id r = Some nodeID)) rules))"

definition ActiveCommunities :: "rule_site \<Rightarrow> public_community list" where
  "ActiveCommunities s = ru_public s"

text \<open>\<open>cachedCommunityRuleRepo.GetActiveRulesForNode\<close>: what the engine asks.\<close>

definition Cached_GetActiveRulesForNode ::
  "rule_env \<Rightarrow> int \<Rightarrow> rule_site \<Rightarrow> community_rule list outcome \<times> rule_site" where
  "Cached_GetActiveRulesForNode env nodeID s =
     (case ActiveCommunityRulesForNode nodeID s of
        Some rules \<Rightarrow> (Returned rules, s)
      | None \<Rightarrow> (case RuleRepo_GetActiveRulesForNode env nodeID (ru_table s) of (r, t) \<Rightarrow> (r, s\<lparr>ru_table := t\<rparr>)))"

section \<open>Handlers\<close>

record rule_request =
  rq_community :: string
  rq_severity :: string
  rq_message_i18n :: string
  rq_scope :: string
  rq_active :: bool

definition ListPublicCommunities :: "rule_site \<Rightarrow> public_community list reply" where
  "ListPublicCommunities s = Reply 200 (ActiveCommunities s)"

definition ListCommunityRules :: "rule_env \<Rightarrow> rule_site \<Rightarrow> community_rule list reply \<times> rule_site" where
  "ListCommunityRules env s =
     (case RuleRepo_GetAll env (ru_table s) of
        (Returned rules, t) \<Rightarrow> (Reply 200 rules, s\<lparr>ru_table := t\<rparr>)
      | (Failed err, t) \<Rightarrow> (internal_error err, s\<lparr>ru_table := t\<rparr>)
      | (Panicked, t) \<Rightarrow> (Crashed, s\<lparr>ru_table := t\<rparr>))"

text \<open>The rule a request describes, or why it is refused.\<close>

definition rule_of_request :: "int \<Rightarrow> rule_request \<Rightarrow> string + community_rule" where
  "rule_of_request i req =
     (let severity = NormalizeSeverity (rq_severity req);
          scope = (if rq_scope req = [] then ''global'' else rq_scope req)
      in if severity \<noteq> [] \<and> severity \<notin> {SeverityAlert, SeverityWarning, SeverityInfo, SeveritySuccess}
         then Inl ''invalid severity: must be alert, warning, info, or success''
         else if scope \<noteq> ''global'' \<and> scope \<noteq> ''node'' then Inl (''invalid scope: must be '' @ [CHR 0x27] @ ''global'' @ [CHR 0x27] @ '' or '' @ [CHR 0x27] @ ''node'' @ [CHR 0x27])
         else Inr \<lparr>cr_id = i, cr_community = rq_community req, cr_severity = (if severity = [] then SeverityInfo else severity),
           cr_message_i18n = rq_message_i18n req, cr_scope = scope, cr_node_id = None, cr_active = rq_active req,
           cr_created_at = 0, cr_updated_at = 0\<rparr>)"

text \<open>The end of every change: the copy is read again, and a failure of that is only logged.\<close>

definition after_change ::
  "rule_env \<Rightarrow> nat \<Rightarrow> 'a outcome \<times> rule_row row_table \<Rightarrow> rule_site \<Rightarrow> 'a reply \<times> rule_site" where
  "after_change env status x s =
     (case x of
        (Returned a, t) \<Rightarrow> (Reply status a, snd (RefreshCommunities env (s\<lparr>ru_table := t\<rparr>)))
      | (Failed err, t) \<Rightarrow> (internal_error err, s\<lparr>ru_table := t\<rparr>)
      | (Panicked, t) \<Rightarrow> (Crashed, s\<lparr>ru_table := t\<rparr>))"

definition CreateCommunityRule ::
  "rule_env \<Rightarrow> string + rule_request \<Rightarrow> rule_site \<Rightarrow> community_rule reply \<times> rule_site" where
  "CreateCommunityRule env body s =
     (case body of
        Inl msg \<Rightarrow> (Refused 400 msg, s)
      | Inr req \<Rightarrow>
          (case rule_of_request 0 req of
             Inl msg \<Rightarrow> (Refused 400 msg, s)
           | Inr rule \<Rightarrow> after_change env 201 (RuleRepo_Create env rule (ru_table s)) s))"

definition UpdateCommunityRule ::
  "rule_env \<Rightarrow> int option \<Rightarrow> string + rule_request \<Rightarrow> rule_site \<Rightarrow> community_rule reply \<times> rule_site" where
  "UpdateCommunityRule env ident body s =
     (case ident of
        None \<Rightarrow> (Refused 400 ''invalid id'', s)
      | Some i \<Rightarrow>
          (case body of
             Inl msg \<Rightarrow> (Refused 400 msg, s)
           | Inr req \<Rightarrow>
               (case rule_of_request i req of
                  Inl msg \<Rightarrow> (Refused 400 msg, s)
                | Inr rule \<Rightarrow> after_change env 200 (RuleRepo_Update env rule (ru_table s)) s)))"

definition DeleteCommunityRule :: "rule_env \<Rightarrow> int option \<Rightarrow> rule_site \<Rightarrow> unit reply \<times> rule_site" where
  "DeleteCommunityRule env ident s =
     (case ident of
        None \<Rightarrow> (Refused 400 ''invalid id'', s)
      | Some i \<Rightarrow> after_change env 200 (DeleteCommunityRuleQ env i (ru_table s)) s)"

definition ToggleCommunityRule :: "rule_env \<Rightarrow> int option \<Rightarrow> rule_site \<Rightarrow> unit reply \<times> rule_site" where
  "ToggleCommunityRule env ident s =
     (case ident of
        None \<Rightarrow> (Refused 400 ''invalid id'', s)
      | Some i \<Rightarrow> after_change env 200 (ToggleCommunityRuleQ env i (ru_table s)) s)"

end
