(* ===== verification/CommunityRulesRun.thy ===== *)
theory CommunityRulesRun
  imports CommunityRules
begin

text \<open>
  What holds of the community rules in every state the handlers can reach: the table is in order, and the
  copy in memory answers as the table would.
\<close>

section \<open>Steps\<close>

inductive rule_step :: "rule_env \<Rightarrow> rule_site \<Rightarrow> rule_site \<Rightarrow> bool" for env where
  rule_refresh: "rule_step env s (snd (RefreshCommunities env s))"
| rule_list: "rule_step env s (snd (ListCommunityRules env s))"
| rule_create: "rule_step env s (snd (CreateCommunityRule env body s))"
| rule_update: "rule_step env s (snd (UpdateCommunityRule env ident body s))"
| rule_delete: "rule_step env s (snd (DeleteCommunityRule env ident s))"
| rule_toggle: "rule_step env s (snd (ToggleCommunityRule env ident s))"
| rule_ask: "rule_step env s (snd (Cached_GetActiveRulesForNode env nodeID s))"

definition empty_rule_site :: rule_site where
  "empty_rule_site = \<lparr>ru_table = \<lparr>rt_rows = [], rt_seq = 0, rt_statements = 0\<rparr>, ru_public = [], ru_rules = None\<rparr>"

text \<open>With \<open>quiet\<close> no statement fails.\<close>

inductive rule_reach :: "((rule_row \<Rightarrow> rule_row \<Rightarrow> bool) \<Rightarrow> rule_row list \<Rightarrow> rule_row list) \<Rightarrow> bool \<Rightarrow> rule_site \<Rightarrow> bool"
  for srt quiet where
  rule_start: "rule_reach srt quiet empty_rule_site"
| rule_next: "rule_reach srt quiet s \<Longrightarrow> rule_step env s s' \<Longrightarrow> rw_sort env = srt \<Longrightarrow>
    (quiet \<longrightarrow> rw_error env = (\<lambda>_. None)) \<Longrightarrow> rule_reach srt quiet s'"

section \<open>The table\<close>

definition row_ok :: "rule_row \<Rightarrow> bool" where
  "row_ok r \<longleftrightarrow> rr_node_id r = None \<and> rr_scope r \<in> {''global'', ''node''} \<and>
     rr_severity r \<in> {SeverityAlert, SeverityWarning, SeverityInfo, SeveritySuccess} \<and> rr_active r \<in> {0, 1}"

definition rules_ok :: "rule_row row_table \<Rightarrow> bool" where
  "rules_ok t \<longleftrightarrow> list_all row_ok (rt_rows t) \<and> distinct (map rr_id (rt_rows t)) \<and>
     list_all (\<lambda>r. 0 < rr_id r \<and> rr_id r \<le> rt_seq t) (rt_rows t) \<and> 0 \<le> rt_seq t"

lemma rule_of_request_ok:
  "rule_of_request i req = Inr rule \<Longrightarrow> row_ok ((rule_row_of rule)\<lparr>rr_id := j, rr_created_at := a, rr_updated_at := b\<rparr>)"
  "rule_of_request i req = Inr rule \<Longrightarrow> row_ok ((rule_row_of rule)\<lparr>rr_created_at := a, rr_updated_at := b\<rparr>)"
  "rule_of_request i req = Inr rule \<Longrightarrow> rr_id (rule_row_of rule) = i"
  by (auto simp: rule_of_request_def row_ok_def rule_row_of_def boolToInt_def Let_def split: if_splits)

lemma rules_ok_same: "rt_rows t' = rt_rows t \<and> rt_seq t' = rt_seq t \<Longrightarrow> rules_ok t \<Longrightarrow> rules_ok t'"
  by (simp add: rules_ok_def)

lemma rules_ok_reads: "reads f \<Longrightarrow> rules_ok t \<Longrightarrow> rules_ok (snd (f t))"
  by (rule rules_ok_same) (simp_all add: reads_def)

lemma reads_mapped [simp]: "reads (mapped p)"
  by (cases p) (simp_all add: reads_def mapped_def)

lemma reads_rules [simp]:
  "reads (GetCommunityRuleByID env i)" "reads (GetActiveCommunityRules env)" "reads (RuleRepo_GetActive env)"
  "reads (RuleRepo_GetAll env)" "reads (RuleRepo_GetActiveRulesForNode env nodeID)"
  by (simp_all add: GetCommunityRuleByID_def GetActiveCommunityRules_def RuleRepo_GetActive_def RuleRepo_GetAll_def
      RuleRepo_GetActiveRulesForNode_def GetAllCommunityRules_def GetActiveCommunityRulesForNode_def)

lemma rules_ok_insert:
  assumes "rules_ok t" and "\<And>i. row_ok (row i) \<and> rr_id (row i) = i" shows "rules_ok (snd (row_insert env row t))"
  using row_insert_effect[of env row t] assms by (fastforce simp: rules_ok_def list_all_iff)

lemma rules_ok_change:
  assumes "rules_ok t" and "rules_ok t \<Longrightarrow> rules_ok (t\<lparr>rt_rows := f (rt_rows t)\<rparr>)" shows "rules_ok (snd (row_change env f t))"
  using row_change_effect[of env f t] assms(2)[OF assms(1)] assms(1) by (auto simp: rules_ok_def)

lemma rules_ok_map:
  assumes "rules_ok t" and "\<And>r. row_ok r \<Longrightarrow> row_ok (g r)" and "\<And>r. rr_id (g r) = rr_id r"
  shows "rules_ok (t\<lparr>rt_rows := map g (rt_rows t)\<rparr>)"
  using assms by (auto simp: rules_ok_def list_all_iff comp_def)

lemma rules_ok_Create:
  assumes "rules_ok t" and "rule_of_request i req = Inr rule" shows "rules_ok (snd (RuleRepo_Create env rule t))"
proof -
  let ?row = "\<lambda>j. (rule_row_of rule)\<lparr>rr_id := j, rr_created_at := rw_now env, rr_updated_at := rw_now env\<rparr>"
  have "rules_ok (snd (row_insert env ?row t))"
    by (rule rules_ok_insert[OF assms(1)]) (use rule_of_request_ok(1)[OF assms(2)] in simp)
  moreover have "rt_rows (snd (RuleRepo_Create env rule t)) = rt_rows (snd (row_insert env ?row t)) \<and>
      rt_seq (snd (RuleRepo_Create env rule t)) = rt_seq (snd (row_insert env ?row t))"
    unfolding RuleRepo_Create_def CreateCommunityRuleQ_def by (simp add: bind_reads)
  ultimately show ?thesis by (rule rules_ok_same[rotated])
qed

lemma rules_ok_Update:
  assumes "rules_ok t" and "rule_of_request i req = Inr rule" shows "rules_ok (snd (RuleRepo_Update env rule t))"
proof -
  let ?f = "map (\<lambda>r. if rr_id r = rr_id (rule_row_of rule)
    then (rule_row_of rule)\<lparr>rr_created_at := rr_created_at r, rr_updated_at := rw_now env\<rparr> else r)"
  have "rules_ok (snd (row_change env ?f t))"
    by (rule rules_ok_change[OF assms(1)], rule rules_ok_map)
       (use rule_of_request_ok(2)[OF assms(2)] in auto)
  moreover have "rt_rows (snd (RuleRepo_Update env rule t)) = rt_rows (snd (row_change env ?f t)) \<and>
      rt_seq (snd (RuleRepo_Update env rule t)) = rt_seq (snd (row_change env ?f t))"
    unfolding RuleRepo_Update_def UpdateCommunityRuleQ_def by (simp add: bind_reads)
  ultimately show ?thesis by (rule rules_ok_same[rotated])
qed

lemma rules_ok_Delete: "rules_ok t \<Longrightarrow> rules_ok (snd (DeleteCommunityRuleQ env i t))"
  unfolding DeleteCommunityRuleQ_def
  by (rule rules_ok_change) (auto simp: rules_ok_def list_all_iff distinct_map_filter)

lemma rules_ok_Toggle: "rules_ok t \<Longrightarrow> rules_ok (snd (ToggleCommunityRuleQ env i t))"
  unfolding ToggleCommunityRuleQ_def
  by (rule rules_ok_change, assumption, rule rules_ok_map) (auto simp: row_ok_def flip_active_def)

section \<open>The copy\<close>

definition active_rules :: "((rule_row \<Rightarrow> rule_row \<Rightarrow> bool) \<Rightarrow> rule_row list \<Rightarrow> rule_row list) \<Rightarrow> rule_site \<Rightarrow> community_rule list" where
  "active_rules srt s = map mapCommunityRule (srt by_community (filter (\<lambda>r. rr_active r = 1) (rt_rows (ru_table s))))"

definition copy_fresh :: "((rule_row \<Rightarrow> rule_row \<Rightarrow> bool) \<Rightarrow> rule_row list \<Rightarrow> rule_row list) \<Rightarrow> rule_site \<Rightarrow> bool" where
  "copy_fresh srt s \<longleftrightarrow> ru_rules s = Some (active_rules srt s) \<and> ru_public s = map public_of (active_rules srt s)"

lemma refresh_table:
  "rt_rows (ru_table (snd (RefreshCommunities env s))) = rt_rows (ru_table s) \<and>
   rt_seq (ru_table (snd (RefreshCommunities env s))) = rt_seq (ru_table s)"
  using reads_rules(3)[of env, unfolded reads_def, rule_format, of "ru_table s"]
  by (auto simp: RefreshCommunities_def split: prod.splits outcome.splits)

lemma refresh_fresh:
  assumes "rw_error env = (\<lambda>_. None)" shows "copy_fresh (rw_sort env) (snd (RefreshCommunities env s))"
  using assms
  by (simp add: RefreshCommunities_def RuleRepo_GetActive_def GetActiveCommunityRules_def row_bind_def row_query_def
      row_statement_def copy_fresh_def active_rules_def Let_def)

lemma after_change_table:
  "rt_rows (ru_table (snd (after_change env status x s))) = rt_rows (snd x) \<and>
   rt_seq (ru_table (snd (after_change env status x s))) = rt_seq (snd x)"
  by (cases x; cases "fst x") (simp_all add: after_change_def refresh_table)

lemma after_change_fresh:
  assumes "rw_error env = (\<lambda>_. None)" and "copy_fresh (rw_sort env) s"
    and "(\<exists>a. fst x = Returned a) \<or> rt_rows (snd x) = rt_rows (ru_table s)"
  shows "copy_fresh (rw_sort env) (snd (after_change env status x s))"
  using assms(2,3) refresh_fresh[OF assms(1)]
  by (cases x; cases "fst x") (auto simp: after_change_def copy_fresh_def active_rules_def)

text \<open>Without failures a change is answered, or it changed nothing: an update of a rule that is not there.\<close>

lemma quiet_changes:
  assumes "rw_error env = (\<lambda>_. None)"
  shows "(\<exists>a. fst (RuleRepo_Create env rule t) = Returned a) \<or> rt_rows (snd (RuleRepo_Create env rule t)) = rt_rows t"
    "(\<exists>a. fst (RuleRepo_Update env rule t) = Returned a) \<or> rt_rows (snd (RuleRepo_Update env rule t)) = rt_rows t"
    "\<exists>a. fst (DeleteCommunityRuleQ env i t) = Returned a" "\<exists>a. fst (ToggleCommunityRuleQ env i t) = Returned a"
proof -
  note defs = row_bind_def row_query_def row_statement_def row_change_def row_insert_def Let_def mapped_def assms
  let ?row = "(rule_row_of rule)\<lparr>rr_id := rt_seq t + 1, rr_created_at := rw_now env, rr_updated_at := rw_now env\<rparr>"
  have "\<exists>r. find (\<lambda>r. rr_id r = rt_seq t + 1) (rt_rows t @ [?row]) = Some r"
    by (cases "find (\<lambda>r. rr_id r = rt_seq t + 1) (rt_rows t @ [?row])") (auto simp: find_None_iff)
  then show "(\<exists>a. fst (RuleRepo_Create env rule t) = Returned a) \<or> rt_rows (snd (RuleRepo_Create env rule t)) = rt_rows t"
    by (auto simp: RuleRepo_Create_def CreateCommunityRuleQ_def GetCommunityRuleByID_def defs)
  let ?f = "\<lambda>r. if rr_id r = rr_id (rule_row_of rule)
    then (rule_row_of rule)\<lparr>rr_created_at := rr_created_at r, rr_updated_at := rw_now env\<rparr> else r"
  have "map ?f (rt_rows t) = rt_rows t" if none: "find (\<lambda>r. rr_id r = rr_id (rule_row_of rule)) (map ?f (rt_rows t)) = None"
  proof (rule map_idI)
    fix x assume "x \<in> set (rt_rows t)"
    then have "rr_id (?f x) \<noteq> rr_id (rule_row_of rule)" using none unfolding find_None_iff set_map by blast
    then show "?f x = x" by (auto split: if_splits)
  qed
  then show "(\<exists>a. fst (RuleRepo_Update env rule t) = Returned a) \<or> rt_rows (snd (RuleRepo_Update env rule t)) = rt_rows t"
    by (cases "find (\<lambda>r. rr_id r = rr_id (rule_row_of rule)) (map ?f (rt_rows t))")
       (auto simp: RuleRepo_Update_def UpdateCommunityRuleQ_def GetCommunityRuleByID_def defs)
  show "\<exists>a. fst (DeleteCommunityRuleQ env i t) = Returned a" "\<exists>a. fst (ToggleCommunityRuleQ env i t) = Returned a"
    by (simp_all add: DeleteCommunityRuleQ_def ToggleCommunityRuleQ_def defs)
qed

section \<open>Every state\<close>

lemma rules_ok_after: "rules_ok (snd x) \<Longrightarrow> rules_ok (ru_table (snd (after_change env status x s)))"
  using after_change_table rules_ok_same by blast

lemma rule_step_table: "rule_step env s s' \<Longrightarrow> rules_ok (ru_table s) \<Longrightarrow> rules_ok (ru_table s')"
proof (induction rule: rule_step.induct)
  case (rule_refresh s)
  then show ?case using refresh_table rules_ok_same by blast
next
  case (rule_list s)
  then show ?case using rules_ok_reads[OF reads_rules(4), of "ru_table s" env]
    by (auto simp: ListCommunityRules_def split: prod.splits outcome.splits)
next
  case (rule_create s body)
  then show ?case
    by (auto simp: CreateCommunityRule_def split: sum.splits intro!: rules_ok_after rules_ok_Create)
next
  case (rule_update s ident body)
  then show ?case
    by (auto simp: UpdateCommunityRule_def split: sum.splits option.splits intro!: rules_ok_after rules_ok_Update)
next
  case (rule_delete s ident)
  then show ?case by (auto simp: DeleteCommunityRule_def split: option.splits intro!: rules_ok_after rules_ok_Delete)
next
  case (rule_toggle s ident)
  then show ?case by (auto simp: ToggleCommunityRule_def split: option.splits intro!: rules_ok_after rules_ok_Toggle)
next
  case (rule_ask s nodeID)
  then show ?case using rules_ok_reads[OF reads_rules(5), of "ru_table s" env nodeID]
    by (auto simp: Cached_GetActiveRulesForNode_def split: prod.splits option.splits)
qed

lemma rule_reach_table: "rule_reach srt quiet s \<Longrightarrow> rules_ok (ru_table s)"
proof (induction rule: rule_reach.induct)
  case rule_start
  show ?case by (simp add: empty_rule_site_def rules_ok_def)
qed (blast intro: rule_step_table)

lemma reads_rows: "reads f \<Longrightarrow> f t = (r, t') \<Longrightarrow> rt_rows t' = rt_rows t"
  unfolding reads_def by (metis snd_conv)

definition copy_ok :: "((rule_row \<Rightarrow> rule_row \<Rightarrow> bool) \<Rightarrow> rule_row list \<Rightarrow> rule_row list) \<Rightarrow> rule_site \<Rightarrow> bool" where
  "copy_ok srt s \<longleftrightarrow> copy_fresh srt s \<or> (ru_rules s = None \<and> ru_public s = [])"

lemma after_change_copy:
  assumes "rw_error env = (\<lambda>_. None)" and "copy_ok (rw_sort env) s"
    and "(\<exists>a. fst x = Returned a) \<or> rt_rows (snd x) = rt_rows (ru_table s)"
  shows "copy_ok (rw_sort env) (snd (after_change env status x s))"
proof (cases "\<exists>a. fst x = Returned a")
  case True
  then show ?thesis using refresh_fresh[OF assms(1)] by (cases x) (auto simp: after_change_def copy_ok_def)
next
  case False
  then have "rt_rows (snd x) = rt_rows (ru_table s)" using assms(3) by blast
  then show ?thesis using False assms(2)
    by (cases x; cases "fst x") (auto simp: after_change_def copy_ok_def copy_fresh_def active_rules_def)
qed

lemma rule_step_copy:
  assumes "rule_step env s s'" and "rw_error env = (\<lambda>_. None)" and "copy_ok (rw_sort env) s"
  shows "copy_ok (rw_sort env) s'"
  using assms
proof (induction rule: rule_step.induct)
  case (rule_refresh s)
  then show ?case using refresh_fresh by (simp add: copy_ok_def)
next
  case (rule_list s)
  then show ?case
    by (auto simp: ListCommunityRules_def copy_ok_def copy_fresh_def active_rules_def
        split: prod.splits outcome.splits dest: reads_rows[OF reads_rules(4)])
next
  case (rule_create s body)
  then show ?case
    by (auto simp: CreateCommunityRule_def split: sum.splits intro!: after_change_copy) (use quiet_changes(1) in blast)
next
  case (rule_update s ident body)
  then show ?case
    by (auto simp: UpdateCommunityRule_def split: sum.splits option.splits intro!: after_change_copy) (use quiet_changes(2) in blast)
next
  case (rule_delete s ident)
  then show ?case
    by (auto simp: DeleteCommunityRule_def split: option.splits intro!: after_change_copy) (use quiet_changes(3) in simp)
next
  case (rule_toggle s ident)
  then show ?case
    by (auto simp: ToggleCommunityRule_def split: option.splits intro!: after_change_copy) (use quiet_changes(4) in simp)
next
  case (rule_ask s nodeID)
  then show ?case
    by (auto simp: Cached_GetActiveRulesForNode_def copy_ok_def copy_fresh_def active_rules_def
        split: prod.splits option.splits dest: reads_rows[OF reads_rules(5)])
qed

lemma rule_reach_copy: "rule_reach srt True s \<Longrightarrow> copy_ok srt s"
proof (induction rule: rule_reach.induct)
  case rule_start
  show ?case by (simp add: copy_ok_def empty_rule_site_def)
qed (use rule_step_copy in blast)

section \<open>What queries are answered\<close>

lemma map_filter_active:
  "filter (\<lambda>r. cr_active r \<and> (cr_scope r = ''global'' \<or> cr_node_id r = Some nodeID)) (map mapCommunityRule rows) =
   map mapCommunityRule (filter (\<lambda>r. rr_active r = 1 \<and> (rr_scope r = ''global'' \<or> rr_node_id r = Some nodeID)) rows)"
  by (induction rows) (simp_all add: mapCommunityRule_def)

lemma copy_answers:
  assumes "copy_ok srt s" and "slice_sorter srt" and "rw_sort env = srt" and "rw_error env = (\<lambda>_. None)"
  shows "\<exists>rules. fst (Cached_GetActiveRulesForNode env nodeID s) = Returned rules \<and>
    mset rules = image_mset mapCommunityRule (filter_mset
      (\<lambda>r. rr_active r = 1 \<and> (rr_scope r = ''global'' \<or> rr_node_id r = Some nodeID)) (mset (rt_rows (ru_table s))))"
proof (cases "ru_rules s")
  case None
  then show ?thesis
    using slice_sorter.perm[OF assms(2)] assms(3,4)
    by (simp add: Cached_GetActiveRulesForNode_def ActiveCommunityRulesForNode_def RuleRepo_GetActiveRulesForNode_def
        GetActiveCommunityRulesForNode_def row_bind_def row_query_def row_statement_def Let_def)
next
  case (Some rules)
  then have "rules = active_rules srt s"
    using assms(1) by (simp add: copy_ok_def copy_fresh_def)
  let ?P = "\<lambda>r. rr_active r = 1 \<and> (rr_scope r = ''global'' \<or> rr_node_id r = Some nodeID)"
  let ?rows = "rt_rows (ru_table s)"
  have "mset (filter ?P (srt by_community (filter (\<lambda>r. rr_active r = 1) ?rows))) =
      filter_mset ?P (mset (srt by_community (filter (\<lambda>r. rr_active r = 1) ?rows)))" by simp
  also have "\<dots> = mset (filter ?P (filter (\<lambda>r. rr_active r = 1) ?rows))"
    by (simp only: slice_sorter.perm[OF assms(2)] mset_filter)
  also have "\<dots> = filter_mset ?P (mset ?rows)" by (simp add: conj_commute cong: conj_cong flip: mset_filter)
  finally show ?thesis
    using Some \<open>rules = active_rules srt s\<close>
    by (simp add: Cached_GetActiveRulesForNode_def ActiveCommunityRulesForNode_def active_rules_def map_filter_active del: mset_filter)
qed


text \<open>Nobody can make a rule for a node.\<close>

lemma answers_are_global:
  assumes "rule_reach srt True s" and "slice_sorter srt" and "rw_sort env = srt" and "rw_error env = (\<lambda>_. None)"
    and "fst (Cached_GetActiveRulesForNode env nodeID s) = Returned rules" and "rule \<in> set rules"
  shows "cr_scope rule = ''global''"
proof -
  obtain rules' where r: "fst (Cached_GetActiveRulesForNode env nodeID s) = Returned rules'"
      "mset rules' = image_mset mapCommunityRule (filter_mset
        (\<lambda>r. rr_active r = 1 \<and> (rr_scope r = ''global'' \<or> rr_node_id r = Some nodeID)) (mset (rt_rows (ru_table s))))"
    using copy_answers[OF rule_reach_copy[OF assms(1)] assms(2-4)] by blast
  have "rule \<in># mset rules'" using assms(5,6) r(1) by simp
  then obtain row where row: "row \<in> set (rt_rows (ru_table s))" "rr_scope row = ''global'' \<or> rr_node_id row = Some nodeID"
      "rule = mapCommunityRule row"
    unfolding r(2) by auto
  have "rr_node_id row = None"
    using rule_reach_table[OF assms(1)] row(1) by (auto simp: rules_ok_def row_ok_def list_all_iff)
  then show ?thesis using row(2,3) by (simp add: mapCommunityRule_def)
qed

section \<open>A run\<close>

definition sample_rule_env :: rule_env where
  "sample_rule_env = \<lparr>rw_error = (\<lambda>_. None), rw_now = ''now'', rw_sort = slice_insertion_sort\<rparr>"

definition sample_rule :: rule_request where
  "sample_rule = \<lparr>rq_community = ''65000:666'', rq_severity = ''reject'', rq_message_i18n = [], rq_scope = [], rq_active = True\<rparr>"

definition sample_rule_site :: rule_site where
  "sample_rule_site = snd (CreateCommunityRule sample_rule_env (Inr sample_rule) empty_rule_site)"

lemma sample_rule_reach: "rule_reach slice_insertion_sort True sample_rule_site"
  unfolding sample_rule_site_def
  by (rule rule_next[OF rule_start rule_create]) (simp_all add: sample_rule_env_def)


lemma sample_rule_answer:
  "fst (Cached_GetActiveRulesForNode sample_rule_env 7 sample_rule_site) =
     Returned [\<lparr>cr_id = 1, cr_community = ''65000:666'', cr_severity = ''alert'', cr_message_i18n = [], cr_scope = ''global'',
       cr_node_id = None, cr_active = True, cr_created_at = 0, cr_updated_at = 0\<rparr>]"
  by code_simp

section \<open>Otherwise than meant\<close>

text \<open>A rule of the scope \<open>node\<close> is stored without a node and applies to none.\<close>

lemma node_scope_applies_to_none:
  "let s = snd (CreateCommunityRule sample_rule_env (Inr (sample_rule\<lparr>rq_scope := ''node''\<rparr>)) empty_rule_site)
   in fst (Cached_GetActiveRulesForNode sample_rule_env 7 s) = Returned [] \<and> length (ActiveCommunities s) = 1"
  by code_simp

text \<open>An update of a rule that is not there follows a nil pointer.\<close>

lemma update_of_missing_rule_crashes:
  "fst (UpdateCommunityRule sample_rule_env (Some 2) (Inr sample_rule) sample_rule_site) = Crashed"
  by code_simp

end
