(* ===== verification/QuickQueries.thy ===== *)
theory QuickQueries
  imports Statements Target Repos
begin

text \<open>
  The queries visitors are offered: the table (\<open>internal/store/queries/quick_query.sql.go\<close>), the copy in
  memory (\<open>internal/quickqueries/cache.go\<close>) and the handlers (\<open>internal/server/handler/quick_queries.go\<close>).
\<close>

section \<open>The table\<close>

record quick_row =
  qk_id :: int
  qk_command :: string
  qk_name :: string
  qk_target :: string
  qk_node_id :: "int option"
  qk_sort_order :: int
  qk_active :: int
  qk_created_at :: string
  qk_updated_at :: string

text \<open>\<open>qe_node\<close>: whether the table of nodes has an id, or the failure of the statement that asks.\<close>

record quick_env = row_env +
  qe_sort :: "(quick_row \<Rightarrow> quick_row \<Rightarrow> bool) \<Rightarrow> quick_row list \<Rightarrow> quick_row list"
  qe_node :: "int \<Rightarrow> go_error + bool"

definition quick_order :: "quick_row \<Rightarrow> quick_row \<Rightarrow> bool" where
  "quick_order a b \<longleftrightarrow> qk_sort_order a < qk_sort_order b \<or> (qk_sort_order a = qk_sort_order b \<and> qk_id a < qk_id b)"

definition GetAllQuickQueries :: "quick_env \<Rightarrow> (quick_row, quick_row list) row_call" where
  "GetAllQuickQueries env = row_query env (qe_sort env quick_order)"

definition GetActiveQuickQueries :: "quick_env \<Rightarrow> (quick_row, quick_row list) row_call" where
  "GetActiveQuickQueries env = row_query env (\<lambda>rows. qe_sort env quick_order (filter (\<lambda>r. qk_active r = 1) rows))"

definition GetQuickQueryByID :: "quick_env \<Rightarrow> int \<Rightarrow> (quick_row, quick_row option) row_call" where
  "GetQuickQueryByID env i = row_query env (find (\<lambda>r. qk_id r = i))"

definition NextQuickQuerySortOrder :: "quick_env \<Rightarrow> (quick_row, int) row_call" where
  "NextQuickQuerySortOrder env = row_query env (\<lambda>rows. if rows = [] then 1 else Max (set (map qk_sort_order rows)) + 1)"

definition CreateQuickQueryQ :: "quick_env \<Rightarrow> quick_row \<Rightarrow> (quick_row, quick_row option) row_call" where
  "CreateQuickQueryQ env arg =
     row_bind (row_insert env (\<lambda>i. arg\<lparr>qk_id := i, qk_created_at := rw_now env, qk_updated_at := rw_now env\<rparr>))
       (GetQuickQueryByID env)"

definition UpdateQuickQueryQ :: "quick_env \<Rightarrow> quick_row \<Rightarrow> (quick_row, quick_row option) row_call" where
  "UpdateQuickQueryQ env arg =
     row_bind (row_change env (map (\<lambda>r. if qk_id r = qk_id arg
         then arg\<lparr>qk_created_at := qk_created_at r, qk_updated_at := rw_now env\<rparr> else r)))
       (\<lambda>_. GetQuickQueryByID env (qk_id arg))"

definition DeleteQuickQueryQ :: "quick_env \<Rightarrow> int \<Rightarrow> (quick_row, unit) row_call" where
  "DeleteQuickQueryQ env i = row_change env (filter (\<lambda>r. qk_id r \<noteq> i))"

definition ToggleQuickQueryQ :: "quick_env \<Rightarrow> int \<Rightarrow> (quick_row, unit) row_call" where
  "ToggleQuickQueryQ env i = row_change env (map (\<lambda>r. if qk_id r = i
     then r\<lparr>qk_active := flip_active (qk_active r), qk_updated_at := rw_now env\<rparr> else r))"

section \<open>The copy in memory\<close>

definition mapQueryNodeID :: "quick_row \<Rightarrow> int option" where
  "mapQueryNodeID r = (case qk_node_id r of None \<Rightarrow> None | Some n \<Rightarrow> if n \<le> 0 then None else Some n)"

definition mapQuery :: "quick_row \<Rightarrow> quick_query" where
  "mapQuery r =
     \<lparr>qq_id = qk_id r, qq_command = qk_command r, qq_name = qk_name r, qq_target = qk_target r, qq_node_id = mapQueryNodeID r,
      qq_sort_order = qk_sort_order r, qq_active = (qk_active r = 1)\<rparr>"

record quick_site =
  qs_table :: "quick_row row_table"
  qs_cached :: "quick_query list"

definition quick_refresh :: "quick_env \<Rightarrow> quick_site \<Rightarrow> quick_site" where
  "quick_refresh env s =
     (case GetAllQuickQueries env (qs_table s) of
        (Returned rows, t) \<Rightarrow> s\<lparr>qs_table := t, qs_cached := map mapQuery rows\<rparr>
      | (_, t) \<Rightarrow> s\<lparr>qs_table := t\<rparr>)"

definition quick_active :: "quick_site \<Rightarrow> quick_query list" where
  "quick_active s = filter qq_active (qs_cached s)"

section \<open>Handlers\<close>

definition validQuickQueryCommands :: "string list" where
  "validQuickQueryCommands = [CmdPing, CmdTraceroute, CmdBGPRoute]"

definition validQuickQueryTarget :: "string \<Rightarrow> string \<Rightarrow> bool" where
  "validQuickQueryTarget command raw =
     (let tgt = trim_space raw in
      if tgt = [] then False
      else if command = CmdPing \<or> command = CmdTraceroute then parse_ip tgt \<noteq> None
      else if command = CmdBGPRoute then
        (if parse_ip tgt \<noteq> None then True else if contains_str tgt ''/'' then parse_cidr tgt \<noteq> None else False)
      else False)"

definition ListPublicQuickQueries :: "quick_site \<Rightarrow> quick_query list reply" where
  "ListPublicQuickQueries s = Reply 200 (quick_active s)"

definition ListQuickQueries :: "quick_site \<Rightarrow> quick_query list reply" where
  "ListQuickQueries s = Reply 200 (qs_cached s)"

definition zero_quick :: quick_query where
  "zero_quick = \<lparr>qq_id = 0, qq_command = [], qq_name = [], qq_target = [], qq_node_id = None, qq_sort_order = 0, qq_active = False\<rparr>"

definition mapQuickQuery :: "quick_row option \<Rightarrow> quick_query" where
  "mapQuickQuery p = (case p of None \<Rightarrow> zero_quick | Some r \<Rightarrow> mapQuery r)"

definition quickQueryNodeIDFromRequest :: "quick_env \<Rightarrow> int option \<Rightarrow> string + int option" where
  "quickQueryNodeIDFromRequest env nodeID =
     (case nodeID of
        None \<Rightarrow> Inr None
      | Some n \<Rightarrow>
          if n \<le> 0 then Inr None
          else (case qe_node env n of
             Inl err \<Rightarrow> Inl (sanitizeError err)
           | Inr known \<Rightarrow> if known then Inr (Some n) else Inl ''node not found''))"

record quick_request =
  qu_command :: string
  qu_name :: string
  qu_target :: string
  qu_node_id :: "int option"
  qu_active :: "bool option"

text \<open>The checks both handlers make: the row without its id and order, or the refusal.\<close>

definition check_quick_request :: "quick_request \<Rightarrow> string + quick_row" where
  "check_quick_request req =
     (let command = trim_space (qu_command req); name = trim_space (qu_name req); tgt = trim_space (qu_target req) in
      if command \<notin> set validQuickQueryCommands then Inl ''invalid command''
      else if name = [] then Inl ''name is required''
      else if \<not> validQuickQueryTarget command tgt then Inl ''invalid target''
      else Inr \<lparr>qk_id = 0, qk_command = command, qk_name = name, qk_target = tgt, qk_node_id = None, qk_sort_order = 0,
        qk_active = 0, qk_created_at = [], qk_updated_at = []\<rparr>)"

definition quick_after ::
  "quick_env \<Rightarrow> nat \<Rightarrow> quick_row option outcome \<times> quick_row row_table \<Rightarrow> quick_site \<Rightarrow> quick_query reply \<times> quick_site" where
  "quick_after env status x s =
     (case x of
        (Returned p, t) \<Rightarrow> (Reply status (mapQuickQuery p), quick_refresh env (s\<lparr>qs_table := t\<rparr>))
      | (Failed err, t) \<Rightarrow> (internal_error err, s\<lparr>qs_table := t\<rparr>)
      | (Panicked, t) \<Rightarrow> (Crashed, s\<lparr>qs_table := t\<rparr>))"

definition CreateQuickQuery ::
  "quick_env \<Rightarrow> string + quick_request \<Rightarrow> quick_site \<Rightarrow> quick_query reply \<times> quick_site" where
  "CreateQuickQuery env body s =
     (case body of
        Inl msg \<Rightarrow> (Refused 400 msg, s)
      | Inr req \<Rightarrow>
          (case check_quick_request req of
             Inl msg \<Rightarrow> (Refused 400 msg, s)
           | Inr row \<Rightarrow>
               (case NextQuickQuerySortOrder env (qs_table s) of
                  (Returned sortOrder, t) \<Rightarrow>
                    (case quickQueryNodeIDFromRequest env (qu_node_id req) of
                       Inl msg \<Rightarrow> (Refused 400 msg, s\<lparr>qs_table := t\<rparr>)
                     | Inr nodeID \<Rightarrow>
                         quick_after env 201 (CreateQuickQueryQ env (row\<lparr>qk_node_id := nodeID, qk_sort_order := sortOrder,
                           qk_active := boolToInt (case qu_active req of None \<Rightarrow> True | Some b \<Rightarrow> b)\<rparr>) t) s)
                | (Failed err, t) \<Rightarrow> (internal_error err, s\<lparr>qs_table := t\<rparr>)
                | (Panicked, t) \<Rightarrow> (Crashed, s\<lparr>qs_table := t\<rparr>))))"

text \<open>In an update a missing \<open>active\<close> is false.\<close>

definition UpdateQuickQuery ::
  "quick_env \<Rightarrow> int option \<Rightarrow> string + quick_request \<Rightarrow> quick_site \<Rightarrow> quick_query reply \<times> quick_site" where
  "UpdateQuickQuery env ident body s =
     (case ident of
        None \<Rightarrow> (Refused 400 ''invalid id'', s)
      | Some i \<Rightarrow>
          if i \<le> 0 then (Refused 400 ''invalid id'', s)
          else (case body of
             Inl msg \<Rightarrow> (Refused 400 msg, s)
           | Inr req \<Rightarrow>
               (case check_quick_request req of
                  Inl msg \<Rightarrow> (Refused 400 msg, s)
                | Inr row \<Rightarrow>
                    (case GetQuickQueryByID env i (qs_table s) of
                       (Returned None, t) \<Rightarrow> (Refused 404 ''not found'', s\<lparr>qs_table := t\<rparr>)
                     | (Returned (Some old), t) \<Rightarrow>
                         (case quickQueryNodeIDFromRequest env (qu_node_id req) of
                            Inl msg \<Rightarrow> (Refused 400 msg, s\<lparr>qs_table := t\<rparr>)
                          | Inr nodeID \<Rightarrow>
                              quick_after env 200 (UpdateQuickQueryQ env (row\<lparr>qk_id := i, qk_node_id := nodeID,
                                qk_sort_order := qk_sort_order old, qk_active := boolToInt (qu_active req = Some True)\<rparr>) t) s)
                     | (Failed err, t) \<Rightarrow> (internal_error err, s\<lparr>qs_table := t\<rparr>)
                     | (Panicked, t) \<Rightarrow> (Crashed, s\<lparr>qs_table := t\<rparr>)))))"

definition DeleteQuickQuery :: "quick_env \<Rightarrow> int option \<Rightarrow> quick_site \<Rightarrow> unit reply \<times> quick_site" where
  "DeleteQuickQuery env ident s =
     (case ident of
        None \<Rightarrow> (Refused 400 ''invalid id'', s)
      | Some i \<Rightarrow>
          if i \<le> 0 then (Refused 400 ''invalid id'', s)
          else (case DeleteQuickQueryQ env i (qs_table s) of
             (Returned _, t) \<Rightarrow> (Reply 200 (), quick_refresh env (s\<lparr>qs_table := t\<rparr>))
           | (Failed err, t) \<Rightarrow> (internal_error err, s\<lparr>qs_table := t\<rparr>)
           | (Panicked, t) \<Rightarrow> (Crashed, s\<lparr>qs_table := t\<rparr>)))"

text \<open>Without a row to show the answer has no content, the status 204.\<close>

definition ToggleQuickQuery :: "quick_env \<Rightarrow> int option \<Rightarrow> quick_site \<Rightarrow> quick_query option reply \<times> quick_site" where
  "ToggleQuickQuery env ident s =
     (case ident of
        None \<Rightarrow> (Refused 400 ''invalid id'', s)
      | Some i \<Rightarrow>
          if i \<le> 0 then (Refused 400 ''invalid id'', s)
          else (case ToggleQuickQueryQ env i (qs_table s) of
             (Returned _, t) \<Rightarrow>
               (let s1 = quick_refresh env (s\<lparr>qs_table := t\<rparr>) in
                case GetQuickQueryByID env i (qs_table s1) of
                  (Returned (Some r), t1) \<Rightarrow> (Reply 200 (Some (mapQuery r)), s1\<lparr>qs_table := t1\<rparr>)
                | (_, t1) \<Rightarrow> (Reply 204 None, s1\<lparr>qs_table := t1\<rparr>))
           | (Failed err, t) \<Rightarrow> (internal_error err, s\<lparr>qs_table := t\<rparr>)
           | (Panicked, t) \<Rightarrow> (Crashed, s\<lparr>qs_table := t\<rparr>)))"

text \<open>The rows the migrations leave, and the copy the start of the server reads.\<close>

definition seed_quick :: "int \<Rightarrow> string \<Rightarrow> string \<Rightarrow> string \<Rightarrow> quick_row" where
  "seed_quick i command name tgt =
     \<lparr>qk_id = i, qk_command = command, qk_name = name, qk_target = tgt, qk_node_id = None, qk_sort_order = i, qk_active = 1,
      qk_created_at = [], qk_updated_at = []\<rparr>"

definition seeded_quick :: quick_site where
  "seeded_quick =
     \<lparr>qs_table = \<lparr>rt_rows = [seed_quick 1 ''ping'' ''Cloudflare'' ''1.1.1.1'', seed_quick 2 ''traceroute'' ''VALVE'' ''146.66.155.1'',
        seed_quick 3 ''bgp_route'' ''Google'' ''8.8.8.8''], rt_seq = 3, rt_statements = 0\<rparr>, qs_cached = []\<rparr>"

end
