(* ===== verification/QuickQueriesRun.thy ===== *)
theory QuickQueriesRun
  imports QuickQueries
begin

text \<open>
  What visitors are offered in every state the handlers can reach, also where statements fail.
\<close>

section \<open>Steps\<close>

inductive quick_step :: "quick_env \<Rightarrow> quick_site \<Rightarrow> quick_site \<Rightarrow> bool" for env where
  quick_load: "quick_step env s (quick_refresh env s)"
| quick_create: "quick_step env s (snd (CreateQuickQuery env body s))"
| quick_update: "quick_step env s (snd (UpdateQuickQuery env ident body s))"
| quick_delete: "quick_step env s (snd (DeleteQuickQuery env ident s))"
| quick_toggle: "quick_step env s (snd (ToggleQuickQuery env ident s))"

inductive quick_reach :: "((quick_row \<Rightarrow> quick_row \<Rightarrow> bool) \<Rightarrow> quick_row list \<Rightarrow> quick_row list) \<Rightarrow> quick_site \<Rightarrow> bool"
  for srt where
  quick_start: "quick_reach srt seeded_quick"
| quick_next: "quick_reach srt s \<Longrightarrow> quick_step env s s' \<Longrightarrow> qe_sort env = srt \<Longrightarrow> quick_reach srt s'"

section \<open>Rows and what is made of them\<close>

definition offer_ok :: "string \<Rightarrow> string \<Rightarrow> string \<Rightarrow> bool" where
  "offer_ok command name tgt \<longleftrightarrow>
     command \<in> set validQuickQueryCommands \<and> trim_space name \<noteq> [] \<and> validQuickQueryTarget command tgt"

definition quick_row_ok :: "quick_row \<Rightarrow> bool" where
  "quick_row_ok r \<longleftrightarrow> offer_ok (qk_command r) (qk_name r) (qk_target r)"

definition quick_query_ok :: "quick_query \<Rightarrow> bool" where
  "quick_query_ok q \<longleftrightarrow> offer_ok (qq_command q) (qq_name q) (qq_target q)"

definition quick_table_ok :: "quick_row row_table \<Rightarrow> bool" where
  "quick_table_ok t \<longleftrightarrow> list_all quick_row_ok (rt_rows t) \<and> distinct (map qk_id (rt_rows t)) \<and>
     list_all (\<lambda>r. 0 < qk_id r \<and> qk_id r \<le> rt_seq t) (rt_rows t) \<and> 0 \<le> rt_seq t"

lemma check_quick_request_ok: "check_quick_request req = Inr row \<Longrightarrow> quick_row_ok row"
  by (auto simp: check_quick_request_def quick_row_ok_def offer_ok_def Let_def split: if_splits)

lemma quick_row_ok_fields [simp]:
  "quick_row_ok (r\<lparr>qk_id := i\<rparr>) = quick_row_ok r" "quick_row_ok (r\<lparr>qk_node_id := n\<rparr>) = quick_row_ok r"
  "quick_row_ok (r\<lparr>qk_sort_order := k\<rparr>) = quick_row_ok r" "quick_row_ok (r\<lparr>qk_active := a\<rparr>) = quick_row_ok r"
  "quick_row_ok (r\<lparr>qk_created_at := x\<rparr>) = quick_row_ok r" "quick_row_ok (r\<lparr>qk_updated_at := x\<rparr>) = quick_row_ok r"
  by (simp_all add: quick_row_ok_def)

lemma quick_table_same: "rt_rows t' = rt_rows t \<and> rt_seq t' = rt_seq t \<Longrightarrow> quick_table_ok t \<Longrightarrow> quick_table_ok t'"
  by (simp add: quick_table_ok_def)

lemma reads_quick [simp]:
  "reads (GetQuickQueryByID env i)" "reads (GetAllQuickQueries env)" "reads (NextQuickQuerySortOrder env)"
  by (simp_all add: GetQuickQueryByID_def GetAllQuickQueries_def NextQuickQuerySortOrder_def)

lemma quick_table_reads: "reads f \<Longrightarrow> f t = (r, t') \<Longrightarrow> quick_table_ok t \<Longrightarrow> quick_table_ok t'"
  unfolding reads_def by (metis quick_table_same snd_conv)

lemma quick_table_change:
  assumes "quick_table_ok t" and "quick_table_ok (t\<lparr>rt_rows := f (rt_rows t)\<rparr>)" shows "quick_table_ok (snd (row_change env f t))"
  using row_change_effect[of env f t] assms by (auto simp: quick_table_ok_def)

lemma quick_table_map:
  assumes "quick_table_ok t" and "\<And>r. quick_row_ok r \<Longrightarrow> quick_row_ok (g r)" and "\<And>r. qk_id (g r) = qk_id r"
  shows "quick_table_ok (t\<lparr>rt_rows := map g (rt_rows t)\<rparr>)"
  using assms by (auto simp: quick_table_ok_def list_all_iff comp_def)

lemma quick_table_Create:
  assumes "quick_table_ok t" and "quick_row_ok arg" shows "quick_table_ok (snd (CreateQuickQueryQ env arg t))"
proof -
  let ?row = "\<lambda>i. arg\<lparr>qk_id := i, qk_created_at := rw_now env, qk_updated_at := rw_now env\<rparr>"
  have "quick_table_ok (snd (row_insert env ?row t))"
    using row_insert_effect[of env ?row t] assms by (fastforce simp: quick_table_ok_def list_all_iff)
  then show ?thesis unfolding CreateQuickQueryQ_def by (rule quick_table_same[rotated]) (simp add: bind_reads)
qed

lemma quick_table_Update:
  assumes "quick_table_ok t" and "quick_row_ok arg" shows "quick_table_ok (snd (UpdateQuickQueryQ env arg t))"
proof -
  let ?f = "map (\<lambda>r. if qk_id r = qk_id arg then arg\<lparr>qk_created_at := qk_created_at r, qk_updated_at := rw_now env\<rparr> else r)"
  have "quick_table_ok (snd (row_change env ?f t))"
    by (rule quick_table_change[OF assms(1)], rule quick_table_map[OF assms(1)]) (use assms(2) in auto)
  then show ?thesis unfolding UpdateQuickQueryQ_def by (rule quick_table_same[rotated]) (simp add: bind_reads)
qed

lemma quick_table_Delete: "quick_table_ok t \<Longrightarrow> quick_table_ok (snd (DeleteQuickQueryQ env i t))"
  unfolding DeleteQuickQueryQ_def
  by (rule quick_table_change) (auto simp: quick_table_ok_def list_all_iff distinct_map_filter)

lemma quick_table_Toggle: "quick_table_ok t \<Longrightarrow> quick_table_ok (snd (ToggleQuickQueryQ env i t))"
  unfolding ToggleQuickQueryQ_def by (rule quick_table_change, assumption, rule quick_table_map) auto

section \<open>Every state\<close>

definition quick_inv :: "quick_site \<Rightarrow> bool" where
  "quick_inv s \<longleftrightarrow> quick_table_ok (qs_table s) \<and> list_all quick_query_ok (qs_cached s)"

lemma quick_refresh_inv:
  assumes "quick_inv s" and "slice_sorter (qe_sort env)" shows "quick_inv (quick_refresh env s)"
proof -
  obtain r t where g: "GetAllQuickQueries env (qs_table s) = (r, t)" by fastforce
  have table: "quick_table_ok t" by (rule quick_table_reads[OF reads_quick(2) g]) (use assms(1) in \<open>simp add: quick_inv_def\<close>)
  have "list_all quick_query_ok (map mapQuery rows)" if "r = Returned rows" for rows
  proof -
    have "rows = qe_sort env quick_order (rt_rows (qs_table s))"
      by (rule row_query_Returned[OF g[unfolded that GetAllQuickQueries_def]])
    then have "set rows = set (rt_rows (qs_table s))" using slice_sorter.srt_set[OF assms(2)] by simp
    then show ?thesis using assms(1)
      by (auto simp: quick_inv_def quick_table_ok_def list_all_iff quick_row_ok_def quick_query_ok_def mapQuery_def)
  qed
  then show ?thesis using assms(1) table by (cases r) (simp_all add: quick_refresh_def g quick_inv_def)
qed

lemma quick_inv_table: "quick_inv s \<Longrightarrow> quick_table_ok t \<Longrightarrow> quick_inv (s\<lparr>qs_table := t\<rparr>)"
  by (simp add: quick_inv_def)

lemma quick_after_inv:
  assumes "quick_inv s" and "slice_sorter (qe_sort env)" and "quick_table_ok (snd x)"
  shows "quick_inv (snd (quick_after env status x s))"
  using quick_refresh_inv[OF quick_inv_table[OF assms(1,3)] assms(2)] quick_inv_table[OF assms(1,3)]
  by (cases x; cases "fst x") (auto simp: quick_after_def)

lemma quick_step_inv:
  assumes "quick_step env s s'" and "quick_inv s" and "slice_sorter (qe_sort env)"
  shows "quick_inv s'"
  using assms
proof (induction rule: quick_step.induct)
  case (quick_load s)
  then show ?case by (simp add: quick_refresh_inv)
next
  case (quick_create s body)
  have t: "quick_table_ok (qs_table s)" using quick_create(1) by (simp add: quick_inv_def)
  show ?case
    using quick_create quick_table_reads[OF reads_quick(3) _ t]
    by (auto simp: CreateQuickQuery_def split: sum.splits prod.splits outcome.splits
        intro!: quick_after_inv quick_table_Create quick_inv_table dest: check_quick_request_ok)
next
  case (quick_update s ident body)
  have t: "quick_table_ok (qs_table s)" using quick_update(1) by (simp add: quick_inv_def)
  show ?case
    using quick_update quick_table_reads[OF reads_quick(1) _ t]
    by (auto simp: UpdateQuickQuery_def split: sum.splits prod.splits outcome.splits option.splits
        intro!: quick_after_inv quick_table_Update quick_inv_table dest: check_quick_request_ok)
next
  case (quick_delete s ident)
  have t: "quick_table_ok (snd (DeleteQuickQueryQ env i (qs_table s)))" for i
    using quick_delete(1) by (simp add: quick_inv_def quick_table_Delete)
  show ?case
    using quick_delete t
    by (auto simp: DeleteQuickQuery_def split: prod.splits outcome.splits option.splits intro!: quick_refresh_inv quick_inv_table)
       (metis snd_conv)+
next
  case (quick_toggle s ident)
  have t: "quick_table_ok t1" if "ToggleQuickQueryQ env i (qs_table s) = (r, t1)" for i r t1
    using quick_toggle(1) quick_table_Toggle[of "qs_table s" env i] that by (simp add: quick_inv_def)
  have shown: "quick_inv (s1\<lparr>qs_table := t2\<rparr>)" if "quick_inv s1" "GetQuickQueryByID env i (qs_table s1) = (r, t2)" for s1 i r t2
    by (rule quick_inv_table[OF that(1)], rule quick_table_reads[OF reads_quick(1) that(2)]) (use that(1) in \<open>simp add: quick_inv_def\<close>)
  show ?case
  proof (cases "\<exists>i. ident = Some i \<and> 0 < i")
    case True
    then obtain i where i: "ident = Some i" "0 < i" by blast
    obtain r t1 where 1: "ToggleQuickQueryQ env i (qs_table s) = (r, t1)" by fastforce
    have inv1: "quick_inv (s\<lparr>qs_table := t1\<rparr>)" by (rule quick_inv_table[OF quick_toggle(1) t[OF 1]])
    let ?s1 = "quick_refresh env (s\<lparr>qs_table := t1\<rparr>)"
    obtain r2 t2 where 2: "GetQuickQueryByID env i (qs_table ?s1) = (r2, t2)" by fastforce
    have "quick_inv (?s1\<lparr>qs_table := t2\<rparr>)" by (rule shown[OF quick_refresh_inv[OF inv1 quick_toggle(2)] 2])
    then show ?thesis using i inv1
      by (cases r) (auto simp: ToggleQuickQuery_def 1 2 Let_def split: outcome.splits option.splits)
  next
    case False
    then show ?thesis using quick_toggle(1) by (auto simp: ToggleQuickQuery_def split: option.splits)
  qed
qed

lemma quick_reach_inv: "quick_reach srt s \<Longrightarrow> slice_sorter srt \<Longrightarrow> quick_inv s"
proof (induction rule: quick_reach.induct)
  case quick_start
  have "list_all quick_row_ok (rt_rows (qs_table seeded_quick))" by code_simp
  then show ?case by (simp add: quick_inv_def quick_table_ok_def seeded_quick_def seed_quick_def)
qed (blast intro: quick_step_inv)

text \<open>C39: Whatever administrators create, change, delete and switch on or off, and whichever statements fail,
  a query that visitors are offered is one of the three commands for a literal address, or for a prefix
  where routes are looked up: none needs a name to be resolved.\<close>

theorem offered_queries_valid:
  assumes "quick_reach srt s" and "slice_sorter srt" and "q \<in> set (quick_active s)"
  shows "qq_command q \<in> {CmdPing, CmdTraceroute, CmdBGPRoute} \<and>
    (parse_ip (trim_space (qq_target q)) \<noteq> None \<or>
     (qq_command q = CmdBGPRoute \<and> parse_cidr (trim_space (qq_target q)) \<noteq> None))"
proof -
  have "quick_query_ok q"
    using quick_reach_inv[OF assms(1,2)] assms(3) by (auto simp: quick_inv_def quick_active_def list_all_iff)
  then show ?thesis
    by (auto simp: quick_query_ok_def offer_ok_def validQuickQueryCommands_def validQuickQueryTarget_def Let_def cmd_defs split: if_splits)
qed

section \<open>A run\<close>

definition sample_quick_env :: quick_env where
  "sample_quick_env = \<lparr>rw_error = (\<lambda>_. None), rw_now = ''now'', qe_sort = slice_insertion_sort, qe_node = (\<lambda>_. Inr True)\<rparr>"

definition sample_quick_site :: quick_site where "sample_quick_site = quick_refresh sample_quick_env seeded_quick"

lemma sample_quick_offer: "map qq_target (quick_active sample_quick_site) = [''1.1.1.1'', ''146.66.155.1'', ''8.8.8.8'']"
  by code_simp

lemma offered_queries_valid_witness:
  "qq_command (hd (quick_active sample_quick_site)) \<in> {CmdPing, CmdTraceroute, CmdBGPRoute}"
proof -
  have "quick_reach slice_insertion_sort sample_quick_site"
    unfolding sample_quick_site_def by (rule quick_next[OF quick_start quick_load]) (simp add: sample_quick_env_def)
  moreover have "hd (quick_active sample_quick_site) \<in> set (quick_active sample_quick_site)"
    using sample_quick_offer by (intro hd_in_set) auto
  ultimately show ?thesis using offered_queries_valid[OF _ gs.slice_sorter_axioms] by blast
qed

section \<open>Otherwise than meant\<close>

text \<open>A query for a blocked address is accepted and offered, and refused when a visitor sends it.\<close>

lemma blocked_address_is_offered:
  "map qq_target (quick_active (snd (CreateQuickQuery sample_quick_env
     (Inr \<lparr>qu_command = ''ping'', qu_name = ''self'', qu_target = ''127.0.0.1'', qu_node_id = None, qu_active = None\<rparr>) sample_quick_site)))
   = [''1.1.1.1'', ''146.66.155.1'', ''8.8.8.8'', ''127.0.0.1'']"
  "ValidateQueryTarget dns CmdPing ''127.0.0.1'' = Inl ErrInvalidTarget"
  by code_simp+

end
