(* ===== verification/Spec2Isabelle.thy ===== *)
theory Spec2Isabelle
  imports CircuitBreaker Target RateLimiter AuthGuards QueryStream RouteQuery Geo_Settings Engine SessionLookup Updater Panel SettingsRun SubmitRun ParserExamples AgentLinkRun AgentTools AccountsRun GeoUpdaterRun CommunityRulesRun QuickQueriesRun
begin

text \<open>
  HopStat is a BGP looking glass: visitors submit a ping, a traceroute or a route lookup for a target,
  the query runs on a node, and its output is streamed back. This library models the server written in Go
  under \<open>internal/\<close> and proves what makes it correct. Every theory names the files it translates; each
  definition carries the name of the function it models, with a suffix where HOL has the name.

  \<^bold>\<open>How the program works.\<close> \<open>SubmitQuery\<close> checks a request (rate limit, Turnstile token, node, target),
  puts an entry into the query store and starts a goroutine; the engine in it validates the target again,
  takes a place in the pool, and runs the driver of the node's type: the standalone driver starts tools of
  this machine, the remote driver calls the agent of another. Lines go into the store as they appear, the
  result at the end; \<open>StreamResult\<close> follows the store. Route lookups are answered from the embedded BGP
  speaker where the node has sessions: the session manager mirrors the neighbours of the database in
  GoBGP, and the decision process marks the best path. The panel administers nodes, neighbours and
  settings; GeoIP names the AS of an address; the updater replaces the running binary.

  \<^bold>\<open>The theories.\<close>
  \<^item> The Go standard library, as far as it is used: \<open>Go_Base\<close> (scalars, errors with their wrap chain, time),
    \<open>Go_Strings\<close>, \<open>Go_Text\<close>, \<open>Go_Fields\<close>, \<open>Go_Duration\<close>, \<open>Go_Net\<close> (\<open>ParseIP\<close>, \<open>ParseCIDR\<close>, \<open>IP.String\<close>),
    \<open>Go_Regexp\<close>, \<open>Go_Sort\<close>, \<open>Http_Reply\<close>. The data of \<open>internal/domain\<close> is in \<open>Domain\<close>.
  \<^item> Guards: \<open>CircuitBreaker\<close>, \<open>RateLimiter\<close>, \<open>AuthGuards\<close> (login bans, revoked sessions, middlewares),
    \<open>Target\<close> (which addresses may be reached), \<open>Turnstile\<close>.
  \<^item> Queries: \<open>QueryStore\<close>, \<open>QueryStream\<close>, \<open>Engine_Base\<close>, \<open>Engine\<close>, \<open>TracerouteLines\<close>, \<open>Submit\<close>, \<open>SubmitRun\<close>.
  \<^item> Tools and remote nodes: \<open>Parser\<close>, \<open>ParserVendors\<close>, \<open>ParserRun\<close>, \<open>ParserExamples\<close>,
    \<open>StandaloneDriver\<close>, \<open>StandaloneRun\<close>, \<open>AgentLink\<close>, \<open>AgentLinkRun\<close>, \<open>AgentTools\<close> (the agent's own process).
  \<^item> BGP: \<open>BestPath\<close>, \<open>RouteQuery\<close>, \<open>SessionLog\<close>, \<open>Sessions\<close>, \<open>SessionRegistry\<close>, \<open>SessionPeers\<close>, \<open>SessionLookup\<close>.
  \<^item> GeoIP: \<open>Geo_Names\<close>, \<open>GeoIP\<close>, \<open>Geo_Settings\<close>, \<open>GeoUpdater\<close>, \<open>GeoUpdaterRun\<close> (the download loop).
  \<^item> Administration: \<open>Credentials\<close>, \<open>Database\<close>, \<open>Repos\<close>, \<open>NodeAPI\<close>, \<open>NeighborAPI\<close>, \<open>PanelRun\<close>,
    \<open>PanelInvariant\<close>, \<open>Panel\<close>, \<open>LogoUpload\<close>, \<open>SiteSettings\<close>, \<open>SettingsRun\<close>, \<open>Versions\<close>, \<open>Updater\<close>,
    \<open>Accounts\<close>, \<open>AccountsRun\<close> (users, login, first password), \<open>Statements\<close>, \<open>CommunityRules\<close>, \<open>CommunityRulesRun\<close>,
    \<open>QuickQueries\<close>, \<open>QuickQueriesRun\<close>.

  \<^bold>\<open>How state and effects are modelled.\<close> A struct is a record, an operation a function from state to state
  and result; what runs under a lock is one step, and what other goroutines can do in between is another
  step. Reachability is an inductive relation over those steps (breaker, store and stream, session
  manager, panel, settings, account, rules and quick queries), and invariants are proved by its induction. An error is a value of
  \<open>go_error\<close>; \<open>Inl\<close> and \<open>None\<close> are the early returns. Strings are lists of bytes, a \<open>uint32\<close> is a 32-bit
  word, a time is an integer of nanoseconds; a \<open>float64\<close> is a 64-bit pattern without arithmetic of its own.
  The order in which a map is visited is an argument.

  \<^bold>\<open>Interfaces.\<close> Locales state what a client relies on and are interpreted on the code's definitions:
  the sliding window behind HTTP, engine and login limits, the index of neighbours by node, the lines a
  stream may only append to, the preference of one path over another and the marking of groups by it, the
  contract of \<open>sort.Slice\<close>.

  \<^bold>\<open>What is shown.\<close> Safety of targets: blocked addresses are characterised by their prefixes, validated
  targets, redirects, dialled agents and started commands respect them. Refinement: the session manager is a
  table of neighbours, the event log the end of a history, a remote ping is the ping of the agent's
  machine. Protocols: a stream sends its lines once and in order and then the final result, a wake-up is
  not lost, a final result stays, a published query keeps what the engine answered. The decision process
  is a total order whose greatest path is marked. The window and the pool keep their bounds, bans
  hold, one probe runs in the half-open state. In every reachable panel the sessions have rows, the peers
  are valid and there is at most one default node; answers hide secrets. An update installs only what
  its digest verifies, a GeoIP database is never a part of a download. A session ends with its logout, and the
  credentials a start shows open one. The copies of tables in memory answer as the tables do. Texts are read back: addresses, AS paths, tokens, hops. The last section of several
  theories shows a run or an input that the code treats otherwise than its comments or its purpose say.

  \<^bold>\<open>Bounds and fuel.\<close> The star of a regular expression runs for as many rounds as the text has bytes,
  each of which takes at least one, so none is cut off. The wait for the AS path ends after its turns
  because every turn moves the clock; the proof is a property of its own. Counters of calls are 64-bit
  words: the breaker's statements hold for fewer than \<open>2^64\<close> calls. All other loops recurse on their
  data.

  \<^bold>\<open>What is not modelled.\<close> GoBGP, SQLite, the resolver, HTTP, JSON, AES-GCM, SHA-256, MaxMind readers and
  processes are arguments of the definitions that use them. Left out: program start, configuration
  files, routing and page metadata, migrations, the table of audit entries, host statistics, link
  previews and the web frontend. A handler of the panel runs without another in between.
\<close>

end
